(* ===== verification/Prelude.thy ===== *)
theory Prelude
  imports Complex_Main "HOL-Library.Log_Nat" "HOL-Library.Sublist"
begin

text \<open>
  The prelude of the Auditarr development: the part of Python the sources rely on (values,
  truthiness, equality, membership, string methods, number conversion, exceptions as values),
  and the generic list, option and table lemmas every component shares.

  Strings are \<^typ>\<open>string\<close>s holding UTF-8: an ASCII character is itself, any other code
  point is the sequence of its UTF-8 bytes.  Length in code points is \<open>py_len\<close>.  The case
  and white-space functions act on the ASCII range, so a string that differs only in the case of
  a non-ASCII letter, or that is padded with non-ASCII blanks, is outside what they fold.

  Floats are IEEE doubles: a finite one is the rational it denotes (\<open>Fin\<close>), and the
  conversion from Python's unbounded integers rounds to 53 significant bits, half to even.
\<close>

named_theorems py_simps \<open>evaluation rules of the Python value model\<close>
named_theorems table_simps \<open>laws of the keyed tables\<close>

section \<open>Exceptions as values\<close>

datatype pyerr =
    TypeError
  | ValueError
  | OverflowError
  | KeyError
  | OSError
  | ValidationError string
  | AuthenticationError string
  | ConflictError string
  | NotFoundError string
  | AuthorizationError string
  | RateLimitError int
  | AttributeError
  | ImportError
  | LookupError
  | IntegrityError
  | RuntimeError string
  | MissingGreenlet

type_synonym 'a result = "pyerr + 'a"

definition bind_r :: "'a result \<Rightarrow> ('a \<Rightarrow> 'b result) \<Rightarrow> 'b result" where
  "bind_r m f = (case m of Inl e \<Rightarrow> Inl e | Inr x \<Rightarrow> f x)"

lemma bind_r_simps [simp, py_simps]:
  "bind_r (Inl e) f = Inl e"
  "bind_r (Inr x) f = f x"
  by (simp_all add: bind_r_def)

lemma bind_r_Inr_iff: "bind_r m f = Inr y \<longleftrightarrow> (\<exists>x. m = Inr x \<and> f x = Inr y)"
  by (cases m) auto

definition is_ok :: "'a result \<Rightarrow> bool" where
  "is_ok r = (case r of Inl _ \<Rightarrow> False | Inr _ \<Rightarrow> True)"

lemma is_ok_simps [simp, py_simps]: "is_ok (Inl e) = False" "is_ok (Inr x) = True"
  by (simp_all add: is_ok_def)

lemma is_ok_iff: "is_ok r \<longleftrightarrow> (\<exists>x. r = Inr x)"
  by (cases r) auto

text \<open>The builtins \<open>all\<close> and \<open>any\<close> over a generator: they stop at the first
  deciding element, and an exception of an element they reach escapes.\<close>

fun all_r :: "('a \<Rightarrow> bool result) \<Rightarrow> 'a list \<Rightarrow> bool result" where
  "all_r f [] = Inr True"
| "all_r f (x # xs) =
     (case f x of Inl e \<Rightarrow> Inl e | Inr b \<Rightarrow> if b then all_r f xs else Inr False)"

fun any_r :: "('a \<Rightarrow> bool result) \<Rightarrow> 'a list \<Rightarrow> bool result" where
  "any_r f [] = Inr False"
| "any_r f (x # xs) =
     (case f x of Inl e \<Rightarrow> Inl e | Inr b \<Rightarrow> if b then Inr True else any_r f xs)"

lemma all_r_cong [fundef_cong]:
  "xs = ys \<Longrightarrow> (\<And>x. x \<in> set ys \<Longrightarrow> f x = g x) \<Longrightarrow> all_r f xs = all_r g ys"
  by (induction ys arbitrary: xs) (auto split: sum.splits)

lemma any_r_cong [fundef_cong]:
  "xs = ys \<Longrightarrow> (\<And>x. x \<in> set ys \<Longrightarrow> f x = g x) \<Longrightarrow> any_r f xs = any_r g ys"
  by (induction ys arbitrary: xs) (auto split: sum.splits)

lemma all_r_pure:
  "(\<And>x. x \<in> set xs \<Longrightarrow> f x = Inr (p x)) \<Longrightarrow> all_r f xs = Inr (\<forall>x\<in>set xs. p x)"
  by (induction xs) auto

lemma any_r_pure:
  "(\<And>x. x \<in> set xs \<Longrightarrow> f x = Inr (p x)) \<Longrightarrow> any_r f xs = Inr (\<exists>x\<in>set xs. p x)"
  by (induction xs) auto

text \<open>A loop that checks every element, and one that converts every element, leaving at the first
  exception.\<close>

fun each_r :: "('a \<Rightarrow> unit result) \<Rightarrow> 'a list \<Rightarrow> unit result" where
  "each_r f [] = Inr ()"
| "each_r f (x # xs) = bind_r (f x) (\<lambda>_. each_r f xs)"

fun map_r :: "('a \<Rightarrow> 'b result) \<Rightarrow> 'a list \<Rightarrow> 'b list result" where
  "map_r f [] = Inr []"
| "map_r f (x # xs) = bind_r (f x) (\<lambda>y. bind_r (map_r f xs) (\<lambda>ys. Inr (y # ys)))"

lemma each_r_cong [fundef_cong]:
  "xs = ys \<Longrightarrow> (\<And>x. x \<in> set ys \<Longrightarrow> f x = g x) \<Longrightarrow> each_r f xs = each_r g ys"
  by (induction ys arbitrary: xs) auto

lemma each_r_ok_iff: "each_r f xs = Inr u \<longleftrightarrow> (\<forall>x\<in>set xs. f x = Inr ())"
  by (induction xs) (auto simp: bind_r_Inr_iff)

lemma map_r_ok_iff: "map_r f xs = Inr ys \<longleftrightarrow> list_all2 (\<lambda>x y. f x = Inr y) xs ys"
  by (induction xs arbitrary: ys) (auto simp: bind_r_Inr_iff list_all2_Cons1)

section \<open>Python values\<close>

datatype pyfloat = Fin rat | PosInf | NegInf | NaN

fun pyfloat_lt :: "pyfloat \<Rightarrow> pyfloat \<Rightarrow> bool" where
  "pyfloat_lt NaN _ = False"
| "pyfloat_lt _ NaN = False"
| "pyfloat_lt (Fin a) (Fin b) = (a < b)"
| "pyfloat_lt (Fin _) PosInf = True"
| "pyfloat_lt (Fin _) NegInf = False"
| "pyfloat_lt NegInf NegInf = False"
| "pyfloat_lt NegInf _ = True"
| "pyfloat_lt PosInf _ = False"

definition pyfloat_eq :: "pyfloat \<Rightarrow> pyfloat \<Rightarrow> bool" where
  "pyfloat_eq a b = (a \<noteq> NaN \<and> a = b)"

definition pyfloat_le :: "pyfloat \<Rightarrow> pyfloat \<Rightarrow> bool" where
  "pyfloat_le a b = (pyfloat_lt a b \<or> pyfloat_eq a b)"

lemma pyfloat_cmp_Fin [simp, py_simps]:
  "pyfloat_eq (Fin a) (Fin b) = (a = b)"
  "pyfloat_le (Fin a) (Fin b) = (a \<le> b)"
  by (auto simp: pyfloat_eq_def pyfloat_le_def)

text \<open>\<open>float(n)\<close> of an integer: exact up to 53 significant bits, rounded half to even above,
  \<open>OverflowError\<close> past the largest double.\<close>

definition float_of_int :: "int \<Rightarrow> rat result" where
  "float_of_int n =
     (let m = \<bar>n\<bar>; k = nat (bitlen m - 53); q = m div 2 ^ k; r = m mod 2 ^ k;
          q' = (if k > 0 \<and> (2 * r > 2 ^ k \<or> (2 * r = 2 ^ k \<and> odd q)) then q + 1 else q);
          v = q' * 2 ^ k
      in if v \<ge> 2 ^ 1024 then Inl OverflowError else Inr (of_int (sgn n * v)))"

text \<open>Rounding a rational to the nearest double, ties to even, subnormals included; the value is
  not limited to the range of doubles, which the operations check.\<close>

definition pow2 :: "int \<Rightarrow> rat" where
  "pow2 e = (if 0 \<le> e then 2 ^ nat e else inverse (2 ^ nat (- e)))"

definition round_even :: "rat \<Rightarrow> int" where
  "round_even m =
     (let f = \<lfloor>m\<rfloor>; d = 2 * (m - of_int f)
      in if d > 1 \<or> (d = 1 \<and> odd f) then f + 1 else f)"

definition round_double :: "rat \<Rightarrow> rat" where
  "round_double x =
     (let a = \<bar>x\<bar>; (p, q) = quotient_of a; e0 = bitlen p - bitlen q - 53;
          e1 = (if a / pow2 e0 \<ge> 2 ^ 53 then e0 + 1 else e0); e = max e1 (- 1074)
      in if x = 0 then 0 else sgn x * of_int (round_even (a / pow2 e)) * pow2 e)"

text \<open>\<open>a / b\<close> of integers, and \<open>x * y\<close> and \<open>x - y\<close> of finite
  doubles that stay finite.\<close>

definition true_div :: "int \<Rightarrow> int \<Rightarrow> rat result" where
  "true_div a b =
     (let v = round_double (of_int a / of_int b)
      in if 2 ^ 1024 \<le> \<bar>v\<bar> then Inl OverflowError else Inr v)"

definition float_mult :: "rat \<Rightarrow> rat \<Rightarrow> rat" where
  "float_mult x y = round_double (x * y)"

definition float_minus :: "rat \<Rightarrow> rat \<Rightarrow> rat" where
  "float_minus x y = round_double (x - y)"

datatype pyval =
    PyNone
  | PyBool bool
  | PyInt int
  | PyFloat pyfloat
  | PyStr string
  | PyList "pyval list"
  | PyDict "(string \<times> pyval) list"

text \<open>The exact numeric value Python compares bool, int and float by.\<close>

fun py_num :: "pyval \<Rightarrow> pyfloat option" where
  "py_num (PyBool b) = Some (Fin (if b then 1 else 0))"
| "py_num (PyInt n) = Some (Fin (of_int n))"
| "py_num (PyFloat f) = Some f"
| "py_num _ = None"

definition py_num_eq :: "pyval \<Rightarrow> pyval \<Rightarrow> bool" where
  "py_num_eq x y = (case (py_num x, py_num y) of (Some a, Some b) \<Rightarrow> pyfloat_eq a b | _ \<Rightarrow> False)"

text \<open>\<open>x == y\<close>.\<close>

fun py_eq :: "pyval \<Rightarrow> pyval \<Rightarrow> bool"
  and py_eq_list :: "pyval list \<Rightarrow> pyval list \<Rightarrow> bool"
  and py_eq_dict :: "(string \<times> pyval) list \<Rightarrow> (string \<times> pyval) list \<Rightarrow> bool"
where
  "py_eq PyNone y = (y = PyNone)"
| "py_eq (PyStr s) y = (y = PyStr s)"
| "py_eq (PyList xs) y = (case y of PyList ys \<Rightarrow> py_eq_list xs ys | _ \<Rightarrow> False)"
| "py_eq (PyDict xs) y =
     (case y of PyDict ys \<Rightarrow> length xs = length ys \<and> py_eq_dict xs ys | _ \<Rightarrow> False)"
| "py_eq (PyBool b) y = py_num_eq (PyBool b) y"
| "py_eq (PyInt n) y = py_num_eq (PyInt n) y"
| "py_eq (PyFloat f) y = py_num_eq (PyFloat f) y"
| "py_eq_list [] ys = (ys = [])"
| "py_eq_list (x # xs) ys = (case ys of [] \<Rightarrow> False | y # ys' \<Rightarrow> py_eq x y \<and> py_eq_list xs ys')"
| "py_eq_dict [] ys = True"
| "py_eq_dict ((k, v) # xs) ys =
     ((case map_of ys k of None \<Rightarrow> False | Some w \<Rightarrow> py_eq v w) \<and> py_eq_dict xs ys)"

text \<open>\<open>bool(x)\<close>.\<close>

fun py_truthy :: "pyval \<Rightarrow> bool" where
  "py_truthy PyNone = False"
| "py_truthy (PyBool b) = b"
| "py_truthy (PyInt n) = (n \<noteq> 0)"
| "py_truthy (PyFloat f) = (f \<noteq> Fin 0)"
| "py_truthy (PyStr s) = (s \<noteq> [])"
| "py_truthy (PyList xs) = (xs \<noteq> [])"
| "py_truthy (PyDict d) = (d \<noteq> [])"

definition py_or :: "pyval \<Rightarrow> pyval \<Rightarrow> pyval" where
  "py_or x y = (if py_truthy x then x else y)"

fun substr_in :: "string \<Rightarrow> string \<Rightarrow> bool" where
  "substr_in p [] = (p = [])"
| "substr_in p (c # cs) = (prefix p (c # cs) \<or> substr_in p cs)"

text \<open>\<open>x in c\<close>: elements of a list, substrings of a string (a non-string is a
  \<open>TypeError\<close>), keys of a dict (an unhashable key is a \<open>TypeError\<close>); any other
  container is not iterable.\<close>

fun py_in :: "pyval \<Rightarrow> pyval \<Rightarrow> bool result" where
  "py_in x (PyList ys) = Inr (\<exists>y\<in>set ys. py_eq x y)"
| "py_in x (PyStr s) = (case x of PyStr p \<Rightarrow> Inr (substr_in p s) | _ \<Rightarrow> Inl TypeError)"
| "py_in x (PyDict d) =
     (case x of PyStr k \<Rightarrow> Inr (k \<in> fst ` set d)
      | PyList _ \<Rightarrow> Inl TypeError | PyDict _ \<Rightarrow> Inl TypeError | _ \<Rightarrow> Inr False)"
| "py_in x _ = Inl TypeError"

lemma py_eq_PyStr [simp]: "py_eq (PyStr s) (PyStr t) = (s = t)"
  by auto

lemma py_eq_PyStr_left: "py_eq x (PyStr s) \<longleftrightarrow> x = PyStr s"
  by (cases x) (auto simp: py_num_eq_def split: option.splits)

lemma py_in_strs [py_simps]: "py_in (PyStr s) (PyList (map PyStr xs)) = Inr (s \<in> set xs)"
  by auto

text \<open>The values \<open>for y in (x or [])\<close> runs over.\<close>

definition each_of :: "pyval \<Rightarrow> pyval list result" where
  "each_of v =
     (if \<not> py_truthy v then Inr []
      else case v of
        PyList xs \<Rightarrow> Inr xs
      | PyStr s \<Rightarrow> Inr (map (\<lambda>c. PyStr [c]) s)
      | PyDict d \<Rightarrow> Inr (map (PyStr \<circ> fst) d)
      | _ \<Rightarrow> Inl TypeError)"

section \<open>String methods\<close>

definition is_space :: "char \<Rightarrow> bool" where
  "is_space c = (let n = (of_char c :: nat) in n = 32 \<or> (9 \<le> n \<and> n \<le> 13) \<or> (28 \<le> n \<and> n \<le> 31))"

definition lower_char :: "char \<Rightarrow> char" where
  "lower_char c =
     (let n = (of_char c :: nat) in if 65 \<le> n \<and> n \<le> 90 then char_of (n + 32) else c)"

definition py_lower :: "string \<Rightarrow> string" where
  "py_lower = map lower_char"

definition py_strip :: "string \<Rightarrow> string" where
  "py_strip s = rev (dropWhile is_space (rev (dropWhile is_space s)))"

definition py_rstrip :: "char \<Rightarrow> string \<Rightarrow> string" where
  "py_rstrip c s = rev (dropWhile (\<lambda>x. x = c) (rev s))"

text \<open>\<open>sep.join(xs)\<close>.\<close>

fun join_with :: "string \<Rightarrow> string list \<Rightarrow> string" where
  "join_with sep [] = []"
| "join_with sep [x] = x"
| "join_with sep (x # y # ys) = x @ sep @ join_with sep (y # ys)"

text \<open>\<open>str(n)\<close>.\<close>

fun str_nat :: "nat \<Rightarrow> string" where
  "str_nat n =
     (if n < 10 then [char_of (48 + n)] else str_nat (n div 10) @ [char_of (48 + n mod 10)])"

declare str_nat.simps [simp del]

definition str_int :: "int \<Rightarrow> string" where
  "str_int n = (if n < 0 then CHR ''-'' # str_nat (nat (- n)) else str_nat (nat n))"

text \<open>\<open>len(s)\<close> counts code points: every byte but the UTF-8 continuation bytes.\<close>

definition py_len :: "string \<Rightarrow> nat" where
  "py_len s = length (filter (\<lambda>c. \<not> (128 \<le> (of_char c :: nat) \<and> (of_char c :: nat) < 192)) s)"

text \<open>\<open>s[:n]\<close>: a prefix of \<open>n\<close> code points.\<close>

fun py_take :: "nat \<Rightarrow> string \<Rightarrow> string" where
  "py_take n [] = []"
| "py_take n (c # cs) =
     (if 128 \<le> (of_char c :: nat) \<and> (of_char c :: nat) < 192 then c # py_take n cs
      else case n of 0 \<Rightarrow> [] | Suc m \<Rightarrow> c # py_take m cs)"

lemma py_len_py_take: "py_len (py_take n s) \<le> n"
  by (induction n s rule: py_take.induct) (auto simp: py_len_def split: nat.splits)

text \<open>\<open>Path.name\<close>, \<open>Path.suffix\<close> and \<open>Path.with_suffix\<close> of a normalised path.\<close>

definition dir_part :: "string \<Rightarrow> string" where
  "dir_part p = rev (dropWhile (\<lambda>c. c \<noteq> CHR ''/'') (rev p))"

definition name_part :: "string \<Rightarrow> string" where
  "name_part p = rev (takeWhile (\<lambda>c. c \<noteq> CHR ''/'') (rev p))"

definition name_suffix :: "string \<Rightarrow> string" where
  "name_suffix name =
     (let ext = rev (takeWhile (\<lambda>c. c \<noteq> CHR ''.'') (rev name));
          rest = dropWhile (\<lambda>c. c \<noteq> CHR ''.'') (rev name)
      in if ext = [] \<or> length rest < 2 then [] else CHR ''.'' # ext)"

definition name_stem :: "string \<Rightarrow> string" where
  "name_stem name = take (length name - length (name_suffix name)) name"

definition with_suffix :: "string \<Rightarrow> string \<Rightarrow> string result" where
  "with_suffix p suf =
     (if name_part p = [] then Inl ValueError
      else Inr (dir_part p @ name_stem (name_part p) @ suf))"

lemma of_char_lower_char:
  "(of_char (lower_char c) :: nat) =
     (let n = of_char c in if 65 \<le> n \<and> n \<le> 90 then n + 32 else n)"
proof -
  have "(of_char c :: nat) < 256" by simp
  then show ?thesis
    by (simp add: lower_char_def Let_def)
qed

lemma lower_char_idem [simp]: "lower_char (lower_char c) = lower_char c"
  unfolding lower_char_def [of "lower_char c"] of_char_lower_char
  by (auto simp: Let_def lower_char_def)

lemma is_space_lower_char [simp]: "is_space (lower_char c) = is_space c"
  by (auto simp: is_space_def of_char_lower_char Let_def)

lemma py_lower_idem [simp]: "py_lower (py_lower s) = py_lower s"
  by (simp add: py_lower_def)

lemma py_lower_Nil_iff [simp]: "py_lower s = [] \<longleftrightarrow> s = []"
  by (simp add: py_lower_def)

lemma dropWhile_is_space_lower:
  "dropWhile is_space (py_lower s) = py_lower (dropWhile is_space s)"
  by (induction s) (auto simp: py_lower_def)

lemma rev_py_lower: "rev (py_lower s) = py_lower (rev s)"
  by (simp add: py_lower_def rev_map)

lemma py_strip_lower: "py_strip (py_lower s) = py_lower (py_strip s)"
  by (simp add: py_strip_def dropWhile_is_space_lower rev_py_lower)

lemma dropWhile_rev_dropWhile:
  "dropWhile P (rev (dropWhile P (rev (dropWhile P s)))) = rev (dropWhile P (rev (dropWhile P s)))"
proof -
  let ?t = "dropWhile P s"
  let ?u = "rev (dropWhile P (rev ?t))"
  show ?thesis
  proof (cases ?u)
    case Nil
    then show ?thesis unfolding Nil by simp
  next
    case (Cons c cs)
    have "?t = ?u @ rev (takeWhile P (rev ?t))"
      by (metis rev_append rev_rev_ident takeWhile_dropWhile_id)
    with Cons have "\<not> P c"
      by (metis append_Cons hd_dropWhile list.sel(1) list.simps(3))
    with Cons show ?thesis by simp
  qed
qed

lemma py_strip_idem [simp]: "py_strip (py_strip s) = py_strip s"
  unfolding py_strip_def by (simp add: dropWhile_rev_dropWhile)

lemma dropWhile_idem [simp]: "dropWhile P (dropWhile P xs) = dropWhile P xs"
  by (induction xs) auto

lemma py_rstrip_idem [simp]: "py_rstrip c (py_rstrip c s) = py_rstrip c s"
  by (simp add: py_rstrip_def)

lemma py_rstrip_last: "py_rstrip c s \<noteq> [] \<Longrightarrow> last (py_rstrip c s) \<noteq> c"
  unfolding py_rstrip_def
  by (metis (mono_tags, lifting) hd_dropWhile last_rev rev_is_Nil_conv)

section \<open>Lists\<close>

text \<open>Order-preserving removal of duplicates with the set of values already seen: the idiom
  \<open>seen = set(); for x in xs: if x in seen: continue; seen.add(x); out.append(x)\<close>.\<close>

fun dedup_seen :: "'a set \<Rightarrow> 'a list \<Rightarrow> 'a list" where
  "dedup_seen seen [] = []"
| "dedup_seen seen (x # xs) =
     (if x \<in> seen then dedup_seen seen xs else x # dedup_seen (insert x seen) xs)"

definition dedup :: "'a list \<Rightarrow> 'a list" where
  "dedup = dedup_seen {}"

lemma set_dedup_seen: "set (dedup_seen seen xs) = set xs - seen"
  by (induction xs arbitrary: seen) auto

lemma distinct_dedup_seen: "distinct (dedup_seen seen xs)"
  by (induction xs arbitrary: seen) (auto simp: set_dedup_seen)

lemma subseq_dedup_seen: "subseq (dedup_seen seen xs) xs"
  by (induction xs arbitrary: seen) auto

lemma dedup_seen_distinct: "distinct xs \<Longrightarrow> set xs \<inter> seen = {} \<Longrightarrow> dedup_seen seen xs = xs"
  by (induction xs arbitrary: seen) auto

lemma dedup_simps [simp]:
  "set (dedup xs) = set xs" "distinct (dedup xs)" "subseq (dedup xs) xs"
  by (simp_all add: dedup_def set_dedup_seen distinct_dedup_seen subseq_dedup_seen)

lemma dedup_idem [simp]: "dedup (dedup xs) = dedup xs"
  unfolding dedup_def by (simp add: dedup_seen_distinct distinct_dedup_seen)

text \<open>\<open>for x in xs: state = f(x, state)\<close> keeps what every step keeps.\<close>

lemma fold_invariant_mem:
  "P s \<Longrightarrow> (\<And>x s. x \<in> set xs \<Longrightarrow> P s \<Longrightarrow> P (f x s)) \<Longrightarrow> P (fold f xs s)"
  by (induction xs arbitrary: s) auto

lemma fold_eq_const:
  "(\<And>x s. x \<in> set xs \<Longrightarrow> g (f x s) = g s) \<Longrightarrow> g (fold f xs s) = g s"
  by (induction xs arbitrary: s) auto

end
