(* ===== verification/RuleSchema.thy ===== *)
theory RuleSchema
  imports Prelude
begin

text \<open>
  The rule DSL (\<open>app/rules/schema.py\<close>): severity scale, fields and operators, conditions and
  their combinators, the seven actions, and the validation that runs when a rule is saved or
  loaded.  A definition here is the typed document; Pydantic's coercion of JSON into that type is
  outside the model, the declared constraints and the validators of the source are inside it.
\<close>

section \<open>Vocabulary\<close>

definition SEVERITY_LEVELS :: "(string \<times> int) list" where
  "SEVERITY_LEVELS =
     [(''ok'', 10), (''info'', 20), (''warn'', 40), (''high'', 60), (''error'', 80), (''crit'', 100)]"

definition severity_level :: "string \<Rightarrow> int option" where
  "severity_level s = map_of SEVERITY_LEVELS s"

definition SUPPORTED_FIELDS :: "string list" where
  "SUPPORTED_FIELDS =
     [''filename'', ''extension'', ''category'', ''container'', ''video_codec'', ''audio_codec'',
      ''subtitle_codec'', ''width'', ''height'', ''duration_seconds'', ''bitrate_kbps'',
      ''framerate'', ''size_bytes'', ''has_subtitles'', ''is_orphaned'', ''subtitle_languages'',
      ''audio_languages'', ''tags'', ''probe_failed'', ''vt_status'']"

definition VT_STATUS_VALUES :: "string list" where
  "VT_STATUS_VALUES = [''clean'', ''malicious'', ''suspicious'', ''not_found'', ''error'']"

definition NUMERIC_OPS :: "string list" where
  "NUMERIC_OPS = [''eq'', ''ne'', ''lt'', ''lte'', ''gt'', ''gte'']"

definition STRING_OPS :: "string list" where
  "STRING_OPS = [''eq'', ''ne'', ''in'', ''regex'']"

definition SET_OPS :: "string list" where
  "SET_OPS = [''contains'', ''not_contains'', ''any_of'', ''none_of'']"

definition BOOL_OPS :: "string list" where
  "BOOL_OPS = [''eq'', ''ne'']"

definition NUMERIC_FIELDS :: "string list" where
  "NUMERIC_FIELDS =
     [''width'', ''height'', ''duration_seconds'', ''bitrate_kbps'', ''framerate'', ''size_bytes'']"

definition BOOL_FIELDS :: "string list" where
  "BOOL_FIELDS = [''has_subtitles'', ''is_orphaned'', ''probe_failed'']"

definition ARRAY_FIELDS :: "string list" where
  "ARRAY_FIELDS = [''subtitle_languages'', ''audio_languages'', ''tags'']"

definition SEARCH_UPSTREAM_TARGETS :: "string list" where
  "SEARCH_UPSTREAM_TARGETS = [''sonarr'', ''radarr'', ''bazarr'']"

lemmas vocabulary_defs = SEVERITY_LEVELS_def SUPPORTED_FIELDS_def VT_STATUS_VALUES_def
  NUMERIC_OPS_def STRING_OPS_def SET_OPS_def BOOL_OPS_def NUMERIC_FIELDS_def BOOL_FIELDS_def
  ARRAY_FIELDS_def SEARCH_UPSTREAM_TARGETS_def

section \<open>Conditions and combinators\<close>

record condition =
  cond_field :: string
  cond_op :: string
  cond_value :: pyval

datatype match_node =
    AllOf "match_node list"
  | AnyOf "match_node list"
  | Leaf condition

definition ops_for_field :: "string \<Rightarrow> string list" where
  "ops_for_field field =
     (if field \<in> set NUMERIC_FIELDS then NUMERIC_OPS
      else if field \<in> set BOOL_FIELDS then BOOL_OPS
      else if field \<in> set ARRAY_FIELDS then SET_OPS
      else STRING_OPS)"

definition validate_field :: "string \<Rightarrow> unit result" where
  "validate_field v =
     (if v \<notin> set SUPPORTED_FIELDS then Inl (ValidationError ''Unsupported field'') else Inr ())"

definition validate_op :: "string \<Rightarrow> string \<Rightarrow> unit result" where
  "validate_op field v =
     (if v \<notin> set (ops_for_field field) then Inl (ValidationError ''Operator not valid'') else Inr ())"

text \<open>\<open>x in VT_STATUS_VALUES\<close> hashes \<open>x\<close>: a list or a dict is a \<open>TypeError\<close>.\<close>

fun unhashable :: "pyval \<Rightarrow> bool" where
  "unhashable (PyList _) = True"
| "unhashable (PyDict _) = True"
| "unhashable _ = False"

definition in_vt_values :: "pyval \<Rightarrow> bool" where
  "in_vt_values v = (\<exists>s\<in>set VT_STATUS_VALUES. v = PyStr s)"

definition validate_value :: "string \<Rightarrow> string \<Rightarrow> pyval \<Rightarrow> unit result" where
  "validate_value field op v =
     (if field = ''vt_status'' then
        if op = ''in'' then
          (case v of
             PyList xs \<Rightarrow>
               if xs = [] then Inl (ValidationError ''non-empty list required'')
               else if \<exists>x\<in>set xs. unhashable x then Inl TypeError
               else if \<exists>x\<in>set xs. \<not> in_vt_values x then Inl (ValidationError ''vt_status value'')
               else Inr ()
           | _ \<Rightarrow> Inl (ValidationError ''non-empty list required''))
        else if unhashable v then Inl TypeError
        else if \<not> in_vt_values v then Inl (ValidationError ''vt_status value'')
        else Inr ()
      else Inr ())"

definition validate_condition :: "condition \<Rightarrow> unit result" where
  "validate_condition c =
     bind_r (validate_field (cond_field c)) (\<lambda>_.
     bind_r (validate_op (cond_field c) (cond_op c)) (\<lambda>_.
     validate_value (cond_field c) (cond_op c) (cond_value c)))"

fun validate_match :: "match_node \<Rightarrow> unit result" where
  "validate_match (AllOf ms) =
     (if ms = [] then Inl (ValidationError ''min_length'') else each_r validate_match ms)"
| "validate_match (AnyOf ms) =
     (if ms = [] then Inl (ValidationError ''min_length'') else each_r validate_match ms)"
| "validate_match (Leaf c) = validate_condition c"

section \<open>Actions\<close>

record notify_throttle =
  window_seconds :: int
  max_per_window :: int

datatype action =
    SetSeverity string
  | AddTag string
  | QueueOptimization string
  | Notify string "string option" "notify_throttle option"
  | Delete "string option"
  | VtLookup
  | SearchUpstream string string

definition check_length :: "nat \<Rightarrow> nat \<Rightarrow> string \<Rightarrow> unit result" where
  "check_length lo hi s =
     (if py_len s < lo \<or> hi < py_len s then Inl (ValidationError ''length'') else Inr ())"

definition check_max_length :: "nat \<Rightarrow> string option \<Rightarrow> unit result" where
  "check_max_length hi s = (case s of None \<Rightarrow> Inr () | Some t \<Rightarrow> check_length 0 hi t)"

definition validate_throttle :: "notify_throttle option \<Rightarrow> unit result" where
  "validate_throttle t =
     (case t of None \<Rightarrow> Inr ()
      | Some th \<Rightarrow>
          if window_seconds th < 60 \<or> max_per_window th < 1
          then Inl (ValidationError ''throttle'') else Inr ())"

definition validate_target :: "string \<Rightarrow> string result" where
  "validate_target v =
     (let v_norm = py_lower (py_strip v) in
      if v_norm \<notin> set SEARCH_UPSTREAM_TARGETS then Inl (ValidationError ''target'') else Inr v_norm)"

fun validate_action :: "action \<Rightarrow> action result" where
  "validate_action (SetSeverity s) =
     (if severity_level s = None then Inl (ValidationError ''Unknown severity'')
      else Inr (SetSeverity s))"
| "validate_action (AddTag t) = bind_r (check_length 1 64 t) (\<lambda>_. Inr (AddTag t))"
| "validate_action (QueueOptimization p) =
     bind_r (check_length 1 64 p) (\<lambda>_. Inr (QueueOptimization p))"
| "validate_action (Notify c m t) =
     bind_r (check_length 1 64 c) (\<lambda>_.
     bind_r (check_max_length 512 m) (\<lambda>_.
     bind_r (validate_throttle t) (\<lambda>_. Inr (Notify c m t))))"
| "validate_action (Delete r) = bind_r (check_max_length 256 r) (\<lambda>_. Inr (Delete r))"
| "validate_action VtLookup = Inr VtLookup"
| "validate_action (SearchUpstream target iid) =
     bind_r (validate_target target) (\<lambda>t.
     if iid = [] then Inl (ValidationError ''min_length'') else Inr (SearchUpstream t iid))"

fun is_delete :: "action \<Rightarrow> bool" where
  "is_delete (Delete _) = True"
| "is_delete _ = False"

section \<open>Rule definitions\<close>

record rule_definition =
  rd_match :: match_node
  rd_actions :: "action list"
  acknowledged_destructive :: bool

definition validate_destructive_ack :: "rule_definition \<Rightarrow> rule_definition result" where
  "validate_destructive_ack d =
     (let has_delete = (\<exists>a\<in>set (rd_actions d). is_delete a) in
      if has_delete \<and> \<not> acknowledged_destructive d
      then Inl (ValidationError ''acknowledged_destructive required'')
      else if acknowledged_destructive d \<and> \<not> has_delete
      then Inl (ValidationError ''acknowledged_destructive forbidden'')
      else Inr d)"

definition model_validate :: "rule_definition \<Rightarrow> rule_definition result" where
  "model_validate d =
     bind_r (validate_match (rd_match d)) (\<lambda>_.
     if rd_actions d = [] then Inl (ValidationError ''min_length'')
     else bind_r (map_r validate_action (rd_actions d)) (\<lambda>as.
     validate_destructive_ack (d\<lparr>rd_actions := as\<rparr>)))"

section \<open>What validation guarantees\<close>

definition valid_rule :: "rule_definition \<Rightarrow> bool" where
  "valid_rule d \<longleftrightarrow> model_validate d = Inr d"

lemma validate_target_ok:
  "validate_target v = Inr t \<Longrightarrow> t \<in> set SEARCH_UPSTREAM_TARGETS \<and> validate_target t = Inr t"
  by (auto simp: validate_target_def Let_def py_strip_lower split: if_splits)

lemma validate_action_stable: "validate_action a = Inr b \<Longrightarrow> validate_action b = Inr b"
  by (cases a) (auto simp: bind_r_Inr_iff dest: validate_target_ok split: if_splits)

lemma validate_action_is_delete: "validate_action a = Inr b \<Longrightarrow> is_delete b = is_delete a"
  by (cases a) (auto simp: bind_r_Inr_iff split: if_splits)

lemma map_r_validate_stable:
  "map_r validate_action as = Inr bs \<Longrightarrow> map_r validate_action bs = Inr bs"
  by (induction as arbitrary: bs) (auto simp: bind_r_Inr_iff dest: validate_action_stable)

lemma map_r_validate_Nil_iff: "map_r validate_action as = Inr bs \<Longrightarrow> as = [] \<longleftrightarrow> bs = []"
  by (auto simp: map_r_ok_iff)

lemma model_validate_ok:
  assumes "model_validate d = Inr e"
  shows "validate_match (rd_match e) = Inr ()" and "rd_match e = rd_match d"
    and "rd_actions e \<noteq> []" and "map_r validate_action (rd_actions e) = Inr (rd_actions e)"
    and "acknowledged_destructive e \<longleftrightarrow> (\<exists>a\<in>set (rd_actions e). is_delete a)"
    and "acknowledged_destructive e = acknowledged_destructive d"
proof -
  obtain as where m: "validate_match (rd_match d) = Inr ()" and n: "rd_actions d \<noteq> []"
    and as: "map_r validate_action (rd_actions d) = Inr as"
    and ack: "validate_destructive_ack (d\<lparr>rd_actions := as\<rparr>) = Inr e"
    using assms by (auto simp: model_validate_def bind_r_Inr_iff split: if_splits)
  from ack have e: "e = d\<lparr>rd_actions := as\<rparr>"
    and iff: "acknowledged_destructive d \<longleftrightarrow> (\<exists>a\<in>set as. is_delete a)"
    by (auto simp: validate_destructive_ack_def Let_def split: if_splits)
  from m e show "validate_match (rd_match e) = Inr ()" and "rd_match e = rd_match d" by simp_all
  from n as e show "rd_actions e \<noteq> []" by (simp add: map_r_validate_Nil_iff [OF as, symmetric])
  from as e show "map_r validate_action (rd_actions e) = Inr (rd_actions e)"
    by (simp add: map_r_validate_stable)
  from iff e show "acknowledged_destructive e \<longleftrightarrow> (\<exists>a\<in>set (rd_actions e). is_delete a)"
    and "acknowledged_destructive e = acknowledged_destructive d" by simp_all
qed

lemma model_validate_stable:
  assumes "model_validate d = Inr e"
  shows "valid_rule e"
  using model_validate_ok [OF assms]
  by (simp add: valid_rule_def model_validate_def validate_destructive_ack_def)

lemma validate_condition_op:
  "validate_condition c = Inr () \<Longrightarrow>
     cond_field c \<in> set SUPPORTED_FIELDS \<and> cond_op c \<in> set (ops_for_field (cond_field c))"
  by (auto simp: validate_condition_def validate_field_def validate_op_def bind_r_Inr_iff
      split: if_splits)

fun leaves :: "match_node \<Rightarrow> condition list" where
  "leaves (AllOf ms) = concat (map leaves ms)"
| "leaves (AnyOf ms) = concat (map leaves ms)"
| "leaves (Leaf c) = [c]"

lemma validate_match_leaves:
  "validate_match m = Inr () \<Longrightarrow> c \<in> set (leaves m) \<Longrightarrow> validate_condition c = Inr ()"
  by (induction m rule: validate_match.induct) (auto simp: each_r_ok_iff split: if_splits)

lemma ops_for_field_known:
  "op \<in> set (ops_for_field f) \<Longrightarrow>
     op \<in> {''eq'', ''ne'', ''lt'', ''lte'', ''gt'', ''gte'', ''in'', ''regex'', ''contains'',
           ''not_contains'', ''any_of'', ''none_of''}"
  by (auto simp: ops_for_field_def vocabulary_defs split: if_splits)

section \<open>Properties\<close>

text \<open>A rule that passes validation can be validated again with the same outcome; it deletes if
  and only if the operator acknowledged it; every condition uses a known field with an operator of
  that field's type; and every action is one validation accepts unchanged.\<close>

theorem model_validate_sound:
  assumes "model_validate d = Inr e"
  shows "model_validate e = Inr e
    \<and> (acknowledged_destructive e \<longleftrightarrow> (\<exists>a\<in>set (rd_actions e). is_delete a))
    \<and> (\<forall>c\<in>set (leaves (rd_match e)).
         cond_field c \<in> set SUPPORTED_FIELDS \<and> cond_op c \<in> set (ops_for_field (cond_field c)))
    \<and> (\<forall>a\<in>set (rd_actions e). validate_action a = Inr a)"
proof -
  note ok = model_validate_ok [OF assms]
  have "\<forall>a\<in>set as. validate_action a = Inr a" if "map_r validate_action as = Inr as" for as
    using that by (auto simp: map_r_ok_iff list_all2_conv_all_nth in_set_conv_nth)
  moreover have "cond_field c \<in> set SUPPORTED_FIELDS \<and> cond_op c \<in> set (ops_for_field (cond_field c))"
    if "c \<in> set (leaves (rd_match e))" for c
    using validate_match_leaves [OF ok(1) that] by (rule validate_condition_op)
  ultimately show ?thesis
    using ok(4,5) model_validate_stable [OF assms] by (auto simp: valid_rule_def)
qed

definition sample_definition :: rule_definition where
  "sample_definition =
     \<lparr>rd_match = AnyOf [Leaf \<lparr>cond_field = ''width'', cond_op = ''gt'', cond_value = PyInt 1920\<rparr>],
      rd_actions = [SearchUpstream '' Sonarr'' ''i1'', Delete None],
      acknowledged_destructive = True\<rparr>"

theorem model_validate_sound_witness:
  "\<exists>e. model_validate sample_definition = Inr e \<and> model_validate e = Inr e
     \<and> rd_actions e = [SearchUpstream ''sonarr'' ''i1'', Delete None]"
proof -
  have "model_validate sample_definition =
      Inr (sample_definition\<lparr>rd_actions := [SearchUpstream ''sonarr'' ''i1'', Delete None]\<rparr>)"
    by code_simp
  from model_validate_sound [OF this] this show ?thesis by simp
qed

end
