(* ===== verification/LanguageNormalize.thy ===== *)
theory LanguageNormalize
  imports Prelude "HOL-Library.List_Lexorder" "HOL-Library.Char_ord" "HOL-Library.Multiset"
begin

text \<open>
  Language normalisation (\<open>app/rules/language_normalize.py\<close>): the alias table, the flat index
  built from it, \<open>normalize_language\<close> and \<open>normalize_languages\<close>.  The lemmas show that every
  alias folds to its canonical code, that folding is idempotent, and that the list version keeps
  order and drops duplicates.
\<close>

section \<open>The alias table\<close>

definition canonical_to_aliases :: "(string \<times> string list) list" where
  "canonical_to_aliases = [
    (''en'', [''en'', ''eng'', ''english'', ''en-us'', ''en-gb'', ''en_us'', ''en_gb'', ''en-au'']),
    (''es'', [''es'', ''spa'', ''spanish'', ''espa'' @ [CHR 0xC3, CHR 0xB1] @ ''ol'', ''espanol'',
              ''es-es'', ''es-mx'', ''es-419'']),
    (''fr'', [''fr'', ''fre'', ''fra'', ''french'', ''fran'' @ [CHR 0xC3, CHR 0xA7] @ ''ais'',
              ''francais'', ''fr-fr'', ''fr-ca'']),
    (''de'', [''de'', ''ger'', ''deu'', ''german'', ''deutsch'', ''de-de'', ''de-at'']),
    (''it'', [''it'', ''ita'', ''italian'', ''italiano'']),
    (''pt'', [''pt'', ''por'', ''portuguese'', ''portugu'' @ [CHR 0xC3, CHR 0xAA] @ ''s'',
              ''portugues'', ''pt-br'', ''pt-pt'']),
    (''ja'', [''ja'', ''jpn'', ''japanese'',
              [CHR 0xE6, CHR 0x97, CHR 0xA5, CHR 0xE6, CHR 0x9C, CHR 0xAC, CHR 0xE8, CHR 0xAA, CHR 0x9E],
              ''ja-jp'']),
    (''zh'', [''zh'', ''chi'', ''zho'', ''chinese'',
              [CHR 0xE4, CHR 0xB8, CHR 0xAD, CHR 0xE6, CHR 0x96, CHR 0x87],
              ''zh-cn'', ''zh-tw'', ''zh-hk'', ''zh-hans'', ''zh-hant'', ''cmn'', ''yue'',
              ''mandarin'', ''cantonese'']),
    (''ko'', [''ko'', ''kor'', ''korean'',
              [CHR 0xED, CHR 0x95, CHR 0x9C, CHR 0xEA, CHR 0xB5, CHR 0xAD, CHR 0xEC, CHR 0x96, CHR 0xB4]]),
    (''ru'', [''ru'', ''rus'', ''russian'',
              [CHR 0xD1, CHR 0x80, CHR 0xD1, CHR 0x83, CHR 0xD1, CHR 0x81, CHR 0xD1, CHR 0x81,
               CHR 0xD0, CHR 0xBA, CHR 0xD0, CHR 0xB8, CHR 0xD0, CHR 0xB9]]),
    (''ar'', [''ar'', ''ara'', ''arabic'']),
    (''hi'', [''hi'', ''hin'', ''hindi'']),
    (''nl'', [''nl'', ''nld'', ''dut'', ''dutch'', ''nederlands'']),
    (''sv'', [''sv'', ''swe'', ''swedish'', ''svenska'']),
    (''no'', [''no'', ''nor'', ''norwegian'', ''nob'', ''nno'', ''norsk'']),
    (''da'', [''da'', ''dan'', ''danish'', ''dansk'']),
    (''fi'', [''fi'', ''fin'', ''finnish'', ''suomi'']),
    (''pl'', [''pl'', ''pol'', ''polish'', ''polski'']),
    (''tr'', [''tr'', ''tur'', ''turkish'',
              ''t'' @ [CHR 0xC3, CHR 0xBC] @ ''rk'' @ [CHR 0xC3, CHR 0xA7] @ ''e'']),
    (''he'', [''he'', ''heb'', ''hebrew'', ''iw'']),
    (''el'', [''el'', ''gre'', ''ell'', ''greek'']),
    (''th'', [''th'', ''tha'', ''thai'']),
    (''vi'', [''vi'', ''vie'', ''vietnamese'']),
    (''uk'', [''uk'', ''ukr'', ''ukrainian'']),
    (''cs'', [''cs'', ''cze'', ''ces'', ''czech'']),
    (''hu'', [''hu'', ''hun'', ''hungarian'', ''magyar'']),
    (''ro'', [''ro'', ''rum'', ''ron'', ''romanian'', ''rom'' @ [CHR 0xC3, CHR 0xA2] @ ''n'' @
              [CHR 0xC4, CHR 0x83]]),
    (''id'', [''id'', ''ind'', ''indonesian'']),
    (''ms'', [''ms'', ''may'', ''msa'', ''malay'']),
    (''fa'', [''fa'', ''per'', ''fas'', ''persian'', ''farsi''])]"

definition index_entry :: "string \<times> string list \<Rightarrow> (string \<rightharpoonup> string) \<Rightarrow> (string \<rightharpoonup> string)" where
  "index_entry entry out =
     (case entry of (canonical, aliases) \<Rightarrow>
        (fold (\<lambda>alias m. m(py_lower (py_strip alias) \<mapsto> canonical)) aliases out)
          (py_lower (py_strip canonical) \<mapsto> canonical))"

definition build_alias_index :: "string \<rightharpoonup> string" where
  "build_alias_index = fold index_entry canonical_to_aliases Map.empty"

section \<open>Normalisation\<close>

definition normalize_language :: "string option \<Rightarrow> string option" where
  "normalize_language raw =
     (case raw of None \<Rightarrow> None
      | Some r \<Rightarrow>
          (let s = py_lower (py_strip r) in
           if s = [] then None
           else case build_alias_index s of Some c \<Rightarrow> Some c
                | None \<Rightarrow>
                    (case build_alias_index (takeWhile (\<lambda>c. c \<noteq> CHR ''-'') s) of
                       Some c \<Rightarrow> Some c
                     | None \<Rightarrow> Some s)))"

fun normalize_loop :: "string set \<Rightarrow> pyval list \<Rightarrow> string list" where
  "normalize_loop seen [] = []"
| "normalize_loop seen (v # vs) =
     (case v of
        PyStr s \<Rightarrow>
          (case normalize_language (Some s) of
             None \<Rightarrow> normalize_loop seen vs
           | Some n \<Rightarrow>
               if n \<in> seen then normalize_loop seen vs else n # normalize_loop (insert n seen) vs)
      | _ \<Rightarrow> normalize_loop seen vs)"

definition normalize_languages :: "pyval list \<Rightarrow> string list" where
  "normalize_languages values = normalize_loop {} values"

definition canonical_languages :: "string list" where
  "canonical_languages = sort (map fst canonical_to_aliases)"

section \<open>The index\<close>

text \<open>The index as an association list, for evaluation: a later assignment to a key wins.\<close>

definition alias_entries :: "(string \<times> string list) list \<Rightarrow> (string \<times> string) list" where
  "alias_entries table =
     concat (map (\<lambda>(c, as). map (\<lambda>a. (py_lower (py_strip a), c)) as @ [(py_lower (py_strip c), c)]) table)"

lemma alias_entries_mem:
  "(c, as) \<in> set table \<Longrightarrow> a \<in> set (c # as) \<Longrightarrow> (py_lower (py_strip a), c) \<in> set (alias_entries table)"
proof (induction table)
  case (Cons e table)
  then show ?case by (cases "e = (c, as)") (auto simp: alias_entries_def)
qed simp

lemma fold_upd_eq: "fold (\<lambda>a m. m(f a \<mapsto> c)) as out = out ++ map_of (rev (map (\<lambda>a. (f a, c)) as))"
  by (induction as arbitrary: out)
     (auto simp: map_add_def fun_eq_iff map_of_append split: option.splits)

lemma index_entry_eq: "index_entry e out = out ++ map_of (rev (alias_entries [e]))"
  by (cases e) (simp add: index_entry_def alias_entries_def fold_upd_eq)

lemma fold_index_entry:
  "fold index_entry table out = out ++ map_of (rev (alias_entries table))"
proof (induction table arbitrary: out)
  case Nil
  show ?case by (simp add: alias_entries_def)
next
  case (Cons e table)
  have "alias_entries (e # table) = alias_entries [e] @ alias_entries table"
    by (simp add: alias_entries_def)
  with Cons show ?case by (simp add: index_entry_eq)
qed

lemma build_alias_index_eq:
  "build_alias_index = map_of (rev (alias_entries canonical_to_aliases))"
  by (simp add: build_alias_index_def fold_index_entry)

text \<open>The table has no clash: sorted by key, entries with the same key are the same entry.\<close>

fun key_chain :: "(string \<times> string) list \<Rightarrow> bool" where
  "key_chain [] = True"
| "key_chain [e] = True"
| "key_chain (e # f # es) = ((fst e < fst f \<or> e = f) \<and> key_chain (f # es))"

lemma key_chain_Cons: "key_chain (e # es) \<Longrightarrow> f \<in> set es \<Longrightarrow> fst e < fst f \<or> e = f"
proof (induction es arbitrary: e)
  case (Cons g es)
  then have eg: "fst e < fst g \<or> e = g" and "key_chain (g # es)" by simp_all
  with Cons.IH [of g] Cons.prems(2) have "fst g < fst f \<or> g = f" by (cases "f = g") simp_all
  with eg show ?case by (metis order.strict_trans)
qed simp

lemma key_chain_functional:
  "key_chain es \<Longrightarrow> e \<in> set es \<Longrightarrow> f \<in> set es \<Longrightarrow> fst e = fst f \<Longrightarrow> e = f"
proof (induction es)
  case (Cons g es)
  then have "key_chain es" by (cases es) simp_all
  moreover have "\<And>h. h \<in> set es \<Longrightarrow> fst g = fst h \<Longrightarrow> g = h"
    using key_chain_Cons [OF Cons.prems(1)] by (metis order.irrefl)
  ultimately show ?case using Cons.IH Cons.prems(2-4) by (metis set_ConsD)
qed simp

lemma alias_entries_chain: "key_chain (sort_key fst (alias_entries canonical_to_aliases))"
  by code_simp

lemma alias_entries_functional:
  "(k, c) \<in> set (alias_entries canonical_to_aliases) \<Longrightarrow>
     (k, c') \<in> set (alias_entries canonical_to_aliases) \<Longrightarrow> c = c'"
  using key_chain_functional [OF alias_entries_chain, of "(k, c)" "(k, c')"] by simp

lemma alias_index_alias:
  "(c, as) \<in> set canonical_to_aliases \<Longrightarrow> a \<in> set (c # as) \<Longrightarrow>
     build_alias_index (py_lower (py_strip a)) = Some c"
proof -
  assume "(c, as) \<in> set canonical_to_aliases" "a \<in> set (c # as)"
  then have mem: "(py_lower (py_strip a), c) \<in> set (alias_entries canonical_to_aliases)"
    by (rule alias_entries_mem)
  obtain c' where c': "build_alias_index (py_lower (py_strip a)) = Some c'"
    unfolding build_alias_index_eq using mem
    by (metis map_of_eq_None_iff not_Some_eq image_eqI fst_conv set_rev)
  then have "(py_lower (py_strip a), c') \<in> set (alias_entries canonical_to_aliases)"
    unfolding build_alias_index_eq by (metis map_of_SomeD set_rev)
  with mem c' show ?thesis by (metis alias_entries_functional)
qed

lemma canonical_codes_folded:
  "\<forall>p\<in>set canonical_to_aliases. py_lower (py_strip (fst p)) = fst p \<and> fst p \<noteq> []"
  by code_simp

lemma alias_index_range:
  "build_alias_index k = Some c \<Longrightarrow> \<exists>as. (c, as) \<in> set canonical_to_aliases"
  unfolding build_alias_index_eq
  by (auto dest!: map_of_SomeD simp: alias_entries_def)

lemma alias_index_fixpoint:
  assumes "build_alias_index k = Some c"
  shows "build_alias_index c = Some c" and "py_lower (py_strip c) = c" and "c \<noteq> []"
proof -
  obtain as where mem: "(c, as) \<in> set canonical_to_aliases"
    using alias_index_range [OF assms] by blast
  then show folded: "py_lower (py_strip c) = c" and "c \<noteq> []"
    using canonical_codes_folded by (metis fst_conv)+
  have "build_alias_index (py_lower (py_strip c)) = Some c"
    using alias_index_alias [OF mem] by simp
  with folded show "build_alias_index c = Some c" by simp
qed

section \<open>Folding\<close>

lemma normalize_language_None_iff:
  "normalize_language (Some r) = None \<longleftrightarrow> py_strip r = []"
  by (auto simp: normalize_language_def Let_def split: option.splits)

lemma normalize_language_cases:
  assumes "normalize_language raw = Some n"
  obtains (index) k where "build_alias_index k = Some n"
  | (other) r where "raw = Some r" "n = py_lower (py_strip r)" "n \<noteq> []"
      "build_alias_index n = None"
      "build_alias_index (takeWhile (\<lambda>c. c \<noteq> CHR ''-'') n) = None"
proof (cases raw)
  case None
  with assms show ?thesis by (simp add: normalize_language_def)
next
  case (Some r)
  define s where "s = py_lower (py_strip r)"
  define p where "p = takeWhile (\<lambda>c. c \<noteq> CHR ''-'') s"
  have "normalize_language raw =
      (if s = [] then None
       else case build_alias_index s of Some c \<Rightarrow> Some c
            | None \<Rightarrow> (case build_alias_index p of Some c \<Rightarrow> Some c | None \<Rightarrow> Some s))"
    unfolding normalize_language_def Some s_def p_def Let_def by simp
  then consider "build_alias_index s = Some n" | "build_alias_index p = Some n"
    | "build_alias_index s = None" "build_alias_index p = None" "n = s" "s \<noteq> []"
    using assms by (cases "build_alias_index s"; cases "build_alias_index p"; cases "s = []") auto
  then show ?thesis
    using index other Some unfolding s_def p_def by cases blast+
qed

lemma normalize_language_nonempty: "normalize_language raw = Some n \<Longrightarrow> n \<noteq> []"
  by (erule normalize_language_cases) (rule alias_index_fixpoint(3))

lemma normalize_language_fixpoint:
  assumes "normalize_language raw = Some n"
  shows "normalize_language (Some n) = Some n"
  using assms
proof (cases rule: normalize_language_cases)
  case (index k)
  then show ?thesis
    by (simp add: normalize_language_def alias_index_fixpoint [OF index])
next
  case (other r)
  have "py_lower (py_strip n) = n"
    using other(2) by (simp add: py_strip_lower)
  with other show ?thesis
    by (simp add: normalize_language_def Let_def)
qed

definition py_language :: "pyval \<Rightarrow> string option" where
  "py_language v = (case v of PyStr s \<Rightarrow> normalize_language (Some s) | _ \<Rightarrow> None)"

text \<open>The loop computes: fold every string, drop what folds to nothing, keep first occurrences.\<close>

lemma normalize_loop_eq: "normalize_loop seen vs = dedup_seen seen (List.map_filter py_language vs)"
  by (induction vs arbitrary: seen)
     (auto simp: List.map_filter_simps py_language_def split: pyval.splits option.splits)

lemma normalize_languages_eq: "normalize_languages vs = dedup (List.map_filter py_language vs)"
  by (simp add: normalize_languages_def dedup_def normalize_loop_eq)

lemma set_normalize_languages:
  "set (normalize_languages vs) = {n. \<exists>s. PyStr s \<in> set vs \<and> normalize_language (Some s) = Some n}"
proof -
  have "set (List.map_filter py_language vs) = {n. \<exists>v\<in>set vs. py_language v = Some n}"
    by (induction vs) (auto simp: List.map_filter_simps split: option.splits)
  also have "\<dots> = {n. \<exists>s. PyStr s \<in> set vs \<and> normalize_language (Some s) = Some n}"
    by (auto simp: py_language_def split: pyval.splits) (metis pyval.exhaust)
  finally show ?thesis by (simp add: normalize_languages_eq)
qed

lemma alias_keys_nonempty: "\<forall>e\<in>set (alias_entries canonical_to_aliases). fst e \<noteq> []"
  by code_simp

section \<open>Properties\<close>

text \<open>Every spelling the table lists for a language, in any letter case and with any
  surrounding blanks, normalises to that language's code.\<close>

theorem normalize_alias:
  assumes "(c, as) \<in> set canonical_to_aliases" "a \<in> set (c # as)"
    "py_lower (py_strip s) = py_lower (py_strip a)"
  shows "normalize_language (Some s) = Some c"
proof -
  have idx: "build_alias_index (py_lower (py_strip s)) = Some c"
    using alias_index_alias [OF assms(1,2)] assms(3) by simp
  moreover have "py_lower (py_strip s) \<noteq> []"
    using idx alias_keys_nonempty unfolding build_alias_index_eq
    by (metis fst_conv map_of_SomeD set_rev)
  ultimately show ?thesis by (simp add: normalize_language_def Let_def)
qed

theorem normalize_alias_witness:
  "normalize_language (Some ''  ENGLISH '') = Some ''en''"
proof (rule normalize_alias [of "''en''" _ "''english''"])
  show "(''en'', [''en'', ''eng'', ''english'', ''en-us'', ''en-gb'', ''en_us'', ''en_gb'', ''en-au''])
      \<in> set canonical_to_aliases"
    by (simp add: canonical_to_aliases_def)
qed (simp, code_simp)

text \<open>Normalising a list keeps one copy of each language its strings denote, and doing it again
  changes nothing.\<close>

theorem normalize_languages_canonical:
  "distinct (normalize_languages vs)
   \<and> set (normalize_languages vs) = {n. \<exists>s. PyStr s \<in> set vs \<and> normalize_language (Some s) = Some n}
   \<and> normalize_languages (map PyStr (normalize_languages vs)) = normalize_languages vs"
proof -
  have fixed: "List.map_filter py_language (map PyStr ns) = ns"
    if "\<forall>n\<in>set ns. normalize_language (Some n) = Some n" for ns
    using that by (induction ns) (auto simp: List.map_filter_simps py_language_def)
  have "\<forall>n\<in>set (normalize_languages vs). normalize_language (Some n) = Some n"
    using normalize_language_fixpoint by (auto simp: set_normalize_languages)
  then have "normalize_languages (map PyStr (normalize_languages vs)) = dedup (normalize_languages vs)"
    by (simp add: normalize_languages_eq [of "map PyStr _"] fixed)
  then show ?thesis
    by (simp add: set_normalize_languages) (simp add: normalize_languages_eq)
qed

end
