(* ===== verification/Escalation.thy ===== *)
theory Escalation
  imports Prelude "HOL-Library.Multiset"
begin

text \<open>
  Monotonic escalation: a state carries a rank, and every contribution either leaves it alone or
  raises it to its own rank when that is higher.  Both places where the rule engine decides a
  severity (the actions of one rule, the results of all rules on one file) meet this contract, and
  both inherit from it that the outcome is the maximum of what was contributed and does not depend
  on the order.
\<close>

locale escalation =
  fixes rank :: "'s \<Rightarrow> int"
    and escalate :: "'a \<Rightarrow> 's \<Rightarrow> 's"
    and contrib :: "'a \<Rightarrow> int option"
  assumes rank_escalate:
    "rank (escalate a s) = (case contrib a of None \<Rightarrow> rank s | Some r \<Rightarrow> max (rank s) r)"
begin

lemma rank_monotone: "rank s \<le> rank (escalate a s)"
  by (simp add: rank_escalate split: option.splits)

lemma rank_fold:
  "rank (fold escalate as s) = Max (insert (rank s) {r. \<exists>a\<in>set as. contrib a = Some r})"
proof (induction as arbitrary: s)
  case Nil
  show ?case by simp
next
  case (Cons a as)
  let ?R = "{r. \<exists>b\<in>set as. contrib b = Some r}"
  have fin: "finite ?R"
    by (rule finite_surj [of "set as" _ "\<lambda>b. the (contrib b)"]) force+
  show ?case
  proof (cases "contrib a")
    case None
    then have "{r. \<exists>b\<in>set (a # as). contrib b = Some r} = ?R" by auto
    with None show ?thesis by (simp add: Cons.IH rank_escalate)
  next
    case (Some r)
    then have eq: "{r. \<exists>b\<in>set (a # as). contrib b = Some r} = insert r ?R" by auto
    have "Max (insert (max (rank s) r) ?R) = Max (insert (rank s) (insert r ?R))"
      using fin by (cases "?R = {}") (simp_all add: max.assoc)
    with Some eq show ?thesis by (simp add: Cons.IH rank_escalate)
  qed
qed

lemma rank_fold_monotone: "rank s \<le> rank (fold escalate as s)"
  by (induction as arbitrary: s) (auto intro: order_trans [OF rank_monotone])

lemma rank_fold_ge: "a \<in> set as \<Longrightarrow> contrib a = Some r \<Longrightarrow> r \<le> rank (fold escalate as s)"
proof (induction as arbitrary: s)
  case (Cons b as)
  have "r \<le> rank (escalate a s)" if "a = b"
    using Cons.prems that by (simp add: rank_escalate)
  with Cons show ?case
    using rank_fold_monotone [of "escalate a s" as] by fastforce
qed simp

lemma rank_fold_perm: "mset as = mset bs \<Longrightarrow> rank (fold escalate as s) = rank (fold escalate bs s)"
  by (metis rank_fold set_mset_mset)

end

end
