(* ===== verification/RuleEvaluator.thy ===== *)
theory RuleEvaluator
  imports RuleSchema LanguageNormalize Escalation
begin

text \<open>
  The rule evaluator (\<open>app/rules/evaluator.py\<close>): the input row, the per-rule result and its
  merge, matching with Python's operators, and the application of actions.  Two library functions
  the conditions reach are parameters (\<open>pyenv\<close>): \<open>re.search\<close>, which answers or raises
  \<open>re.error\<close> (\<open>None\<close>), and \<open>float(str)\<close>, which parses or raises
  \<open>ValueError\<close> (\<open>None\<close>).
\<close>

section \<open>State\<close>

record pyenv =
  re_search :: "string \<Rightarrow> string \<Rightarrow> bool option"
  float_str :: "string \<Rightarrow> pyfloat option"

record eval_input =
  ei_media_file_id :: string
  ei_path :: string
  ei_filename :: string
  ei_extension :: string
  ei_category :: string
  ei_container :: "string option"
  ei_video_codec :: "string option"
  ei_audio_codec :: "string option"
  ei_subtitle_codec :: "string option"
  ei_width :: "int option"
  ei_height :: "int option"
  ei_duration_seconds :: "pyfloat option"
  ei_bitrate_kbps :: "int option"
  ei_framerate :: "pyfloat option"
  ei_size_bytes :: int
  ei_has_subtitles :: bool
  ei_is_orphaned :: bool
  ei_subtitle_languages :: "pyval list"
  ei_audio_languages :: "pyval list"
  ei_tags :: "string list"
  ei_probe_failed :: bool
  ei_vt_status :: "string option"

record notification =
  nt_channel :: string
  nt_message :: "string option"
  nt_throttle :: "notify_throttle option"

record search_request =
  sr_target :: string
  sr_integration_id :: string

record eval_result =
  er_matched :: bool
  er_severity :: "string option"
  er_severity_rank :: int
  er_add_tags :: "string list"
  er_queue_optimizations :: "string list"
  er_notifications :: "notification list"
  er_delete_paths :: "string list"
  er_delete_reasons :: "string list"
  er_vt_lookup_requested :: bool
  er_search_upstream_requests :: "search_request list"

definition empty_result :: "bool \<Rightarrow> string option \<Rightarrow> int \<Rightarrow> eval_result" where
  "empty_result m s r =
     \<lparr>er_matched = m, er_severity = s, er_severity_rank = r, er_add_tags = [],
      er_queue_optimizations = [], er_notifications = [], er_delete_paths = [],
      er_delete_reasons = [], er_vt_lookup_requested = False, er_search_upstream_requests = []\<rparr>"

section \<open>Merging\<close>

definition append_new :: "string \<Rightarrow> string list \<Rightarrow> string list" where
  "append_new t ts = (if t \<in> set ts then ts else ts @ [t])"

definition merge_into :: "eval_result \<Rightarrow> eval_result \<Rightarrow> eval_result" where
  "merge_into self other =
     (let raised = er_severity self \<noteq> None \<and> er_severity_rank self > er_severity_rank other in
      other\<lparr>
        er_severity := (if raised then er_severity self else er_severity other),
        er_severity_rank := (if raised then er_severity_rank self else er_severity_rank other),
        er_add_tags := fold append_new (er_add_tags self) (er_add_tags other),
        er_queue_optimizations := er_queue_optimizations other @ er_queue_optimizations self,
        er_notifications := er_notifications other @ er_notifications self,
        er_delete_paths := er_delete_paths other @ er_delete_paths self,
        er_delete_reasons := er_delete_reasons other @ er_delete_reasons self,
        er_vt_lookup_requested := (if er_vt_lookup_requested self then True
                                   else er_vt_lookup_requested other),
        er_search_upstream_requests :=
          er_search_upstream_requests other @ er_search_upstream_requests self\<rparr>)"

section \<open>Matching\<close>

definition opt_val :: "('a \<Rightarrow> pyval) \<Rightarrow> 'a option \<Rightarrow> pyval" where
  "opt_val f x = (case x of None \<Rightarrow> PyNone | Some v \<Rightarrow> f v)"

text \<open>\<open>getattr(input_, field, None)\<close> over the attributes of \<open>EvaluationInput\<close>.\<close>

definition get_field :: "eval_input \<Rightarrow> string \<Rightarrow> pyval" where
  "get_field i f =
     (if f = ''media_file_id'' then PyStr (ei_media_file_id i)
      else if f = ''path'' then PyStr (ei_path i)
      else if f = ''filename'' then PyStr (ei_filename i)
      else if f = ''extension'' then PyStr (ei_extension i)
      else if f = ''category'' then PyStr (ei_category i)
      else if f = ''container'' then opt_val PyStr (ei_container i)
      else if f = ''video_codec'' then opt_val PyStr (ei_video_codec i)
      else if f = ''audio_codec'' then opt_val PyStr (ei_audio_codec i)
      else if f = ''subtitle_codec'' then opt_val PyStr (ei_subtitle_codec i)
      else if f = ''width'' then opt_val PyInt (ei_width i)
      else if f = ''height'' then opt_val PyInt (ei_height i)
      else if f = ''duration_seconds'' then opt_val PyFloat (ei_duration_seconds i)
      else if f = ''bitrate_kbps'' then opt_val PyInt (ei_bitrate_kbps i)
      else if f = ''framerate'' then opt_val PyFloat (ei_framerate i)
      else if f = ''size_bytes'' then PyInt (ei_size_bytes i)
      else if f = ''has_subtitles'' then PyBool (ei_has_subtitles i)
      else if f = ''is_orphaned'' then PyBool (ei_is_orphaned i)
      else if f = ''subtitle_languages'' then PyList (ei_subtitle_languages i)
      else if f = ''audio_languages'' then PyList (ei_audio_languages i)
      else if f = ''tags'' then PyList (map PyStr (ei_tags i))
      else if f = ''probe_failed'' then PyBool (ei_probe_failed i)
      else if f = ''vt_status'' then opt_val PyStr (ei_vt_status i)
      else PyNone)"

definition as_number :: "pyenv \<Rightarrow> pyval \<Rightarrow> pyfloat result" where
  "as_number env v =
     (case v of
        PyBool b \<Rightarrow> Inr (Fin (if b then 1 else 0))
      | PyInt n \<Rightarrow> bind_r (float_of_int n) (\<lambda>r. Inr (Fin r))
      | PyFloat f \<Rightarrow> Inr f
      | PyStr s \<Rightarrow> (case float_str env s of None \<Rightarrow> Inl ValueError | Some f \<Rightarrow> Inr f)
      | _ \<Rightarrow> Inl TypeError)"

definition compare_numbers ::
    "pyenv \<Rightarrow> (pyfloat \<Rightarrow> pyfloat \<Rightarrow> bool) \<Rightarrow> pyval \<Rightarrow> pyval \<Rightarrow> bool result" where
  "compare_numbers env cmp a e =
     bind_r (as_number env a) (\<lambda>x. bind_r (as_number env e) (\<lambda>y. Inr (cmp x y)))"

definition as_items :: "pyval \<Rightarrow> pyval list" where
  "as_items e = (case e of PyList xs \<Rightarrow> xs | _ \<Rightarrow> [e])"

definition apply_op :: "pyenv \<Rightarrow> string \<Rightarrow> pyval \<Rightarrow> pyval \<Rightarrow> bool result" where
  "apply_op env op actual expected =
     (if op = ''eq'' then Inr (py_eq actual expected)
      else if op = ''ne'' then Inr (\<not> py_eq actual expected)
      else if actual = PyNone then Inr False
      else if op = ''lt'' then compare_numbers env pyfloat_lt actual expected
      else if op = ''lte'' then compare_numbers env pyfloat_le actual expected
      else if op = ''gt'' then compare_numbers env (\<lambda>x y. pyfloat_lt y x) actual expected
      else if op = ''gte'' then compare_numbers env (\<lambda>x y. pyfloat_le y x) actual expected
      else if op = ''in'' then py_in actual (py_or expected (PyList []))
      else if op = ''regex'' then
        (case (actual, expected) of
           (PyStr s, PyStr p) \<Rightarrow>
             (case re_search env p s of None \<Rightarrow> Inr False | Some found \<Rightarrow> Inr found)
         | _ \<Rightarrow> Inr False)
      else if op = ''contains'' then py_in expected (py_or actual (PyList []))
      else if op = ''not_contains'' then
        bind_r (py_in expected (py_or actual (PyList []))) (\<lambda>b. Inr (\<not> b))
      else if op = ''any_of'' then
        any_r (\<lambda>item. py_in item (py_or actual (PyList []))) (as_items expected)
      else if op = ''none_of'' then
        bind_r (any_r (\<lambda>item. py_in item (py_or actual (PyList []))) (as_items expected))
          (\<lambda>b. Inr (\<not> b))
      else Inl ValueError)"

definition normalize_expected :: "pyval \<Rightarrow> pyval" where
  "normalize_expected e =
     (case e of
        PyList vs \<Rightarrow> PyList (map PyStr (List.map_filter py_language vs))
      | PyStr s \<Rightarrow> opt_val PyStr (normalize_language (Some s))
      | _ \<Rightarrow> e)"

definition eval_condition :: "pyenv \<Rightarrow> condition \<Rightarrow> eval_input \<Rightarrow> bool result" where
  "eval_condition env c i =
     (let v = get_field i (cond_field c) in
      if cond_field c \<in> {''audio_languages'', ''subtitle_languages''} then
        apply_op env (cond_op c)
          (PyList (map PyStr (normalize_languages (case v of PyList xs \<Rightarrow> xs | _ \<Rightarrow> []))))
          (normalize_expected (cond_value c))
      else apply_op env (cond_op c) v (cond_value c))"

fun eval_match :: "pyenv \<Rightarrow> match_node \<Rightarrow> eval_input \<Rightarrow> bool result" where
  "eval_match env (AllOf ms) i = all_r (\<lambda>m. eval_match env m i) ms"
| "eval_match env (AnyOf ms) i = any_r (\<lambda>m. eval_match env m i) ms"
| "eval_match env (Leaf c) i = eval_condition env c i"

section \<open>Actions\<close>

fun apply_action :: "eval_input \<Rightarrow> action \<Rightarrow> eval_result \<Rightarrow> eval_result result" where
  "apply_action i (SetSeverity s) res =
     (case severity_level s of
        None \<Rightarrow> Inl KeyError
      | Some rank \<Rightarrow>
          if rank > er_severity_rank res
          then Inr (res\<lparr>er_severity := Some s, er_severity_rank := rank\<rparr>) else Inr res)"
| "apply_action i (AddTag t) res = Inr (res\<lparr>er_add_tags := append_new t (er_add_tags res)\<rparr>)"
| "apply_action i (QueueOptimization p) res =
     Inr (res\<lparr>er_queue_optimizations := er_queue_optimizations res @ [p]\<rparr>)"
| "apply_action i (Notify c m t) res =
     Inr (res\<lparr>er_notifications :=
       er_notifications res @ [\<lparr>nt_channel = c, nt_message = m, nt_throttle = t\<rparr>]\<rparr>)"
| "apply_action i (Delete reason) res =
     Inr (res\<lparr>er_delete_paths := er_delete_paths res @ [ei_path i],
              er_delete_reasons := er_delete_reasons res @
                [case reason of Some r \<Rightarrow> (if r = [] then ''Deleted by rule'' else r)
                 | None \<Rightarrow> ''Deleted by rule'']\<rparr>)"
| "apply_action i VtLookup res = Inr (res\<lparr>er_vt_lookup_requested := True\<rparr>)"
| "apply_action i (SearchUpstream t iid) res =
     Inr (res\<lparr>er_search_upstream_requests :=
       er_search_upstream_requests res @ [\<lparr>sr_target = t, sr_integration_id = iid\<rparr>]\<rparr>)"

fun apply_actions :: "eval_input \<Rightarrow> action list \<Rightarrow> eval_result \<Rightarrow> eval_result result" where
  "apply_actions i [] res = Inr res"
| "apply_actions i (a # as) res = bind_r (apply_action i a res) (apply_actions i as)"

definition evaluate :: "pyenv \<Rightarrow> rule_definition \<Rightarrow> eval_input \<Rightarrow> eval_result result" where
  "evaluate env d i =
     bind_r (eval_match env (rd_match d) i) (\<lambda>m.
       if \<not> m then Inr (empty_result False None 0)
       else apply_actions i (rd_actions d) (empty_result True None 0))"

section \<open>Conditions that never raise\<close>

text \<open>The integer columns of a media row are 64-bit (\<open>BigInteger\<close>).\<close>

definition int64_ok :: "int option \<Rightarrow> bool" where
  "int64_ok x = (case x of None \<Rightarrow> True | Some n \<Rightarrow> - (2 ^ 63) \<le> n \<and> n < 2 ^ 63)"

definition input_ok :: "eval_input \<Rightarrow> bool" where
  "input_ok i = (int64_ok (ei_width i) \<and> int64_ok (ei_height i) \<and> int64_ok (ei_bitrate_kbps i)
     \<and> int64_ok (Some (ei_size_bytes i)))"

text \<open>The values an operand must have for the operator not to raise: a number for an ordering,
  a container for \<open>in\<close>.  Validation asks for neither.\<close>

fun is_container :: "pyval \<Rightarrow> bool" where
  "is_container (PyList _) = True"
| "is_container (PyStr _) = True"
| "is_container (PyDict _) = True"
| "is_container _ = False"

definition condition_safe :: "pyenv \<Rightarrow> condition \<Rightarrow> bool" where
  "condition_safe env c =
     ((cond_op c \<in> {''lt'', ''lte'', ''gt'', ''gte''} \<longrightarrow> is_ok (as_number env (cond_value c)))
      \<and> (cond_op c = ''in'' \<longrightarrow> is_container (py_or (cond_value c) (PyList []))))"

text \<open>The Boolean reading of a match tree over a valuation of its conditions.\<close>

fun sat :: "(condition \<Rightarrow> bool) \<Rightarrow> match_node \<Rightarrow> bool" where
  "sat p (AllOf ms) = (\<forall>m\<in>set ms. sat p m)"
| "sat p (AnyOf ms) = (\<exists>m\<in>set ms. sat p m)"
| "sat p (Leaf c) = p c"

lemma bitlen_power_le: "0 < m \<Longrightarrow> 53 < bitlen m \<Longrightarrow> 2 ^ nat (bitlen m - 53) \<le> (m::int)"
proof -
  assume "0 < m" "53 < bitlen m"
  then have "(2::int) ^ nat (bitlen m - 53) \<le> 2 ^ nat (bitlen m - 1)"
    by (intro power_increasing) auto
  also have "\<dots> \<le> m"
    using bitlen_bounds [of m] \<open>0 < m\<close> by simp
  finally show ?thesis .
qed

lemma float_of_int_ok:
  assumes "\<bar>n\<bar> < 2 ^ 1023"
  shows "\<exists>r. float_of_int n = Inr r"
proof -
  let ?m = "\<bar>n\<bar>"
  let ?k = "nat (bitlen ?m - 53)"
  let ?q = "?m div 2 ^ ?k"
  have m: "?q * 2 ^ ?k \<le> ?m"
    by (metis (no_types, opaque_lifting) abs_ge_zero div_mult_mod_eq le_add_same_cancel1
        pos_mod_sign zero_less_numeral zero_less_power)
  have step: "(?q + 1) * 2 ^ ?k \<le> 2 * ?m" if "0 < ?k"
  proof -
    have "0 < ?m"
    proof (rule ccontr)
      assume "\<not> 0 < ?m"
      then have "?m = 0" by simp
      with that show False by (simp add: bitlen_def floorlog_def)
    qed
    then have "2 ^ ?k \<le> ?m" using that by (intro bitlen_power_le) auto
    then show ?thesis using m by (simp add: distrib_right)
  qed
  have big: "2 * ?m < 2 ^ 1024" using assms by simp
  have "?m < 2 ^ 1024" using assms by simp
  with m step big show ?thesis
    unfolding float_of_int_def Let_def by (smt (verit, best) assms)
qed

lemma as_number_int64: "int64_ok (Some n) \<Longrightarrow> is_ok (as_number env (PyInt n))"
proof -
  assume "int64_ok (Some n)"
  then have "\<bar>n\<bar> \<le> 2 ^ 63" by (simp add: int64_ok_def abs_if)
  also have "\<dots> < (2::int) ^ 1023" by simp
  finally obtain r where "float_of_int n = Inr r" using float_of_int_ok by blast
  then show ?thesis by (simp add: as_number_def)
qed

lemma as_number_opt:
  "int64_ok x \<Longrightarrow> opt_val PyInt x = PyNone \<or> is_ok (as_number env (opt_val PyInt x))"
  "opt_val PyFloat y = PyNone \<or> is_ok (as_number env (opt_val PyFloat y))"
  by (cases x; simp add: opt_val_def as_number_int64)
     (cases y; simp add: opt_val_def as_number_def)

lemma get_field_numeric:
  assumes "f \<in> set NUMERIC_FIELDS" "input_ok i"
  shows "get_field i f = PyNone \<or> is_ok (as_number env (get_field i f))"
proof -
  have ok: "int64_ok (ei_width i)" "int64_ok (ei_height i)" "int64_ok (ei_bitrate_kbps i)"
    "int64_ok (Some (ei_size_bytes i))"
    using assms(2) by (simp_all add: input_ok_def)
  have "f = ''width'' \<or> f = ''height'' \<or> f = ''duration_seconds'' \<or> f = ''bitrate_kbps''
    \<or> f = ''framerate'' \<or> f = ''size_bytes''"
    using assms(1) unfolding NUMERIC_FIELDS_def by simp
  then show ?thesis
    by (elim disjE) (simp_all add: get_field_def as_number_opt as_number_int64 ok)
qed

lemma get_field_array:
  "f \<in> set ARRAY_FIELDS \<Longrightarrow> \<exists>xs. get_field i f = PyList xs"
  by (auto simp: ARRAY_FIELDS_def get_field_def)

lemma get_field_string:
  "f \<in> set SUPPORTED_FIELDS \<Longrightarrow> f \<notin> set NUMERIC_FIELDS \<Longrightarrow> f \<notin> set BOOL_FIELDS \<Longrightarrow>
   f \<notin> set ARRAY_FIELDS \<Longrightarrow> get_field i f = PyNone \<or> (\<exists>s. get_field i f = PyStr s)"
  by (auto simp: vocabulary_defs get_field_def opt_val_def split: option.splits)

lemma py_in_list_ok: "is_ok (py_in x (py_or (PyList xs) (PyList [])))"
  by (simp add: py_or_def)

lemma any_r_ok: "(\<And>x. x \<in> set xs \<Longrightarrow> is_ok (f x)) \<Longrightarrow> is_ok (any_r f xs)"
  by (induction xs) (fastforce split: sum.splits)+

lemma all_r_ok: "(\<And>x. x \<in> set xs \<Longrightarrow> is_ok (f x)) \<Longrightarrow> is_ok (all_r f xs)"
  by (induction xs) (fastforce split: sum.splits)+

lemma is_ok_bind: "is_ok m \<Longrightarrow> (\<And>x. is_ok (f x)) \<Longrightarrow> is_ok (bind_r m f)"
  by (cases m) auto

text \<open>One equation per operator.\<close>

lemma apply_op_simps [py_simps]:
  "apply_op env ''eq'' v e = Inr (py_eq v e)"
  "apply_op env ''ne'' v e = Inr (\<not> py_eq v e)"
  "apply_op env ''lt'' v e =
     (if v = PyNone then Inr False else compare_numbers env pyfloat_lt v e)"
  "apply_op env ''lte'' v e =
     (if v = PyNone then Inr False else compare_numbers env pyfloat_le v e)"
  "apply_op env ''gt'' v e =
     (if v = PyNone then Inr False else compare_numbers env (\<lambda>x y. pyfloat_lt y x) v e)"
  "apply_op env ''gte'' v e =
     (if v = PyNone then Inr False else compare_numbers env (\<lambda>x y. pyfloat_le y x) v e)"
  "apply_op env ''in'' v e =
     (if v = PyNone then Inr False else py_in v (py_or e (PyList [])))"
  by (simp_all add: apply_op_def)

lemma apply_op_set_simps [py_simps]:
  "apply_op env ''contains'' (PyList xs) e = py_in e (py_or (PyList xs) (PyList []))"
  "apply_op env ''not_contains'' (PyList xs) e =
     bind_r (py_in e (py_or (PyList xs) (PyList []))) (\<lambda>b. Inr (\<not> b))"
  "apply_op env ''any_of'' (PyList xs) e =
     any_r (\<lambda>item. py_in item (py_or (PyList xs) (PyList []))) (as_items e)"
  "apply_op env ''none_of'' (PyList xs) e =
     bind_r (any_r (\<lambda>item. py_in item (py_or (PyList xs) (PyList []))) (as_items e))
       (\<lambda>b. Inr (\<not> b))"
  by (simp_all add: apply_op_def)

lemma apply_op_regex_ok: "is_ok (apply_op env ''regex'' v e)"
  by (simp add: apply_op_def split: pyval.split option.split)

lemma apply_op_set_ok:
  assumes "op \<in> set SET_OPS"
  shows "is_ok (apply_op env op (PyList xs) e)"
proof -
  have "is_ok (any_r (\<lambda>item. py_in item (py_or (PyList xs) (PyList []))) ys)" for ys
    by (intro any_r_ok py_in_list_ok)
  then show ?thesis
    using assms by (auto simp: SET_OPS_def apply_op_set_simps py_in_list_ok is_ok_bind)
qed

lemma py_in_container_ok: "is_container c \<Longrightarrow> is_ok (py_in (PyStr s) c)"
  by (cases c) auto

lemma apply_op_string_ok:
  assumes "op \<in> set STRING_OPS" "v = PyNone \<or> (\<exists>s. v = PyStr s)"
    and "op = ''in'' \<Longrightarrow> is_container (py_or e (PyList []))"
  shows "is_ok (apply_op env op v e)"
  using assms
  by (auto simp: STRING_OPS_def apply_op_simps apply_op_regex_ok py_in_container_ok)

lemma compare_numbers_ok:
  "is_ok (as_number env v) \<Longrightarrow> is_ok (as_number env e) \<Longrightarrow> is_ok (compare_numbers env cmp v e)"
  by (simp add: compare_numbers_def is_ok_bind)

lemma apply_op_numeric_ok:
  assumes "op \<in> set NUMERIC_OPS" "v = PyNone \<or> is_ok (as_number env v)"
    and "op \<in> {''lt'', ''lte'', ''gt'', ''gte''} \<Longrightarrow> is_ok (as_number env e)"
  shows "is_ok (apply_op env op v e)"
  using assms by (auto simp: NUMERIC_OPS_def apply_op_simps compare_numbers_ok)

lemma eval_condition_ok:
  assumes val: "validate_condition c = Inr ()" and inp: "input_ok i" and safe: "condition_safe env c"
  shows "is_ok (eval_condition env c i)"
proof -
  let ?f = "cond_field c" and ?v = "get_field i (cond_field c)"
  have sup: "?f \<in> set SUPPORTED_FIELDS" and op: "cond_op c \<in> set (ops_for_field ?f)"
    using validate_condition_op [OF val] by simp_all
  consider (num) "?f \<in> set NUMERIC_FIELDS" | (bool) "?f \<in> set BOOL_FIELDS" "?f \<notin> set NUMERIC_FIELDS"
    | (array) "?f \<in> set ARRAY_FIELDS" "?f \<notin> set NUMERIC_FIELDS" "?f \<notin> set BOOL_FIELDS"
    | (str) "?f \<notin> set NUMERIC_FIELDS" "?f \<notin> set BOOL_FIELDS" "?f \<notin> set ARRAY_FIELDS"
    by blast
  then show ?thesis
  proof cases
    case num
    then have nl: "?f \<notin> {''audio_languages'', ''subtitle_languages''}"
      by (auto simp: NUMERIC_FIELDS_def)
    have "is_ok (apply_op env (cond_op c) ?v (cond_value c))"
      using num op safe get_field_numeric [OF num inp]
      by (intro apply_op_numeric_ok) (auto simp: ops_for_field_def condition_safe_def)
    with nl show ?thesis by (simp add: eval_condition_def Let_def)
  next
    case bool
    then have "?f \<notin> {''audio_languages'', ''subtitle_languages''}" and "cond_op c \<in> {''eq'', ''ne''}"
      using op by (auto simp: BOOL_FIELDS_def BOOL_OPS_def ops_for_field_def)
    then show ?thesis by (auto simp: eval_condition_def apply_op_def Let_def)
  next
    case array
    then obtain xs where v: "?v = PyList xs" using get_field_array by blast
    have "cond_op c \<in> set SET_OPS" using array op by (simp add: ops_for_field_def)
    with v show ?thesis by (simp add: eval_condition_def apply_op_set_ok Let_def)
  next
    case str
    then have nl: "?f \<notin> {''audio_languages'', ''subtitle_languages''}"
      by (auto simp: ARRAY_FIELDS_def)
    have "is_ok (apply_op env (cond_op c) ?v (cond_value c))"
      using str op safe get_field_string [OF sup str]
      by (intro apply_op_string_ok) (auto simp: ops_for_field_def condition_safe_def)
    with nl show ?thesis by (simp add: eval_condition_def Let_def)
  qed
qed

lemma eval_match_sat:
  assumes "\<And>c. c \<in> set (leaves m) \<Longrightarrow> is_ok (eval_condition env c i)"
  shows "eval_match env m i = Inr (sat (\<lambda>c. eval_condition env c i = Inr True) m)"
  using assms
proof (induction m)
  case (AllOf ms)
  then have "eval_match env m i = Inr (sat (\<lambda>c. eval_condition env c i = Inr True) m)"
    if "m \<in> set ms" for m using that by auto
  then show ?case by (simp add: all_r_pure cong: all_r_cong)
next
  case (AnyOf ms)
  then have "eval_match env m i = Inr (sat (\<lambda>c. eval_condition env c i = Inr True) m)"
    if "m \<in> set ms" for m using that by auto
  then show ?case by (simp add: any_r_pure cong: any_r_cong)
next
  case (Leaf c)
  then have "is_ok (eval_condition env c i)" by simp
  then show ?case by (auto simp: is_ok_iff)
qed

lemma valid_rule_leaf:
  "valid_rule d \<Longrightarrow> c \<in> set (leaves (rd_match d)) \<Longrightarrow> validate_condition c = Inr ()"
  unfolding valid_rule_def by (metis model_validate_ok(1) validate_match_leaves)

definition rule_safe :: "pyenv \<Rightarrow> rule_definition \<Rightarrow> bool" where
  "rule_safe env d = (valid_rule d \<and> (\<forall>c\<in>set (leaves (rd_match d)). condition_safe env c))"

lemma eval_match_safe:
  assumes "rule_safe env d" "input_ok i"
  shows "eval_match env (rd_match d) i =
         Inr (sat (\<lambda>c. eval_condition env c i = Inr True) (rd_match d))"
  using assms unfolding rule_safe_def
  by (intro eval_match_sat eval_condition_ok) (auto dest: valid_rule_leaf)

section \<open>Language conditions\<close>

lemma set_map_filter_py_language:
  "set (List.map_filter py_language vs) = {n. \<exists>s. PyStr s \<in> set vs \<and> normalize_language (Some s) = Some n}"
  using set_normalize_languages [of vs] by (simp add: normalize_languages_eq)

lemma py_in_or_list: "py_in x (py_or (PyList ys) (PyList [])) = Inr (\<exists>y\<in>set ys. py_eq x y)"
  by (auto simp: py_or_def)

lemma py_eq_strs: "(\<exists>y\<in>PyStr ` set ns. py_eq x y) \<longleftrightarrow> (\<exists>n\<in>set ns. x = PyStr n)"
  by (auto simp: py_eq_PyStr_left)

section \<open>Actions of one rule\<close>

text \<open>The step of the action loop, and the severity an action asks for.\<close>

definition act :: "eval_input \<Rightarrow> action \<Rightarrow> eval_result \<Rightarrow> eval_result" where
  "act i a res = (case apply_action i a res of Inl _ \<Rightarrow> res | Inr r \<Rightarrow> r)"

fun action_rank :: "action \<Rightarrow> int option" where
  "action_rank (SetSeverity s) = severity_level s"
| "action_rank _ = None"

interpretation rule_severity: escalation er_severity_rank "act i" action_rank for i
proof
  fix a and s :: eval_result
  show "er_severity_rank (act i a s) =
        (case action_rank a of None \<Rightarrow> er_severity_rank s | Some r \<Rightarrow> max (er_severity_rank s) r)"
    by (cases a) (auto simp: act_def split: option.splits)
qed

lemma apply_action_valid: "validate_action a = Inr b \<Longrightarrow> apply_action i b res = Inr (act i b res)"
  by (cases a) (auto simp: act_def bind_r_Inr_iff split: option.splits if_splits)

lemma apply_actions_valid:
  "map_r validate_action as = Inr bs \<Longrightarrow> apply_actions i bs res = Inr (fold (act i) bs res)"
proof (induction as arbitrary: bs res)
  case (Cons a as)
  then obtain b bs' where "validate_action a = Inr b" "map_r validate_action as = Inr bs'"
    "bs = b # bs'" by (auto simp: bind_r_Inr_iff)
  with Cons.IH show ?case by (simp add: apply_action_valid)
qed simp

definition rule_matches :: "pyenv \<Rightarrow> rule_definition \<Rightarrow> eval_input \<Rightarrow> bool" where
  "rule_matches env d i = sat (\<lambda>c. eval_condition env c i = Inr True) (rd_match d)"

lemma evaluate_safe:
  assumes "rule_safe env d" "input_ok i"
  shows "evaluate env d i =
         Inr (if rule_matches env d i
              then fold (act i) (rd_actions d) (empty_result True None 0)
              else empty_result False None 0)"
proof -
  have "model_validate d = Inr d" using assms by (simp add: rule_safe_def valid_rule_def)
  then have "map_r validate_action (rd_actions d) = Inr (rd_actions d)"
    by (rule model_validate_ok)
  then show ?thesis
    by (simp add: evaluate_def eval_match_safe [OF assms] apply_actions_valid rule_matches_def)
qed

text \<open>Severity and rank always belong together.\<close>

definition severity_wf :: "eval_result \<Rightarrow> bool" where
  "severity_wf r =
     (case er_severity r of
        None \<Rightarrow> er_severity_rank r = 0
      | Some s \<Rightarrow> severity_level s = Some (er_severity_rank r))"

lemma severity_level_pos: "severity_level s = Some r \<Longrightarrow> 0 < r"
  by (auto simp: severity_level_def SEVERITY_LEVELS_def split: if_splits)

lemma severity_level_inj: "severity_level s = Some r \<Longrightarrow> severity_level t = Some r \<Longrightarrow> s = t"
  by (auto simp: severity_level_def SEVERITY_LEVELS_def split: if_splits)

lemma severity_wf_empty [simp]: "severity_wf (empty_result m None 0)"
  by (simp add: severity_wf_def empty_result_def)

lemma severity_wf_act: "severity_wf res \<Longrightarrow> severity_wf (act i a res)"
  by (cases a) (auto simp: act_def severity_wf_def split: option.splits)

lemma severity_wf_fold_act: "severity_wf res \<Longrightarrow> severity_wf (fold (act i) as res)"
  by (rule fold_invariant_mem) (auto intro: severity_wf_act)

lemma severity_wf_unique:
  "severity_wf r \<Longrightarrow> severity_wf s \<Longrightarrow> er_severity_rank r = er_severity_rank s \<Longrightarrow>
     er_severity r = er_severity s"
  by (auto simp: severity_wf_def split: option.splits
      dest: severity_level_pos severity_level_inj)

lemma severity_wf_merge: "severity_wf r \<Longrightarrow> severity_wf s \<Longrightarrow> severity_wf (merge_into r s)"
  by (auto simp: severity_wf_def merge_into_def Let_def split: option.splits)

section \<open>Merging the results of all rules\<close>

definition result_rank :: "eval_result \<Rightarrow> int option" where
  "result_rank r = (if er_severity r = None then None else Some (er_severity_rank r))"

interpretation file_severity: escalation er_severity_rank merge_into result_rank
  by unfold_locales (auto simp: merge_into_def result_rank_def Let_def)

lemma severity_wf_fold_merge:
  "(\<And>r. r \<in> set rs \<Longrightarrow> severity_wf r) \<Longrightarrow> severity_wf s \<Longrightarrow> severity_wf (fold merge_into rs s)"
  by (rule fold_invariant_mem) (auto intro: severity_wf_merge)

lemma set_append_new [simp]: "set (append_new t ts) = insert t (set ts)"
  by (auto simp: append_new_def)

lemma distinct_append_new [simp]: "distinct (append_new t ts) = distinct ts"
  by (auto simp: append_new_def)

lemma set_fold_append_new: "set (fold append_new ts us) = set ts \<union> set us"
  by (induction ts arbitrary: us) auto

lemma distinct_fold_append_new: "distinct (fold append_new ts us) = distinct us"
  by (induction ts arbitrary: us) auto

lemma merge_into_simps [simp]:
  "er_add_tags (merge_into r s) = fold append_new (er_add_tags r) (er_add_tags s)"
  "er_queue_optimizations (merge_into r s) = er_queue_optimizations s @ er_queue_optimizations r"
  "er_notifications (merge_into r s) = er_notifications s @ er_notifications r"
  "er_delete_paths (merge_into r s) = er_delete_paths s @ er_delete_paths r"
  "er_delete_reasons (merge_into r s) = er_delete_reasons s @ er_delete_reasons r"
  "er_vt_lookup_requested (merge_into r s) = (er_vt_lookup_requested r \<or> er_vt_lookup_requested s)"
  "er_search_upstream_requests (merge_into r s) =
     er_search_upstream_requests s @ er_search_upstream_requests r"
  "er_matched (merge_into r s) = er_matched s"
  by (simp_all add: merge_into_def Let_def)

lemma fold_merge_tags:
  "set (er_add_tags (fold merge_into rs s)) = set (er_add_tags s) \<union> (\<Union>r\<in>set rs. set (er_add_tags r))"
  by (induction rs arbitrary: s) (auto simp: set_fold_append_new)

lemma fold_merge_distinct:
  "distinct (er_add_tags (fold merge_into rs s)) = distinct (er_add_tags s)"
  by (induction rs arbitrary: s) (auto simp: distinct_fold_append_new)

lemma fold_merge_lists:
  "er_delete_paths (fold merge_into rs s) = er_delete_paths s @ concat (map er_delete_paths rs)"
  "er_delete_reasons (fold merge_into rs s) = er_delete_reasons s @ concat (map er_delete_reasons rs)"
  "er_notifications (fold merge_into rs s) = er_notifications s @ concat (map er_notifications rs)"
  "er_queue_optimizations (fold merge_into rs s) =
     er_queue_optimizations s @ concat (map er_queue_optimizations rs)"
  "er_search_upstream_requests (fold merge_into rs s) =
     er_search_upstream_requests s @ concat (map er_search_upstream_requests rs)"
  by (induction rs arbitrary: s) simp_all

lemma fold_merge_vt:
  "er_vt_lookup_requested (fold merge_into rs s) =
     (er_vt_lookup_requested s \<or> (\<exists>r\<in>set rs. er_vt_lookup_requested r))"
  by (induction rs arbitrary: s) auto

section \<open>What one rule contributes\<close>

fun delete_reason :: "action \<Rightarrow> string option" where
  "delete_reason (Delete r) =
     Some (case r of Some t \<Rightarrow> (if t = [] then ''Deleted by rule'' else t) | None \<Rightarrow> ''Deleted by rule'')"
| "delete_reason _ = None"

lemma act_deletes:
  "er_delete_paths (act i a res) =
     er_delete_paths res @ (if is_delete a then [ei_path i] else [])"
  "er_delete_reasons (act i a res) =
     er_delete_reasons res @ (case delete_reason a of None \<Rightarrow> [] | Some t \<Rightarrow> [t])"
  by (cases a; auto simp: act_def split: option.splits)+

lemma fold_act_deletes:
  "er_delete_paths (fold (act i) as res) =
     er_delete_paths res @ replicate (length (filter is_delete as)) (ei_path i)"
  "er_delete_reasons (fold (act i) as res) =
     er_delete_reasons res @ List.map_filter delete_reason as"
proof (induction as arbitrary: res)
  case (Cons a as)
  { case 1 show ?case using Cons by (simp add: act_deletes) }
  { case 2 show ?case using Cons by (simp add: act_deletes List.map_filter_simps split: option.splits) }
qed (simp_all add: List.map_filter_simps)

lemma act_matched [simp]: "er_matched (act i a res) = er_matched res"
  by (cases a) (auto simp: act_def split: option.splits)

lemma fold_act_matched [simp]: "er_matched (fold (act i) as res) = er_matched res"
  by (rule fold_eq_const) simp

lemma evaluate_matched:
  "rule_safe env d \<Longrightarrow> input_ok i \<Longrightarrow> evaluate env d i = Inr r \<Longrightarrow>
     er_matched r \<longleftrightarrow> rule_matches env d i"
  by (auto simp: evaluate_safe empty_result_def split: if_splits)

section \<open>Properties\<close>

text \<open>C16. Evaluating a validated rule whose operands suit their operators never raises; it matches
  exactly when its match tree, read as a Boolean formula over its conditions, is true; and a rule
  that does not match asks for nothing.\<close>

theorem evaluate_matches_formula:
  assumes "rule_safe env d" "input_ok i"
  shows "\<exists>r. evaluate env d i = Inr r
    \<and> (er_matched r \<longleftrightarrow> sat (\<lambda>c. eval_condition env c i = Inr True) (rd_match d))
    \<and> (\<forall>c\<in>set (leaves (rd_match d)). is_ok (eval_condition env c i))
    \<and> (\<not> er_matched r \<longrightarrow> r = empty_result False None 0)"
proof -
  have "is_ok (eval_condition env c i)" if "c \<in> set (leaves (rd_match d))" for c
    using that assms by (auto simp: rule_safe_def intro: eval_condition_ok valid_rule_leaf)
  then show ?thesis
    using evaluate_safe [OF assms] by (auto simp: rule_matches_def empty_result_def)
qed

definition wide_definition :: rule_definition where
  "wide_definition =
     \<lparr>rd_match = AllOf [Leaf \<lparr>cond_field = ''width'', cond_op = ''gt'', cond_value = PyInt 1920\<rparr>],
      rd_actions = [SetSeverity ''warn''], acknowledged_destructive = False\<rparr>"

definition wide_input :: eval_input where
  "wide_input =
     \<lparr>ei_media_file_id = ''m'', ei_path = ''/m'', ei_filename = ''m'', ei_extension = ''mkv'',
      ei_category = ''media'', ei_container = None, ei_video_codec = None, ei_audio_codec = None,
      ei_subtitle_codec = None, ei_width = Some 3840, ei_height = None, ei_duration_seconds = None,
      ei_bitrate_kbps = None, ei_framerate = None, ei_size_bytes = 1, ei_has_subtitles = False,
      ei_is_orphaned = False, ei_subtitle_languages = [], ei_audio_languages = [PyStr ''eng''],
      ei_tags = [], ei_probe_failed = False, ei_vt_status = None\<rparr>"

theorem evaluate_matches_formula_witness:
  "\<exists>r. evaluate \<lparr>re_search = \<lambda>p s. None, float_str = \<lambda>s. None\<rparr> wide_definition wide_input = Inr r
     \<and> er_matched r"
proof -
  let ?env = "\<lparr>re_search = \<lambda>p s. None, float_str = \<lambda>s. None\<rparr>"
  have n: "as_number ?env (PyInt 1920) = Inr (Fin 1920)" "as_number ?env (PyInt 3840) = Inr (Fin 3840)"
    by code_simp+
  have v: "valid_rule wide_definition" unfolding valid_rule_def by code_simp
  have s: "rule_safe ?env wide_definition"
    using v n by (simp add: rule_safe_def condition_safe_def wide_definition_def)
  have i: "input_ok wide_input" by (simp add: input_ok_def int64_ok_def wide_input_def)
  show ?thesis
    using evaluate_matches_formula [OF s i] n
    by (auto simp: wide_definition_def eval_condition_def get_field_def wide_input_def opt_val_def
        apply_op_simps compare_numbers_def)
qed

definition has_language :: "eval_input \<Rightarrow> string \<Rightarrow> bool" where
  "has_language i u =
     (\<exists>t. PyStr t \<in> set (ei_audio_languages i) \<and> py_strip u \<noteq> []
       \<and> normalize_language (Some t) = normalize_language (Some u))"

text \<open>A language condition compares languages, not spellings: \<open>any_of\<close> holds exactly when some
  string of the file's list and some string of the rule's list denote the same language,
  \<open>none_of\<close> exactly when none do, and \<open>contains\<close>/\<open>not_contains\<close> are the same for one
  string.\<close>

theorem language_conditions:
  "eval_condition env \<lparr>cond_field = ''audio_languages'', cond_op = ''any_of'', cond_value = PyList es\<rparr> i
      = Inr (\<exists>u. PyStr u \<in> set es \<and> has_language i u)
    \<and> eval_condition env \<lparr>cond_field = ''audio_languages'', cond_op = ''none_of'', cond_value = PyList es\<rparr> i
      = Inr (\<not> (\<exists>u. PyStr u \<in> set es \<and> has_language i u))
    \<and> eval_condition env \<lparr>cond_field = ''audio_languages'', cond_op = ''contains'', cond_value = PyStr s\<rparr> i
      = Inr (has_language i s)
    \<and> eval_condition env \<lparr>cond_field = ''audio_languages'', cond_op = ''not_contains'', cond_value = PyStr s\<rparr> i
      = Inr (\<not> has_language i s)"
proof -
  let ?L = "normalize_languages (ei_audio_languages i)"
  have g: "get_field i ''audio_languages'' = PyList (ei_audio_languages i)" by (simp add: get_field_def)
  have mem: "normalize_language (Some u) = Some n \<Longrightarrow> n \<in> set ?L \<longleftrightarrow> has_language i u" for u n
    by (auto simp: set_normalize_languages has_language_def simp flip: normalize_language_None_iff)
  have none: "normalize_language (Some u) = None \<Longrightarrow> \<not> has_language i u" for u
    by (auto simp: has_language_def normalize_language_None_iff)
  have inn: "py_in x (py_or (PyList (map PyStr ?L)) (PyList [])) = Inr (\<exists>n\<in>set ?L. x = PyStr n)" for x
    by (auto simp: py_in_or_list py_eq_PyStr_left)
  have any: "any_r (\<lambda>x. py_in x (py_or (PyList (map PyStr ?L)) (PyList [])))
      (map PyStr (List.map_filter py_language es)) = Inr (\<exists>u. PyStr u \<in> set es \<and> has_language i u)"
  proof -
    have "(\<exists>x\<in>set (map PyStr (List.map_filter py_language es)). \<exists>n\<in>set ?L. x = PyStr n)
        \<longleftrightarrow> (\<exists>u. PyStr u \<in> set es \<and> has_language i u)"
      using mem none by (auto simp: set_map_filter_py_language) (metis not_None_eq)+
    then show ?thesis
      using any_r_pure [of "map PyStr (List.map_filter py_language es)" _
          "\<lambda>x. \<exists>n\<in>set ?L. x = PyStr n"] inn by simp
  qed
  have one: "py_in (opt_val PyStr (normalize_language (Some s)))
      (py_or (PyList (map PyStr ?L)) (PyList [])) = Inr (has_language i s)"
    using mem [of s] none [of s] unfolding inn
    by (cases "normalize_language (Some s)") (auto simp: opt_val_def)
  show ?thesis
    by (simp add: eval_condition_def g apply_op_set_simps normalize_expected_def as_items_def any one)
qed

end
