(* ===== verification/ProfileSchema.thy ===== *)
theory ProfileSchema
  imports Prelude
begin

text \<open>
  Optimization profiles (\<open>app/optimization/profile_schema.py\<close>): the typed settings document,
  its validation, and the schedule-window test the worker runs before it picks an item up.
  \<open>zoneinfo\<close> is a parameter: \<open>zone_hour name t\<close> is the wall-clock hour at
  instant \<open>t\<close> (microseconds since the epoch), \<open>None\<close> when the zone is unknown, an
  error when the key is malformed.
\<close>

section \<open>The settings document\<close>

definition SUPPORTED_VIDEO_CODECS :: "string list" where
  "SUPPORTED_VIDEO_CODECS = [''libx265'', ''libx264'', ''libaom-av1'', ''copy'']"

definition SUPPORTED_AUDIO_CODECS :: "string list" where
  "SUPPORTED_AUDIO_CODECS = [''libopus'', ''aac'', ''libmp3lame'', ''copy'']"

definition SUPPORTED_CONTAINERS :: "string list" where
  "SUPPORTED_CONTAINERS = [''mkv'', ''mp4'', ''webm'']"

definition TRANSCODE_SCOPE_VALUES :: "string list" where
  "TRANSCODE_SCOPE_VALUES = [''video_and_audio'', ''video_only'', ''audio_only'']"

definition ROUTING_TARGET_VALUES :: "string list" where
  "ROUTING_TARGET_VALUES = [''in_process'', ''plex'', ''jellyfin'', ''tdarr'']"

definition PRESETS :: "string list" where
  "PRESETS = [''ultrafast'', ''superfast'', ''veryfast'', ''faster'', ''fast'', ''medium'',
     ''slow'', ''slower'', ''veryslow'']"

text \<open>\<open>os.environ.get("TZ")\<close> and \<open>time.tzname[0]\<close> are the arguments.\<close>

definition default_schedule_timezone :: "string option \<Rightarrow> string option \<Rightarrow> string" where
  "default_schedule_timezone env_tz tzname0 =
     (case env_tz of
        Some tz \<Rightarrow> if tz \<noteq> [] then tz
                  else (case tzname0 of Some n \<Rightarrow> if n \<noteq> [] then n else ''UTC'' | None \<Rightarrow> ''UTC'')
      | None \<Rightarrow> (case tzname0 of Some n \<Rightarrow> if n \<noteq> [] then n else ''UTC'' | None \<Rightarrow> ''UTC''))"

record video_settings =
  vs_codec :: string
  vs_crf :: "int option"
  vs_preset :: "string option"
  vs_max_bitrate_kbps :: "int option"
  vs_scale_height :: "int option"

record audio_settings =
  as_codec :: string
  as_bitrate_kbps :: "int option"
  as_channels :: "int option"

record subtitle_settings =
  ss_handling :: string

record output_settings =
  os_container :: string
  os_replace_input :: bool
  os_keep_backup :: bool

record schedule_window =
  sw_start_hour :: int
  sw_end_hour :: int
  sw_timezone :: string

record profile_definition =
  pd_video :: video_settings
  pd_audio :: audio_settings
  pd_subtitles :: subtitle_settings
  pd_output :: output_settings
  pd_extra_args :: "string list"
  pd_skip_if_bitrate_below_kbps :: "int option"
  pd_transcode_scope :: string
  pd_tag_scope :: "string list"
  pd_routing_target :: string
  pd_schedule_window :: "schedule_window option"
  pd_provider_metadata :: "(string \<times> pyval) list"

section \<open>Validation\<close>

definition guard_r :: "bool \<Rightarrow> string \<Rightarrow> unit result" where
  "guard_r ok msg = (if ok then Inr () else Inl (ValidationError msg))"

definition opt_between :: "int \<Rightarrow> int \<Rightarrow> int option \<Rightarrow> bool" where
  "opt_between lo hi x = (case x of None \<Rightarrow> True | Some n \<Rightarrow> lo \<le> n \<and> n \<le> hi)"

definition validate_video :: "video_settings \<Rightarrow> unit result" where
  "validate_video v =
     bind_r (guard_r (vs_codec v \<in> set SUPPORTED_VIDEO_CODECS) ''codec'') (\<lambda>_.
     bind_r (guard_r (opt_between 0 51 (vs_crf v)) ''crf'') (\<lambda>_.
     bind_r (guard_r (case vs_preset v of None \<Rightarrow> True | Some p \<Rightarrow> p \<in> set PRESETS) ''preset'') (\<lambda>_.
     bind_r (guard_r (opt_between 64 200000 (vs_max_bitrate_kbps v)) ''max_bitrate_kbps'') (\<lambda>_.
     guard_r (opt_between 144 4320 (vs_scale_height v)) ''scale_height''))))"

definition validate_audio :: "audio_settings \<Rightarrow> unit result" where
  "validate_audio a =
     bind_r (guard_r (as_codec a \<in> set SUPPORTED_AUDIO_CODECS) ''codec'') (\<lambda>_.
     bind_r (guard_r (opt_between 24 2048 (as_bitrate_kbps a)) ''bitrate_kbps'') (\<lambda>_.
     guard_r (opt_between 1 8 (as_channels a)) ''channels''))"

definition validate_subtitles :: "subtitle_settings \<Rightarrow> unit result" where
  "validate_subtitles s = guard_r (ss_handling s \<in> {''copy'', ''drop''}) ''handling''"

definition validate_output :: "output_settings \<Rightarrow> unit result" where
  "validate_output out = guard_r (os_container out \<in> set SUPPORTED_CONTAINERS) ''container''"

definition validate_window :: "schedule_window option \<Rightarrow> unit result" where
  "validate_window w =
     (case w of None \<Rightarrow> Inr ()
      | Some x \<Rightarrow>
          bind_r (guard_r (0 \<le> sw_start_hour x \<and> sw_start_hour x \<le> 23) ''start_hour'') (\<lambda>_.
          bind_r (guard_r (0 \<le> sw_end_hour x \<and> sw_end_hour x \<le> 23) ''end_hour'') (\<lambda>_.
          guard_r (sw_timezone x \<noteq> []) ''timezone'')))"

fun tag_scope_loop :: "string set \<Rightarrow> string list \<Rightarrow> string list result" where
  "tag_scope_loop seen [] = Inr []"
| "tag_scope_loop seen (tag # tags) =
     (if py_strip tag = [] then Inl (ValidationError ''tag_scope entry empty'')
      else if 64 < py_len tag then Inl (ValidationError ''tag_scope entry too long'')
      else if tag \<in> seen then tag_scope_loop seen tags
      else bind_r (tag_scope_loop (insert tag seen) tags) (\<lambda>rest. Inr (tag # rest)))"

definition validate_tag_scope :: "string list \<Rightarrow> string list result" where
  "validate_tag_scope v = tag_scope_loop {} v"

definition validate_scope_codec_compat :: "profile_definition \<Rightarrow> unit result" where
  "validate_scope_codec_compat p =
     (if pd_transcode_scope p = ''audio_only'' \<and> as_codec (pd_audio p) = ''copy''
      then Inl (ValidationError ''audio_only requires a re-encoder'')
      else if pd_transcode_scope p = ''video_only'' \<and> vs_codec (pd_video p) = ''copy''
      then Inl (ValidationError ''video_only requires a re-encoder'')
      else Inr ())"

definition validate_routing_target :: "profile_definition \<Rightarrow> unit result" where
  "validate_routing_target p =
     (if pd_routing_target p = ''jellyfin'' then Inl (ValidationError ''jellyfin is not supported'')
      else if pd_routing_target p = ''tdarr'' then
        (case map_of (pd_provider_metadata p) ''provider_profile_id'' of
           Some (PyStr s) \<Rightarrow>
             if py_strip s = [] then Inl (ValidationError ''provider_profile_id required'') else Inr ()
         | _ \<Rightarrow> Inl (ValidationError ''provider_profile_id required''))
      else Inr ())"

definition validate_profile :: "profile_definition \<Rightarrow> profile_definition result" where
  "validate_profile p =
     bind_r (validate_video (pd_video p)) (\<lambda>_.
     bind_r (validate_audio (pd_audio p)) (\<lambda>_.
     bind_r (validate_subtitles (pd_subtitles p)) (\<lambda>_.
     bind_r (validate_output (pd_output p)) (\<lambda>_.
     bind_r (guard_r (opt_between 0 200000 (pd_skip_if_bitrate_below_kbps p)) ''skip_if_bitrate'') (\<lambda>_.
     bind_r (guard_r (pd_transcode_scope p \<in> set TRANSCODE_SCOPE_VALUES) ''transcode_scope'') (\<lambda>_.
     bind_r (validate_tag_scope (pd_tag_scope p)) (\<lambda>tags.
     bind_r (guard_r (pd_routing_target p \<in> set ROUTING_TARGET_VALUES) ''routing_target'') (\<lambda>_.
     bind_r (validate_window (pd_schedule_window p)) (\<lambda>_.
     let q = p\<lparr>pd_tag_scope := tags\<rparr> in
     bind_r (validate_scope_codec_compat q) (\<lambda>_.
     bind_r (validate_routing_target q) (\<lambda>_. Inr q)))))))))))"

section \<open>Schedule windows\<close>

definition utc_hour :: "int \<Rightarrow> int" where
  "utc_hour now = (now div 3600000000) mod 24"

definition schedule_window_is_open ::
    "(string \<Rightarrow> int \<Rightarrow> int option result) \<Rightarrow> schedule_window option \<Rightarrow> int \<Rightarrow> bool result" where
  "schedule_window_is_open zone_hour window now =
     (case window of None \<Rightarrow> Inr True
      | Some w \<Rightarrow>
          if sw_start_hour w = sw_end_hour w then Inr True
          else bind_r (zone_hour (sw_timezone w) now) (\<lambda>z.
            let h = (case z of Some lh \<Rightarrow> lh | None \<Rightarrow> utc_hour now) in
            if sw_start_hour w < sw_end_hour w
            then Inr (sw_start_hour w \<le> h \<and> h < sw_end_hour w)
            else Inr (sw_start_hour w \<le> h \<or> h < sw_end_hour w)))"

section \<open>What validation guarantees\<close>

lemma guard_r_ok [simp]: "guard_r b m = Inr u \<longleftrightarrow> b"
  by (auto simp: guard_r_def)

lemma tag_scope_loop_ok:
  "tag_scope_loop seen tags = Inr out \<longleftrightarrow>
     (\<forall>t\<in>set tags. py_strip t \<noteq> [] \<and> py_len t \<le> 64) \<and> out = dedup_seen seen tags"
  by (induction tags arbitrary: seen out) (auto simp: bind_r_Inr_iff)

lemma validate_tag_scope_ok:
  "validate_tag_scope tags = Inr out \<longleftrightarrow>
     (\<forall>t\<in>set tags. py_strip t \<noteq> [] \<and> py_len t \<le> 64) \<and> out = dedup tags"
  by (simp add: validate_tag_scope_def tag_scope_loop_ok dedup_def)

lemmas profile_validators = validate_video_def validate_audio_def validate_subtitles_def
  validate_output_def validate_window_def validate_scope_codec_compat_def
  validate_routing_target_def

lemma validate_profile_ok:
  "validate_profile p = Inr q \<Longrightarrow>
     validate_tag_scope (pd_tag_scope p) = Inr (pd_tag_scope q) \<and> q = p\<lparr>pd_tag_scope := pd_tag_scope q\<rparr>
     \<and> pd_routing_target q \<in> set ROUTING_TARGET_VALUES \<and> pd_routing_target q \<noteq> ''jellyfin''
     \<and> validate_scope_codec_compat q = Inr () \<and> validate_routing_target q = Inr ()
     \<and> validate_video (pd_video q) = Inr () \<and> validate_audio (pd_audio q) = Inr ()
     \<and> validate_output (pd_output q) = Inr () \<and> validate_window (pd_schedule_window q) = Inr ()"
  by (auto simp: validate_profile_def bind_r_Inr_iff Let_def)
     (simp add: validate_routing_target_def)

lemma validate_profile_stable:
  assumes "validate_profile p = Inr q"
  shows "validate_profile q = Inr q"
proof -
  from validate_profile_ok [OF assms]
  have t: "validate_tag_scope (pd_tag_scope p) = Inr (pd_tag_scope q)"
    and q: "q = p\<lparr>pd_tag_scope := pd_tag_scope q\<rparr>" by simp_all
  from t have "validate_tag_scope (pd_tag_scope q) = Inr (pd_tag_scope q)"
    by (auto simp: validate_tag_scope_ok)
  with assms q show ?thesis
    by (auto simp: validate_profile_def bind_r_Inr_iff Let_def)
qed

text \<open>The hours in which a window with distinct ends is open are the cyclic interval from the
  start hour up to the end hour.\<close>

lemma window_cyclic:
  assumes "0 \<le> a" "a \<le> 23" "0 \<le> b" "b \<le> 23" "0 \<le> h" "h < 24" "a \<noteq> (b::int)"
  shows "(if a < b then a \<le> h \<and> h < b else a \<le> h \<or> h < b) \<longleftrightarrow> (h - a) mod 24 < (b - a) mod 24"
proof -
  have *: "(x::int) mod 24 = (if 0 \<le> x then x else x + 24)" if "-24 \<le> x" "x < 24" for x
  proof (cases "0 \<le> x")
    case True
    with that show ?thesis by simp
  next
    case False
    then have "x mod 24 = (x + 24) mod 24" by simp
    also have "\<dots> = x + 24" using that False by (intro mod_pos_pos_trivial) auto
    finally show ?thesis using False by simp
  qed
  have "(h - a) mod 24 = (if a \<le> h then h - a else h - a + 24)"
    using * [of "h - a"] assms by auto
  moreover have "(b - a) mod 24 = (if a \<le> b then b - a else b - a + 24)"
    using * [of "b - a"] assms by auto
  ultimately show ?thesis using assms by (auto split: if_splits)
qed

section \<open>Properties\<close>

text \<open>A validated window with distinct ends is open exactly in the hours of the cyclic interval
  from its start hour, inclusive, to its end hour, exclusive, read in its zone (UTC when the zone is
  unknown); so a window and the one with its ends swapped are never open together and never closed
  together.\<close>

theorem schedule_window_cyclic:
  assumes "validate_window (Some w) = Inr ()" "sw_start_hour w \<noteq> sw_end_hour w"
    "zone_hour (sw_timezone w) now = Inr z" "case z of None \<Rightarrow> True | Some h \<Rightarrow> 0 \<le> h \<and> h < 24"
  defines "h \<equiv> (case z of Some lh \<Rightarrow> lh | None \<Rightarrow> utc_hour now)"
  shows "schedule_window_is_open zone_hour (Some w) now =
      Inr ((h - sw_start_hour w) mod 24 < (sw_end_hour w - sw_start_hour w) mod 24)
    \<and> schedule_window_is_open zone_hour
        (Some (w\<lparr>sw_start_hour := sw_end_hour w, sw_end_hour := sw_start_hour w\<rparr>)) now =
      Inr (\<not> (h - sw_start_hour w) mod 24 < (sw_end_hour w - sw_start_hour w) mod 24)"
proof -
  have b: "0 \<le> sw_start_hour w" "sw_start_hour w \<le> 23" "0 \<le> sw_end_hour w" "sw_end_hour w \<le> 23"
    using assms(1) by (auto simp: validate_window_def bind_r_Inr_iff)
  have h: "0 \<le> h" "h < 24" using assms(4) by (auto simp: h_def utc_hour_def split: option.splits)
  have "(if sw_start_hour w < sw_end_hour w then sw_start_hour w \<le> h \<and> h < sw_end_hour w
         else sw_start_hour w \<le> h \<or> h < sw_end_hour w) =
      ((h - sw_start_hour w) mod 24 < (sw_end_hour w - sw_start_hour w) mod 24)"
    using b h assms(2) by (intro window_cyclic) auto
  then show ?thesis
    using assms(2,3) unfolding schedule_window_is_open_def h_def [symmetric]
    by (auto simp: Let_def h_def [symmetric] split: if_splits)
qed

theorem schedule_window_cyclic_witness:
  "schedule_window_is_open (\<lambda>tz now. Inr None)
     (Some \<lparr>sw_start_hour = 22, sw_end_hour = 2, sw_timezone = ''UTC''\<rparr>) (23 * 3600000000) = Inr True"
  using schedule_window_cyclic [of "\<lparr>sw_start_hour = 22, sw_end_hour = 2, sw_timezone = ''UTC''\<rparr>"
      "\<lambda>tz now. Inr None" "23 * 3600000000" None]
  by (simp add: validate_window_def utc_hour_def guard_r_def)

text \<open>A profile that validates does so again unchanged, never targets Jellyfin, always leaves
  work for its scope, and its tag scope has no duplicates and no blank or over-long tag.\<close>

theorem validate_profile_sound:
  assumes "validate_profile p = Inr q"
  shows "validate_profile q = Inr q \<and> pd_routing_target q \<noteq> ''jellyfin''
    \<and> (pd_transcode_scope q = ''audio_only'' \<longrightarrow> as_codec (pd_audio q) \<noteq> ''copy'')
    \<and> (pd_transcode_scope q = ''video_only'' \<longrightarrow> vs_codec (pd_video q) \<noteq> ''copy'')
    \<and> distinct (pd_tag_scope q) \<and> set (pd_tag_scope q) = set (pd_tag_scope p)
    \<and> (\<forall>t\<in>set (pd_tag_scope q). py_strip t \<noteq> [] \<and> py_len t \<le> 64)"
proof -
  note ok = validate_profile_ok [OF assms]
  from ok have "pd_tag_scope q = dedup (pd_tag_scope p)"
    "\<forall>t\<in>set (pd_tag_scope p). py_strip t \<noteq> [] \<and> py_len t \<le> 64"
    by (simp_all add: validate_tag_scope_ok)
  with ok validate_profile_stable [OF assms] show ?thesis
    by (auto simp: validate_scope_codec_compat_def split: if_splits)
qed

definition default_profile :: profile_definition where
  "default_profile =
     \<lparr>pd_video = \<lparr>vs_codec = ''libx265'', vs_crf = Some 22, vs_preset = Some ''medium'',
        vs_max_bitrate_kbps = None, vs_scale_height = None\<rparr>,
      pd_audio = \<lparr>as_codec = ''copy'', as_bitrate_kbps = Some 128, as_channels = None\<rparr>,
      pd_subtitles = \<lparr>ss_handling = ''copy''\<rparr>,
      pd_output = \<lparr>os_container = ''mkv'', os_replace_input = True, os_keep_backup = True\<rparr>,
      pd_extra_args = [], pd_skip_if_bitrate_below_kbps = None,
      pd_transcode_scope = ''video_and_audio'', pd_tag_scope = [], pd_routing_target = ''in_process'',
      pd_schedule_window = None, pd_provider_metadata = []\<rparr>"

theorem validate_profile_sound_witness:
  "\<exists>q. validate_profile (default_profile\<lparr>pd_tag_scope := [''hd'', ''hd'']\<rparr>) = Inr q
     \<and> distinct (pd_tag_scope q) \<and> pd_tag_scope q = [''hd'']"
proof -
  have "validate_profile (default_profile\<lparr>pd_tag_scope := [''hd'', ''hd'']\<rparr>) =
      Inr (default_profile\<lparr>pd_tag_scope := [''hd'']\<rparr>)"
    by code_simp
  from this validate_profile_sound [OF this] show ?thesis by simp
qed

end
