(* ===== verification/Tables.thy ===== *)
theory Tables
  imports Prelude
begin

text \<open>
  The repositories of the code base share one write pattern: SELECT the row with a given key,
  INSERT when there is none, otherwise mutate the row that was found.  A table is the list of its
  rows in insertion order; \<open>table_upsert\<close> is that pattern with the mutation as a parameter.
  The locale \<open>keyed_table\<close> is the contract of such a repository, \<open>replay_table\<close> the one of
  a repository whose write can be repeated without effect; each repository of the model is an
  interpretation of one of them.
\<close>

definition table_find :: "('r \<Rightarrow> 'k) \<Rightarrow> 'k \<Rightarrow> 'r list \<Rightarrow> 'r option" where
  "table_find key k t = find (\<lambda>r. key r = k) t"

definition table_upsert :: "('r \<Rightarrow> 'k) \<Rightarrow> ('r \<Rightarrow> 'r \<Rightarrow> 'r) \<Rightarrow> 'r \<Rightarrow> 'r list \<Rightarrow> 'r list" where
  "table_upsert key merge r t =
     (case table_find key (key r) t of
        None \<Rightarrow> t @ [r]
      | Some _ \<Rightarrow> map (\<lambda>x. if key x = key r then merge x r else x) t)"

definition unique_keys :: "('r \<Rightarrow> 'k) \<Rightarrow> 'r list \<Rightarrow> bool" where
  "unique_keys key t = distinct (map key t)"

lemma table_find_simps [simp, table_simps]:
  "table_find key k [] = None"
  "table_find key k (r # t) = (if key r = k then Some r else table_find key k t)"
  by (simp_all add: table_find_def)

lemma table_find_append:
  "table_find key k (t @ u) =
     (case table_find key k t of None \<Rightarrow> table_find key k u | Some r \<Rightarrow> Some r)"
  by (induction t) auto

lemma table_find_None_iff: "table_find key k t = None \<longleftrightarrow> k \<notin> key ` set t"
  by (induction t) auto

lemma table_find_Some_iff:
  "unique_keys key t \<Longrightarrow> table_find key k t = Some r \<longleftrightarrow> r \<in> set t \<and> key r = k"
  by (induction t) (auto simp: unique_keys_def image_iff)

lemma table_find_SomeD: "table_find key k t = Some r \<Longrightarrow> r \<in> set t \<and> key r = k"
  by (induction t) (auto split: if_splits)

lemma table_find_key: "table_find key k t = Some r \<Longrightarrow> k \<in> key ` set t"
  by (metis image_eqI table_find_SomeD)

lemma table_find_map:
  "(\<And>x. x \<in> set t \<Longrightarrow> key (f x) = key x) \<Longrightarrow>
     table_find key k (map f t) = map_option f (table_find key k t)"
  by (induction t) auto

lemma table_find_filter:
  "unique_keys key t \<Longrightarrow>
     table_find key k (filter P t) =
       (case table_find key k t of Some r \<Rightarrow> (if P r then Some r else None) | None \<Rightarrow> None)"
proof (induction t)
  case (Cons r t)
  then have uk: "unique_keys key t" and nk: "key r \<notin> key ` set t"
    by (auto simp: unique_keys_def)
  have "table_find key (key r) (filter P t) = None"
    using nk by (auto simp: table_find_None_iff)
  then show ?case using Cons.IH [OF uk] by auto
qed simp

lemma unique_keys_filter: "unique_keys key t \<Longrightarrow> unique_keys key (filter P t)"
  by (simp add: unique_keys_def distinct_map inj_on_def)

lemma unique_keys_map:
  "(\<And>x. x \<in> set t \<Longrightarrow> key (f x) = key x) \<Longrightarrow> unique_keys key (map f t) = unique_keys key t"
  by (induction t) (auto simp: unique_keys_def)

text \<open>An upsert is invisible to a query that selects neither the key nor what the merge makes of it.\<close>

lemma filter_upsert:
  assumes "\<not> P r" "\<And>x. key x = key r \<Longrightarrow> \<not> P x \<and> \<not> P (merge x r)"
  shows "filter P (table_upsert key merge r t) = filter P t"
proof -
  have "filter P (map (\<lambda>x. if key x = key r then merge x r else x) t) = filter P t"
    using assms(2) by (induction t) auto
  then show ?thesis using assms(1) by (simp add: table_upsert_def split: option.split)
qed

lemma set_upsert_cases:
  "x \<in> set (table_upsert key merge r t) \<Longrightarrow>
     x = r \<or> x \<in> set t \<or> (\<exists>y\<in>set t. key y = key r \<and> x = merge y r)"
  by (auto simp: table_upsert_def split: option.splits if_splits)

locale keyed_table =
  fixes key :: "'r \<Rightarrow> 'k"
    and merge :: "'r \<Rightarrow> 'r \<Rightarrow> 'r"
  assumes key_merge: "key x = key r \<Longrightarrow> key (merge x r) = key r"
begin

lemma key_update [simp]: "key (if key x = key r then merge x r else x) = key x"
  by (simp add: key_merge)

lemma upsert_keys:
  "key ` set (table_upsert key merge r t) = insert (key r) (key ` set t)"
proof (cases "table_find key (key r) t")
  case None
  then show ?thesis by (simp add: table_upsert_def)
next
  case (Some y)
  then have "key r \<in> key ` set t" by (rule table_find_key)
  moreover have "map key (table_upsert key merge r t) = map key t"
    using Some by (simp add: table_upsert_def)
  then have "key ` set (table_upsert key merge r t) = key ` set t"
    by (metis list.set_map)
  ultimately show ?thesis by auto
qed

lemma upsert_unique: "unique_keys key t \<Longrightarrow> unique_keys key (table_upsert key merge r t)"
proof (cases "table_find key (key r) t")
  case None
  assume "unique_keys key t"
  moreover from None have "key r \<notin> key ` set t" by (simp add: table_find_None_iff)
  ultimately show ?thesis using None by (simp add: table_upsert_def unique_keys_def)
next
  case (Some y)
  assume "unique_keys key t"
  with Some show ?thesis by (simp add: table_upsert_def unique_keys_map)
qed

lemma find_upsert:
  "table_find key k (table_upsert key merge r t) =
     (if k = key r
      then Some (case table_find key k t of None \<Rightarrow> r | Some x \<Rightarrow> merge x r)
      else table_find key k t)"
proof (cases "table_find key (key r) t")
  case None
  then show ?thesis by (auto simp: table_upsert_def table_find_append split: option.splits)
next
  case (Some y)
  show ?thesis
  proof (cases "table_find key k t")
    case None
    with Some show ?thesis
      by (auto simp: table_upsert_def table_find_map)
  next
    case (Some z)
    then have "key z = k" by (auto dest: table_find_SomeD)
    with Some \<open>table_find key (key r) t = Some y\<close> show ?thesis
      by (auto simp: table_upsert_def table_find_map)
  qed
qed

lemma upsert_length:
  "length (table_upsert key merge r t) =
     (if key r \<in> key ` set t then length t else Suc (length t))"
  by (auto simp: table_upsert_def table_find_None_iff split: option.splits dest: table_find_key)

lemma upsert_other:
  "filter (\<lambda>x. key x \<noteq> key r) (table_upsert key merge r t) = filter (\<lambda>x. key x \<noteq> key r) t"
proof (cases "table_find key (key r) t")
  case None
  then show ?thesis by (simp add: table_upsert_def)
next
  case (Some y)
  have "filter (\<lambda>x. key x \<noteq> key r) (map (\<lambda>x. if key x = key r then merge x r else x) t) =
        filter (\<lambda>x. key x \<noteq> key r) t"
    by (induction t) (auto simp: key_merge)
  with Some show ?thesis by (simp add: table_upsert_def)
qed

end

locale replay_table = keyed_table +
  assumes merge_replay: "key x = key r \<Longrightarrow> merge (merge x r) r = merge x r"
    and merge_self: "merge r r = r"
begin

lemma upsert_replay:
  "table_upsert key merge r (table_upsert key merge r t) = table_upsert key merge r t"
proof (cases "table_find key (key r) t")
  case None
  then have "\<forall>x\<in>set t. key x \<noteq> key r" by (simp add: table_find_None_iff image_iff) metis
  then have "map (\<lambda>x. if key x = key r then merge x r else x) t = t"
    by (simp add: map_idI)
  with None show ?thesis
    by (simp add: table_upsert_def table_find_append merge_self)
next
  case (Some y)
  then have "key y = key r" by (auto dest: table_find_SomeD)
  with Some show ?thesis
    by (auto simp: table_upsert_def table_find_map key_merge merge_replay)
qed

end

end
