(* ===== verification/Store.thy ===== *)
theory Store
  imports RuleSchema ProfileSchema Tables
begin

text \<open>
  The rows the services read and write (\<open>app/models/*.py\<close>) and the database of one
  session as the list of each table's rows in insertion order, together with what the services
  leave outside the database: the events on the bus and the files on disk.  Surrogate integer
  keys and the \<open>created_at\<close>/\<open>updated_at\<close> columns are left out; instants are
  microseconds since the epoch.  JSON columns with a schema hold the parsed document, \<open>None\<close>
  standing for a document that has not the shape of the schema.
\<close>

section \<open>Rows\<close>

record media_file =
  mf_id :: string
  mf_library_id :: string
  mf_path :: string
  mf_relative_path :: string
  mf_filename :: string
  mf_extension :: string
  mf_size_bytes :: int
  mf_mtime :: int
  mf_category :: string
  mf_severity :: string
  mf_severity_rank :: int
  mf_container :: "string option"
  mf_duration_seconds :: "pyfloat option"
  mf_bitrate_kbps :: "int option"
  mf_video_codec :: "string option"
  mf_audio_codec :: "string option"
  mf_subtitle_codec :: "string option"
  mf_width :: "int option"
  mf_height :: "int option"
  mf_framerate :: "pyfloat option"
  mf_has_subtitles :: bool
  mf_subtitle_languages :: "pyval list option"
  mf_audio_languages :: "pyval list option"
  mf_probe_failed :: bool
  mf_is_orphaned :: bool
  mf_hash_sha256 :: "string option"
  mf_vt_status :: "string option"
  mf_inode :: "int option"
  mf_probe :: "pyval option"
  mf_probe_error :: "string option"
  mf_last_scan_id :: "string option"
  mf_seen_at :: int
  mf_hash_computed_at :: "int option"
  mf_virustotal_result :: "(string \<times> pyval) list option"
  mf_virustotal_checked_at :: "int option"

record media_tag =
  mt_media_file_id :: string
  mt_name :: string
  mt_source :: string

record rule =
  ru_id :: string
  ru_name :: string
  ru_description :: "string option"
  ru_enabled :: bool
  ru_priority :: int
  ru_definition :: "rule_definition option"
  ru_is_builtin :: bool
  ru_last_evaluated_at :: "int option"
  ru_last_match_count :: int

record rule_evaluation =
  re_media_file_id :: string
  re_rule_id :: string
  re_severity :: string
  re_severity_rank :: int
  re_add_tags :: "string list"
  re_queue_optimizations :: "string list"
  re_notifications :: "(string \<times> string option \<times> notify_throttle option) list"
  re_evaluated_at :: int

record notif_window =
  nw_rule_id :: string
  nw_window_start :: int
  nw_window_end :: int
  nw_count :: int

record optimization_item =
  oi_id :: string
  oi_media_file_id :: string
  oi_profile :: string
  oi_status :: string
  oi_queued_by_rule_id :: "string option"
  oi_queued_at :: int
  oi_started_at :: "int option"
  oi_finished_at :: "int option"
  oi_progress_pct :: int
  oi_original_size_bytes :: "int option"
  oi_optimized_size_bytes :: "int option"
  oi_backup_path :: "string option"
  oi_metadata :: "(string \<times> pyval) list"
  oi_error :: "string option"

record optimization_profile =
  op_name :: string
  op_enabled :: bool
  op_settings :: "profile_definition option"
  op_max_input_bytes :: "int option"
  op_optimization_integration_id :: "string option"

record vt_queue_item =
  vq_media_file_id :: string
  vq_enqueued_at :: int
  vq_last_attempted_at :: "int option"
  vq_attempt_count :: int

record integration =
  ig_id :: string
  ig_name :: string
  ig_kind :: string
  ig_enabled :: bool
  ig_config :: "(string \<times> pyval) list"
  ig_secrets_ciphertext :: "string option"
  ig_health_status :: string
  ig_health_detail :: "string option"
  ig_health_checked_at :: "int option"

record integration_config =
  icf_integration_id :: string
  icf_name :: string
  icf_kind :: string
  icf_options :: "(string \<times> pyval) list"
  icf_secrets :: "(string \<times> pyval) list"

record notification_channel =
  nc_id :: string
  nc_name :: string
  nc_kind :: string
  nc_enabled :: bool
  nc_config :: "(string \<times> pyval) list"
  nc_secrets_ciphertext :: "string option"
  nc_min_severity_rank :: int
  nc_last_delivery_status :: "string option"
  nc_last_delivery_at :: "int option"
  nc_last_delivery_error :: "string option"

record notification_delivery =
  nd_id :: string
  nd_channel_id :: string
  nd_channel_name :: string
  nd_channel_kind :: string
  nd_status :: string
  nd_severity :: string
  nd_subject :: string
  nd_body :: string
  nd_context :: "(string \<times> pyval) list"
  nd_attempted_at :: int
  nd_completed_at :: "int option"
  nd_duration_ms :: "int option"
  nd_error :: "string option"

record audit_log_entry =
  al_action :: string
  al_actor_id :: "string option"
  al_actor_label :: "string option"
  al_target_type :: "string option"
  al_target_id :: "string option"
  al_metadata :: "(string \<times> pyval) list"

record domain_event =
  ev_name :: string
  ev_payload :: "(string \<times> pyval) list"
  ev_source :: string

record store =
  st_media :: "media_file list"
  st_tags :: "media_tag list"
  st_rules :: "rule list"
  st_evals :: "rule_evaluation list"
  st_windows :: "notif_window list"
  st_opt :: "optimization_item list"
  st_profiles :: "optimization_profile list"
  st_vt_queue :: "vt_queue_item list"
  st_integrations :: "integration list"
  st_channels :: "notification_channel list"
  st_deliveries :: "notification_delivery list"
  st_audit :: "audit_log_entry list"
  st_events :: "domain_event list"
  st_files :: "string list"
  st_libraries :: "string list"

section \<open>Writes every service shares\<close>

definition opt_str :: "string option \<Rightarrow> pyval" where
  "opt_str x = (case x of None \<Rightarrow> PyNone | Some s \<Rightarrow> PyStr s)"

text \<open>\<open>AuditService.record\<close> with the arguments the services pass.\<close>

definition audit_record ::
    "string \<Rightarrow> string option \<Rightarrow> string option \<Rightarrow> string option \<Rightarrow> string option
     \<Rightarrow> (string \<times> pyval) list \<Rightarrow> store \<Rightarrow> store" where
  "audit_record action actor_id actor_label target_type target_id metadata st =
     st\<lparr>st_audit := st_audit st @
       [\<lparr>al_action = action, al_actor_id = actor_id, al_actor_label = actor_label,
         al_target_type = target_type, al_target_id = target_id, al_metadata = metadata\<rparr>]\<rparr>"

text \<open>\<open>EventBus.emit\<close>: the event reaches the bus; what handlers do, and whether they raise,
  stays behind the bus.  \<open>bus\<close> is whether the service was built with one.\<close>

definition emit :: "bool \<Rightarrow> string \<Rightarrow> (string \<times> pyval) list \<Rightarrow> string \<Rightarrow> store \<Rightarrow> store" where
  "emit bus name payload source st =
     (if bus then st\<lparr>st_events := st_events st @
        [\<lparr>ev_name = name, ev_payload = payload, ev_source = source\<rparr>]\<rparr> else st)"

text \<open>Deleting a media row takes the rows that reference it (\<open>ON DELETE CASCADE\<close>) along.\<close>

definition delete_media :: "string \<Rightarrow> store \<Rightarrow> store" where
  "delete_media i st =
     st\<lparr>st_media := filter (\<lambda>m. mf_id m \<noteq> i) (st_media st),
        st_tags := filter (\<lambda>t. mt_media_file_id t \<noteq> i) (st_tags st),
        st_evals := filter (\<lambda>e. re_media_file_id e \<noteq> i) (st_evals st),
        st_opt := filter (\<lambda>q. oi_media_file_id q \<noteq> i) (st_opt st),
        st_vt_queue := filter (\<lambda>v. vq_media_file_id v \<noteq> i) (st_vt_queue st)\<rparr>"

lemma emit_simps [simp]:
  "st_media (emit b n p s st) = st_media st" "st_tags (emit b n p s st) = st_tags st"
  "st_rules (emit b n p s st) = st_rules st" "st_evals (emit b n p s st) = st_evals st"
  "st_windows (emit b n p s st) = st_windows st" "st_opt (emit b n p s st) = st_opt st"
  "st_profiles (emit b n p s st) = st_profiles st" "st_vt_queue (emit b n p s st) = st_vt_queue st"
  "st_integrations (emit b n p s st) = st_integrations st"
  "st_channels (emit b n p s st) = st_channels st"
  "st_deliveries (emit b n p s st) = st_deliveries st" "st_audit (emit b n p s st) = st_audit st"
  "st_files (emit b n p s st) = st_files st" "st_libraries (emit b n p s st) = st_libraries st"
  by (simp_all add: emit_def)

lemma audit_record_simps [simp]:
  "st_media (audit_record a ai al tt ti m st) = st_media st"
  "st_tags (audit_record a ai al tt ti m st) = st_tags st"
  "st_rules (audit_record a ai al tt ti m st) = st_rules st"
  "st_evals (audit_record a ai al tt ti m st) = st_evals st"
  "st_windows (audit_record a ai al tt ti m st) = st_windows st"
  "st_opt (audit_record a ai al tt ti m st) = st_opt st"
  "st_profiles (audit_record a ai al tt ti m st) = st_profiles st"
  "st_vt_queue (audit_record a ai al tt ti m st) = st_vt_queue st"
  "st_integrations (audit_record a ai al tt ti m st) = st_integrations st"
  "st_channels (audit_record a ai al tt ti m st) = st_channels st"
  "st_deliveries (audit_record a ai al tt ti m st) = st_deliveries st"
  "st_events (audit_record a ai al tt ti m st) = st_events st"
  "st_files (audit_record a ai al tt ti m st) = st_files st"
  "st_libraries (audit_record a ai al tt ti m st) = st_libraries st"
  "st_audit (audit_record a ai al tt ti m st) = st_audit st @
     [\<lparr>al_action = a, al_actor_id = ai, al_actor_label = al, al_target_type = tt,
       al_target_id = ti, al_metadata = m\<rparr>]"
  by (simp_all add: audit_record_def)

end
