(* ===== verification/Notifications.thy ===== *)
theory Notifications
  imports Store "HOL-Library.List_Lexorder" "HOL-Library.Char_ord"
begin

text \<open>
  Notification delivery (\<open>app/notifications/templating.py\<close>, \<open>manager.py\<close>,
  \<open>dispatcher.py\<close>): rendering with fall-back, provider lookup, configuration checks, one
  delivery, and the fan-out to every enabled channel.  Parameters (\<open>notify_env\<close>): Jinja's
  \<open>render\<close>, AES-GCM decryption, the pool of providers with their network \<open>send\<close>, the
  text of an exception, and the clock and row-id readings taken while a channel is served.
  An operation that can raise returns the outcome together with the state it leaves behind,
  because the rules service swallows the exception and keeps the session.
\<close>

section \<open>Types\<close>

record notification_message =
  nm_subject :: string
  nm_body :: string
  nm_severity :: string
  nm_severity_rank :: int
  nm_context :: "(string \<times> pyval) list"

record channel_config =
  cc_channel_id :: string
  cc_name :: string
  cc_kind :: string
  cc_options :: "(string \<times> pyval) list"
  cc_secrets :: "(string \<times> pyval) list"

record delivery_report =
  dr_status :: string
  dr_detail :: "string option"

record notification_provider =
  np_kind :: string
  np_required :: "string list"
  np_properties :: "string list"
  np_secret_fields :: "string list"
  np_send :: "channel_config \<Rightarrow> notification_message \<Rightarrow> delivery_report result"

record template_vars =
  tv_severity :: string
  tv_severity_rank :: int
  tv_rule_id :: string
  tv_rule_name :: string
  tv_media_file_id :: string
  tv_path :: pyval
  tv_filename :: pyval
  tv_library_name :: pyval
  tv_message :: string
  tv_time :: int
  tv_auto_delete :: bool

datatype rendered = Rendered string | TemplateError | RenderRaises pyerr

record notify_env =
  ne_render :: "string \<Rightarrow> template_vars \<Rightarrow> rendered"
  ne_decrypt :: "string \<Rightarrow> (string \<times> pyval) list result"
  ne_builtin_providers :: "notification_provider list"
  ne_registered_providers :: "notification_provider list"
  ne_exc_str :: "pyerr \<Rightarrow> string"
  ne_completed_at :: "string \<Rightarrow> int"
  ne_duration_ms :: "string \<Rightarrow> int"
  ne_new_id :: "nat \<Rightarrow> string"
  ne_bus :: bool

section \<open>Templating\<close>

definition DEFAULT_SUBJECT :: string where
  "DEFAULT_SUBJECT =
     ''[Auditarr] {{ severity|upper }} '' @ [CHR 0xC2, CHR 0xB7] @ '' {{ rule_name }}''"

definition DEFAULT_BODY :: string where
  "DEFAULT_BODY =
     ''{{ rule_name }} matched {{ filename }} (severity {{ severity }}).'' @ [CHR 0x0A, CHR 0x0A]
     @ ''File: {{ path }}'' @ [CHR 0x0A] @ ''Library: {{ library_name }}'' @ [CHR 0x0A]
     @ ''{% if auto_delete %}'' @ [CHR 0x0A, CHR 0x0A]
     @ ''[Auto-delete] No action required '' @ [CHR 0xE2, CHR 0x80, CHR 0x94]
     @ '' the file is being deleted by this rule.'' @ [CHR 0x0A] @ ''{% endif %}'' @ [CHR 0x0A]
     @ ''{% if message %}'' @ [CHR 0x0A, CHR 0x0A] @ ''{{ message }}'' @ [CHR 0x0A]
     @ ''{% endif %}'' @ [CHR 0x0A]"

text \<open>\<open>render_subject\<close> and \<open>render_body\<close> are the same function of their default: the
  operator's template (unless empty), and the default when it is a broken template.  Any other
  exception of the renderer escapes.\<close>

definition render_default :: "notify_env \<Rightarrow> string \<Rightarrow> template_vars \<Rightarrow> string result" where
  "render_default env dflt vars =
     (case ne_render env dflt vars of
        Rendered s \<Rightarrow> Inr s
      | TemplateError \<Rightarrow> Inl (ValidationError ''TemplateError'')
      | RenderRaises e \<Rightarrow> Inl e)"

definition render_with :: "notify_env \<Rightarrow> string \<Rightarrow> pyval \<Rightarrow> template_vars \<Rightarrow> string result" where
  "render_with env dflt template vars =
     (if \<not> py_truthy template then render_default env dflt vars
      else case template of
        PyStr src \<Rightarrow>
          (case ne_render env src vars of
             Rendered s \<Rightarrow> Inr s
           | TemplateError \<Rightarrow> render_default env dflt vars
           | RenderRaises e \<Rightarrow> Inl e)
      | _ \<Rightarrow> Inl TypeError)"

definition render_subject :: "notify_env \<Rightarrow> pyval \<Rightarrow> template_vars \<Rightarrow> string result" where
  "render_subject env template vars = render_with env DEFAULT_SUBJECT template vars"

definition render_body :: "notify_env \<Rightarrow> pyval \<Rightarrow> template_vars \<Rightarrow> string result" where
  "render_body env template vars = render_with env DEFAULT_BODY template vars"

section \<open>The manager\<close>

definition provider_pool :: "notify_env \<Rightarrow> notification_provider list" where
  "provider_pool env = ne_builtin_providers env @ ne_registered_providers env"

definition provider_for :: "notify_env \<Rightarrow> string \<Rightarrow> notification_provider option" where
  "provider_for env kind = find (\<lambda>p. np_kind p = kind) (provider_pool env)"

text \<open>\<open>known_kinds\<close>: \<open>dict.setdefault\<close> per provider, in pool order.\<close>

definition known_kinds :: "notify_env \<Rightarrow> notification_provider list" where
  "known_kinds env =
     fold (\<lambda>p seen. if \<exists>q\<in>set seen. np_kind q = np_kind p then seen else seen @ [p])
       (provider_pool env) []"

definition validate_config_against_schema ::
    "notify_env \<Rightarrow> string \<Rightarrow> (string \<times> pyval) list \<Rightarrow> (string \<times> pyval) list \<Rightarrow> unit result" where
  "validate_config_against_schema env kind config secrets =
     (case provider_for env kind of
        None \<Rightarrow> Inl (ValidationError ''Unknown notification kind'')
      | Some p \<Rightarrow>
          (let properties = set (np_properties p) \<union> {''subject_template'', ''body_template''};
               keys = fst ` set config in
           if \<not> set (np_required p) \<subseteq> keys
           then Inl (ValidationError ''Missing required channel config fields'')
           else if \<not> keys \<subseteq> properties
           then Inl (ValidationError ''Unknown channel config fields'')
           else if \<not> (\<forall>k\<in>set (np_secret_fields p).
                     map_of secrets k \<noteq> None \<and> map_of secrets k \<noteq> Some PyNone
                     \<and> map_of secrets k \<noteq> Some (PyStr []))
           then Inl (ValidationError ''Missing required channel secret fields'')
           else Inr ()))"

definition build_config :: "notify_env \<Rightarrow> notification_channel \<Rightarrow> channel_config result" where
  "build_config env ch =
     bind_r (case nc_secrets_ciphertext ch of
               None \<Rightarrow> Inr []
             | Some ct \<Rightarrow> if ct = [] then Inr [] else ne_decrypt env ct)
       (\<lambda>secrets. Inr \<lparr>cc_channel_id = nc_id ch, cc_name = nc_name ch, cc_kind = nc_kind ch,
          cc_options = nc_config ch, cc_secrets = secrets\<rparr>)"

definition failed_report :: "string \<Rightarrow> delivery_report" where
  "failed_report detail = \<lparr>dr_status = ''failed'', dr_detail = Some detail\<rparr>"

definition manager_send ::
    "notify_env \<Rightarrow> notification_channel \<Rightarrow> notification_message \<Rightarrow> delivery_report result" where
  "manager_send env ch msg =
     (case provider_for env (nc_kind ch) of
        None \<Rightarrow> Inr (failed_report (''No provider registered for kind='' @ nc_kind ch))
      | Some p \<Rightarrow>
          bind_r (build_config env ch) (\<lambda>cfg.
          case np_send p cfg msg of
            Inr r \<Rightarrow> Inr r
          | Inl e \<Rightarrow> Inr (failed_report (py_take 500 (ne_exc_str env e)))))"

definition preflight ::
    "notify_env \<Rightarrow> string \<Rightarrow> (string \<times> pyval) list \<Rightarrow> (string \<times> pyval) list
     \<Rightarrow> notification_message \<Rightarrow> delivery_report" where
  "preflight env kind config secrets msg =
     (case provider_for env kind of
        None \<Rightarrow> failed_report (''No provider registered for kind='' @ kind)
      | Some p \<Rightarrow>
          (case np_send p \<lparr>cc_channel_id = ''(preflight)'', cc_name = ''(preflight)'', cc_kind = kind,
                   cc_options = config, cc_secrets = secrets\<rparr> msg of
             Inr r \<Rightarrow> r
           | Inl e \<Rightarrow> failed_report (py_take 500 (ne_exc_str env e))))"

section \<open>The dispatcher\<close>

definition ctx_get :: "(string \<times> pyval) list \<Rightarrow> string \<Rightarrow> pyval \<Rightarrow> pyval" where
  "ctx_get ctx k dflt = (case map_of ctx k of Some v \<Rightarrow> v | None \<Rightarrow> dflt)"

definition str_or :: "string option \<Rightarrow> string \<Rightarrow> string" where
  "str_or x dflt = (case x of Some s \<Rightarrow> if s = [] then dflt else s | None \<Rightarrow> dflt)"

definition variables ::
    "string \<Rightarrow> int \<Rightarrow> string option \<Rightarrow> string option \<Rightarrow> string option \<Rightarrow> (string \<times> pyval) list
     \<Rightarrow> string option \<Rightarrow> int \<Rightarrow> template_vars" where
  "variables severity rank rule_id rule_name media_file_id ctx message now =
     \<lparr>tv_severity = severity, tv_severity_rank = rank, tv_rule_id = str_or rule_id [],
      tv_rule_name = str_or rule_name ''(unnamed rule)'', tv_media_file_id = str_or media_file_id [],
      tv_path = ctx_get ctx ''path'' (PyStr []), tv_filename = ctx_get ctx ''filename'' (PyStr []),
      tv_library_name = ctx_get ctx ''library_name'' (PyStr []), tv_message = str_or message [],
      tv_time = now, tv_auto_delete = py_truthy (ctx_get ctx ''auto_delete'' (PyBool False))\<rparr>"

definition severity_rank_of :: "string \<Rightarrow> int" where
  "severity_rank_of s = (case severity_level s of Some r \<Rightarrow> r | None \<Rightarrow> 0)"

definition template_of :: "notification_channel \<Rightarrow> string \<Rightarrow> pyval" where
  "template_of ch k = ctx_get (nc_config ch) k PyNone"

definition set_channel :: "notification_channel \<Rightarrow> store \<Rightarrow> store" where
  "set_channel ch st =
     st\<lparr>st_channels := map (\<lambda>c. if nc_id c = nc_id ch then ch else c) (st_channels st)\<rparr>"

definition set_delivery :: "notification_delivery \<Rightarrow> store \<Rightarrow> store" where
  "set_delivery d st =
     st\<lparr>st_deliveries := map (\<lambda>x. if nd_id x = nd_id d then d else x) (st_deliveries st)\<rparr>"

definition add_delivery :: "notification_delivery \<Rightarrow> store \<Rightarrow> store" where
  "add_delivery d st = st\<lparr>st_deliveries := st_deliveries st @ [d]\<rparr>"

definition new_delivery ::
    "notify_env \<Rightarrow> store \<Rightarrow> notification_channel \<Rightarrow> string \<Rightarrow> string \<Rightarrow> string \<Rightarrow> string
     \<Rightarrow> (string \<times> pyval) list \<Rightarrow> int \<Rightarrow> notification_delivery" where
  "new_delivery env st ch status severity subject body ctx now =
     \<lparr>nd_id = ne_new_id env (length (st_deliveries st)), nd_channel_id = nc_id ch,
      nd_channel_name = nc_name ch, nd_channel_kind = nc_kind ch, nd_status = status,
      nd_severity = severity, nd_subject = py_take 255 subject, nd_body = body, nd_context = ctx,
      nd_attempted_at = now, nd_completed_at = None, nd_duration_ms = None, nd_error = None\<rparr>"

text \<open>The second half of \<open>_deliver_one\<close>: write the provider's answer to the delivery row and to
  the channel row, and publish it.\<close>

definition record_outcome ::
    "notify_env \<Rightarrow> notification_channel \<Rightarrow> string \<Rightarrow> delivery_report \<Rightarrow> notification_delivery
     \<Rightarrow> store \<Rightarrow> notification_delivery \<times> store" where
  "record_outcome env ch severity rep d st =
     (let done = ne_completed_at env (nc_id ch);
          dur = ne_duration_ms env (nc_id ch);
          err = (if dr_status rep = ''failed'' then dr_detail rep else None);
          d' = d\<lparr>nd_status := dr_status rep, nd_completed_at := Some done,
                 nd_duration_ms := Some dur, nd_error := err\<rparr>;
          ch' = ch\<lparr>nc_last_delivery_status := Some (dr_status rep),
                   nc_last_delivery_at := Some done, nc_last_delivery_error := err\<rparr>
      in (d', emit (ne_bus env)
            (if dr_status rep = ''sent'' then ''notification.sent'' else ''notification.failed'')
            [(''delivery_id'', PyStr (nd_id d)), (''channel_id'', PyStr (nc_id ch)),
             (''channel_kind'', PyStr (nc_kind ch)), (''status'', PyStr (dr_status rep)),
             (''severity'', PyStr severity), (''duration_ms'', PyInt dur)]
            ''notifications'' (set_channel ch' (set_delivery d' st))))"

definition deliver_one ::
    "notify_env \<Rightarrow> notification_channel \<Rightarrow> string \<Rightarrow> int \<Rightarrow> template_vars \<Rightarrow> (string \<times> pyval) list
     \<Rightarrow> int \<Rightarrow> bool \<Rightarrow> store \<Rightarrow> notification_delivery result \<times> store" where
  "deliver_one env ch severity rank vars ctx now ignore_threshold st =
     (case bind_r (render_subject env (template_of ch ''subject_template'') vars) (\<lambda>s.
           bind_r (render_body env (template_of ch ''body_template'') vars) (\<lambda>b. Inr (s, b))) of
        Inl e \<Rightarrow> (Inl e, st)
      | Inr (subject, body) \<Rightarrow>
          if \<not> ignore_threshold \<and> rank < nc_min_severity_rank ch then
            (let d = (new_delivery env st ch ''skipped'' severity subject body ctx now)
                       \<lparr>nd_completed_at := Some now, nd_duration_ms := Some 0\<rparr>
             in (Inr d, add_delivery d st))
          else
            (let d = new_delivery env st ch ''pending'' severity subject body ctx now;
                 st1 = add_delivery d st in
             case manager_send env ch
                    \<lparr>nm_subject = nd_subject d, nm_body = nd_body d, nm_severity = severity,
                     nm_severity_rank = rank, nm_context = ctx\<rparr> of
               Inl e \<Rightarrow> (Inl e, st1)
             | Inr rep \<Rightarrow> (case record_outcome env ch severity rep d st1 of
                            (d', st2) \<Rightarrow> (Inr d', st2))))"

record dispatch_report =
  rp_delivery_ids :: "string list"
  rp_sent :: nat
  rp_failed :: nat
  rp_skipped :: nat

definition count_status :: "notification_delivery \<Rightarrow> dispatch_report \<Rightarrow> dispatch_report" where
  "count_status d rp =
     (let rp1 = rp\<lparr>rp_delivery_ids := rp_delivery_ids rp @ [nd_id d]\<rparr> in
      if nd_status d = ''sent'' then rp1\<lparr>rp_sent := Suc (rp_sent rp1)\<rparr>
      else if nd_status d = ''failed'' then rp1\<lparr>rp_failed := Suc (rp_failed rp1)\<rparr>
      else if nd_status d = ''skipped'' then rp1\<lparr>rp_skipped := Suc (rp_skipped rp1)\<rparr>
      else rp1)"

fun dispatch_loop ::
    "notify_env \<Rightarrow> string \<Rightarrow> int \<Rightarrow> template_vars \<Rightarrow> (string \<times> pyval) list \<Rightarrow> int
     \<Rightarrow> notification_channel list \<Rightarrow> dispatch_report \<Rightarrow> store \<Rightarrow> dispatch_report result \<times> store" where
  "dispatch_loop env severity rank vars ctx now [] rp st = (Inr rp, st)"
| "dispatch_loop env severity rank vars ctx now (ch # chs) rp st =
     (case deliver_one env ch severity rank vars ctx now False st of
        (Inl e, st1) \<Rightarrow> (Inl e, st1)
      | (Inr d, st1) \<Rightarrow>
          dispatch_loop env severity rank vars ctx now chs (count_status d rp) st1)"

definition enabled_channels :: "store \<Rightarrow> notification_channel list" where
  "enabled_channels st = filter nc_enabled (sort_key nc_name (st_channels st))"

definition dispatch ::
    "notify_env \<Rightarrow> string \<Rightarrow> string option \<Rightarrow> string option \<Rightarrow> string option
     \<Rightarrow> (string \<times> pyval) list \<Rightarrow> string option \<Rightarrow> int \<Rightarrow> store \<Rightarrow> dispatch_report result \<times> store" where
  "dispatch env severity rule_id rule_name media_file_id ctx message_override now st =
     (let rank = severity_rank_of severity;
          vars = variables severity rank rule_id rule_name media_file_id ctx message_override now
      in dispatch_loop env severity rank vars ctx now (enabled_channels st)
           \<lparr>rp_delivery_ids = [], rp_sent = 0, rp_failed = 0, rp_skipped = 0\<rparr> st)"

definition test_send ::
    "notify_env \<Rightarrow> notification_channel \<Rightarrow> string \<Rightarrow> string option \<Rightarrow> int \<Rightarrow> store
     \<Rightarrow> notification_delivery result \<times> store" where
  "test_send env ch severity message_override now st =
     (let rank = severity_rank_of severity;
          vars = variables severity rank None (Some ''(manual test)'') None [] message_override now
      in deliver_one env ch severity rank vars [(''trigger'', PyStr ''manual_test'')] now True st)"

section \<open>Delivery\<close>

text \<open>The renderer and the secret box answer for a channel: the only two calls whose exceptions
  leave \<open>deliver_one\<close>.\<close>

definition channel_ready :: "notify_env \<Rightarrow> template_vars \<Rightarrow> notification_channel \<Rightarrow> bool" where
  "channel_ready env vars ch =
     (is_ok (render_subject env (template_of ch ''subject_template'') vars)
      \<and> is_ok (render_body env (template_of ch ''body_template'') vars)
      \<and> is_ok (build_config env ch))"

definition statuses_ok :: "notify_env \<Rightarrow> bool" where
  "statuses_ok env =
     (\<forall>p\<in>set (provider_pool env). \<forall>cfg msg r. np_send p cfg msg = Inr r \<longrightarrow>
        dr_status r \<in> {''sent'', ''failed''})"

lemma provider_for_mem: "provider_for env k = Some p \<Longrightarrow> p \<in> set (provider_pool env)"
  unfolding provider_for_def by (metis find_Some_iff nth_mem)

lemma manager_send_ok:
  assumes "is_ok (build_config env ch)"
  shows "\<exists>r. manager_send env ch msg = Inr r"
  using assms by (auto simp: manager_send_def is_ok_iff split: option.splits sum.splits)

lemma manager_send_status:
  assumes "manager_send env ch msg = Inr r" "statuses_ok env"
  shows "dr_status r \<in> {''sent'', ''failed''}"
proof (cases "provider_for env (nc_kind ch)")
  case None
  with assms show ?thesis by (auto simp: manager_send_def failed_report_def)
next
  case (Some p)
  then have "p \<in> set (provider_pool env)" by (rule provider_for_mem)
  moreover obtain cfg where "build_config env ch = Inr cfg"
    using assms(1) Some by (auto simp: manager_send_def bind_r_Inr_iff)
  ultimately show ?thesis using assms Some
    by (cases "np_send p cfg msg") (auto simp: statuses_ok_def manager_send_def failed_report_def)
qed

lemma set_delivery_deliveries [simp]:
  "st_deliveries (set_channel ch st) = st_deliveries st"
  "st_channels (set_delivery d st) = st_channels st"
  "st_deliveries (add_delivery d st) = st_deliveries st @ [d]"
  "st_channels (add_delivery d st) = st_channels st"
  by (simp_all add: set_channel_def set_delivery_def add_delivery_def)

lemma set_delivery_last:
  "nd_id d' = nd_id d \<Longrightarrow> nd_id d \<notin> nd_id ` set ds \<Longrightarrow> st_deliveries st = ds @ [d] \<Longrightarrow>
     st_deliveries (set_delivery d' st) = ds @ [d']"
  by (auto simp: set_delivery_def intro!: map_idI) (metis image_eqI)

text \<open>Row ids are fresh (uuid4).\<close>

definition ids_fresh :: "notify_env \<Rightarrow> store \<Rightarrow> bool" where
  "ids_fresh env st =
     ((\<forall>n\<ge>length (st_deliveries st). ne_new_id env n \<notin> nd_id ` set (st_deliveries st))
      \<and> inj (ne_new_id env))"

lemma ids_fresh_add:
  assumes "ids_fresh env st" "st_deliveries st' = st_deliveries st @ [d]"
    "nd_id d = ne_new_id env (length (st_deliveries st))"
  shows "ids_fresh env st'"
  using assms by (auto simp: ids_fresh_def dest: injD)

text \<open>Below the threshold a row says so and nothing else happens.\<close>

lemma deliver_one_skipped:
  assumes "channel_ready env vars ch" "\<not> ign" "rank < nc_min_severity_rank ch"
  shows "\<exists>d. deliver_one env ch sev rank vars ctx now ign st = (Inr d, add_delivery d st)
    \<and> nd_status d = ''skipped'' \<and> nd_channel_id d = nc_id ch
    \<and> nd_id d = ne_new_id env (length (st_deliveries st))"
  using assms
  by (auto simp: deliver_one_def channel_ready_def is_ok_iff new_delivery_def Let_def)

text \<open>Otherwise the provider is asked once and its answer is the row's status.\<close>

lemma deliver_one_sent:
  assumes ready: "channel_ready env vars ch" and go: "ign \<or> nc_min_severity_rank ch \<le> rank"
    and fresh: "ids_fresh env st"
  shows "\<exists>d st' msg rep. deliver_one env ch sev rank vars ctx now ign st = (Inr d, st')
    \<and> manager_send env ch msg = Inr rep \<and> nd_status d = dr_status rep
    \<and> st_deliveries st' = st_deliveries st @ [d] \<and> nd_channel_id d = nc_id ch
    \<and> nd_id d = ne_new_id env (length (st_deliveries st))"
proof -
  obtain s b where r: "render_subject env (template_of ch ''subject_template'') vars = Inr s"
    "render_body env (template_of ch ''body_template'') vars = Inr b"
    using ready by (auto simp: channel_ready_def is_ok_iff)
  let ?d = "new_delivery env st ch ''pending'' sev s b ctx now"
  let ?msg = "\<lparr>nm_subject = nd_subject ?d, nm_body = nd_body ?d, nm_severity = sev,
    nm_severity_rank = rank, nm_context = ctx\<rparr>"
  obtain rep where rep: "manager_send env ch ?msg = Inr rep"
    using ready manager_send_ok unfolding channel_ready_def by blast
  obtain d' st' where out: "record_outcome env ch sev rep ?d (add_delivery ?d st) = (d', st')"
    by fastforce
  then have d': "nd_id d' = nd_id ?d" "nd_status d' = dr_status rep" "nd_channel_id d' = nc_id ch"
    and st': "st_deliveries st' = st_deliveries (set_delivery d' (add_delivery ?d st))"
    by (auto simp: record_outcome_def Let_def new_delivery_def)
  have id: "nd_id ?d = ne_new_id env (length (st_deliveries st))" by (simp add: new_delivery_def)
  with fresh have "nd_id ?d \<notin> nd_id ` set (st_deliveries st)" by (simp add: ids_fresh_def)
  then have "st_deliveries st' = st_deliveries st @ [d']"
    using st' d'(1) by (metis set_delivery_last set_delivery_deliveries(3))
  moreover have "deliver_one env ch sev rank vars ctx now ign st = (Inr d', st')"
    using go rep out r by (auto simp: deliver_one_def Let_def split: if_splits)
  ultimately show ?thesis using rep d' id by metis
qed

text \<open>What the fan-out leaves: one delivery row per channel, in order.\<close>

definition delivery_for :: "int \<Rightarrow> notification_channel \<Rightarrow> notification_delivery \<Rightarrow> bool" where
  "delivery_for rank ch d =
     (nd_channel_id d = nc_id ch \<and>
      (if rank < nc_min_severity_rank ch then nd_status d = ''skipped''
       else nd_status d \<in> {''sent'', ''failed''}))"

lemma deliver_one_for:
  assumes "channel_ready env vars ch" "ids_fresh env st" "statuses_ok env"
  shows "\<exists>d st'. deliver_one env ch sev rank vars ctx now False st = (Inr d, st')
    \<and> st_deliveries st' = st_deliveries st @ [d] \<and> ids_fresh env st' \<and> delivery_for rank ch d"
proof (cases "rank < nc_min_severity_rank ch")
  case True
  with deliver_one_skipped [OF assms(1), of False] assms(2) show ?thesis
    by (fastforce simp: delivery_for_def intro: ids_fresh_add)
next
  case False
  with deliver_one_sent [OF assms(1) _ assms(2), of False rank] obtain d st' msg rep where
    d: "deliver_one env ch sev rank vars ctx now False st = (Inr d, st')"
    "manager_send env ch msg = Inr rep" "nd_status d = dr_status rep"
    "st_deliveries st' = st_deliveries st @ [d]" "nd_channel_id d = nc_id ch"
    "nd_id d = ne_new_id env (length (st_deliveries st))"
    by (metis not_less)
  then have "nd_status d \<in> {''sent'', ''failed''}"
    using manager_send_status [OF d(2) assms(3)] by simp
  with d False assms(2) show ?thesis
    by (auto simp: delivery_for_def intro: ids_fresh_add)
qed

definition total_count :: "dispatch_report \<Rightarrow> nat" where
  "total_count rp = rp_sent rp + rp_failed rp + rp_skipped rp"

lemma count_status_for:
  "delivery_for rank ch d \<Longrightarrow> total_count (count_status d rp) = Suc (total_count rp)"
  "delivery_for rank ch d \<Longrightarrow>
     rp_skipped (count_status d rp) = rp_skipped rp + (if rank < nc_min_severity_rank ch then 1 else 0)"
  by (auto simp: delivery_for_def count_status_def total_count_def Let_def split: if_splits)

lemma dispatch_loop_ok:
  assumes "\<And>ch. ch \<in> set chs \<Longrightarrow> channel_ready env vars ch" "ids_fresh env st" "statuses_ok env"
  shows "\<exists>rp' st' ds. dispatch_loop env sev rank vars ctx now chs rp st = (Inr rp', st')
    \<and> st_deliveries st' = st_deliveries st @ ds \<and> list_all2 (delivery_for rank) chs ds
    \<and> total_count rp' = total_count rp + length chs
    \<and> rp_skipped rp' = rp_skipped rp + length (filter (\<lambda>c. rank < nc_min_severity_rank c) chs)"
  using assms
proof (induction chs arbitrary: rp st)
  case (Cons ch chs)
  then obtain d st1 where d: "deliver_one env ch sev rank vars ctx now False st = (Inr d, st1)"
    "st_deliveries st1 = st_deliveries st @ [d]" "ids_fresh env st1" "delivery_for rank ch d"
    using deliver_one_for by (metis list.set_intros(1))
  from Cons.IH [OF _ d(3) Cons.prems(3), of "count_status d rp"] Cons.prems(1)
  obtain rp' st' ds where ih:
    "dispatch_loop env sev rank vars ctx now chs (count_status d rp) st1 = (Inr rp', st')"
    "st_deliveries st' = st_deliveries st1 @ ds" "list_all2 (delivery_for rank) chs ds"
    "total_count rp' = total_count (count_status d rp) + length chs"
    "rp_skipped rp' = rp_skipped (count_status d rp)
       + length (filter (\<lambda>c. rank < nc_min_severity_rank c) chs)"
    by auto
  have "dispatch_loop env sev rank vars ctx now (ch # chs) rp st = (Inr rp', st')"
    using d(1) ih(1) by simp
  moreover have "st_deliveries st' = st_deliveries st @ (d # ds)" using ih(2) d(2) by simp
  moreover have "list_all2 (delivery_for rank) (ch # chs) (d # ds)" using ih(3) d(4) by simp
  ultimately show ?case using ih(4,5) d(4)
    by (intro exI [of _ rp'] exI [of _ st'] exI [of _ "d # ds"]) (simp add: count_status_for)
qed simp

text \<open>Delivery touches channels, deliveries and the bus, and nothing else of the database.\<close>

definition outside_notify :: "store \<Rightarrow> store" where
  "outside_notify st = st\<lparr>st_channels := [], st_deliveries := [], st_events := []\<rparr>"

lemma outside_notify_simps [simp]:
  "outside_notify (set_channel c st) = outside_notify st"
  "outside_notify (set_delivery d st) = outside_notify st"
  "outside_notify (add_delivery d st) = outside_notify st"
  "outside_notify (emit b n p s st) = outside_notify st"
  by (simp_all add: outside_notify_def set_channel_def set_delivery_def add_delivery_def emit_def)

lemma outside_notify_deliver:
  "outside_notify (snd (deliver_one env ch sev rank vars ctx now ign st)) = outside_notify st"
  by (auto simp: deliver_one_def record_outcome_def Let_def split: sum.splits prod.splits)

lemma outside_notify_loop:
  "outside_notify (snd (dispatch_loop env sev rank vars ctx now chs rp st)) = outside_notify st"
proof (induction chs arbitrary: rp st)
  case (Cons ch chs)
  show ?case
    using outside_notify_deliver [of env ch sev rank vars ctx now False st] Cons.IH
    by (auto split: prod.splits sum.splits)
qed simp

lemma outside_notify_dispatch:
  "outside_notify (snd (dispatch env sev ri rn mi ctx msg now st)) = outside_notify st"
  by (simp add: dispatch_def Let_def outside_notify_loop)

section \<open>Properties\<close>

text \<open>A dispatch whose channels render and decrypt serves every enabled channel: it returns a
  report that counts each of them once, and adds one delivery row per enabled channel in the order
  of their names, \<open>skipped\<close> exactly for the channels whose threshold is above the alert, and the
  provider's answer for the others; a provider that raises is a \<open>failed\<close> row, not an exception.\<close>

theorem dispatch_reaches_every_channel:
  assumes "statuses_ok env" "ids_fresh env st"
    "\<forall>ch\<in>set (enabled_channels st). channel_ready env
       (variables sev (severity_rank_of sev) ri rn mi ctx msg now) ch"
  shows "\<exists>rp st' ds. dispatch env sev ri rn mi ctx msg now st = (Inr rp, st')
    \<and> st_deliveries st' = st_deliveries st @ ds
    \<and> list_all2 (delivery_for (severity_rank_of sev)) (enabled_channels st) ds
    \<and> rp_sent rp + rp_failed rp + rp_skipped rp = length (enabled_channels st)
    \<and> rp_skipped rp =
        length (filter (\<lambda>c. severity_rank_of sev < nc_min_severity_rank c) (enabled_channels st))"
  using dispatch_loop_ok [of "enabled_channels st" env
      "variables sev (severity_rank_of sev) ri rn mi ctx msg now" st sev "severity_rank_of sev" ctx now
      "\<lparr>rp_delivery_ids = [], rp_sent = 0, rp_failed = 0, rp_skipped = 0\<rparr>"] assms
  by (simp add: dispatch_def Let_def total_count_def)

definition sample_channel :: "string \<Rightarrow> int \<Rightarrow> notification_channel" where
  "sample_channel i threshold =
     \<lparr>nc_id = i, nc_name = i, nc_kind = ''smtp'', nc_enabled = True, nc_config = [],
      nc_secrets_ciphertext = None, nc_min_severity_rank = threshold,
      nc_last_delivery_status = None, nc_last_delivery_at = None, nc_last_delivery_error = None\<rparr>"

definition two_channels :: store where
  "two_channels =
     \<lparr>st_media = [], st_tags = [], st_rules = [], st_evals = [], st_windows = [], st_opt = [],
      st_profiles = [], st_vt_queue = [], st_integrations = [],
      st_channels = [sample_channel ''a'' 20, sample_channel ''b'' 80], st_deliveries = [],
      st_audit = [], st_events = [], st_files = [], st_libraries = []\<rparr>"

definition raising_env :: notify_env where
  "raising_env =
     \<lparr>ne_render = \<lambda>src v. Rendered (tv_rule_name v), ne_decrypt = \<lambda>c. Inr [],
      ne_builtin_providers = [\<lparr>np_kind = ''smtp'', np_required = [], np_properties = [],
        np_secret_fields = [], np_send = \<lambda>c msg. Inl OSError\<rparr>],
      ne_registered_providers = [], ne_exc_str = \<lambda>e. ''refused'', ne_completed_at = \<lambda>c. 1,
      ne_duration_ms = \<lambda>c. 1, ne_new_id = \<lambda>n. replicate n CHR ''d'', ne_bus = True\<rparr>"

theorem dispatch_reaches_every_channel_witness:
  "\<exists>rp st'. dispatch raising_env ''warn'' None None None [] None 0 two_channels = (Inr rp, st')
     \<and> rp_sent rp + rp_failed rp + rp_skipped rp = 2 \<and> rp_skipped rp = 1"
proof -
  have en: "enabled_channels two_channels = [sample_channel ''a'' 20, sample_channel ''b'' 80]"
    by (simp add: enabled_channels_def two_channels_def sample_channel_def)
  have r: "severity_rank_of ''warn'' = 40"
    by (simp add: severity_rank_of_def severity_level_def SEVERITY_LEVELS_def)
  have "inj (\<lambda>n. replicate n CHR ''d'')" by (rule injI) (metis length_replicate)
  then have h: "statuses_ok raising_env" "ids_fresh raising_env two_channels"
    by (simp_all add: statuses_ok_def provider_pool_def raising_env_def ids_fresh_def two_channels_def)
  have c: "channel_ready raising_env v (sample_channel i t)" for v i t
    by (simp add: channel_ready_def raising_env_def render_subject_def render_body_def render_with_def
        render_default_def template_of_def ctx_get_def sample_channel_def build_config_def)
  show ?thesis
    using dispatch_reaches_every_channel [OF h, of "''warn''" None None None "[]" None 0]
    unfolding en r by (auto simp: c) (auto simp: sample_channel_def)
qed

end
