(* ===== verification/RulesService.thy ===== *)
theory RulesService
  imports RuleEvaluator Notifications
begin

text \<open>
  The rules service (\<open>app/services/rules_service.py\<close>) over the tables of \<open>Store\<close>: loading
  rules, materialising the input, evaluating every rule against a file with all its effects, the
  notification throttle, deletion to trash, upstream searches, and the bulk runs.  Parameters
  (\<open>svc_env\<close>): the Python library functions of the evaluator, the notification environment,
  the integration providers with their network calls and the secret box, the outcome of the file
  system calls, row ids, the clock when a file of a bulk run is reached, and whether a bus, a registry and the VirusTotal plugin are there.
  Database failures are not modelled.
\<close>

section \<open>Environment\<close>

record search_result =
  sg_status :: string
  sg_upstream_id :: "string option"
  sg_detail :: "string option"

type_synonym trigger_search = "integration_config \<Rightarrow> string \<Rightarrow> search_result result"

text \<open>An integration provider as this service sees it: \<open>None\<close> when it has no
  \<open>trigger_search\<close>.\<close>

record integration_provider =
  ipr_trigger_search :: "trigger_search option"

record svc_env =
  sv_py :: pyenv
  sv_registry :: bool
  sv_notify :: notify_env
  sv_bus :: bool
  sv_providers :: "string \<Rightarrow> integration_provider list"
  sv_decrypt :: "string \<Rightarrow> (string \<times> pyval) list result"
  sv_exc_str :: "pyerr \<Rightarrow> string"
  sv_vt_plugin :: bool
  sv_vt_now :: int
  sv_trash_root :: string
  sv_mkdir_fails :: bool
  sv_move_fails :: "string \<Rightarrow> string \<Rightarrow> bool"
  sv_new_id :: "nat \<Rightarrow> string"
  sv_clock :: "string \<Rightarrow> int"

record file_outcome =
  fo_media_file_id :: string
  fo_severity :: string
  fo_severity_rank :: int
  fo_add_tags :: "string list"
  fo_matched_rule_ids :: "string list"

section \<open>Repositories\<close>

text \<open>\<open>RuleEvaluationRepository.upsert\<close>.\<close>

definition eval_key :: "rule_evaluation \<Rightarrow> string \<times> string" where
  "eval_key e = (re_media_file_id e, re_rule_id e)"

definition eval_merge :: "rule_evaluation \<Rightarrow> rule_evaluation \<Rightarrow> rule_evaluation" where
  "eval_merge row e =
     row\<lparr>re_severity := re_severity e, re_severity_rank := re_severity_rank e,
         re_add_tags := re_add_tags e, re_queue_optimizations := re_queue_optimizations e,
         re_notifications := re_notifications e, re_evaluated_at := re_evaluated_at e\<rparr>"

definition upsert_evaluation :: "rule_evaluation \<Rightarrow> store \<Rightarrow> store" where
  "upsert_evaluation e st = st\<lparr>st_evals := table_upsert eval_key eval_merge e (st_evals st)\<rparr>"

text \<open>\<open>OptimizationRepository.upsert_queued\<close>: only a row still queued is refreshed.\<close>

definition opt_key :: "optimization_item \<Rightarrow> string \<times> string" where
  "opt_key q = (oi_media_file_id q, oi_profile q)"

definition opt_merge :: "optimization_item \<Rightarrow> optimization_item \<Rightarrow> optimization_item" where
  "opt_merge row q =
     (if oi_status row = ''queued''
      then row\<lparr>oi_queued_by_rule_id := oi_queued_by_rule_id q, oi_queued_at := oi_queued_at q\<rparr>
      else row)"

definition queued_item :: "string \<Rightarrow> string \<Rightarrow> string \<Rightarrow> string option \<Rightarrow> int \<Rightarrow> optimization_item" where
  "queued_item i media_file_id profile rule_id queued_at =
     \<lparr>oi_id = i, oi_media_file_id = media_file_id, oi_profile = profile, oi_status = ''queued'',
      oi_queued_by_rule_id = rule_id, oi_queued_at = queued_at, oi_started_at = None,
      oi_finished_at = None, oi_progress_pct = 0, oi_original_size_bytes = None,
      oi_optimized_size_bytes = None, oi_backup_path = None, oi_metadata = [],
      oi_error = None\<rparr>"

definition upsert_queued ::
    "svc_env \<Rightarrow> string \<Rightarrow> string \<Rightarrow> string option \<Rightarrow> int \<Rightarrow> store \<Rightarrow> store" where
  "upsert_queued env media_file_id profile rule_id queued_at st =
     st\<lparr>st_opt := table_upsert opt_key opt_merge
          (queued_item (sv_new_id env (length (st_opt st))) media_file_id profile rule_id queued_at)
          (st_opt st)\<rparr>"

text \<open>\<open>_upsert_tag\<close>: a row with the same key is left as it is.\<close>

definition tag_key :: "media_tag \<Rightarrow> string \<times> string \<times> string" where
  "tag_key t = (mt_media_file_id t, mt_name t, mt_source t)"

definition keep_row :: "'r \<Rightarrow> 'r \<Rightarrow> 'r" where
  "keep_row row new = row"

definition upsert_tag :: "string \<Rightarrow> string \<Rightarrow> store \<Rightarrow> store" where
  "upsert_tag media_file_id tag st =
     st\<lparr>st_tags := table_upsert tag_key keep_row
          \<lparr>mt_media_file_id = media_file_id, mt_name = tag, mt_source = ''rule''\<rparr> (st_tags st)\<rparr>"

text \<open>\<open>enqueue_for_vt_lookup\<close>: insert, do nothing on conflict.\<close>

definition enqueue_for_vt_lookup :: "svc_env \<Rightarrow> string \<Rightarrow> store \<Rightarrow> store" where
  "enqueue_for_vt_lookup env media_file_id st =
     st\<lparr>st_vt_queue := table_upsert vq_media_file_id keep_row
          \<lparr>vq_media_file_id = media_file_id, vq_enqueued_at = sv_vt_now env,
           vq_last_attempted_at = None, vq_attempt_count = 0\<rparr> (st_vt_queue st)\<rparr>"

section \<open>Loading\<close>

text \<open>\<open>RuleRepository.list_all(enabled_only=True)\<close>: by priority, then name.\<close>

definition list_enabled_rules :: "store \<Rightarrow> rule list" where
  "list_enabled_rules st =
     filter ru_enabled (sort_key ru_priority (sort_key ru_name (st_rules st)))"

definition parse_definition :: "rule \<Rightarrow> rule_definition result" where
  "parse_definition r =
     (case ru_definition r of None \<Rightarrow> Inl (ValidationError ''definition'') | Some d \<Rightarrow> model_validate d)"

fun load_rules :: "rule list \<Rightarrow> (rule \<times> rule_definition) list" where
  "load_rules [] = []"
| "load_rules (r # rs) =
     (case parse_definition r of Inl _ \<Rightarrow> load_rules rs | Inr d \<Rightarrow> (r, d) # load_rules rs)"

definition load_enabled :: "store \<Rightarrow> (rule \<times> rule_definition) list" where
  "load_enabled st = load_rules (list_enabled_rules st)"

definition build_input :: "media_file \<Rightarrow> store \<Rightarrow> eval_input" where
  "build_input m st =
     \<lparr>ei_media_file_id = mf_id m, ei_path = mf_path m, ei_filename = mf_filename m,
      ei_extension = mf_extension m, ei_category = mf_category m, ei_container = mf_container m,
      ei_video_codec = mf_video_codec m, ei_audio_codec = mf_audio_codec m,
      ei_subtitle_codec = mf_subtitle_codec m, ei_width = mf_width m, ei_height = mf_height m,
      ei_duration_seconds = mf_duration_seconds m, ei_bitrate_kbps = mf_bitrate_kbps m,
      ei_framerate = mf_framerate m, ei_size_bytes = mf_size_bytes m,
      ei_has_subtitles = mf_has_subtitles m, ei_is_orphaned = mf_is_orphaned m,
      ei_subtitle_languages = (case mf_subtitle_languages m of None \<Rightarrow> [] | Some ls \<Rightarrow> ls),
      ei_audio_languages = (case mf_audio_languages m of None \<Rightarrow> [] | Some ls \<Rightarrow> ls),
      ei_tags = map mt_name (filter (\<lambda>t. mt_media_file_id t = mf_id m) (st_tags st)),
      ei_probe_failed = mf_probe_failed m, ei_vt_status = mf_vt_status m\<rparr>"

section \<open>Effects of one matched rule\<close>

definition evaluation_row :: "media_file \<Rightarrow> rule \<Rightarrow> eval_result \<Rightarrow> int \<Rightarrow> rule_evaluation" where
  "evaluation_row m r res now =
     \<lparr>re_media_file_id = mf_id m, re_rule_id = ru_id r,
      re_severity = (case er_severity res of Some s \<Rightarrow> s | None \<Rightarrow> ''ok''),
      re_severity_rank = er_severity_rank res, re_add_tags = er_add_tags res,
      re_queue_optimizations = er_queue_optimizations res,
      re_notifications = map (\<lambda>n. (nt_channel n, nt_message n, nt_throttle n)) (er_notifications res),
      re_evaluated_at = now\<rparr>"

text \<open>The tag-scope gate: a profile whose document does not validate has no scope.\<close>

definition profile_tag_scope :: "string \<Rightarrow> store \<Rightarrow> string list" where
  "profile_tag_scope name st =
     (case table_find op_name name (st_profiles st) of
        None \<Rightarrow> []
      | Some row \<Rightarrow>
          (case op_settings row of
             None \<Rightarrow> []
           | Some d \<Rightarrow> (case validate_profile d of Inl _ \<Rightarrow> [] | Inr pdef \<Rightarrow> pd_tag_scope pdef)))"

definition queue_one :: "svc_env \<Rightarrow> eval_input \<Rightarrow> media_file \<Rightarrow> rule \<Rightarrow> int \<Rightarrow> string \<Rightarrow> store \<Rightarrow> store" where
  "queue_one env inp m r now profile st =
     (if \<exists>t\<in>set (profile_tag_scope profile st). t \<notin> set (ei_tags inp) then st
      else upsert_queued env (mf_id m) profile (Some (ru_id r)) now st)"

text \<open>\<open>_throttle_gate\<close>.\<close>

definition window_key :: "notif_window \<Rightarrow> string \<times> int" where
  "window_key w = (nw_rule_id w, nw_window_start w)"

definition window_bucket :: "int \<Rightarrow> int \<Rightarrow> int" where
  "window_bucket ws now =
     (let epoch = now div 1000000 in (epoch - epoch mod ws) * 1000000)"

definition set_window :: "notif_window \<Rightarrow> store \<Rightarrow> store" where
  "set_window w st =
     st\<lparr>st_windows := map (\<lambda>x. if window_key x = window_key w then w else x) (st_windows st)\<rparr>"

definition throttle_payload :: "string \<Rightarrow> int \<Rightarrow> int \<Rightarrow> int \<Rightarrow> (string \<times> pyval) list" where
  "throttle_payload rule_name window_start window_end cap =
     [(''rule_name'', PyStr rule_name), (''window_start'', PyInt window_start),
      (''window_end'', PyInt window_end), (''max_per_window'', PyInt cap)]"

definition throttle_gate ::
    "svc_env \<Rightarrow> string \<Rightarrow> string \<Rightarrow> int \<Rightarrow> int \<Rightarrow> int \<Rightarrow> store \<Rightarrow> bool \<times> store" where
  "throttle_gate env rule_id rule_name ws cap now st =
     (let window_start = window_bucket ws now;
          window_end = window_start + ws * 1000000 in
      case table_find window_key (rule_id, window_start) (st_windows st) of
        None \<Rightarrow>
          (True, st\<lparr>st_windows := st_windows st @
             [\<lparr>nw_rule_id = rule_id, nw_window_start = window_start, nw_window_end = window_end,
               nw_count = 1\<rparr>]\<rparr>)
      | Some row \<Rightarrow>
          if nw_count row < cap
          then (True, set_window (row\<lparr>nw_count := nw_count row + 1\<rparr>) st)
          else
            (let st1 = emit (sv_bus env) ''rule.throttled''
                   ((''rule_id'', PyStr rule_id) #
                    throttle_payload rule_name window_start window_end cap) ''rules'' st;
                 st2 = set_window (row\<lparr>nw_count := nw_count row + 1\<rparr>) st1 in
             (False,
              if nw_count row > cap then st2
              else audit_record ''rule.throttled'' None (Some ''rules'') (Some ''rule'') (Some rule_id)
                     (throttle_payload rule_name window_start window_end cap) st2)))"

text \<open>One \<open>notify\<close> action: gate, then dispatch; an exception of the dispatcher is logged and
  dropped.\<close>

definition notify_one ::
    "svc_env \<Rightarrow> media_file \<Rightarrow> rule \<Rightarrow> string \<Rightarrow> bool \<Rightarrow> int \<Rightarrow> notification \<Rightarrow> store \<Rightarrow> store" where
  "notify_one env m r severity auto_delete now n st =
     (let gate = (case nt_throttle n of
                    None \<Rightarrow> (True, st)
                  | Some th \<Rightarrow> throttle_gate env (ru_id r) (ru_name r) (window_seconds th)
                                (max_per_window th) now st) in
      if \<not> fst gate then snd gate
      else snd (dispatch (sv_notify env) severity (Some (ru_id r)) (Some (ru_name r)) (Some (mf_id m))
                  [(''path'', PyStr (mf_path m)), (''filename'', PyStr (mf_filename m)),
                   (''channel'', PyStr (nt_channel n)), (''auto_delete'', PyBool auto_delete)]
                  (nt_message n) now (snd gate)))"

definition notify_all ::
    "svc_env \<Rightarrow> media_file \<Rightarrow> rule \<Rightarrow> rule_definition \<Rightarrow> eval_result \<Rightarrow> eval_result \<Rightarrow> int \<Rightarrow> store \<Rightarrow> store" where
  "notify_all env m r d res agg now st =
     (if er_notifications res \<noteq> [] \<and> sv_registry env
      then fold (notify_one env m r
             (str_or (er_severity res) (str_or (er_severity agg) ''info''))
             (\<exists>a\<in>set (rd_actions d). is_delete a) now) (er_notifications res) st
      else st)"

definition persist_match ::
    "svc_env \<Rightarrow> eval_input \<Rightarrow> media_file \<Rightarrow> int \<Rightarrow> rule \<Rightarrow> rule_definition \<Rightarrow> eval_result
     \<Rightarrow> eval_result \<Rightarrow> store \<Rightarrow> store" where
  "persist_match env inp m now r d res agg st =
     notify_all env m r d res agg now
       (fold (queue_one env inp m r now) (er_queue_optimizations res)
         (upsert_evaluation (evaluation_row m r res now) st))"

fun rules_loop ::
    "svc_env \<Rightarrow> bool \<Rightarrow> eval_input \<Rightarrow> media_file \<Rightarrow> int \<Rightarrow> (rule \<times> rule_definition) list
     \<Rightarrow> eval_result \<Rightarrow> string list \<Rightarrow> store \<Rightarrow> (eval_result \<times> string list \<times> store) result" where
  "rules_loop env persist inp m now [] agg matched st = Inr (agg, matched, st)"
| "rules_loop env persist inp m now ((r, d) # rules) agg matched st =
     bind_r (evaluate (sv_py env) d inp) (\<lambda>res.
       if \<not> er_matched res then rules_loop env persist inp m now rules agg matched st
       else
         (let agg' = merge_into res agg in
          rules_loop env persist inp m now rules agg' (matched @ [ru_id r])
            (if persist then persist_match env inp m now r d res agg' st else st)))"

section \<open>Effects of the aggregate\<close>

definition drop_stale :: "string \<Rightarrow> string list \<Rightarrow> string list \<Rightarrow> store \<Rightarrow> store" where
  "drop_stale media_file_id evaluated matched st =
     st\<lparr>st_evals := filter (\<lambda>e. \<not> (re_media_file_id e = media_file_id \<and> re_rule_id e \<in> set evaluated
                                 \<and> re_rule_id e \<notin> set matched)) (st_evals st)\<rparr>"

definition set_severity :: "string \<Rightarrow> string \<Rightarrow> int \<Rightarrow> store \<Rightarrow> store" where
  "set_severity media_file_id severity rank st =
     st\<lparr>st_media := map (\<lambda>m. if mf_id m = media_file_id
          then m\<lparr>mf_severity := severity, mf_severity_rank := rank\<rparr> else m) (st_media st)\<rparr>"

text \<open>\<open>Path(path).name\<close> and \<open>trash_root / f"{id}__{name}"\<close>.\<close>

definition path_name :: "string \<Rightarrow> string" where
  "path_name p = rev (takeWhile (\<lambda>c. c \<noteq> CHR ''/'') (rev (py_rstrip (CHR ''/'') p)))"

definition trash_dst :: "svc_env \<Rightarrow> media_file \<Rightarrow> string" where
  "trash_dst env m = sv_trash_root env @ ''/'' @ mf_id m @ ''__'' @ path_name (mf_path m)"

definition move_file :: "string \<Rightarrow> string \<Rightarrow> store \<Rightarrow> store" where
  "move_file src dst st =
     st\<lparr>st_files := (if dst \<in> set (st_files st) then [] else [dst]) @ filter (\<lambda>f. f \<noteq> src) (st_files st)\<rparr>"

text \<open>\<open>_hard_delete_media\<close>: whether the row goes, and the state without the row's deletion, which
  the session applies at its next flush.\<close>

definition hard_delete_media :: "svc_env \<Rightarrow> media_file \<Rightarrow> string \<Rightarrow> store \<Rightarrow> bool \<times> store" where
  "hard_delete_media env m reason st =
     (let dst = trash_dst env m;
          here = mf_path m \<in> set (st_files st) in
      if sv_mkdir_fails env \<or> (here \<and> sv_move_fails env (mf_path m) dst) then (False, st)
      else
        (let st1 = (if here then move_file (mf_path m) dst st else st);
             st2 = audit_record ''file.deleted'' None (Some ''rules'') (Some ''media_file'')
                     (Some (mf_id m))
                     [(''path'', PyStr (mf_path m)), (''reason'', PyStr reason),
                      (''trash_path'', if here then PyStr dst else PyNone)] st1 in
         (True, emit (sv_bus env) ''media.deleted''
                  [(''id'', PyStr (mf_id m)), (''path'', PyStr (mf_path m)),
                   (''reason'', PyStr reason)] ''rules'' st2)))"

definition search_payload ::
    "media_file \<Rightarrow> string \<Rightarrow> string \<Rightarrow> search_result \<Rightarrow> (string \<times> pyval) list" where
  "search_payload m integration_id target res =
     [(''integration_id'', PyStr integration_id), (''media_file_id'', PyStr (mf_id m)),
      (''media_file_path'', PyStr (mf_path m)), (''target'', PyStr target),
      (''status'', PyStr (sg_status res)), (''upstream_id'', opt_str (sg_upstream_id res)),
      (''detail'', opt_str (sg_detail res))]"

definition emit_search_upstream_audit ::
    "svc_env \<Rightarrow> media_file \<Rightarrow> string \<Rightarrow> string \<Rightarrow> search_result \<Rightarrow> store \<Rightarrow> store" where
  "emit_search_upstream_audit env m integration_id target res st =
     emit (sv_bus env) ''rule.action.search_upstream'' (search_payload m integration_id target res)
       ''rules''
       (audit_record ''rule.action.search_upstream'' None (Some ''rules'') (Some ''media_file'')
         (Some (mf_id m)) (search_payload m integration_id target res) st)"

definition provider_for_integration :: "svc_env \<Rightarrow> integration \<Rightarrow> integration_provider option" where
  "provider_for_integration env ig =
     (case (if sv_registry env then sv_providers env (''integration.'' @ ig_kind ig) else []) of
        [] \<Rightarrow> None | p # _ \<Rightarrow> Some p)"

definition build_integration_config :: "svc_env \<Rightarrow> integration \<Rightarrow> integration_config result" where
  "build_integration_config env ig =
     bind_r (case ig_secrets_ciphertext ig of
               None \<Rightarrow> Inr [] | Some ct \<Rightarrow> if ct = [] then Inr [] else sv_decrypt env ct)
       (\<lambda>secrets. Inr \<lparr>icf_integration_id = ig_id ig, icf_name = ig_name ig, icf_kind = ig_kind ig,
          icf_options = ig_config ig, icf_secrets = secrets\<rparr>)"

definition search_error :: "string \<Rightarrow> search_result" where
  "search_error detail =
     \<lparr>sg_status = ''error'', sg_upstream_id = None, sg_detail = Some detail\<rparr>"

fun unique_requests :: "string set \<Rightarrow> search_request list \<Rightarrow> search_request list" where
  "unique_requests seen [] = []"
| "unique_requests seen (q # qs) =
     (if sr_integration_id q = [] \<or> sr_integration_id q \<in> seen then unique_requests seen qs
      else q # unique_requests (insert (sr_integration_id q) seen) qs)"

text \<open>One iteration of the search loop: the entry it writes, \<open>None\<close> when it writes none.  An
  exception of \<open>_build_integration_config\<close> is outside the \<open>try\<close> and escapes.\<close>

definition search_entry ::
    "svc_env \<Rightarrow> media_file \<Rightarrow> search_request \<Rightarrow> store \<Rightarrow> (string \<times> search_result) option result" where
  "search_entry env m q st =
     (let target = sr_target q in
      case table_find ig_id (sr_integration_id q) (st_integrations st) of
        None \<Rightarrow> Inr (Some (target, search_error ''Integration not found''))
      | Some ig \<Rightarrow>
          if \<not> ig_enabled ig then Inr (Some (target, search_error ''Integration disabled''))
          else if \<not> sv_registry env then Inr None
          else case provider_for_integration env ig of
            None \<Rightarrow> Inr (Some (target, search_error (''No provider registered for kind '' @ ig_kind ig)))
          | Some p \<Rightarrow>
              if target \<noteq> [] \<and> target \<noteq> ig_kind ig
              then Inr (Some (target, search_error
                     (''Rule target '' @ target @ '' does not match integration kind '' @ ig_kind ig)))
              else case ipr_trigger_search p of
                None \<Rightarrow> Inr (Some (target, search_error
                          (ig_kind ig @ '' provider does not implement trigger_search'')))
              | Some trigger \<Rightarrow>
                  bind_r (build_integration_config env ig) (\<lambda>cfg.
                  Inr (Some (if target = [] then ig_kind ig else target,
                    case trigger cfg (mf_path m) of
                      Inr res \<Rightarrow> res
                    | Inl e \<Rightarrow> search_error (''Provider exception: '' @ sv_exc_str env e)))))"

fun search_loop :: "svc_env \<Rightarrow> media_file \<Rightarrow> search_request list \<Rightarrow> store \<Rightarrow> store result" where
  "search_loop env m [] st = Inr st"
| "search_loop env m (q # qs) st =
     bind_r (search_entry env m q st) (\<lambda>entry.
       search_loop env m qs
         (case entry of None \<Rightarrow> st
          | Some (target, res) \<Rightarrow>
              emit_search_upstream_audit env m (sr_integration_id q) target res st))"

definition trigger_upstream_searches ::
    "svc_env \<Rightarrow> media_file \<Rightarrow> search_request list \<Rightarrow> store \<Rightarrow> store result" where
  "trigger_upstream_searches env m requests st = search_loop env m (unique_requests {} requests) st"

definition start_aggregate :: eval_result where
  "start_aggregate = empty_result False (Some ''ok'') 10"

text \<open>The tail of \<open>evaluate_file\<close>, from the stale rows to the last flush.\<close>

definition apply_delete :: "svc_env \<Rightarrow> media_file \<Rightarrow> eval_result \<Rightarrow> store \<Rightarrow> bool \<times> store" where
  "apply_delete env m agg st =
     (if er_delete_paths agg = [] then (False, st)
      else hard_delete_media env m
             (case er_delete_reasons agg of [] \<Rightarrow> ''Deleted by rule'' | reason # _ \<Rightarrow> reason) st)"

definition apply_vt :: "svc_env \<Rightarrow> media_file \<Rightarrow> eval_result \<Rightarrow> store \<Rightarrow> store" where
  "apply_vt env m agg st =
     (if er_vt_lookup_requested agg \<and> sv_vt_plugin env
      then enqueue_for_vt_lookup env (mf_id m) st else st)"

definition apply_rows ::
    "media_file \<Rightarrow> (rule \<times> rule_definition) list \<Rightarrow> eval_result \<Rightarrow> string list \<Rightarrow> store \<Rightarrow> store" where
  "apply_rows m rules agg matched st =
     fold (upsert_tag (mf_id m)) (er_add_tags agg)
       (set_severity (mf_id m) (str_or (er_severity agg) ''ok'') (er_severity_rank agg)
         (drop_stale (mf_id m) (map (ru_id \<circ> fst) rules) matched st))"

definition finish_file ::
    "svc_env \<Rightarrow> media_file \<Rightarrow> (rule \<times> rule_definition) list \<Rightarrow> eval_result \<Rightarrow> string list
     \<Rightarrow> store \<Rightarrow> store result" where
  "finish_file env m rules agg matched st =
     (let del = apply_delete env m agg (apply_rows m rules agg matched st) in
      bind_r (trigger_upstream_searches env m (er_search_upstream_requests agg)
               (apply_vt env m agg (snd del)))
        (\<lambda>st'. Inr (if fst del then delete_media (mf_id m) st' else st')))"

definition evaluate_file ::
    "svc_env \<Rightarrow> media_file \<Rightarrow> (rule \<times> rule_definition) list option \<Rightarrow> bool \<Rightarrow> int \<Rightarrow> store
     \<Rightarrow> (file_outcome \<times> store) result" where
  "evaluate_file env m rules_arg persist now st =
     (let rules = (case rules_arg of None \<Rightarrow> load_enabled st | Some rs \<Rightarrow> rs) in
      bind_r (rules_loop env persist (build_input m st) m now rules start_aggregate [] st)
        (\<lambda>(agg, matched, st1).
          bind_r (if persist then finish_file env m rules agg matched st1 else Inr st1) (\<lambda>st2.
          Inr (\<lparr>fo_media_file_id = mf_id m, fo_severity = str_or (er_severity agg) ''ok'',
                fo_severity_rank = er_severity_rank agg, fo_add_tags = er_add_tags agg,
                fo_matched_rule_ids = matched\<rparr>, st2))))"

section \<open>Bulk evaluation\<close>

text \<open>\<open>MediaRepository.list\<close> with a library and an optional tag filter: severity descending, then
  path, capped.\<close>

definition list_media :: "string \<Rightarrow> string list \<Rightarrow> store \<Rightarrow> media_file list" where
  "list_media library_id tags_any st =
     take 10000 (sort_key (\<lambda>m. - mf_severity_rank m) (sort_key mf_path
       (filter (\<lambda>m. mf_library_id m = library_id \<and>
          (tags_any = [] \<or> (\<exists>t\<in>set (st_tags st). mt_media_file_id t = mf_id m \<and> mt_name t \<in> set tags_any)))
        (st_media st))))"

fun evaluate_files_loop ::
    "svc_env \<Rightarrow> (rule \<times> rule_definition) list \<Rightarrow> media_file list \<Rightarrow> store
     \<Rightarrow> (file_outcome list \<times> store) result" where
  "evaluate_files_loop env rules [] st = Inr ([], st)"
| "evaluate_files_loop env rules (m # ms) st =
     bind_r (evaluate_file env m (Some rules) True (sv_clock env (mf_id m)) st) (\<lambda>(o1, st1).
     bind_r (evaluate_files_loop env rules ms st1) (\<lambda>(os, st2). Inr (o1 # os, st2)))"

definition evaluate_files ::
    "svc_env \<Rightarrow> media_file list \<Rightarrow> store \<Rightarrow> (file_outcome list \<times> store) result" where
  "evaluate_files env ms st = evaluate_files_loop env (load_enabled st) ms st"

definition track_rules :: "int \<Rightarrow> store \<Rightarrow> store" where
  "track_rules now st =
     st\<lparr>st_rules := map (\<lambda>r. if ru_enabled r
          then r\<lparr>ru_last_evaluated_at := Some now,
                 ru_last_match_count := int (min 10000
                   (length (filter (\<lambda>e. re_rule_id e = ru_id r) (st_evals st))))\<rparr>
          else r) (st_rules st)\<rparr>"

definition evaluate_library ::
    "svc_env \<Rightarrow> int \<Rightarrow> string \<Rightarrow> string list \<Rightarrow> store \<Rightarrow> (nat \<times> store) result" where
  "evaluate_library env now library_id tags_any st =
     (let ms = list_media library_id tags_any st in
      bind_r (evaluate_files env ms st) (\<lambda>(_, st1). Inr (length ms, track_rules now st1)))"

fun all_libraries_loop :: "svc_env \<Rightarrow> int \<Rightarrow> string list \<Rightarrow> nat \<Rightarrow> store \<Rightarrow> (nat \<times> store) result" where
  "all_libraries_loop env now [] files_total st = Inr (files_total, st)"
| "all_libraries_loop env now (l # ls) files_total st =
     bind_r (evaluate_library env now l [] st) (\<lambda>(n, st1). all_libraries_loop env now ls (files_total + n) st1)"

definition evaluate_all_libraries :: "svc_env \<Rightarrow> int \<Rightarrow> store \<Rightarrow> (nat \<times> nat \<times> store) result" where
  "evaluate_all_libraries env now st =
     bind_r (all_libraries_loop env now (st_libraries st) 0 st)
       (\<lambda>(files_total, st1). Inr (length (st_libraries st), files_total, st1))"

text \<open>\<open>evaluate_rule\<close>: one rule, every library.\<close>

fun rule_files_loop ::
    "svc_env \<Rightarrow> rule \<Rightarrow> rule_definition \<Rightarrow> media_file list \<Rightarrow> nat \<times> nat \<Rightarrow> store
     \<Rightarrow> ((nat \<times> nat) \<times> store) result" where
  "rule_files_loop env r d [] acc st = Inr (acc, st)"
| "rule_files_loop env r d (m # ms) acc st =
     bind_r (evaluate_file env m (Some [(r, d)]) True (sv_clock env (mf_id m)) st) (\<lambda>(out, st1).
       rule_files_loop env r d ms
         (fst acc + (if ru_id r \<in> set (fo_matched_rule_ids out) then 1 else 0), Suc (snd acc)) st1)"

fun rule_libraries_loop ::
    "svc_env \<Rightarrow> rule \<Rightarrow> rule_definition \<Rightarrow> string list \<Rightarrow> nat \<times> nat \<Rightarrow> store
     \<Rightarrow> ((nat \<times> nat) \<times> store) result" where
  "rule_libraries_loop env r d [] acc st = Inr (acc, st)"
| "rule_libraries_loop env r d (l # ls) acc st =
     bind_r (rule_files_loop env r d (list_media l [] st) acc st) (\<lambda>(acc1, st1).
       rule_libraries_loop env r d ls acc1 st1)"

definition evaluate_rule :: "svc_env \<Rightarrow> int \<Rightarrow> string \<Rightarrow> store \<Rightarrow> (nat \<times> store) result" where
  "evaluate_rule env now rule_id st =
     (case table_find ru_id rule_id (st_rules st) of
        None \<Rightarrow> Inl ValueError
      | Some r \<Rightarrow>
          if \<not> ru_enabled r then Inl ValueError
          else case parse_definition r of
            Inl _ \<Rightarrow> Inl ValueError
          | Inr d \<Rightarrow>
              bind_r (rule_libraries_loop env r d (st_libraries st) (0, 0) st) (\<lambda>((match_count, examined), st1).
              Inr (examined, st1\<lparr>st_rules := map (\<lambda>x. if ru_id x = rule_id
                then x\<lparr>ru_last_evaluated_at := Some now, ru_last_match_count := int match_count\<rparr>
                else x) (st_rules st1)\<rparr>)))"

section \<open>The repositories meet their contracts\<close>

interpretation evals: replay_table eval_key eval_merge
  by unfold_locales (auto simp: eval_key_def eval_merge_def)

interpretation opts: replay_table opt_key opt_merge
  by unfold_locales (auto simp: opt_key_def opt_merge_def)

interpretation tags: replay_table tag_key keep_row
  by unfold_locales (auto simp: keep_row_def)

interpretation vt_queue: replay_table vq_media_file_id keep_row
  by unfold_locales (auto simp: keep_row_def)

lemma eval_merge_same_key: "eval_key x = eval_key e \<Longrightarrow> eval_merge x e = e"
  by (cases x, cases e) (simp add: eval_merge_def eval_key_def)

lemma find_upsert_evaluation:
  "table_find eval_key k (st_evals (upsert_evaluation e st)) =
     (if k = eval_key e then Some e else table_find eval_key k (st_evals st))"
  unfolding upsert_evaluation_def
  by (auto simp: evals.find_upsert eval_merge_same_key dest: table_find_SomeD split: option.split)

section \<open>Frames\<close>

text \<open>What notifying leaves alone.\<close>

definition core :: "store \<Rightarrow> store" where
  "core st = st\<lparr>st_windows := [], st_channels := [], st_deliveries := [], st_audit := [],
     st_events := []\<rparr>"

lemma core_fields:
  assumes "core st = core st'"
  shows "st_media st = st_media st'" "st_tags st = st_tags st'" "st_rules st = st_rules st'"
    "st_evals st = st_evals st'" "st_opt st = st_opt st'" "st_profiles st = st_profiles st'"
    "st_vt_queue st = st_vt_queue st'" "st_integrations st = st_integrations st'"
    "st_files st = st_files st'" "st_libraries st = st_libraries st'"
  using assms by (cases st; cases st'; simp add: core_def)+

lemma core_simps [simp]:
  "core (emit b n p s st) = core st"
  "core (audit_record a ai al tt ti md st) = core st"
  "core (set_window w st) = core st"
  "core (st\<lparr>st_windows := ws\<rparr>) = core st"
  by (simp_all add: core_def emit_def audit_record_def set_window_def)

lemma core_outside_notify: "outside_notify st = outside_notify st' \<Longrightarrow> core st = core st'"
  by (cases st; cases st'; simp add: core_def outside_notify_def)

lemma core_dispatch [simp]: "core (snd (dispatch env sev ri rn mi ctx msg now st)) = core st"
  by (rule core_outside_notify) (rule outside_notify_dispatch)

lemma core_throttle_gate [simp]: "core (snd (throttle_gate env ri rn ws cap now st)) = core st"
  by (simp add: throttle_gate_def Let_def split: option.split)

lemma core_notify_one [simp]: "core (notify_one env m r sev ad now n st) = core st"
  by (simp add: notify_one_def Let_def split: option.split)

lemma core_notify_all [simp]: "core (notify_all env m r d res agg now st) = core st"
  by (simp add: notify_all_def fold_eq_const)

lemmas notify_all_frame [simp] = core_fields [OF core_notify_all]

lemma upsert_evaluation_frame [simp]:
  "st_media (upsert_evaluation e st) = st_media st" "st_tags (upsert_evaluation e st) = st_tags st"
  "st_opt (upsert_evaluation e st) = st_opt st" "st_files (upsert_evaluation e st) = st_files st"
  "st_profiles (upsert_evaluation e st) = st_profiles st"
  "st_vt_queue (upsert_evaluation e st) = st_vt_queue st"
  "st_integrations (upsert_evaluation e st) = st_integrations st"
  "st_rules (upsert_evaluation e st) = st_rules st"
  by (simp_all add: upsert_evaluation_def)

lemma queue_one_frame [simp]:
  "st_media (queue_one env inp m r now p st) = st_media st"
  "st_tags (queue_one env inp m r now p st) = st_tags st"
  "st_evals (queue_one env inp m r now p st) = st_evals st"
  "st_files (queue_one env inp m r now p st) = st_files st"
  "st_profiles (queue_one env inp m r now p st) = st_profiles st"
  "st_vt_queue (queue_one env inp m r now p st) = st_vt_queue st"
  "st_integrations (queue_one env inp m r now p st) = st_integrations st"
  "st_rules (queue_one env inp m r now p st) = st_rules st"
  by (simp_all add: queue_one_def upsert_queued_def)

lemma queue_all_frame [simp]:
  "st_media (fold (queue_one env inp m r now) ps st) = st_media st"
  "st_tags (fold (queue_one env inp m r now) ps st) = st_tags st"
  "st_evals (fold (queue_one env inp m r now) ps st) = st_evals st"
  "st_files (fold (queue_one env inp m r now) ps st) = st_files st"
  "st_profiles (fold (queue_one env inp m r now) ps st) = st_profiles st"
  "st_vt_queue (fold (queue_one env inp m r now) ps st) = st_vt_queue st"
  "st_integrations (fold (queue_one env inp m r now) ps st) = st_integrations st"
  "st_rules (fold (queue_one env inp m r now) ps st) = st_rules st"
  by (rule fold_eq_const; simp)+

lemma persist_match_frame [simp]:
  "st_media (persist_match env inp m now r d res agg st) = st_media st"
  "st_tags (persist_match env inp m now r d res agg st) = st_tags st"
  "st_files (persist_match env inp m now r d res agg st) = st_files st"
  "st_profiles (persist_match env inp m now r d res agg st) = st_profiles st"
  "st_vt_queue (persist_match env inp m now r d res agg st) = st_vt_queue st"
  "st_integrations (persist_match env inp m now r d res agg st) = st_integrations st"
  "st_rules (persist_match env inp m now r d res agg st) = st_rules st"
  by (simp_all add: persist_match_def)

lemma persist_match_evals [simp]:
  "st_evals (persist_match env inp m now r d res agg st) =
     st_evals (upsert_evaluation (evaluation_row m r res now) st)"
  by (simp add: persist_match_def)

lemma persist_match_opt [simp]:
  "st_opt (persist_match env inp m now r d res agg st) =
     st_opt (fold (queue_one env inp m r now) (er_queue_optimizations res)
       (upsert_evaluation (evaluation_row m r res now) st))"
  by (simp add: persist_match_def)

section \<open>The loop over the rules\<close>

definition rules_safe :: "svc_env \<Rightarrow> (rule \<times> rule_definition) list \<Rightarrow> bool" where
  "rules_safe env rules = (\<forall>rd\<in>set rules. rule_safe (sv_py env) (snd rd))"

definition matching :: "svc_env \<Rightarrow> eval_input \<Rightarrow> (rule \<times> rule_definition) list
    \<Rightarrow> (rule \<times> rule_definition) list" where
  "matching env inp rules = filter (\<lambda>rd. rule_matches (sv_py env) (snd rd) inp) rules"

definition rule_result :: "eval_input \<Rightarrow> rule_definition \<Rightarrow> eval_result" where
  "rule_result inp d = fold (act inp) (rd_actions d) (empty_result True None 0)"

text \<open>The state a safe run of the loop leaves: the matching rules' effects in order.\<close>

fun persist_all ::
    "svc_env \<Rightarrow> eval_input \<Rightarrow> media_file \<Rightarrow> int \<Rightarrow> (rule \<times> rule_definition) list \<Rightarrow> eval_result
     \<Rightarrow> store \<Rightarrow> store" where
  "persist_all env inp m now [] agg st = st"
| "persist_all env inp m now ((r, d) # rules) agg st =
     (let agg' = merge_into (rule_result inp d) agg in
      persist_all env inp m now rules agg'
        (persist_match env inp m now r d (rule_result inp d) agg' st))"

definition aggregate :: "eval_input \<Rightarrow> (rule \<times> rule_definition) list \<Rightarrow> eval_result" where
  "aggregate inp ms = fold merge_into (map (rule_result inp \<circ> snd) ms) start_aggregate"

lemma rule_result_matched [simp]: "er_matched (rule_result inp d)"
  by (simp add: rule_result_def empty_result_def)

lemma evaluate_rule_result:
  assumes "rule_safe env d" "input_ok inp"
  shows "evaluate env d inp =
    Inr (if rule_matches env d inp then rule_result inp d else empty_result False None 0)"
  using evaluate_safe [OF assms] by (simp add: rule_result_def)

lemma rules_loop_safe:
  assumes "rules_safe env rules" "input_ok inp"
  shows "rules_loop env persist inp m now rules agg matched st =
    Inr (fold merge_into (map (rule_result inp \<circ> snd) (matching env inp rules)) agg,
         matched @ map (ru_id \<circ> fst) (matching env inp rules),
         if persist then persist_all env inp m now (matching env inp rules) agg st else st)"
  using assms(1)
proof (induction rules arbitrary: agg matched st)
  case Nil
  show ?case by (simp add: matching_def)
next
  case (Cons rd rules)
  obtain r d where rd: "rd = (r, d)" by fastforce
  have s: "rule_safe (sv_py env) d" and ss: "rules_safe env rules"
    using Cons.prems rd by (simp_all add: rules_safe_def)
  show ?case
  proof (cases "rule_matches (sv_py env) d inp")
    case True
    then show ?thesis
      using Cons.IH [OF ss] by (simp add: rd evaluate_rule_result [OF s assms(2)] matching_def Let_def)
  next
    case False
    then show ?thesis
      using Cons.IH [OF ss]
      by (simp add: rd evaluate_rule_result [OF s assms(2)] matching_def empty_result_def)
  qed
qed

lemma persist_all_frame [simp]:
  "st_media (persist_all env inp m now ms agg st) = st_media st"
  "st_tags (persist_all env inp m now ms agg st) = st_tags st"
  "st_files (persist_all env inp m now ms agg st) = st_files st"
  "st_profiles (persist_all env inp m now ms agg st) = st_profiles st"
  "st_vt_queue (persist_all env inp m now ms agg st) = st_vt_queue st"
  "st_integrations (persist_all env inp m now ms agg st) = st_integrations st"
  "st_rules (persist_all env inp m now ms agg st) = st_rules st"
  by (induction ms arbitrary: agg st; simp add: Let_def split_paired_all)+

lemma evaluate_file_safe:
  assumes "rules_safe env rules" "input_ok (build_input m st)"
  defines "inp \<equiv> build_input m st"
  shows "evaluate_file env m (Some rules) persist now st =
    bind_r (if persist
            then finish_file env m rules (aggregate inp (matching env inp rules))
                   (map (ru_id \<circ> fst) (matching env inp rules))
                   (persist_all env inp m now (matching env inp rules) start_aggregate st)
            else Inr st)
      (\<lambda>st2. Inr (\<lparr>fo_media_file_id = mf_id m,
         fo_severity = str_or (er_severity (aggregate inp (matching env inp rules))) ''ok'',
         fo_severity_rank = er_severity_rank (aggregate inp (matching env inp rules)),
         fo_add_tags = er_add_tags (aggregate inp (matching env inp rules)),
         fo_matched_rule_ids = map (ru_id \<circ> fst) (matching env inp rules)\<rparr>, st2))"
  using rules_loop_safe [OF assms(1,2)]
  by (auto simp: evaluate_file_def inp_def aggregate_def)

end
