(* ===== verification/RuleGuarantees.thy ===== *)
theory RuleGuarantees
  imports RulesService
begin

text \<open>
  What the rules service guarantees: the severity of a file, its evaluation rows, the throttle,
  deletion, upstream searches, the optimization queue, and what an evaluation leaves alone.
\<close>

section \<open>Severity\<close>

definition asked_ranks :: "(rule \<times> rule_definition) list \<Rightarrow> int list" where
  "asked_ranks ms = concat (map (\<lambda>rd. List.map_filter action_rank (rd_actions (snd rd))) ms)"

lemma set_map_filter: "set (List.map_filter f xs) = {y. \<exists>x\<in>set xs. f x = Some y}"
  by (induction xs) (auto simp: List.map_filter_simps split: option.splits)

lemma set_asked_ranks:
  "set (asked_ranks ms) = {k. \<exists>rd\<in>set ms. \<exists>a\<in>set (rd_actions (snd rd)). action_rank a = Some k}"
  by (auto simp: asked_ranks_def set_map_filter)

lemma action_rank_pos: "action_rank a = Some k \<Longrightarrow> 0 < k"
  by (cases a) (auto dest: severity_level_pos)

lemma rule_result_wf: "severity_wf (rule_result inp d)"
  unfolding rule_result_def by (rule severity_wf_fold_act) simp

lemma rule_result_rank:
  "er_severity_rank (rule_result inp d) =
     Max (insert 0 {k. \<exists>a\<in>set (rd_actions d). action_rank a = Some k})"
  unfolding rule_result_def by (subst rule_severity.rank_fold) (simp add: empty_result_def)

lemma finite_action_ranks: "finite {k. \<exists>a\<in>set as. action_rank a = Some k}"
  using List.finite_set [of "List.map_filter action_rank as"] by (simp add: set_map_filter)

lemma result_rank_rule_result:
  "result_rank (rule_result inp d) = Some k \<longleftrightarrow> k = er_severity_rank (rule_result inp d) \<and> 0 < k"
  using rule_result_wf [of inp d]
  by (auto simp: result_rank_def severity_wf_def split: option.splits dest: severity_level_pos)

lemma result_rank_asked:
  "result_rank (rule_result inp d) = Some k \<Longrightarrow> \<exists>a\<in>set (rd_actions d). action_rank a = Some k"
  unfolding result_rank_rule_result
  using Max_in [of "insert 0 {k. \<exists>a\<in>set (rd_actions d). action_rank a = Some k}"]
  by (auto simp: rule_result_rank finite_action_ranks)

lemma asked_result_rank:
  assumes "a \<in> set (rd_actions d)" "action_rank a = Some k"
  shows "\<exists>k'. result_rank (rule_result inp d) = Some k' \<and> k \<le> k'"
proof -
  have "k \<le> er_severity_rank (rule_result inp d)"
    using assms by (auto simp: rule_result_rank finite_action_ranks intro!: Max_ge)
  with action_rank_pos [OF assms(2)] show ?thesis by (auto simp: result_rank_rule_result)
qed

lemma Max_insert_dominate:
  assumes "finite A" "finite B" "\<And>a. a \<in> A \<Longrightarrow> a \<in> insert x B"
    "\<And>b. b \<in> B \<Longrightarrow> \<exists>a\<in>A. b \<le> (a::int)"
  shows "Max (insert x A) = Max (insert x B)"
proof (rule antisym)
  show "Max (insert x A) \<le> Max (insert x B)"
    using assms by (intro Max_mono) auto
  show "Max (insert x B) \<le> Max (insert x A)"
  proof (rule Max.boundedI)
    fix b assume "b \<in> insert x B"
    with assms(4) obtain a where "a \<in> insert x A" "b \<le> a" by blast
    then show "b \<le> Max (insert x A)" using assms(1) by (metis Max_ge finite_insert order_trans)
  qed (use assms in auto)
qed

lemma aggregate_rank: "er_severity_rank (aggregate inp ms) = Max (set (10 # asked_ranks ms))"
proof -
  let ?A = "{k. \<exists>res\<in>set (map (rule_result inp \<circ> snd) ms). result_rank res = Some k}"
  have A: "?A = (\<Union>rd\<in>set ms. {k. result_rank (rule_result inp (snd rd)) = Some k})" by auto
  have "er_severity_rank (aggregate inp ms) = Max (insert 10 ?A)"
    unfolding aggregate_def
    by (subst file_severity.rank_fold) (simp add: start_aggregate_def empty_result_def)
  also have "\<dots> = Max (insert 10 (set (asked_ranks ms)))"
  proof (rule Max_insert_dominate)
    show "finite ?A" unfolding A by (auto simp: result_rank_def)
    show "a \<in> insert 10 (set (asked_ranks ms))" if "a \<in> ?A" for a
      using that result_rank_asked by (fastforce simp: set_asked_ranks)
    show "\<exists>a\<in>?A. b \<le> a" if "b \<in> set (asked_ranks ms)" for b
      using that asked_result_rank [of _ _ b inp] by (fastforce simp: set_asked_ranks)
  qed simp
  finally show ?thesis by simp
qed

lemma start_aggregate_wf: "severity_wf start_aggregate"
  by (simp add: start_aggregate_def severity_wf_def empty_result_def severity_level_def
      SEVERITY_LEVELS_def)

lemma aggregate_wf: "severity_wf (aggregate inp ms)"
  unfolding aggregate_def
  by (rule severity_wf_fold_merge) (auto intro: rule_result_wf start_aggregate_wf)

lemma aggregate_severity:
  "severity_level (str_or (er_severity (aggregate inp ms)) ''ok'') =
     Some (er_severity_rank (aggregate inp ms))"
proof -
  have "10 \<le> er_severity_rank (aggregate inp ms)" by (simp add: aggregate_rank)
  then obtain s where s: "er_severity (aggregate inp ms) = Some s"
    "severity_level s = Some (er_severity_rank (aggregate inp ms))"
    using aggregate_wf [of inp ms] by (auto simp: severity_wf_def split: option.splits)
  then have "s \<noteq> []" by (auto simp: severity_level_def SEVERITY_LEVELS_def)
  with s show ?thesis by (simp add: str_or_def)
qed

lemma evaluate_file_result:
  assumes "rules_safe env rules" "input_ok (build_input m st)"
    "evaluate_file env m (Some rules) persist now st = Inr (out, st')"
  defines "ms \<equiv> matching env (build_input m st) rules"
  shows "fo_severity_rank out = Max (set (10 # asked_ranks ms))"
    and "severity_level (fo_severity out) = Some (fo_severity_rank out)"
    and "fo_matched_rule_ids out = map (ru_id \<circ> fst) ms"
    and "fo_add_tags out = er_add_tags (aggregate (build_input m st) ms)"
    and "persist \<Longrightarrow> finish_file env m rules (aggregate (build_input m st) ms) (fo_matched_rule_ids out)
           (persist_all env (build_input m st) m now ms start_aggregate st) = Inr st'"
    and "\<not> persist \<Longrightarrow> st' = st"
  using assms(3) unfolding evaluate_file_safe [OF assms(1,2)] ms_def
  by (auto simp: bind_r_Inr_iff aggregate_rank aggregate_severity split: if_splits)

section \<open>Evaluation rows\<close>

lemma find_persist_all_evals:
  assumes "distinct (map (ru_id \<circ> fst) ms)"
  shows "table_find eval_key k (st_evals (persist_all env inp m now ms agg st)) =
    (case find (\<lambda>rd. (mf_id m, ru_id (fst rd)) = k) ms of
       Some rd \<Rightarrow> Some (evaluation_row m (fst rd) (rule_result inp (snd rd)) now)
     | None \<Rightarrow> table_find eval_key k (st_evals st))"
  using assms
proof (induction ms arbitrary: agg st)
  case (Cons rd ms)
  obtain r d where rd: "rd = (r, d)" by fastforce
  have key: "eval_key (evaluation_row m r res now) = (mf_id m, ru_id r)" for res
    by (simp add: eval_key_def evaluation_row_def)
  have none: "find (\<lambda>rd. (mf_id m, ru_id (fst rd)) = k) ms = None" if "k = (mf_id m, ru_id r)"
    using Cons.prems rd that by (auto simp: find_None_iff image_iff)
  show ?case
    using Cons rd none by (auto simp: Let_def find_upsert_evaluation key split: option.splits)
qed simp

lemma unique_persist_all_evals:
  "unique_keys eval_key (st_evals st) \<Longrightarrow>
     unique_keys eval_key (st_evals (persist_all env inp m now ms agg st))"
proof (induction ms arbitrary: agg st)
  case (Cons rd ms)
  then show ?case
    by (cases rd) (simp add: Let_def upsert_evaluation_def evals.upsert_unique)
qed simp

lemma find_of_others:
  "table_find eval_key (f, i) (filter (\<lambda>e. re_media_file_id e \<noteq> j) t) =
     (if f = j then None else table_find eval_key (f, i) t)"
proof -
  have k: "eval_key e = (f, i) \<Longrightarrow> re_media_file_id e = f" for e by (simp add: eval_key_def)
  show ?thesis
  proof (induction t)
    case (Cons e t)
    then show ?case using k [of e] by (cases "f = j"; cases "eval_key e = (f, i)") auto
  qed simp
qed

lemma find_drop_stale:
  assumes "unique_keys eval_key (st_evals s)"
  shows "table_find eval_key (f, i) (st_evals (drop_stale j ev ma s)) =
    (if f = j \<and> i \<in> set ev \<and> i \<notin> set ma then None else table_find eval_key (f, i) (st_evals s))"
proof (cases "table_find eval_key (f, i) (st_evals s)")
  case None
  then show ?thesis using assms by (simp add: drop_stale_def table_find_filter)
next
  case (Some x)
  then have "re_media_file_id x = f" "re_rule_id x = i"
    by (auto simp: eval_key_def dest: table_find_SomeD)
  then show ?thesis using assms Some by (auto simp: drop_stale_def table_find_filter)
qed

lemma apply_rows_frame [simp]:
  "st_evals (apply_rows m rules agg matched st) =
     st_evals (drop_stale (mf_id m) (map (ru_id \<circ> fst) rules) matched st)"
  "st_opt (apply_rows m rules agg matched st) = st_opt st"
  "st_files (apply_rows m rules agg matched st) = st_files st"
  "st_vt_queue (apply_rows m rules agg matched st) = st_vt_queue st"
  "st_audit (apply_rows m rules agg matched st) = st_audit st"
  "st_events (apply_rows m rules agg matched st) = st_events st"
  "st_integrations (apply_rows m rules agg matched st) = st_integrations st"
  "st_media (apply_rows m rules agg matched st) =
     st_media (set_severity (mf_id m) (str_or (er_severity agg) ''ok'') (er_severity_rank agg) st)"
  unfolding apply_rows_def
  by (subst fold_eq_const; simp add: upsert_tag_def set_severity_def drop_stale_def)+

lemma upsert_tag_tags: "st_tags (upsert_tag i t st) = table_upsert tag_key keep_row
    \<lparr>mt_media_file_id = i, mt_name = t, mt_source = ''rule''\<rparr> (st_tags st)"
  by (simp add: upsert_tag_def)

lemma search_loop_frame:
  "search_loop env m qs st = Inr st' \<Longrightarrow> core st' = core st"
proof (induction qs arbitrary: st)
  case (Cons q qs)
  then show ?case
    by (fastforce simp: bind_r_Inr_iff emit_search_upstream_audit_def split: option.splits prod.splits)
qed simp

lemma trigger_frame: "trigger_upstream_searches env m qs st = Inr st' \<Longrightarrow> core st' = core st"
  by (simp add: trigger_upstream_searches_def search_loop_frame)

lemma apply_vt_frame [simp]:
  "st_media (apply_vt env m agg st) = st_media st" "st_tags (apply_vt env m agg st) = st_tags st"
  "st_evals (apply_vt env m agg st) = st_evals st" "st_opt (apply_vt env m agg st) = st_opt st"
  "st_files (apply_vt env m agg st) = st_files st" "st_audit (apply_vt env m agg st) = st_audit st"
  "st_events (apply_vt env m agg st) = st_events st"
  "st_integrations (apply_vt env m agg st) = st_integrations st"
  by (simp_all add: apply_vt_def enqueue_for_vt_lookup_def)

lemma apply_delete_frame [simp]:
  "st_media (snd (apply_delete env m agg st)) = st_media st"
  "st_tags (snd (apply_delete env m agg st)) = st_tags st"
  "st_evals (snd (apply_delete env m agg st)) = st_evals st"
  "st_opt (snd (apply_delete env m agg st)) = st_opt st"
  "st_vt_queue (snd (apply_delete env m agg st)) = st_vt_queue st"
  "st_integrations (snd (apply_delete env m agg st)) = st_integrations st"
  by (simp_all add: apply_delete_def hard_delete_media_def move_file_def Let_def)

text \<open>The tables after the tail of an evaluation, before the row's deletion is applied.\<close>

lemma finish_file_tables:
  assumes "finish_file env m rules agg matched st = Inr st'"
  obtains st1 where "st' = (if fst (apply_delete env m agg (apply_rows m rules agg matched st))
                            then delete_media (mf_id m) st1 else st1)"
    "st_media st1 = st_media (apply_rows m rules agg matched st)"
    "st_tags st1 = st_tags (apply_rows m rules agg matched st)"
    "st_evals st1 = st_evals (drop_stale (mf_id m) (map (ru_id \<circ> fst) rules) matched st)"
    "st_opt st1 = st_opt st"
    "st_vt_queue st1 = st_vt_queue (apply_vt env m agg st)"
    "st_files st1 = st_files (snd (apply_delete env m agg (apply_rows m rules agg matched st)))"
proof -
  let ?d = "apply_delete env m agg (apply_rows m rules agg matched st)"
  obtain st1 where s: "trigger_upstream_searches env m (er_search_upstream_requests agg)
      (apply_vt env m agg (snd ?d)) = Inr st1"
    and st': "st' = (if fst ?d then delete_media (mf_id m) st1 else st1)"
    using assms unfolding finish_file_def Let_def bind_r_Inr_iff sum.inject by blast
  note f = core_fields [OF trigger_frame [OF s]]
  have v: "st_vt_queue (apply_vt env m agg (snd ?d)) = st_vt_queue (apply_vt env m agg st)"
    by (simp add: apply_vt_def enqueue_for_vt_lookup_def)
  show ?thesis by (rule that [OF st']) (simp_all add: f v)
qed

section \<open>What an evaluation leaves alone\<close>

lemma filter_upsert_evaluation:
  "filter (\<lambda>e. re_media_file_id e \<noteq> re_media_file_id r) (st_evals (upsert_evaluation r st)) =
     filter (\<lambda>e. re_media_file_id e \<noteq> re_media_file_id r) (st_evals st)"
  unfolding upsert_evaluation_def
  by (simp, rule filter_upsert) (auto simp: eval_key_def eval_merge_def)

lemma filter_queue_one:
  "filter (\<lambda>q. oi_media_file_id q \<noteq> mf_id m) (st_opt (queue_one env inp m r now p st)) =
     filter (\<lambda>q. oi_media_file_id q \<noteq> mf_id m) (st_opt st)"
  by (auto simp: queue_one_def upsert_queued_def queued_item_def opt_key_def opt_merge_def
      intro!: filter_upsert split: if_splits)

lemma filter_queue_all:
  "filter (\<lambda>q. oi_media_file_id q \<noteq> mf_id m) (st_opt (fold (queue_one env inp m r now) ps st)) =
     filter (\<lambda>q. oi_media_file_id q \<noteq> mf_id m) (st_opt st)"
  by (rule fold_eq_const) (rule filter_queue_one)

lemma filter_upsert_tag:
  "filter (\<lambda>t. mt_media_file_id t \<noteq> i) (st_tags (upsert_tag i n st)) =
     filter (\<lambda>t. mt_media_file_id t \<noteq> i) (st_tags st)"
  by (auto simp: upsert_tag_def tag_key_def keep_row_def intro!: filter_upsert)

lemma filter_apply_rows_tags:
  "filter (\<lambda>t. mt_media_file_id t \<noteq> mf_id m) (st_tags (apply_rows m rules agg matched st)) =
     filter (\<lambda>t. mt_media_file_id t \<noteq> mf_id m) (st_tags st)"
proof -
  have "filter (\<lambda>t. mt_media_file_id t \<noteq> mf_id m) (st_tags (fold (upsert_tag (mf_id m)) ts s)) =
        filter (\<lambda>t. mt_media_file_id t \<noteq> mf_id m) (st_tags s)" for ts s
    by (rule fold_eq_const) (rule filter_upsert_tag)
  then show ?thesis by (simp add: apply_rows_def set_severity_def drop_stale_def)
qed

lemma filter_set_severity:
  "filter (\<lambda>x. mf_id x \<noteq> i) (st_media (set_severity i s k st)) = filter (\<lambda>x. mf_id x \<noteq> i) (st_media st)"
proof -
  have "filter (\<lambda>x. mf_id x \<noteq> i)
      (map (\<lambda>m. if mf_id m = i then m\<lparr>mf_severity := s, mf_severity_rank := k\<rparr> else m) xs) =
      filter (\<lambda>x. mf_id x \<noteq> i) xs" for xs
    by (induction xs) auto
  then show ?thesis by (simp add: set_severity_def)
qed

lemma filter_apply_vt:
  "filter (\<lambda>v. vq_media_file_id v \<noteq> mf_id m) (st_vt_queue (apply_vt env m agg st)) =
     filter (\<lambda>v. vq_media_file_id v \<noteq> mf_id m) (st_vt_queue st)"
  by (auto simp: apply_vt_def enqueue_for_vt_lookup_def keep_row_def intro!: filter_upsert)

lemma filter_drop_stale:
  "filter (\<lambda>e. re_media_file_id e \<noteq> i) (st_evals (drop_stale i ev ma st)) =
     filter (\<lambda>e. re_media_file_id e \<noteq> i) (st_evals st)"
  by (auto simp: drop_stale_def intro: filter_cong)

lemma filter_persist_all:
  "filter (\<lambda>e. re_media_file_id e \<noteq> mf_id m) (st_evals (persist_all env inp m now ms agg st)) =
     filter (\<lambda>e. re_media_file_id e \<noteq> mf_id m) (st_evals st)"
  "filter (\<lambda>q. oi_media_file_id q \<noteq> mf_id m) (st_opt (persist_all env inp m now ms agg st)) =
     filter (\<lambda>q. oi_media_file_id q \<noteq> mf_id m) (st_opt st)"
proof (induction ms arbitrary: agg st)
  case (Cons rd ms)
  obtain r d where rd: "rd = (r, d)" by fastforce
  have id: "re_media_file_id (evaluation_row m r res now) = mf_id m" for res
    by (simp add: evaluation_row_def)
  { case 1 show ?case
      using Cons filter_upsert_evaluation [of "evaluation_row m r (rule_result inp d) now" st]
      by (simp add: rd Let_def id) }
  { case 2 show ?case using Cons by (simp add: rd Let_def filter_queue_all) }
qed simp_all

definition of_others :: "string \<Rightarrow> store \<Rightarrow> media_file list \<times> media_tag list \<times> rule_evaluation list
    \<times> optimization_item list \<times> vt_queue_item list" where
  "of_others i st =
     (filter (\<lambda>x. mf_id x \<noteq> i) (st_media st), filter (\<lambda>t. mt_media_file_id t \<noteq> i) (st_tags st),
      filter (\<lambda>e. re_media_file_id e \<noteq> i) (st_evals st),
      filter (\<lambda>q. oi_media_file_id q \<noteq> i) (st_opt st),
      filter (\<lambda>v. vq_media_file_id v \<noteq> i) (st_vt_queue st))"

lemma of_others_delete [simp]: "of_others i (delete_media i st) = of_others i st"
  by (simp add: of_others_def delete_media_def)

lemma of_others_finish:
  assumes "finish_file env m rules agg matched st = Inr st'"
  shows "of_others (mf_id m) st' = of_others (mf_id m) st"
proof -
  obtain st1 where "st' = (if fst (apply_delete env m agg (apply_rows m rules agg matched st))
                            then delete_media (mf_id m) st1 else st1)"
    and f: "st_media st1 = st_media (apply_rows m rules agg matched st)"
    "st_tags st1 = st_tags (apply_rows m rules agg matched st)"
    "st_evals st1 = st_evals (drop_stale (mf_id m) (map (ru_id \<circ> fst) rules) matched st)"
    "st_opt st1 = st_opt st" "st_vt_queue st1 = st_vt_queue (apply_vt env m agg st)"
    by (rule finish_file_tables [OF assms])
  then have "of_others (mf_id m) st' = of_others (mf_id m) st1" by simp
  also have "\<dots> = of_others (mf_id m) st"
    by (simp add: of_others_def f filter_set_severity filter_apply_rows_tags filter_drop_stale
        filter_apply_vt)
  finally show ?thesis .
qed

section \<open>Throttle\<close>

text \<open>The gate called at a list of instants.\<close>

fun gate_run ::
    "svc_env \<Rightarrow> string \<Rightarrow> string \<Rightarrow> int \<Rightarrow> int \<Rightarrow> int list \<Rightarrow> store \<Rightarrow> bool list \<times> store" where
  "gate_run env ri rn ws cap [] st = ([], st)"
| "gate_run env ri rn ws cap (t # ts) st =
     (let g = throttle_gate env ri rn ws cap t st;
          rest = gate_run env ri rn ws cap ts (snd g) in
      (fst g # fst rest, snd rest))"

definition window_count :: "string \<Rightarrow> int \<Rightarrow> store \<Rightarrow> int" where
  "window_count ri w st =
     (case table_find window_key (ri, w) (st_windows st) of None \<Rightarrow> 0 | Some row \<Rightarrow> nw_count row)"

definition throttle_audits :: "string \<Rightarrow> int \<Rightarrow> store \<Rightarrow> nat" where
  "throttle_audits ri w st =
     length (filter (\<lambda>e. al_action e = ''rule.throttled'' \<and> al_target_id e = Some ri
       \<and> map_of (al_metadata e) ''window_start'' = Some (PyInt w)) (st_audit st))"

lemma find_set_window:
  assumes "table_find window_key k (st_windows st) = Some row" "window_key w = k"
  shows "table_find window_key k (st_windows (set_window w st)) = Some w"
proof -
  have "table_find window_key k (st_windows (set_window w st)) =
        map_option (\<lambda>x. if window_key x = window_key w then w else x) (table_find window_key k (st_windows st))"
    unfolding set_window_def using assms(2) by (simp add: table_find_map)
  with assms show ?thesis by (auto dest: table_find_SomeD)
qed

lemma throttle_gate_step:
  assumes cap: "1 \<le> cap" and w: "window_bucket ws t = w" and n: "0 \<le> window_count ri w st"
  shows "fst (throttle_gate env ri rn ws cap t st) \<longleftrightarrow> window_count ri w st < cap"
    and "window_count ri w (snd (throttle_gate env ri rn ws cap t st)) = window_count ri w st + 1"
    and "throttle_audits ri w (snd (throttle_gate env ri rn ws cap t st)) =
         throttle_audits ri w st + (if window_count ri w st = cap then 1 else 0)"
proof -
  have "fst (throttle_gate env ri rn ws cap t st) = (window_count ri w st < cap)
    \<and> window_count ri w (snd (throttle_gate env ri rn ws cap t st)) = window_count ri w st + 1
    \<and> throttle_audits ri w (snd (throttle_gate env ri rn ws cap t st)) =
         throttle_audits ri w st + (if window_count ri w st = cap then 1 else 0)"
  proof (cases "table_find window_key (ri, w) (st_windows st)")
    case None
    then show ?thesis using cap
      by (simp add: throttle_gate_def Let_def w window_count_def throttle_audits_def
          table_find_append window_key_def)
  next
    case (Some row)
    then have k: "window_key row = (ri, w)" by (auto dest: table_find_SomeD)
    then have k': "window_key (row\<lparr>nw_count := x\<rparr>) = (ri, w)" for x by (simp add: window_key_def)
    have f: "table_find window_key (ri, w) (st_windows (set_window (row\<lparr>nw_count := x\<rparr>) s)) =
        Some (row\<lparr>nw_count := x\<rparr>)" if "st_windows s = st_windows st" for x s
      using that Some k' by (intro find_set_window) auto
    have a: "st_audit (set_window x s) = st_audit s" for x s by (simp add: set_window_def)
    show ?thesis
      using Some by (auto simp: throttle_gate_def Let_def w window_count_def throttle_audits_def f a
          throttle_payload_def)
  qed
  then show "fst (throttle_gate env ri rn ws cap t st) \<longleftrightarrow> window_count ri w st < cap"
    "window_count ri w (snd (throttle_gate env ri rn ws cap t st)) = window_count ri w st + 1"
    "throttle_audits ri w (snd (throttle_gate env ri rn ws cap t st)) =
         throttle_audits ri w st + (if window_count ri w st = cap then 1 else 0)" by blast+
qed

lemma gate_run_window:
  assumes "1 \<le> cap" "\<And>t. t \<in> set ts \<Longrightarrow> window_bucket ws t = w" "0 \<le> window_count ri w st"
  shows "fst (gate_run env ri rn ws cap ts st) =
      map (\<lambda>i. window_count ri w st + int i < cap) [0..<length ts]
    \<and> throttle_audits ri w (snd (gate_run env ri rn ws cap ts st)) = throttle_audits ri w st +
        (if window_count ri w st \<le> cap \<and> cap < window_count ri w st + int (length ts) then 1 else 0)"
  using assms(2,3)
proof (induction ts arbitrary: st)
  case (Cons t ts)
  let ?g = "throttle_gate env ri rn ws cap t st"
  have wt: "window_bucket ws t = w" using Cons.prems(1) by simp
  note step = throttle_gate_step [OF assms(1) wt Cons.prems(2), of env rn]
  have ih: "fst (gate_run env ri rn ws cap ts (snd ?g)) =
      map (\<lambda>i. window_count ri w st + 1 + int i < cap) [0..<length ts]
    \<and> throttle_audits ri w (snd (gate_run env ri rn ws cap ts (snd ?g))) =
        throttle_audits ri w (snd ?g) +
        (if window_count ri w st + 1 \<le> cap \<and> cap < window_count ri w st + 1 + int (length ts) then 1 else 0)"
    using Cons.IH [of "snd ?g"] Cons.prems step(2) by simp
  have "[0..<Suc (length ts)] = 0 # map Suc [0..<length ts]"
    by (simp add: map_Suc_upt upt_conv_Cons del: upt_Suc)
  then have split: "map (\<lambda>i. window_count ri w st + int i < cap) [0..<length (t # ts)] =
      (window_count ri w st < cap) # map (\<lambda>i. window_count ri w st + 1 + int i < cap) [0..<length ts]"
    by (simp add: comp_def algebra_simps del: upt_Suc)
  show ?case unfolding split using ih step by (auto simp: Let_def)
qed simp

section \<open>Upstream searches\<close>

text \<open>Every integration's secrets decrypt.\<close>

definition secrets_ok :: "svc_env \<Rightarrow> store \<Rightarrow> bool" where
  "secrets_ok env st = (\<forall>ig\<in>set (st_integrations st). is_ok (build_integration_config env ig))"

lemma search_entry_ok:
  assumes "secrets_ok env st"
  obtains e where "search_entry env m q st = Inr e"
proof (cases "table_find ig_id (sr_integration_id q) (st_integrations st)")
  case None
  then show ?thesis using that by (simp add: search_entry_def Let_def)
next
  case (Some ig)
  then obtain cfg where "build_integration_config env ig = Inr cfg"
    using assms by (auto simp: secrets_ok_def is_ok_iff dest: table_find_SomeD)
  with Some have "is_ok (search_entry env m q st)"
    by (simp add: search_entry_def Let_def split: option.split)
  then show ?thesis using that by (auto simp: is_ok_iff)
qed

lemma search_entry_registry:
  "sv_registry env \<Longrightarrow> search_entry env m q st = Inr e \<Longrightarrow> e \<noteq> None"
  by (auto simp: search_entry_def Let_def bind_r_Inr_iff split: if_splits option.splits)

lemma secrets_ok_core: "core st = core st' \<Longrightarrow> secrets_ok env st = secrets_ok env st'"
  unfolding secrets_ok_def by (drule core_fields(8)) simp

lemma emit_search_core [simp]: "core (emit_search_upstream_audit env m i t res st) = core st"
  by (simp add: emit_search_upstream_audit_def)

lemma search_loop_ok:
  assumes "secrets_ok env st"
  shows "\<exists>st'. search_loop env m qs st = Inr st'"
  using assms
proof (induction qs arbitrary: st)
  case (Cons q qs)
  obtain e where e: "search_entry env m q st = Inr e" using search_entry_ok [OF Cons.prems] .
  let ?st = "case e of None \<Rightarrow> st
    | Some (target, res) \<Rightarrow> emit_search_upstream_audit env m (sr_integration_id q) target res st"
  have "core ?st = core st" by (simp split: option.split)
  then have "secrets_ok env ?st" using Cons.prems secrets_ok_core by blast
  then show ?case using Cons.IH e by simp
qed simp

lemma unique_requests_ids:
  "map sr_integration_id (unique_requests seen qs) =
     dedup_seen seen (filter (\<lambda>i. i \<noteq> []) (map sr_integration_id qs))"
  by (induction qs arbitrary: seen) auto

definition search_entries :: "audit_log_entry list \<Rightarrow> (pyval option) list" where
  "search_entries es = map (\<lambda>e. map_of (al_metadata e) ''integration_id'')
     (filter (\<lambda>e. al_action e = ''rule.action.search_upstream'') es)"

lemma search_entries_append [simp]: "search_entries (es @ fs) = search_entries es @ search_entries fs"
  by (simp add: search_entries_def)

lemma search_loop_audit:
  assumes "secrets_ok env st" "sv_registry env" "search_loop env m qs st = Inr st'"
  shows "search_entries (st_audit st') =
    search_entries (st_audit st) @ map (\<lambda>q. Some (PyStr (sr_integration_id q))) qs"
  using assms(1,3)
proof (induction qs arbitrary: st)
  case (Cons q qs)
  obtain target res where e: "search_entry env m q st = Inr (Some (target, res))"
    using search_entry_ok [OF Cons.prems(1)] search_entry_registry [OF assms(2)]
    by (metis not_None_eq surj_pair)
  let ?st = "emit_search_upstream_audit env m (sr_integration_id q) target res st"
  have "secrets_ok env ?st" using Cons.prems(1) secrets_ok_core emit_search_core by blast
  moreover have "search_loop env m qs ?st = Inr st'" using Cons.prems(2) e by simp
  moreover have "search_entries (st_audit ?st) =
      search_entries (st_audit st) @ [Some (PyStr (sr_integration_id q))]"
    by (simp add: emit_search_upstream_audit_def search_entries_def search_payload_def)
  ultimately show ?case using Cons.IH by simp
qed simp

section \<open>Every evaluation returns\<close>

lemma finish_file_ok:
  assumes "secrets_ok env st"
  shows "\<exists>st'. finish_file env m rules agg matched st = Inr st'"
proof -
  let ?s = "apply_vt env m agg (snd (apply_delete env m agg (apply_rows m rules agg matched st)))"
  have "secrets_ok env ?s" using assms by (simp add: secrets_ok_def)
  then obtain st1 where "trigger_upstream_searches env m (er_search_upstream_requests agg) ?s = Inr st1"
    unfolding trigger_upstream_searches_def using search_loop_ok by blast
  then show ?thesis by (simp add: finish_file_def Let_def)
qed

lemma evaluate_file_total:
  assumes "rules_safe env rules" "input_ok (build_input m st)" "secrets_ok env st"
  obtains out st' where "evaluate_file env m (Some rules) persist now st = Inr (out, st')"
proof -
  let ?inp = "build_input m st"
  let ?ms = "matching env ?inp rules"
  have "secrets_ok env (persist_all env ?inp m now ?ms start_aggregate st)"
    using assms(3) by (simp add: secrets_ok_def)
  then obtain st1 where "finish_file env m rules (aggregate ?inp ?ms) (map (ru_id \<circ> fst) ?ms)
      (persist_all env ?inp m now ?ms start_aggregate st) = Inr st1"
    using finish_file_ok by blast
  then show ?thesis using that by (cases persist) (simp_all add: evaluate_file_safe [OF assms(1,2)])
qed

section \<open>Deletion\<close>

lemma rule_result_delete_paths:
  "er_delete_paths (rule_result inp d) =
     replicate (length (filter is_delete (rd_actions d))) (ei_path inp)"
  by (simp add: rule_result_def fold_act_deletes empty_result_def)

lemma aggregate_delete_paths:
  "er_delete_paths (aggregate inp ms) \<noteq> [] \<longleftrightarrow>
     (\<exists>rd\<in>set ms. \<exists>a\<in>set (rd_actions (snd rd)). is_delete a)"
  by (auto simp: aggregate_def fold_merge_lists start_aggregate_def empty_result_def
      rule_result_delete_paths filter_empty_conv)

definition trash_works :: "svc_env \<Rightarrow> media_file \<Rightarrow> store \<Rightarrow> bool" where
  "trash_works env m st =
     (\<not> sv_mkdir_fails env \<and>
      (mf_path m \<in> set (st_files st) \<longrightarrow> \<not> sv_move_fails env (mf_path m) (trash_dst env m)))"

lemma apply_delete_fst:
  "fst (apply_delete env m agg st) \<longleftrightarrow> er_delete_paths agg \<noteq> [] \<and> trash_works env m st"
  by (auto simp: apply_delete_def hard_delete_media_def trash_works_def Let_def)

lemma apply_delete_files:
  "st_files (snd (apply_delete env m agg st)) =
     (if er_delete_paths agg \<noteq> [] \<and> trash_works env m st \<and> mf_path m \<in> set (st_files st)
      then st_files (move_file (mf_path m) (trash_dst env m) st) else st_files st)"
  by (auto simp: apply_delete_def hard_delete_media_def trash_works_def Let_def)

lemma set_move_file: "set (st_files (move_file src dst st)) =
    insert dst (set (st_files st) - {src}) \<or> (dst = src \<and> set (st_files (move_file src dst st)) = set (st_files st) - {src})"
  by (auto simp: move_file_def)

lemma trash_works_files: "st_files st = st_files st' \<Longrightarrow> trash_works env m st = trash_works env m st'"
  by (simp add: trash_works_def)

section \<open>Tags and the queue\<close>

lemma rule_tags: "set (er_add_tags (rule_result inp d)) = {t. AddTag t \<in> set (rd_actions d)}"
proof -
  have step: "set (er_add_tags (act inp a res)) = set (er_add_tags res) \<union> {t. a = AddTag t}" for a res
    by (cases a) (auto simp: act_def split: option.splits)
  have "set (er_add_tags (fold (act inp) as res)) = set (er_add_tags res) \<union> {t. AddTag t \<in> set as}"
    for as res
    by (induction as arbitrary: res) (auto simp: step)
  then show ?thesis by (simp add: rule_result_def empty_result_def)
qed

lemma aggregate_tags:
  "set (er_add_tags (aggregate inp ms)) = {t. \<exists>rd\<in>set ms. AddTag t \<in> set (rd_actions (snd rd))}"
  "distinct (er_add_tags (aggregate inp ms))"
  by (auto simp: aggregate_def fold_merge_tags fold_merge_distinct rule_tags start_aggregate_def
      empty_result_def)

definition rule_tag_names :: "string \<Rightarrow> store \<Rightarrow> string set" where
  "rule_tag_names i st = {n. \<exists>t\<in>set (st_tags st). tag_key t = (i, n, ''rule'')}"

lemma rule_tag_names_alt: "rule_tag_names i st = {n. (i, n, ''rule'') \<in> tag_key ` set (st_tags st)}"
  by (auto simp: rule_tag_names_def image_iff) metis

lemma rule_tag_names_upsert: "rule_tag_names i (upsert_tag i n st) = insert n (rule_tag_names i st)"
  by (auto simp: rule_tag_names_alt upsert_tag_tags tags.upsert_keys) (simp_all add: tag_key_def)

lemma rule_tag_names_fold: "rule_tag_names i (fold (upsert_tag i) ns st) = set ns \<union> rule_tag_names i st"
  by (induction ns arbitrary: st) (auto simp: rule_tag_names_upsert)

lemma rule_tag_names_rows:
  "rule_tag_names (mf_id m) (apply_rows m rules agg matched st) =
     set (er_add_tags agg) \<union> rule_tag_names (mf_id m) st"
  by (simp add: apply_rows_def rule_tag_names_fold)
     (simp add: rule_tag_names_def set_severity_def drop_stale_def)

lemma other_tags_rows:
  "filter (\<lambda>t. mt_source t \<noteq> ''rule'') (st_tags (apply_rows m rules agg matched st)) =
     filter (\<lambda>t. mt_source t \<noteq> ''rule'') (st_tags st)"
proof -
  have "filter (\<lambda>t. mt_source t \<noteq> ''rule'') (st_tags (fold (upsert_tag i) ns s)) =
        filter (\<lambda>t. mt_source t \<noteq> ''rule'') (st_tags s)" for i ns s
    by (rule fold_eq_const)
       (auto simp: upsert_tag_tags tag_key_def keep_row_def intro!: filter_upsert)
  then show ?thesis by (simp add: apply_rows_def set_severity_def drop_stale_def)
qed

text \<open>A queue row is an old one, refreshed only if it was still waiting, or satisfies the scope.\<close>

definition queue_justified :: "eval_input \<Rightarrow> store \<Rightarrow> optimization_item \<Rightarrow> bool" where
  "queue_justified inp st q =
     (q \<in> set (st_opt st)
      \<or> (oi_status q = ''queued'' \<and> set (profile_tag_scope (oi_profile q) st) \<subseteq> set (ei_tags inp)))"

lemma queue_one_justified:
  assumes "\<forall>q\<in>set (st_opt s). queue_justified inp st q" "st_profiles s = st_profiles st"
  shows "\<forall>q\<in>set (st_opt (queue_one env inp m r now p s)). queue_justified inp st q"
proof
  fix q assume q: "q \<in> set (st_opt (queue_one env inp m r now p s))"
  have scope: "profile_tag_scope x s = profile_tag_scope x st" for x
    using assms(2) by (simp add: profile_tag_scope_def)
  show "queue_justified inp st q"
  proof (cases "\<exists>t\<in>set (profile_tag_scope p s). t \<notin> set (ei_tags inp)")
    case True
    with q assms(1) show ?thesis by (simp add: queue_one_def)
  next
    case False
    then have sub: "set (profile_tag_scope p st) \<subseteq> set (ei_tags inp)" using scope by auto
    let ?n = "queued_item (sv_new_id env (length (st_opt s))) (mf_id m) p (Some (ru_id r)) now"
    have "q \<in> set (table_upsert opt_key opt_merge ?n (st_opt s))"
      using q False by (simp add: queue_one_def upsert_queued_def)
    from set_upsert_cases [OF this] consider "q = ?n" | "q \<in> set (st_opt s)"
      | y where "y \<in> set (st_opt s)" "opt_key y = opt_key ?n" "q = opt_merge y ?n"
      by blast
    then show ?thesis
    proof cases
      case 1 then show ?thesis using sub by (simp add: queue_justified_def queued_item_def)
    next
      case 2 then show ?thesis using assms(1) by blast
    next
      case 3
      then have "oi_profile y = p" by (simp add: opt_key_def queued_item_def)
      with 3 sub assms(1) show ?thesis
        by (cases "oi_status y = ''queued''") (auto simp: opt_merge_def queue_justified_def)
    qed
  qed
qed

lemma persist_all_justified:
  "\<forall>q\<in>set (st_opt s). queue_justified inp st q \<Longrightarrow> st_profiles s = st_profiles st \<Longrightarrow>
     \<forall>q\<in>set (st_opt (persist_all env inp m now ms agg s)). queue_justified inp st q"
proof (induction ms arbitrary: agg s)
  case (Cons rd ms)
  obtain r d where rd: "rd = (r, d)" by fastforce
  let ?s = "upsert_evaluation (evaluation_row m r (rule_result inp d) now) s"
  let ?f = "fold (queue_one env inp m r now) (er_queue_optimizations (rule_result inp d)) ?s"
  have "(\<forall>q\<in>set (st_opt ?f). queue_justified inp st q) \<and> st_profiles ?f = st_profiles st"
    by (rule fold_invariant_mem) (use Cons.prems queue_one_justified in auto)
  then show ?case unfolding rd persist_all.simps Let_def by (intro Cons.IH) simp_all
qed simp

section \<open>A sample installation\<close>

text \<open>A library of one orphaned file, two rules (one escalating and tagging, one deleting), and
  providers that always succeed.\<close>

definition sample_pyenv :: pyenv where
  "sample_pyenv = \<lparr>re_search = \<lambda>p s. Some (substr_in p s), float_str = \<lambda>s. None\<rparr>"

definition sample_notify_env :: notify_env where
  "sample_notify_env =
     \<lparr>ne_render = \<lambda>src v. Rendered (tv_rule_name v), ne_decrypt = \<lambda>c. Inr [],
      ne_builtin_providers = [\<lparr>np_kind = ''smtp'', np_required = [], np_properties = [],
        np_secret_fields = [], np_send = \<lambda>c msg. Inr \<lparr>dr_status = ''sent'', dr_detail = None\<rparr>\<rparr>],
      ne_registered_providers = [], ne_exc_str = \<lambda>e. ''error'', ne_completed_at = \<lambda>c. 1,
      ne_duration_ms = \<lambda>c. 1, ne_new_id = \<lambda>n. replicate n CHR ''d'', ne_bus = True\<rparr>"

definition sample_env :: svc_env where
  "sample_env =
     \<lparr>sv_py = sample_pyenv, sv_registry = True, sv_notify = sample_notify_env, sv_bus = True,
      sv_providers = \<lambda>k. [\<lparr>ipr_trigger_search = Some (\<lambda>c p. Inr \<lparr>sg_status = ''submitted'',
         sg_upstream_id = None, sg_detail = None\<rparr>)\<rparr>],
      sv_decrypt = \<lambda>c. Inr [], sv_exc_str = \<lambda>e. ''error'', sv_vt_plugin = True, sv_vt_now = 0,
      sv_trash_root = ''/data/trash'', sv_mkdir_fails = False, sv_move_fails = \<lambda>s d. False,
      sv_new_id = \<lambda>n. replicate n CHR ''i'', sv_clock = \<lambda>i. 0\<rparr>"

definition sample_media :: media_file where
  "sample_media =
     \<lparr>mf_id = ''m1'', mf_library_id = ''lib'', mf_path = ''/tv/a.avi'', mf_relative_path = ''a.avi'',
      mf_filename = ''a.avi'', mf_extension = ''avi'', mf_size_bytes = 700, mf_mtime = 0,
      mf_category = ''media'', mf_severity = ''ok'', mf_severity_rank = 10, mf_container = None,
      mf_duration_seconds = None, mf_bitrate_kbps = None, mf_video_codec = Some ''mpeg4'',
      mf_audio_codec = None, mf_subtitle_codec = None, mf_width = Some 640, mf_height = Some 480,
      mf_framerate = None, mf_has_subtitles = False, mf_subtitle_languages = None,
      mf_audio_languages = Some [PyStr ''eng''], mf_probe_failed = False, mf_is_orphaned = True,
      mf_hash_sha256 = None, mf_vt_status = None,
      mf_inode = None, mf_probe = None, mf_probe_error = None, mf_last_scan_id = None, mf_seen_at = 0,
      mf_hash_computed_at = None, mf_virustotal_result = None, mf_virustotal_checked_at = None\<rparr>"

definition orphan_match :: match_node where
  "orphan_match =
     Leaf \<lparr>cond_field = ''is_orphaned'', cond_op = ''eq'', cond_value = PyBool True\<rparr>"

definition warn_def :: rule_definition where
  "warn_def = \<lparr>rd_match = orphan_match, rd_actions = [SetSeverity ''warn'', AddTag ''orphan'',
     QueueOptimization ''hevc'', SearchUpstream ''sonarr'' ''i1''],
     acknowledged_destructive = False\<rparr>"

definition purge_def :: rule_definition where
  "purge_def = \<lparr>rd_match = orphan_match, rd_actions = [SetSeverity ''crit'', Delete None],
     acknowledged_destructive = True\<rparr>"

definition sample_rule :: "string \<Rightarrow> rule" where
  "sample_rule i = \<lparr>ru_id = i, ru_name = i, ru_description = None, ru_enabled = True,
     ru_priority = 100, ru_definition = None, ru_is_builtin = False,
     ru_last_evaluated_at = None, ru_last_match_count = 0\<rparr>"

definition sample_store :: store where
  "sample_store =
     \<lparr>st_media = [sample_media], st_tags = [], st_rules = [], st_evals = [], st_windows = [],
      st_opt = [], st_profiles = [], st_vt_queue = [],
      st_integrations = [\<lparr>ig_id = ''i1'', ig_name = ''Sonarr'', ig_kind = ''sonarr'',
        ig_enabled = True, ig_config = [], ig_secrets_ciphertext = Some ''ct'',
        ig_health_status = ''unknown'', ig_health_detail = None, ig_health_checked_at = None\<rparr>],
      st_channels = [], st_deliveries = [], st_audit = [], st_events = [],
      st_files = [''/tv/a.avi''], st_libraries = [''lib'']\<rparr>"

abbreviation sample_rules :: "(rule \<times> rule_definition) list" where
  "sample_rules \<equiv> [(sample_rule ''warn'', warn_def), (sample_rule ''purge'', purge_def)]"

abbreviation keep_rules :: "(rule \<times> rule_definition) list" where
  "keep_rules \<equiv> [(sample_rule ''warn'', warn_def)]"

lemma sample_valid: "valid_rule warn_def" "valid_rule purge_def"
  unfolding valid_rule_def by code_simp+

lemma sample_rules_safe: "rules_safe sample_env sample_rules" "rules_safe sample_env keep_rules"
  using sample_valid
  by (simp_all add: rules_safe_def rule_safe_def warn_def_def purge_def_def orphan_match_def
      condition_safe_def)

lemma sample_input_ok: "input_ok (build_input sample_media sample_store)"
  by (simp add: input_ok_def int64_ok_def build_input_def sample_media_def)

lemma sample_secrets_ok: "secrets_ok sample_env sample_store"
  by (simp add: secrets_ok_def sample_store_def build_integration_config_def sample_env_def)

lemma sample_matching:
  "matching sample_env (build_input sample_media sample_store) sample_rules = sample_rules"
  "matching sample_env (build_input sample_media sample_store) keep_rules = keep_rules"
proof -
  have "rule_matches (sv_py sample_env) d (build_input sample_media sample_store)"
    if "rd_match d = orphan_match" for d
    using that by (simp add: rule_matches_def orphan_match_def eval_condition_def get_field_def
        build_input_def sample_media_def apply_op_simps py_num_eq_def)
  then show "matching sample_env (build_input sample_media sample_store) sample_rules = sample_rules"
    "matching sample_env (build_input sample_media sample_store) keep_rules = keep_rules"
    by (simp_all add: matching_def warn_def_def purge_def_def)
qed

lemmas sample_hyps = sample_rules_safe sample_input_ok sample_secrets_ok

lemma finish_file_media:
  assumes "finish_file env m rules agg matched st = Inr st'" "x \<in> set (st_media st')" "mf_id x = mf_id m"
  shows "mf_severity x = str_or (er_severity agg) ''ok'' \<and> mf_severity_rank x = er_severity_rank agg"
proof -
  obtain st1 where st': "st' = (if fst (apply_delete env m agg (apply_rows m rules agg matched st))
                            then delete_media (mf_id m) st1 else st1)"
    and "st_media st1 = st_media (apply_rows m rules agg matched st)"
    by (rule finish_file_tables [OF assms(1)])
  then have "x \<in> set (st_media (apply_rows m rules agg matched st))"
    using assms(2) by (auto simp: delete_media_def split: if_splits)
  then show ?thesis using assms(3) by (auto simp: set_severity_def split: if_splits)
qed

section \<open>Properties\<close>

text \<open>C1. Where the operands of the rules suit their fields, the file is well formed and the secrets can be read,
  evaluating the file returns; the severity it decides is the highest any action of a matching rule asks
  for, and at least \<open>ok\<close>; the name and the rank belong together; and a persisting run writes both to the
  file's row.  It does so whatever severity the row had: the cap, the floor or the fixed value that the
  documentation of extension rules promises for a disposition does not survive an evaluation.\<close>

theorem evaluate_file_severity:
  assumes "rules_safe env rules" "input_ok (build_input m st)" "secrets_ok env st"
  shows "\<exists>out st'. evaluate_file env m (Some rules) persist now st = Inr (out, st')
    \<and> fo_severity_rank out = Max (set (10 # asked_ranks (matching env (build_input m st) rules)))
    \<and> severity_level (fo_severity out) = Some (fo_severity_rank out)
    \<and> (persist \<longrightarrow> (\<forall>x\<in>set (st_media st'). mf_id x = mf_id m \<longrightarrow>
          mf_severity x = fo_severity out \<and> mf_severity_rank x = fo_severity_rank out))"
proof -
  obtain out st' where e: "evaluate_file env m (Some rules) persist now st = Inr (out, st')"
    using evaluate_file_total [OF assms] .
  note r = evaluate_file_result [OF assms(1,2) e]
  have "fo_severity out = str_or (er_severity (aggregate (build_input m st)
      (matching env (build_input m st) rules))) ''ok''"
    and "fo_severity_rank out = er_severity_rank (aggregate (build_input m st)
      (matching env (build_input m st) rules))"
    using e unfolding evaluate_file_safe [OF assms(1,2)] by (auto simp: bind_r_Inr_iff)
  then show ?thesis using e r(1,2) finish_file_media [OF r(5)] by auto
qed

theorem evaluate_file_severity_witness:
  "\<exists>out st'. evaluate_file sample_env sample_media (Some keep_rules) True 0 sample_store = Inr (out, st')
     \<and> fo_severity_rank out = 40"
proof -
  have "asked_ranks keep_rules = [40]"
    by (simp add: asked_ranks_def warn_def_def List.map_filter_simps severity_level_def
        SEVERITY_LEVELS_def)
  then show ?thesis
    using evaluate_file_severity [OF sample_hyps(2,3,4), of True 0]
    by (auto simp: sample_matching)
qed

text \<open>C15. The order of the rules does not matter: two runs with the same rules in a different
  order decide the same severity, the same set of tags and the same matching rules.\<close>

theorem evaluate_file_order:
  assumes "rules_safe env rules" "input_ok (build_input m st)" "secrets_ok env st"
    "mset rules' = mset rules"
  shows "\<exists>out st1 out' st2. evaluate_file env m (Some rules) persist now st = Inr (out, st1)
    \<and> evaluate_file env m (Some rules') persist now st = Inr (out', st2)
    \<and> fo_severity out' = fo_severity out \<and> fo_severity_rank out' = fo_severity_rank out
    \<and> set (fo_add_tags out') = set (fo_add_tags out)
    \<and> mset (fo_matched_rule_ids out') = mset (fo_matched_rule_ids out)"
proof -
  let ?inp = "build_input m st"
  have safe': "rules_safe env rules'"
    using assms(1,4) mset_eq_setD unfolding rules_safe_def by blast
  obtain out st1 where e: "evaluate_file env m (Some rules) persist now st = Inr (out, st1)"
    using evaluate_file_total [OF assms(1-3)] .
  obtain out' st2 where e': "evaluate_file env m (Some rules') persist now st = Inr (out', st2)"
    using evaluate_file_total [OF safe' assms(2,3)] .
  note r = evaluate_file_result [OF assms(1,2) e] and r' = evaluate_file_result [OF safe' assms(2) e']
  have ms: "mset (matching env ?inp rules') = mset (matching env ?inp rules)"
    using assms(4) by (simp add: matching_def mset_filter)
  then have sets: "set (matching env ?inp rules') = set (matching env ?inp rules)"
    by (rule mset_eq_setD)
  then have "set (asked_ranks (matching env ?inp rules')) = set (asked_ranks (matching env ?inp rules))"
    by (simp add: set_asked_ranks)
  then have rank: "fo_severity_rank out' = fo_severity_rank out" using r(1) r'(1) by simp
  then have "fo_severity out' = fo_severity out" using r(2) r'(2) severity_level_inj by metis
  moreover have "set (fo_add_tags out') = set (fo_add_tags out)"
    using r(4) r'(4) sets by (simp add: aggregate_tags)
  moreover have "mset (fo_matched_rule_ids out') = mset (fo_matched_rule_ids out)"
    using r(3) r'(3) ms by (simp add: mset_map)
  ultimately show ?thesis using e e' rank by blast
qed

theorem evaluate_file_order_witness:
  "\<exists>out st1 out' st2. evaluate_file sample_env sample_media (Some sample_rules) True 0 sample_store
       = Inr (out, st1)
     \<and> evaluate_file sample_env sample_media
         (Some [(sample_rule ''purge'', purge_def), (sample_rule ''warn'', warn_def)]) True 0 sample_store
       = Inr (out', st2) \<and> fo_severity out' = fo_severity out"
  using evaluate_file_order [OF sample_hyps(1,3,4),
      of "[(sample_rule ''purge'', purge_def), (sample_rule ''warn'', warn_def)]" True 0]
  by (simp add: add_mset_commute) blast

text \<open>The rules delete the file: a matching rule has an acknowledged delete action and the move to the
  trash is not refused.\<close>

definition deletes_file :: "svc_env \<Rightarrow> media_file \<Rightarrow> (rule \<times> rule_definition) list \<Rightarrow> store \<Rightarrow> bool" where
  "deletes_file env m rules st =
     ((\<exists>rd\<in>set (matching env (build_input m st) rules).
         acknowledged_destructive (snd rd) \<and> (\<exists>a\<in>set (rd_actions (snd rd)). is_delete a))
      \<and> trash_works env m st)"

lemma apply_delete_deletes:
  assumes "rules_safe env rules" "st_files s = st_files st"
  shows "fst (apply_delete env m (aggregate (build_input m st) (matching env (build_input m st) rules)) s)
    \<longleftrightarrow> deletes_file env m rules st"
proof -
  have "acknowledged_destructive (snd rd)"
    if "rd \<in> set (matching env (build_input m st) rules)" "a \<in> set (rd_actions (snd rd))" "is_delete a" for rd a
    using that assms(1) model_validate_ok(5)
    by (fastforce simp: matching_def rules_safe_def rule_safe_def valid_rule_def)
  then show ?thesis
    unfolding apply_delete_fst aggregate_delete_paths deletes_file_def using trash_works_files [OF assms(2)] by blast
qed

text \<open>C2. After a persisting run the evaluation table holds, for the file and the rules of the run, exactly one
  row per matching rule with that rule's own result and none for a rule that no longer matches; where a matching
  rule deletes the file, none of its rows is left, whatever rule they belong to; and every other row (of other files,
  and of the file's rules outside the run) is as it was.\<close>

theorem evaluation_rows_exact:
  assumes "rules_safe env rules" "input_ok (build_input m st)" "secrets_ok env st"
    "distinct (map (ru_id \<circ> fst) rules)" "unique_keys eval_key (st_evals st)"
  shows "\<exists>out st'. evaluate_file env m (Some rules) True now st = Inr (out, st')
    \<and> unique_keys eval_key (st_evals st')
    \<and> (\<forall>f i. table_find eval_key (f, i) (st_evals st') =
        (if f = mf_id m \<and> deletes_file env m rules st then None
         else if f = mf_id m \<and> i \<in> set (map (ru_id \<circ> fst) rules)
         then map_option (\<lambda>rd. evaluation_row m (fst rd) (rule_result (build_input m st) (snd rd)) now)
                (find (\<lambda>rd. ru_id (fst rd) = i) (matching env (build_input m st) rules))
         else table_find eval_key (f, i) (st_evals st)))"
proof -
  let ?inp = "build_input m st"
  let ?ms = "matching env ?inp rules"
  let ?s = "persist_all env ?inp m now ?ms start_aggregate st"
  obtain out st' where e: "evaluate_file env m (Some rules) True now st = Inr (out, st')"
    using evaluate_file_total [OF assms(1-3)] .
  note r = evaluate_file_result [OF assms(1,2) e]
  have sub: "set ?ms \<subseteq> set rules" by (auto simp: matching_def)
  have del: "fst (apply_delete env m (aggregate ?inp ?ms)
      (apply_rows m rules (aggregate ?inp ?ms) (fo_matched_rule_ids out) ?s)) \<longleftrightarrow> deletes_file env m rules st"
    using assms(1) by (rule apply_delete_deletes) simp
  obtain st1 where st1: "st' = (if deletes_file env m rules st then delete_media (mf_id m) st1 else st1)"
    and ev: "st_evals st1 = st_evals (drop_stale (mf_id m) (map (ru_id \<circ> fst) rules) (fo_matched_rule_ids out) ?s)"
    by (rule finish_file_tables [OF r(5)]) (use del in simp_all)
  have dist: "distinct (map (ru_id \<circ> fst) ?ms)"
    using assms(4) unfolding matching_def by (rule distinct_map_filter)
  have u: "unique_keys eval_key (st_evals ?s)" using assms(5) by (rule unique_persist_all_evals)
  have rows: "table_find eval_key (f, i) (st_evals st1) =
     (if f = mf_id m \<and> i \<in> set (map (ru_id \<circ> fst) rules)
      then map_option (\<lambda>rd. evaluation_row m (fst rd) (rule_result ?inp (snd rd)) now)
             (find (\<lambda>rd. ru_id (fst rd) = i) ?ms)
      else table_find eval_key (f, i) (st_evals st))" for f i
  proof (cases "find (\<lambda>rd. (mf_id m, ru_id (fst rd)) = (f, i)) ?ms")
    case (Some rd)
    then have rd: "rd \<in> set ?ms" "ru_id (fst rd) = i" "f = mf_id m"
      by (auto simp: find_Some_iff)
    then have ids: "i \<in> set (map (ru_id \<circ> fst) rules)" "i \<in> set (fo_matched_rule_ids out)"
      using sub r(3) by force+
    have "find (\<lambda>rd. ru_id (fst rd) = i) ?ms = Some rd" using Some rd(3) by simp
    moreover have "table_find eval_key (f, i) (st_evals ?s) =
        Some (evaluation_row m (fst rd) (rule_result ?inp (snd rd)) now)"
      using find_persist_all_evals [OF dist] Some by simp
    ultimately show ?thesis
      using ids rd by (simp add: ev find_drop_stale [OF u])
  next
    case None
    then have "table_find eval_key (f, i) (st_evals ?s) = table_find eval_key (f, i) (st_evals st)"
      using find_persist_all_evals [OF dist] by simp
    moreover from None have "f = mf_id m \<Longrightarrow> i \<notin> set (fo_matched_rule_ids out)"
      "f = mf_id m \<Longrightarrow> find (\<lambda>rd. ru_id (fst rd) = i) ?ms = None"
      using r(3) by (auto simp: find_None_iff)
    ultimately show ?thesis by (simp add: ev find_drop_stale [OF u])
  qed
  have u1: "unique_keys eval_key (st_evals st1)"
    using u by (simp add: ev drop_stale_def unique_keys_filter)
  show ?thesis
  proof (cases "deletes_file env m rules st")
    case True
    then have "st_evals st' = filter (\<lambda>e. re_media_file_id e \<noteq> mf_id m) (st_evals st1)"
      by (simp add: st1 delete_media_def)
    then have "unique_keys eval_key (st_evals st')" "\<And>f i. table_find eval_key (f, i) (st_evals st') =
        (if f = mf_id m then None else table_find eval_key (f, i) (st_evals st1))"
      using u1 by (simp_all add: unique_keys_filter find_of_others)
    then show ?thesis using e True by (auto simp: rows)
  next
    case False
    then show ?thesis using e rows u1 by (simp add: st1)
  qed
qed

theorem evaluation_rows_exact_witness:
  "\<exists>out st'. evaluate_file sample_env sample_media (Some keep_rules) True 0 sample_store = Inr (out, st')
     \<and> table_find eval_key (''m1'', ''other'') (st_evals st') = None
     \<and> map_option re_severity (table_find eval_key (''m1'', ''warn'') (st_evals st')) = Some ''warn''"
proof -
  have h: "distinct (map (ru_id \<circ> fst) keep_rules)" "unique_keys eval_key (st_evals sample_store)"
    by (simp_all add: sample_store_def unique_keys_def warn_def_def)
  have nd: "\<not> deletes_file sample_env sample_media keep_rules sample_store"
    unfolding deletes_file_def sample_matching by (simp add: warn_def_def)
  have "er_severity (rule_result inp warn_def) = Some ''warn''" for inp
    by (simp add: rule_result_def warn_def_def act_def empty_result_def severity_level_def
        SEVERITY_LEVELS_def)
  then have sev: "re_severity (evaluation_row sample_media r (rule_result inp warn_def) 0) = ''warn''"
    for r inp by (simp add: evaluation_row_def)
  obtain out st' where e:
    "evaluate_file sample_env sample_media (Some keep_rules) True 0 sample_store = Inr (out, st')"
    and f: "\<And>f i. table_find eval_key (f, i) (st_evals st') =
        (if f = mf_id sample_media \<and> deletes_file sample_env sample_media keep_rules sample_store then None
         else if f = mf_id sample_media \<and> i \<in> set (map (ru_id \<circ> fst) keep_rules)
         then map_option (\<lambda>rd. evaluation_row sample_media (fst rd)
                (rule_result (build_input sample_media sample_store) (snd rd)) 0)
                (find (\<lambda>rd. ru_id (fst rd) = i) keep_rules)
         else table_find eval_key (f, i) (st_evals sample_store))"
    using evaluation_rows_exact [OF sample_hyps(2,3,4) h, of 0] unfolding sample_matching by blast
  have ids: "mf_id sample_media = ''m1''" "ru_id (sample_rule i) = i" "st_evals sample_store = []" for i
    by (simp_all add: sample_media_def sample_rule_def sample_store_def)
  show ?thesis using e by (auto simp: f ids sev nd)
qed

text \<open>Evaluating one file leaves the rows of every other file alone: media, tags,
  evaluations, optimization queue and VirusTotal queue.\<close>

theorem evaluate_file_frame:
  assumes "rules_safe env rules" "input_ok (build_input m st)" "secrets_ok env st"
  shows "\<exists>out st'. evaluate_file env m (Some rules) persist now st = Inr (out, st')
    \<and> of_others (mf_id m) st' = of_others (mf_id m) st"
proof -
  obtain out st' where e: "evaluate_file env m (Some rules) persist now st = Inr (out, st')"
    using evaluate_file_total [OF assms] .
  note r = evaluate_file_result [OF assms(1,2) e]
  have "of_others (mf_id m) st' = of_others (mf_id m) st"
  proof (cases persist)
    case True
    from of_others_finish [OF r(5) [OF True]] show ?thesis
      by (simp add: of_others_def filter_persist_all)
  qed (use r(6) in simp)
  with e show ?thesis by blast
qed

theorem evaluate_file_frame_witness:
  "\<exists>out st'. evaluate_file sample_env sample_media (Some sample_rules) True 0 sample_store = Inr (out, st')
     \<and> of_others ''m1'' st' = ([], [], [], [], [])"
  using evaluate_file_frame [OF sample_hyps(1,3,4), of True 0]
  by (auto simp: of_others_def sample_store_def sample_media_def)

text \<open>C4. A throttled rule delivers the first \<open>max_per_window\<close> notifications of a bucket and
  suppresses the rest, and the bucket gets exactly one \<open>rule.throttled\<close> audit entry, when the
  first suppression happens.  The buckets are fixed multiples of the window since the epoch and each
  starts afresh, where the schema documents a rolling window: on both sides of a boundary twice the limit
  can pass within one window.\<close>

theorem throttle_gate_window:
  assumes "1 \<le> cap" "\<forall>t\<in>set ts. window_bucket ws t = w"
    "table_find window_key (ri, w) (st_windows st) = None"
  shows "fst (gate_run env ri rn ws cap ts st) =
      map (\<lambda>i. int i < cap) [0..<length ts]
    \<and> throttle_audits ri w (snd (gate_run env ri rn ws cap ts st)) =
        throttle_audits ri w st + (if cap < int (length ts) then 1 else 0)"
proof -
  have z: "window_count ri w st = 0" using assms(3) by (simp add: window_count_def)
  show ?thesis
    using gate_run_window [OF assms(1), of ts ws w ri st env rn] assms(1,2) z by simp
qed

theorem throttle_gate_window_witness:
  "fst (gate_run sample_env ''r'' ''Rule'' 60 2 [0, 1000000, 59000000, 59999999] sample_store)
     = [True, True, False, False]
   \<and> throttle_audits ''r'' 0 (snd (gate_run sample_env ''r'' ''Rule'' 60 2
       [0, 1000000, 59000000, 59999999] sample_store)) = 1"
proof -
  have h: "(1::int) \<le> 2" "\<forall>t\<in>set [0, 1000000, 59000000, 59999999]. window_bucket 60 t = 0"
    "table_find window_key (''r'', 0) (st_windows sample_store) = None"
    by (simp_all add: window_bucket_def Let_def sample_store_def)
  have "throttle_audits ''r'' 0 sample_store = 0" by (simp add: throttle_audits_def sample_store_def)
  then show ?thesis
    using throttle_gate_window [OF h, of sample_env "''Rule''"] by (simp add: upt_rec)
qed

text \<open>C3. A file leaves its place on disk, and its row leaves the database, only because a
  matching rule with an acknowledged delete action asked for it; then the file is in the trash, or
  was not there, and the row and every row that references it are gone.  When the move to trash
  fails, the row and the file stay.\<close>

theorem delete_only_acknowledged:
  assumes "rules_safe env rules" "input_ok (build_input m st)" "secrets_ok env st"
    "mf_id m \<in> mf_id ` set (st_media st)"
  shows "\<exists>out st'. evaluate_file env m (Some rules) True now st = Inr (out, st') \<and>
    (if (\<exists>rd\<in>set (matching env (build_input m st) rules).
           acknowledged_destructive (snd rd) \<and> (\<exists>a\<in>set (rd_actions (snd rd)). is_delete a))
        \<and> trash_works env m st
     then mf_id m \<notin> mf_id ` set (st_media st') \<and> mf_id m \<notin> mt_media_file_id ` set (st_tags st')
        \<and> mf_id m \<notin> re_media_file_id ` set (st_evals st')
        \<and> mf_id m \<notin> oi_media_file_id ` set (st_opt st')
        \<and> mf_id m \<notin> vq_media_file_id ` set (st_vt_queue st')
        \<and> st_files st' = (if mf_path m \<in> set (st_files st)
             then st_files (move_file (mf_path m) (trash_dst env m) st) else st_files st)
     else mf_id m \<in> mf_id ` set (st_media st') \<and> st_files st' = st_files st)"
proof -
  let ?inp = "build_input m st"
  let ?ms = "matching env ?inp rules"
  let ?s = "persist_all env ?inp m now ?ms start_aggregate st"
  let ?agg = "aggregate ?inp ?ms"
  obtain out st' where e: "evaluate_file env m (Some rules) True now st = Inr (out, st')"
    using evaluate_file_total [OF assms(1-3)] .
  note r = evaluate_file_result [OF assms(1,2) e]
  let ?r = "apply_rows m rules ?agg (fo_matched_rule_ids out) ?s"
  have files: "st_files ?r = st_files st" by simp
  have del: "fst (apply_delete env m ?agg ?r) \<longleftrightarrow>
      (\<exists>rd\<in>set ?ms. acknowledged_destructive (snd rd) \<and> (\<exists>a\<in>set (rd_actions (snd rd)). is_delete a))
      \<and> trash_works env m st"
    using apply_delete_deletes [OF assms(1) files] by (simp add: deletes_file_def)
  obtain st1 where st': "st' = (if fst (apply_delete env m ?agg ?r) then delete_media (mf_id m) st1 else st1)"
    and md: "st_media st1 = st_media ?r" and fl: "st_files st1 = st_files (snd (apply_delete env m ?agg ?r))"
    by (rule finish_file_tables [OF r(5)]) simp_all
  have "map mf_id (st_media ?r) = map mf_id (st_media st)" by (simp add: set_severity_def)
  then have ids: "mf_id ` set (st_media ?r) = mf_id ` set (st_media st)" by (metis list.set_map)
  have fl': "st_files (snd (apply_delete env m ?agg ?r)) =
      (if fst (apply_delete env m ?agg ?r) \<and> mf_path m \<in> set (st_files st)
       then st_files (move_file (mf_path m) (trash_dst env m) st) else st_files st)"
    unfolding apply_delete_files apply_delete_fst using files by (simp add: move_file_def)
  show ?thesis
  proof (cases "fst (apply_delete env m ?agg ?r)")
    case True
    then show ?thesis using e del st' fl fl' by (auto simp: delete_media_def)
  next
    case False
    then show ?thesis using e del st' fl fl' md ids assms(4) by auto
  qed
qed

theorem delete_only_acknowledged_witness:
  "(\<exists>out st'. evaluate_file sample_env sample_media (Some sample_rules) True 0 sample_store = Inr (out, st')
      \<and> ''m1'' \<notin> mf_id ` set (st_media st') \<and> st_files st' = [''/data/trash/m1__a.avi''])
   \<and> trash_works sample_env sample_media sample_store"
proof -
  have h: "mf_id sample_media \<in> mf_id ` set (st_media sample_store)"
    by (simp add: sample_store_def)
  have t: "trash_works sample_env sample_media sample_store"
    by (simp add: trash_works_def sample_env_def)
  have d: "\<exists>rd\<in>set sample_rules. acknowledged_destructive (snd rd) \<and>
      (\<exists>a\<in>set (rd_actions (snd rd)). is_delete a)"
    by (simp add: purge_def_def)
  have p: "mf_path sample_media \<in> set (st_files sample_store)"
    "st_files (move_file (mf_path sample_media) (trash_dst sample_env sample_media) sample_store) =
       [''/data/trash/m1__a.avi'']"
    by (simp_all add: sample_media_def sample_store_def move_file_def trash_dst_def path_name_def
        py_rstrip_def sample_env_def)
  have m: "mf_id sample_media = ''m1''" by (simp add: sample_media_def)
  show ?thesis
    using delete_only_acknowledged [OF sample_hyps(1,3,4) h, of 0] t d p(1)
    unfolding sample_matching m p(2) by (simp only: simp_thms if_True) blast
qed

text \<open>However many matching rules ask for a search, each integration is asked once, in the
  order of first request, and leaves one \<open>rule.action.search_upstream\<close> audit entry; requests
  without an integration are ignored.\<close>

theorem upstream_search_once:
  assumes "secrets_ok env st" "sv_registry env"
  shows "\<exists>st'. trigger_upstream_searches env m requests st = Inr st' \<and>
    search_entries (st_audit st') = search_entries (st_audit st) @
      map (\<lambda>i. Some (PyStr i)) (dedup (filter (\<lambda>i. i \<noteq> []) (map sr_integration_id requests)))"
proof -
  obtain st' where s: "search_loop env m (unique_requests {} requests) st = Inr st'"
    using search_loop_ok [OF assms(1)] by blast
  have "map (\<lambda>q. Some (PyStr (sr_integration_id q))) (unique_requests {} requests) =
      map (\<lambda>i. Some (PyStr i)) (map sr_integration_id (unique_requests {} requests))"
    by simp
  also have "\<dots> = map (\<lambda>i. Some (PyStr i)) (dedup (filter (\<lambda>i. i \<noteq> []) (map sr_integration_id requests)))"
    by (simp only: unique_requests_ids dedup_def)
  finally show ?thesis
    using s search_loop_audit [OF assms s] by (simp add: trigger_upstream_searches_def)
qed

theorem upstream_search_once_witness:
  "\<exists>st'. trigger_upstream_searches sample_env sample_media
       [\<lparr>sr_target = ''sonarr'', sr_integration_id = ''i1''\<rparr>,
        \<lparr>sr_target = ''radarr'', sr_integration_id = ''i1''\<rparr>] sample_store = Inr st'
     \<and> search_entries (st_audit st') = [Some (PyStr ''i1'')]"
  using upstream_search_once [OF sample_hyps(4), of sample_media
      "[\<lparr>sr_target = ''sonarr'', sr_integration_id = ''i1''\<rparr>,
        \<lparr>sr_target = ''radarr'', sr_integration_id = ''i1''\<rparr>]"]
  by (simp add: sample_env_def sample_store_def search_entries_def dedup_def)

text \<open>A file enters the queue of a profile only if it carries every tag of the profile's scope;
  an item that is no longer waiting (running, completed, failed) is never changed by an
  evaluation.\<close>

theorem queue_respects_tag_scope:
  assumes "rules_safe env rules" "input_ok (build_input m st)" "secrets_ok env st"
  shows "\<exists>out st'. evaluate_file env m (Some rules) True now st = Inr (out, st') \<and>
    (\<forall>q\<in>set (st_opt st'). q \<in> set (st_opt st) \<or>
       (oi_status q = ''queued'' \<and>
        set (profile_tag_scope (oi_profile q) st) \<subseteq> set (ei_tags (build_input m st))))"
proof -
  obtain out st' where e: "evaluate_file env m (Some rules) True now st = Inr (out, st')"
    using evaluate_file_total [OF assms(1-3)] .
  note r = evaluate_file_result [OF assms(1,2) e]
  let ?s = "persist_all env (build_input m st) m now (matching env (build_input m st) rules)
    start_aggregate st"
  have "set (st_opt st') \<subseteq> set (st_opt ?s)"
    by (rule finish_file_tables [OF r(5)]) (auto simp: delete_media_def split: if_splits)
  moreover have "\<forall>q\<in>set (st_opt ?s). queue_justified (build_input m st) st q"
    by (rule persist_all_justified) (simp_all add: queue_justified_def)
  ultimately show ?thesis using e by (auto simp: queue_justified_def)
qed

theorem queue_respects_tag_scope_witness:
  "\<exists>out st'. evaluate_file sample_env sample_media (Some keep_rules) True 0 sample_store = Inr (out, st')
     \<and> (\<forall>q\<in>set (st_opt st'). oi_status q = ''queued'')"
  using queue_respects_tag_scope [OF sample_hyps(2,3,4), of 0] by (auto simp: sample_store_def)

text \<open>After a run that deletes nothing, the file's rule-made tags are those it had and those the
  matching rules add, each once; tags of any other source are untouched.\<close>

theorem rule_tags_exact:
  assumes "rules_safe env rules" "input_ok (build_input m st)" "secrets_ok env st"
    "unique_keys tag_key (st_tags st)"
    "\<not> (\<exists>rd\<in>set rules. \<exists>a\<in>set (rd_actions (snd rd)). is_delete a)"
  shows "\<exists>out st'. evaluate_file env m (Some rules) True now st = Inr (out, st')
    \<and> unique_keys tag_key (st_tags st')
    \<and> rule_tag_names (mf_id m) st' = rule_tag_names (mf_id m) st \<union>
        {t. \<exists>rd\<in>set (matching env (build_input m st) rules). AddTag t \<in> set (rd_actions (snd rd))}
    \<and> filter (\<lambda>t. mt_source t \<noteq> ''rule'') (st_tags st') = filter (\<lambda>t. mt_source t \<noteq> ''rule'') (st_tags st)"
proof -
  let ?inp = "build_input m st"
  let ?ms = "matching env ?inp rules"
  let ?s = "persist_all env ?inp m now ?ms start_aggregate st"
  let ?agg = "aggregate ?inp ?ms"
  obtain out st' where e: "evaluate_file env m (Some rules) True now st = Inr (out, st')"
    using evaluate_file_total [OF assms(1-3)] .
  note r = evaluate_file_result [OF assms(1,2) e]
  have nd: "\<not> fst (apply_delete env m ?agg s)" for s
    using assms(5) aggregate_delete_paths [of ?inp ?ms] by (auto simp: apply_delete_fst matching_def)
  have t: "st_tags st' = st_tags (apply_rows m rules ?agg (fo_matched_rule_ids out) ?s)"
    by (rule finish_file_tables [OF r(5)]) (use nd in simp_all)
  have "rule_tag_names (mf_id m) st' = set (er_add_tags ?agg) \<union> rule_tag_names (mf_id m) ?s"
    using rule_tag_names_rows [of m rules ?agg "fo_matched_rule_ids out" ?s]
    by (simp add: rule_tag_names_def t)
  moreover have "unique_keys tag_key (st_tags st')"
  proof -
    have "unique_keys tag_key (st_tags (fold (upsert_tag i) ns s))"
      if "unique_keys tag_key (st_tags s)" for i ns s
      by (rule fold_invariant_mem) (use that in \<open>auto simp: upsert_tag_tags tags.upsert_unique\<close>)
    then show ?thesis
      using assms(4) unfolding t by (simp add: apply_rows_def set_severity_def drop_stale_def)
  qed
  moreover have "filter (\<lambda>t. mt_source t \<noteq> ''rule'') (st_tags st') =
      filter (\<lambda>t. mt_source t \<noteq> ''rule'') (st_tags st)"
    by (simp add: t other_tags_rows)
  ultimately show ?thesis using e by (auto simp: aggregate_tags rule_tag_names_def)
qed

theorem rule_tags_exact_witness:
  "\<exists>out st'. evaluate_file sample_env sample_media (Some keep_rules) True 0 sample_store = Inr (out, st')
     \<and> rule_tag_names ''m1'' st' = {''orphan''}"
proof -
  have h: "unique_keys tag_key (st_tags sample_store)"
    "\<not> (\<exists>rd\<in>set keep_rules. \<exists>a\<in>set (rd_actions (snd rd)). is_delete a)"
    by (simp_all add: sample_store_def unique_keys_def warn_def_def)
  have f: "{t. \<exists>rd\<in>set keep_rules. AddTag t \<in> set (rd_actions (snd rd))} = {''orphan''}"
    "rule_tag_names i sample_store = {}" "mf_id sample_media = ''m1''" for i
    by (simp_all add: warn_def_def rule_tag_names_def sample_store_def sample_media_def)
  show ?thesis
    using rule_tags_exact [OF sample_hyps(2,3,4) h, of 0] unfolding sample_matching f by auto
qed

end
