(* ===== verification/BuiltinRules.thy ===== *)
theory BuiltinRules
  imports RuleEvaluator Store
begin

text \<open>
  The shipped rules of \<open>app/rules/builtin.py\<close>, transcribed entry by entry, and the two seeders
  that run at every start: \<open>register_builtin_rules\<close> merges them into the rules table,
  \<open>register_builtin_templates\<close> into the templates table.  The identifier of an inserted row
  (\<open>uuid4\<close>) is a parameter, a function of the inserted name.  Rule documents are compared as
  typed documents; two stored JSON texts of one typed document would be counted as refreshed by the
  code and as unchanged here, with the same resulting document.  The theorems show that every
  shipped rule validates and evaluates without an exception on every file, that it only labels
  files, and the exact result of both seeders.
\<close>

section \<open>The shipped rules\<close>

record builtin_rule =
  br_name :: string
  br_description :: string
  br_priority :: int
  br_definition :: rule_definition

definition builtin_orphaned_files :: builtin_rule where
  "builtin_orphaned_files =
     \<lparr>br_name = ''Orphaned files'',
      br_description = (''Flag files the scanner can no longer find on disk. Orphans usually ''
          @ ''mean a media file was moved, renamed, or deleted outside Auditarr. ''
          @ ''Surfacing them as ''
          @ [CHR 0x27]
          @ ''warn''
          @ [CHR 0x27]
          @ '' lets the operator decide whether to remove the row.''),
      br_priority = 10,
      br_definition = \<lparr>
        rd_match = AllOf [
          Leaf \<lparr>cond_field = ''is_orphaned'', cond_op = ''eq'', cond_value = PyBool True\<rparr>],
        rd_actions = [SetSeverity ''warn'', AddTag ''orphaned''],
        acknowledged_destructive = False\<rparr>\<rparr>"

definition builtin_unknown_video_codec :: builtin_rule where
  "builtin_unknown_video_codec =
     \<lparr>br_name = ''Unknown video codec'',
      br_description = (''Media file whose probe didn''
          @ [CHR 0x27]
          @ ''t identify a video codec. Usually means the probe failed, the file is ''
          @ ''corrupt, or it''
          @ [CHR 0x27]
          @ ''s an audio-only file misclassified as video.''),
      br_priority = 20,
      br_definition = \<lparr>
        rd_match = AllOf [
          Leaf \<lparr>cond_field = ''category'', cond_op = ''eq'', cond_value = PyStr ''media''\<rparr>,
          Leaf \<lparr>cond_field = ''video_codec'', cond_op = ''eq'', cond_value = PyNone\<rparr>,
          Leaf \<lparr>cond_field = ''is_orphaned'', cond_op = ''eq'', cond_value = PyBool False\<rparr>],
        rd_actions = [SetSeverity ''info'', AddTag ''no-video-codec''],
        acknowledged_destructive = False\<rparr>\<rparr>"

definition builtin_legacy_video_codec_mpeg_2_mpeg_4_part_2 :: builtin_rule where
  "builtin_legacy_video_codec_mpeg_2_mpeg_4_part_2 =
     \<lparr>br_name = ''Legacy video codec (MPEG-2 / MPEG-4 Part 2)'',
      br_description = (''Files using codecs that predate H.264. Almost no modern client ''
          @ ''direct-plays these efficiently. Tag for review; do not auto-queue ''
          @ ''optimization (the operator may have a deliberate reason ''
          @ [CHR 0xE2, CHR 0x80, CHR 0x94]
          @ '' e.g. authentic vintage rips).''),
      br_priority = 30,
      br_definition = \<lparr>
        rd_match = AllOf [
          Leaf \<lparr>cond_field = ''category'', cond_op = ''eq'', cond_value = PyStr ''media''\<rparr>,
          Leaf \<lparr>cond_field = ''video_codec'', cond_op = ''in'', cond_value = PyList [PyStr ''mpeg2video'', PyStr ''mpeg4'', PyStr ''msmpeg4v3'', PyStr ''wmv3'']\<rparr>],
        rd_actions = [SetSeverity ''info'', AddTag ''legacy-codec''],
        acknowledged_destructive = False\<rparr>\<rparr>"

definition builtin_very_high_bitrate_40_mbps :: builtin_rule where
  "builtin_very_high_bitrate_40_mbps =
     \<lparr>br_name = ''Very high bitrate (>40 Mbps)'',
      br_description = (''Media files above 40 Mbps. Almost always a remux or an uncompressed ''
          @ ''transfer that could shrink dramatically with little quality loss. ''
          @ ''Flagged ''
          @ [CHR 0x27]
          @ ''info''
          @ [CHR 0x27]
          @ '' rather than ''
          @ [CHR 0x27]
          @ ''warn''
          @ [CHR 0x27]
          @ '' because some operators deliberately keep remuxes.''),
      br_priority = 40,
      br_definition = \<lparr>
        rd_match = AllOf [
          Leaf \<lparr>cond_field = ''category'', cond_op = ''eq'', cond_value = PyStr ''media''\<rparr>,
          Leaf \<lparr>cond_field = ''bitrate_kbps'', cond_op = ''gt'', cond_value = PyInt 40000\<rparr>],
        rd_actions = [SetSeverity ''info'', AddTag ''very-high-bitrate''],
        acknowledged_destructive = False\<rparr>\<rparr>"

definition builtin_missing_subtitles_english_audio :: builtin_rule where
  "builtin_missing_subtitles_english_audio =
     \<lparr>br_name = ''Missing subtitles (English audio)'',
      br_description = (''English-language media with no subtitle track. Doesn''
          @ [CHR 0x27]
          @ ''t elevate severity ''
          @ [CHR 0xE2, CHR 0x80, CHR 0x94]
          @ '' many operators don''
          @ [CHR 0x27]
          @ ''t want subtitles on everything ''
          @ [CHR 0xE2, CHR 0x80, CHR 0x94]
          @ '' but tags so the operator can find them easily if they do want to ''
          @ ''bulk-fix.''),
      br_priority = 50,
      br_definition = \<lparr>
        rd_match = AllOf [
          Leaf \<lparr>cond_field = ''category'', cond_op = ''eq'', cond_value = PyStr ''media''\<rparr>,
          Leaf \<lparr>cond_field = ''has_subtitles'', cond_op = ''eq'', cond_value = PyBool False\<rparr>,
          Leaf \<lparr>cond_field = ''audio_languages'', cond_op = ''contains'', cond_value = PyStr ''eng''\<rparr>],
        rd_actions = [AddTag ''no-subtitles''],
        acknowledged_destructive = False\<rparr>\<rparr>"

definition builtin_very_small_media_file_10_mb :: builtin_rule where
  "builtin_very_small_media_file_10_mb =
     \<lparr>br_name = ''Very small media file (<10 MB)'',
      br_description = (''Media files under 10 MB. Often sample files, trailers, or extras that ''
          @ ''ended up in the main library directory. Tag for review.''),
      br_priority = 60,
      br_definition = \<lparr>
        rd_match = AllOf [
          Leaf \<lparr>cond_field = ''category'', cond_op = ''eq'', cond_value = PyStr ''media''\<rparr>,
          Leaf \<lparr>cond_field = ''size_bytes'', cond_op = ''lt'', cond_value = PyInt 10485760\<rparr>],
        rd_actions = [AddTag ''tiny-file''],
        acknowledged_destructive = False\<rparr>\<rparr>"

definition builtin_probe_failed :: builtin_rule where
  "builtin_probe_failed =
     \<lparr>br_name = ''Probe failed'',
      br_description = (''Media files where ffprobe returned an error. Usually means a corrupt ''
          @ ''or truncated file. Elevated to ''
          @ [CHR 0x27]
          @ ''warn''
          @ [CHR 0x27]
          @ '' so the operator notices. Enabled by default in Stage 06 (v1.7) now ''
          @ ''that ''
          @ [CHR 0x60]
          @ [CHR 0x60]
          @ ''probe_failed''
          @ [CHR 0x60]
          @ [CHR 0x60]
          @ '' is a DSL field.''),
      br_priority = 15,
      br_definition = \<lparr>
        rd_match = AllOf [
          Leaf \<lparr>cond_field = ''category'', cond_op = ''eq'', cond_value = PyStr ''media''\<rparr>,
          Leaf \<lparr>cond_field = ''probe_failed'', cond_op = ''eq'', cond_value = PyBool True\<rparr>],
        rd_actions = [SetSeverity ''warn'', AddTag ''probe-failed''],
        acknowledged_destructive = False\<rparr>\<rparr>"

definition builtin_plex_incompatible_video_codec :: builtin_rule where
  "builtin_plex_incompatible_video_codec =
     \<lparr>br_name = ''Plex incompatible video codec'',
      br_description = (''Detects video codecs that Plex transcoding fails to direct-play on ''
          @ ''most clients. Plex direct-play compatibility varies by client; this ''
          @ ''rule flags codecs that are universally unsupported (msmpeg4v3, wmv3, ''
          @ ''mpeg2video, mpeg4, theora, mjpeg). Tagged ''
          @ [CHR 0x27]
          @ ''plex-incompatible-video''
          @ [CHR 0x27]
          @ '' for operator triage.''),
      br_priority = 35,
      br_definition = \<lparr>
        rd_match = AllOf [
          Leaf \<lparr>cond_field = ''category'', cond_op = ''eq'', cond_value = PyStr ''media''\<rparr>,
          Leaf \<lparr>cond_field = ''video_codec'', cond_op = ''in'', cond_value = PyList [PyStr ''msmpeg4v3'', PyStr ''wmv3'', PyStr ''mpeg2video'', PyStr ''mpeg4'', PyStr ''theora'', PyStr ''mjpeg'']\<rparr>],
        rd_actions = [SetSeverity ''crit'', AddTag ''plex-incompatible-video''],
        acknowledged_destructive = False\<rparr>\<rparr>"

definition builtin_plex_incompatible_audio_codec :: builtin_rule where
  "builtin_plex_incompatible_audio_codec =
     \<lparr>br_name = ''Plex incompatible audio codec'',
      br_description = (''Audio codecs that Plex cannot direct-play on most clients (truehd, ''
          @ ''dts-hd, dts:x, atrac3, wmav2, speex). Tagged ''
          @ [CHR 0x27]
          @ ''plex-incompatible-audio''
          @ [CHR 0x27]
          @ '' for operator triage.''),
      br_priority = 45,
      br_definition = \<lparr>
        rd_match = AllOf [
          Leaf \<lparr>cond_field = ''category'', cond_op = ''eq'', cond_value = PyStr ''media''\<rparr>,
          Leaf \<lparr>cond_field = ''audio_codec'', cond_op = ''in'', cond_value = PyList [PyStr ''truehd'', PyStr ''dts-hd'', PyStr ''dts:x'', PyStr ''atrac3'', PyStr ''wmav2'', PyStr ''speex'']\<rparr>],
        rd_actions = [SetSeverity ''crit'', AddTag ''plex-incompatible-audio''],
        acknowledged_destructive = False\<rparr>\<rparr>"

definition builtin_jellyfin_incompatible_video_codec :: builtin_rule where
  "builtin_jellyfin_incompatible_video_codec =
     \<lparr>br_name = ''Jellyfin incompatible video codec'',
      br_description = (''Video codecs Jellyfin transcoding struggles with across the common ''
          @ ''clients (wmv3, msmpeg4v3, mpeg4, theora, mjpeg). Tagged ''
          @ [CHR 0x27]
          @ ''jellyfin-incompatible-video''
          @ [CHR 0x27]
          @ ''.''),
      br_priority = 55,
      br_definition = \<lparr>
        rd_match = AllOf [
          Leaf \<lparr>cond_field = ''category'', cond_op = ''eq'', cond_value = PyStr ''media''\<rparr>,
          Leaf \<lparr>cond_field = ''video_codec'', cond_op = ''in'', cond_value = PyList [PyStr ''wmv3'', PyStr ''msmpeg4v3'', PyStr ''mpeg4'', PyStr ''theora'', PyStr ''mjpeg'']\<rparr>],
        rd_actions = [SetSeverity ''crit'', AddTag ''jellyfin-incompatible-video''],
        acknowledged_destructive = False\<rparr>\<rparr>"

definition builtin_jellyfin_incompatible_audio_codec :: builtin_rule where
  "builtin_jellyfin_incompatible_audio_codec =
     \<lparr>br_name = ''Jellyfin incompatible audio codec'',
      br_description = (''Audio codecs Jellyfin direct-play does not support (truehd, dts-hd, ''
          @ ''dts:x, wmav2, speex). Tagged ''
          @ [CHR 0x27]
          @ ''jellyfin-incompatible-audio''
          @ [CHR 0x27]
          @ ''.''),
      br_priority = 65,
      br_definition = \<lparr>
        rd_match = AllOf [
          Leaf \<lparr>cond_field = ''category'', cond_op = ''eq'', cond_value = PyStr ''media''\<rparr>,
          Leaf \<lparr>cond_field = ''audio_codec'', cond_op = ''in'', cond_value = PyList [PyStr ''truehd'', PyStr ''dts-hd'', PyStr ''dts:x'', PyStr ''wmav2'', PyStr ''speex'']\<rparr>],
        rd_actions = [SetSeverity ''crit'', AddTag ''jellyfin-incompatible-audio''],
        acknowledged_destructive = False\<rparr>\<rparr>"

definition builtin_likely_transcode_trigger_4k_hevc_10_bit :: builtin_rule where
  "builtin_likely_transcode_trigger_4k_hevc_10_bit =
     \<lparr>br_name = ''Likely transcode trigger (4K HEVC 10-bit)'',
      br_description = (''4K HEVC files almost always force a transcode on common direct-play ''
          @ ''targets (older Apple TVs, Chromecast with Google TV, some Roku ''
          @ ''models). This rule flags candidate files so operators considering a ''
          @ ''downscale profile can find them. Doesn''
          @ [CHR 0x27]
          @ ''t elevate to ''
          @ [CHR 0x27]
          @ ''crit''
          @ [CHR 0x27]
          @ '' because operators with capable hardware shouldn''
          @ [CHR 0x27]
          @ ''t be alarmed.''),
      br_priority = 70,
      br_definition = \<lparr>
        rd_match = AllOf [
          Leaf \<lparr>cond_field = ''category'', cond_op = ''eq'', cond_value = PyStr ''media''\<rparr>,
          Leaf \<lparr>cond_field = ''video_codec'', cond_op = ''eq'', cond_value = PyStr ''hevc''\<rparr>,
          Leaf \<lparr>cond_field = ''width'', cond_op = ''gte'', cond_value = PyInt 3000\<rparr>,
          Leaf \<lparr>cond_field = ''height'', cond_op = ''gte'', cond_value = PyInt 1600\<rparr>],
        rd_actions = [SetSeverity ''warn'', AddTag ''likely-transcode-trigger''],
        acknowledged_destructive = False\<rparr>\<rparr>"

definition builtin_executable_file_in_library :: builtin_rule where
  "builtin_executable_file_in_library =
     \<lparr>br_name = ''Executable file in library'',
      br_description = (''An executable in a media library is almost always wrong ''
          @ [CHR 0xE2, CHR 0x80, CHR 0x94]
          @ '' a stray installer, a misplaced script, or in the worst case a ''
          @ ''malicious payload. The match list covers the common operating-system ''
          @ ''executables: exe, bat, cmd, ps1, sh, com, scr, msi, app, dmg. The ''
          @ ''scanner stores extensions WITHOUT a leading dot so the value list is ''
          @ ''dotless. Tagged ''
          @ [CHR 0x27]
          @ ''executable-in-library''
          @ [CHR 0x27]
          @ '' at ''
          @ [CHR 0x27]
          @ ''crit''
          @ [CHR 0x27]
          @ '' severity.''),
      br_priority = 73,
      br_definition = \<lparr>
        rd_match = AllOf [
          Leaf \<lparr>cond_field = ''extension'', cond_op = ''in'', cond_value = PyList [PyStr ''exe'', PyStr ''bat'', PyStr ''cmd'', PyStr ''ps1'', PyStr ''sh'', PyStr ''com'', PyStr ''scr'', PyStr ''msi'', PyStr ''app'', PyStr ''dmg'']\<rparr>],
        rd_actions = [SetSeverity ''crit'', AddTag ''executable-in-library''],
        acknowledged_destructive = False\<rparr>\<rparr>"

definition builtin_non_media_file_extension :: builtin_rule where
  "builtin_non_media_file_extension =
     \<lparr>br_name = ''Non-media file extension'',
      br_description = (''Files whose extension marks them as junk (txt, log, nfo offshoots, ''
          @ ''leftover .part / .crdownload). Stage 05 introduces the ''
          @ [CHR 0x27]
          @ ''junk''
          @ [CHR 0x27]
          @ '' category cleanly via the extension-classifier; until then the rule ''
          @ ''sits enabled but matches nothing because no file is ever categorised ''
          @ ''as ''
          @ [CHR 0x27]
          @ ''junk''
          @ [CHR 0x27]
          @ ''. The contract ships now so a future toggle doesn''
          @ [CHR 0x27]
          @ ''t need a code change to start firing.''),
      br_priority = 75,
      br_definition = \<lparr>
        rd_match = AllOf [
          Leaf \<lparr>cond_field = ''category'', cond_op = ''eq'', cond_value = PyStr ''junk''\<rparr>],
        rd_actions = [AddTag ''junk-extension''],
        acknowledged_destructive = False\<rparr>\<rparr>"

definition builtin_virustotal_non_clean :: builtin_rule where
  "builtin_virustotal_non_clean =
     \<lparr>br_name = ''VirusTotal non-clean'',
      br_description = (''Files where VirusTotal returned malicious or suspicious verdicts. ''
          @ ''Escalates to ''
          @ [CHR 0x27]
          @ ''crit''
          @ [CHR 0x27]
          @ '' so the operator notices immediately. Populated by the VirusTotal ''
          @ ''plugin once configured; matches no files until then.''),
      br_priority = 10,
      br_definition = \<lparr>
        rd_match = Leaf \<lparr>cond_field = ''vt_status'', cond_op = ''in'', cond_value = PyList [PyStr ''malicious'', PyStr ''suspicious'']\<rparr>,
        rd_actions = [SetSeverity ''crit'', AddTag ''virustotal-non-clean''],
        acknowledged_destructive = False\<rparr>\<rparr>"

definition builtin_likely_transcode_plex_jellyfin :: builtin_rule where
  "builtin_likely_transcode_plex_jellyfin =
     \<lparr>br_name = ''Likely transcode (Plex/Jellyfin)'',
      br_description = (''Files that often force a transcode on common direct-play targets: ''
          @ ''HEVC at 1080p+ (older clients lack hardware decode), AC3 5.1 audio ''
          @ ''(many browser players won''
          @ [CHR 0x27]
          @ ''t decode it natively). Surfacing these helps operators decide whether ''
          @ ''to maintain alternate downscaled copies for those clients.''),
      br_priority = 75,
      br_definition = \<lparr>
        rd_match = AllOf [
          Leaf \<lparr>cond_field = ''category'', cond_op = ''eq'', cond_value = PyStr ''media''\<rparr>,
          AnyOf [
            AllOf [
              Leaf \<lparr>cond_field = ''video_codec'', cond_op = ''eq'', cond_value = PyStr ''hevc''\<rparr>,
              Leaf \<lparr>cond_field = ''height'', cond_op = ''gte'', cond_value = PyInt 1080\<rparr>],
            Leaf \<lparr>cond_field = ''audio_codec'', cond_op = ''eq'', cond_value = PyStr ''ac3''\<rparr>,
            Leaf \<lparr>cond_field = ''audio_codec'', cond_op = ''eq'', cond_value = PyStr ''eac3''\<rparr>]],
        rd_actions = [SetSeverity ''warn'', AddTag ''likely-transcode''],
        acknowledged_destructive = False\<rparr>\<rparr>"

definition builtin_always_transcode_plex_jellyfin :: builtin_rule where
  "builtin_always_transcode_plex_jellyfin =
     \<lparr>br_name = ''Always transcode (Plex/Jellyfin)'',
      br_description = (''Files that essentially always trigger a server-side transcode on ''
          @ ''Plex/Jellyfin: 4K HEVC content (very few client devices direct-play ''
          @ ''4K HEVC), DTS-HD MA (approximated as audio_codec ''
          @ [CHR 0x27]
          @ ''dts''
          @ [CHR 0x27]
          @ ''; most browser and mobile clients lack the decoder). Elevates to ''
          @ [CHR 0x27]
          @ ''high''
          @ [CHR 0x27]
          @ '' so the operator notices these clusters when their server is ''
          @ ''CPU-bound during peak playback.''),
      br_priority = 72,
      br_definition = \<lparr>
        rd_match = AllOf [
          Leaf \<lparr>cond_field = ''category'', cond_op = ''eq'', cond_value = PyStr ''media''\<rparr>,
          AnyOf [
            AllOf [
              Leaf \<lparr>cond_field = ''video_codec'', cond_op = ''eq'', cond_value = PyStr ''hevc''\<rparr>,
              Leaf \<lparr>cond_field = ''width'', cond_op = ''gte'', cond_value = PyInt 3000\<rparr>,
              Leaf \<lparr>cond_field = ''height'', cond_op = ''gte'', cond_value = PyInt 1600\<rparr>],
            Leaf \<lparr>cond_field = ''audio_codec'', cond_op = ''eq'', cond_value = PyStr ''dts''\<rparr>,
            Leaf \<lparr>cond_field = ''audio_codec'', cond_op = ''eq'', cond_value = PyStr ''truehd''\<rparr>]],
        rd_actions = [SetSeverity ''high'', AddTag ''always-transcode''],
        acknowledged_destructive = False\<rparr>\<rparr>"

definition builtin_unplayable_unsupported_plex_jellyfin :: builtin_rule where
  "builtin_unplayable_unsupported_plex_jellyfin =
     \<lparr>br_name = ''Unplayable / Unsupported (Plex/Jellyfin)'',
      br_description = (''Files that won''
          @ [CHR 0x27]
          @ ''t direct-play on most clients AND will often fail to transcode ''
          @ ''cleanly. MPEG-2 video in an MP4 container is a known incompatibility ''
          @ ''(the muxer is wrong); Bink video and Vorbis-in-MP4 are similar edge ''
          @ ''cases. Elevates to ''
          @ [CHR 0x27]
          @ ''crit''
          @ [CHR 0x27]
          @ '' so the operator can remux/recode before a user hits the failure.''),
      br_priority = 15,
      br_definition = \<lparr>
        rd_match = AllOf [
          Leaf \<lparr>cond_field = ''category'', cond_op = ''eq'', cond_value = PyStr ''media''\<rparr>,
          AnyOf [
            AllOf [
              Leaf \<lparr>cond_field = ''video_codec'', cond_op = ''eq'', cond_value = PyStr ''mpeg2video''\<rparr>,
              Leaf \<lparr>cond_field = ''container'', cond_op = ''eq'', cond_value = PyStr ''mov''\<rparr>],
            Leaf \<lparr>cond_field = ''video_codec'', cond_op = ''eq'', cond_value = PyStr ''bink''\<rparr>,
            Leaf \<lparr>cond_field = ''video_codec'', cond_op = ''eq'', cond_value = PyStr ''binkvideo''\<rparr>,
            AllOf [
              Leaf \<lparr>cond_field = ''audio_codec'', cond_op = ''eq'', cond_value = PyStr ''vorbis''\<rparr>,
              Leaf \<lparr>cond_field = ''container'', cond_op = ''eq'', cond_value = PyStr ''mov''\<rparr>]]],
        rd_actions = [SetSeverity ''crit'', AddTag ''unplayable''],
        acknowledged_destructive = False\<rparr>\<rparr>"

definition BUILTIN_RULES :: "builtin_rule list" where
  "BUILTIN_RULES =
     [builtin_orphaned_files,
      builtin_unknown_video_codec,
      builtin_legacy_video_codec_mpeg_2_mpeg_4_part_2,
      builtin_very_high_bitrate_40_mbps,
      builtin_missing_subtitles_english_audio,
      builtin_very_small_media_file_10_mb,
      builtin_probe_failed,
      builtin_plex_incompatible_video_codec,
      builtin_plex_incompatible_audio_codec,
      builtin_jellyfin_incompatible_video_codec,
      builtin_jellyfin_incompatible_audio_codec,
      builtin_likely_transcode_trigger_4k_hevc_10_bit,
      builtin_executable_file_in_library,
      builtin_non_media_file_extension,
      builtin_virustotal_non_clean,
      builtin_likely_transcode_plex_jellyfin,
      builtin_always_transcode_plex_jellyfin,
      builtin_unplayable_unsupported_plex_jellyfin]"

lemmas builtin_defs = builtin_orphaned_files_def
  builtin_unknown_video_codec_def
  builtin_legacy_video_codec_mpeg_2_mpeg_4_part_2_def
  builtin_very_high_bitrate_40_mbps_def
  builtin_missing_subtitles_english_audio_def
  builtin_very_small_media_file_10_mb_def
  builtin_probe_failed_def
  builtin_plex_incompatible_video_codec_def
  builtin_plex_incompatible_audio_codec_def
  builtin_jellyfin_incompatible_video_codec_def
  builtin_jellyfin_incompatible_audio_codec_def
  builtin_likely_transcode_trigger_4k_hevc_10_bit_def
  builtin_executable_file_in_library_def
  builtin_non_media_file_extension_def
  builtin_virustotal_non_clean_def
  builtin_likely_transcode_plex_jellyfin_def
  builtin_always_transcode_plex_jellyfin_def
  builtin_unplayable_unsupported_plex_jellyfin_def

definition DISABLED_BY_DEFAULT :: "string list" where
  "DISABLED_BY_DEFAULT = []"

section \<open>Seeding the rules table\<close>

record seed_counts =
  inserted :: nat
  refreshed :: nat
  unchanged :: nat
  conflicts :: nat

definition no_counts :: seed_counts where
  "no_counts = \<lparr>inserted = 0, refreshed = 0, unchanged = 0, conflicts = 0\<rparr>"

definition builtin_row :: "string \<Rightarrow> builtin_rule \<Rightarrow> rule" where
  "builtin_row new_id spec =
     \<lparr>ru_id = new_id, ru_name = br_name spec, ru_description = Some (br_description spec),
      ru_enabled = (br_name spec \<notin> set DISABLED_BY_DEFAULT), ru_priority = br_priority spec,
      ru_definition = Some (br_definition spec), ru_is_builtin = True,
      ru_last_evaluated_at = None, ru_last_match_count = 0\<rparr>"

definition register_rule ::
  "(string \<Rightarrow> string) \<Rightarrow> rule list \<times> seed_counts \<Rightarrow> builtin_rule \<Rightarrow> rule list \<times> seed_counts" where
  "register_rule uuid4 s spec =
     (case s of (rules, n) \<Rightarrow>
       case table_find ru_name (br_name spec) rules of
         None \<Rightarrow> (rules @ [builtin_row (uuid4 (br_name spec)) spec], n\<lparr>inserted := Suc (inserted n)\<rparr>)
       | Some existing \<Rightarrow>
           if \<not> ru_is_builtin existing then (rules, n\<lparr>conflicts := Suc (conflicts n)\<rparr>)
           else if ru_description existing = Some (br_description spec)
                   \<and> ru_definition existing = Some (br_definition spec)
           then (rules, n\<lparr>unchanged := Suc (unchanged n)\<rparr>)
           else (map (\<lambda>r. if ru_name r = br_name spec
                          then r\<lparr>ru_description := Some (br_description spec),
                                 ru_definition := Some (br_definition spec)\<rparr>
                          else r) rules,
                 n\<lparr>refreshed := Suc (refreshed n)\<rparr>))"

definition register_builtin_rules ::
  "(string \<Rightarrow> string) \<Rightarrow> rule list \<Rightarrow> rule list \<times> seed_counts" where
  "register_builtin_rules uuid4 rules = foldl (register_rule uuid4) (rules, no_counts) BUILTIN_RULES"

section \<open>Seeding the templates table\<close>

record rule_template =
  rt_name :: string
  rt_description :: "string option"
  rt_priority :: int
  rt_definition :: "rule_definition option"
  rt_seeded_at :: int

definition template_row :: "int \<Rightarrow> builtin_rule \<Rightarrow> rule_template" where
  "template_row now spec =
     \<lparr>rt_name = br_name spec, rt_description = Some (br_description spec),
      rt_priority = br_priority spec, rt_definition = Some (br_definition spec),
      rt_seeded_at = now\<rparr>"

definition template_current :: "rule_template \<Rightarrow> builtin_rule \<Rightarrow> bool" where
  "template_current t spec =
     (rt_description t = Some (br_description spec) \<and> rt_definition t = Some (br_definition spec)
      \<and> rt_priority t = br_priority spec)"

definition register_template ::
  "int \<Rightarrow> rule_template list \<times> seed_counts \<Rightarrow> builtin_rule \<Rightarrow> rule_template list \<times> seed_counts" where
  "register_template now s spec =
     (case s of (ts, n) \<Rightarrow>
       case table_find rt_name (br_name spec) ts of
         None \<Rightarrow> (ts @ [template_row now spec], n\<lparr>inserted := Suc (inserted n)\<rparr>)
       | Some existing \<Rightarrow>
           if template_current existing spec then (ts, n\<lparr>unchanged := Suc (unchanged n)\<rparr>)
           else (map (\<lambda>t. if rt_name t = br_name spec
                          then t\<lparr>rt_description := Some (br_description spec),
                                 rt_definition := Some (br_definition spec),
                                 rt_priority := br_priority spec, rt_seeded_at := now\<rparr>
                          else t) ts,
                 n\<lparr>refreshed := Suc (refreshed n)\<rparr>))"

definition register_builtin_templates ::
  "int \<Rightarrow> rule_template list \<Rightarrow> rule_template list \<times> seed_counts" where
  "register_builtin_templates now ts = foldl (register_template now) (ts, no_counts) BUILTIN_RULES"

section \<open>A seeder writes each name once\<close>

text \<open>The contract both seeders share: \<open>step\<close> visits one shipped rule, inserting a row
  for a name the table lacks and otherwise rewriting the row found by \<open>fix_row\<close>, which keeps the
  name and does nothing to a row that was just written.\<close>

locale seeder =
  fixes step :: "'r list \<times> seed_counts \<Rightarrow> builtin_rule \<Rightarrow> 'r list \<times> seed_counts"
    and row_name :: "'r \<Rightarrow> string"
    and new_row :: "builtin_rule \<Rightarrow> 'r"
    and fix_row :: "builtin_rule \<Rightarrow> 'r \<Rightarrow> 'r"
    and tally :: "'r option \<Rightarrow> builtin_rule \<Rightarrow> seed_counts \<Rightarrow> seed_counts"
  assumes step_new: "table_find row_name (br_name b) t = None \<Longrightarrow>
        step (t, n) b = (t @ [new_row b], tally None b n)"
    and step_found: "unique_keys row_name t \<Longrightarrow> table_find row_name (br_name b) t = Some r \<Longrightarrow>
        step (t, n) b = (map (\<lambda>x. if row_name x = br_name b then fix_row b x else x) t,
                         tally (Some r) b n)"
    and name_new: "row_name (new_row b) = br_name b"
    and name_fix: "row_name (fix_row b x) = row_name x"
    and fix_new: "fix_row b (new_row b) = new_row b"
    and fix_fix: "fix_row b (fix_row b x) = fix_row b x"
begin

text \<open>The row a shipped set turns an existing row into.\<close>

definition settle :: "builtin_rule list \<Rightarrow> 'r \<Rightarrow> 'r" where
  "settle bs x = (case table_find br_name (row_name x) bs of None \<Rightarrow> x | Some b \<Rightarrow> fix_row b x)"

definition seeded :: "builtin_rule list \<Rightarrow> 'r list \<Rightarrow> 'r list" where
  "seeded bs t = map (settle bs) t @ map new_row (filter (\<lambda>b. br_name b \<notin> row_name ` set t) bs)"

lemma name_settle [simp]: "row_name (settle bs x) = row_name x"
  by (simp add: settle_def name_fix split: option.split)

lemma settle_Cons:
  assumes "br_name b \<notin> br_name ` set bs"
  shows "settle bs (if row_name x = br_name b then fix_row b x else x) = settle (b # bs) x"
  using assms by (simp add: settle_def name_fix table_find_None_iff [THEN iffD2])

lemma settle_absent: "row_name x \<noteq> br_name b \<Longrightarrow> settle (b # bs) x = settle bs x"
  by (simp add: settle_def)

lemma settle_new: "br_name b \<notin> br_name ` set bs \<Longrightarrow> settle bs (new_row b) = new_row b"
  by (simp add: settle_def name_new table_find_None_iff [THEN iffD2])

lemma seeded_step:
  assumes "unique_keys row_name t" "unique_keys br_name (b # bs)"
  shows "seeded bs (fst (step (t, n) b)) = seeded (b # bs) t
         \<and> unique_keys row_name (fst (step (t, n) b))"
proof (cases "table_find row_name (br_name b) t")
  case None
  then have nt: "br_name b \<notin> row_name ` set t" by (simp add: table_find_None_iff)
  have nb: "br_name b \<notin> br_name ` set bs" using assms(2) by (simp add: unique_keys_def)
  have "map (settle bs) t = map (settle (b # bs)) t"
    using nt by (intro map_cong refl settle_absent [symmetric]) (metis image_eqI)
  moreover have "filter (\<lambda>c. br_name c \<noteq> br_name b \<and> br_name c \<notin> row_name ` set t) bs =
      filter (\<lambda>c. br_name c \<notin> row_name ` set t) bs"
    using nb by (intro filter_cong refl) (metis image_eqI)
  ultimately show ?thesis
    using None nt assms(1)
    by (simp add: step_new seeded_def settle_new [OF nb] name_new unique_keys_def)
next
  case (Some r)
  have nb: "br_name b \<notin> br_name ` set bs" using assms(2) by (simp add: unique_keys_def)
  have nt: "br_name b \<in> row_name ` set t" using Some by (rule table_find_key)
  let ?f = "\<lambda>x. if row_name x = br_name b then fix_row b x else x"
  have "map row_name (map ?f t) = map row_name t" by (simp add: name_fix)
  then have "row_name ` set (map ?f t) = row_name ` set t" by (metis list.set_map)
  moreover have "map (settle bs) (map ?f t) = map (settle (b # bs)) t"
    using settle_Cons [OF nb] by simp
  moreover have "unique_keys row_name (map ?f t)"
    using assms(1) by (simp add: unique_keys_map name_fix)
  ultimately show ?thesis
    using Some nt assms(1) by (simp add: step_found seeded_def)
qed

theorem seed_table:
  "unique_keys row_name t \<Longrightarrow> unique_keys br_name bs \<Longrightarrow>
     fst (foldl step (t, n) bs) = seeded bs t \<and> unique_keys row_name (seeded bs t)"
proof (induction bs arbitrary: t n)
  case Nil
  moreover have "settle [] = (\<lambda>x. x)" by (simp add: settle_def fun_eq_iff)
  ultimately show ?case by (simp add: seeded_def)
next
  case (Cons b bs)
  obtain t' n' where s: "step (t, n) b = (t', n')" by fastforce
  have "seeded bs t' = seeded (b # bs) t" "unique_keys row_name t'"
    using seeded_step [OF Cons.prems, of n] s by simp_all
  moreover have "unique_keys br_name bs" using Cons.prems(2) by (simp add: unique_keys_def)
  ultimately show ?case using Cons.IH [of t' n'] s by simp
qed

text \<open>Running the seeder on its own result leaves the table as it is.\<close>

lemma settle_settle: "settle bs (settle bs x) = settle bs x"
  by (auto simp: settle_def name_fix fix_fix split: option.split)

lemma settle_shipped:
  "unique_keys br_name bs \<Longrightarrow> b \<in> set bs \<Longrightarrow> settle bs (new_row b) = new_row b"
  by (simp add: settle_def name_new fix_new table_find_Some_iff [THEN iffD2])

lemma seeded_names: "row_name ` set (seeded bs t) = row_name ` set t \<union> br_name ` set bs"
  by (auto simp: seeded_def name_new image_image image_Un)

lemma seeded_other:
  "filter (\<lambda>x. row_name x \<notin> br_name ` set bs) (seeded bs t) =
   filter (\<lambda>x. row_name x \<notin> br_name ` set bs) t"
proof -
  have "settle bs x = x" if "row_name x \<notin> br_name ` set bs" for x
    using that by (simp add: settle_def table_find_None_iff [THEN iffD2])
  then have "filter (\<lambda>x. row_name x \<notin> br_name ` set bs) (map (settle bs) t) =
      filter (\<lambda>x. row_name x \<notin> br_name ` set bs) t"
    by (induction t) auto
  then show ?thesis by (auto simp: seeded_def filter_empty_conv name_new)
qed

lemma seeded_seeded:
  assumes "unique_keys br_name bs"
  shows "seeded bs (seeded bs t) = seeded bs t"
proof -
  have "filter (\<lambda>b. br_name b \<notin> row_name ` set (seeded bs t)) bs = []"
    by (auto simp: seeded_names filter_empty_conv)
  moreover have "map (settle bs) (seeded bs t) = seeded bs t"
    using assms by (auto simp: seeded_def settle_settle settle_shipped)
  ultimately show ?thesis by (subst (1) seeded_def) simp
qed

lemma seeded_find:
  assumes "unique_keys br_name bs" "b \<in> set bs"
  shows "table_find row_name (br_name b) (seeded bs t) =
     Some (case table_find row_name (br_name b) t of None \<Rightarrow> new_row b | Some r \<Rightarrow> fix_row b r)"
proof (cases "table_find row_name (br_name b) t")
  case None
  have u: "unique_keys row_name (map new_row (filter P bs))" for P
    using unique_keys_filter [OF assms(1), of P] by (simp add: unique_keys_def name_new o_def)
  have "new_row b \<in> set (map new_row (filter (\<lambda>b. br_name b \<notin> row_name ` set t) bs))"
    using None assms(2) by (simp add: table_find_None_iff)
  then have "table_find row_name (br_name b)
      (map new_row (filter (\<lambda>b. br_name b \<notin> row_name ` set t) bs)) = Some (new_row b)"
    using table_find_Some_iff [OF u] name_new by blast
  with None show ?thesis by (simp add: seeded_def table_find_append table_find_map)
next
  case (Some r)
  then have "row_name r = br_name b" by (auto dest: table_find_SomeD)
  then have "settle bs r = fix_row b r"
    using table_find_Some_iff [OF assms(1), of "br_name b" b] assms(2) by (simp add: settle_def)
  with Some show ?thesis by (simp add: seeded_def table_find_append table_find_map)
qed

text \<open>The tally sees, for each shipped rule, the row of its name in the table before the run.\<close>

lemma step_find:
  assumes "unique_keys row_name t" "k \<noteq> br_name b"
  shows "table_find row_name k (fst (step (t, n) b)) = table_find row_name k t"
proof (cases "table_find row_name (br_name b) t")
  case None
  then show ?thesis
    using assms by (simp add: step_new table_find_append name_new split: option.split)
next
  case (Some r)
  let ?f = "\<lambda>x. if row_name x = br_name b then fix_row b x else x"
  have "table_find row_name k (map ?f t) = map_option ?f (table_find row_name k t)"
    by (intro table_find_map) (simp add: name_fix)
  moreover have "map_option ?f (table_find row_name k t) = table_find row_name k t"
    using assms(2) by (cases "table_find row_name k t") (auto dest: table_find_SomeD)
  ultimately show ?thesis using Some assms(1) by (simp add: step_found)
qed

lemma step_tally:
  "unique_keys row_name t \<Longrightarrow>
     snd (step (t, n) b) = tally (table_find row_name (br_name b) t) b n"
  by (cases "table_find row_name (br_name b) t") (simp_all add: step_new step_found)

theorem seed_counts:
  "unique_keys row_name t \<Longrightarrow> unique_keys br_name bs \<Longrightarrow>
     snd (foldl step (t, n) bs) =
     foldl (\<lambda>m b. tally (table_find row_name (br_name b) t) b m) n bs"
proof (induction bs arbitrary: t n)
  case (Cons b bs)
  obtain t' n' where s: "step (t, n) b = (t', n')" by fastforce
  have u: "unique_keys row_name t'" using seeded_step [OF Cons.prems, of n] s by simp
  have n': "n' = tally (table_find row_name (br_name b) t) b n"
    using step_tally [OF Cons.prems(1), of n b] s by simp
  have "table_find row_name (br_name c) t' = table_find row_name (br_name c) t" if "c \<in> set bs" for c
  proof -
    have "br_name c \<noteq> br_name b" 
      using that Cons.prems(2) by (simp add: unique_keys_def) (metis image_eqI)
    from step_find [OF Cons.prems(1) this, of n] s show ?thesis by simp
  qed
  then have "foldl (\<lambda>m c. tally (table_find row_name (br_name c) t') c m) n' bs =
      foldl (\<lambda>m c. tally (table_find row_name (br_name c) t) c m) n' bs"
    by (intro foldl_cong) auto
  with Cons.IH [OF u, of n'] Cons.prems(2) s n' show ?case by (simp add: unique_keys_def)
qed simp

end

section \<open>The two seeders of the code\<close>

definition fix_rule :: "builtin_rule \<Rightarrow> rule \<Rightarrow> rule" where
  "fix_rule b r =
     (if ru_is_builtin r
      then r\<lparr>ru_description := Some (br_description b), ru_definition := Some (br_definition b)\<rparr>
      else r)"

definition rule_current :: "rule \<Rightarrow> builtin_rule \<Rightarrow> bool" where
  "rule_current r b =
     (ru_description r = Some (br_description b) \<and> ru_definition r = Some (br_definition b))"

definition tally_rule :: "rule option \<Rightarrow> builtin_rule \<Rightarrow> seed_counts \<Rightarrow> seed_counts" where
  "tally_rule ro b n =
     (case ro of None \<Rightarrow> n\<lparr>inserted := Suc (inserted n)\<rparr>
      | Some r \<Rightarrow>
          if \<not> ru_is_builtin r then n\<lparr>conflicts := Suc (conflicts n)\<rparr>
          else if rule_current r b then n\<lparr>unchanged := Suc (unchanged n)\<rparr>
          else n\<lparr>refreshed := Suc (refreshed n)\<rparr>)"

definition fix_template :: "int \<Rightarrow> builtin_rule \<Rightarrow> rule_template \<Rightarrow> rule_template" where
  "fix_template now b t =
     (if template_current t b then t
      else t\<lparr>rt_description := Some (br_description b), rt_definition := Some (br_definition b),
             rt_priority := br_priority b, rt_seeded_at := now\<rparr>)"

definition tally_template :: "rule_template option \<Rightarrow> builtin_rule \<Rightarrow> seed_counts \<Rightarrow> seed_counts" where
  "tally_template to b n =
     (case to of None \<Rightarrow> n\<lparr>inserted := Suc (inserted n)\<rparr>
      | Some t \<Rightarrow>
          if template_current t b then n\<lparr>unchanged := Suc (unchanged n)\<rparr>
          else n\<lparr>refreshed := Suc (refreshed n)\<rparr>)"

lemma map_found_row:
  assumes "unique_keys key t" "table_find key k t = Some r" "f r = g r"
  shows "map (\<lambda>x. if key x = k then f x else x) t = map (\<lambda>x. if key x = k then g x else x) t"
proof (rule map_cong [OF refl])
  fix x assume "x \<in> set t"
  with assms show "(if key x = k then f x else x) = (if key x = k then g x else x)"
    using table_find_Some_iff [OF assms(1), of k x] by auto
qed

lemma map_found_id:
  assumes "unique_keys key t" "table_find key k t = Some r" "f r = r"
  shows "map (\<lambda>x. if key x = k then f x else x) t = t"
  using map_found_row [OF assms(1,2), of f "\<lambda>x. x"] assms(3) by simp

lemma register_rule_found:
  assumes "unique_keys ru_name t" "table_find ru_name (br_name b) t = Some r"
  shows "register_rule u (t, n) b =
     (map (\<lambda>x. if ru_name x = br_name b then fix_rule b x else x) t, tally_rule (Some r) b n)"
proof (cases "ru_is_builtin r \<and> \<not> rule_current r b")
  case True
  then show ?thesis
    using assms map_found_row [OF assms, of "fix_rule b"
        "\<lambda>r. r\<lparr>ru_description := Some (br_description b), ru_definition := Some (br_definition b)\<rparr>"]
    by (auto simp: register_rule_def tally_rule_def fix_rule_def rule_current_def)
next
  case False
  then have "fix_rule b r = r" by (auto simp: fix_rule_def rule_current_def)
  with False assms show ?thesis
    using map_found_id [OF assms, of "fix_rule b"]
    by (auto simp: register_rule_def tally_rule_def rule_current_def)
qed

lemma register_template_found:
  assumes "unique_keys rt_name t" "table_find rt_name (br_name b) t = Some r"
  shows "register_template now (t, n) b =
     (map (\<lambda>x. if rt_name x = br_name b then fix_template now b x else x) t,
      tally_template (Some r) b n)"
proof (cases "template_current r b")
  case True
  then show ?thesis
    using assms map_found_id [OF assms, of "fix_template now b"]
    by (simp add: register_template_def tally_template_def fix_template_def)
next
  case False
  then show ?thesis
    using assms map_found_row [OF assms, of "fix_template now b"
        "\<lambda>t. t\<lparr>rt_description := Some (br_description b), rt_definition := Some (br_definition b),
               rt_priority := br_priority b, rt_seeded_at := now\<rparr>"]
    by (simp add: register_template_def tally_template_def fix_template_def)
qed

interpretation rule_seeder: seeder "register_rule uuid4" ru_name "\<lambda>b. builtin_row (uuid4 (br_name b)) b"
  fix_rule tally_rule for uuid4
proof unfold_locales
  fix b :: builtin_rule and t :: "rule list" and r n
  assume "unique_keys ru_name t" "table_find ru_name (br_name b) t = Some r"
  then show "register_rule uuid4 (t, n) b =
     (map (\<lambda>x. if ru_name x = br_name b then fix_rule b x else x) t, tally_rule (Some r) b n)"
    by (rule register_rule_found)
qed (simp_all add: register_rule_def tally_rule_def builtin_row_def fix_rule_def)

interpretation template_seeder: seeder "register_template now" rt_name "template_row now"
  "fix_template now" tally_template for now
proof unfold_locales
  fix b :: builtin_rule and t :: "rule_template list" and r n
  assume "unique_keys rt_name t" "table_find rt_name (br_name b) t = Some r"
  then show "register_template now (t, n) b =
     (map (\<lambda>x. if rt_name x = br_name b then fix_template now b x else x) t,
      tally_template (Some r) b n)"
    by (rule register_template_found)
qed (simp_all add: register_template_def tally_template_def template_row_def fix_template_def
       template_current_def)

lemma builtin_names_unique: "unique_keys br_name BUILTIN_RULES"
  unfolding unique_keys_def by code_simp

text \<open>Counting a run.\<close>

lemma tally_rule_run:
  "inserted (foldl (\<lambda>m b. tally_rule (f b) b m) n bs) =
     inserted n + length (filter (\<lambda>b. f b = None) bs)"
  "conflicts (foldl (\<lambda>m b. tally_rule (f b) b m) n bs) =
     conflicts n + length (filter (\<lambda>b. \<exists>r. f b = Some r \<and> \<not> ru_is_builtin r) bs)"
  "refreshed (foldl (\<lambda>m b. tally_rule (f b) b m) n bs) =
     refreshed n + length (filter (\<lambda>b. \<exists>r. f b = Some r \<and> ru_is_builtin r \<and> \<not> rule_current r b) bs)"
  "unchanged (foldl (\<lambda>m b. tally_rule (f b) b m) n bs) =
     unchanged n + length (filter (\<lambda>b. \<exists>r. f b = Some r \<and> ru_is_builtin r \<and> rule_current r b) bs)"
  by (induction bs arbitrary: n) (auto simp: tally_rule_def split: option.splits)

lemma tally_template_run:
  "inserted (foldl (\<lambda>m b. tally_template (f b) b m) n bs) =
     inserted n + length (filter (\<lambda>b. f b = None) bs)"
  "refreshed (foldl (\<lambda>m b. tally_template (f b) b m) n bs) =
     refreshed n + length (filter (\<lambda>b. \<exists>t. f b = Some t \<and> \<not> template_current t b) bs)"
  "unchanged (foldl (\<lambda>m b. tally_template (f b) b m) n bs) =
     unchanged n + length (filter (\<lambda>b. \<exists>t. f b = Some t \<and> template_current t b) bs)"
  by (induction bs arbitrary: n) (auto simp: tally_template_def split: option.splits)

section \<open>Shipped rules are harmless\<close>

text \<open>A static check of a condition: the operand of an ordering is a 64-bit integer, the operand
  of \<open>in\<close> a list that is not empty.\<close>

fun literal_ok :: "condition \<Rightarrow> bool" where
  "literal_ok c =
     ((cond_op c \<in> {''lt'', ''lte'', ''gt'', ''gte''} \<longrightarrow>
        (case cond_value c of PyInt n \<Rightarrow> int64_ok (Some n) | _ \<Rightarrow> False))
      \<and> (cond_op c = ''in'' \<longrightarrow> (case cond_value c of PyList (x # xs) \<Rightarrow> True | _ \<Rightarrow> False)))"

lemma literal_ok_safe: "literal_ok c \<Longrightarrow> condition_safe env c"
  by (auto simp: condition_safe_def py_or_def intro: as_number_int64 split: pyval.splits list.splits)

fun labels_only :: "action \<Rightarrow> bool" where
  "labels_only (SetSeverity _) = True"
| "labels_only (AddTag _) = True"
| "labels_only _ = False"

definition shipped_ok :: "builtin_rule \<Rightarrow> bool" where
  "shipped_ok b =
     (model_validate (br_definition b) = Inr (br_definition b)
      \<and> list_all literal_ok (leaves (rd_match (br_definition b)))
      \<and> list_all labels_only (rd_actions (br_definition b)))"

lemma shipped_all_ok: "list_all shipped_ok BUILTIN_RULES"
  by code_simp

lemma shipped_safe: "b \<in> set BUILTIN_RULES \<Longrightarrow> rule_safe env (br_definition b)"
  using shipped_all_ok
  by (auto simp: list_all_iff shipped_ok_def rule_safe_def valid_rule_def simp del: literal_ok.simps
      intro: literal_ok_safe)

lemma labels_only_fold:
  "list_all labels_only as \<Longrightarrow>
     er_queue_optimizations (fold (act i) as r) = er_queue_optimizations r
     \<and> er_notifications (fold (act i) as r) = er_notifications r
     \<and> er_delete_paths (fold (act i) as r) = er_delete_paths r
     \<and> er_vt_lookup_requested (fold (act i) as r) = er_vt_lookup_requested r
     \<and> er_search_upstream_requests (fold (act i) as r) = er_search_upstream_requests r"
proof (induction as arbitrary: r)
  case (Cons a as)
  then show ?case
    by (cases a) (auto simp: act_def split: option.splits if_splits)
qed simp

text \<open>C17. Every shipped rule evaluates without an exception on every file whose numbers fit the
  database columns, whatever the regular-expression engine does; its result carries no deletion, no
  notification, no transcoding request, no VirusTotal lookup and no upstream search, so a fresh
  installation can label files but never touch them.\<close>

theorem builtin_rules_only_label:
  assumes "b \<in> set BUILTIN_RULES" and "input_ok i"
  shows "\<exists>r. evaluate env (br_definition b) i = Inr r
     \<and> er_delete_paths r = [] \<and> er_notifications r = [] \<and> er_queue_optimizations r = []
     \<and> \<not> er_vt_lookup_requested r \<and> er_search_upstream_requests r = []"
proof -
  have "list_all labels_only (rd_actions (br_definition b))"
    using shipped_all_ok assms(1) by (simp add: list_all_iff shipped_ok_def)
  then show ?thesis
    using evaluate_safe [OF shipped_safe [OF assms(1)] assms(2), of env]
    by (auto simp: labels_only_fold empty_result_def)
qed

section \<open>What a start does to the two tables\<close>

lemma register_rules_run:
  assumes "unique_keys ru_name rules"
  shows "register_builtin_rules u rules =
     (rule_seeder.seeded u BUILTIN_RULES rules,
      foldl (\<lambda>m b. tally_rule (table_find ru_name (br_name b) rules) b m) no_counts BUILTIN_RULES)"
  using rule_seeder.seed_table [OF assms builtin_names_unique, of u no_counts]
    rule_seeder.seed_counts [OF assms builtin_names_unique, of u no_counts]
  unfolding register_builtin_rules_def by (simp add: prod_eq_iff)

lemma register_templates_run:
  assumes "unique_keys rt_name ts"
  shows "register_builtin_templates now ts =
     (template_seeder.seeded now BUILTIN_RULES ts,
      foldl (\<lambda>m b. tally_template (table_find rt_name (br_name b) ts) b m) no_counts BUILTIN_RULES)"
  using template_seeder.seed_table [OF assms builtin_names_unique, of now no_counts]
    template_seeder.seed_counts [OF assms builtin_names_unique, of now no_counts]
  unfolding register_builtin_templates_def by (simp add: prod_eq_iff)

lemma rules_seeded_again:
  "rule_seeder.seeded u BUILTIN_RULES (rule_seeder.seeded v BUILTIN_RULES rules) =
   rule_seeder.seeded v BUILTIN_RULES rules" (is "rule_seeder.seeded u _ ?t = _")
proof -
  have "filter (\<lambda>b. br_name b \<notin> ru_name ` set ?t) BUILTIN_RULES = []"
    by (auto simp: rule_seeder.seeded_names filter_empty_conv)
  then have "rule_seeder.seeded u BUILTIN_RULES ?t = rule_seeder.seeded v BUILTIN_RULES ?t"
    by (simp add: rule_seeder.seeded_def)
  then show ?thesis by (simp add: rule_seeder.seeded_seeded [OF builtin_names_unique])
qed

lemma rules_after_found:
  assumes "b \<in> set BUILTIN_RULES"
  shows "\<exists>r. table_find ru_name (br_name b) (rule_seeder.seeded u BUILTIN_RULES rules) = Some r
     \<and> (ru_is_builtin r \<longrightarrow> rule_current r b)
     \<and> (ru_is_builtin r \<longleftrightarrow>
          (\<forall>x. table_find ru_name (br_name b) rules = Some x \<longrightarrow> ru_is_builtin x))"
  using rule_seeder.seeded_find [OF builtin_names_unique assms]
  by (auto simp: rule_current_def builtin_row_def fix_rule_def split: option.splits)

lemma templates_after_found:
  assumes "b \<in> set BUILTIN_RULES"
  shows "\<exists>t. table_find rt_name (br_name b) (template_seeder.seeded now BUILTIN_RULES ts) = Some t
     \<and> template_current t b"
  using template_seeder.seeded_find [OF builtin_names_unique assms]
  by (auto simp: template_current_def template_row_def fix_template_def split: option.splits)

lemma templates_all_current:
  "(\<And>b. b \<in> set bs \<Longrightarrow> \<exists>t. f b = Some t \<and> template_current t b) \<Longrightarrow>
     foldl (\<lambda>m b. tally_template (f b) b m) n bs = n\<lparr>unchanged := unchanged n + length bs\<rparr>"
proof (induction bs arbitrary: n)
  case (Cons b bs)
  then obtain t where "f b = Some t" "template_current t b" by fastforce
  with Cons show ?case by (simp add: tally_template_def)
qed simp

lemma settle_current_templates:
  assumes "\<And>b t. b \<in> set BUILTIN_RULES \<Longrightarrow> t \<in> set ts \<Longrightarrow> rt_name t = br_name b \<Longrightarrow>
      template_current t b"
  shows "map (template_seeder.settle now BUILTIN_RULES) ts = ts"
proof (rule map_idI)
  fix t assume t: "t \<in> set ts"
  show "template_seeder.settle now BUILTIN_RULES t = t"
  proof (cases "table_find br_name (rt_name t) BUILTIN_RULES")
    case (Some b)
    then have "b \<in> set BUILTIN_RULES" "rt_name t = br_name b" by (auto dest: table_find_SomeD)
    with Some assms [OF _ t] show ?thesis by (simp add: template_seeder.settle_def fix_template_def)
  qed (simp add: template_seeder.settle_def)
qed

lemma templates_seeded_again:
  assumes "unique_keys rt_name ts"
  shows "template_seeder.seeded later BUILTIN_RULES (template_seeder.seeded now BUILTIN_RULES ts) =
   template_seeder.seeded now BUILTIN_RULES ts" (is "template_seeder.seeded _ _ ?t = _")
proof -
  have u: "unique_keys rt_name ?t"
    using template_seeder.seed_table [OF assms builtin_names_unique] by simp
  have "filter (\<lambda>b. br_name b \<notin> rt_name ` set ?t) BUILTIN_RULES = []"
    by (auto simp: template_seeder.seeded_names filter_empty_conv)
  moreover have "map (template_seeder.settle later BUILTIN_RULES) ?t = ?t"
    using templates_after_found [of _ now ts] table_find_Some_iff [OF u]
    by (intro settle_current_templates) (metis option.inject)
  ultimately show ?thesis by (subst template_seeder.seeded_def) simp
qed

lemma second_run_tally:
  fixes f g :: "builtin_rule \<Rightarrow> rule option"
  assumes "\<And>b. b \<in> set bs \<Longrightarrow> \<exists>r. g b = Some r \<and> (ru_is_builtin r \<longrightarrow> rule_current r b)
      \<and> (ru_is_builtin r \<longleftrightarrow> (\<forall>x. f b = Some x \<longrightarrow> ru_is_builtin x))"
  shows "inserted (foldl (\<lambda>m b. tally_rule (g b) b m) no_counts bs) = 0"
    and "refreshed (foldl (\<lambda>m b. tally_rule (g b) b m) no_counts bs) = 0"
    and "conflicts (foldl (\<lambda>m b. tally_rule (g b) b m) no_counts bs) =
         conflicts (foldl (\<lambda>m b. tally_rule (f b) b m) no_counts bs)"
proof -
  show "inserted (foldl (\<lambda>m b. tally_rule (g b) b m) no_counts bs) = 0"
    using assms by (auto simp: tally_rule_run no_counts_def filter_empty_conv)
  show "refreshed (foldl (\<lambda>m b. tally_rule (g b) b m) no_counts bs) = 0"
    using assms by (auto simp: tally_rule_run no_counts_def filter_empty_conv dest!: assms)
  have "filter (\<lambda>b. \<exists>r. g b = Some r \<and> \<not> ru_is_builtin r) bs =
      filter (\<lambda>b. \<exists>r. f b = Some r \<and> \<not> ru_is_builtin r) bs"
    by (intro filter_cong refl) (metis assms option.inject)
  then show "conflicts (foldl (\<lambda>m b. tally_rule (g b) b m) no_counts bs) =
         conflicts (foldl (\<lambda>m b. tally_rule (f b) b m) no_counts bs)"
    by (simp add: tally_rule_run)
qed

text \<open>The rule seeder, on a table with distinct names, refreshes the description and the
  document of the builtin rows of a shipped name in place, leaves every other row and every other
  column alone (the operator's switch and priority, evaluation history, custom rules of a shipped
  name), and appends the missing shipped rules in order; the counters count these cases.  A second
  start changes nothing and reports no insertion and no refresh.\<close>

theorem register_builtin_rules_merge:
  assumes "unique_keys ru_name rules"
  shows "\<exists>rules' n n'.
     register_builtin_rules uuid4 rules = (rules', n)
     \<and> rules' =
         map (\<lambda>r. case table_find br_name (ru_name r) BUILTIN_RULES of
                    None \<Rightarrow> r
                  | Some b \<Rightarrow>
                      if ru_is_builtin r
                      then r\<lparr>ru_description := Some (br_description b),
                             ru_definition := Some (br_definition b)\<rparr>
                      else r) rules
         @ map (\<lambda>b. builtin_row (uuid4 (br_name b)) b)
             (filter (\<lambda>b. br_name b \<notin> ru_name ` set rules) BUILTIN_RULES)
     \<and> unique_keys ru_name rules'
     \<and> inserted n = length (filter (\<lambda>b. br_name b \<notin> ru_name ` set rules) BUILTIN_RULES)
     \<and> register_builtin_rules uuid4' rules' = (rules', n')
     \<and> inserted n' = 0 \<and> refreshed n' = 0 \<and> conflicts n' = conflicts n"
proof -
  let ?t = "rule_seeder.seeded uuid4 BUILTIN_RULES rules"
  have u: "unique_keys ru_name ?t"
    using rule_seeder.seed_table [OF assms builtin_names_unique] by simp
  have eq: "?t = map (\<lambda>r. case table_find br_name (ru_name r) BUILTIN_RULES of
                    None \<Rightarrow> r
                  | Some b \<Rightarrow>
                      if ru_is_builtin r
                      then r\<lparr>ru_description := Some (br_description b),
                             ru_definition := Some (br_definition b)\<rparr>
                      else r) rules
         @ map (\<lambda>b. builtin_row (uuid4 (br_name b)) b)
             (filter (\<lambda>b. br_name b \<notin> ru_name ` set rules) BUILTIN_RULES)"
    by (simp add: rule_seeder.seeded_def rule_seeder.settle_def [abs_def] fix_rule_def
        split: option.split)
  have n: "inserted (snd (register_builtin_rules uuid4 rules)) =
      length (filter (\<lambda>b. br_name b \<notin> ru_name ` set rules) BUILTIN_RULES)"
    by (simp add: register_rules_run [OF assms] tally_rule_run no_counts_def table_find_None_iff)
  note second = second_run_tally [of BUILTIN_RULES "\<lambda>b. table_find ru_name (br_name b) ?t"
      "\<lambda>b. table_find ru_name (br_name b) rules", OF rules_after_found]
  show ?thesis
    using eq n register_rules_run [OF assms, of uuid4] register_rules_run [OF u, of uuid4'] u
      rules_seeded_again [of uuid4' uuid4 rules] second
    by (intro exI conjI) (assumption | simp)+
qed

theorem register_builtin_rules_merge_witness:
  "\<exists>rules' n n'.
     register_builtin_rules (\<lambda>s. s) [] = (rules', n)
     \<and> rules' = map (\<lambda>b. builtin_row (br_name b) b) BUILTIN_RULES
     \<and> unique_keys ru_name rules'
     \<and> inserted n = 18
     \<and> register_builtin_rules (\<lambda>s. ''-'') rules' = (rules', n')
     \<and> inserted n' = 0 \<and> refreshed n' = 0 \<and> conflicts n' = conflicts n"
proof -
  have "unique_keys ru_name []" by (simp add: unique_keys_def)
  moreover have "length BUILTIN_RULES = 18" by (simp add: BUILTIN_RULES_def)
  ultimately show ?thesis
    using register_builtin_rules_merge [of "[]" "\<lambda>s. s" "\<lambda>s. ''-''"] by simp
qed

theorem builtin_rules_only_label_witness:
  "\<exists>r. evaluate \<lparr>re_search = \<lambda>p s. None, float_str = \<lambda>s. None\<rparr>
       (br_definition builtin_orphaned_files) wide_input = Inr r
     \<and> er_delete_paths r = [] \<and> er_notifications r = [] \<and> er_queue_optimizations r = []
     \<and> \<not> er_vt_lookup_requested r \<and> er_search_upstream_requests r = []"
proof -
  have "builtin_orphaned_files \<in> set BUILTIN_RULES" by (simp add: BUILTIN_RULES_def)
  moreover have "input_ok wide_input" by (simp add: input_ok_def int64_ok_def wide_input_def)
  ultimately show ?thesis by (rule builtin_rules_only_label)
qed

text \<open>The template seeder restores the shipped set: afterwards the template of every shipped
  name has the shipped description, document and priority, whatever was stored before, and its stamp
  is the time of this start unless it was already current; templates of other names are untouched
  and the order of existing rows is kept.  A second start, at any time, changes nothing.\<close>

theorem register_builtin_templates_restore:
  assumes "unique_keys rt_name ts"
  shows "\<exists>ts' n n'.
     register_builtin_templates now ts = (ts', n)
     \<and> (\<forall>b\<in>set BUILTIN_RULES.
          table_find rt_name (br_name b) ts' =
            Some (case table_find rt_name (br_name b) ts of
                    None \<Rightarrow> template_row now b
                  | Some t \<Rightarrow> if template_current t b then t else template_row now b))
     \<and> filter (\<lambda>t. rt_name t \<notin> br_name ` set BUILTIN_RULES) ts' =
         filter (\<lambda>t. rt_name t \<notin> br_name ` set BUILTIN_RULES) ts
     \<and> map rt_name (take (length ts) ts') = map rt_name ts
     \<and> register_builtin_templates later ts' = (ts', n')
     \<and> inserted n' = 0 \<and> refreshed n' = 0 \<and> unchanged n' = length BUILTIN_RULES"
proof -
  let ?t = "template_seeder.seeded now BUILTIN_RULES ts"
  have u: "unique_keys rt_name ?t"
    using template_seeder.seed_table [OF assms builtin_names_unique] by simp
  have found: "table_find rt_name (br_name b) ?t =
            Some (case table_find rt_name (br_name b) ts of
                    None \<Rightarrow> template_row now b
                  | Some t \<Rightarrow> if template_current t b then t else template_row now b)"
    if "b \<in> set BUILTIN_RULES" for b
    using template_seeder.seeded_find [OF builtin_names_unique that, of now ts]
    by (auto simp: fix_template_def template_row_def dest: table_find_SomeD split: option.splits)
  have other: "filter (\<lambda>t. rt_name t \<notin> br_name ` set BUILTIN_RULES) ?t =
      filter (\<lambda>t. rt_name t \<notin> br_name ` set BUILTIN_RULES) ts"
    by (rule template_seeder.seeded_other)
  have order: "map rt_name (take (length ts) ?t) = map rt_name ts"
    by (simp add: template_seeder.seeded_def)
  have "foldl (\<lambda>m b. tally_template (table_find rt_name (br_name b) ?t) b m) no_counts BUILTIN_RULES =
      \<lparr>inserted = 0, refreshed = 0, unchanged = length BUILTIN_RULES, conflicts = 0\<rparr>"
    using templates_all_current [of BUILTIN_RULES "\<lambda>b. table_find rt_name (br_name b) ?t" no_counts,
        OF templates_after_found]
    by (simp add: no_counts_def)
  then show ?thesis
    using register_templates_run [OF assms, of now] register_templates_run [OF u, of later]
      templates_seeded_again [OF assms, of later now] found other order
    by simp
qed

theorem register_builtin_templates_restore_witness:
  "\<exists>ts' n n'.
     register_builtin_templates 5 [(template_row 1 builtin_probe_failed)\<lparr>rt_priority := 999\<rparr>] = (ts', n)
     \<and> table_find rt_name ''Probe failed'' ts' = Some (template_row 5 builtin_probe_failed)
     \<and> register_builtin_templates 9 ts' = (ts', n') \<and> unchanged n' = 18"
proof -
  let ?ts = "[(template_row 1 builtin_probe_failed)\<lparr>rt_priority := 999\<rparr>]"
  have "unique_keys rt_name ?ts" by (simp add: unique_keys_def)
  moreover have "length BUILTIN_RULES = 18" by (simp add: BUILTIN_RULES_def)
  moreover have "builtin_probe_failed \<in> set BUILTIN_RULES" by (simp add: BUILTIN_RULES_def)
  moreover have "br_name builtin_probe_failed = ''Probe failed''"
    "br_priority builtin_probe_failed \<noteq> 999" by (simp_all add: builtin_probe_failed_def)
  ultimately show ?thesis
    using register_builtin_templates_restore [of ?ts 5 9]
    by (fastforce simp: template_current_def template_row_def)
qed

end
