(* ===== verification/PathMapping.thy ===== *)
theory PathMapping
  imports Prelude
begin

text \<open>
  Path remapping between an integration's view of the file system and Auditarr's
  (\<open>app/integrations/path_mapping.py\<close>).  Both directions are the same algorithm, rewriting the
  first directory prefix of a list that covers the path; the locale \<open>prefix_rewriter\<close> states it
  once and each direction is an interpretation.
\<close>

section \<open>Mappings\<close>

record path_mapping =
  src_prefix :: string
  dst_prefix :: string

text \<open>\<open>entry.get(k)\<close> on a dict.\<close>

definition dict_get :: "(string \<times> pyval) list \<Rightarrow> string \<Rightarrow> pyval" where
  "dict_get d k = (case map_of d k of Some v \<Rightarrow> v | None \<Rightarrow> PyNone)"

definition parse_entry :: "pyval \<Rightarrow> path_mapping option" where
  "parse_entry entry =
     (case entry of
        PyDict d \<Rightarrow>
          (case (py_or (dict_get d ''from'') (dict_get d ''src_prefix''),
                 py_or (dict_get d ''to'') (dict_get d ''dst_prefix'')) of
             (PyStr src, PyStr dst) \<Rightarrow>
               (let s = py_rstrip (CHR ''/'') src; t = py_rstrip (CHR ''/'') dst in
                if s = [] \<or> t = [] then None else Some \<lparr>src_prefix = s, dst_prefix = t\<rparr>)
           | _ \<Rightarrow> None)
      | _ \<Rightarrow> None)"

definition parse_mappings :: "pyval \<Rightarrow> path_mapping list" where
  "parse_mappings raw =
     (case raw of
        PyList entries \<Rightarrow>
          sort_key (\<lambda>m. - int (py_len (src_prefix m))) (List.map_filter parse_entry entries)
      | _ \<Rightarrow> [])"

section \<open>Rewriting\<close>

text \<open>\<open>path == p or path.startswith(p + "/")\<close>.\<close>

definition covers :: "string \<Rightarrow> string \<Rightarrow> bool" where
  "covers p path = (path = p \<or> prefix (p @ ''/'') path)"

fun remap_path :: "string \<Rightarrow> path_mapping list \<Rightarrow> string" where
  "remap_path path [] = path"
| "remap_path path (m # ms) =
     (if covers (src_prefix m) path then dst_prefix m @ drop (length (src_prefix m)) path
      else remap_path path ms)"

fun inverse_loop :: "string \<Rightarrow> path_mapping list \<Rightarrow> string" where
  "inverse_loop path [] = path"
| "inverse_loop path (m # ms) =
     (if covers (dst_prefix m) path then src_prefix m @ drop (length (dst_prefix m)) path
      else inverse_loop path ms)"

definition remap_path_inverse :: "string \<Rightarrow> path_mapping list \<Rightarrow> string" where
  "remap_path_inverse path mappings =
     inverse_loop path (sort_key (\<lambda>m. - int (py_len (dst_prefix m))) mappings)"

definition remap_path_chain :: "string \<Rightarrow> path_mapping list \<Rightarrow> path_mapping list \<Rightarrow> string" where
  "remap_path_chain path integration_mappings global_mappings =
     remap_path (remap_path path integration_mappings) global_mappings"

section \<open>Drift\<close>

record drift_report =
  dr_seen :: nat
  dr_resolved :: nat
  dr_unresolved_sample :: "string list"
  dr_has_mappings_configured :: bool

text \<open>\<open>resolved / seen < 0.5\<close>: below \<open>2 ^ 53\<close> samples the rounded quotient is below one half
  exactly when the quotient is.\<close>

definition drift_suspected :: "drift_report \<Rightarrow> bool" where
  "drift_suspected r = (if dr_seen r < 5 then False else 2 * dr_resolved r < dr_seen r)"

section \<open>Directory prefixes\<close>

lemma covers_append: "covers p path \<longleftrightarrow> (\<exists>s. path = p @ s \<and> (s = [] \<or> hd s = CHR ''/''))"
proof
  assume "covers p path"
  then show "\<exists>s. path = p @ s \<and> (s = [] \<or> hd s = CHR ''/'')"
    by (auto simp: covers_def prefix_def)
next
  assume "\<exists>s. path = p @ s \<and> (s = [] \<or> hd s = CHR ''/'')"
  then obtain s where "path = p @ s" "s = [] \<or> hd s = CHR ''/''" by blast
  then show "covers p path" by (cases s) (auto simp: covers_def prefix_def)
qed

lemma covers_linear: "covers p path \<Longrightarrow> covers q path \<Longrightarrow> length p \<le> length q \<Longrightarrow> covers p q"
proof -
  assume "covers p path" "covers q path" and le: "length p \<le> length q"
  then obtain s t where s: "path = p @ s" "s = [] \<or> hd s = CHR ''/''" and t: "path = q @ t"
    unfolding covers_append by blast
  have "q = take (length q) path" using t by simp
  also have "\<dots> = p @ take (length q - length p) s" using s(1) le by simp
  finally have q: "q = p @ take (length q - length p) s" .
  have "take n s = [] \<or> hd (take n s) = CHR ''/''" for n
    using s(2) by (cases s; cases n) simp_all
  with q show "covers p q" unfolding covers_append by blast
qed

lemma covers_total: "covers p path \<Longrightarrow> covers q path \<Longrightarrow> covers p q \<or> covers q p"
  by (metis covers_linear linear)

lemma py_len_append [simp]: "py_len (s @ t) = py_len s + py_len t"
  by (simp add: py_len_def)

lemma py_len_slash [simp]: "py_len (CHR ''/'' # s) = Suc (py_len s)"
  by (simp add: py_len_def)

lemma covers_py_len: "covers p q \<Longrightarrow> p \<noteq> q \<Longrightarrow> py_len p < py_len q"
  by (auto simp: covers_def prefix_def)

text \<open>Among the prefixes that cover a path, code points and bytes order alike.\<close>

lemma covers_longest:
  assumes "covers p path" "covers q path" "py_len q \<le> py_len p"
  shows "length q \<le> length p"
  using assms covers_linear [of p path q] covers_py_len [of p q] by (metis linear not_less order_refl)

locale prefix_rewriter =
  fixes src dst :: "'m \<Rightarrow> string"
    and rewrite :: "string \<Rightarrow> 'm list \<Rightarrow> string"
  assumes rewrite_Nil: "rewrite path [] = path"
    and rewrite_Cons: "rewrite path (m # ms) =
      (if covers (src m) path then dst m @ drop (length (src m)) path else rewrite path ms)"
begin

lemma rewrite_miss: "(\<And>m. m \<in> set ms \<Longrightarrow> \<not> covers (src m) path) \<Longrightarrow> rewrite path ms = path"
  by (induction ms) (auto simp: rewrite_Nil rewrite_Cons)

lemma rewrite_hit:
  assumes "m \<in> set ms" "covers (src m) path"
    "sorted_wrt (\<lambda>a b. py_len (src b) \<le> py_len (src a)) ms"
  shows "\<exists>m'\<in>set ms. covers (src m') path \<and> rewrite path ms = dst m' @ drop (length (src m')) path
    \<and> (\<forall>n\<in>set ms. covers (src n) path \<longrightarrow> length (src n) \<le> length (src m'))"
  using assms
proof (induction ms)
  case (Cons a ms)
  show ?case
  proof (cases "covers (src a) path")
    case True
    then have "\<forall>n\<in>set (a # ms). covers (src n) path \<longrightarrow> length (src n) \<le> length (src a)"
      using Cons.prems(3) covers_longest by auto
    with True show ?thesis by (auto simp: rewrite_Cons)
  next
    case False
    with Cons have "m \<in> set ms" by auto
    with Cons.IH [OF this] Cons.prems False show ?thesis by (auto simp: rewrite_Cons)
  qed
qed simp

lemma rewrite_unique:
  assumes "m \<in> set ms" "covers (src m) path"
    "\<And>n. n \<in> set ms \<Longrightarrow> covers (src n) path \<Longrightarrow> n = m"
  shows "rewrite path ms = dst m @ drop (length (src m)) path"
  using assms
proof (induction ms)
  case (Cons a ms)
  show ?case
  proof (cases "covers (src a) path")
    case True
    with Cons.prems(3) [of a] show ?thesis by (simp add: rewrite_Cons)
  next
    case False
    with Cons.prems(1,2) have "m \<in> set ms" by auto
    from Cons.IH [OF this Cons.prems(2)] Cons.prems(3) False show ?thesis by (simp add: rewrite_Cons)
  qed
qed simp

end

interpretation forward: prefix_rewriter src_prefix dst_prefix remap_path
  by unfold_locales simp_all

interpretation backward: prefix_rewriter dst_prefix src_prefix inverse_loop
  by unfold_locales simp_all

lemma sorted_sort_key_neg:
  "sorted_wrt (\<lambda>a b. py_len (f b) \<le> py_len (f a)) (sort_key (\<lambda>m. - int (py_len (f m))) ms)"
proof -
  have "sorted (map (\<lambda>m. - int (py_len (f m))) (sort_key (\<lambda>m. - int (py_len (f m))) ms))"
    by (rule sorted_sort_key)
  then show ?thesis by (simp add: sorted_wrt_map)
qed

lemma parse_mappings_sorted:
  "sorted_wrt (\<lambda>a b. py_len (src_prefix b) \<le> py_len (src_prefix a)) (parse_mappings raw)"
  by (cases raw) (simp_all add: parse_mappings_def sorted_sort_key_neg)

definition clean_mapping :: "path_mapping \<Rightarrow> bool" where
  "clean_mapping m = (src_prefix m \<noteq> [] \<and> last (src_prefix m) \<noteq> CHR ''/''
     \<and> dst_prefix m \<noteq> [] \<and> last (dst_prefix m) \<noteq> CHR ''/'')"

lemma parse_entry_clean: "parse_entry e = Some m \<Longrightarrow> clean_mapping m"
  by (auto simp: parse_entry_def clean_mapping_def Let_def py_rstrip_last
      split: pyval.splits if_splits)

lemma parse_mappings_clean: "m \<in> set (parse_mappings raw) \<Longrightarrow> clean_mapping m"
proof -
  assume m: "m \<in> set (parse_mappings raw)"
  have "x \<in> set (List.map_filter parse_entry es) \<Longrightarrow> clean_mapping x" for x es
    by (induction es)
       (auto simp: List.map_filter_simps parse_entry_clean split: option.splits)
  with m show ?thesis by (cases raw) (auto simp: parse_mappings_def)
qed

section \<open>Properties\<close>

text \<open>With mappings parsed from an integration's configuration, a path no mapping covers is
  unchanged; any other path has the longest covering prefix replaced, at a directory boundary, and
  the rest kept.\<close>

theorem remap_longest_prefix:
  "if \<exists>m\<in>set (parse_mappings raw). covers (src_prefix m) path
   then \<exists>m\<in>set (parse_mappings raw). \<exists>rest.
          path = src_prefix m @ rest \<and> (rest = [] \<or> hd rest = CHR ''/'')
          \<and> remap_path path (parse_mappings raw) = dst_prefix m @ rest
          \<and> {n. n \<in> set (parse_mappings raw) \<and> covers (src_prefix n) path
                \<and> length (src_prefix m) < length (src_prefix n)} = {}
   else remap_path path (parse_mappings raw) = path"
proof (cases "\<exists>m\<in>set (parse_mappings raw). covers (src_prefix m) path")
  case True
  then obtain m where m: "m \<in> set (parse_mappings raw)" "covers (src_prefix m) path"
    "remap_path path (parse_mappings raw) = dst_prefix m @ drop (length (src_prefix m)) path"
    "\<forall>n\<in>set (parse_mappings raw). covers (src_prefix n) path \<longrightarrow> length (src_prefix n) \<le> length (src_prefix m)"
    using forward.rewrite_hit [OF _ _ parse_mappings_sorted] by blast
  then obtain rest where "path = src_prefix m @ rest" "rest = [] \<or> hd rest = CHR ''/''"
    by (auto simp: covers_append)
  moreover have "{n. n \<in> set (parse_mappings raw) \<and> covers (src_prefix n) path
                \<and> length (src_prefix m) < length (src_prefix n)} = {}"
    using m(4) by force
  ultimately have "\<exists>m\<in>set (parse_mappings raw). \<exists>rest.
          path = src_prefix m @ rest \<and> (rest = [] \<or> hd rest = CHR ''/'')
          \<and> remap_path path (parse_mappings raw) = dst_prefix m @ rest
          \<and> {n. n \<in> set (parse_mappings raw) \<and> covers (src_prefix n) path
                \<and> length (src_prefix m) < length (src_prefix n)} = {}"
    using m by (intro bexI [of _ m] exI [of _ rest]) auto
  with True show ?thesis by simp
next
  case False
  then show ?thesis using forward.rewrite_miss by auto
qed

text \<open>Remapping can be undone: when no target prefix lies inside another one, a covered path
  sent to Auditarr's view and back is the path one started from.\<close>

theorem remap_roundtrip:
  assumes "\<forall>m\<in>set ms. \<forall>n\<in>set ms. covers (dst_prefix m) (dst_prefix n) \<longrightarrow> m = n"
    "\<exists>m\<in>set ms. covers (src_prefix m) path"
  shows "remap_path_inverse (remap_path path ms) ms = path"
proof -
  have "\<exists>m\<in>set ms. covers (src_prefix m) path \<and>
      remap_path path ms = dst_prefix m @ drop (length (src_prefix m)) path"
    using assms(2) by (induction ms) auto
  then obtain m where m: "m \<in> set ms" "covers (src_prefix m) path"
    "remap_path path ms = dst_prefix m @ drop (length (src_prefix m)) path" by blast
  then obtain s where s: "path = src_prefix m @ s" "s = [] \<or> hd s = CHR ''/''"
    by (auto simp: covers_append)
  then have c: "covers (dst_prefix m) (dst_prefix m @ s)" by (auto simp: covers_append)
  have "n = m" if "n \<in> set ms" "covers (dst_prefix n) (dst_prefix m @ s)" for n
    using covers_total [OF that(2) c] assms(1) that(1) m(1) by auto
  then have "inverse_loop (dst_prefix m @ s) (sort_key (\<lambda>m. - int (py_len (dst_prefix m))) ms) =
      src_prefix m @ s"
    using backward.rewrite_unique [of m "sort_key (\<lambda>m. - int (py_len (dst_prefix m))) ms"
        "dst_prefix m @ s"] m(1) c by simp
  then show ?thesis using m(3) s(1) by (simp add: remap_path_inverse_def)
qed

theorem remap_roundtrip_witness:
  "remap_path_inverse (remap_path ''/data/tv/a.mkv''
      [\<lparr>src_prefix = ''/data/tv'', dst_prefix = ''/mnt/TV''\<rparr>,
       \<lparr>src_prefix = ''/data'', dst_prefix = ''/mnt/All''\<rparr>])
      [\<lparr>src_prefix = ''/data/tv'', dst_prefix = ''/mnt/TV''\<rparr>,
       \<lparr>src_prefix = ''/data'', dst_prefix = ''/mnt/All''\<rparr>] = ''/data/tv/a.mkv''"
  by (rule remap_roundtrip) (simp_all add: covers_def)

end
