(* ===== verification/RateLimit.thy ===== *)
theory RateLimit
  imports Prelude
begin

text \<open>
  The sliding-window rate limiter of the authentication endpoints
  (\<open>app/security/rate_limit.py\<close>).  A bucket is the list of the accepted attempts of one
  (client address, route) pair, oldest first; instants are the readings of the monotonic clock as
  exact rationals.
\<close>

section \<open>The limiter\<close>

type_synonym bucket_key = "string \<times> string"
type_synonym buckets = "bucket_key \<Rightarrow> rat list"

record limiter_settings =
  auth_rate_limit_attempts :: int
  auth_rate_limit_window_seconds :: rat

datatype verdict = Allowed | RateLimited int

definition client_ip :: "string option \<Rightarrow> string" where
  "client_ip host = (case host of None \<Rightarrow> ''unknown'' | Some h \<Rightarrow> if h = [] then ''unknown'' else h)"

definition evict :: "rat \<Rightarrow> rat list \<Rightarrow> rat list" where
  "evict cutoff bucket = dropWhile (\<lambda>t. t < cutoff) bucket"

definition check :: "limiter_settings \<Rightarrow> bucket_key \<Rightarrow> rat \<Rightarrow> buckets \<Rightarrow> verdict \<times> buckets" where
  "check cfg key now b =
     (if auth_rate_limit_attempts cfg \<le> 0 then (Allowed, b)
      else
        (let window = auth_rate_limit_window_seconds cfg;
             bucket = evict (now - window) (b key) in
         if int (length bucket) \<ge> auth_rate_limit_attempts cfg
         then (RateLimited (max 1 \<lfloor>hd bucket + window - now\<rfloor>), b(key := bucket))
         else (Allowed, b(key := bucket @ [now]))))"

definition reset :: buckets where
  "reset = (\<lambda>_. [])"

section \<open>A run of attempts\<close>

text \<open>The attempts of a trace that were let through, oldest first.\<close>

fun run_checks ::
    "limiter_settings \<Rightarrow> (bucket_key \<times> rat) list \<Rightarrow> buckets \<Rightarrow> (bucket_key \<times> rat) list \<times> buckets" where
  "run_checks cfg [] b = ([], b)"
| "run_checks cfg ((key, now) # es) b =
     (let (v, b1) = check cfg key now b; (acc, b2) = run_checks cfg es b1 in
      (if v = Allowed then (key, now) # acc else acc, b2))"

definition of_key :: "bucket_key \<Rightarrow> (bucket_key \<times> rat) list \<Rightarrow> rat list" where
  "of_key key es = map snd (filter (\<lambda>e. fst e = key) es)"

lemma of_key_simps [simp]:
  "of_key key [] = []" "of_key key (es @ fs) = of_key key es @ of_key key fs"
  "of_key key ((k, t) # es) = (if k = key then t # of_key key es else of_key key es)"
  by (simp_all add: of_key_def)

text \<open>What the buckets know of the history: a bucket is the history less a part that is out of
  every window from now on.\<close>

definition remembers :: "limiter_settings \<Rightarrow> rat \<Rightarrow> (bucket_key \<times> rat) list \<Rightarrow> buckets \<Rightarrow> bool" where
  "remembers cfg now hist b =
     (\<forall>key. \<exists>old. of_key key hist = old @ b key \<and> sorted (of_key key hist)
        \<and> (\<forall>t\<in>set (of_key key hist). t \<le> now)
        \<and> (\<forall>t\<in>set old. t < now - auth_rate_limit_window_seconds cfg))"

lemma evict_sorted: "sorted xs \<Longrightarrow> evict c xs = filter (\<lambda>t. c \<le> t) xs"
  by (induction xs) (auto simp: evict_def intro!: filter_True [symmetric])

lemma remembers_recent:
  assumes "remembers cfg t0 hist b" "t0 \<le> now"
  shows "evict (now - auth_rate_limit_window_seconds cfg) (b key) =
         filter (\<lambda>t. now - auth_rate_limit_window_seconds cfg \<le> t) (of_key key hist)"
proof -
  obtain old where o: "of_key key hist = old @ b key" "sorted (of_key key hist)"
    "\<forall>t\<in>set old. t < t0 - auth_rate_limit_window_seconds cfg"
    using assms(1) unfolding remembers_def by blast
  have "filter (\<lambda>t. now - auth_rate_limit_window_seconds cfg \<le> t) old = []"
    using o(3) assms(2) by (fastforce simp: filter_empty_conv)
  then show ?thesis using o by (simp add: evict_sorted sorted_append)
qed

definition recent :: "limiter_settings \<Rightarrow> rat \<Rightarrow> bucket_key \<Rightarrow> (bucket_key \<times> rat) list \<Rightarrow> nat" where
  "recent cfg now key hist =
     length (filter (\<lambda>t. now - auth_rate_limit_window_seconds cfg \<le> t) (of_key key hist))"

lemma check_verdict:
  assumes "remembers cfg t0 hist b" "t0 \<le> now" "0 < auth_rate_limit_attempts cfg"
  shows "fst (check cfg key now b) = Allowed \<longleftrightarrow>
         int (recent cfg now key hist) < auth_rate_limit_attempts cfg"
  using assms remembers_recent [OF assms(1,2), of key]
  by (simp add: check_def Let_def recent_def not_less)

lemma check_remembers:
  assumes "remembers cfg t0 hist b" "t0 \<le> now" "0 < auth_rate_limit_attempts cfg"
  shows "remembers cfg now (if fst (check cfg key now b) = Allowed then hist @ [(key, now)] else hist)
           (snd (check cfg key now b))"
  unfolding remembers_def
proof
  fix k
  let ?w = "auth_rate_limit_window_seconds cfg"
  let ?c = "check cfg key now b"
  obtain old where o: "of_key k hist = old @ b k" "sorted (of_key k hist)"
    "\<forall>t\<in>set (of_key k hist). t \<le> t0" "\<forall>t\<in>set old. t < t0 - ?w"
    using assms(1) unfolding remembers_def by blast
  have le: "\<forall>t\<in>set (of_key k hist). t \<le> now" "\<forall>t\<in>set old. t < now - ?w"
    using o(3,4) assms(2) by fastforce+
  let ?ev = "takeWhile (\<lambda>t. t < now - ?w) (b k)"
  have split: "b k = ?ev @ evict (now - ?w) (b k)" by (simp add: evict_def)
  have ev: "\<forall>t\<in>set ?ev. t < now - ?w" by (auto dest: set_takeWhileD)
  have bk: "snd ?c k = (if k = key then evict (now - ?w) (b k) @ (if fst ?c = Allowed then [now] else [])
                        else b k)"
    using assms(3) by (simp add: check_def Let_def)
  let ?h = "if fst ?c = Allowed then hist @ [(key, now)] else hist"
  have h: "of_key k ?h = of_key k hist @ (if fst ?c = Allowed \<and> k = key then [now] else [])"
    by auto
  show "\<exists>old. of_key k ?h = old @ snd ?c k \<and> sorted (of_key k ?h) \<and> (\<forall>t\<in>set (of_key k ?h). t \<le> now)
      \<and> (\<forall>t\<in>set old. t < now - ?w)"
  proof (intro exI conjI)
    show "of_key k ?h = (if k = key then old @ ?ev else old) @ snd ?c k"
      unfolding h bk using o(1) split by (cases "k = key") auto
    show "sorted (of_key k ?h)" unfolding h using o(2) le(1) by (auto simp: sorted_append)
    show "\<forall>t\<in>set (of_key k ?h). t \<le> now" unfolding h using le(1) by auto
    show "\<forall>t\<in>set (if k = key then old @ ?ev else old). t < now - ?w" using le(2) ev by auto
  qed
qed

lemma run_checks_window:
  assumes "remembers cfg t0 hist b" "0 < auth_rate_limit_attempts cfg"
    "sorted (map snd es)" "\<forall>e\<in>set es. t0 \<le> snd e"
    "\<And>T. int (length (filter (\<lambda>t. T \<le> t \<and> t \<le> T + auth_rate_limit_window_seconds cfg)
        (of_key key hist))) \<le> auth_rate_limit_attempts cfg"
  shows "int (length (filter (\<lambda>t. T \<le> t \<and> t \<le> T + auth_rate_limit_window_seconds cfg)
      (of_key key (hist @ fst (run_checks cfg es b))))) \<le> auth_rate_limit_attempts cfg"
  using assms(1,3,4,5)
proof (induction es arbitrary: t0 hist b)
  case Nil
  then show ?case by simp
next
  case (Cons e es)
  obtain k now where e: "e = (k, now)" by fastforce
  let ?w = "auth_rate_limit_window_seconds cfg" and ?n = "auth_rate_limit_attempts cfg"
  let ?c = "check cfg k now b"
  let ?h = "if fst ?c = Allowed then hist @ [(k, now)] else hist"
  have t0: "t0 \<le> now" using Cons.prems(3) e by simp
  have rem: "remembers cfg now ?h (snd ?c)"
    using check_remembers [OF Cons.prems(1) t0 assms(2)] .
  have bound: "int (length (filter (\<lambda>t. T \<le> t \<and> t \<le> T + ?w) (of_key key ?h))) \<le> ?n" for T
  proof (cases "fst ?c = Allowed \<and> k = key \<and> T \<le> now \<and> now \<le> T + ?w")
    case True
    then have "int (recent cfg now key hist) < ?n"
      using check_verdict [OF Cons.prems(1) t0 assms(2), of key] by auto
    moreover have "filter (\<lambda>t. T \<le> t \<and> t \<le> T + ?w) (of_key key hist) =
        filter (\<lambda>t. T \<le> t \<and> t \<le> T + ?w) (filter (\<lambda>t. now - ?w \<le> t) (of_key key hist))"
      using True by (auto intro!: filter_cong)
    then have "length (filter (\<lambda>t. T \<le> t \<and> t \<le> T + ?w) (of_key key hist)) \<le> recent cfg now key hist"
      unfolding recent_def by (metis length_filter_le)
    ultimately show ?thesis using True by simp
  next
    case False
    then show ?thesis using Cons.prems(4) [of T] by auto
  qed
  have "hist @ fst (run_checks cfg (e # es) b) = ?h @ fst (run_checks cfg es (snd ?c))"
    by (simp add: e Let_def split: prod.splits)
  then show ?case
    using Cons.IH [OF rem _ _ bound] Cons.prems(2) by (simp add: e)
qed

section \<open>Properties\<close>

text \<open>C20. Whatever the sequence of attempts, no client gets more than the configured number of
  attempts on a route through in any window of the configured length.\<close>

theorem rate_limit_window:
  assumes "0 < auth_rate_limit_attempts cfg" "sorted (map snd es)"
  shows "int (length (filter (\<lambda>t. T \<le> t \<and> t \<le> T + auth_rate_limit_window_seconds cfg)
      (of_key key (fst (run_checks cfg es reset))))) \<le> auth_rate_limit_attempts cfg"
proof (cases es)
  case Nil
  with assms show ?thesis by simp
next
  case (Cons e es')
  have "remembers cfg (snd e) [] reset" by (simp add: remembers_def reset_def)
  moreover have "\<forall>x\<in>set es. snd e \<le> snd x" using assms(2) Cons by auto
  ultimately show ?thesis
    using run_checks_window [of cfg "snd e" "[]" reset es key T] assms by simp
qed

theorem rate_limit_window_witness:
  "int (length (filter (\<lambda>t. 0 \<le> t \<and> t \<le> 0 + 60)
     (of_key (''ip'', ''login'') (fst (run_checks
        \<lparr>auth_rate_limit_attempts = 2, auth_rate_limit_window_seconds = 60\<rparr>
        [((''ip'', ''login''), 1), ((''ip'', ''login''), 2), ((''ip'', ''login''), 3)] reset))))) \<le> 2"
  using rate_limit_window [of "\<lparr>auth_rate_limit_attempts = 2, auth_rate_limit_window_seconds = 60\<rparr>"
      "[((''ip'', ''login''), 1), ((''ip'', ''login''), 2), ((''ip'', ''login''), 3)]" 0 "(''ip'', ''login'')"]
  by simp

text \<open>The limiter never blocks early: after any sequence of attempts, a new one is let through
  exactly when fewer than the configured number were let through in the window that ends with it.\<close>

theorem rate_limit_exact:
  assumes "0 < auth_rate_limit_attempts cfg" "sorted (map snd es)" "\<forall>e\<in>set es. snd e \<le> now"
  shows "fst (check cfg key now (snd (run_checks cfg es reset))) = Allowed \<longleftrightarrow>
    int (recent cfg now key (fst (run_checks cfg es reset))) < auth_rate_limit_attempts cfg"
proof -
  have "remembers cfg now (hist @ fst (run_checks cfg es b)) (snd (run_checks cfg es b))"
    if "remembers cfg t0 hist b" "t0 \<le> now" "\<forall>e\<in>set es. t0 \<le> snd e" for t0 hist b
    using that assms(2,3)
  proof (induction es arbitrary: t0 hist b)
    case Nil
    then show ?case by (fastforce simp: remembers_def)
  next
    case (Cons e es)
    obtain k t where e: "e = (k, t)" by fastforce
    have "remembers cfg t (if fst (check cfg k t b) = Allowed then hist @ [(k, t)] else hist)
        (snd (check cfg k t b))"
      using check_remembers [OF Cons.prems(1) _ assms(1)] Cons.prems(3) e by simp
    from Cons.IH [OF this] Cons.prems e show ?case
      by (auto simp: Let_def split: prod.splits if_splits)
  qed
  from this [of "Min (insert now (snd ` set es))" "[]" reset]
  have "remembers cfg now (fst (run_checks cfg es reset)) (snd (run_checks cfg es reset))"
    by (simp add: remembers_def reset_def)
  from check_verdict [OF this order_refl assms(1)] show ?thesis .
qed

theorem rate_limit_exact_witness:
  "fst (check \<lparr>auth_rate_limit_attempts = 1, auth_rate_limit_window_seconds = 60\<rparr> (''ip'', ''login'') 62
     (snd (run_checks \<lparr>auth_rate_limit_attempts = 1, auth_rate_limit_window_seconds = 60\<rparr>
        [((''ip'', ''login''), 1)] reset))) = Allowed"
  by (subst rate_limit_exact) (simp_all add: recent_def check_def reset_def evict_def Let_def)

end
