(* ===== verification/Versioning.thy ===== *)
theory Versioning
  imports Prelude "HOL-Library.List_Lexorder" "HOL-Library.Char_ord" "HOL-Library.Product_Lexorder"
begin

text \<open>
  Version and commit comparison of the updater (\<open>app/updater/versioning.py\<close>): the version shape
  \<open>MAJOR.MINOR.PATCH[-prerelease]\<close>, the development sentinel, and the commit comparator.  The
  regular expression is written out as the deterministic parser it denotes on ASCII digits.
\<close>

section \<open>Parsing\<close>

definition DEV_SENTINEL :: string where
  "DEV_SENTINEL = ''0.0.0-dev''"

definition UNKNOWN_COMMIT :: string where
  "UNKNOWN_COMMIT = ''unknown''"

definition is_digit :: "char \<Rightarrow> bool" where
  "is_digit c = (let n = (of_char c :: nat) in 48 \<le> n \<and> n \<le> 57)"

definition is_pre_char :: "char \<Rightarrow> bool" where
  "is_pre_char c =
     (let n = (of_char c :: nat) in
      (48 \<le> n \<and> n \<le> 57) \<or> (65 \<le> n \<and> n \<le> 90) \<or> (97 \<le> n \<and> n \<le> 122) \<or> n = 46 \<or> n = 45)"

definition digits_value :: "string \<Rightarrow> nat" where
  "digits_value ds = foldl (\<lambda>acc c. 10 * acc + (of_char c - 48)) 0 ds"

text \<open>\<open>(\\d+)\<close> followed by the rest of the input.\<close>

definition take_number :: "string \<Rightarrow> (nat \<times> string) option" where
  "take_number s =
     (let ds = takeWhile is_digit s in
      if ds = [] then None else Some (digits_value ds, dropWhile is_digit s))"

definition expect :: "char \<Rightarrow> string \<Rightarrow> string option" where
  "expect c s = (case s of [] \<Rightarrow> None | x # xs \<Rightarrow> if x = c then Some xs else None)"

type_synonym version = "nat \<times> nat \<times> nat \<times> string option"

definition parse :: "string \<Rightarrow> version option" where
  "parse v =
     (case take_number (py_strip v) of None \<Rightarrow> None | Some (major, r1) \<Rightarrow>
      case expect (CHR ''.'') r1 of None \<Rightarrow> None | Some r2 \<Rightarrow>
      case take_number r2 of None \<Rightarrow> None | Some (minor, r3) \<Rightarrow>
      case expect (CHR ''.'') r3 of None \<Rightarrow> None | Some r4 \<Rightarrow>
      case take_number r4 of None \<Rightarrow> None | Some (patch, r5) \<Rightarrow>
      if r5 = [] then Some (major, minor, patch, None)
      else case expect (CHR ''-'') r5 of None \<Rightarrow> None | Some pre \<Rightarrow>
           if pre \<noteq> [] \<and> list_all is_pre_char pre then Some (major, minor, patch, Some pre) else None)"

section \<open>Comparison\<close>

definition newer_pre :: "string option \<Rightarrow> string option \<Rightarrow> bool" where
  "newer_pre a_pre b_pre =
     (case (a_pre, b_pre) of
        (None, Some _) \<Rightarrow> True
      | (Some _, None) \<Rightarrow> False
      | (None, None) \<Rightarrow> False
      | (Some a, Some b) \<Rightarrow> b < a)"

definition is_newer :: "string \<Rightarrow> string \<Rightarrow> bool" where
  "is_newer candidate installed =
     (if installed = DEV_SENTINEL \<and> candidate \<noteq> DEV_SENTINEL then True
      else if candidate = DEV_SENTINEL then False
      else case (parse candidate, parse installed) of
        (Some (a1, a2, a3, ap), Some (b1, b2, b3, bp)) \<Rightarrow>
          if (a1, a2, a3) \<noteq> (b1, b2, b3) then (b1, b2, b3) < (a1, a2, a3) else newer_pre ap bp
      | _ \<Rightarrow> candidate \<noteq> installed)"

definition is_newer_commit :: "string \<Rightarrow> string \<Rightarrow> int option \<Rightarrow> int option \<Rightarrow> bool" where
  "is_newer_commit candidate_sha installed_sha candidate_date installed_date =
     (let installed = py_strip installed_sha; candidate = py_strip candidate_sha in
      if candidate = [] then False
      else if installed = [] \<or> installed = UNKNOWN_COMMIT then True
      else if installed = candidate then False
      else case (candidate_date, installed_date) of
        (Some cd, Some idt) \<Rightarrow> idt < cd
      | _ \<Rightarrow> True)"

section \<open>The order of versions\<close>

text \<open>The sort key: the sentinel below everything, then the numbers, then a prerelease below its
  release.\<close>

definition version_key :: "string \<Rightarrow> bool \<times> (nat \<times> nat \<times> nat) \<times> bool \<times> string" where
  "version_key v =
     (case parse v of
        None \<Rightarrow> (False, (0, 0, 0), False, [])
      | Some (a, b, c, pre) \<Rightarrow>
          (v \<noteq> DEV_SENTINEL, if v = DEV_SENTINEL then (0, 0, 0) else (a, b, c),
           pre = None, case pre of None \<Rightarrow> [] | Some p \<Rightarrow> p))"

lemma newer_pre_key:
  "newer_pre ap bp \<longleftrightarrow>
     (bp = None, case bp of None \<Rightarrow> [] | Some p \<Rightarrow> p) < (ap = None, case ap of None \<Rightarrow> [] | Some p \<Rightarrow> p)"
  by (auto simp: newer_pre_def less_prod_def' split: option.splits)

lemma is_newer_key:
  assumes "parse a \<noteq> None" "parse b \<noteq> None"
  shows "is_newer a b \<longleftrightarrow> version_key b < version_key a"
proof (cases "a = DEV_SENTINEL \<or> b = DEV_SENTINEL")
  case True
  with assms show ?thesis
    by (auto simp: is_newer_def version_key_def less_prod_def' split: option.splits)
next
  case False
  obtain a1 a2 a3 ap b1 b2 b3 bp where p: "parse a = Some (a1, a2, a3, ap)" "parse b = Some (b1, b2, b3, bp)"
    using assms by (metis not_None_eq prod_cases4)
  with False show ?thesis
    by (simp add: is_newer_def version_key_def newer_pre_key) (auto simp: less_prod_def')
qed

section \<open>Properties\<close>

text \<open>On version strings of the documented shape, "is an upgrade" is a strict order: nothing is
  newer than itself, no two versions are newer than each other, and upgrades compose; the
  development build is older than every other version.\<close>

theorem is_newer_strict_order:
  assumes "parse a \<noteq> None" "parse b \<noteq> None" "parse c \<noteq> None"
  shows "\<not> is_newer a a \<and> (is_newer a b \<longrightarrow> \<not> is_newer b a)
    \<and> (is_newer a b \<longrightarrow> is_newer b c \<longrightarrow> is_newer a c)
    \<and> (a \<noteq> DEV_SENTINEL \<longrightarrow> is_newer a DEV_SENTINEL) \<and> \<not> is_newer DEV_SENTINEL a"
proof -
  note k = is_newer_key [OF assms(1) assms(1)] is_newer_key [OF assms(1) assms(2)]
    is_newer_key [OF assms(2) assms(1)] is_newer_key [OF assms(2) assms(3)]
    is_newer_key [OF assms(1) assms(3)]
  have "a \<noteq> DEV_SENTINEL \<longrightarrow> is_newer a DEV_SENTINEL" "\<not> is_newer DEV_SENTINEL a"
    by (simp_all add: is_newer_def)
  then show ?thesis unfolding k by auto
qed

theorem is_newer_strict_order_witness:
  "is_newer ''1.10.0'' ''1.9.0'' \<and> is_newer ''1.9.0'' ''1.9.0-rc.1'' \<and> is_newer ''1.10.0'' ''1.9.0-rc.1''
   \<and> \<not> is_newer ''1.9.0-rc.1'' ''1.10.0''"
proof -
  have h: "parse ''1.10.0'' \<noteq> None" "parse ''1.9.0'' \<noteq> None" "parse ''1.9.0-rc.1'' \<noteq> None" by code_simp+
  have "is_newer ''1.10.0'' ''1.9.0''" "is_newer ''1.9.0'' ''1.9.0-rc.1''" by code_simp+
  then show ?thesis
    using is_newer_strict_order [OF h] is_newer_strict_order [OF h(1,3,2)] by blast
qed

text \<open>The commit comparator as documented in its decision tree: an empty candidate is never
  newer, any candidate is newer than an unknown installation, equal commits are not newer, with
  both dates known the later one wins, and with a date missing a different commit is reported as
  newer.\<close>

lemma is_newer_commit_tree:
  "is_newer_commit c i cd idt =
     (py_strip c \<noteq> [] \<and>
      (py_strip i \<in> {[], UNKNOWN_COMMIT} \<or>
       (py_strip c \<noteq> py_strip i \<and> (cd = None \<or> idt = None \<or> the idt < the cd))))"
  by (auto simp: is_newer_commit_def Let_def split: option.splits)

end
