(* ===== verification/Cron.thy ===== *)
theory Cron
  imports Prelude
begin

text \<open>
  Cron specifications (\<open>app/automation/cron.py\<close>).  Instants are microseconds since the epoch in
  UTC; the calendar fields of \<open>datetime\<close> are computed from the number of minutes since the epoch
  with the proleptic Gregorian calendar.  \<open>int(str)\<close> is a parameter (\<open>None\<close> for
  \<open>ValueError\<close>).
\<close>

section \<open>Calendar\<close>

definition days_before_month :: "int \<Rightarrow> int" where
  "days_before_month m =
     (if m \<le> 1 then 0 else if m = 2 then 31 else if m = 3 then 59 else if m = 4 then 90
      else if m = 5 then 120 else if m = 6 then 151 else if m = 7 then 181 else if m = 8 then 212
      else if m = 9 then 243 else if m = 10 then 273 else if m = 11 then 304 else 334)"

definition days_in_month :: "int \<Rightarrow> int" where
  "days_in_month m = (if m = 2 then 28 else if m \<in> {4, 6, 9, 11} then 30 else 31)"

text \<open>Month and day of the \<open>n\<close>-th day of a year, counted from 0, for \<open>n < 365\<close>.\<close>

definition month_day :: "bool \<Rightarrow> int \<Rightarrow> int \<times> int" where
  "month_day leap n =
     (let month = (n + 50) div 32;
          preceding = days_before_month month + (if month > 2 \<and> leap then 1 else 0) in
      if preceding > n
      then (let month' = month - 1;
                preceding' = preceding - (days_in_month month' + (if month' = 2 \<and> leap then 1 else 0))
            in (month', n - preceding' + 1))
      else (month, n - preceding + 1))"

text \<open>\<open>datetime.fromordinal\<close>; day 0 is 1970-01-01, ordinal 719163.\<close>

definition civil_from_days :: "int \<Rightarrow> int \<times> int \<times> int" where
  "civil_from_days z =
     (let n = z + 719162;
          n400 = n div 146097; r400 = n mod 146097;
          n100 = r400 div 36524; r100 = r400 mod 36524;
          n4 = r100 div 1461; r4 = r100 mod 1461;
          n1 = r4 div 365; r1 = r4 mod 365;
          year = n400 * 400 + 1 + n100 * 100 + n4 * 4 + n1 in
      if n1 = 4 \<or> n100 = 4 then (year - 1, 12, 31)
      else (year, month_day (n1 = 3 \<and> (n4 \<noteq> 24 \<or> n100 = 3)) r1))"

definition dt_minute :: "int \<Rightarrow> int" where "dt_minute t = t mod 60"
definition dt_hour :: "int \<Rightarrow> int" where "dt_hour t = t div 60 mod 24"
definition dt_day :: "int \<Rightarrow> int" where "dt_day t = snd (snd (civil_from_days (t div 1440)))"
definition dt_month :: "int \<Rightarrow> int" where "dt_month t = fst (snd (civil_from_days (t div 1440)))"
definition dt_weekday :: "int \<Rightarrow> int" where "dt_weekday t = (t div 1440 + 3) mod 7"

section \<open>Specifications\<close>

type_synonym int_str = "string \<Rightarrow> int option"
type_synonym cron_spec = "(string \<times> pyval) list"

text \<open>\<open>int(v)\<close>: truncation of a float, parsing of a string.\<close>

definition to_int :: "int_str \<Rightarrow> pyval \<Rightarrow> int result" where
  "to_int ints v =
     (case v of
        PyInt n \<Rightarrow> Inr n
      | PyBool b \<Rightarrow> Inr (if b then 1 else 0)
      | PyFloat (Fin r) \<Rightarrow> Inr (if 0 \<le> r then \<lfloor>r\<rfloor> else \<lceil>r\<rceil>)
      | PyFloat NaN \<Rightarrow> Inl ValueError
      | PyFloat _ \<Rightarrow> Inl OverflowError
      | PyStr s \<Rightarrow> (case ints s of None \<Rightarrow> Inl ValueError | Some n \<Rightarrow> Inr n)
      | _ \<Rightarrow> Inl TypeError)"

definition check_range :: "int \<Rightarrow> int \<Rightarrow> int list \<Rightarrow> int list result" where
  "check_range lo hi items =
     (if \<exists>v\<in>set items. v < lo \<or> hi < v then Inl ValueError
      else if items = [] then Inl ValueError
      else Inr items)"

definition as_set :: "int_str \<Rightarrow> pyval \<Rightarrow> int \<Rightarrow> int \<Rightarrow> int list result" where
  "as_set ints v lo hi =
     (case v of
        PyNone \<Rightarrow> Inr [lo..hi]
      | PyInt n \<Rightarrow> check_range lo hi [n]
      | PyBool b \<Rightarrow> check_range lo hi [if b then 1 else 0]
      | PyList vs \<Rightarrow> bind_r (map_r (to_int ints) vs) (check_range lo hi)
      | _ \<Rightarrow> Inl ValueError)"

definition spec_get :: "cron_spec \<Rightarrow> string \<Rightarrow> pyval" where
  "spec_get spec k = (case map_of spec k of Some v \<Rightarrow> v | None \<Rightarrow> PyNone)"

record cron_fields =
  cf_minutes :: "int list"
  cf_hours :: "int list"
  cf_days :: "int list"
  cf_months :: "int list"
  cf_weekdays :: "int list"

definition cron_sets :: "int_str \<Rightarrow> cron_spec \<Rightarrow> cron_fields result" where
  "cron_sets ints spec =
     bind_r (as_set ints (spec_get spec ''minute'') 0 59) (\<lambda>minutes.
     bind_r (as_set ints (spec_get spec ''hour'') 0 23) (\<lambda>hours.
     bind_r (as_set ints (spec_get spec ''day'') 1 31) (\<lambda>days.
     bind_r (as_set ints (spec_get spec ''month'') 1 12) (\<lambda>months.
     bind_r (as_set ints (spec_get spec ''weekday'') 0 6) (\<lambda>weekdays.
     Inr \<lparr>cf_minutes = minutes, cf_hours = hours, cf_days = days, cf_months = months,
          cf_weekdays = weekdays\<rparr>)))))"

definition validate_cron :: "int_str \<Rightarrow> cron_spec \<Rightarrow> unit result" where
  "validate_cron ints spec = bind_r (cron_sets ints spec) (\<lambda>_. Inr ())"

definition field_match :: "cron_fields \<Rightarrow> int \<Rightarrow> bool" where
  "field_match f t =
     (dt_minute t \<in> set (cf_minutes f) \<and> dt_hour t \<in> set (cf_hours f) \<and> dt_day t \<in> set (cf_days f)
      \<and> dt_month t \<in> set (cf_months f) \<and> dt_weekday t \<in> set (cf_weekdays f))"

text \<open>The search loop with the number of iterations left.\<close>

fun scan :: "nat \<Rightarrow> cron_fields \<Rightarrow> int \<Rightarrow> int option" where
  "scan 0 f t = None"
| "scan (Suc n) f t = (if field_match f t then Some t else scan n f (t + 1))"

definition SCAN_LIMIT :: nat where
  "SCAN_LIMIT = 60 * 24 * 366 * 4"

definition minute_us :: int where
  "minute_us = 60000000"

definition next_run :: "int_str \<Rightarrow> cron_spec \<Rightarrow> int \<Rightarrow> int result" where
  "next_run ints spec after =
     bind_r (cron_sets ints spec) (\<lambda>f.
     case scan SCAN_LIMIT f (after div minute_us + 1) of
       Some t \<Rightarrow> Inr (t * minute_us) | None \<Rightarrow> Inl ValueError)"

section \<open>The search\<close>

lemma scan_Some_iff:
  "scan n f t = Some r \<longleftrightarrow>
     t \<le> r \<and> r < t + int n \<and> field_match f r \<and> (\<forall>s. t \<le> s \<and> s < r \<longrightarrow> \<not> field_match f s)"
proof (induction n arbitrary: t)
  case (Suc n)
  show ?case
  proof (cases "field_match f t")
    case True
    then show ?thesis by (auto simp: not_less)
  next
    case False
    have "(\<forall>s. t \<le> s \<and> s < r \<longrightarrow> \<not> field_match f s) \<longleftrightarrow> (\<forall>s. t + 1 \<le> s \<and> s < r \<longrightarrow> \<not> field_match f s)"
      using False by (metis zless_add1_eq add.commute int_one_le_iff_zero_less linorder_not_less order_le_less)
    moreover have "field_match f r \<Longrightarrow> t \<le> r \<longleftrightarrow> t + 1 \<le> r" using False by (cases "r = t") auto
    ultimately show ?thesis using False Suc.IH [of "t + 1"] by auto
  qed
qed auto

lemma scan_None_iff: "scan n f t = None \<longleftrightarrow> (\<forall>s. t \<le> s \<and> s < t + int n \<longrightarrow> \<not> field_match f s)"
proof
  show "scan n f t = None \<Longrightarrow> \<forall>s. t \<le> s \<and> s < t + int n \<longrightarrow> \<not> field_match f s"
  proof (induction n arbitrary: t)
    case (Suc n)
    then have "\<not> field_match f t" "scan n f (t + 1) = None" by (auto split: if_splits)
    show ?case
    proof (intro allI impI)
      fix s assume s: "t \<le> s \<and> s < t + int (Suc n)"
      show "\<not> field_match f s"
      proof (cases "s = t")
        case False
        with s have "t + 1 \<le> s \<and> s < t + 1 + int n" by auto
        with Suc.IH [OF \<open>scan n f (t + 1) = None\<close>] show ?thesis by blast
      qed (use \<open>\<not> field_match f t\<close> in simp)
    qed
  qed auto
next
  assume *: "\<forall>s. t \<le> s \<and> s < t + int n \<longrightarrow> \<not> field_match f s"
  show "scan n f t = None"
  proof (cases "scan n f t")
    case (Some r)
    then show ?thesis using * by (auto simp: scan_Some_iff)
  qed
qed

text \<open>Every day has every hour and minute.\<close>

lemma daily_slot:
  assumes "0 \<le> m" "m < 60" "0 \<le> h" "h < 24"
  shows "\<exists>s. t \<le> s \<and> s < t + 1440 \<and> dt_minute s = m \<and> dt_hour s = h"
proof -
  let ?r = "h * 60 + m"
  have r: "0 \<le> ?r" "?r < 1440" using assms by auto
  let ?s = "t + (?r - t) mod 1440"
  have "?s mod 1440 = ?r mod 1440" by (simp add: mod_add_right_eq)
  then have s: "?s mod 1440 = ?r" using r by simp
  have "?s mod 60 = ?s mod 1440 mod 60" by (simp add: mod_mod_cancel)
  then have "dt_minute ?s = m" using s assms by (simp add: dt_minute_def)
  moreover have "?s = 1440 * (?s div 1440) + ?r" using s by (metis mult_div_mod_eq)
  then obtain q where "?s = 1440 * q + ?r" by blast
  then have "?s div 60 = 24 * q + h" using assms by simp
  then have "dt_hour ?s = h" unfolding dt_hour_def using assms by simp
  ultimately show ?thesis
    by (intro exI [of _ ?s]) auto
qed

section \<open>Ranges of the calendar fields\<close>

lemma month_day_table:
  "list_all (\<lambda>n. \<forall>leap\<in>{True, False}. 1 \<le> fst (month_day leap n) \<and> fst (month_day leap n) \<le> 12
     \<and> 1 \<le> snd (month_day leap n) \<and> snd (month_day leap n) \<le> 31) [0..364]"
  by code_simp

lemma month_day_range:
  assumes "0 \<le> n" "n < 365"
  shows "1 \<le> fst (month_day leap n) \<and> fst (month_day leap n) \<le> 12
     \<and> 1 \<le> snd (month_day leap n) \<and> snd (month_day leap n) \<le> 31"
  using month_day_table assms by (cases leap) (auto simp: list_all_iff)

lemma dt_ranges:
  "dt_day t \<in> {1..31}" "dt_month t \<in> {1..12}" "dt_weekday t \<in> {0..6}"
proof -
  have "fst (snd (civil_from_days z)) \<in> {1..12} \<and> snd (snd (civil_from_days z)) \<in> {1..31}" for z
    using month_day_range by (auto simp: civil_from_days_def Let_def)
  then show "dt_day t \<in> {1..31}" "dt_month t \<in> {1..12}" by (auto simp: dt_day_def dt_month_def)
  have "(t div 1440 + 3) mod 7 < 7" "0 \<le> (t div 1440 + 3) mod 7" by simp_all
  then show "dt_weekday t \<in> {0..6}" by (simp add: dt_weekday_def)
qed

lemma as_set_nonempty: "as_set ints v lo hi = Inr xs \<Longrightarrow> lo \<le> hi \<Longrightarrow> \<exists>x\<in>set xs. lo \<le> x \<and> x \<le> hi"
  by (auto simp: as_set_def check_range_def bind_r_Inr_iff not_less split: pyval.splits if_splits)
     (metis list.set_sel(1))

lemma cron_sets_daily:
  assumes "cron_sets ints spec = Inr f" "map_of spec ''day'' = None" "map_of spec ''month'' = None"
    "map_of spec ''weekday'' = None"
  shows "cf_days f = [1..31] \<and> cf_months f = [1..12] \<and> cf_weekdays f = [0..6]
    \<and> (\<exists>m\<in>set (cf_minutes f). 0 \<le> m \<and> m < 60) \<and> (\<exists>h\<in>set (cf_hours f). 0 \<le> h \<and> h < 24)"
proof -
  obtain ms hs where ms: "as_set ints (spec_get spec ''minute'') 0 59 = Inr ms"
    and hs: "as_set ints (spec_get spec ''hour'') 0 23 = Inr hs"
    and f: "f = \<lparr>cf_minutes = ms, cf_hours = hs, cf_days = [1..31], cf_months = [1..12], cf_weekdays = [0..6]\<rparr>"
    using assms by (auto simp: cron_sets_def bind_r_Inr_iff spec_get_def as_set_def [of _ PyNone])
  show ?thesis using as_set_nonempty [OF ms] as_set_nonempty [OF hs] f by force
qed

section \<open>Properties\<close>

text \<open>C19. The next run of a schedule is the first whole minute strictly after the given instant (the
  docstring says at or after it; an instant that matches is itself passed over) whose
  minute, hour, day, month and weekday the specification allows; it is an error exactly when the
  specification is invalid or allows no minute of the four years searched.\<close>

theorem next_run_first_match:
  "case next_run ints spec after of
     Inr r \<Rightarrow> \<exists>f t. cron_sets ints spec = Inr f \<and> r = t * minute_us \<and> after < r \<and> field_match f t
       \<and> {s. after < s * minute_us \<and> s < t \<and> field_match f s} = {}
   | Inl e \<Rightarrow> cron_sets ints spec = Inl e \<or>
       (\<exists>f. cron_sets ints spec = Inr f \<and> {s. after < s * minute_us
          \<and> s \<le> after div minute_us + int SCAN_LIMIT \<and> field_match f s} = {})"
proof -
  have lt: "after < s * minute_us \<longleftrightarrow> after div minute_us + 1 \<le> s" for s
  proof -
    have "after = 60000000 * (after div 60000000) + after mod 60000000"
      "0 \<le> after mod 60000000" "after mod 60000000 < 60000000" by simp_all
    then show ?thesis unfolding minute_us_def by linarith
  qed
  show ?thesis
  proof (cases "cron_sets ints spec")
    case (Inl e)
    then show ?thesis by (simp add: next_run_def)
  next
    case (Inr f)
    show ?thesis
    proof (cases "scan SCAN_LIMIT f (after div minute_us + 1)")
      case None
      then have "\<forall>s. after div minute_us + 1 \<le> s \<and> s < after div minute_us + 1 + int SCAN_LIMIT
          \<longrightarrow> \<not> field_match f s" by (simp only: scan_None_iff)
      then have "{s. after < s * minute_us \<and> s \<le> after div minute_us + int SCAN_LIMIT \<and> field_match f s} = {}"
        unfolding lt by auto
      with Inr None show ?thesis by (simp add: next_run_def)
    next
      case (Some t)
      then have t: "after div minute_us + 1 \<le> t" "field_match f t"
        "\<And>s. after div minute_us + 1 \<le> s \<Longrightarrow> s < t \<Longrightarrow> \<not> field_match f s"
        by (auto simp: scan_Some_iff)
      then have "after < t * minute_us" "{s. after < s * minute_us \<and> s < t \<and> field_match f s} = {}"
        unfolding lt by blast+
      with t(2) Inr have "\<exists>f' t'. cron_sets ints spec = Inr f' \<and> t * minute_us = t' * minute_us
          \<and> after < t * minute_us \<and> field_match f' t'
          \<and> {s. after < s * minute_us \<and> s < t' \<and> field_match f' s} = {}" by blast
      with Inr Some show ?thesis by (simp add: next_run_def)
    qed
  qed
qed

text \<open>A valid daily specification (minutes and hours only) always has a next run, within one day.\<close>

theorem next_run_daily:
  assumes "validate_cron ints spec = Inr ()" "map_of spec ''day'' = None"
    "map_of spec ''month'' = None" "map_of spec ''weekday'' = None"
  shows "\<exists>r. next_run ints spec after = Inr r \<and> after < r \<and> r \<le> after + 1440 * minute_us"
proof -
  obtain f where f: "cron_sets ints spec = Inr f"
    using assms(1) by (auto simp: validate_cron_def bind_r_Inr_iff)
  from cron_sets_daily [OF this assms(2-4)] obtain m h where
    mh: "m \<in> set (cf_minutes f)" "0 \<le> m" "m < 60" "h \<in> set (cf_hours f)" "0 \<le> h" "h < 24"
    and d: "cf_days f = [1..31]" "cf_months f = [1..12]" "cf_weekdays f = [0..6]" by blast
  let ?t = "after div minute_us + 1"
  obtain s where s: "?t \<le> s" "s < ?t + 1440" "dt_minute s = m" "dt_hour s = h"
    using daily_slot mh by blast
  then have "field_match f s" using mh d dt_ranges [of s] by (simp add: field_match_def)
  then obtain r where r: "scan SCAN_LIMIT f ?t = Some r" "r \<le> s"
    using s(1,2) scan_None_iff [of SCAN_LIMIT f ?t] scan_Some_iff [of SCAN_LIMIT f ?t]
    by (cases "scan SCAN_LIMIT f ?t") (auto simp: SCAN_LIMIT_def not_less intro: leI)
  then have "?t \<le> r" by (simp add: scan_Some_iff)
  have "after < r * minute_us" "r * minute_us \<le> after + 1440 * minute_us"
    using \<open>?t \<le> r\<close> r(2) s(2) by (auto simp: minute_us_def)
  with f r show ?thesis by (simp add: next_run_def)
qed

theorem next_run_daily_witness:
  "\<exists>r. next_run (\<lambda>s. None) [(''hour'', PyInt 3), (''minute'', PyInt 30)] 0 = Inr r \<and> 0 < r
     \<and> r \<le> 0 + 1440 * minute_us"
  by (rule next_run_daily) (simp_all add: validate_cron_def cron_sets_def spec_get_def as_set_def
      check_range_def)

end
