(* ===== verification/Scheduler.thy ===== *)
theory Scheduler
  imports Cron Store
begin

text \<open>
  The scheduler and its job catalogue (\<open>app/automation/scheduler.py\<close>, \<open>types.py\<close>): a tick
  dispatches every due schedule once, records a job run with its outcome, and moves the schedule to
  its next run whatever happened.  A job's runner is a parameter of its specification: it answers
  with its result or an exception; what it does to other tables is outside this model.  The clock
  reading when a run ends, the text of an exception and the run ids come with the environment.
\<close>

section \<open>Rows and catalogue\<close>

record schedule =
  sc_id :: string
  sc_name :: string
  sc_enabled :: bool
  sc_job_kind :: string
  sc_job_args :: "(string \<times> pyval) list"
  sc_cron :: cron_spec
  sc_next_run_at :: "int option"
  sc_last_run_at :: "int option"
  sc_last_status :: "string option"

record job_run =
  jr_id :: string
  jr_schedule_id :: "string option"
  jr_job_kind :: string
  jr_job_args :: "(string \<times> pyval) list"
  jr_status :: string
  jr_started_at :: int
  jr_finished_at :: "int option"
  jr_duration_ms :: "int option"
  jr_result :: "pyval option"
  jr_error :: "string option"
  jr_trigger :: string

record job_spec =
  js_key :: string
  js_label :: string
  js_required_args :: "string list"
  js_runner :: "(string \<times> pyval) list \<Rightarrow> pyval result"

record sched_env =
  se_catalogue :: "job_spec list"
  se_int_str :: int_str
  se_exc_str :: "pyerr \<Rightarrow> string"
  se_new_id :: "nat \<Rightarrow> string"
  se_finished_at :: "nat \<Rightarrow> int"
  se_bus :: bool

record sched_state =
  ss_schedules :: "schedule list"
  ss_runs :: "job_run list"
  ss_events :: "domain_event list"

definition register_job :: "job_spec \<Rightarrow> job_spec list \<Rightarrow> job_spec list result" where
  "register_job spec cat =
     (if \<exists>s\<in>set cat. js_key s = js_key spec then Inl ValueError else Inr (cat @ [spec]))"

definition require_job :: "job_spec list \<Rightarrow> string \<Rightarrow> job_spec result" where
  "require_job cat key =
     (case table_find js_key key cat of None \<Rightarrow> Inl KeyError | Some s \<Rightarrow> Inr s)"

definition validate_args :: "job_spec list \<Rightarrow> string \<Rightarrow> (string \<times> pyval) list \<Rightarrow> unit result" where
  "validate_args cat key args =
     bind_r (require_job cat key) (\<lambda>s.
     if \<exists>k\<in>set (js_required_args s). k \<notin> fst ` set args then Inl ValueError else Inr ())"

section \<open>Dispatch\<close>

definition sched_emit :: "sched_env \<Rightarrow> string \<Rightarrow> (string \<times> pyval) list \<Rightarrow> sched_state \<Rightarrow> sched_state" where
  "sched_emit env name payload st =
     (if se_bus env then st\<lparr>ss_events := ss_events st @
        [\<lparr>ev_name = name, ev_payload = payload, ev_source = ''automation''\<rparr>]\<rparr> else st)"

text \<open>The duration is exact; Python multiplies floats, which may lose the last millisecond.\<close>

definition finish_run :: "sched_env \<Rightarrow> nat \<Rightarrow> pyval result \<Rightarrow> job_run \<Rightarrow> job_run" where
  "finish_run env n outcome run =
     (let done = se_finished_at env n;
          run1 = (case outcome of
                    Inr res \<Rightarrow> run\<lparr>jr_status := ''completed'',
                       jr_result := Some (case res of PyDict d \<Rightarrow> PyDict d | v \<Rightarrow> PyDict [(''value'', v)])\<rparr>
                  | Inl e \<Rightarrow> run\<lparr>jr_status := ''failed'', jr_error := Some (py_take 2000 (se_exc_str env e))\<rparr>)
      in run1\<lparr>jr_finished_at := Some done, jr_duration_ms := Some ((done - jr_started_at run) div 1000)\<rparr>)"

definition sched_dispatch ::
    "sched_env \<Rightarrow> schedule option \<Rightarrow> (string \<times> pyval) list \<Rightarrow> string \<Rightarrow> string option \<Rightarrow> int
     \<Rightarrow> sched_state \<Rightarrow> job_run result \<times> sched_state" where
  "sched_dispatch env sch args trigger job_kind now st =
     (let kind = (case job_kind of
                    Some k \<Rightarrow> if k \<noteq> [] then k else (case sch of None \<Rightarrow> [] | Some s \<Rightarrow> sc_job_kind s)
                  | None \<Rightarrow> (case sch of None \<Rightarrow> [] | Some s \<Rightarrow> sc_job_kind s)) in
      if kind = [] then (Inl ValueError, st)
      else case bind_r (validate_args (se_catalogue env) kind args)
                  (\<lambda>_. require_job (se_catalogue env) kind) of
        Inl e \<Rightarrow> (Inl e, st)
      | Inr spec \<Rightarrow>
          (let n = length (ss_runs st);
               sid = map_option sc_id sch;
               run = \<lparr>jr_id = se_new_id env n, jr_schedule_id = sid, jr_job_kind = kind,
                      jr_job_args = args, jr_status = ''running'', jr_started_at = now,
                      jr_finished_at = None, jr_duration_ms = None, jr_result = None,
                      jr_error = None, jr_trigger = trigger\<rparr>;
               st1 = sched_emit env ''job.started''
                       [(''run_id'', PyStr (jr_id run)), (''job_kind'', PyStr kind),
                        (''schedule_id'', opt_str sid), (''trigger'', PyStr trigger)] st;
               run' = finish_run env n (js_runner spec args) run;
               st2 = st1\<lparr>ss_runs := ss_runs st1 @ [run']\<rparr>;
               st3 = sched_emit env
                       (if jr_status run' = ''completed'' then ''job.completed'' else ''job.failed'')
                       [(''run_id'', PyStr (jr_id run)), (''job_kind'', PyStr kind),
                        (''schedule_id'', opt_str sid), (''status'', PyStr (jr_status run')),
                        (''duration_ms'', case jr_duration_ms run' of None \<Rightarrow> PyNone | Some d \<Rightarrow> PyInt d),
                        (''error'', opt_str (jr_error run'))] st2
           in (Inr run', st3)))"

section \<open>Tick\<close>

definition prime_next_run :: "sched_env \<Rightarrow> int \<Rightarrow> schedule \<Rightarrow> schedule result" where
  "prime_next_run env now s =
     bind_r (next_run (se_int_str env) (sc_cron s) now) (\<lambda>w. Inr (s\<lparr>sc_next_run_at := Some w\<rparr>))"

definition is_due :: "int \<Rightarrow> schedule \<Rightarrow> bool" where
  "is_due now s = (sc_enabled s \<and> (case sc_next_run_at s of None \<Rightarrow> False | Some t \<Rightarrow> t \<le> now))"

definition list_due :: "int \<Rightarrow> sched_state \<Rightarrow> schedule list" where
  "list_due now st = filter (is_due now) (ss_schedules st)"

definition set_schedule :: "schedule \<Rightarrow> sched_state \<Rightarrow> sched_state" where
  "set_schedule s st =
     st\<lparr>ss_schedules := map (\<lambda>x. if sc_id x = sc_id s then s else x) (ss_schedules st)\<rparr>"

text \<open>One due schedule: the run ids it adds, and whether it was moved on.\<close>

definition tick_one ::
    "sched_env \<Rightarrow> int \<Rightarrow> schedule \<Rightarrow> sched_state \<Rightarrow> (string list \<times> string list) \<times> sched_state" where
  "tick_one env now s st =
     (case sched_dispatch env (Some s) (sc_job_args s) ''schedule'' None now st of
        (outcome, st1) \<Rightarrow>
          (let s1 = (case outcome of
                       Inl _ \<Rightarrow> s\<lparr>sc_last_status := Some ''failed''\<rparr>
                     | Inr run \<Rightarrow> s\<lparr>sc_last_run_at := Some now, sc_last_status := Some (jr_status run)\<rparr>);
               enq = (case outcome of Inl _ \<Rightarrow> [] | Inr run \<Rightarrow> [jr_id run]) in
           case prime_next_run env now s1 of
             Inl _ \<Rightarrow> ((enq, []), set_schedule s1 st1)
           | Inr s2 \<Rightarrow> ((enq, [sc_id s]), set_schedule s2 st1)))"

fun tick_loop ::
    "sched_env \<Rightarrow> int \<Rightarrow> schedule list \<Rightarrow> sched_state \<Rightarrow> (string list \<times> string list) \<times> sched_state" where
  "tick_loop env now [] st = (([], []), st)"
| "tick_loop env now (s # ss) st =
     (let (r, st1) = tick_one env now s st; (q, st2) = tick_loop env now ss st1 in
      ((fst r @ fst q, snd r @ snd q), st2))"

definition tick :: "sched_env \<Rightarrow> int \<Rightarrow> sched_state \<Rightarrow> (string list \<times> string list) \<times> sched_state" where
  "tick env now st = tick_loop env now (list_due now st) st"

definition run_job_now ::
    "sched_env \<Rightarrow> string \<Rightarrow> (string \<times> pyval) list \<Rightarrow> string \<Rightarrow> schedule option \<Rightarrow> int \<Rightarrow> sched_state
     \<Rightarrow> job_run result \<times> sched_state" where
  "run_job_now env job_kind args trigger sch now st =
     sched_dispatch env sch args trigger (Some job_kind) now st"

section \<open>What a dispatch leaves\<close>

lemma sched_emit_simps [simp]:
  "ss_schedules (sched_emit env n p st) = ss_schedules st" "ss_runs (sched_emit env n p st) = ss_runs st"
  by (simp_all add: sched_emit_def)

lemma finish_run_status: "jr_status (finish_run env n outcome run) \<in> {''completed'', ''failed''}"
  by (simp add: finish_run_def Let_def split: sum.split)

lemma finish_run_fields [simp]:
  "jr_schedule_id (finish_run env n outcome run) = jr_schedule_id run"
  "jr_trigger (finish_run env n outcome run) = jr_trigger run"
  "jr_id (finish_run env n outcome run) = jr_id run"
  by (simp_all add: finish_run_def Let_def split: sum.split)

lemma sched_dispatch_cases:
  "case sched_dispatch env sch args trigger jk now st of
     (Inl e, st') \<Rightarrow> st' = st
   | (Inr run, st') \<Rightarrow> ss_schedules st' = ss_schedules st \<and> ss_runs st' = ss_runs st @ [run]
       \<and> jr_schedule_id run = map_option sc_id sch \<and> jr_trigger run = trigger
       \<and> jr_status run \<in> {''completed'', ''failed''}"
  using finish_run_status by (auto simp: sched_dispatch_def Let_def split: sum.splits)

definition cron_ok :: "sched_env \<Rightarrow> int \<Rightarrow> schedule \<Rightarrow> bool" where
  "cron_ok env now s = is_ok (next_run (se_int_str env) (sc_cron s) now)"

lemma next_run_later: "next_run ints spec after = Inr r \<Longrightarrow> after < r"
  by (auto simp: next_run_def bind_r_Inr_iff scan_Some_iff minute_us_def split: option.splits)

text \<open>A schedule after its turn: same identity, and moved past \<open>now\<close> when its cron allows it.\<close>

definition advanced :: "sched_env \<Rightarrow> int \<Rightarrow> schedule \<Rightarrow> schedule \<Rightarrow> bool" where
  "advanced env now s s' =
     (sc_id s' = sc_id s \<and> sc_enabled s' = sc_enabled s \<and> sc_cron s' = sc_cron s
      \<and> sc_job_kind s' = sc_job_kind s \<and> sc_job_args s' = sc_job_args s
      \<and> (if cron_ok env now s then \<exists>t. sc_next_run_at s' = Some t \<and> now < t
         else sc_next_run_at s' = sc_next_run_at s)
      \<and> sc_last_status s' \<in> {Some ''completed'', Some ''failed''})"

lemma tick_one_advances:
  obtains s' runs where "snd (tick_one env now s st) = set_schedule s' (snd (tick_one env now s st))"
    "ss_schedules (snd (tick_one env now s st)) =
       map (\<lambda>x. if sc_id x = sc_id s then s' else x) (ss_schedules st)"
    "advanced env now s s'" "ss_runs (snd (tick_one env now s st)) = ss_runs st @ runs"
    "length runs \<le> 1" "fst (fst (tick_one env now s st)) = map jr_id runs"
    "\<forall>r\<in>set runs. jr_schedule_id r = Some (sc_id s) \<and> jr_trigger r = ''schedule''
       \<and> jr_status r \<in> {''completed'', ''failed''}"
    "snd (fst (tick_one env now s st)) = (if cron_ok env now s then [sc_id s] else [])"
proof -
  obtain outcome st1 where d: "sched_dispatch env (Some s) (sc_job_args s) ''schedule'' None now st = (outcome, st1)"
    by fastforce
  let ?s1 = "case outcome of Inl _ \<Rightarrow> s\<lparr>sc_last_status := Some ''failed''\<rparr>
    | Inr run \<Rightarrow> s\<lparr>sc_last_run_at := Some now, sc_last_status := Some (jr_status run)\<rparr>"
  let ?runs = "case outcome of Inl _ \<Rightarrow> [] | Inr run \<Rightarrow> [run]"
  let ?s' = "case prime_next_run env now ?s1 of Inl _ \<Rightarrow> ?s1 | Inr s2 \<Rightarrow> s2"
  note c = sched_dispatch_cases [where env = env and sch = "Some s" and args = "sc_job_args s"
      and trigger = "''schedule''" and jk = None and now = now and st = st, unfolded d prod.case]
  have st: "ss_schedules st1 = ss_schedules st" "ss_runs st1 = ss_runs st @ ?runs"
    using c by (auto split: sum.splits)
  have cron: "sc_cron ?s1 = sc_cron s" by (simp split: sum.split)
  have t: "tick_one env now s st =
      ((map jr_id ?runs, if cron_ok env now s then [sc_id s] else []), set_schedule ?s' st1)"
    using cron by (cases "next_run (se_int_str env) (sc_cron s) now"; cases outcome)
      (simp_all add: tick_one_def d Let_def prime_next_run_def cron_ok_def)
  have adv: "advanced env now s ?s'"
    using c next_run_later [of "se_int_str env" "sc_cron s" now]
    by (cases "next_run (se_int_str env) (sc_cron s) now"; cases outcome)
      (auto simp: advanced_def prime_next_run_def cron_ok_def)
  then have id: "sc_id ?s' = sc_id s" by (simp add: advanced_def)
  show ?thesis
  proof (rule that)
    show "snd (tick_one env now s st) = set_schedule ?s' (snd (tick_one env now s st))"
      by (simp add: t set_schedule_def)
    show "ss_schedules (snd (tick_one env now s st)) =
       map (\<lambda>x. if sc_id x = sc_id s then ?s' else x) (ss_schedules st)"
      using st id by (simp add: t set_schedule_def)
    show "ss_runs (snd (tick_one env now s st)) = ss_runs st @ ?runs"
      using st by (simp add: t set_schedule_def)
  qed (use adv c t in \<open>auto split: sum.splits\<close>)
qed

lemma advanced_fields: "advanced env now s s' \<Longrightarrow> sc_id s' = sc_id s" by (simp add: advanced_def)

text \<open>The loop over distinct schedules: each is replaced by an advanced one, the others stay.\<close>

lemma tick_loop_advances:
  assumes "distinct (map sc_id ss)" "distinct (map sc_id (ss_schedules st))"
    "set ss \<subseteq> set (ss_schedules st)"
  shows "(\<forall>x\<in>set (ss_schedules (snd (tick_loop env now ss st))).
      (if sc_id x \<in> sc_id ` set ss then \<exists>s\<in>set ss. advanced env now s x else x \<in> set (ss_schedules st)))
    \<and> map sc_id (ss_schedules (snd (tick_loop env now ss st))) = map sc_id (ss_schedules st)
    \<and> (\<exists>runs. ss_runs (snd (tick_loop env now ss st)) = ss_runs st @ runs
        \<and> fst (fst (tick_loop env now ss st)) = map jr_id runs
        \<and> subseq (map jr_schedule_id runs) (map (Some \<circ> sc_id) ss)
        \<and> (\<forall>r\<in>set runs. jr_trigger r = ''schedule'' \<and> jr_status r \<in> {''completed'', ''failed''}))"
  using assms
proof (induction ss arbitrary: st)
  case Nil
  show ?case by simp
next
  case (Cons s ss)
  obtain s' runs where one:
    "ss_schedules (snd (tick_one env now s st)) = map (\<lambda>x. if sc_id x = sc_id s then s' else x) (ss_schedules st)"
    "advanced env now s s'" "ss_runs (snd (tick_one env now s st)) = ss_runs st @ runs"
    "length runs \<le> 1" "fst (fst (tick_one env now s st)) = map jr_id runs"
    "\<forall>r\<in>set runs. jr_schedule_id r = Some (sc_id s) \<and> jr_trigger r = ''schedule''
       \<and> jr_status r \<in> {''completed'', ''failed''}"
    by (rule tick_one_advances)
  let ?st = "snd (tick_one env now s st)"
  have ids: "map sc_id (ss_schedules ?st) = map sc_id (ss_schedules st)"
    using one(1) advanced_fields [OF one(2)] by auto
  have sub: "set ss \<subseteq> set (ss_schedules ?st)"
  proof
    fix x assume "x \<in> set ss"
    with Cons.prems(1,3) have "x \<in> set (ss_schedules st)" "sc_id x \<noteq> sc_id s"
      by (auto simp: image_iff)
    then show "x \<in> set (ss_schedules ?st)"
      unfolding one(1) set_map by (intro image_eqI [of _ _ x]) simp_all
  qed
  have d: "distinct (map sc_id (ss_schedules ?st))" using Cons.prems(2) ids by simp
  have dss: "distinct (map sc_id ss)" using Cons.prems(1) by simp
  note ih = Cons.IH [OF dss d sub]
  have loop: "tick_loop env now (s # ss) st =
      ((fst (fst (tick_one env now s st)) @ fst (fst (tick_loop env now ss ?st)),
        snd (fst (tick_one env now s st)) @ snd (fst (tick_loop env now ss ?st))),
       snd (tick_loop env now ss ?st))"
    by (simp add: Let_def split: prod.splits)
  have A: "if sc_id x \<in> sc_id ` set (s # ss) then \<exists>t\<in>set (s # ss). advanced env now t x
        else x \<in> set (ss_schedules st)"
    if "x \<in> set (ss_schedules (snd (tick_loop env now ss ?st)))" for x
  proof (cases "sc_id x \<in> sc_id ` set ss")
    case True
    then show ?thesis using ih that by auto
  next
    case False
    then have "x \<in> set (ss_schedules ?st)" using ih that Cons.prems(1) by auto
    then show ?thesis using one(1,2) advanced_fields [OF one(2)] False by auto
  qed
  obtain runs2 where r2: "ss_runs (snd (tick_loop env now ss ?st)) = ss_runs ?st @ runs2"
    "fst (fst (tick_loop env now ss ?st)) = map jr_id runs2"
    "subseq (map jr_schedule_id runs2) (map (Some \<circ> sc_id) ss)"
    "\<forall>r\<in>set runs2. jr_trigger r = ''schedule'' \<and> jr_status r \<in> {''completed'', ''failed''}"
    using ih by blast
  have B: "subseq (map jr_schedule_id (runs @ runs2)) (map (Some \<circ> sc_id) (s # ss))"
  proof (cases runs)
    case (Cons r rs)
    then have "runs = [r]" "jr_schedule_id r = Some (sc_id s)" using one(4,6) by auto
    then show ?thesis using r2(3) by simp
  qed (use r2(3) in \<open>simp add: list_emb_Cons\<close>)
  have C: "\<exists>rs. ss_runs (snd (tick_loop env now ss ?st)) = ss_runs st @ rs
      \<and> fst (fst (tick_one env now s st)) @ fst (fst (tick_loop env now ss ?st)) = map jr_id rs
      \<and> subseq (map jr_schedule_id rs) (map (Some \<circ> sc_id) (s # ss))
      \<and> (\<forall>r\<in>set rs. jr_trigger r = ''schedule'' \<and> jr_status r \<in> {''completed'', ''failed''})"
    by (rule exI [of _ "runs @ runs2"]) (use one(3,5,6) r2 B in auto)
  have D: "map sc_id (ss_schedules (snd (tick_loop env now ss ?st))) = map sc_id (ss_schedules st)"
    using ih ids by simp
  show ?case unfolding loop fst_conv snd_conv using A C D by blast
qed

section \<open>Properties\<close>

text \<open>C18. A tick runs every due schedule at most once, in order, and every run it records has ended;
  every schedule that was due is moved past the instant of the tick when its specification has a
  next run, whether its job succeeded, failed or could not be dispatched; and a schedule that was
  not due is not touched.\<close>

theorem tick_advances_due:
  assumes "distinct (map sc_id (ss_schedules st))"
  shows "\<exists>runs. ss_runs (snd (tick env now st)) = ss_runs st @ runs
    \<and> fst (fst (tick env now st)) = map jr_id runs
    \<and> subseq (map jr_schedule_id runs) (map (Some \<circ> sc_id) (list_due now st))
    \<and> (\<forall>r\<in>set runs. jr_trigger r = ''schedule'' \<and> jr_status r \<in> {''completed'', ''failed''})
    \<and> map sc_id (ss_schedules (snd (tick env now st))) = map sc_id (ss_schedules st)
    \<and> (\<forall>x\<in>set (ss_schedules (snd (tick env now st))).
         if sc_id x \<in> sc_id ` set (list_due now st) then \<exists>s\<in>set (list_due now st). advanced env now s x
         else x \<in> set (ss_schedules st))"
proof -
  have "distinct (map sc_id (list_due now st))" "set (list_due now st) \<subseteq> set (ss_schedules st)"
    using assms by (auto simp: list_due_def distinct_map_filter)
  from tick_loop_advances [OF this(1) assms this(2), of env now] show ?thesis
    unfolding tick_def by blast
qed

definition sample_sched_env :: sched_env where
  "sample_sched_env = \<lparr>se_catalogue = [\<lparr>js_key = ''scan'', js_label = ''Scan'', js_required_args = [],
      js_runner = \<lambda>a. Inl OSError\<rparr>], se_int_str = \<lambda>s. None, se_exc_str = \<lambda>e. ''boom'',
      se_new_id = \<lambda>n. replicate n CHR ''r'', se_finished_at = \<lambda>n. 0, se_bus = True\<rparr>"

definition sample_sched_state :: sched_state where
  "sample_sched_state = \<lparr>ss_schedules = [\<lparr>sc_id = ''s1'', sc_name = ''nightly'', sc_enabled = True,
      sc_job_kind = ''scan'', sc_job_args = [], sc_cron = [(''minute'', PyInt 0)],
      sc_next_run_at = Some 0, sc_last_run_at = None, sc_last_status = None\<rparr>],
      ss_runs = [], ss_events = []\<rparr>"

theorem tick_advances_due_witness:
  "\<exists>runs. ss_runs (snd (tick sample_sched_env 0 sample_sched_state)) = runs
     \<and> (\<forall>r\<in>set runs. jr_status r \<in> {''completed'', ''failed''})
     \<and> map sc_id (ss_schedules (snd (tick sample_sched_env 0 sample_sched_state))) = [''s1'']"
proof -
  have h: "distinct (map sc_id (ss_schedules sample_sched_state))" by (simp add: sample_sched_state_def)
  show ?thesis
    using tick_advances_due [OF h, of sample_sched_env 0] by (auto simp: sample_sched_state_def)
qed

end
