(* ===== verification/SessionManager.thy ===== *)
theory SessionManager
  imports PathMapping Store
begin

text \<open>
  Live playback sessions (\<open>app/services/playback/session_manager.py\<close>): one row per
  (integration, session key), written by the state events of the media server.  An event carries
  what it knows; \<open>None\<close> is a value the event does not give.  The clock reading of an event is
  an argument.
\<close>

section \<open>Rows and events\<close>

record session_info =
  si_decision :: "string option"
  si_reason_code :: "string option"
  si_source_path :: "string option"
  si_title :: "string option"
  si_grandparent_title :: "string option"
  si_user :: "string option"
  si_device_kind :: "string option"
  si_device_name :: "string option"
  si_source_codec :: "string option"
  si_source_bitrate_kbps :: "int option"
  si_source_width :: "int option"
  si_source_height :: "int option"
  si_source_container :: "string option"
  si_target_codec :: "string option"
  si_target_bitrate_kbps :: "int option"
  si_duration_ms :: "int option"
  si_media_file_id :: "string option"
  si_rating_key :: "string option"

record playback_session =
  ps_integration_id :: string
  ps_session_key :: string
  ps_state :: string
  ps_view_offset_ms :: "int option"
  ps_info :: session_info
  ps_started_at :: int
  ps_last_event_at :: int
  ps_stopped_at :: "int option"

record global_mapping =
  gm_from_path :: string
  gm_to_path :: string
  gm_enabled :: bool
  gm_priority :: int
  gm_created_at :: int

text \<open>\<open>SessionEnrichment\<close>: the snapshot; its decision is always there.\<close>

record enrichment =
  en_decision :: string
  en_info :: session_info

definition KNOWN_STATES :: "string list" where
  "KNOWN_STATES = [''playing'', ''paused'', ''buffering'', ''stopped'']"

definition empty_info :: session_info where
  "empty_info = \<lparr>si_decision = None, si_reason_code = None, si_source_path = None, si_title = None,
     si_grandparent_title = None, si_user = None, si_device_kind = None, si_device_name = None,
     si_source_codec = None, si_source_bitrate_kbps = None, si_source_width = None,
     si_source_height = None, si_source_container = None, si_target_codec = None,
     si_target_bitrate_kbps = None, si_duration_ms = None, si_media_file_id = None,
     si_rating_key = None\<rparr>"

section \<open>Writing\<close>

definition session_id :: "playback_session \<Rightarrow> string \<times> string" where
  "session_id r = (ps_integration_id r, ps_session_key r)"

text \<open>\<open>if values.get(field) is not None: setattr(row, field, values[field])\<close>.\<close>

definition keep :: "'a option \<Rightarrow> 'a option \<Rightarrow> 'a option" where
  "keep old new = (case new of None \<Rightarrow> old | Some v \<Rightarrow> Some v)"

definition merge_info :: "session_info \<Rightarrow> session_info \<Rightarrow> session_info" where
  "merge_info row v =
     \<lparr>si_decision = keep (si_decision row) (si_decision v),
      si_reason_code = keep (si_reason_code row) (si_reason_code v),
      si_source_path = keep (si_source_path row) (si_source_path v),
      si_title = keep (si_title row) (si_title v),
      si_grandparent_title = keep (si_grandparent_title row) (si_grandparent_title v),
      si_user = keep (si_user row) (si_user v),
      si_device_kind = keep (si_device_kind row) (si_device_kind v),
      si_device_name = keep (si_device_name row) (si_device_name v),
      si_source_codec = keep (si_source_codec row) (si_source_codec v),
      si_source_bitrate_kbps = keep (si_source_bitrate_kbps row) (si_source_bitrate_kbps v),
      si_source_width = keep (si_source_width row) (si_source_width v),
      si_source_height = keep (si_source_height row) (si_source_height v),
      si_source_container = keep (si_source_container row) (si_source_container v),
      si_target_codec = keep (si_target_codec row) (si_target_codec v),
      si_target_bitrate_kbps = keep (si_target_bitrate_kbps row) (si_target_bitrate_kbps v),
      si_duration_ms = keep (si_duration_ms row) (si_duration_ms v),
      si_media_file_id = keep (si_media_file_id row) (si_media_file_id v),
      si_rating_key = keep (si_rating_key row) (si_rating_key v)\<rparr>"

definition session_merge :: "playback_session \<Rightarrow> playback_session \<Rightarrow> playback_session" where
  "session_merge row v =
     row\<lparr>ps_state := ps_state v, ps_last_event_at := ps_last_event_at v,
         ps_view_offset_ms := ps_view_offset_ms v,
         ps_stopped_at := keep (ps_stopped_at row) (ps_stopped_at v),
         ps_info := merge_info (ps_info row) (ps_info v)\<rparr>"

text \<open>\<open>insert_values.setdefault("decision", "direct_play")\<close>.\<close>

definition insert_values :: "playback_session \<Rightarrow> playback_session" where
  "insert_values v =
     v\<lparr>ps_info := (ps_info v)\<lparr>si_decision :=
        (case si_decision (ps_info v) of None \<Rightarrow> Some ''direct_play'' | Some d \<Rightarrow> Some d)\<rparr>\<rparr>"

definition session_upsert :: "playback_session \<Rightarrow> playback_session list \<Rightarrow> playback_session list" where
  "session_upsert v t =
     (case table_find session_id (session_id v) t of
        None \<Rightarrow> table_upsert session_id session_merge (insert_values v) t
      | Some _ \<Rightarrow> table_upsert session_id session_merge v t)"

definition load_global_mappings :: "global_mapping list \<Rightarrow> path_mapping list" where
  "load_global_mappings rows =
     map (\<lambda>g. \<lparr>src_prefix = gm_from_path g, dst_prefix = gm_to_path g\<rparr>)
       (sort_key gm_priority (sort_key gm_created_at (filter gm_enabled rows)))"

definition resolve_media_path :: "string \<Rightarrow> media_file list \<Rightarrow> string option" where
  "resolve_media_path path files = map_option mf_id (table_find mf_path path files)"

text \<open>The columns of an event, with the path mapped and resolved.\<close>

definition event_info ::
    "path_mapping list \<Rightarrow> global_mapping list \<Rightarrow> media_file list \<Rightarrow> enrichment option
     \<Rightarrow> string option \<Rightarrow> session_info" where
  "event_info int_mappings globals files en rating_key =
     (let base = (case en of None \<Rightarrow> empty_info
                  | Some e \<Rightarrow> (en_info e)\<lparr>si_decision := Some (en_decision e),
                       si_media_file_id := None, si_rating_key := None\<rparr>);
          keyed = base\<lparr>si_rating_key := (case rating_key of None \<Rightarrow> None
                          | Some k \<Rightarrow> if k = [] then None else Some k)\<rparr> in
      case si_source_path base of
        None \<Rightarrow> keyed
      | Some p \<Rightarrow>
          if p = [] then keyed
          else (let mapped = remap_path_chain p int_mappings (load_global_mappings globals) in
                keyed\<lparr>si_source_path := Some mapped,
                      si_media_file_id := resolve_media_path mapped files\<rparr>))"

definition event_row ::
    "string \<Rightarrow> string \<Rightarrow> string \<Rightarrow> int option \<Rightarrow> session_info \<Rightarrow> int \<Rightarrow> playback_session" where
  "event_row integration_id session_key state0 view_offset_ms info now =
     (let state = (if state0 \<in> set KNOWN_STATES then state0 else ''playing'') in
      \<lparr>ps_integration_id = integration_id, ps_session_key = session_key, ps_state = state,
       ps_view_offset_ms = view_offset_ms, ps_info = info, ps_started_at = now,
       ps_last_event_at = now, ps_stopped_at = (if state = ''stopped'' then Some now else None)\<rparr>)"

definition handle_state_event ::
    "string \<Rightarrow> path_mapping list \<Rightarrow> global_mapping list \<Rightarrow> media_file list \<Rightarrow> string \<Rightarrow> string
     \<Rightarrow> int option \<Rightarrow> enrichment option \<Rightarrow> string option \<Rightarrow> int
     \<Rightarrow> playback_session list \<Rightarrow> playback_session list" where
  "handle_state_event integration_id int_mappings globals files session_key state view_offset_ms
     en rating_key now t =
     session_upsert (event_row integration_id session_key state view_offset_ms
       (event_info int_mappings globals files en rating_key) now) t"

definition list_active_sessions :: "string option \<Rightarrow> playback_session list \<Rightarrow> playback_session list" where
  "list_active_sessions integration_id t =
     filter (\<lambda>r. ps_state r \<noteq> ''stopped'' \<and>
       (case integration_id of None \<Rightarrow> True | Some i \<Rightarrow> ps_integration_id r = i)) t"

section \<open>The contract of the session table\<close>

lemma keep_simps [simp]:
  "keep (keep a b) b = keep a b" "keep a a = a" "keep a None = a" "keep a (Some x) = Some x"
  by (simp_all add: keep_def split: option.split)

lemma merge_info_simps [simp]:
  "merge_info (merge_info a b) b = merge_info a b" "merge_info a a = a" "merge_info a empty_info = a"
  by (simp_all add: merge_info_def empty_info_def)

interpretation sessions: replay_table session_id session_merge
  by unfold_locales (auto simp: session_id_def session_merge_def)

lemma insert_values_id [simp]: "session_id (insert_values v) = session_id v"
  by (simp add: insert_values_def session_id_def)

text \<open>The row of an event's session after the event.\<close>

definition after_event :: "playback_session \<Rightarrow> playback_session option \<Rightarrow> playback_session" where
  "after_event v old = (case old of None \<Rightarrow> insert_values v | Some x \<Rightarrow> session_merge x v)"

lemma find_session_upsert:
  "table_find session_id k (session_upsert v t) =
     (if k = session_id v then Some (after_event v (table_find session_id k t))
      else table_find session_id k t)"
  by (simp add: session_upsert_def sessions.find_upsert after_event_def split: option.split)

lemma unique_session_upsert:
  "unique_keys session_id t \<Longrightarrow> unique_keys session_id (session_upsert v t)"
  by (simp add: session_upsert_def sessions.upsert_unique split: option.split)

lemma session_upsert_replay: "session_upsert v (session_upsert v t) = session_upsert v t"
proof (cases "table_find session_id (session_id v) t")
  case None
  let ?t = "session_upsert v t"
  have f: "table_find session_id (session_id v) ?t = Some (insert_values v)"
    using None by (simp add: find_session_upsert after_event_def)
  have t: "?t = t @ [insert_values v]" using None by (simp add: session_upsert_def table_upsert_def)
  have "\<forall>x\<in>set t. session_id x \<noteq> session_id v" using None by (auto simp: table_find_None_iff image_iff)
  moreover have "session_merge (insert_values v) v = insert_values v"
    by (simp add: session_merge_def insert_values_def merge_info_def keep_def split: option.split)
  ultimately have "table_upsert session_id session_merge v ?t = ?t"
    unfolding table_upsert_def f by (simp add: t map_idI)
  then show ?thesis using f by (simp add: session_upsert_def [of v ?t])
next
  case (Some x)
  then show ?thesis
    by (simp add: session_upsert_def sessions.find_upsert sessions.upsert_replay)
qed

text \<open>The table's constraints: the unique key, and a decision that is never null.\<close>

definition sessions_ok :: "playback_session list \<Rightarrow> bool" where
  "sessions_ok t = (unique_keys session_id t \<and> (\<forall>r\<in>set t. si_decision (ps_info r) \<noteq> None))"

lemma sessions_ok_upsert: "sessions_ok t \<Longrightarrow> sessions_ok (session_upsert v t)"
proof -
  assume ok: "sessions_ok t"
  have m: "si_decision (ps_info x) \<noteq> None \<Longrightarrow> si_decision (ps_info (session_merge x w)) \<noteq> None" for x w
    by (simp add: session_merge_def merge_info_def keep_def split: option.split)
  have i: "si_decision (ps_info (insert_values v)) \<noteq> None"
    by (simp add: insert_values_def split: option.split)
  have "si_decision (ps_info r) \<noteq> None" if "r \<in> set (session_upsert v t)" for r
    using that ok m i
    by (auto simp: session_upsert_def table_upsert_def sessions_ok_def split: option.splits if_splits)
  with ok show ?thesis by (simp add: sessions_ok_def unique_session_upsert)
qed

definition known_state :: "string \<Rightarrow> string" where
  "known_state s = (if s \<in> set KNOWN_STATES then s else ''playing'')"

section \<open>Properties\<close>

text \<open>The session table keeps its constraints, and an event touches only its own session's row:
  it sets the state (an unknown one counts as playing), the position and the time of the last
  event, marks the session stopped when it is, and keeps the start and every piece of metadata the
  event does not carry.\<close>

theorem session_event_row:
  assumes "sessions_ok t"
  shows "\<exists>t'. handle_state_event i im gm files k s off en rk now t = t' \<and> sessions_ok t'
    \<and> (\<forall>key. key \<noteq> (i, k) \<longrightarrow> table_find session_id key t' = table_find session_id key t)
    \<and> (\<exists>r. table_find session_id (i, k) t' = Some r \<and> ps_state r = known_state s
        \<and> ps_view_offset_ms r = off \<and> ps_last_event_at r = now
        \<and> (known_state s = ''stopped'' \<longrightarrow> ps_stopped_at r = Some now)
        \<and> (\<forall>x. table_find session_id (i, k) t = Some x \<longrightarrow> ps_started_at r = ps_started_at x
             \<and> ps_info r = merge_info (ps_info x) (event_info im gm files en rk)))"
proof -
  let ?v = "event_row i k s off (event_info im gm files en rk) now"
  let ?t = "handle_state_event i im gm files k s off en rk now t"
  let ?r = "after_event ?v (table_find session_id (i, k) t)"
  have key: "session_id ?v = (i, k)" by (simp add: session_id_def event_row_def Let_def)
  have f: "table_find session_id key ?t =
      (if key = (i, k) then Some ?r else table_find session_id key t)" for key
    by (simp add: handle_state_event_def find_session_upsert key)
  have "sessions_ok ?t" using assms by (simp add: handle_state_event_def sessions_ok_upsert)
  moreover have "ps_state ?r = known_state s \<and> ps_view_offset_ms ?r = off \<and> ps_last_event_at ?r = now
      \<and> (known_state s = ''stopped'' \<longrightarrow> ps_stopped_at ?r = Some now)"
    by (auto simp: after_event_def insert_values_def session_merge_def event_row_def keep_def Let_def
        known_state_def split: option.splits)
  moreover have "\<forall>x. table_find session_id (i, k) t = Some x \<longrightarrow> ps_started_at ?r = ps_started_at x
      \<and> ps_info ?r = merge_info (ps_info x) (event_info im gm files en rk)"
    by (auto simp: after_event_def session_merge_def event_row_def Let_def)
  ultimately show ?thesis using f by auto
qed

theorem session_event_row_witness:
  "\<exists>t'. handle_state_event ''plex'' [] [] [] ''s1'' ''warp'' None None None 7 [] = t'
     \<and> map_option ps_state (table_find session_id (''plex'', ''s1'') t') = Some ''playing''"
proof -
  have "sessions_ok []" by (simp add: sessions_ok_def unique_keys_def)
  from session_event_row [OF this, of "''plex''" "[]" "[]" "[]" "''s1''" "''warp''" None None None 7]
  show ?thesis by (auto simp: known_state_def KNOWN_STATES_def)
qed

text \<open>Delivering the same event twice is delivering it once, whatever the event and the table.\<close>

theorem session_event_idempotent:
  "handle_state_event i im gm files k s off en rk now
     (handle_state_event i im gm files k s off en rk now t) =
   handle_state_event i im gm files k s off en rk now t"
  by (simp add: handle_state_event_def session_upsert_replay)

text \<open>A session that resumes keeps the instant it had stopped at: its row is live and stopped at
  once.\<close>

lemma resumed_session_keeps_stop:
  "map_option (\<lambda>r. (ps_state r, ps_stopped_at r)) (table_find session_id (''plex'', ''s1'')
     (handle_state_event ''plex'' [] [] [] ''s1'' ''playing'' None None None 9
       (handle_state_event ''plex'' [] [] [] ''s1'' ''stopped'' None None None 5 [])))
   = Some (''playing'', Some 5)"
  by (simp add: handle_state_event_def find_session_upsert event_row_def event_info_def Let_def
      KNOWN_STATES_def session_id_def after_event_def insert_values_def session_merge_def empty_info_def
      keep_def)

end
