(* ===== verification/FfmpegRunner.thy ===== *)
theory FfmpegRunner
  imports ProfileSchema
begin

text \<open>
  The ffmpeg runner (\<open>app/optimization/ffmpeg_runner.py\<close>): the command line of a profile, the
  progress pipe, the bounded stderr buffer, and the checks on the finished output.  ffmpeg itself is
  a parameter: \<open>ffmpeg_run\<close> is what one invocation writes to its pipes, when the cancel event is
  seen, the exit code and the bytes left at the output path; \<open>int_of_str\<close> is \<open>int(s)\<close>.
  Double arithmetic is that of the prelude.  The theorems give the shape of the command line, the
  bounds and the order of the progress reports, and the exact content of the stderr buffer.
\<close>

section \<open>The command line\<close>

record transcode_request =
  tq_input_path :: string
  tq_output_path :: string
  tq_profile :: profile_definition
  tq_input_duration_seconds :: "pyfloat option"

definition effective_codecs :: "profile_definition \<Rightarrow> string \<times> string" where
  "effective_codecs p =
     (if pd_transcode_scope p = ''video_only'' then (vs_codec (pd_video p), ''copy'')
      else if pd_transcode_scope p = ''audio_only'' then (''copy'', as_codec (pd_audio p))
      else (vs_codec (pd_video p), as_codec (pd_audio p)))"

definition opt_arg :: "('a \<Rightarrow> string list) \<Rightarrow> 'a option \<Rightarrow> string list" where
  "opt_arg f x = (case x of None \<Rightarrow> [] | Some v \<Rightarrow> f v)"

definition video_args :: "profile_definition \<Rightarrow> string \<Rightarrow> string list" where
  "video_args p codec =
     [''-c:v'', codec] @
     (if codec = ''copy'' then []
      else opt_arg (\<lambda>n. [''-crf'', str_int n]) (vs_crf (pd_video p))
         @ opt_arg (\<lambda>s. if s = [] then [] else [''-preset'', s]) (vs_preset (pd_video p))
         @ opt_arg (\<lambda>n. [''-maxrate'', str_int n @ ''k'', ''-bufsize'', str_int (n * 2) @ ''k''])
             (vs_max_bitrate_kbps (pd_video p))
         @ opt_arg (\<lambda>n. [''-vf'', ''scale=trunc(iw*('' @ str_int n @ ''/ih)/2)*2:'' @ str_int n])
             (vs_scale_height (pd_video p)))"

definition audio_args :: "profile_definition \<Rightarrow> string \<Rightarrow> string list" where
  "audio_args p codec =
     [''-c:a'', codec] @
     (if codec = ''copy'' then []
      else opt_arg (\<lambda>n. [''-b:a'', str_int n @ ''k'']) (as_bitrate_kbps (pd_audio p))
         @ opt_arg (\<lambda>n. [''-ac'', str_int n]) (as_channels (pd_audio p)))"

definition build_ffmpeg_argv :: "transcode_request \<Rightarrow> string \<Rightarrow> string list" where
  "build_ffmpeg_argv req ffmpeg_bin =
     (let p = tq_profile req; (video_codec, audio_codec) = effective_codecs p;
          copy_subs = (ss_handling (pd_subtitles p) = ''copy'')
      in [ffmpeg_bin, ''-y'', ''-hide_banner'', ''-nostdin'', ''-loglevel'', ''error'',
          ''-progress'', ''pipe:1'', ''-i'', tq_input_path req]
         @ [''-map'', ''0:v:0?''] @ [''-map'', ''0:a?'']
         @ (if copy_subs then [''-map'', ''0:s?''] else [])
         @ video_args p video_codec
         @ audio_args p audio_codec
         @ (if copy_subs then [''-c:s'', ''copy''] else [])
         @ pd_extra_args p
         @ [tq_output_path req])"

section \<open>Progress\<close>

definition parse_out_time_us :: "(string \<Rightarrow> int option) \<Rightarrow> string \<Rightarrow> int option" where
  "parse_out_time_us int_of_str line =
     (if prefix ''out_time_us='' line then int_of_str (py_strip (drop 12 line)) else None)"

definition drain_line :: "string list \<Rightarrow> string \<Rightarrow> string list" where
  "drain_line buffer chunk =
     (let b = buffer @ [chunk] in if 200 < length b then drop (length b - 200) b else b)"

definition drain_stream :: "string list \<Rightarrow> string list" where
  "drain_stream chunks = foldl drain_line [] chunks"

definition progress_pct :: "int \<Rightarrow> int \<Rightarrow> int result" where
  "progress_pct out_time_us duration_us =
     bind_r (true_div out_time_us duration_us) (\<lambda>q.
     Inr \<lfloor>min 100 (max 0 (float_mult q 100))\<rfloor>)"

text \<open>The stdout loop: the percentages reported, in order, and the last one.  \<open>cancelled k\<close> is
  whether the cancel event is set when the loop is about to read line \<open>k\<close>.\<close>

fun progress_loop ::
    "(string \<Rightarrow> int option) \<Rightarrow> (nat \<Rightarrow> bool) \<Rightarrow> int \<Rightarrow> nat \<Rightarrow> string list \<Rightarrow> int
     \<Rightarrow> (int list \<times> int) result" where
  "progress_loop int_of_str cancelled duration_us k lines last_pct =
     (if cancelled k then Inr ([], last_pct)
      else case lines of
        [] \<Rightarrow> Inr ([], last_pct)
      | line # rest \<Rightarrow>
          (case parse_out_time_us int_of_str (py_strip line) of
             None \<Rightarrow> progress_loop int_of_str cancelled duration_us (Suc k) rest last_pct
           | Some out_time_us \<Rightarrow>
               if duration_us \<le> 0
               then progress_loop int_of_str cancelled duration_us (Suc k) rest last_pct
               else bind_r (progress_pct out_time_us duration_us) (\<lambda>pct.
                 if pct = last_pct
                 then progress_loop int_of_str cancelled duration_us (Suc k) rest last_pct
                 else bind_r (progress_loop int_of_str cancelled duration_us (Suc k) rest pct)
                        (\<lambda>(ps, l). Inr (pct # ps, l)))))"

declare progress_loop.simps [simp del]

section \<open>One transcode\<close>

record ffmpeg_run =
  fr_spawn_error :: "pyerr option"
  fr_stdout :: "string list"
  fr_stderr :: "string list"
  fr_cancelled :: "nat \<Rightarrow> bool"
  fr_return_code :: int
  fr_output :: "string option"

record transcode_result =
  trs_success :: bool
  trs_return_code :: int
  trs_stderr_tail :: string
  trs_last_progress_pct :: int

definition duration_micros :: "pyfloat option \<Rightarrow> int result" where
  "duration_micros d =
     (case d of None \<Rightarrow> Inr 0
      | Some NaN \<Rightarrow> Inl ValueError
      | Some (Fin s) \<Rightarrow>
          if s = 0 then Inr 0
          else let v = float_mult s 1000000
               in if 2 ^ 1024 \<le> \<bar>v\<bar> then Inl OverflowError
                  else Inr (if v < 0 then - \<lfloor>- v\<rfloor> else \<lfloor>v\<rfloor>)
      | Some _ \<Rightarrow> Inl OverflowError)"

definition py_last :: "nat \<Rightarrow> string \<Rightarrow> string" where
  "py_last n s = drop (length (py_take (py_len s - n) s)) s"

text \<open>The result with the percentages passed to the progress callback.\<close>

definition run_transcode ::
    "(string \<Rightarrow> int option) \<Rightarrow> ffmpeg_run \<Rightarrow> transcode_request \<Rightarrow> (transcode_result \<times> int list) result" where
  "run_transcode int_of_str run req =
     (case fr_spawn_error run of
        Some e \<Rightarrow> Inl e
      | None \<Rightarrow>
          bind_r (duration_micros (tq_input_duration_seconds req)) (\<lambda>duration_us.
          bind_r (progress_loop int_of_str (fr_cancelled run) duration_us 0 (fr_stdout run) 0)
            (\<lambda>(reported, last_pct).
             let success = (fr_return_code run = 0 \<and> fr_output run \<noteq> None) in
             Inr (\<lparr>trs_success = success, trs_return_code = fr_return_code run,
                   trs_stderr_tail = py_last 2000 (concat (drain_stream (fr_stderr run))),
                   trs_last_progress_pct = (if success then 100 else last_pct)\<rparr>,
                  if success then reported @ [100] else reported))))"

section \<open>Checking the output\<close>

record probe_result =
  pr_ok :: bool
  pr_error :: "string option"
  pr_video_codec :: "string option"
  pr_duration_seconds :: "rat option"

definition duration_within_tolerance :: "rat \<Rightarrow> rat \<Rightarrow> bool" where
  "duration_within_tolerance actual expected =
     (let delta = \<bar>float_minus actual expected\<bar>;
          rel = float_mult expected (round_double (2 / 100))
      in delta \<le> rel \<or> delta \<le> 1 / 2)"

text \<open>\<open>validate_output\<close>: \<open>None\<close> for an accepted output, otherwise the reason.  The text
  of a rejected duration is a parameter.\<close>

definition truthy_opt :: "string option \<Rightarrow> bool" where
  "truthy_opt s = (s \<noteq> None \<and> s \<noteq> Some [])"

definition check_output ::
    "(rat \<Rightarrow> rat \<Rightarrow> string) \<Rightarrow> (string \<Rightarrow> probe_result option) \<Rightarrow> string option \<Rightarrow> rat option
     \<Rightarrow> string option" where
  "check_output duration_message probe output expected =
     (case output of
        None \<Rightarrow> Some ''output file missing''
      | Some bytes \<Rightarrow>
          if bytes = [] then Some ''output file is empty''
          else case probe bytes of
            None \<Rightarrow> Some ''ffprobe failed''
          | Some pr \<Rightarrow>
              if \<not> pr_ok pr
              then Some (case pr_error pr of
                           Some e \<Rightarrow> if e = [] then ''ffprobe failed'' else e
                         | None \<Rightarrow> ''ffprobe failed'')
              else if \<not> truthy_opt (pr_video_codec pr) then Some ''output has no video stream''
              else case (expected, pr_duration_seconds pr) of
                (Some e, Some d) \<Rightarrow>
                  if e \<noteq> 0 \<and> d \<noteq> 0 \<and> \<not> duration_within_tolerance d e
                  then Some (duration_message d e) else None
              | _ \<Rightarrow> None)"

section \<open>The stderr buffer and the progress reports\<close>

lemma drain_stream_last: "drain_stream chunks = drop (length chunks - 200) chunks"
proof (induction chunks rule: rev_induct)
  case (snoc c cs)
  show ?case
  proof (cases "length cs < 200")
    case True
    with snoc show ?thesis by (simp add: drain_stream_def drain_line_def)
  next
    case False
    then have "Suc (length cs - 200) = length cs - 199" by simp
    with False snoc show ?thesis by (simp add: drain_stream_def drain_line_def)
  qed
qed (simp add: drain_stream_def)

lemma progress_pct_bounds: "progress_pct a d = Inr p \<Longrightarrow> 0 \<le> p \<and> p \<le> 100"
proof -
  assume "progress_pct a d = Inr p"
  then obtain x where p: "p = \<lfloor>min 100 (max 0 (x :: rat))\<rfloor>"
    by (auto simp: progress_pct_def bind_r_Inr_iff)
  have "0 \<le> min 100 (max 0 x)" "min 100 (max 0 x) \<le> 100" by auto
  then show ?thesis unfolding p by (auto simp: floor_le_iff le_floor_iff)
qed

text \<open>Neighbours in \<open>last # reports\<close> differ, and every report is a percentage.\<close>

lemma progress_loop_reports:
  "progress_loop ints cancelled d k lines l0 = Inr (ps, l) \<Longrightarrow>
     distinct_adj (l0 # ps) \<and> (\<forall>p\<in>set ps. 0 \<le> p \<and> p \<le> 100) \<and> l = last (l0 # ps)"
proof (induction lines arbitrary: k l0 ps l)
  case Nil
  then show ?case by (auto simp: progress_loop.simps split: if_splits)
next
  case (Cons line rest)
  note loop = progress_loop.simps [of ints cancelled d k "line # rest" l0]
  show ?case
  proof (cases "cancelled k")
    case True
    with Cons.prems show ?thesis by (simp add: loop)
  next
    case nc: False
    show ?thesis
    proof (cases "\<exists>us. parse_out_time_us ints (py_strip line) = Some us \<and> \<not> d \<le> 0")
      case False
      with nc Cons.prems show ?thesis
        by (intro Cons.IH) (auto simp: loop split: option.splits)
    next
      case True
      with nc Cons.prems obtain pct us where pct: "progress_pct us d = Inr pct"
        and r: "(if pct = l0 then progress_loop ints cancelled d (Suc k) rest l0
               else bind_r (progress_loop ints cancelled d (Suc k) rest pct)
                      (\<lambda>(ps, l). Inr (pct # ps, l))) = Inr (ps, l)"
        by (auto simp: loop bind_r_Inr_iff)
      show ?thesis
      proof (cases "pct = l0")
        case True
        with r show ?thesis by (intro Cons.IH) simp
      next
        case False
        with r obtain ps' where "progress_loop ints cancelled d (Suc k) rest pct = Inr (ps', l)"
          "ps = pct # ps'" by (auto simp: bind_r_Inr_iff)
        with Cons.IH progress_pct_bounds [OF pct] False show ?thesis by auto
      qed
    qed
  qed
qed

section \<open>Properties\<close>

text \<open>The command line reads the input once, writes the output last, and encodes exactly the
  streams in scope: the codec option of a stream out of scope, or of one the profile copies, is
  \<open>copy\<close>, and then no encoder option of that stream is passed.  With a validated profile the
  scope \<open>video_only\<close> re-encodes the video and \<open>audio_only\<close> the audio.\<close>

theorem ffmpeg_argv_shape:
  assumes "validate_profile p = Inr q" "tq_profile req = q"
  shows "\<exists>v a mid post.
     build_ffmpeg_argv req bin =
       [bin, ''-y'', ''-hide_banner'', ''-nostdin'', ''-loglevel'', ''error'', ''-progress'', ''pipe:1'',
        ''-i'', tq_input_path req] @ mid @ video_args q v @ audio_args q a @ post
        @ pd_extra_args q @ [tq_output_path req]
     \<and> set mid \<subseteq> {''-map'', ''0:v:0?'', ''0:a?'', ''0:s?''} \<and> set post \<subseteq> {''-c:s'', ''copy''}
     \<and> (v = ''copy'' \<longrightarrow> video_args q v = [''-c:v'', ''copy''])
     \<and> (a = ''copy'' \<longrightarrow> audio_args q a = [''-c:a'', ''copy''])
     \<and> (pd_transcode_scope q = ''video_only'' \<longrightarrow> v \<noteq> ''copy'' \<and> a = ''copy'')
     \<and> (pd_transcode_scope q = ''audio_only'' \<longrightarrow> v = ''copy'' \<and> a \<noteq> ''copy'')
     \<and> (pd_transcode_scope q = ''video_and_audio'' \<longrightarrow>
          v = vs_codec (pd_video q) \<and> a = as_codec (pd_audio q))"
proof -
  obtain v a where va: "effective_codecs q = (v, a)" by fastforce
  have compat: "validate_scope_codec_compat q = Inr ()"
    using validate_profile_ok [OF assms(1)] by simp
  show ?thesis
  proof (intro exI conjI)
    show "build_ffmpeg_argv req bin =
       [bin, ''-y'', ''-hide_banner'', ''-nostdin'', ''-loglevel'', ''error'', ''-progress'', ''pipe:1'',
        ''-i'', tq_input_path req]
        @ ([''-map'', ''0:v:0?'', ''-map'', ''0:a?'']
            @ (if ss_handling (pd_subtitles q) = ''copy'' then [''-map'', ''0:s?''] else []))
        @ video_args q v @ audio_args q a
        @ (if ss_handling (pd_subtitles q) = ''copy'' then [''-c:s'', ''copy''] else [])
        @ pd_extra_args q @ [tq_output_path req]"
      by (simp add: build_ffmpeg_argv_def assms(2) va)
  qed (use va compat in \<open>auto simp: effective_codecs_def video_args_def audio_args_def
        validate_scope_codec_compat_def split: if_splits\<close>)
qed

theorem ffmpeg_argv_shape_witness:
  "\<exists>v a mid post.
     build_ffmpeg_argv \<lparr>tq_input_path = ''/m/a.avi'', tq_output_path = ''/m/a.auditarr.tmp.mkv'',
         tq_profile = default_profile, tq_input_duration_seconds = None\<rparr> ''ffmpeg'' =
       [''ffmpeg'', ''-y'', ''-hide_banner'', ''-nostdin'', ''-loglevel'', ''error'', ''-progress'',
        ''pipe:1'', ''-i'', ''/m/a.avi''] @ mid @ video_args default_profile v
        @ audio_args default_profile a @ post @ [''/m/a.auditarr.tmp.mkv'']
     \<and> v = ''libx265'' \<and> audio_args default_profile a = [''-c:a'', ''copy'']"
proof -
  let ?req = "\<lparr>tq_input_path = ''/m/a.avi'', tq_output_path = ''/m/a.auditarr.tmp.mkv'',
         tq_profile = default_profile, tq_input_duration_seconds = None\<rparr>"
  have "validate_profile default_profile = Inr default_profile" by code_simp
  from ffmpeg_argv_shape [OF this, of ?req "''ffmpeg''"] show ?thesis
    by (auto simp: default_profile_def)
qed

text \<open>A transcode reports its progress as percentages between 0 and 100, and the pipe never
  repeats a percentage in a row nor starts with zero; a run that succeeds ends with a report of 100,
  the last percentage is the last one reported, and the error text kept is the tail of the last 200
  lines ffmpeg wrote to stderr.\<close>

theorem run_transcode_reports:
  assumes "run_transcode ints run req = Inr (res, ps)"
  shows "(\<forall>p\<in>set ps. 0 \<le> p \<and> p \<le> 100)
     \<and> (trs_success res \<longleftrightarrow> trs_return_code res = 0 \<and> fr_output run \<noteq> None)
     \<and> trs_last_progress_pct res = last (0 # ps)
     \<and> distinct_adj (0 # (if trs_success res then butlast ps else ps))
     \<and> (trs_success res \<longrightarrow> trs_last_progress_pct res = 100)
     \<and> suffix (trs_stderr_tail res)
          (concat (drop (length (fr_stderr run) - 200) (fr_stderr run)))"
proof -
  from assms obtain d rs l where loop:
      "progress_loop ints (fr_cancelled run) d 0 (fr_stdout run) 0 = Inr (rs, l)"
    and ps: "ps = (if trs_success res then rs @ [100] else rs)"
    and res: "trs_success res \<longleftrightarrow> trs_return_code res = 0 \<and> fr_output run \<noteq> None"
      "trs_last_progress_pct res = (if trs_success res then 100 else l)"
      "trs_stderr_tail res = py_last 2000 (concat (drain_stream (fr_stderr run)))"
    by (auto simp: run_transcode_def bind_r_Inr_iff Let_def split: option.splits)
  from progress_loop_reports [OF loop] ps res show ?thesis
    by (auto simp: drain_stream_last py_last_def suffix_drop)
qed

theorem run_transcode_reports_witness:
  "\<exists>res ps. run_transcode (\<lambda>s. None)
       \<lparr>fr_spawn_error = None, fr_stdout = [''frame=1'', ''progress=end''],
        fr_stderr = [], fr_cancelled = (\<lambda>k. False), fr_return_code = 0, fr_output = Some ''x''\<rparr>
       \<lparr>tq_input_path = ''/m/a.avi'', tq_output_path = ''/m/a.auditarr.tmp.mkv'',
        tq_profile = default_profile, tq_input_duration_seconds = None\<rparr> = Inr (res, ps)
     \<and> (\<forall>p\<in>set ps. 0 \<le> p \<and> p \<le> 100) \<and> ps = [100] \<and> trs_last_progress_pct res = 100"
proof -
  have run: "run_transcode (\<lambda>s. None)
       \<lparr>fr_spawn_error = None, fr_stdout = [''frame=1'', ''progress=end''],
        fr_stderr = [], fr_cancelled = (\<lambda>k. False), fr_return_code = 0, fr_output = Some ''x''\<rparr>
       \<lparr>tq_input_path = ''/m/a.avi'', tq_output_path = ''/m/a.auditarr.tmp.mkv'',
        tq_profile = default_profile, tq_input_duration_seconds = None\<rparr> =
     Inr (\<lparr>trs_success = True, trs_return_code = 0, trs_stderr_tail = [],
           trs_last_progress_pct = 100\<rparr>, [100])"
    by (simp add: run_transcode_def duration_micros_def progress_loop.simps parse_out_time_us_def
        drain_stream_def py_last_def)
  from run run_transcode_reports [OF run] show ?thesis by simp
qed

end
