(* ===== verification/Secrets.thy ===== *)
theory Secrets
  imports Prelude
begin

text \<open>
  The secret box (\<open>app/security/secrets.py\<close>): base64 as Python's \<open>base64\<close> module
  does it, the wire format \<open>version | nonce | ciphertext\<close>, and the two pairs of operations.
  Parameters (\<open>crypto\<close>): AES-256-GCM of the \<open>cryptography\<close> package under the derived key
  and the JSON codec.  The laws that are used of them are the locale \<open>sealed_box\<close>: GCM opens what
  it sealed under the same nonce and its tag is 16 bytes long.  Bytes are characters.
\<close>

section \<open>base64\<close>

definition B64_ALPHABET :: string where
  "B64_ALPHABET = ''ABCDEFGHIJKLMNOPQRSTUVWXYZabcdefghijklmnopqrstuvwxyz0123456789+/''"

definition b64_char :: "nat \<Rightarrow> char" where
  "b64_char n = B64_ALPHABET ! n"

fun index_of :: "'a \<Rightarrow> 'a list \<Rightarrow> nat option" where
  "index_of x [] = None"
| "index_of x (y # ys) = (if x = y then Some 0 else map_option Suc (index_of x ys))"

definition b64_value :: "char \<Rightarrow> nat option" where
  "b64_value c = index_of c B64_ALPHABET"

fun b64encode :: "string \<Rightarrow> string" where
  "b64encode [] = []"
| "b64encode [a] =
     (let n = of_char a * 65536
      in [b64_char (n div 262144), b64_char (n div 4096 mod 64), CHR ''='', CHR ''=''])"
| "b64encode [a, b] =
     (let n = of_char a * 65536 + of_char b * 256
      in [b64_char (n div 262144), b64_char (n div 4096 mod 64), b64_char (n div 64 mod 64), CHR ''=''])"
| "b64encode (a # b # c # rest) =
     (let n = of_char a * 65536 + of_char b * 256 + of_char c
      in b64_char (n div 262144) # b64_char (n div 4096 mod 64) # b64_char (n div 64 mod 64)
         # b64_char (n mod 64) # b64encode rest)"

text \<open>\<open>b64decode(token, validate=True)\<close>: \<open>None\<close> where it raises.  Strict decoding
  reads groups of four characters of the alphabet; only the last group may be padded.\<close>

definition opt_bind :: "'a option \<Rightarrow> ('a \<Rightarrow> 'b option) \<Rightarrow> 'b option" where
  "opt_bind x f = (case x of None \<Rightarrow> None | Some y \<Rightarrow> f y)"

definition join64 :: "nat \<Rightarrow> nat \<Rightarrow> nat" where
  "join64 hi lo = hi * 64 + lo"

fun b64decode :: "string \<Rightarrow> string option" where
  "b64decode [] = Some []"
| "b64decode (p # q # r # s # rest) =
     opt_bind (b64_value p) (\<lambda>i. opt_bind (b64_value q) (\<lambda>j.
       if s = CHR ''='' \<and> rest = [] then
         (if r = CHR ''='' then Some [char_of (join64 i j div 16)]
          else opt_bind (b64_value r) (\<lambda>k.
            let n = join64 (join64 i j) k in Some [char_of (n div 1024), char_of (n div 4 mod 256)]))
       else opt_bind (b64_value r) (\<lambda>k. opt_bind (b64_value s) (\<lambda>l.
         let n = join64 (join64 (join64 i j) k) l in
         opt_bind (b64decode rest) (\<lambda>out.
           Some (char_of (n div 65536) # char_of (n div 256 mod 256) # char_of (n mod 256) # out))))))"
| "b64decode _ = None"

lemma b64_value_char [simp]: "n < 64 \<Longrightarrow> b64_value (b64_char n) = Some n"
proof -
  have "list_all (\<lambda>n. b64_value (b64_char n) = Some n) [0..<64]" by code_simp
  then show "n < 64 \<Longrightarrow> b64_value (b64_char n) = Some n" by (simp add: list_all_iff)
qed

lemma b64_char_not_pad [simp]: "n < 64 \<Longrightarrow> b64_char n \<noteq> CHR ''=''"
proof -
  have "list_all (\<lambda>n. b64_char n \<noteq> CHR ''='') [0..<64]" by code_simp
  then show "n < 64 \<Longrightarrow> b64_char n \<noteq> CHR ''=''" by (simp add: list_all_iff)
qed

lemma byte_bound [simp]: "(of_char c :: nat) < 256"
  by simp

text \<open>Cutting a number into sextets, and into bytes, loses nothing.\<close>

lemma sextets:
  fixes n :: nat
  shows "join64 (n div 262144) (n div 4096 mod 64) = n div 4096"
    and "join64 (n div 4096) (n div 64 mod 64) = n div 64"
    and "join64 (n div 64) (n mod 64) = n"
proof -
  have "n div 262144 = n div 4096 div 64" "n div 4096 = n div 64 div 64"
    by (simp_all add: div_mult2_eq [symmetric])
  then show "join64 (n div 262144) (n div 4096 mod 64) = n div 4096"
    "join64 (n div 4096) (n div 64 mod 64) = n div 64" "join64 (n div 64) (n mod 64) = n"
    by (simp_all add: join64_def)
qed

lemma octets:
  fixes a b c :: nat
  assumes "a < 256" "b < 256" "c < 256"
  shows "(a * 65536 + b * 256 + c) div 65536 = a"
    and "(a * 65536 + b * 256 + c) div 256 mod 256 = b"
    and "(a * 65536 + b * 256 + c) mod 256 = c"
    and "(a * 65536 + b * 256 + c) div 262144 < 64"
proof -
  have "(a * 65536 + b * 256 + c) div 256 = a * 256 + b" using assms by simp
  moreover have "(a * 65536 + b * 256 + c) div 65536 = (a * 65536 + b * 256 + c) div 256 div 256"
    by (simp add: div_mult2_eq [symmetric])
  ultimately show "(a * 65536 + b * 256 + c) div 65536 = a"
    "(a * 65536 + b * 256 + c) div 256 mod 256 = b" using assms by simp_all
  show "(a * 65536 + b * 256 + c) mod 256 = c" using assms by (simp add: mod_add_eq [symmetric] mod_mult_right_eq)
  show "(a * 65536 + b * 256 + c) div 262144 < 64"
    using assms by (intro less_mult_imp_div_less) simp
qed

lemma b64decode_groups:
  fixes n :: nat
  assumes "n div 262144 < 64"
  shows "b64decode [b64_char (n div 262144), b64_char (n div 4096 mod 64), CHR ''='', CHR ''=''] =
      Some [char_of (n div 65536)]"
    and "b64decode [b64_char (n div 262144), b64_char (n div 4096 mod 64), b64_char (n div 64 mod 64),
      CHR ''=''] = Some [char_of (n div 65536), char_of (n div 256 mod 256)]"
    and "b64decode (b64_char (n div 262144) # b64_char (n div 4096 mod 64) # b64_char (n div 64 mod 64)
      # b64_char (n mod 64) # rest) =
      map_option (\<lambda>out. char_of (n div 65536) # char_of (n div 256 mod 256) # char_of (n mod 256) # out)
        (b64decode rest)"
  using assms
  by (simp_all add: Let_def opt_bind_def sextets div_mult2_eq [symmetric] split: option.split)

lemma b64decode_b64encode: "b64decode (b64encode bs) = Some bs"
proof (induction bs rule: b64encode.induct)
  case (2 a)
  have "of_char a * 65536 div 262144 < (64 :: nat)" by (intro less_mult_imp_div_less) simp
  then show ?case unfolding b64encode.simps Let_def by (simp only: b64decode_groups(1)) simp
next
  case (3 a b)
  note o = octets [of "of_char a" "of_char b" 0, OF byte_bound byte_bound zero_less_numeral,
      unfolded add_0_right]
  show ?case unfolding b64encode.simps Let_def b64decode_groups(2) [OF o(4)] o by simp
next
  case (4 a b c rest)
  note o = octets [of "of_char a" "of_char b" "of_char c", OF byte_bound byte_bound byte_bound]
  show ?case unfolding b64encode.simps Let_def b64decode_groups(3) [OF o(4)] o using 4 by simp
qed simp

section \<open>The box\<close>

definition VERSION :: char where
  "VERSION = char_of (1 :: nat)"

definition NONCE_LEN :: nat where
  "NONCE_LEN = 12"

text \<open>\<open>gcm_decrypt\<close> is \<open>None\<close> where \<open>InvalidTag\<close> is raised, \<open>json_loads\<close>
  where \<open>JSONDecodeError\<close> is.\<close>

record crypto =
  gcm_encrypt :: "string \<Rightarrow> string \<Rightarrow> string"
  gcm_decrypt :: "string \<Rightarrow> string \<Rightarrow> string option"
  json_dumps :: "(string \<times> pyval) list \<Rightarrow> string"
  json_loads :: "string \<Rightarrow> (string \<times> pyval) list option"

datatype secret_error =
    InvalidEncoding
  | BlobTooShort
  | UnsupportedVersion char
  | AuthenticationFailed
  | PayloadNotJson

text \<open>\<open>_derive_key\<close> refuses a short key; the derivation itself is HKDF.\<close>

definition derive_key :: "(string \<Rightarrow> 'k) \<Rightarrow> string \<Rightarrow> 'k option" where
  "derive_key hkdf secret_key = (if py_len secret_key < 16 then None else Some (hkdf secret_key))"

definition encrypt_bytes :: "crypto \<Rightarrow> string \<Rightarrow> string \<Rightarrow> string" where
  "encrypt_bytes c nonce plaintext = VERSION # nonce @ gcm_encrypt c nonce plaintext"

definition decrypt_bytes :: "crypto \<Rightarrow> string \<Rightarrow> secret_error + string" where
  "decrypt_bytes c blob =
     (if length blob < 1 + NONCE_LEN + 16 then Inl BlobTooShort
      else if hd blob \<noteq> VERSION then Inl (UnsupportedVersion (hd blob))
      else case gcm_decrypt c (take NONCE_LEN (tl blob)) (drop NONCE_LEN (tl blob)) of
        None \<Rightarrow> Inl AuthenticationFailed
      | Some plaintext \<Rightarrow> Inr plaintext)"

definition encrypt_dict :: "crypto \<Rightarrow> string \<Rightarrow> (string \<times> pyval) list \<Rightarrow> string" where
  "encrypt_dict c nonce d = b64encode (VERSION # nonce @ gcm_encrypt c nonce (json_dumps c d))"

definition decrypt_dict :: "crypto \<Rightarrow> string \<Rightarrow> secret_error + (string \<times> pyval) list" where
  "decrypt_dict c token =
     (if token = [] then Inr []
      else case b64decode token of
        None \<Rightarrow> Inl InvalidEncoding
      | Some blob \<Rightarrow>
          if length blob < 1 + NONCE_LEN + 16 then Inl BlobTooShort
          else if hd blob \<noteq> VERSION then Inl (UnsupportedVersion (hd blob))
          else case gcm_decrypt c (take NONCE_LEN (tl blob)) (drop NONCE_LEN (tl blob)) of
            None \<Rightarrow> Inl AuthenticationFailed
          | Some plaintext \<Rightarrow>
              (case json_loads c plaintext of None \<Rightarrow> Inl PayloadNotJson | Some d \<Rightarrow> Inr d))"

text \<open>What is relied on: GCM opens what it sealed under the same nonce, its tag has 16 bytes, and
  a dictionary of strings survives JSON up to the order of its keys.\<close>

definition secret_dict :: "(string \<times> pyval) list \<Rightarrow> bool" where
  "secret_dict d = (distinct (map fst d) \<and> (\<forall>kv\<in>set d. \<exists>s. snd kv = PyStr s))"

definition crypto_ok :: "crypto \<Rightarrow> bool" where
  "crypto_ok c =
     ((\<forall>n p. gcm_decrypt c n (gcm_encrypt c n p) = Some p \<and> 16 \<le> length (gcm_encrypt c n p))
      \<and> (\<forall>d. secret_dict d \<longrightarrow> (\<exists>d'. json_loads c (json_dumps c d) = Some d' \<and> map_of d' = map_of d)))"

lemma b64encode_Nil_iff: "b64encode bs = [] \<longleftrightarrow> bs = []"
  by (cases bs rule: b64encode.cases) (simp_all add: Let_def)

lemma gcm_laws:
  "crypto_ok c \<Longrightarrow> gcm_decrypt c n (gcm_encrypt c n q) = Some q \<and> \<not> length (gcm_encrypt c n q) < 16"
  by (auto simp: crypto_ok_def not_less)

lemma decrypt_encrypt_dict:
  assumes "crypto_ok c" "length nonce = NONCE_LEN" "secret_dict d"
  shows "\<exists>d'. decrypt_dict c (encrypt_dict c nonce d) = Inr d' \<and> map_of d' = map_of d"
proof -
  obtain d' where "json_loads c (json_dumps c d) = Some d'" "map_of d' = map_of d"
    using assms(1,3) by (auto simp: crypto_ok_def)
  then show ?thesis
    using assms(2) gcm_laws [OF assms(1)]
    by (simp add: decrypt_dict_def encrypt_dict_def b64decode_b64encode b64encode_Nil_iff NONCE_LEN_def)
qed

text \<open>C14. What the box sealed it opens: bytes come back as they were, and a dictionary of secrets comes
  back with the same bindings, for every nonce of twelve bytes.\<close>

theorem secret_box_roundtrip:
  assumes "crypto_ok c" "length nonce = NONCE_LEN" "secret_dict d"
  shows "decrypt_bytes c (encrypt_bytes c nonce p) = Inr p
    \<and> (\<exists>d'. decrypt_dict c (encrypt_dict c nonce d) = Inr d' \<and> map_of d' = map_of d)"
  using assms(2) gcm_laws [OF assms(1)] decrypt_encrypt_dict [OF assms]
  by (simp add: decrypt_bytes_def encrypt_bytes_def NONCE_LEN_def)

text \<open>A model of the parameters, for the witness: a cipher that appends a constant tag, and a codec
  that spells each string with escaped characters.\<close>

fun spell :: "string \<Rightarrow> string" where
  "spell [] = ''.''"
| "spell (c # cs) = CHR ''x'' # c # spell cs"

fun words_of :: "string \<Rightarrow> string \<Rightarrow> string list" where
  "words_of acc [] = []"
| "words_of acc [c] = (if c = CHR ''.'' then [rev acc] else [])"
| "words_of acc (c # d # r) =
     (if c = CHR ''.'' then rev acc # words_of [] (d # r) else words_of (d # acc) r)"

fun pairs_of :: "string list \<Rightarrow> (string \<times> pyval) list" where
  "pairs_of (k # v # r) = (k, PyStr v) # pairs_of r"
| "pairs_of _ = []"

fun text_of :: "pyval \<Rightarrow> string" where
  "text_of (PyStr s) = s"
| "text_of _ = []"

definition sample_crypto :: crypto where
  "sample_crypto =
     \<lparr>gcm_encrypt = (\<lambda>n p. p @ replicate 16 (CHR ''t'')),
      gcm_decrypt = (\<lambda>n ct. Some (take (length ct - 16) ct)),
      json_dumps = (\<lambda>d. concat (map (\<lambda>(k, v). spell k @ spell (text_of v)) d)),
      json_loads = (\<lambda>s. Some (pairs_of (words_of [] s)))\<rparr>"

lemma words_of_spell: "words_of acc (spell s @ r) = (rev acc @ s) # words_of [] r"
  by (induction s arbitrary: acc) (cases r; simp)+

lemma sample_codec:
  "secret_dict d \<Longrightarrow>
     pairs_of (words_of [] (concat (map (\<lambda>(k, v). spell k @ spell (text_of v)) d))) = d"
  by (induction d) (auto simp: secret_dict_def words_of_spell)

lemma sample_crypto_ok: "crypto_ok sample_crypto"
  by (simp add: crypto_ok_def sample_crypto_def sample_codec)

theorem secret_box_roundtrip_witness:
  "\<exists>d'. decrypt_dict sample_crypto (encrypt_dict sample_crypto ''abcdefghijkl'' [(''token'', PyStr ''s3'')])
      = Inr d' \<and> map_of d' ''token'' = Some (PyStr ''s3'')"
proof -
  have "length ''abcdefghijkl'' = NONCE_LEN" by (simp add: NONCE_LEN_def)
  moreover have "secret_dict [(''token'', PyStr ''s3'')]" by (simp add: secret_dict_def)
  ultimately show ?thesis
    using secret_box_roundtrip [OF sample_crypto_ok, of "''abcdefghijkl''" "[(''token'', PyStr ''s3'')]" "[]"]
    by auto
qed

text \<open>Opening a token fails closed: a token that is not strict base64, a blob shorter than header
  and tag, another version byte, a failed authentication or a payload that is not JSON each give
  their own error, and a dictionary is returned only for the empty token and for a blob of the
  current version that authenticates.\<close>

theorem decrypt_fails_closed:
  "case decrypt_dict c token of
     Inr d \<Rightarrow> token = [] \<and> d = []
       \<or> (\<exists>nonce ct p. b64decode token = Some (VERSION # nonce @ ct) \<and> length nonce = NONCE_LEN
            \<and> 16 \<le> length ct \<and> gcm_decrypt c nonce ct = Some p \<and> json_loads c p = Some d)
   | Inl InvalidEncoding \<Rightarrow> b64decode token = None
   | Inl BlobTooShort \<Rightarrow> (\<exists>b. b64decode token = Some b \<and> length b < 29)
   | Inl (UnsupportedVersion v) \<Rightarrow> v \<noteq> VERSION \<and> (\<exists>b. b64decode token = Some (v # b))
   | Inl AuthenticationFailed \<Rightarrow>
       (\<exists>nonce ct. b64decode token = Some (VERSION # nonce @ ct) \<and> length nonce = NONCE_LEN
          \<and> gcm_decrypt c nonce ct = None)
   | Inl PayloadNotJson \<Rightarrow>
       (\<exists>nonce ct p. b64decode token = Some (VERSION # nonce @ ct)
          \<and> gcm_decrypt c nonce ct = Some p \<and> json_loads c p = None)"
proof (cases "b64decode token")
  case None
  then show ?thesis by (auto simp: decrypt_dict_def)
next
  case (Some blob)
  show ?thesis
  proof (cases "length blob < 29")
    case True
    with Some show ?thesis by (auto simp: decrypt_dict_def NONCE_LEN_def)
  next
    case False
    then obtain v body where b: "blob = v # body" and len: "28 \<le> length body"
      by (cases blob) auto
    define nonce ct where "nonce = take 12 body" and "ct = drop 12 body"
    then have body: "body = nonce @ ct" "length nonce = 12" "16 \<le> length ct" using len by simp_all
    then show ?thesis using Some b False
      by (auto simp: decrypt_dict_def NONCE_LEN_def split: option.split)
  qed
qed

end
