(* ===== verification/Integrations.thy ===== *)
theory Integrations
  imports Store Secrets "HOL-Library.List_Lexorder" "HOL-Library.Char_ord" "HOL-Library.Multiset"
begin

text \<open>
  The integration manager (\<open>app/integrations/manager.py\<close>) with the capability half of the service
  registry (\<open>app/core/registry.py\<close>) and the repository query it uses: provider lookup, the
  decrypted configuration, healthchecks, the reachability gate in front of discovery and tag sync,
  secrets, and configuration checks.  The providers with their network calls are parameters, as are
  the text of an exception and of a \<open>repr\<close>.  A configured secret is opened by the box of
  \<open>Secrets\<close>.
\<close>

section \<open>Providers and the registry\<close>

record health_report =
  hr_status :: string
  hr_detail :: "string option"

record transcode_job_spec =
  tj_item_id :: string
  tj_input_path :: string
  tj_transcode_scope :: string
  tj_video_codec :: string
  tj_audio_codec :: string
  tj_container :: string
  tj_crf :: "int option"
  tj_max_bitrate_kbps :: "int option"
  tj_scale_height :: "int option"
  tj_metadata :: "(string \<times> pyval) list"

record job_submit_result =
  js_status :: string
  js_upstream_job_id :: "string option"
  js_detail :: "string option"

record transcode_job_status =
  jt_status :: string
  jt_detail :: "string option"
  jt_progress_pct :: "int option"

text \<open>A provider; the two hand-off operations are optional (\<open>hasattr\<close>).\<close>

record provider =
  pv_required :: "string list"
  pv_properties :: "string list"
  pv_secret_fields :: "string list"
  pv_healthcheck :: "integration_config \<Rightarrow> health_report result"
  pv_discover :: "integration_config \<Rightarrow> string list result"
  pv_sync_tags :: "integration_config \<Rightarrow> string list result"
  pv_submit_transcode_job ::
    "(integration_config \<Rightarrow> transcode_job_spec \<Rightarrow> job_submit_result result) option"
  pv_get_transcode_job_status ::
    "(integration_config \<Rightarrow> string \<Rightarrow> transcode_job_status result) option"

type_synonym registry = "(string \<times> provider list) list"

text \<open>\<open>register_capability\<close>, \<open>providers_for\<close> and \<open>capabilities\<close>: a
  dictionary of lists in insertion order.\<close>

fun register_capability :: "string \<Rightarrow> provider \<Rightarrow> registry \<Rightarrow> registry" where
  "register_capability cap p [] = [(cap, [p])]"
| "register_capability cap p ((c, ps) # r) =
     (if c = cap then (c, ps @ [p]) # r else (c, ps) # register_capability cap p r)"

definition providers_for :: "registry \<Rightarrow> string \<Rightarrow> provider list" where
  "providers_for r cap = (case map_of r cap of None \<Rightarrow> [] | Some ps \<Rightarrow> ps)"

definition capabilities :: "registry \<Rightarrow> string list" where
  "capabilities r = map fst r"

record integ_env =
  ie_registry :: registry
  ie_crypto :: crypto
  ie_nonce :: string
  ie_exc_str :: "pyerr \<Rightarrow> string"
  ie_repr :: "string \<Rightarrow> string"
  ie_now :: int

section \<open>The manager\<close>

definition im_provider_for :: "integ_env \<Rightarrow> string \<Rightarrow> provider option" where
  "im_provider_for env kind =
     (case providers_for (ie_registry env) (''integration.'' @ kind) of [] \<Rightarrow> None | p # _ \<Rightarrow> Some p)"

definition im_known_kinds :: "integ_env \<Rightarrow> string list" where
  "im_known_kinds env =
     map (drop 12) (filter (prefix ''integration.'') (capabilities (ie_registry env)))"

text \<open>\<open>build_config\<close>: a decryption error escapes (\<open>SecretDecryptionError\<close>).\<close>

definition im_build_config :: "integ_env \<Rightarrow> integration \<Rightarrow> integration_config result" where
  "im_build_config env ig =
     bind_r (case ig_secrets_ciphertext ig of
               None \<Rightarrow> Inr []
             | Some ct \<Rightarrow>
                 if ct = [] then Inr []
                 else case decrypt_dict (ie_crypto env) ct of Inl _ \<Rightarrow> Inl ValueError | Inr d \<Rightarrow> Inr d)
       (\<lambda>secrets. Inr \<lparr>icf_integration_id = ig_id ig, icf_name = ig_name ig, icf_kind = ig_kind ig,
          icf_options = ig_config ig, icf_secrets = secrets\<rparr>)"

definition no_provider :: "integ_env \<Rightarrow> string \<Rightarrow> health_report" where
  "no_provider env kind =
     \<lparr>hr_status = ''error'',
      hr_detail = Some (''No provider registered for kind='' @ ie_repr env kind)\<rparr>"

definition error_report :: "integ_env \<Rightarrow> pyerr \<Rightarrow> health_report" where
  "error_report env e =
     \<lparr>hr_status = ''error'', hr_detail = Some (py_take 500 (ie_exc_str env e))\<rparr>"

definition set_integration :: "integration \<Rightarrow> store \<Rightarrow> store" where
  "set_integration ig st =
     st\<lparr>st_integrations := map (\<lambda>x. if ig_id x = ig_id ig then ig else x) (st_integrations st)\<rparr>"

definition health_report_of :: "integ_env \<Rightarrow> integration \<Rightarrow> health_report" where
  "health_report_of env ig =
     (case im_provider_for env (ig_kind ig) of
        None \<Rightarrow> no_provider env (ig_kind ig)
      | Some p \<Rightarrow>
          (case bind_r (im_build_config env ig) (pv_healthcheck p) of
             Inl e \<Rightarrow> error_report env e
           | Inr r \<Rightarrow> r))"

definition healthcheck :: "integ_env \<Rightarrow> integration \<Rightarrow> store \<Rightarrow> health_report \<times> store" where
  "healthcheck env ig st =
     (let report = health_report_of env ig;
          ig' = ig\<lparr>ig_health_status := hr_status report, ig_health_detail := hr_detail report,
                   ig_health_checked_at := Some (ie_now env)\<rparr>
      in (report,
          emit True ''integration.health_changed''
            [(''integration_id'', PyStr (ig_id ig)), (''name'', PyStr (ig_name ig)),
             (''kind'', PyStr (ig_kind ig)), (''status'', PyStr (hr_status report)),
             (''detail'', opt_str (hr_detail report))] ''integrations''
            (set_integration ig' st)))"

definition list_integrations :: "bool \<Rightarrow> store \<Rightarrow> integration list" where
  "list_integrations enabled_only st =
     sort_key ig_name (filter (\<lambda>i. enabled_only \<longrightarrow> ig_enabled i) (st_integrations st))"

fun healthcheck_loop ::
    "integ_env \<Rightarrow> integration list \<Rightarrow> store \<Rightarrow> (string \<times> health_report) list \<times> store" where
  "healthcheck_loop env [] st = ([], st)"
| "healthcheck_loop env (ig # igs) st =
     (let (r, st1) = healthcheck env ig st; (rs, st2) = healthcheck_loop env igs st1
      in ((ig_id ig, r) # rs, st2))"

definition healthcheck_all :: "integ_env \<Rightarrow> store \<Rightarrow> (string \<times> health_report) list \<times> store" where
  "healthcheck_all env st = healthcheck_loop env (list_integrations True st) st"

definition preflight_integration ::
    "integ_env \<Rightarrow> string \<Rightarrow> (string \<times> pyval) list \<Rightarrow> (string \<times> pyval) list \<Rightarrow> health_report" where
  "preflight_integration env kind config secrets =
     (case im_provider_for env kind of
        None \<Rightarrow> no_provider env kind
      | Some p \<Rightarrow>
          (case pv_healthcheck p
                 \<lparr>icf_integration_id = ''(preflight)'', icf_name = ''(preflight)'', icf_kind = kind,
                  icf_options = config, icf_secrets = secrets\<rparr> of
             Inl e \<Rightarrow> error_report env e
           | Inr r \<Rightarrow> r))"

definition ensure_reachable :: "integ_env \<Rightarrow> integration \<Rightarrow> store \<Rightarrow> unit result \<times> store" where
  "ensure_reachable env ig st =
     (let (report, st') = healthcheck env ig st
      in (if hr_status report = ''error''
          then Inl (ValidationError ''Integration is not reachable; resolve the healthcheck first.'')
          else Inr (), st'))"

text \<open>The call \<open>f\<close> is \<open>discover_libraries\<close> or \<open>sync_tags\<close> of the provider.\<close>

definition gated_call ::
    "(provider \<Rightarrow> integration_config \<Rightarrow> 'a result) \<Rightarrow> integ_env \<Rightarrow> integration \<Rightarrow> store
     \<Rightarrow> 'a result \<times> store" where
  "gated_call f env ig st =
     (case im_provider_for env (ig_kind ig) of
        None \<Rightarrow>
          (Inl (NotFoundError (''No provider registered for kind='' @ ie_repr env (ig_kind ig))), st)
      | Some p \<Rightarrow>
          (let (ok, st') = ensure_reachable env ig st
           in (bind_r ok (\<lambda>_. bind_r (im_build_config env ig) (f p)), st')))"

definition discover_libraries :: "integ_env \<Rightarrow> integration \<Rightarrow> store \<Rightarrow> string list result \<times> store" where
  "discover_libraries = gated_call pv_discover"

definition sync_tags :: "integ_env \<Rightarrow> integration \<Rightarrow> store \<Rightarrow> string list result \<times> store" where
  "sync_tags = gated_call pv_sync_tags"

definition encrypt_and_set_secrets ::
    "integ_env \<Rightarrow> integration \<Rightarrow> (string \<times> pyval) list \<Rightarrow> integration" where
  "encrypt_and_set_secrets env ig secrets =
     ig\<lparr>ig_secrets_ciphertext :=
          (if secrets = [] then None else Some (encrypt_dict (ie_crypto env) (ie_nonce env) secrets))\<rparr>"

definition validate_integration_config ::
    "integ_env \<Rightarrow> string \<Rightarrow> (string \<times> pyval) list \<Rightarrow> (string \<times> pyval) list \<Rightarrow> unit result" where
  "validate_integration_config env kind config secrets =
     (case im_provider_for env kind of
        None \<Rightarrow> Inl (ValidationError (''Unknown integration kind: '' @ ie_repr env kind))
      | Some p \<Rightarrow>
          (let keys = fst ` set config; properties = set (pv_properties p);
               provided = fst ` {kv \<in> set secrets. snd kv \<noteq> PyNone \<and> snd kv \<noteq> PyStr []}
           in if \<not> set (pv_required p) \<subseteq> keys
              then Inl (ValidationError ''Missing required config fields'')
              else if properties \<noteq> {} \<and> \<not> keys \<subseteq> properties
              then Inl (ValidationError ''Unknown config fields'')
              else if \<not> set (pv_secret_fields p) \<subseteq> provided
              then Inl (ValidationError ''Missing required secret fields'')
              else Inr ()))"

section \<open>Healthchecks do not interfere\<close>

definition checked :: "integ_env \<Rightarrow> integration \<Rightarrow> integration" where
  "checked env ig =
     (let r = health_report_of env ig
      in ig\<lparr>ig_health_status := hr_status r, ig_health_detail := hr_detail r,
            ig_health_checked_at := Some (ie_now env)\<rparr>)"

definition health_event :: "integ_env \<Rightarrow> integration \<Rightarrow> domain_event" where
  "health_event env ig =
     (let r = health_report_of env ig
      in \<lparr>ev_name = ''integration.health_changed'',
          ev_payload = [(''integration_id'', PyStr (ig_id ig)), (''name'', PyStr (ig_name ig)),
             (''kind'', PyStr (ig_kind ig)), (''status'', PyStr (hr_status r)),
             (''detail'', opt_str (hr_detail r))],
          ev_source = ''integrations''\<rparr>)"

lemma checked_simps [simp]: "ig_id (checked env ig) = ig_id ig" "ig_enabled (checked env ig) = ig_enabled ig"
  by (simp_all add: checked_def Let_def)

lemma healthcheck_eq:
  "healthcheck env ig st =
     (health_report_of env ig,
      st\<lparr>st_integrations := map (\<lambda>x. if ig_id x = ig_id ig then checked env ig else x) (st_integrations st),
         st_events := st_events st @ [health_event env ig]\<rparr>)"
  by (simp add: healthcheck_def set_integration_def emit_def checked_def health_event_def Let_def)

lemma healthcheck_loop_eq:
  "healthcheck_loop env igs st =
     (map (\<lambda>ig. (ig_id ig, health_report_of env ig)) igs,
      st\<lparr>st_integrations := fold (\<lambda>ig. map (\<lambda>x. if ig_id x = ig_id ig then checked env ig else x)) igs
             (st_integrations st),
         st_events := st_events st @ map (health_event env) igs\<rparr>)"
  by (induction igs arbitrary: st) (simp_all add: healthcheck_eq)

lemma fold_checked:
  assumes "distinct (map ig_id rows)"
  shows "set igs \<subseteq> set rows \<Longrightarrow>
     fold (\<lambda>ig. map (\<lambda>x. if ig_id x = ig_id ig then checked env ig else x)) igs
       (map (\<lambda>i. if i \<in> S then checked env i else i) rows) =
     map (\<lambda>i. if i \<in> S \<union> set igs then checked env i else i) rows"
proof (induction igs arbitrary: S)
  case (Cons ig igs)
  have "x = ig" if "x \<in> set rows" "ig_id x = ig_id ig" for x
    using assms that Cons.prems by (auto simp: distinct_map inj_on_def)
  then have step: "map (\<lambda>x. if ig_id x = ig_id ig then checked env ig else x)
      (map (\<lambda>i. if i \<in> S then checked env i else i) rows) =
    map (\<lambda>i. if i \<in> insert ig S then checked env i else i) rows"
    by auto
  show ?case
    unfolding fold.simps o_apply step using Cons.IH [of "insert ig S"] Cons.prems by simp
qed simp

section \<open>Properties\<close>

text \<open>A health sweep checks every enabled integration exactly once, in the order of names, and
  never fails: each row gets the outcome of its own check (an error report when there is no
  provider, the secrets do not open or the provider raises), disabled rows are untouched, and one
  event per check is emitted; the outcome of one integration does not depend on any other.\<close>

theorem healthcheck_all_isolated:
  assumes "distinct (map ig_id (st_integrations st))"
  shows "\<exists>out st'. healthcheck_all env st = (out, st')
     \<and> out = map (\<lambda>ig. (ig_id ig, health_report_of env ig)) (list_integrations True st)
     \<and> mset (list_integrations True st) = mset (filter ig_enabled (st_integrations st))
     \<and> st_integrations st' =
         map (\<lambda>ig. if ig_enabled ig then checked env ig else ig) (st_integrations st)
     \<and> st_events st' = st_events st @ map (health_event env) (list_integrations True st)"
proof -
  have "set (list_integrations True st) = {i \<in> set (st_integrations st). ig_enabled i}"
    by (auto simp: list_integrations_def)
  then have "fold (\<lambda>ig. map (\<lambda>x. if ig_id x = ig_id ig then checked env ig else x))
      (list_integrations True st) (st_integrations st) =
    map (\<lambda>ig. if ig_enabled ig then checked env ig else ig) (st_integrations st)"
    using fold_checked [OF assms, of "list_integrations True st" env "{}"] by auto
  then show ?thesis
    by (simp add: healthcheck_all_def healthcheck_loop_eq list_integrations_def)
qed

text \<open>Discovery and tag sync reach the provider only behind a fresh healthcheck: they succeed
  only when a provider is registered, the check just made did not report an error and the secrets
  open; whenever a provider is registered, that check is the one the row shows afterwards, also when
  the call is refused.\<close>

theorem gated_call_checks_first:
  assumes "distinct (map ig_id (st_integrations st))" "ig \<in> set (st_integrations st)"
    "f \<in> {pv_discover, pv_sync_tags}"
  shows "\<exists>res st'. gated_call f env ig st = (res, st')
     \<and> (case im_provider_for env (ig_kind ig) of
          None \<Rightarrow> (\<exists>m. res = Inl (NotFoundError m)) \<and> st' = st
        | Some p \<Rightarrow>
            checked env ig \<in> set (st_integrations st')
            \<and> (if hr_status (health_report_of env ig) = ''error''
               then \<exists>m. res = Inl (ValidationError m)
               else res = bind_r (im_build_config env ig) (f p)))"
  using assms(2)
  by (auto simp: gated_call_def ensure_reachable_def healthcheck_eq image_iff split: option.split)

text \<open>Secrets that were saved are the secrets the provider sees: after storing a dictionary of
  strings, the configuration built from the row carries the same bindings, the row's own options and
  its id.\<close>

theorem stored_secrets_reach_provider:
  assumes "crypto_ok (ie_crypto env)" "length (ie_nonce env) = NONCE_LEN" "secret_dict secrets"
  shows "\<exists>cfg. im_build_config env (encrypt_and_set_secrets env ig secrets) = Inr cfg
     \<and> map_of (icf_secrets cfg) = map_of secrets \<and> icf_options cfg = ig_config ig
     \<and> icf_integration_id cfg = ig_id ig"
proof (cases "secrets = []")
  case True
  then show ?thesis by (simp add: im_build_config_def encrypt_and_set_secrets_def)
next
  case False
  have "encrypt_dict (ie_crypto env) (ie_nonce env) secrets \<noteq> []"
    by (simp add: encrypt_dict_def b64encode_Nil_iff)
  with False decrypt_encrypt_dict [OF assms] show ?thesis
    by (auto simp: im_build_config_def encrypt_and_set_secrets_def)
qed

definition sample_integ_env :: integ_env where
  "sample_integ_env =
     \<lparr>ie_registry = register_capability ''integration.plex''
        \<lparr>pv_required = [], pv_properties = [], pv_secret_fields = [''token''],
         pv_healthcheck = (\<lambda>c. if icf_name c = ''a'' then Inl ValueError
                               else Inr \<lparr>hr_status = ''ok'', hr_detail = None\<rparr>),
         pv_discover = (\<lambda>c. Inr [icf_name c]), pv_sync_tags = (\<lambda>c. Inr []),
         pv_submit_transcode_job = None, pv_get_transcode_job_status = None\<rparr> [],
      ie_crypto = sample_crypto, ie_nonce = ''abcdefghijkl'', ie_exc_str = (\<lambda>e. ''boom''),
      ie_repr = (\<lambda>s. s), ie_now = 7\<rparr>"

definition sample_integration :: "string \<Rightarrow> string \<Rightarrow> integration" where
  "sample_integration i kind =
     \<lparr>ig_id = i, ig_name = i, ig_kind = kind, ig_enabled = True, ig_config = [],
      ig_secrets_ciphertext = None, ig_health_status = ''unknown'', ig_health_detail = None,
      ig_health_checked_at = None\<rparr>"

definition sample_integ_store :: store where
  "sample_integ_store =
     \<lparr>st_media = [], st_tags = [], st_rules = [], st_evals = [], st_windows = [], st_opt = [],
      st_profiles = [], st_vt_queue = [],
      st_integrations = [sample_integration ''b'' ''plex'', sample_integration ''a'' ''plex''],
      st_channels = [], st_deliveries = [], st_audit = [], st_events = [], st_files = [],
      st_libraries = []\<rparr>"

theorem healthcheck_all_isolated_witness:
  "map (\<lambda>i. (ig_name i, ig_health_status i))
     (st_integrations (snd (healthcheck_all sample_integ_env sample_integ_store))) =
   [(''b'', ''ok''), (''a'', ''error'')]"
proof -
  have "distinct (map ig_id (st_integrations sample_integ_store))" by code_simp
  moreover have "map (\<lambda>i. (ig_name i, ig_health_status i)) (map (\<lambda>ig. if ig_enabled ig
      then checked sample_integ_env ig else ig) (st_integrations sample_integ_store)) =
      [(''b'', ''ok''), (''a'', ''error'')]"
    by code_simp
  ultimately show ?thesis
    using healthcheck_all_isolated [of sample_integ_store sample_integ_env] by auto
qed

theorem gated_call_checks_first_witness:
  "\<exists>m. fst (gated_call pv_discover sample_integ_env (sample_integration ''a'' ''plex'')
     sample_integ_store) = Inl (ValidationError m)"
proof -
  have "distinct (map ig_id (st_integrations sample_integ_store))" by code_simp
  moreover have "sample_integration ''a'' ''plex'' \<in> set (st_integrations sample_integ_store)"
    by (simp add: sample_integ_store_def)
  moreover have "hr_status (health_report_of sample_integ_env (sample_integration ''a'' ''plex'')) = ''error''"
    by code_simp
  moreover have "im_provider_for sample_integ_env (ig_kind (sample_integration ''a'' ''plex'')) \<noteq> None"
    by (simp add: im_provider_for_def sample_integ_env_def sample_integration_def providers_for_def)
  ultimately show ?thesis
    using gated_call_checks_first [of sample_integ_store "sample_integration ''a'' ''plex''" pv_discover
        sample_integ_env]
    by (auto split: option.splits)
qed

theorem stored_secrets_reach_provider_witness:
  "\<exists>cfg. im_build_config sample_integ_env
       (encrypt_and_set_secrets sample_integ_env (sample_integration ''a'' ''plex'')
          [(''token'', PyStr ''s'')]) = Inr cfg
     \<and> map_of (icf_secrets cfg) ''token'' = Some (PyStr ''s'')"
proof -
  have "crypto_ok (ie_crypto sample_integ_env)" "length (ie_nonce sample_integ_env) = NONCE_LEN"
    by (simp_all add: sample_integ_env_def sample_crypto_ok NONCE_LEN_def)
  moreover have "secret_dict [(''token'', PyStr ''s'')]" by (simp add: secret_dict_def)
  ultimately show ?thesis
    using stored_secrets_reach_provider [of sample_integ_env "[(''token'', PyStr ''s'')]"
        "sample_integration ''a'' ''plex''"] by auto
qed

end
