(* ===== verification/OptimizationWorker.thy ===== *)
theory OptimizationWorker
  imports FfmpegRunner Integrations
begin

text \<open>
  The optimization queue: the worker (\<open>app/optimization/worker.py\<close>), the poller of routed jobs
  (\<open>app/optimization/poller.py\<close>) and the queue endpoints (\<open>app/api/v1/optimization.py\<close>).
  The state is the database session with the file system, a map from paths to contents.  An
  operation that can raise returns its outcome with the state it leaves behind, because the worker
  catches everything and the file system is not rolled back.  Parameters (\<open>worker_env\<close>): one
  ffmpeg invocation, ffprobe, the zone database, the integration manager, which system calls the
  operating system refuses, the renderings of values in messages and the clock reading.
\<close>

section \<open>State and environment\<close>

record wstate =
  ws_store :: store
  ws_fs :: "string \<Rightarrow> string option"

record worker_env =
  we_now :: int
  we_bus :: bool
  we_manager :: "integ_env option"
  we_zone_hour :: "string \<Rightarrow> int \<Rightarrow> int option result"
  we_runner_enabled :: bool
  we_ffmpeg :: "transcode_request \<Rightarrow> string \<Rightarrow> ffmpeg_run"
  we_int_of_str :: "string \<Rightarrow> int option"
  we_probe :: "string \<Rightarrow> probe_result option"
  we_replace_fails :: "string \<Rightarrow> string \<Rightarrow> bool"
  we_unlink_fails :: "string \<Rightarrow> bool"
  we_repr :: "string \<Rightarrow> string"
  we_exc_str :: "pyerr \<Rightarrow> string"
  we_iso :: "int \<Rightarrow> string"
  we_duration_message :: "rat \<Rightarrow> rat \<Rightarrow> string"

record worker_report =
  wr_item_id :: "string option"
  wr_status :: string
  wr_detail :: "string option"

definition report :: "string \<Rightarrow> string \<Rightarrow> string \<Rightarrow> worker_report" where
  "report i status detail = \<lparr>wr_item_id = Some i, wr_status = status, wr_detail = Some detail\<rparr>"

definition find_item :: "string \<Rightarrow> wstate \<Rightarrow> optimization_item option" where
  "find_item i ws = table_find oi_id i (st_opt (ws_store ws))"

definition update_item :: "string \<Rightarrow> (optimization_item \<Rightarrow> optimization_item) \<Rightarrow> wstate \<Rightarrow> wstate" where
  "update_item i f ws =
     ws\<lparr>ws_store := (ws_store ws)\<lparr>st_opt :=
         map (\<lambda>q. if oi_id q = i then f q else q) (st_opt (ws_store ws))\<rparr>\<rparr>"

definition ws_emit :: "worker_env \<Rightarrow> string \<Rightarrow> (string \<times> pyval) list \<Rightarrow> wstate \<Rightarrow> wstate" where
  "ws_emit env name payload ws =
     ws\<lparr>ws_store := emit (we_bus env) name payload ''optimization'' (ws_store ws)\<rparr>"

text \<open>\<open>d[k] = v\<close>.\<close>

fun dict_set :: "string \<Rightarrow> pyval \<Rightarrow> (string \<times> pyval) list \<Rightarrow> (string \<times> pyval) list" where
  "dict_set k v [] = [(k, v)]"
| "dict_set k v ((k', v') # d) = (if k' = k then (k, v) # d else (k', v') # dict_set k v d)"

definition set_meta :: "string \<Rightarrow> string \<Rightarrow> pyval \<Rightarrow> wstate \<Rightarrow> wstate" where
  "set_meta i k v = update_item i (\<lambda>q. q\<lparr>oi_metadata := dict_set k v (oi_metadata q)\<rparr>)"

definition opt_int :: "int option \<Rightarrow> pyval" where
  "opt_int x = (case x of None \<Rightarrow> PyNone | Some n \<Rightarrow> PyInt n)"

section \<open>State transitions\<close>

definition complete :: "worker_env \<Rightarrow> optimization_item \<Rightarrow> string \<Rightarrow> wstate \<Rightarrow> worker_report \<times> wstate" where
  "complete env item detail ws =
     (let i = oi_id item;
          ws1 = update_item i (\<lambda>q. q\<lparr>oi_status := ''completed'', oi_finished_at := Some (we_now env),
                  oi_progress_pct := 100\<rparr>) ws;
          sizes = (case find_item i ws1 of None \<Rightarrow> (None, None)
                   | Some q \<Rightarrow> (oi_original_size_bytes q, oi_optimized_size_bytes q))
      in (report i ''completed'' detail,
          ws_emit env ''optimization.completed''
            [(''item_id'', PyStr i), (''profile'', PyStr (oi_profile item)),
             (''original_size'', opt_int (fst sizes)), (''optimized_size'', opt_int (snd sizes))] ws1))"

definition fail :: "worker_env \<Rightarrow> optimization_item \<Rightarrow> string \<Rightarrow> wstate \<Rightarrow> worker_report \<times> wstate" where
  "fail env item detail ws =
     (let i = oi_id item in
      (report i ''failed'' detail,
       ws_emit env ''optimization.failed'' [(''item_id'', PyStr i), (''error'', PyStr detail)]
         (update_item i (\<lambda>q. q\<lparr>oi_status := ''failed'', oi_finished_at := Some (we_now env),
             oi_error := Some detail\<rparr>) ws)))"

definition skip :: "worker_env \<Rightarrow> optimization_item \<Rightarrow> string \<Rightarrow> wstate \<Rightarrow> worker_report \<times> wstate" where
  "skip env item detail ws =
     (let i = oi_id item in
      (report i ''skipped'' detail,
       ws_emit env ''optimization.failed''
         [(''item_id'', PyStr i), (''status'', PyStr ''skipped''), (''reason'', PyStr detail)]
         (update_item i (\<lambda>q. q\<lparr>oi_status := ''skipped'', oi_finished_at := Some (we_now env),
             oi_error := Some detail\<rparr>) ws)))"

text \<open>Back to the queue: the schedule window is shut, or the provider had a transient problem.\<close>

definition requeue :: "string \<Rightarrow> wstate \<Rightarrow> wstate" where
  "requeue i = update_item i (\<lambda>q. q\<lparr>oi_status := ''queued'', oi_started_at := None, oi_progress_pct := 0\<rparr>)"

definition two_digits :: "int \<Rightarrow> string" where
  "two_digits n = (if 0 \<le> n \<and> n < 10 then CHR ''0'' # str_int n else str_int n)"

definition release_for_schedule ::
    "worker_env \<Rightarrow> optimization_item \<Rightarrow> schedule_window \<Rightarrow> wstate \<Rightarrow> worker_report \<times> wstate" where
  "release_for_schedule env item w ws =
     (let detail = ''outside schedule window '' @ two_digits (sw_start_hour w) @ '':00..''
            @ two_digits (sw_end_hour w) @ '':00 ('' @ sw_timezone w @ '')''
      in (report (oi_id item) ''skipped'' detail,
          ws_emit env ''optimization.skipped_window''
            [(''item_id'', PyStr (oi_id item)), (''profile'', PyStr (oi_profile item)),
             (''reason'', PyStr detail)] (requeue (oi_id item) ws)))"

section \<open>Claiming\<close>

definition next_queued :: "wstate \<Rightarrow> string option" where
  "next_queued ws =
     (case sort_key oi_queued_at (filter (\<lambda>q. oi_status q = ''queued'') (st_opt (ws_store ws))) of
        [] \<Rightarrow> None | q # _ \<Rightarrow> Some (oi_id q))"

definition start_item :: "worker_env \<Rightarrow> string \<Rightarrow> wstate \<Rightarrow> wstate" where
  "start_item env i =
     update_item i (\<lambda>q. q\<lparr>oi_status := ''running'', oi_started_at := Some (we_now env), oi_progress_pct := 0\<rparr>)"

definition emit_started :: "worker_env \<Rightarrow> optimization_item \<Rightarrow> wstate \<Rightarrow> wstate" where
  "emit_started env item =
     ws_emit env ''optimization.started'' [(''item_id'', PyStr (oi_id item)), (''profile'', PyStr (oi_profile item))]"

text \<open>\<open>_claim_next\<close>.  Other sessions act between the SELECT and the conditional UPDATE;
  \<open>others k\<close> is what they do to the database during attempt \<open>k\<close>.\<close>

fun claim_loop ::
    "worker_env \<Rightarrow> (nat \<Rightarrow> wstate \<Rightarrow> wstate) \<Rightarrow> nat \<Rightarrow> nat \<Rightarrow> wstate \<Rightarrow> optimization_item option \<times> wstate" where
  "claim_loop env others k 0 ws = (None, ws)"
| "claim_loop env others k (Suc n) ws =
     (case next_queued ws of
        None \<Rightarrow> (None, ws)
      | Some i \<Rightarrow>
          (let ws1 = others k ws in
           case find_item i ws1 of
             None \<Rightarrow> claim_loop env others (Suc k) n ws1
           | Some q \<Rightarrow>
               if oi_status q \<noteq> ''queued'' then claim_loop env others (Suc k) n ws1
               else let ws2 = start_item env i ws1 in
                 case find_item i ws2 of
                   None \<Rightarrow> claim_loop env others (Suc k) n ws2
                 | Some item \<Rightarrow> (Some item, emit_started env item ws2)))"

definition claim_next ::
    "worker_env \<Rightarrow> (nat \<Rightarrow> wstate \<Rightarrow> wstate) \<Rightarrow> wstate \<Rightarrow> optimization_item option \<times> wstate" where
  "claim_next env others ws = claim_loop env others 0 16 ws"

section \<open>Paths and files\<close>

type_synonym 'a act = "wstate \<Rightarrow> 'a result \<times> wstate"

definition os_replace :: "worker_env \<Rightarrow> string \<Rightarrow> string \<Rightarrow> unit act" where
  "os_replace env src dst ws =
     (case ws_fs ws src of
        None \<Rightarrow> (Inl OSError, ws)
      | Some bytes \<Rightarrow>
          if we_replace_fails env src dst then (Inl OSError, ws)
          else (Inr (), ws\<lparr>ws_fs := (ws_fs ws)(src := None, dst := Some bytes)\<rparr>))"

definition unlink :: "worker_env \<Rightarrow> string \<Rightarrow> unit act" where
  "unlink env p ws =
     (if ws_fs ws p = None \<or> we_unlink_fails env p then (Inl OSError, ws)
      else (Inr (), ws\<lparr>ws_fs := (ws_fs ws)(p := None)\<rparr>))"

text \<open>\<open>unlink(missing_ok=True)\<close> whose \<open>OSError\<close> is swallowed.\<close>

definition discard :: "worker_env \<Rightarrow> string \<Rightarrow> wstate \<Rightarrow> wstate" where
  "discard env p ws = snd (unlink env p ws)"

definition backup_path_of :: "string \<Rightarrow> string" where
  "backup_path_of input =
     dir_part input @ name_stem (name_part input) @ name_suffix (name_part input) @ ''.bak''"

definition final_path_of :: "string \<Rightarrow> profile_definition \<Rightarrow> string" where
  "final_path_of input p = dir_part input @ name_stem (name_part input) @ ''.'' @ os_container (pd_output p)"

text \<open>The first half of \<open>_swap\<close>: the original goes to the backup, or away.\<close>

definition set_aside :: "worker_env \<Rightarrow> string \<Rightarrow> optimization_item \<Rightarrow> profile_definition \<Rightarrow> unit act" where
  "set_aside env input item p ws =
     (if os_keep_backup (pd_output p)
      then (case os_replace env input (backup_path_of input) ws of
              (Inl e, w) \<Rightarrow> (Inl e, w)
            | (Inr _, w) \<Rightarrow>
                (Inr (), update_item (oi_id item) (\<lambda>q. q\<lparr>oi_backup_path := Some (backup_path_of input)\<rparr>) w))
      else (case unlink env input ws of
              (Inl e, w) \<Rightarrow> (Inl e, w)
            | (Inr _, w) \<Rightarrow> (Inr (), update_item (oi_id item) (\<lambda>q. q\<lparr>oi_backup_path := None\<rparr>) w)))"

definition swap :: "worker_env \<Rightarrow> string \<Rightarrow> string \<Rightarrow> optimization_item \<Rightarrow> profile_definition \<Rightarrow> unit act" where
  "swap env input tmp item p ws =
     (case set_aside env input item p ws of
        (Inl e, w) \<Rightarrow> (Inl e, w)
      | (Inr _, w) \<Rightarrow>
          (case os_replace env tmp (final_path_of input p) w of
             (Inl e, w') \<Rightarrow> (Inl e, w')
           | (Inr _, w') \<Rightarrow>
               (Inr (), set_meta (oi_id item) ''final_path'' (PyStr (final_path_of input p)) w')))"

section \<open>Handing off\<close>

definition job_spec_of ::
    "optimization_item \<Rightarrow> profile_definition \<Rightarrow> media_file \<Rightarrow> transcode_job_spec" where
  "job_spec_of item p m =
     \<lparr>tj_item_id = oi_id item, tj_input_path = mf_path m, tj_transcode_scope = pd_transcode_scope p,
      tj_video_codec = vs_codec (pd_video p), tj_audio_codec = as_codec (pd_audio p),
      tj_container = os_container (pd_output p), tj_crf = vs_crf (pd_video p),
      tj_max_bitrate_kbps = vs_max_bitrate_kbps (pd_video p),
      tj_scale_height = vs_scale_height (pd_video p), tj_metadata = pd_provider_metadata p\<rparr>"

definition detail_or :: "string option \<Rightarrow> string" where
  "detail_or d = (if truthy_opt d then the d else ''(no detail)'')"

definition submitted ::
    "worker_env \<Rightarrow> optimization_item \<Rightarrow> profile_definition \<Rightarrow> integration \<Rightarrow> job_submit_result \<Rightarrow> wstate
     \<Rightarrow> worker_report \<times> wstate" where
  "submitted env item p ig res ws =
     (let i = oi_id item in
      if js_status res = ''accepted'' then
        (let ws1 = set_meta i ''integration_name'' (PyStr (ig_name ig))
              (set_meta i ''integration_id'' (PyStr (ig_id ig))
              (set_meta i ''upstream_job_id'' (opt_str (js_upstream_job_id res))
              (update_item i (\<lambda>q. q\<lparr>oi_status := ''routed''\<rparr>) ws)));
            ws2 = (if truthy_opt (js_detail res)
                   then set_meta i ''routed_detail'' (opt_str (js_detail res)) ws1 else ws1)
         in (report i ''routed'' (''submitted to '' @ ig_name ig @ '' as ''
               @ (case js_upstream_job_id res of None \<Rightarrow> ''None'' | Some u \<Rightarrow> u)),
             ws_emit env ''optimization.routed''
               [(''item_id'', PyStr i), (''profile'', PyStr (oi_profile item)),
                (''routing_target'', PyStr (pd_routing_target p)), (''integration_id'', PyStr (ig_id ig)),
                (''upstream_job_id'', opt_str (js_upstream_job_id res))] ws2))
      else if js_status res = ''rejected'' then
        fail env item (we_repr env (ig_kind ig) @ '' provider rejected job: '' @ detail_or (js_detail res)) ws
      else
        (report i ''skipped'' (''transient error from '' @ ig_kind ig @ '' provider: ''
           @ detail_or (js_detail res) @ '' '' @ [CHR 0xE2, CHR 0x80, CHR 0x94]
           @ '' re-queued for next tick''), requeue i ws))"

definition route_to_provider ::
    "worker_env \<Rightarrow> optimization_item \<Rightarrow> profile_definition \<Rightarrow> optimization_profile \<Rightarrow> media_file
     \<Rightarrow> worker_report act" where
  "route_to_provider env item p row m ws =
     (let i = oi_id item; target = pd_routing_target p;
          ok = (\<lambda>(r, w). (Inr r, w));
          ws1 = set_meta i ''routed_at'' (PyStr (we_iso env (we_now env)))
                  (set_meta i ''routing_target'' (PyStr target) ws)
      in case we_manager env of
        None \<Rightarrow>
          (Inr (report i ''routed'' (''routed to '' @ target
             @ '' (integration manager not provided to worker; provider not called)'')),
           ws_emit env ''optimization.routed''
             [(''item_id'', PyStr i), (''profile'', PyStr (oi_profile item)), (''routing_target'', PyStr target)]
             (update_item i (\<lambda>q. q\<lparr>oi_status := ''routed''\<rparr>) ws1))
      | Some im \<Rightarrow>
          if \<not> truthy_opt (op_optimization_integration_id row)
          then ok (fail env item (''profile '' @ we_repr env (oi_profile item) @ '' has routing_target=''
                 @ we_repr env target @ '' but no integration is configured '' @
                 ''(optimization_integration_id is empty). Pick one in the profile editor.'') ws1)
          else let iid = the (op_optimization_integration_id row) in
            case table_find ig_id iid (st_integrations (ws_store ws1)) of
              None \<Rightarrow> ok (fail env item (''profile '' @ we_repr env (oi_profile item)
                  @ '' references integration id '' @ we_repr env iid @ '' which no longer exists'') ws1)
            | Some ig \<Rightarrow>
                if ig_kind ig \<noteq> target
                then ok (fail env item (''profile '' @ we_repr env (oi_profile item)
                  @ '' expected routing_target='' @ we_repr env target
                  @ '' but the configured integration is kind='' @ we_repr env (ig_kind ig)) ws1)
                else case im_provider_for im (ig_kind ig) of
                  None \<Rightarrow> ok (fail env item (''no provider registered for integration kind ''
                      @ we_repr env (ig_kind ig)) ws1)
                | Some pv \<Rightarrow>
                    (case pv_submit_transcode_job pv of
                       None \<Rightarrow> ok (fail env item (''provider '' @ we_repr env (ig_kind ig)
                         @ '' does not support submit_transcode_job (Stage 08 contract); switch ''
                         @ ''this profile'' @ [CHR 0x27] @ ''s routing_target to '' @ we_repr env ''in_process''
                         @ '' or to a provider that supports hand-off.'') ws1)
                     | Some submit \<Rightarrow>
                         (case im_build_config im ig of
                            Inl e \<Rightarrow> (Inl e, ws1)
                          | Inr cfg \<Rightarrow>
                              (case submit cfg (job_spec_of item p m) of
                                 Inl e \<Rightarrow>
                                   (Inr (report i ''skipped'' (''provider crashed during submit: ''
                                      @ we_exc_str env e)), requeue i ws1)
                               | Inr res \<Rightarrow> ok (submitted env item p ig res ws1)))))"

section \<open>Running an item\<close>

definition progress_events :: "worker_env \<Rightarrow> string \<Rightarrow> int list \<Rightarrow> wstate \<Rightarrow> wstate" where
  "progress_events env i pcts ws =
     fold (\<lambda>pct w. ws_emit env ''optimization.progress'' [(''item_id'', PyStr i), (''pct'', PyInt pct)]
             (update_item i (\<lambda>q. q\<lparr>oi_progress_pct := pct\<rparr>) w)) pcts ws"

definition fin_opt :: "pyfloat option \<Rightarrow> rat option" where
  "fin_opt d = (case d of Some (Fin r) \<Rightarrow> Some r | _ \<Rightarrow> None)"

text \<open>From the finished transcode to the end of the run.\<close>

definition finish_transcode ::
    "worker_env \<Rightarrow> optimization_item \<Rightarrow> profile_definition \<Rightarrow> media_file \<Rightarrow> string \<Rightarrow> int
     \<Rightarrow> transcode_result \<Rightarrow> worker_report act" where
  "finish_transcode env item p m tmp input_size res ws =
     (let i = oi_id item; ok = (\<lambda>(r, w). (Inr r, w)) in
      if \<not> trs_success res
      then ok (fail env item (''ffmpeg failed (rc='' @ str_int (trs_return_code res) @ ''): ''
                 @ py_last 500 (trs_stderr_tail res)) (discard env tmp ws))
      else case check_output (we_duration_message env) (we_probe env) (ws_fs ws tmp)
                  (fin_opt (mf_duration_seconds m)) of
        Some reason \<Rightarrow> ok (fail env item (''output validation failed: '' @ reason) (discard env tmp ws))
      | None \<Rightarrow>
          (let sz = (case ws_fs ws tmp of None \<Rightarrow> 0 | Some b \<Rightarrow> int (length b));
               ws1 = update_item i (\<lambda>q. q\<lparr>oi_optimized_size_bytes := Some sz\<rparr>) ws
           in if \<not> os_replace_input (pd_output p)
              then ok (complete env item ''transcode succeeded (no swap)''
                         (set_meta i ''output_path'' (PyStr tmp) ws1))
              else case swap env (mf_path m) tmp item p ws1 of
                (Inl OSError, w) \<Rightarrow>
                  ok (fail env item (''swap failed: '' @ we_exc_str env OSError) (discard env tmp w))
              | (Inl e, w) \<Rightarrow> (Inl e, w)
              | (Inr _, w) \<Rightarrow>
                  ok (complete env item (''transcode succeeded; '' @ str_int input_size
                        @ '' '' @ [CHR 0xE2, CHR 0x86, CHR 0x92] @ '' '' @ str_int sz @ '' bytes'') w)))"

text \<open>What ffmpeg leaves on disk: the bytes at the output path, whatever they are.\<close>

definition ffmpeg_writes :: "ffmpeg_run \<Rightarrow> string \<Rightarrow> wstate \<Rightarrow> wstate" where
  "ffmpeg_writes run out ws =
     (if fr_spawn_error run \<noteq> None then ws else ws\<lparr>ws_fs := (ws_fs ws)(out := fr_output run)\<rparr>)"

definition transcode ::
    "worker_env \<Rightarrow> optimization_item \<Rightarrow> profile_definition \<Rightarrow> media_file \<Rightarrow> string \<Rightarrow> int
     \<Rightarrow> worker_report act" where
  "transcode env item p m bytes input_size ws =
     (case with_suffix (mf_path m) (''.auditarr.tmp.'' @ os_container (pd_output p)) of
        Inl e \<Rightarrow> (Inl e, ws)
      | Inr tmp \<Rightarrow>
          (let req = \<lparr>tq_input_path = mf_path m, tq_output_path = tmp, tq_profile = p,
                 tq_input_duration_seconds = mf_duration_seconds m\<rparr>;
               run = we_ffmpeg env req bytes;
               ws1 = ffmpeg_writes run tmp ws
           in case run_transcode (we_int_of_str env) run req of
                Inl e \<Rightarrow> (Inl e, ws1)
              | Inr (res, pcts) \<Rightarrow>
                  finish_transcode env item p m tmp input_size res
                    (progress_events env (oi_id item) pcts ws1)))"

definition low_bitrate :: "profile_definition \<Rightarrow> media_file \<Rightarrow> (int \<times> int) option" where
  "low_bitrate p m =
     (case (pd_skip_if_bitrate_below_kbps p, mf_bitrate_kbps m) of
        (Some t, Some b) \<Rightarrow> if t \<noteq> 0 \<and> b \<noteq> 0 \<and> b < t then Some (b, t) else None
      | _ \<Rightarrow> None)"

definition too_large :: "optimization_profile \<Rightarrow> int \<Rightarrow> int option" where
  "too_large row sz =
     (case op_max_input_bytes row of
        Some mx \<Rightarrow> if mx \<noteq> 0 \<and> mx < sz then Some mx else None
      | None \<Rightarrow> None)"

text \<open>The pre-flight checks and the transcode of an item for the in-process runner.\<close>

definition run_in_process ::
    "worker_env \<Rightarrow> optimization_item \<Rightarrow> profile_definition \<Rightarrow> optimization_profile \<Rightarrow> media_file
     \<Rightarrow> worker_report act" where
  "run_in_process env item p row m ws =
     (let input = mf_path m; ok = (\<lambda>(r, w). (Inr r, w)) in
      case ws_fs ws input of
        None \<Rightarrow> ok (fail env item (''input file missing: '' @ input) ws)
      | Some bytes \<Rightarrow>
          (let sz = int (length bytes);
               ws1 = update_item (oi_id item) (\<lambda>q. q\<lparr>oi_original_size_bytes := Some sz\<rparr>) ws in
           case too_large row sz of
             Some mx \<Rightarrow> ok (skip env item (''input size '' @ str_int sz
                 @ '' exceeds profile max_input_bytes ('' @ str_int mx @ '')'') ws1)
           | None \<Rightarrow>
               (case low_bitrate p m of
                  Some (b, t) \<Rightarrow> ok (skip env item (''input bitrate '' @ str_int b
                      @ ''kbps is below skip_if_bitrate_below_kbps='' @ str_int t) ws1)
                | None \<Rightarrow> transcode env item p m bytes sz ws1)))"

text \<open>The routing and kill-switch gates.\<close>

definition run_gated ::
    "worker_env \<Rightarrow> optimization_item \<Rightarrow> profile_definition \<Rightarrow> optimization_profile \<Rightarrow> media_file
     \<Rightarrow> worker_report act" where
  "run_gated env item p row m ws =
     (if pd_routing_target p \<noteq> ''in_process'' then route_to_provider env item p row m ws
      else if \<not> we_runner_enabled env
      then (\<lambda>(r, w). (Inr r, w)) (fail env item (''in-process runner disabled; reconfigure the '' @
              ''profile to route to plex/jellyfin/tdarr'') ws)
      else run_in_process env item p row m ws)"

text \<open>\<open>_run_claimed\<close>.  A settings document that does not parse or validate fails the item.\<close>

definition run_claimed :: "worker_env \<Rightarrow> optimization_item \<Rightarrow> worker_report act" where
  "run_claimed env item ws =
     (let ok = (\<lambda>(r, w). (Inr r, w)) in
      case table_find mf_id (oi_media_file_id item) (st_media (ws_store ws)) of
        None \<Rightarrow> ok (fail env item ''media file no longer exists'' ws)
      | Some m \<Rightarrow>
          (case table_find op_name (oi_profile item) (st_profiles (ws_store ws)) of
             None \<Rightarrow> ok (fail env item (''profile '' @ we_repr env (oi_profile item) @ '' not found'') ws)
           | Some row \<Rightarrow>
               if \<not> op_enabled row then ok (skip env item ''profile is disabled'' ws)
               else case (case op_settings row of None \<Rightarrow> Inl TypeError | Some d \<Rightarrow> validate_profile d) of
                 Inl e \<Rightarrow> ok (fail env item (''profile '' @ we_repr env (oi_profile item)
                     @ '' has invalid settings: '' @ we_exc_str env e) ws)
               | Inr p \<Rightarrow>
                   (case schedule_window_is_open (we_zone_hour env) (pd_schedule_window p) (we_now env) of
                      Inl e \<Rightarrow> (Inl e, ws)
                    | Inr is_open \<Rightarrow>
                        (case pd_schedule_window p of
                           Some w \<Rightarrow>
                             if \<not> is_open then ok (release_for_schedule env item w ws)
                             else run_gated env item p row m ws
                         | None \<Rightarrow> run_gated env item p row m ws))))"

text \<open>The \<open>except Exception\<close> of \<open>run_one\<close> and \<open>run_item\<close>.\<close>

definition guarded :: "worker_env \<Rightarrow> optimization_item \<Rightarrow> wstate \<Rightarrow> worker_report \<times> wstate" where
  "guarded env item ws =
     (case run_claimed env item ws of
        (Inr r, w) \<Rightarrow> (r, w)
      | (Inl e, w) \<Rightarrow>
          (report (oi_id item) ''failed'' (we_exc_str env e),
           snd (fail env item (py_take 2000 (''worker crashed: '' @ we_exc_str env e)) w)))"

definition run_one ::
    "worker_env \<Rightarrow> (nat \<Rightarrow> wstate \<Rightarrow> wstate) \<Rightarrow> wstate \<Rightarrow> worker_report \<times> wstate" where
  "run_one env others ws =
     (case claim_next env others ws of
        (None, w) \<Rightarrow> (\<lparr>wr_item_id = None, wr_status = ''idle'', wr_detail = None\<rparr>, w)
      | (Some item, w) \<Rightarrow> guarded env item w)"

definition run_item :: "worker_env \<Rightarrow> string \<Rightarrow> wstate \<Rightarrow> worker_report \<times> wstate" where
  "run_item env i ws =
     (case find_item i ws of
        None \<Rightarrow> (report i ''failed'' ''not found'', ws)
      | Some item \<Rightarrow>
          if oi_status item \<noteq> ''queued''
          then (report i ''skipped'' (''item is in status '' @ we_repr env (oi_status item) @ '', not queued''), ws)
          else guarded env item (emit_started env item (start_item env i ws)))"

section \<open>The poller of routed jobs\<close>

record poll_report =
  pl_checked :: nat
  pl_completed :: nat
  pl_failed :: nat
  pl_still_running :: nat
  pl_errored :: nat

datatype poll_outcome = PollCompleted | PollFailed | PollRunning | PollErrored

definition meta_get :: "string \<Rightarrow> optimization_item \<Rightarrow> pyval" where
  "meta_get k item = (case map_of (oi_metadata item) k of None \<Rightarrow> PyNone | Some v \<Rightarrow> v)"

definition routed_payload :: "optimization_item \<Rightarrow> string \<Rightarrow> string \<Rightarrow> (string \<times> pyval) list" where
  "routed_payload item k detail =
     [(''item_id'', PyStr (oi_id item)), (''profile'', PyStr (oi_profile item)),
      (''upstream_job_id'', meta_get ''upstream_job_id'' item),
      (''integration_id'', meta_get ''integration_id'' item), (k, PyStr detail)]"

definition mark_completed :: "worker_env \<Rightarrow> optimization_item \<Rightarrow> string \<Rightarrow> wstate \<Rightarrow> wstate" where
  "mark_completed env item detail ws =
     ws_emit env ''optimization.routed_completed'' (routed_payload item ''detail'' detail)
       (update_item (oi_id item) (\<lambda>q. q\<lparr>oi_status := ''completed'', oi_finished_at := Some (we_now env),
          oi_progress_pct := 100,
          oi_metadata := dict_set ''completed_detail'' (PyStr detail)
             (dict_set ''completed_at'' (PyStr (we_iso env (we_now env))) (oi_metadata q))\<rparr>) ws)"

definition mark_failed :: "worker_env \<Rightarrow> optimization_item \<Rightarrow> string \<Rightarrow> wstate \<Rightarrow> wstate" where
  "mark_failed env item detail ws =
     ws_emit env ''optimization.routed_failed'' (routed_payload item ''error'' detail)
       (update_item (oi_id item) (\<lambda>q. q\<lparr>oi_status := ''failed'', oi_finished_at := Some (we_now env),
          oi_error := Some (py_take 2000 detail),
          oi_metadata := dict_set ''failed_detail'' (PyStr detail)
             (dict_set ''failed_at'' (PyStr (we_iso env (we_now env))) (oi_metadata q))\<rparr>) ws)"

definition detail_else :: "string option \<Rightarrow> string \<Rightarrow> string" where
  "detail_else d dflt = (if truthy_opt d then the d else dflt)"

definition apply_job_status ::
    "worker_env \<Rightarrow> optimization_item \<Rightarrow> transcode_job_status \<Rightarrow> wstate \<Rightarrow> poll_outcome \<times> wstate" where
  "apply_job_status env item js ws =
     (if jt_status js = ''completed''
      then (PollCompleted, mark_completed env item (detail_else (jt_detail js) ''provider reports completed'') ws)
      else if jt_status js = ''failed''
      then (PollFailed, mark_failed env item (detail_else (jt_detail js) ''provider reports failed'') ws)
      else if jt_status js \<in> {''running'', ''pending''}
      then (PollRunning,
            case jt_progress_pct js of None \<Rightarrow> ws
            | Some n \<Rightarrow> update_item (oi_id item) (\<lambda>q. q\<lparr>oi_progress_pct := max 0 (min 100 n)\<rparr>) ws)
      else (PollRunning, ws))"

text \<open>\<open>_poll_one\<close> with the exceptions its caller catches.  The worker only ever stores strings
  and \<open>None\<close> under the two keys; any other value counts as missing here.\<close>

definition job_ref :: "optimization_item \<Rightarrow> (string \<times> string) option" where
  "job_ref item =
     (case meta_get ''upstream_job_id'' item of
        PyStr job \<Rightarrow>
          if job = [] then None
          else (case meta_get ''integration_id'' item of
                  PyStr iid \<Rightarrow> if iid = [] then None else Some (job, iid)
                | _ \<Rightarrow> None)
      | _ \<Rightarrow> None)"

definition poll_one ::
    "worker_env \<Rightarrow> integ_env \<Rightarrow> optimization_item \<Rightarrow> wstate \<Rightarrow> poll_outcome \<times> wstate" where
  "poll_one env im item ws =
     (case job_ref item of
        None \<Rightarrow> (PollErrored, ws)
      | Some (job, iid) \<Rightarrow>
          (case table_find ig_id iid (st_integrations (ws_store ws)) of
             None \<Rightarrow> (PollFailed, mark_failed env item (''polled integration_id='' @ we_repr env iid
                 @ '' no longer exists; treating as failed'') ws)
           | Some ig \<Rightarrow>
               (case im_provider_for im (ig_kind ig) of
                  None \<Rightarrow> (PollErrored, ws)
                | Some pv \<Rightarrow>
                    (case pv_get_transcode_job_status pv of
                       None \<Rightarrow> (PollErrored, ws)
                     | Some get \<Rightarrow>
                         (case bind_r (im_build_config im ig) (\<lambda>cfg. get cfg job) of
                            Inl e \<Rightarrow> (PollErrored, ws)
                          | Inr js \<Rightarrow> apply_job_status env item js ws)))))"

definition count_outcome :: "poll_outcome \<Rightarrow> poll_report \<Rightarrow> poll_report" where
  "count_outcome oc r =
     (let r1 = r\<lparr>pl_checked := Suc (pl_checked r)\<rparr> in
      case oc of
        PollCompleted \<Rightarrow> r1\<lparr>pl_completed := Suc (pl_completed r)\<rparr>
      | PollFailed \<Rightarrow> r1\<lparr>pl_failed := Suc (pl_failed r)\<rparr>
      | PollRunning \<Rightarrow> r1\<lparr>pl_still_running := Suc (pl_still_running r)\<rparr>
      | PollErrored \<Rightarrow> r1\<lparr>pl_errored := Suc (pl_errored r)\<rparr>)"

fun poll_loop ::
    "worker_env \<Rightarrow> integ_env \<Rightarrow> optimization_item list \<Rightarrow> poll_report \<Rightarrow> wstate \<Rightarrow> poll_report \<times> wstate" where
  "poll_loop env im [] r ws = (r, ws)"
| "poll_loop env im (item # items) r ws =
     (let (oc, ws1) = poll_one env im item ws in poll_loop env im items (count_outcome oc r) ws1)"

definition poll_routed_transcodes :: "worker_env \<Rightarrow> integ_env \<Rightarrow> wstate \<Rightarrow> poll_report \<times> wstate" where
  "poll_routed_transcodes env im ws =
     poll_loop env im (filter (\<lambda>q. oi_status q = ''routed'') (st_opt (ws_store ws)))
       \<lparr>pl_checked = 0, pl_completed = 0, pl_failed = 0, pl_still_running = 0, pl_errored = 0\<rparr> ws"

section \<open>Queue endpoints\<close>

text \<open>\<open>cancel_item\<close> and \<open>retry_item\<close>: the check reads the row, then a conditional UPDATE
  decides; \<open>others\<close> is what happens in between.  The result is the row the caller is shown.\<close>

definition cancel_item ::
    "worker_env \<Rightarrow> (wstate \<Rightarrow> wstate) \<Rightarrow> string \<Rightarrow> optimization_item act" where
  "cancel_item env others i ws =
     (case find_item i ws of
        None \<Rightarrow> (Inl (NotFoundError ''Optimization item not found''), ws)
      | Some q \<Rightarrow>
          if oi_status q \<in> {''completed'', ''failed'', ''cancelled'', ''skipped''}
          then (Inl (ValidationError (''Cannot cancel item in status '' @ we_repr env (oi_status q))), ws)
          else
            (let ws1 = others ws in
             case find_item i ws1 of
               None \<Rightarrow> (Inl (NotFoundError ''Optimization item not found''), ws1)
             | Some q1 \<Rightarrow>
                 if oi_status q1 \<notin> {''queued'', ''running''} then (Inr q1, ws1)
                 else
                   (let q2 = q1\<lparr>oi_status := ''cancelled'', oi_finished_at := Some (we_now env)\<rparr>;
                        ws2 = update_item i (\<lambda>_. q2) ws1
                    in (Inr q2,
                        ws2\<lparr>ws_store := emit True ''optimization.failed''
                           [(''item_id'', PyStr i), (''status'', PyStr ''cancelled''),
                            (''reason'', PyStr ''user cancelled'')] ''optimization'' (ws_store ws2)\<rparr>))))"

definition retry_item ::
    "worker_env \<Rightarrow> (wstate \<Rightarrow> wstate) \<Rightarrow> string \<Rightarrow> optimization_item act" where
  "retry_item env others i ws =
     (case find_item i ws of
        None \<Rightarrow> (Inl (NotFoundError ''Optimization item not found''), ws)
      | Some q \<Rightarrow>
          if oi_status q = ''queued'' then (Inr q, ws)
          else if oi_status q = ''running''
          then (Inl (ValidationError ''Item is currently running; cancel it first to retry''), ws)
          else
            (let ws1 = others ws in
             case find_item i ws1 of
               None \<Rightarrow> (Inl (NotFoundError ''Optimization item not found''), ws1)
             | Some q1 \<Rightarrow>
                 if oi_status q1 \<notin> {''failed'', ''cancelled'', ''skipped'', ''completed''} then (Inr q1, ws1)
                 else
                   (let q2 = q1\<lparr>oi_status := ''queued'', oi_started_at := None, oi_finished_at := None,
                               oi_progress_pct := 0, oi_error := None, oi_queued_at := we_now env\<rparr>
                    in (Inr q2, update_item i (\<lambda>_. q2) ws1))))"

end
