(* ===== verification/OptimizationGuarantees.thy ===== *)
theory OptimizationGuarantees
  imports OptimizationWorker
begin

text \<open>
  What the optimization queue guarantees: a claimed item always leaves the running state, an
  operation touches only its own item, every operation moves items along the documented status
  machine, and the bytes of a media file survive a run that keeps backups.
\<close>

section \<open>One item at a time\<close>

named_theorems item_simps \<open>reading an item and the files after a write\<close>

lemma find_item_update [item_simps]:
  assumes "\<And>q. oi_id (f q) = oi_id q"
  shows "find_item j (update_item i f ws) =
     (if j = i then map_option f (find_item i ws) else find_item j ws)"
proof -
  have "table_find oi_id j (map (\<lambda>q. if oi_id q = i then f q else q) t) =
      (if j = i then map_option f (table_find oi_id i t) else table_find oi_id j t)" for t
    using assms by (induction t) auto
  then show ?thesis by (simp add: find_item_def update_item_def)
qed

lemma find_item_emit [simp, item_simps]: "find_item j (ws_emit env n p ws) = find_item j ws"
  by (simp add: find_item_def ws_emit_def)

lemma ws_fs_simps [simp, item_simps]:
  "ws_fs (update_item i f ws) = ws_fs ws" "ws_fs (ws_emit env n p ws) = ws_fs ws"
  "ws_fs (set_meta i k v ws) = ws_fs ws" "ws_fs (requeue i ws) = ws_fs ws"
  "ws_fs (start_item env i ws) = ws_fs ws" "ws_fs (emit_started env q ws) = ws_fs ws"
  by (simp_all add: update_item_def ws_emit_def set_meta_def requeue_def start_item_def emit_started_def)

text \<open>The tables a run reads but never writes.\<close>

definition same_tables :: "wstate \<Rightarrow> wstate \<Rightarrow> bool" where
  "same_tables ws ws' =
     (st_media (ws_store ws') = st_media (ws_store ws)
      \<and> st_profiles (ws_store ws') = st_profiles (ws_store ws)
      \<and> st_integrations (ws_store ws') = st_integrations (ws_store ws)
      \<and> map oi_id (st_opt (ws_store ws')) = map oi_id (st_opt (ws_store ws)))"

definition touches :: "string \<Rightarrow> wstate \<Rightarrow> wstate \<Rightarrow> bool" where
  "touches i ws ws' =
     (same_tables ws ws' \<and> (\<forall>j. j \<noteq> i \<longrightarrow> find_item j ws' = find_item j ws)
      \<and> (find_item i ws' = None \<longleftrightarrow> find_item i ws = None))"

named_theorems touch_intros \<open>operations that touch one item\<close>

lemma touches_refl [simp, touch_intros]: "touches i ws ws"
  by (simp add: touches_def same_tables_def)

lemma touches_trans: "touches i a b \<Longrightarrow> touches i b c \<Longrightarrow> touches i a c"
  by (auto simp: touches_def same_tables_def)

lemma touches_update:
  assumes "\<And>q. oi_id (f q) = oi_id q"
  shows "touches i ws (update_item i f ws)"
proof -
  have "map oi_id (map (\<lambda>q. if oi_id q = i then f q else q) t) = map oi_id t" for t
    using assms by (induction t) auto
  then have "same_tables ws (update_item i f ws)" by (simp add: same_tables_def update_item_def)
  then show ?thesis by (simp add: touches_def find_item_update assms)
qed

lemma touches_emit: "touches i ws (ws_emit env n p ws)"
  by (simp add: touches_def same_tables_def ws_emit_def find_item_def)

lemma touches_fs: "touches i ws (ws\<lparr>ws_fs := f\<rparr>)"
  by (simp add: touches_def same_tables_def find_item_def)

lemma touches_set_meta [touch_intros]: "touches i ws (set_meta i k v ws)"
  unfolding set_meta_def by (rule touches_update) simp

lemma touches_complete [touch_intros]: "touches (oi_id item) ws (snd (complete env item d ws))"
  unfolding complete_def Let_def snd_conv
  by (rule touches_trans [OF touches_update touches_emit]) simp

lemma touches_fail [touch_intros]: "touches (oi_id item) ws (snd (fail env item d ws))"
  unfolding fail_def Let_def snd_conv
  by (rule touches_trans [OF touches_update touches_emit]) simp

lemma touches_skip [touch_intros]: "touches (oi_id item) ws (snd (skip env item d ws))"
  unfolding skip_def Let_def snd_conv
  by (rule touches_trans [OF touches_update touches_emit]) simp

lemma touches_requeue [touch_intros]: "touches i ws (requeue i ws)"
  unfolding requeue_def by (rule touches_update) simp

lemma touches_release [touch_intros]:
  "touches (oi_id item) ws (snd (release_for_schedule env item w ws))"
  unfolding release_for_schedule_def Let_def snd_conv
  by (rule touches_trans [OF touches_requeue touches_emit])

lemma touches_start [touch_intros]: "touches i ws (start_item env i ws)"
  unfolding start_item_def by (rule touches_update) simp

lemma touches_started [touch_intros]: "touches i ws (emit_started env q ws)"
  unfolding emit_started_def by (rule touches_emit)

lemma touches_discard [touch_intros]: "touches i ws (discard env p ws)"
  by (simp add: discard_def unlink_def touches_fs)

lemma touches_os_replace [touch_intros]: "touches i ws (snd (os_replace env a b ws))"
  by (simp add: os_replace_def touches_fs split: option.split)

lemma touches_unlink [touch_intros]: "touches i ws (snd (unlink env p ws))"
  by (simp add: unlink_def touches_fs)

lemma touches_progress [touch_intros]: "touches i ws (progress_events env i pcts ws)"
proof (induction pcts arbitrary: ws)
  case (Cons pct pcts)
  let ?w = "ws_emit env ''optimization.progress'' [(''item_id'', PyStr i), (''pct'', PyInt pct)]
      (update_item i (\<lambda>q. q\<lparr>oi_progress_pct := pct\<rparr>) ws)"
  have "touches i ws ?w" by (rule touches_trans [OF touches_update touches_emit]) simp
  from touches_trans [OF this Cons] show ?case by (simp add: progress_events_def)
qed (simp add: progress_events_def)

lemma touches_ffmpeg [touch_intros]: "touches i ws (ffmpeg_writes run out ws)"
  by (simp add: ffmpeg_writes_def touches_fs)

section \<open>A run settles its item\<close>

definition OUTCOMES :: "(string \<times> string) set" where
  "OUTCOMES = {(''completed'', ''completed''), (''failed'', ''failed''), (''skipped'', ''skipped''),
     (''skipped'', ''queued''), (''routed'', ''routed'')}"

definition settles :: "string \<Rightarrow> worker_report \<Rightarrow> wstate \<Rightarrow> bool" where
  "settles i r ws =
     (wr_item_id r = Some i \<and> (\<exists>q. find_item i ws = Some q \<and> (wr_status r, oi_status q) \<in> OUTCOMES))"

text \<open>An outcome is good for item \<open>i\<close> when only that item was touched and, unless it is an
  exception, the report and the row agree on how the run ended.\<close>

definition good :: "string \<Rightarrow> wstate \<Rightarrow> worker_report result \<times> wstate \<Rightarrow> bool" where
  "good i ws out =
     (touches i ws (snd out)
      \<and> (find_item i ws \<noteq> None \<longrightarrow> (case fst out of Inl e \<Rightarrow> True | Inr r \<Rightarrow> settles i r (snd out))))"

lemma good_after: "touches i ws ws1 \<Longrightarrow> good i ws1 out \<Longrightarrow> good i ws out"
  by (auto simp: good_def touches_def same_tables_def)

lemma good_raise: "touches i ws ws' \<Longrightarrow> good i ws (Inl e, ws')"
  by (simp add: good_def)

abbreviation returns :: "worker_report \<times> wstate \<Rightarrow> worker_report result \<times> wstate" where
  "returns \<equiv> \<lambda>(r, w). (Inr r, w)"

lemma good_returns:
  "touches i ws (snd out) \<Longrightarrow> (find_item i ws \<noteq> None \<Longrightarrow> settles i (fst out) (snd out)) \<Longrightarrow>
     good i ws (returns out)"
  by (cases out) (simp add: good_def)

named_theorems good_intros \<open>outcomes of the worker's operations\<close>

lemma good_fail [good_intros]: "good (oi_id item) ws (returns (fail env item d ws))"
  by (rule good_returns [OF touches_fail])
    (auto simp: fail_def settles_def find_item_update OUTCOMES_def report_def Let_def)

lemma good_skip [good_intros]: "good (oi_id item) ws (returns (skip env item d ws))"
  by (rule good_returns [OF touches_skip])
    (auto simp: skip_def settles_def find_item_update OUTCOMES_def report_def Let_def)

lemma good_complete [good_intros]: "good (oi_id item) ws (returns (complete env item d ws))"
  by (rule good_returns [OF touches_complete])
    (auto simp: complete_def settles_def find_item_update OUTCOMES_def report_def Let_def)

lemma good_release [good_intros]: "good (oi_id item) ws (returns (release_for_schedule env item w ws))"
  by (rule good_returns [OF touches_release])
    (auto simp: release_for_schedule_def requeue_def settles_def find_item_update OUTCOMES_def
      report_def Let_def)

lemma good_requeue [good_intros]: "good i ws (Inr (report i ''skipped'' d), requeue i ws)"
  unfolding good_def snd_conv fst_conv
  by (intro conjI touches_requeue)
    (auto simp: requeue_def settles_def find_item_update OUTCOMES_def report_def)

lemma touches_pair:
  "touches i ws (snd out) \<Longrightarrow> out = (res, w) \<Longrightarrow> touches i ws w"
  by simp

lemma touches_set_aside [touch_intros]: "touches (oi_id item) ws (snd (set_aside env a item p ws))"
proof -
  have "touches (oi_id item) w (update_item (oi_id item) (\<lambda>q. q\<lparr>oi_backup_path := x\<rparr>) w)" for x w
    by (rule touches_update) simp
  moreover note touches_pair [OF touches_os_replace, of env a "backup_path_of a" ws _ _ "oi_id item"]
    touches_pair [OF touches_unlink, of env a ws _ _ "oi_id item"]
  ultimately show ?thesis
    unfolding set_aside_def by (auto split: prod.split sum.split) (blast intro: touches_trans)+
qed

lemma touches_swap [touch_intros]: "touches (oi_id item) ws (snd (swap env a b item p ws))"
proof -
  obtain r w where sa: "set_aside env a item p ws = (r, w)" by fastforce
  obtain r' w' where rp: "os_replace env b (final_path_of a p) w = (r', w')" by fastforce
  have t: "touches (oi_id item) ws w" "touches (oi_id item) w w'"
    using touches_pair [OF touches_set_aside sa] touches_pair [OF touches_os_replace rp] by simp_all
  have "snd (swap env a b item p ws) \<in>
      {w, w', set_meta (oi_id item) ''final_path'' (PyStr (final_path_of a p)) w'}"
    by (simp add: swap_def sa rp split: sum.split)
  then show ?thesis
    using t touches_trans [OF t] touches_trans [OF touches_trans [OF t] touches_set_meta] by auto
qed

lemma good_finish [good_intros]:
  "good (oi_id item) ws (finish_transcode env item p m tmp sz res ws)"
proof -
  let ?i = "oi_id item"
  have d: "good ?i w (returns (fail env item x (discard env tmp w)))" for x w
    by (rule good_after [OF touches_discard good_fail])
  have u: "touches ?i ws (update_item ?i (\<lambda>q. q\<lparr>oi_optimized_size_bytes := x\<rparr>) ws)" for x
    by (rule touches_update) simp
  have sw: "good ?i w (case swap env (mf_path m) tmp item p w of
                (Inl OSError, w) \<Rightarrow> returns (fail env item a (discard env tmp w))
              | (Inl e, w) \<Rightarrow> (Inl e, w)
              | (Inr _, w) \<Rightarrow> returns (complete env item b w))" for w a b
  proof -
    obtain r w' where s: "swap env (mf_path m) tmp item p w = (r, w')" by fastforce
    from touches_pair [OF touches_swap s] have t: "touches ?i w w'" .
    show ?thesis
      by (simp only: s prod.case)
        (auto split: sum.split pyerr.split
          intro: good_after [OF t d] good_after [OF t good_complete] good_raise [OF t])
  qed
  show ?thesis
    unfolding finish_transcode_def Let_def
    by (auto intro: d good_after [OF u sw] good_after [OF u good_after [OF touches_set_meta good_complete]]
        split: option.split)
qed

lemma good_transcode [good_intros]: "good (oi_id item) ws (transcode env item p m bytes sz ws)"
  unfolding transcode_def Let_def
  by (auto split: sum.split prod.split
      intro: good_raise good_after [OF touches_ffmpeg good_after [OF touches_progress good_finish]]
        touches_ffmpeg)

lemma good_in_process [good_intros]: "good (oi_id item) ws (run_in_process env item p row m ws)"
proof -
  have u: "touches (oi_id item) ws (update_item (oi_id item) (\<lambda>q. q\<lparr>oi_original_size_bytes := x\<rparr>) ws)" for x
    by (rule touches_update) simp
  show ?thesis
    unfolding run_in_process_def Let_def
    by (cases "low_bitrate p m") (auto split: option.split
        intro: good_fail good_after [OF u good_skip] good_after [OF u good_transcode])
qed

lemma good_routed: "touches i ws ws1 \<Longrightarrow>
  good i ws (Inr (report i ''routed'' d),
    ws_emit env n p (update_item i (\<lambda>q. q\<lparr>oi_status := ''routed''\<rparr>) ws1))"
proof (rule good_after)
  let ?w = "update_item i (\<lambda>q. q\<lparr>oi_status := ''routed''\<rparr>) ws1"
  have "touches i ws1 ?w" by (rule touches_update) simp
  then have "touches i ws1 (ws_emit env n p ?w)" by (rule touches_trans [OF _ touches_emit])
  then show "good i ws1 (Inr (report i ''routed'' d), ws_emit env n p ?w)"
    by (auto simp: good_def settles_def find_item_update OUTCOMES_def report_def)
qed

lemma find_item_set_meta:
  "find_item j (set_meta i k v ws) =
     (if j = i then map_option (\<lambda>q. q\<lparr>oi_metadata := dict_set k v (oi_metadata q)\<rparr>) (find_item i ws)
      else find_item j ws)"
  unfolding set_meta_def by (rule find_item_update) simp

lemma good_submitted [good_intros]: "good (oi_id item) ws (returns (submitted env item p ig res ws))"
proof -
  let ?i = "oi_id item" and ?w = "update_item (oi_id item) (\<lambda>q. q\<lparr>oi_status := ''routed''\<rparr>) ws"
  have w: "touches ?i ws ?w" by (rule touches_update) simp
  have m: "touches ?i ws x \<Longrightarrow> touches ?i ws (set_meta ?i k v x)" for x k v
    by (rule touches_trans [OF _ touches_set_meta])
  have e: "touches ?i ws x \<Longrightarrow> touches ?i ws (ws_emit env n pl x)" for x n pl
    by (rule touches_trans [OF _ touches_emit])
  have "good ?i ws (returns (submitted env item p ig res ws))" if "js_status res = ''accepted''"
    using that w
    by (intro good_returns)
      (auto simp: submitted_def Let_def settles_def find_item_set_meta find_item_update OUTCOMES_def
        report_def intro!: e m)
  moreover have "good ?i ws (returns (submitted env item p ig res ws))" if "js_status res \<noteq> ''accepted''"
    using that good_fail good_requeue by (simp add: submitted_def Let_def)
  ultimately show ?thesis by blast
qed

lemma good_route [good_intros]: "good (oi_id item) ws (route_to_provider env item p row m ws)"
proof -
  let ?w = "set_meta (oi_id item) ''routed_at'' (PyStr (we_iso env (we_now env)))
      (set_meta (oi_id item) ''routing_target'' (PyStr (pd_routing_target p)) ws)"
  have t: "touches (oi_id item) ws ?w" by (rule touches_trans [OF touches_set_meta touches_set_meta])
  show ?thesis
    unfolding route_to_provider_def Let_def
    by (intro good_after [OF t])
      (auto split: option.split sum.split
        intro: good_fail good_routed good_raise good_requeue good_submitted touches_refl)
qed

lemma good_claimed: "good (oi_id item) ws (run_claimed env item ws)"
proof -
  have g: "good (oi_id item) ws (run_gated env item p row m ws)" for p row m
    unfolding run_gated_def using good_route good_fail good_in_process by simp
  show ?thesis
    unfolding run_claimed_def Let_def
    by (auto split: option.split sum.split
        intro: good_fail good_skip good_release good_raise g touches_refl)
qed

text \<open>The exception handler turns an escaped exception into a failed item.\<close>

lemma guarded_settles:
  assumes "guarded env item ws = (r, ws')"
  shows "touches (oi_id item) ws ws' \<and> (find_item (oi_id item) ws \<noteq> None \<longrightarrow> settles (oi_id item) r ws')"
proof -
  obtain res w where run: "run_claimed env item ws = (res, w)" by fastforce
  have g: "good (oi_id item) ws (res, w)" using good_claimed [of item ws env] run by simp
  show ?thesis
  proof (cases res)
    case (Inr r')
    with g assms run show ?thesis by (simp add: guarded_def good_def)
  next
    case (Inl e)
    let ?f = "fail env item (py_take 2000 (''worker crashed: '' @ we_exc_str env e)) w"
    have "touches (oi_id item) ws w" using g by (simp add: good_def)
    then have "good (oi_id item) ws (returns ?f)" by (rule good_after [OF _ good_fail])
    moreover have "fst ?f = report (oi_id item) ''failed'' (py_take 2000 (''worker crashed: '' @ we_exc_str env e))"
      by (simp add: fail_def Let_def)
    ultimately show ?thesis
      using assms run Inl by (cases ?f) (auto simp: guarded_def good_def settles_def report_def)
  qed
qed

section \<open>Claiming\<close>

lemma claim_loop_claims:
  "claim_loop env others k n ws = (Some item, ws') \<Longrightarrow>
     find_item (oi_id item) ws' = Some item \<and> oi_status item = ''running''"
proof (induction n arbitrary: k ws)
  case (Suc n)
  from Suc.prems Suc.IH show ?case
    by (auto simp: Let_def find_item_update start_item_def emit_started_def
        split: option.splits if_splits dest: table_find_SomeD)
      (auto simp: find_item_def dest: table_find_SomeD)
qed simp

text \<open>Without interference the first attempt decides.\<close>

lemma next_queued_None: "next_queued ws = None \<longleftrightarrow> (\<forall>q\<in>set (st_opt (ws_store ws)). oi_status q \<noteq> ''queued'')"
proof -
  let ?qs = "filter (\<lambda>q. oi_status q = ''queued'') (st_opt (ws_store ws))"
  have "next_queued ws = None \<longleftrightarrow> sort_key oi_queued_at ?qs = []"
    by (simp add: next_queued_def split: list.split)
  also have "\<dots> \<longleftrightarrow> length (sort_key oi_queued_at ?qs) = 0" by (simp only: length_0_conv)
  also have "\<dots> \<longleftrightarrow> length ?qs = 0" by (simp only: length_sort)
  finally show ?thesis by (simp add: filter_empty_conv)
qed

lemma next_queued_Some:
  assumes "next_queued ws = Some i"
  shows "\<exists>q\<in>set (st_opt (ws_store ws)). oi_id q = i \<and> oi_status q = ''queued''
     \<and> (\<forall>q'\<in>set (st_opt (ws_store ws)). oi_status q' = ''queued'' \<longrightarrow> oi_queued_at q \<le> oi_queued_at q')"
proof -
  let ?qs = "filter (\<lambda>q. oi_status q = ''queued'') (st_opt (ws_store ws))"
  obtain q qs where s: "sort_key oi_queued_at ?qs = q # qs" and i: "oi_id q = i"
    using assms by (auto simp: next_queued_def split: list.splits)
  have "sorted (map oi_queued_at (q # qs))" using sorted_sort_key [of oi_queued_at ?qs] s by simp
  moreover have "set (q # qs) = set ?qs" using arg_cong [OF s, of set] by simp
  ultimately show ?thesis using i by (intro bexI [of _ q]) auto
qed

lemma find_item_distinct:
  assumes "distinct (map oi_id (st_opt (ws_store ws)))"
  shows "find_item i ws = Some q \<longleftrightarrow> q \<in> set (st_opt (ws_store ws)) \<and> oi_id q = i"
  using table_find_Some_iff [of oi_id "st_opt (ws_store ws)"] assms by (simp add: find_item_def unique_keys_def)

definition claimed :: "worker_env \<Rightarrow> optimization_item \<Rightarrow> optimization_item" where
  "claimed env q = q\<lparr>oi_status := ''running'', oi_started_at := Some (we_now env), oi_progress_pct := 0\<rparr>"

lemma claimed_simps [simp]: "oi_id (claimed env q) = oi_id q" "oi_status (claimed env q) = ''running''"
  by (simp_all add: claimed_def)

lemma find_item_start:
  "find_item j (start_item env i ws) =
     (if j = i then map_option (claimed env) (find_item i ws) else find_item j ws)"
  unfolding start_item_def claimed_def [abs_def] by (rule find_item_update) simp

lemma claim_loop_first:
  "0 < n \<Longrightarrow> next_queued ws = Some i \<Longrightarrow> find_item i ws = Some q \<Longrightarrow> oi_status q = ''queued'' \<Longrightarrow>
     claim_loop env (\<lambda>_ w. w) k n ws =
     (Some (claimed env q), emit_started env (claimed env q) (start_item env i ws))"
  by (cases n) (simp_all add: find_item_start Let_def)

lemma claim_next_alone:
  assumes "distinct (map oi_id (st_opt (ws_store ws)))" "next_queued ws = Some i"
  shows "\<exists>q. find_item i ws = Some q \<and> oi_status q = ''queued''
     \<and> claim_next env (\<lambda>_ w. w) ws = (Some (claimed env q), emit_started env (claimed env q) (start_item env i ws))"
proof -
  obtain q where "find_item i ws = Some q" "oi_status q = ''queued''"
    using next_queued_Some [OF assms(2)] find_item_distinct [OF assms(1)] by blast
  with claim_loop_first [OF _ assms(2) this, of 16] show ?thesis by (simp add: claim_next_def)
qed

lemma claim_loop_idle: "next_queued ws = None \<Longrightarrow> claim_loop env others k n ws = (None, ws)"
  by (cases n) simp_all

lemma claim_next_idle: "next_queued ws = None \<Longrightarrow> claim_next env others ws = (None, ws)"
  by (simp add: claim_next_def claim_loop_idle)

section \<open>Properties of a run\<close>

text \<open>C5. Whatever other sessions do between the statements of a claim, and whatever ffmpeg, the file
  system or a provider do, a call of \<open>run_one\<close> that has the claimed row to itself from then on either
  reports that there was nothing to do or names the one item it ran, and that item has left the running state: it is
  completed, failed, skipped, routed or queued again, as the report says.  (Nobody else writes or deletes
  the row while it runs; a worker killed while it runs is outside too.)\<close>

theorem run_one_settles:
  "\<exists>r ws'. run_one env others ws = (r, ws')
     \<and> (wr_status r = ''idle'' \<and> wr_item_id r = None
        \<or> (\<exists>i q. wr_item_id r = Some i \<and> find_item i ws' = Some q
             \<and> (wr_status r, oi_status q) \<in>
                 {(''completed'', ''completed''), (''failed'', ''failed''), (''skipped'', ''skipped''),
                  (''skipped'', ''queued''), (''routed'', ''routed'')}))"
proof -
  obtain item w where c: "claim_next env others ws = (item, w)" by fastforce
  show ?thesis
  proof (cases item)
    case None
    with c show ?thesis by (simp add: run_one_def)
  next
    case (Some it)
    obtain r ws' where g: "guarded env it w = (r, ws')" by fastforce
    have "find_item (oi_id it) w \<noteq> None"
      using claim_loop_claims c Some by (fastforce simp: claim_next_def)
    with guarded_settles [OF g] have "settles (oi_id it) r ws'" by simp
    with c Some g show ?thesis by (auto simp: run_one_def settles_def OUTCOMES_def)
  qed
qed

text \<open>With nobody else working on the queue, \<open>run_one\<close> is idle exactly when nothing is queued,
  and then changes nothing; otherwise it runs an item that has waited longest, and every other item,
  and the media, profile and integration rows, are as before.\<close>

theorem run_one_oldest:
  assumes "distinct (map oi_id (st_opt (ws_store ws)))"
  shows "\<exists>r ws'. run_one env (\<lambda>_ w. w) ws = (r, ws')
     \<and> (if \<exists>q\<in>set (st_opt (ws_store ws)). oi_status q = ''queued''
        then \<exists>q. wr_item_id r = Some (oi_id q) \<and> q \<in> set (st_opt (ws_store ws)) \<and> oi_status q = ''queued''
               \<and> (\<forall>q'\<in>set (st_opt (ws_store ws)). oi_status q' = ''queued'' \<longrightarrow> oi_queued_at q \<le> oi_queued_at q')
               \<and> same_tables ws ws'
               \<and> (\<forall>j. j \<noteq> oi_id q \<longrightarrow> find_item j ws' = find_item j ws)
        else wr_status r = ''idle'' \<and> ws' = ws)"
proof (cases "next_queued ws")
  case None
  then have "\<not> (\<exists>q\<in>set (st_opt (ws_store ws)). oi_status q = ''queued'')" by (simp add: next_queued_None)
  then show ?thesis using claim_next_idle [OF None] by (simp add: run_one_def)
next
  case (Some i)
  from next_queued_Some [OF Some] obtain q where q: "q \<in> set (st_opt (ws_store ws))" "oi_id q = i"
    "oi_status q = ''queued''"
    "\<forall>q'\<in>set (st_opt (ws_store ws)). oi_status q' = ''queued'' \<longrightarrow> oi_queued_at q \<le> oi_queued_at q'"
    by blast
  have f: "find_item i ws = Some q" using q find_item_distinct [OF assms] by simp
  with claim_next_alone [OF assms Some, of env]
  have c: "claim_next env (\<lambda>_ w. w) ws =
      (Some (claimed env q), emit_started env (claimed env q) (start_item env i ws))" by simp
  let ?w = "emit_started env (claimed env q) (start_item env i ws)"
  obtain r ws' where g: "guarded env (claimed env q) ?w = (r, ws')" by fastforce
  have t: "touches i ws ?w" by (rule touches_trans [OF touches_start touches_started])
  moreover have "find_item i ?w \<noteq> None" using f by (simp add: emit_started_def find_item_start)
  ultimately have "touches i ws ws'" "settles i r ws'"
    using guarded_settles [OF g] q(2) touches_trans [OF t] by auto
  with c g q show ?thesis by (auto simp: run_one_def touches_def settles_def)
qed

section \<open>The status machine\<close>

text \<open>The machine of the item's status, with the operator's two buttons; a claimed item is running until it
  is finished.\<close>

inductive opt_step :: "string \<Rightarrow> string \<Rightarrow> bool" where
  claim: "opt_step ''queued'' ''running''"
| finish: "s \<in> {''completed'', ''failed'', ''skipped'', ''routed'', ''queued''} \<Longrightarrow> opt_step ''running'' s"
| poll: "s \<in> {''completed'', ''failed''} \<Longrightarrow> opt_step ''routed'' s"
| cancel: "s \<in> {''queued'', ''running''} \<Longrightarrow> opt_step s ''cancelled''"
| retry: "s \<in> {''failed'', ''cancelled'', ''skipped'', ''completed''} \<Longrightarrow> opt_step s ''queued''"

code_pred opt_step .


text \<open>The operations of the queue, and the moves each may make with the item \<open>j\<close>: one move, of the
  named item only, except that a poll may move every routed one.\<close>

datatype queue_op = RunNext | RunItem string | PollRouted | CancelItem string | RetryItem string

fun do_op :: "worker_env \<Rightarrow> integ_env \<Rightarrow> queue_op \<Rightarrow> wstate \<Rightarrow> wstate" where
  "do_op env im RunNext ws = snd (run_one env (\<lambda>_ w. w) ws)"
| "do_op env im (RunItem i) ws = snd (run_item env i ws)"
| "do_op env im PollRouted ws = snd (poll_routed_transcodes env im ws)"
| "do_op env im (CancelItem i) ws = snd (cancel_item env (\<lambda>w. w) i ws)"
| "do_op env im (RetryItem i) ws = snd (retry_item env (\<lambda>w. w) i ws)"

fun op_move :: "queue_op \<Rightarrow> string \<Rightarrow> string \<Rightarrow> string \<Rightarrow> bool" where
  "op_move RunNext j s t = (s = ''queued'' \<and> t \<in> {''completed'', ''failed'', ''skipped'', ''routed'', ''queued''})"
| "op_move (RunItem i) j s t = (j = i \<and> s = ''queued'' \<and> t \<in> {''completed'', ''failed'', ''skipped'', ''routed'', ''queued''})"
| "op_move PollRouted j s t = (s = ''routed'' \<and> t \<in> {''routed'', ''completed'', ''failed''})"
| "op_move (CancelItem i) j s t = (j = i \<and> s \<in> {''queued'', ''running''} \<and> t = ''cancelled'')"
| "op_move (RetryItem i) j s t = (j = i \<and> s \<in> {''failed'', ''cancelled'', ''skipped'', ''completed''} \<and> t = ''queued'')"

text \<open>At most the item \<open>i\<close> is changed, and if it is, by a move of the operation.\<close>

definition moves :: "queue_op \<Rightarrow> string \<Rightarrow> wstate \<Rightarrow> wstate \<Rightarrow> bool" where
  "moves op i ws ws' = ((\<forall>j. j \<noteq> i \<longrightarrow> find_item j ws' = find_item j ws)
     \<and> (find_item i ws' = find_item i ws
        \<or> (\<exists>q q'. find_item i ws = Some q \<and> find_item i ws' = Some q' \<and> op_move op i (oi_status q) (oi_status q'))))"

lemma moves_refl [simp]: "moves op i ws ws"
  by (simp add: moves_def)

text \<open>A run of an item that was queued when it was started.\<close>

lemma moves_run:
  assumes q: "find_item i ws = Some q" "oi_status q = ''queued''"
    and item: "oi_id item = i" and op: "op = RunNext \<or> op = RunItem i"
    and g: "guarded env item (emit_started env it (start_item env i ws)) = (r, ws')"
  shows "moves op i ws ws'"
proof -
  let ?w = "emit_started env it (start_item env i ws)"
  have t: "touches i ws ?w" by (rule touches_trans [OF touches_start touches_started])
  have "find_item i ?w \<noteq> None" using q by (simp add: emit_started_def find_item_start)
  with guarded_settles [OF g] item have s: "touches i ?w ws'" "settles i r ws'" by auto
  from touches_trans [OF t s(1)] have "\<forall>j. j \<noteq> i \<longrightarrow> find_item j ws' = find_item j ws" by (simp add: touches_def)
  moreover from s(2) obtain b where "find_item i ws' = Some b"
    "oi_status b \<in> {''completed'', ''failed'', ''skipped'', ''routed'', ''queued''}"
    by (auto simp: settles_def OUTCOMES_def)
  ultimately show ?thesis using q op by (auto simp: moves_def)
qed

lemma claim_alone_Some:
  "claim_loop env (\<lambda>_ w. w) k n ws = (Some item, w) \<Longrightarrow>
     \<exists>q. find_item (oi_id item) ws = Some q \<and> oi_status q = ''queued''
       \<and> w = emit_started env item (start_item env (oi_id item) ws)"
proof (induction n arbitrary: k)
  case (Suc n)
  then show ?case
    by (auto simp: Let_def find_item_start split: option.splits if_splits)
      (auto simp: find_item_def dest: table_find_SomeD)
qed simp

lemma claim_alone_None: "claim_loop env (\<lambda>_ w. w) k n ws = (None, w) \<Longrightarrow> w = ws"
proof (induction n arbitrary: k)
  case (Suc n)
  then show ?case by (auto simp: Let_def find_item_start split: option.splits if_splits)
qed simp

lemma moves_run_one: "\<exists>i. moves RunNext i ws (snd (run_one env (\<lambda>_ w. w) ws))"
proof -
  obtain c w where c: "claim_loop env (\<lambda>_ w. w) 0 16 ws = (c, w)" by fastforce
  show ?thesis
  proof (cases c)
    case None
    with c claim_alone_None [of env 0 16 ws w] show ?thesis by (simp add: run_one_def claim_next_def)
  next
    case (Some item)
    with c claim_alone_Some [of env 0 16 ws item w] obtain q where
      q: "find_item (oi_id item) ws = Some q" "oi_status q = ''queued''"
      "w = emit_started env item (start_item env (oi_id item) ws)" by auto
    have "moves RunNext (oi_id item) ws (snd (guarded env item w))"
      unfolding q(3) by (rule moves_run [OF q(1,2) refl _ prod.collapse [symmetric]]) simp
    with c Some show ?thesis by (auto simp: run_one_def claim_next_def)
  qed
qed

lemma moves_run_item: "moves (RunItem i) i ws (snd (run_item env i ws))"
proof (cases "find_item i ws")
  case (Some q)
  then have "oi_id q = i" by (auto simp: find_item_def dest: table_find_SomeD)
  with Some show ?thesis
    by (cases "guarded env q (emit_started env q (start_item env i ws))")
      (auto simp: run_item_def intro: moves_run)
qed (simp add: run_item_def)

lemma moves_update:
  assumes "find_item i ws = Some q" "oi_id q' = i" "op_move op i (oi_status q) (oi_status q')"
    and w: "w = update_item i (\<lambda>_. q') ws \<or> w = (update_item i (\<lambda>_. q') ws)\<lparr>ws_store := emit b n p src
       (ws_store (update_item i (\<lambda>_. q') ws))\<rparr>"
  shows "moves op i ws w"
proof -
  have "table_find oi_id j (map (\<lambda>q. if oi_id q = i then q' else q) t) =
      (if j = i then map_option (\<lambda>_. q') (table_find oi_id i t) else table_find oi_id j t)" for j t
    using assms(2) by (induction t) auto
  then have "find_item j w = (if j = i then map_option (\<lambda>_. q') (find_item i ws) else find_item j ws)" for j
    using w by (auto simp: find_item_def update_item_def)
  then show ?thesis using assms(1,3) by (auto simp: moves_def)
qed

lemma moves_cancel: "moves (CancelItem i) i ws (snd (cancel_item env (\<lambda>w. w) i ws))"
proof (cases "find_item i ws")
  case (Some q)
  let ?q = "q\<lparr>oi_status := ''cancelled'', oi_finished_at := Some (we_now env)\<rparr>"
  have i: "oi_id ?q = i" using Some by (auto simp: find_item_def dest: table_find_SomeD)
  have "moves (CancelItem i) i ws ((update_item i (\<lambda>_. ?q) ws)\<lparr>ws_store := emit b n p src (ws_store (update_item i (\<lambda>_. ?q) ws))\<rparr>)"
    if "oi_status q \<in> {''queued'', ''running''}" for b n p src
    using that by (intro moves_update [OF Some i]) auto
  with Some show ?thesis by (simp add: cancel_item_def Let_def)
qed (simp add: cancel_item_def)

lemma moves_retry: "moves (RetryItem i) i ws (snd (retry_item env (\<lambda>w. w) i ws))"
proof (cases "find_item i ws")
  case (Some q)
  let ?q = "q\<lparr>oi_status := ''queued'', oi_started_at := None, oi_finished_at := None, oi_progress_pct := 0,
      oi_error := None, oi_queued_at := we_now env\<rparr>"
  have i: "oi_id ?q = i" using Some by (auto simp: find_item_def dest: table_find_SomeD)
  have "moves (RetryItem i) i ws (update_item i (\<lambda>_. ?q) ws)"
    if "oi_status q \<in> {''failed'', ''cancelled'', ''skipped'', ''completed''}"
    using that by (intro moves_update [OF Some i]) auto
  with Some show ?thesis by (simp add: retry_item_def Let_def)
qed (simp add: retry_item_def)

section \<open>The poller\<close>

text \<open>The status a poll leaves an item in.\<close>

fun polled_status :: "poll_outcome \<Rightarrow> string" where
  "polled_status PollCompleted = ''completed''"
| "polled_status PollFailed = ''failed''"
| "polled_status _ = ''routed''"

lemma poll_one_row:
  assumes "poll_one env im item ws = (oc, ws')" "find_item (oi_id item) ws = Some q" "oi_status q = ''routed''"
  shows "touches (oi_id item) ws ws'
    \<and> (\<exists>q'. find_item (oi_id item) ws' = Some q' \<and> oi_status q' = polled_status oc)"
proof -
  let ?i = "oi_id item"
  have c: "touches ?i ws (mark_completed env item d ws)" "touches ?i ws (mark_failed env item d ws)" for d
    unfolding mark_completed_def mark_failed_def
    by (rule touches_trans [OF touches_update touches_emit]; simp)+
  have p: "touches ?i ws (update_item ?i (\<lambda>q. q\<lparr>oi_progress_pct := n\<rparr>) ws)" for n
    by (rule touches_update) simp
  have f: "\<exists>q'. find_item ?i (mark_failed env item d ws) = Some q' \<and> oi_status q' = ''failed''"
    "\<exists>q'. find_item ?i (mark_completed env item d ws) = Some q' \<and> oi_status q' = ''completed''" for d
    using assms(2) by (simp_all add: mark_failed_def mark_completed_def find_item_update)
  have js: "touches ?i ws (snd (apply_job_status env item js ws)) \<and>
      (\<exists>q'. find_item ?i (snd (apply_job_status env item js ws)) = Some q'
        \<and> oi_status q' = polled_status (fst (apply_job_status env item js ws)))" for js
    using assms(2,3) c p f by (auto simp: apply_job_status_def find_item_update split: option.split)
  define ok where "ok out \<longleftrightarrow> touches ?i ws (snd out) \<and>
      (\<exists>q'. find_item ?i (snd out) = Some q' \<and> oi_status q' = polled_status (fst out))" for out
  have "ok (PollErrored, ws)" "ok (PollFailed, mark_failed env item d ws)"
    "ok (apply_job_status env item js ws)" for d js
    using assms(2,3) c f js by (simp_all add: ok_def)
  then have "ok (poll_one env im item ws)"
    unfolding poll_one_def by (simp split: option.split sum.split)
  then show ?thesis by (simp add: ok_def assms(1))
qed

lemma count_outcome_simps [simp]:
  "pl_checked (count_outcome oc r) = Suc (pl_checked r)"
  "pl_completed (count_outcome oc r) = pl_completed r + (if oc = PollCompleted then 1 else 0)"
  "pl_failed (count_outcome oc r) = pl_failed r + (if oc = PollFailed then 1 else 0)"
  "pl_still_running (count_outcome oc r) = pl_still_running r + (if oc = PollRunning then 1 else 0)"
  "pl_errored (count_outcome oc r) = pl_errored r + (if oc = PollErrored then 1 else 0)"
  by (cases oc; simp add: count_outcome_def Let_def)+

definition status_of :: "string \<Rightarrow> wstate \<Rightarrow> string option" where
  "status_of i ws = map_option oi_status (find_item i ws)"

lemma length_partition3:
  "(\<And>x. x \<in> set xs \<Longrightarrow> f x \<in> {a, b, c}) \<Longrightarrow> a \<noteq> b \<Longrightarrow> a \<noteq> c \<Longrightarrow> b \<noteq> c \<Longrightarrow>
     length xs = length (filter (\<lambda>x. f x = b) xs) + length (filter (\<lambda>x. f x = c) xs)
       + length (filter (\<lambda>x. f x = a) xs)"
  by (induction xs) auto

lemma poll_loop_rows:
  assumes "distinct (map oi_id items)" "\<forall>q\<in>set items. status_of (oi_id q) ws = Some ''routed''"
    "poll_loop env im items r ws = (r', ws')"
  shows "same_tables ws ws' \<and> (\<forall>j. j \<notin> oi_id ` set items \<longrightarrow> find_item j ws' = find_item j ws)
    \<and> (\<forall>q\<in>set items. status_of (oi_id q) ws' \<in> {Some ''routed'', Some ''completed'', Some ''failed''})
    \<and> pl_checked r' = pl_checked r + length items
    \<and> pl_completed r' = pl_completed r + length (filter (\<lambda>q. status_of (oi_id q) ws' = Some ''completed'') items)
    \<and> pl_failed r' = pl_failed r + length (filter (\<lambda>q. status_of (oi_id q) ws' = Some ''failed'') items)
    \<and> pl_still_running r' + pl_errored r' = pl_still_running r + pl_errored r
        + length (filter (\<lambda>q. status_of (oi_id q) ws' = Some ''routed'') items)"
  using assms
proof (induction items arbitrary: r ws)
  case Nil
  then show ?case by (simp add: same_tables_def)
next
  case (Cons item items)
  obtain oc w where one: "poll_one env im item ws = (oc, w)" by fastforce
  from Cons.prems obtain q where q: "find_item (oi_id item) ws = Some q" "oi_status q = ''routed''"
    by (auto simp: status_of_def)
  from poll_one_row [OF one q] have t: "touches (oi_id item) ws w"
    and st: "status_of (oi_id item) w = Some (polled_status oc)" by (auto simp: status_of_def)
  have rest: "\<forall>q\<in>set items. status_of (oi_id q) w = Some ''routed''"
  proof
    fix q assume q: "q \<in> set items"
    with Cons.prems(1) have "oi_id q \<noteq> oi_id item" by simp (metis image_eqI)
    with q Cons.prems(2) t show "status_of (oi_id q) w = Some ''routed''"
      by (simp add: status_of_def touches_def)
  qed
  have loop: "poll_loop env im items (count_outcome oc r) w = (r', ws')"
    using Cons.prems(3) one by simp
  from Cons.IH [OF _ rest loop] Cons.prems(1) have ih:
    "same_tables w ws'" "\<forall>j. j \<notin> oi_id ` set items \<longrightarrow> find_item j ws' = find_item j w"
    "\<forall>q\<in>set items. status_of (oi_id q) ws' \<in> {Some ''routed'', Some ''completed'', Some ''failed''}"
    "pl_checked r' = Suc (pl_checked r) + length items"
    "pl_completed r' = pl_completed r + (if oc = PollCompleted then 1 else 0)
       + length (filter (\<lambda>q. status_of (oi_id q) ws' = Some ''completed'') items)"
    "pl_failed r' = pl_failed r + (if oc = PollFailed then 1 else 0)
       + length (filter (\<lambda>q. status_of (oi_id q) ws' = Some ''failed'') items)"
    "pl_still_running r' + pl_errored r' = pl_still_running r + pl_errored r
       + (if oc \<in> {PollRunning, PollErrored} then 1 else 0)
       + length (filter (\<lambda>q. status_of (oi_id q) ws' = Some ''routed'') items)"
    by (auto split: if_splits)
  have st': "status_of (oi_id item) ws' = Some (polled_status oc)"
    using ih(2) st Cons.prems(1) by (auto simp: status_of_def)
  show ?case
    using ih t st' by (cases oc) (auto simp: touches_def same_tables_def)
qed

text \<open>The routed rows of a table with distinct ids are found under their ids.\<close>

lemma routed_found:
  assumes "distinct (map oi_id (st_opt (ws_store ws)))"
  shows "distinct (map oi_id (filter (\<lambda>q. oi_status q = ''routed'') (st_opt (ws_store ws))))"
    and "\<forall>q\<in>set (filter (\<lambda>q. oi_status q = ''routed'') (st_opt (ws_store ws))).
      status_of (oi_id q) ws = Some ''routed''"
    and "find_item j ws = Some q \<Longrightarrow>
      (j \<in> oi_id ` set (filter (\<lambda>q. oi_status q = ''routed'') (st_opt (ws_store ws)))
        \<longleftrightarrow> oi_status q = ''routed'')"
proof -
  note f = find_item_distinct [OF assms]
  show "distinct (map oi_id (filter (\<lambda>q. oi_status q = ''routed'') (st_opt (ws_store ws))))"
    using assms by (simp add: distinct_map inj_on_def)
  show "\<forall>q\<in>set (filter (\<lambda>q. oi_status q = ''routed'') (st_opt (ws_store ws))).
      status_of (oi_id q) ws = Some ''routed''"
    using f by (auto simp: status_of_def)
  assume q: "find_item j ws = Some q"
  show "j \<in> oi_id ` set (filter (\<lambda>q. oi_status q = ''routed'') (st_opt (ws_store ws)))
      \<longleftrightarrow> oi_status q = ''routed''" (is "?L \<longleftrightarrow> ?R")
  proof
    assume ?L
    then obtain x where "x \<in> set (st_opt (ws_store ws))" "oi_status x = ''routed''" "oi_id x = j" by auto
    with f [of j x] q show ?R by simp
  next
    assume ?R
    with q f [of j q] show ?L by auto
  qed
qed

lemma poll_rows_move:
  assumes "distinct (map oi_id (st_opt (ws_store ws)))" "find_item j ws = Some q"
  shows "\<exists>q'. find_item j (snd (poll_routed_transcodes env im ws)) = Some q'
    \<and> (q' = q \<or> op_move PollRouted j (oi_status q) (oi_status q'))"
proof -
  let ?items = "filter (\<lambda>q. oi_status q = ''routed'') (st_opt (ws_store ws))"
  obtain r ws' where run: "poll_routed_transcodes env im ws = (r, ws')" by fastforce
  note rows = poll_loop_rows [OF routed_found(1,2) [OF assms(1)] run [unfolded poll_routed_transcodes_def]]
  show ?thesis
  proof (cases "oi_status q = ''routed''")
    case True
    then have "j \<in> oi_id ` set ?items" using routed_found(3) [OF assms] by simp
    then have "status_of j ws' \<in> {Some ''routed'', Some ''completed'', Some ''failed''}" using rows by blast
    then show ?thesis using run True by (auto simp: status_of_def)
  next
    case False
    then have "j \<notin> oi_id ` set ?items" using routed_found(3) [OF assms] by simp
    with rows assms(2) run show ?thesis by auto
  qed
qed

lemma moves_op:
  assumes "op \<noteq> PollRouted"
  shows "\<exists>i. moves op i ws (do_op env im op ws)"
proof (cases op)
  case RunNext
  then show ?thesis using moves_run_one by simp
next
  case (RunItem i)
  then show ?thesis using moves_run_item [of i ws env] by (intro exI [of _ i]) simp
next
  case (CancelItem i)
  then show ?thesis using moves_cancel [of i ws env] by (intro exI [of _ i]) simp
next
  case (RetryItem i)
  then show ?thesis using moves_retry [of i ws env] by (intro exI [of _ i]) simp
qed (use assms in simp)

text \<open>C13. Every operation of the queue makes only its own move.  With nobody else at work, an operation that runs
  to its end keeps every item, and an item it changes had a status the operation starts from and has one it may
  end in: running the next item takes a queued one to an outcome or back to the queue, running, cancelling and
  retrying a named item change that item only, and from the states the code checks for, and a poll changes
  routed items only.  Apart from polling, at most one item is changed.  A retry also starts at skipped and
  completed items, where the summary of its endpoint speaks of failed and cancelled ones.\<close>

theorem queue_refines_status_machine:
  assumes "distinct (map oi_id (st_opt (ws_store ws)))" and "find_item j ws = Some q"
  shows "(\<exists>q'. find_item j (do_op env im op ws) = Some q' \<and> (q' = q \<or> op_move op j (oi_status q) (oi_status q')))
    \<and> (op \<noteq> PollRouted \<longrightarrow> (\<exists>i. \<forall>k. k \<noteq> i \<longrightarrow> find_item k (do_op env im op ws) = find_item k ws))"
proof (cases "op = PollRouted")
  case True
  then show ?thesis using poll_rows_move [OF assms] by simp
next
  case False
  then obtain i where "moves op i ws (do_op env im op ws)" using moves_op by blast
  then show ?thesis using assms(2) unfolding moves_def by (cases "j = i") auto
qed

text \<open>A poll pass looks at every routed item exactly once and accounts for each: the counters add
  up, completed and failed count the items that reached those states, the others stay routed for
  the next pass; items that were not routed, and every other table, are untouched, whatever the
  providers return or raise.\<close>

theorem poll_accounts_for_every_job:
  assumes "distinct (map oi_id (st_opt (ws_store ws)))"
  shows "\<exists>r ws'. poll_routed_transcodes env im ws = (r, ws')
     \<and> pl_checked r = length (filter (\<lambda>q. oi_status q = ''routed'') (st_opt (ws_store ws)))
     \<and> pl_checked r = pl_completed r + pl_failed r + pl_still_running r + pl_errored r
     \<and> pl_completed r = length (filter (\<lambda>q. oi_status q = ''routed'' \<and> status_of (oi_id q) ws' = Some ''completed'')
           (st_opt (ws_store ws)))
     \<and> pl_failed r = length (filter (\<lambda>q. oi_status q = ''routed'' \<and> status_of (oi_id q) ws' = Some ''failed'')
           (st_opt (ws_store ws)))
     \<and> same_tables ws ws'
     \<and> (\<forall>j q. find_item j ws = Some q \<and> oi_status q \<noteq> ''routed'' \<longrightarrow> find_item j ws' = Some q)"
proof -
  let ?items = "filter (\<lambda>q. oi_status q = ''routed'') (st_opt (ws_store ws))"
  obtain r ws' where run: "poll_routed_transcodes env im ws = (r, ws')" by fastforce
  note rows = poll_loop_rows [OF routed_found(1,2) [OF assms] run [unfolded poll_routed_transcodes_def]]
  have "length ?items = length (filter (\<lambda>q. status_of (oi_id q) ws' = Some ''completed'') ?items)
      + length (filter (\<lambda>q. status_of (oi_id q) ws' = Some ''failed'') ?items)
      + length (filter (\<lambda>q. status_of (oi_id q) ws' = Some ''routed'') ?items)"
    using rows by (intro length_partition3) auto
  moreover have "find_item j ws' = Some q" if "find_item j ws = Some q" "oi_status q \<noteq> ''routed''" for j q
    using routed_found(3) [OF assms that(1)] that rows by simp
  ultimately show ?thesis using run rows by (auto simp: conj_commute)
qed

section \<open>The bytes of the media\<close>

lemma dir_name: "dir_part p @ name_part p = p"
  unfolding dir_part_def name_part_def
  by (metis rev_append rev_rev_ident takeWhile_dropWhile_id)

lemma name_suffix_parts:
  "\<exists>stem. name = stem @ name_suffix name \<and> (name_suffix name = [] \<or> (\<exists>ext. name_suffix name = CHR ''.'' # ext
      \<and> CHR ''.'' \<notin> set ext))"
proof -
  define e r where "e = takeWhile (\<lambda>c. c \<noteq> CHR ''.'') (rev name)"
    and "r = dropWhile (\<lambda>c. c \<noteq> CHR ''.'') (rev name)"
  have suf: "name_suffix name = (if e = [] \<or> length r < 2 then [] else CHR ''.'' # rev e)"
    by (simp add: name_suffix_def Let_def e_def r_def)
  have "rev name = e @ r" by (simp add: e_def r_def)
  then have name: "name = rev r @ rev e" by (metis rev_append rev_rev_ident)
  have dot: "CHR ''.'' \<notin> set e" by (auto simp: e_def dest: set_takeWhileD)
  show ?thesis
  proof (cases "e = [] \<or> length r < 2")
    case True
    then show ?thesis by (simp add: suf)
  next
    case False
    then obtain d t where r: "r = d # t" by (cases r) auto
    then have "d = CHR ''.''" unfolding r_def by (auto simp: dropWhile_eq_Cons_conv)
    with r name have "name = rev t @ CHR ''.'' # rev e" by simp
    moreover have "name_suffix name = CHR ''.'' # rev e" using False suf by simp
    ultimately show ?thesis using dot by (metis set_rev)
  qed
qed

lemma stem_suffix: "name_stem name @ name_suffix name = name"
proof -
  obtain stem where "name = stem @ name_suffix name" using name_suffix_parts by blast
  then have "name_stem name = stem" by (metis append_eq_conv_conj name_stem_def length_append add_diff_cancel_right')
  with \<open>name = stem @ name_suffix name\<close> show ?thesis by simp
qed

lemma input_split: "dir_part p @ name_stem (name_part p) @ name_suffix (name_part p) = p"
  by (simp add: stem_suffix dir_name)

definition tmp_path_of :: "string \<Rightarrow> profile_definition \<Rightarrow> string" where
  "tmp_path_of input p = dir_part input @ name_stem (name_part input) @ ''.auditarr.tmp.'' @ os_container (pd_output p)"

text \<open>The temporary file, the backup and the original are three different files, and the final
  path is never the backup.\<close>

lemma run_paths_distinct:
  assumes "os_container (pd_output p) \<in> set SUPPORTED_CONTAINERS"
  shows "tmp_path_of input p \<noteq> input" "backup_path_of input \<noteq> input"
    "backup_path_of input \<noteq> tmp_path_of input p" "backup_path_of input \<noteq> final_path_of input p"
proof -
  let ?c = "os_container (pd_output p)" and ?n = "name_part input"
  have c: "last (x @ ?c) \<noteq> CHR ''k''" "?c \<noteq> []" for x
    using assms by (auto simp: SUPPORTED_CONTAINERS_def)
  have suf: "name_suffix ?n \<noteq> ''.auditarr.tmp.'' @ ?c"
    using name_suffix_parts [of ?n] by auto
  show "tmp_path_of input p \<noteq> input"
  proof
    assume "tmp_path_of input p = input"
    then have "dir_part input @ name_stem ?n @ ''.auditarr.tmp.'' @ ?c = dir_part input @ name_stem ?n @ name_suffix ?n"
      by (simp add: tmp_path_of_def input_split)
    with suf show False by simp
  qed
  have b: "last (backup_path_of input) = CHR ''k''" by (simp add: backup_path_of_def)
  show "backup_path_of input \<noteq> input"
  proof
    assume "backup_path_of input = input"
    then have "length (backup_path_of input) = length (dir_part input @ name_stem ?n @ name_suffix ?n)"
      by (simp add: input_split)
    then show False by (simp add: backup_path_of_def)
  qed
  have "last (tmp_path_of input p) \<noteq> CHR ''k''"
    using c(1) [of "dir_part input @ name_stem ?n @ ''.auditarr.tmp.''"] by (simp add: tmp_path_of_def)
  with b show "backup_path_of input \<noteq> tmp_path_of input p" by metis
  have "last (final_path_of input p) \<noteq> CHR ''k''"
    using c(1) [of "dir_part input @ name_stem ?n @ ''.''"] by (simp add: final_path_of_def)
  with b show "backup_path_of input \<noteq> final_path_of input p" by metis
qed

text \<open>What a step may do to the files: the paths of this run only, and the original bytes stay at
  their place or, once they were moved, in the backup.\<close>

definition keeps_media ::
    "string \<Rightarrow> profile_definition \<Rightarrow> string \<Rightarrow> (string \<Rightarrow> string option) \<Rightarrow> (string \<Rightarrow> string option) \<Rightarrow> bool" where
  "keeps_media input p bytes fs fs' =
     ((\<forall>x. x \<notin> {input, tmp_path_of input p, backup_path_of input, final_path_of input p} \<longrightarrow> fs' x = fs x)
      \<and> (os_keep_backup (pd_output p) \<longrightarrow> fs' input = Some bytes \<or> fs' (backup_path_of input) = Some bytes)
      \<and> (\<not> os_replace_input (pd_output p) \<longrightarrow> fs' input = Some bytes))"

lemma fs_of_transitions [simp]:
  "ws_fs (snd (fail env item d ws)) = ws_fs ws" "ws_fs (snd (skip env item d ws)) = ws_fs ws"
  "ws_fs (snd (complete env item d ws)) = ws_fs ws" "ws_fs (snd (release_for_schedule env item w ws)) = ws_fs ws"
  "ws_fs (progress_events env i pcts ws) = ws_fs ws"
proof -
  show "ws_fs (progress_events env i pcts ws) = ws_fs ws"
    unfolding progress_events_def by (induction pcts arbitrary: ws) simp_all
qed (simp_all add: fail_def skip_def complete_def release_for_schedule_def Let_def)

lemma fs_of_submitted [simp]: "ws_fs (snd (submitted env item p ig res ws)) = ws_fs ws"
  by (simp add: submitted_def Let_def)

lemma fs_of_route [simp]: "ws_fs (snd (route_to_provider env item p row m ws)) = ws_fs ws"
  unfolding route_to_provider_def Let_def
  by (auto split: option.split sum.split simp: case_prod_beta)

lemma fs_discard: "ws_fs (discard env x ws) = ws_fs ws \<or> ws_fs (discard env x ws) = (ws_fs ws)(x := None)"
  by (simp add: discard_def unlink_def)

text \<open>The swap with a backup, and without one.\<close>

lemma fs_swap:
  assumes "os_container (pd_output p) \<in> set SUPPORTED_CONTAINERS"
    and sw: "swap env input (tmp_path_of input p) item p ws = (r, ws')"
    and b: "ws_fs ws input = Some bytes"
  shows "(\<forall>x. x \<notin> {input, tmp_path_of input p, backup_path_of input, final_path_of input p} \<longrightarrow>
        ws_fs ws' x = ws_fs ws x)
     \<and> (os_keep_backup (pd_output p) \<longrightarrow> ws_fs ws' input = Some bytes \<or> ws_fs ws' (backup_path_of input) = Some bytes)"
proof -
  let ?t = "tmp_path_of input p" and ?b = "backup_path_of input" and ?f = "final_path_of input p"
  obtain r1 w where sa: "set_aside env input item p ws = (r1, w)" by fastforce
  have first: "(ws_fs w = ws_fs ws \<and> (\<exists>e. r1 = Inl e)) \<or> (r1 = Inr () \<and>
      (if os_keep_backup (pd_output p) then ws_fs w = (ws_fs ws)(input := None, ?b := Some bytes)
       else ws_fs w = (ws_fs ws)(input := None)))"
    using sa b by (auto simp: set_aside_def os_replace_def unlink_def split: if_splits prod.splits sum.splits)
  have second: "ws_fs ws' = ws_fs w \<or>
      (r1 = Inr () \<and> (\<exists>x. ws_fs ws' = (ws_fs w)(?t := None, ?f := Some x)))"
    using sw sa by (auto simp: swap_def os_replace_def split: if_splits sum.splits option.splits)
  note d = run_paths_distinct [OF assms(1), of input]
  from first second d b show ?thesis by (auto split: if_splits)
qed

lemma fs_finish:
  assumes "os_container (pd_output p) \<in> set SUPPORTED_CONTAINERS"
    and b: "ws_fs ws (mf_path m) = Some bytes"
  shows "keeps_media (mf_path m) p bytes (ws_fs ws)
    (ws_fs (snd (finish_transcode env item p m (tmp_path_of (mf_path m) p) sz res ws)))"
proof -
  let ?in = "mf_path m" and ?t = "tmp_path_of (mf_path m) p"
  note d = run_paths_distinct [OF assms(1), of ?in]
  have same: "keeps_media ?in p bytes (ws_fs ws) (ws_fs ws)" using b by (simp add: keeps_media_def)
  have disc: "keeps_media ?in p bytes (ws_fs ws) (ws_fs w) \<Longrightarrow>
      keeps_media ?in p bytes (ws_fs ws) (ws_fs (discard env ?t w))" for w
    using fs_discard [of env ?t w] d by (auto simp: keeps_media_def)
  have sw: "keeps_media ?in p bytes (ws_fs ws) (ws_fs w')"
    if "swap env ?in ?t item p w = (r, w')" "ws_fs w = ws_fs ws" "os_replace_input (pd_output p)" for w r w'
    using fs_swap [OF assms(1) that(1), of bytes] that b by (simp add: keeps_media_def)
  define w where "w = update_item (oi_id item) (\<lambda>q. q\<lparr>oi_optimized_size_bytes :=
      Some (case ws_fs ws ?t of None \<Rightarrow> 0 | Some b \<Rightarrow> int (length b))\<rparr>) ws"
  obtain r w' where s: "swap env ?in ?t item p w = (r, w')" by fastforce
  have fw: "ws_fs w = ws_fs ws" by (simp add: w_def)
  have ok: "os_replace_input (pd_output p) \<Longrightarrow> keeps_media ?in p bytes (ws_fs ws) (ws_fs w')"
    by (rule sw [OF s fw])
  have "ws_fs (snd (finish_transcode env item p m ?t sz res ws)) \<in>
     (if os_replace_input (pd_output p)
      then {ws_fs ws, ws_fs (discard env ?t ws), ws_fs w', ws_fs (discard env ?t w')}
      else {ws_fs ws, ws_fs (discard env ?t ws)})"
    unfolding finish_transcode_def Let_def w_def [symmetric] s
    by (simp add: case_prod_beta fw split: option.split sum.split pyerr.split)
  then show ?thesis
    using same disc [OF same] ok disc [OF ok] by (auto split: if_splits)
qed

lemma fs_transcode:
  assumes "os_container (pd_output p) \<in> set SUPPORTED_CONTAINERS"
    and b: "ws_fs ws (mf_path m) = Some bytes"
  shows "keeps_media (mf_path m) p bytes (ws_fs ws) (ws_fs (snd (transcode env item p m bs sz ws)))"
proof (cases "name_part (mf_path m) = []")
  case True
  with b show ?thesis by (simp add: transcode_def with_suffix_def keeps_media_def)
next
  case False
  let ?in = "mf_path m" and ?t = "tmp_path_of (mf_path m) p"
  have t: "with_suffix ?in (''.auditarr.tmp.'' @ os_container (pd_output p)) = Inr ?t"
    using False by (simp add: with_suffix_def tmp_path_of_def)
  define req where "req = \<lparr>tq_input_path = ?in, tq_output_path = ?t, tq_profile = p,
      tq_input_duration_seconds = mf_duration_seconds m\<rparr>"
  define w where "w = ffmpeg_writes (we_ffmpeg env req bs) ?t ws"
  note d = run_paths_distinct [OF assms(1), of ?in]
  have fw: "\<forall>x. x \<noteq> ?t \<longrightarrow> ws_fs w x = ws_fs ws x" by (simp add: w_def ffmpeg_writes_def)
  with b d have in_w: "ws_fs w ?in = Some bytes" by simp
  have later: "keeps_media ?in p bytes (ws_fs w) fs \<Longrightarrow> keeps_media ?in p bytes (ws_fs ws) fs" for fs
    using fw by (simp add: keeps_media_def)
  have w_ok: "keeps_media ?in p bytes (ws_fs w) (ws_fs w)" using in_w by (simp add: keeps_media_def)
  have f_ok: "keeps_media ?in p bytes (ws_fs w)
      (ws_fs (snd (finish_transcode env item p m ?t sz res (progress_events env i pcts w))))" for res i pcts
    using fs_finish [OF assms(1), of "progress_events env i pcts w" m bytes env item sz res] in_w by simp
  show ?thesis
    unfolding transcode_def t sum.case Let_def req_def [symmetric] w_def [symmetric]
    using later [OF w_ok] later [OF f_ok] by (auto split: sum.split)
qed

text \<open>C6. Whatever ffmpeg writes and wherever the operating system refuses a call, a run leaves every file
  but four paths alone (the input, the temporary output, the backup, and the final path); with a
  backup configured the original bytes are afterwards at their path or in the backup, and with
  replacing switched off they are at their path.\<close>

theorem media_survives_run:
  assumes "table_find mf_id (oi_media_file_id item) (st_media (ws_store ws)) = Some m"
    "table_find op_name (oi_profile item) (st_profiles (ws_store ws)) = Some row"
    "op_settings row = Some d" "validate_profile d = Inr p"
    "ws_fs ws (mf_path m) = Some bytes"
  shows "\<exists>res ws'. run_claimed env item ws = (res, ws')
     \<and> (\<forall>x. x \<notin> {mf_path m, tmp_path_of (mf_path m) p, backup_path_of (mf_path m), final_path_of (mf_path m) p}
          \<longrightarrow> ws_fs ws' x = ws_fs ws x)
     \<and> (os_keep_backup (pd_output p) \<longrightarrow>
          ws_fs ws' (mf_path m) = Some bytes \<or> ws_fs ws' (backup_path_of (mf_path m)) = Some bytes)
     \<and> (\<not> os_replace_input (pd_output p) \<longrightarrow> ws_fs ws' (mf_path m) = Some bytes)"
proof -
  have c: "os_container (pd_output p) \<in> set SUPPORTED_CONTAINERS"
    using validate_profile_ok [OF assms(4)] by (simp add: validate_output_def)
  note k = fs_transcode [OF c]
  have same: "keeps_media (mf_path m) p bytes (ws_fs ws) (ws_fs ws)" using assms(5) by (simp add: keeps_media_def)
  have ip: "keeps_media (mf_path m) p bytes (ws_fs ws) (ws_fs (snd (run_in_process env item p row m ws)))"
  proof -
    define w where "w = update_item (oi_id item) (\<lambda>q. q\<lparr>oi_original_size_bytes := Some (int (length bytes))\<rparr>) ws"
    have "ws_fs w = ws_fs ws" by (simp add: w_def)
    with k [of w m bytes env item bytes "int (length bytes)"] assms(5)
    have "keeps_media (mf_path m) p bytes (ws_fs ws)
        (ws_fs (snd (transcode env item p m bytes (int (length bytes)) w)))" by simp
    moreover note same \<open>ws_fs w = ws_fs ws\<close>
    ultimately show ?thesis
      unfolding run_in_process_def Let_def assms(5) option.case w_def [symmetric]
      by (cases "low_bitrate p m") (auto simp: case_prod_beta split: option.split)
  qed
  have g: "keeps_media (mf_path m) p bytes (ws_fs ws) (ws_fs (snd (run_gated env item p row m ws)))"
    using ip same by (simp add: run_gated_def case_prod_beta)
  have "keeps_media (mf_path m) p bytes (ws_fs ws) (ws_fs (snd (run_claimed env item ws)))"
    using same g assms(1-4)
    by (simp add: run_claimed_def Let_def case_prod_beta split: option.split sum.split)
  then show ?thesis
    by (cases "run_claimed env item ws") (simp add: keeps_media_def)
qed

text \<open>Without a backup the swap is not safe: when the original has been removed and the rename
  of the output is refused, the run ends as failed with neither the original nor the output left.\<close>

theorem swap_without_backup_loses_media:
  assumes "\<not> os_keep_backup (pd_output p)" "os_replace_input (pd_output p)"
    "trs_success res" "ws_fs ws tmp = Some out"
    "check_output (we_duration_message env) (we_probe env) (Some out) (fin_opt (mf_duration_seconds m)) = None"
    "ws_fs ws (mf_path m) = Some bytes" "tmp \<noteq> mf_path m"
    "\<not> we_unlink_fails env (mf_path m)" "\<not> we_unlink_fails env tmp"
    "we_replace_fails env tmp (final_path_of (mf_path m) p)"
  shows "\<exists>r ws'. finish_transcode env item p m tmp sz res ws = (Inr r, ws') \<and> wr_status r = ''failed''
     \<and> ws_fs ws' = (ws_fs ws)(mf_path m := None, tmp := None)"
  using assms
  by (simp add: finish_transcode_def swap_def set_aside_def unlink_def os_replace_def discard_def
      fail_def Let_def report_def)

section \<open>Witnesses\<close>

definition sample_worker_env :: worker_env where
  "sample_worker_env =
     \<lparr>we_now = 100, we_bus = True, we_manager = None, we_zone_hour = (\<lambda>tz t. Inr None),
      we_runner_enabled = True,
      we_ffmpeg = (\<lambda>req b. \<lparr>fr_spawn_error = None, fr_stdout = [], fr_stderr = [],
        fr_cancelled = (\<lambda>k. False), fr_return_code = 0, fr_output = Some ''new''\<rparr>),
      we_int_of_str = (\<lambda>s. None),
      we_probe = (\<lambda>b. Some \<lparr>pr_ok = True, pr_error = None, pr_video_codec = Some ''hevc'',
        pr_duration_seconds = None\<rparr>),
      we_replace_fails = (\<lambda>a b. a = ''/m/a.auditarr.tmp.mkv''), we_unlink_fails = (\<lambda>p. False),
      we_repr = (\<lambda>s. s), we_exc_str = (\<lambda>e. ''boom''), we_iso = (\<lambda>t. ''now''),
      we_duration_message = (\<lambda>a b. ''duration'')\<rparr>"

definition sample_item :: "string \<Rightarrow> string \<Rightarrow> int \<Rightarrow> optimization_item" where
  "sample_item i status t =
     \<lparr>oi_id = i, oi_media_file_id = ''f1'', oi_profile = ''hevc'', oi_status = status,
      oi_queued_by_rule_id = None, oi_queued_at = t, oi_started_at = None, oi_finished_at = None,
      oi_progress_pct = 0, oi_original_size_bytes = None, oi_optimized_size_bytes = None,
      oi_backup_path = None, oi_metadata = [], oi_error = None\<rparr>"

definition transcode_media :: media_file where
  "transcode_media =
     \<lparr>mf_id = ''f1'', mf_library_id = ''l1'', mf_path = ''/m/a.avi'', mf_relative_path = ''a.avi'',
      mf_filename = ''a.avi'', mf_extension = ''avi'', mf_size_bytes = 3, mf_mtime = 0,
      mf_category = ''media'', mf_severity = ''ok'', mf_severity_rank = 10, mf_container = None,
      mf_duration_seconds = None, mf_bitrate_kbps = None, mf_video_codec = None, mf_audio_codec = None,
      mf_subtitle_codec = None, mf_width = None, mf_height = None, mf_framerate = None,
      mf_has_subtitles = False, mf_subtitle_languages = None, mf_audio_languages = None,
      mf_probe_failed = False, mf_is_orphaned = False, mf_hash_sha256 = None, mf_vt_status = None,
      mf_inode = None, mf_probe = None, mf_probe_error = None, mf_last_scan_id = None, mf_seen_at = 0,
      mf_hash_computed_at = None, mf_virustotal_result = None, mf_virustotal_checked_at = None\<rparr>"

definition sample_profile_row :: optimization_profile where
  "sample_profile_row =
     \<lparr>op_name = ''hevc'', op_enabled = True, op_settings = Some default_profile,
      op_max_input_bytes = None, op_optimization_integration_id = None\<rparr>"

definition sample_ws :: wstate where
  "sample_ws =
     \<lparr>ws_store = sample_integ_store\<lparr>st_media := [transcode_media], st_profiles := [sample_profile_row],
        st_opt := [sample_item ''i1'' ''routed'' 1, sample_item ''i2'' ''queued'' 9, sample_item ''i3'' ''queued'' 5]\<rparr>,
      ws_fs = (\<lambda>p. if p = ''/m/a.avi'' then Some ''old'' else None)\<rparr>"

lemma sample_ids: "distinct (map oi_id (st_opt (ws_store sample_ws)))"
  by (simp add: sample_ws_def sample_item_def)

lemma sample_rows: "st_opt (ws_store sample_ws) =
    [sample_item ''i1'' ''routed'' 1, sample_item ''i2'' ''queued'' 9, sample_item ''i3'' ''queued'' 5]"
  by (simp add: sample_ws_def)

theorem run_one_oldest_witness:
  "wr_item_id (fst (run_one sample_worker_env (\<lambda>_ w. w) sample_ws)) = Some ''i3''"
  using run_one_oldest [OF sample_ids, of sample_worker_env]
  by (auto simp: sample_rows sample_item_def)

theorem queue_refines_status_machine_witness:
  "map_option oi_status (find_item ''i1'' (do_op sample_worker_env sample_integ_env (RetryItem ''i1'') sample_ws)) = Some ''routed''
   \<and> map_option oi_status (find_item ''i2'' (do_op sample_worker_env sample_integ_env (CancelItem ''i3'') sample_ws)) = Some ''queued''"
proof -
  have q: "find_item ''i1'' sample_ws = Some (sample_item ''i1'' ''routed'' 1)" "find_item ''i2'' sample_ws = Some (sample_item ''i2'' ''queued'' 9)"
    by (simp_all add: find_item_def sample_rows) (simp_all add: sample_item_def)
  show ?thesis
    using queue_refines_status_machine [OF sample_ids q(1), of sample_worker_env sample_integ_env "RetryItem ''i1''"]
      queue_refines_status_machine [OF sample_ids q(2), of sample_worker_env sample_integ_env "CancelItem ''i3''"]
    by (auto simp: sample_item_def)
qed

theorem poll_accounts_for_every_job_witness:
  "pl_checked (fst (poll_routed_transcodes sample_worker_env sample_integ_env sample_ws)) = 1
   \<and> find_item ''i2'' (snd (poll_routed_transcodes sample_worker_env sample_integ_env sample_ws)) =
       Some (sample_item ''i2'' ''queued'' 9)"
proof -
  have "find_item ''i2'' sample_ws = Some (sample_item ''i2'' ''queued'' 9)"
    by (simp add: find_item_def sample_rows) (simp add: sample_item_def)
  moreover have "oi_status (sample_item ''i2'' ''queued'' 9) \<noteq> ''routed''" by (simp add: sample_item_def)
  moreover have "length (filter (\<lambda>q. oi_status q = ''routed'') (st_opt (ws_store sample_ws))) = 1"
    by (simp add: sample_rows sample_item_def)
  ultimately show ?thesis
    using poll_accounts_for_every_job [OF sample_ids, of sample_worker_env sample_integ_env] by auto
qed

theorem media_survives_run_witness:
  "\<exists>res ws'. run_claimed sample_worker_env (sample_item ''i3'' ''running'' 5) sample_ws = (res, ws')
     \<and> (ws_fs ws' ''/m/a.avi'' = Some ''old'' \<or> ws_fs ws' ''/m/a.avi.bak'' = Some ''old'')"
proof -
  have p: "validate_profile default_profile = Inr default_profile" by code_simp
  have b: "backup_path_of ''/m/a.avi'' = ''/m/a.avi.bak''" by code_simp
  have k: "os_keep_backup (pd_output default_profile)" by (simp add: default_profile_def)
  have m: "table_find mf_id (oi_media_file_id (sample_item ''i3'' ''running'' 5)) (st_media (ws_store sample_ws))
      = Some transcode_media" "mf_path transcode_media = ''/m/a.avi''"
    by (simp_all add: sample_ws_def sample_item_def transcode_media_def)
  have r: "table_find op_name (oi_profile (sample_item ''i3'' ''running'' 5)) (st_profiles (ws_store sample_ws))
      = Some sample_profile_row" "op_settings sample_profile_row = Some default_profile"
    by (simp_all add: sample_ws_def sample_item_def sample_profile_row_def)
  have f: "ws_fs sample_ws (mf_path transcode_media) = Some ''old''" by (simp add: m(2)) (simp add: sample_ws_def)
  from media_survives_run [OF m(1) r p f, of sample_worker_env] k show ?thesis by (auto simp: m(2) b)
qed

theorem swap_without_backup_loses_media_witness:
  "\<exists>r ws'. finish_transcode sample_worker_env (sample_item ''i3'' ''running'' 5)
       (default_profile\<lparr>pd_output := \<lparr>os_container = ''mkv'', os_replace_input = True, os_keep_backup = False\<rparr>\<rparr>)
       transcode_media ''/m/a.auditarr.tmp.mkv'' 3
       \<lparr>trs_success = True, trs_return_code = 0, trs_stderr_tail = [], trs_last_progress_pct = 100\<rparr>
       (sample_ws\<lparr>ws_fs := (\<lambda>p. if p = ''/m/a.avi'' then Some ''old''
                              else if p = ''/m/a.auditarr.tmp.mkv'' then Some ''new'' else None)\<rparr>)
     = (Inr r, ws') \<and> wr_status r = ''failed''
     \<and> ws_fs ws' ''/m/a.avi'' = None \<and> ws_fs ws' ''/m/a.auditarr.tmp.mkv'' = None"
proof -
  let ?p = "default_profile\<lparr>pd_output := \<lparr>os_container = ''mkv'', os_replace_input = True, os_keep_backup = False\<rparr>\<rparr>"
  let ?ws = "sample_ws\<lparr>ws_fs := (\<lambda>p. if p = ''/m/a.avi'' then Some ''old''
      else if p = ''/m/a.auditarr.tmp.mkv'' then Some ''new'' else None)\<rparr>"
  have "check_output (we_duration_message sample_worker_env) (we_probe sample_worker_env) (Some ''new'')
      (fin_opt (mf_duration_seconds transcode_media)) = None"
    by (simp add: check_output_def sample_worker_env_def transcode_media_def fin_opt_def truthy_opt_def)
  moreover have path: "mf_path transcode_media = ''/m/a.avi''" by (simp add: transcode_media_def)
  moreover have "\<not> we_unlink_fails sample_worker_env x" "we_replace_fails sample_worker_env ''/m/a.auditarr.tmp.mkv'' x" for x
    by (simp_all add: sample_worker_env_def)
  ultimately have "\<exists>r ws'. finish_transcode sample_worker_env (sample_item ''i3'' ''running'' 5) ?p transcode_media
       ''/m/a.auditarr.tmp.mkv'' 3
       \<lparr>trs_success = True, trs_return_code = 0, trs_stderr_tail = [], trs_last_progress_pct = 100\<rparr> ?ws
     = (Inr r, ws') \<and> wr_status r = ''failed''
     \<and> ws_fs ws' = (ws_fs ?ws)(mf_path transcode_media := None, ''/m/a.auditarr.tmp.mkv'' := None)"
    by (intro swap_without_backup_loses_media [where out = "''new''" and bytes = "''old''"]) simp_all
  then show ?thesis unfolding path by (elim exE conjE) (intro exI conjI, assumption+, simp_all)
qed

end
