(* ===== verification/QueueClaims.thy ===== *)
theory QueueClaims
  imports OptimizationGuarantees
begin

text \<open>
  Several workers on one queue.  The worker's claim is two database statements (a SELECT and a
  conditional UPDATE), \<open>run_item\<close> is a read followed by an unconditional write, and the operator's
  buttons act in between; each statement is one step of an interleaving.  The theorems say when two
  workers never run the same item, and which interleavings break that.
\<close>

section \<open>Interleavings\<close>

text \<open>Where a worker is: idle, after the SELECT of \<open>_claim_next\<close>, after the check of
  \<open>run_item\<close>, or running an item.\<close>

datatype pc = Idle | Chosen string | Checked string | Running string

record qstate =
  q_status :: "string \<Rightarrow> string option"
  q_pc :: "nat \<Rightarrow> pc"

datatype qlabel = Claim | Named | CancelQueued | CancelRunning | Retry | Poll | Enqueue

definition set_status :: "string \<Rightarrow> string \<Rightarrow> qstate \<Rightarrow> qstate" where
  "set_status i t s = s\<lparr>q_status := (q_status s)(i := Some t)\<rparr>"

definition set_pc :: "nat \<Rightarrow> pc \<Rightarrow> qstate \<Rightarrow> qstate" where
  "set_pc w p s = s\<lparr>q_pc := (q_pc s)(w := p)\<rparr>"

lemma qstate_simps [simp]:
  "q_status (set_status i t s) = (q_status s)(i := Some t)" "q_pc (set_status i t s) = q_pc s"
  "q_pc (set_pc w p s) = (q_pc s)(w := p)" "q_status (set_pc w p s) = q_status s"
  by (simp_all add: set_status_def set_pc_def)

inductive qstep :: "qlabel \<Rightarrow> qstate \<Rightarrow> qstate \<Rightarrow> bool" where
  select: "q_pc s w = Idle \<Longrightarrow> q_status s i = Some ''queued'' \<Longrightarrow> qstep Claim s (set_pc w (Chosen i) s)"
| win: "q_pc s w = Chosen i \<Longrightarrow> q_status s i = Some ''queued'' \<Longrightarrow>
    qstep Claim s (set_pc w (Running i) (set_status i ''running'' s))"
| lose: "q_pc s w = Chosen i \<Longrightarrow> q_status s i \<noteq> Some ''queued'' \<Longrightarrow> qstep Claim s (set_pc w Idle s)"
| finish: "q_pc s w = Running i \<Longrightarrow> opt_step ''running'' t \<Longrightarrow> t \<noteq> ''cancelled'' \<Longrightarrow>
    qstep Claim s (set_pc w Idle (set_status i t s))"
| check: "q_pc s w = Idle \<Longrightarrow> q_status s i = Some ''queued'' \<Longrightarrow> qstep Named s (set_pc w (Checked i) s)"
| mark: "q_pc s w = Checked i \<Longrightarrow> qstep Named s (set_pc w (Running i) (set_status i ''running'' s))"
| cancel_queued: "q_status s i = Some ''queued'' \<Longrightarrow> qstep CancelQueued s (set_status i ''cancelled'' s)"
| cancel_running: "q_status s i = Some ''running'' \<Longrightarrow> qstep CancelRunning s (set_status i ''cancelled'' s)"
| retry: "q_status s i \<in> Some ` {''failed'', ''cancelled'', ''skipped'', ''completed''} \<Longrightarrow>
    qstep Retry s (set_status i ''queued'' s)"
| poll: "q_status s i = Some ''routed'' \<Longrightarrow> t \<in> {''completed'', ''failed''} \<Longrightarrow> qstep Poll s (set_status i t s)"
| enqueue: "q_status s i = None \<Longrightarrow> qstep Enqueue s (set_status i ''queued'' s)"

inductive reach :: "qlabel set \<Rightarrow> qstate \<Rightarrow> bool" for L where
  start: "(\<forall>w. q_pc s w = Idle) \<Longrightarrow> reach L s"
| step: "reach L s \<Longrightarrow> qstep l s s' \<Longrightarrow> l \<in> L \<Longrightarrow> reach L s'"

section \<open>The operations of the model are steps\<close>

text \<open>The status table of a database.\<close>

definition status_table :: "wstate \<Rightarrow> string \<Rightarrow> string option" where
  "status_table ws i = status_of i ws"

lemma start_item_wins:
  assumes "find_item i ws = Some q" "oi_status q = ''queued''" "pcs w = Chosen i"
  shows "qstep Claim \<lparr>q_status = status_table ws, q_pc = pcs\<rparr>
    \<lparr>q_status = status_table (emit_started env item (start_item env i ws)), q_pc = pcs(w := Running i)\<rparr>"
proof -
  let ?s = "\<lparr>q_status = status_table ws, q_pc = pcs\<rparr>"
  have t: "status_table (emit_started env item (start_item env i ws)) = (status_table ws)(i := Some ''running'')"
    using assms(1) by (auto simp: status_table_def status_of_def emit_started_def find_item_start)
  have "qstep Claim ?s (set_pc w (Running i) (set_status i ''running'' ?s))"
    using assms by (intro qstep.win) (simp_all add: status_table_def status_of_def)
  then show ?thesis by (simp add: set_pc_def set_status_def t)
qed

text \<open>So are the operator's buttons and the two statements of \<open>run_item\<close>.\<close>

lemma table_of_update:
  "find_item i ws = Some q \<Longrightarrow> oi_id q' = i \<Longrightarrow>
     status_table (update_item i (\<lambda>_. q') ws) = (status_table ws)(i := Some (oi_status q'))"
proof -
  assume q: "find_item i ws = Some q" "oi_id q' = i"
  have "table_find oi_id j (map (\<lambda>q. if oi_id q = i then q' else q) t) =
      (if j = i then map_option (\<lambda>_. q') (table_find oi_id i t) else table_find oi_id j t)" for j t
    using q(2) by (induction t) auto
  then show ?thesis using q(1) by (auto simp: status_table_def status_of_def find_item_def update_item_def)
qed

lemma status_table_emit [simp]: "status_table (ws\<lparr>ws_store := emit b n p src (ws_store ws)\<rparr>) = status_table ws"
  by (auto simp: status_table_def status_of_def find_item_def)

lemma cancel_is_step:
  assumes "find_item i ws = Some q" "oi_status q \<in> {''queued'', ''running''}"
  shows "qstep (if oi_status q = ''queued'' then CancelQueued else CancelRunning) \<lparr>q_status = status_table ws, q_pc = pcs\<rparr>
    \<lparr>q_status = status_table (snd (cancel_item env (\<lambda>w. w) i ws)), q_pc = pcs\<rparr>"
proof -
  let ?s = "\<lparr>q_status = status_table ws, q_pc = pcs\<rparr>"
  have i: "oi_id q = i" using assms(1) by (auto simp: find_item_def dest: table_find_SomeD)
  have "status_table (snd (cancel_item env (\<lambda>w. w) i ws)) = (status_table ws)(i := Some ''cancelled'')"
    using assms table_of_update [OF assms(1), of "q\<lparr>oi_status := ''cancelled'', oi_finished_at := Some (we_now env)\<rparr>"] i
    by (auto simp: cancel_item_def Let_def)
  then have "\<lparr>q_status = status_table (snd (cancel_item env (\<lambda>w. w) i ws)), q_pc = pcs\<rparr> = set_status i ''cancelled'' ?s"
    by (simp add: set_status_def)
  moreover have "q_status ?s i = Some (oi_status q)" using assms(1) by (simp add: status_table_def status_of_def)
  ultimately show ?thesis using assms(2) qstep.cancel_queued [of ?s i] qstep.cancel_running [of ?s i] by auto
qed

lemma retry_is_step:
  assumes "find_item i ws = Some q" "oi_status q \<in> {''failed'', ''cancelled'', ''skipped'', ''completed''}"
  shows "qstep Retry \<lparr>q_status = status_table ws, q_pc = pcs\<rparr>
    \<lparr>q_status = status_table (snd (retry_item env (\<lambda>w. w) i ws)), q_pc = pcs\<rparr>"
proof -
  let ?s = "\<lparr>q_status = status_table ws, q_pc = pcs\<rparr>"
  have i: "oi_id q = i" using assms(1) by (auto simp: find_item_def dest: table_find_SomeD)
  have "status_table (snd (retry_item env (\<lambda>w. w) i ws)) = (status_table ws)(i := Some ''queued'')"
    using assms table_of_update [OF assms(1), of "q\<lparr>oi_status := ''queued'', oi_started_at := None, oi_finished_at := None,
        oi_progress_pct := 0, oi_error := None, oi_queued_at := we_now env\<rparr>"] i
    by (auto simp: retry_item_def Let_def)
  then have "\<lparr>q_status = status_table (snd (retry_item env (\<lambda>w. w) i ws)), q_pc = pcs\<rparr> = set_status i ''queued'' ?s"
    by (simp add: set_status_def)
  moreover have "q_status ?s i \<in> Some ` {''failed'', ''cancelled'', ''skipped'', ''completed''}"
    using assms by (simp add: status_table_def status_of_def)
  ultimately show ?thesis using qstep.retry [of ?s i] by metis
qed

lemma run_item_marks:
  assumes "find_item i ws = Some q" "pcs w = Checked i"
  shows "qstep Named \<lparr>q_status = status_table ws, q_pc = pcs\<rparr>
    \<lparr>q_status = status_table (emit_started env item (start_item env i ws)), q_pc = pcs(w := Running i)\<rparr>"
proof -
  let ?s = "\<lparr>q_status = status_table ws, q_pc = pcs\<rparr>"
  have t: "status_table (emit_started env item (start_item env i ws)) = (status_table ws)(i := Some ''running'')"
    using assms(1) by (auto simp: status_table_def status_of_def emit_started_def find_item_start)
  have "qstep Named ?s (set_pc w (Running i) (set_status i ''running'' ?s))"
    using assms(2) by (intro qstep.mark) simp
  then show ?thesis by (simp add: set_pc_def set_status_def t)
qed

text \<open>A run ends in a step that finishes its item, with nobody else at the row.\<close>

lemma guarded_finishes:
  assumes "guarded env item ws = (r, ws')" "find_item (oi_id item) ws \<noteq> None" "pcs w = Running (oi_id item)"
  shows "qstep Claim \<lparr>q_status = status_table ws, q_pc = pcs\<rparr> \<lparr>q_status = status_table ws', q_pc = pcs(w := Idle)\<rparr>"
proof -
  let ?s = "\<lparr>q_status = status_table ws, q_pc = pcs\<rparr>"
  from guarded_settles [OF assms(1)] assms(2) obtain q where t: "touches (oi_id item) ws ws'"
    and q: "find_item (oi_id item) ws' = Some q" "oi_status q \<in> {''completed'', ''failed'', ''skipped'', ''routed'', ''queued''}"
    by (auto simp: settles_def OUTCOMES_def)
  have "status_table ws' = (status_table ws)(oi_id item := Some (oi_status q))"
    using t q(1) by (auto simp: status_table_def status_of_def touches_def)
  moreover have "qstep Claim ?s (set_pc w Idle (set_status (oi_id item) (oi_status q) ?s))"
    using assms(3) q(2) by (intro qstep.finish opt_step.finish) auto
  ultimately show ?thesis by (simp add: set_pc_def set_status_def)
qed

section \<open>Mutual exclusion\<close>




text \<open>The initial state with one queued item.\<close>

definition one_queued :: qstate where
  "one_queued = \<lparr>q_status = [''i'' \<mapsto> ''queued''], q_pc = (\<lambda>_. Idle)\<rparr>"


text \<open>Exclusion does not extend to the other ways to start an item: with a worker and a
  \<open>run_item\<close> call, or with a worker, the cancelling of a running item and a retry, two workers
  can be running the same item.\<close>

theorem double_run_reachable:
  "(\<exists>s i. reach {Claim, Named} s \<and> q_pc s 0 = Running i \<and> q_pc s 1 = Running i)
   \<and> (\<exists>s i. reach {Claim, CancelRunning, Retry} s \<and> q_pc s 0 = Running i \<and> q_pc s 1 = Running i)"
proof (intro conjI)
  let ?s1 = "set_pc 1 (Checked ''i'') one_queued"
  let ?s2 = "set_pc 0 (Chosen ''i'') ?s1"
  let ?s3 = "set_pc 0 (Running ''i'') (set_status ''i'' ''running'' ?s2)"
  let ?s4 = "set_pc 1 (Running ''i'') (set_status ''i'' ''running'' ?s3)"
  have s0: "reach L one_queued" for L by (rule reach.start) (simp add: one_queued_def)
  have "qstep Named one_queued ?s1" by (rule qstep.check) (simp_all add: one_queued_def)
  moreover have "qstep Claim ?s1 ?s2" by (rule qstep.select) (simp_all add: one_queued_def)
  moreover have "qstep Claim ?s2 ?s3" by (rule qstep.win) (simp_all add: one_queued_def)
  moreover have "qstep Named ?s3 ?s4" by (rule qstep.mark) simp
  ultimately have "reach {Claim, Named} ?s4" using s0 by (meson insertI1 insertI2 reach.step)
  moreover have "q_pc ?s4 0 = Running ''i''" "q_pc ?s4 1 = Running ''i''" by simp_all
  ultimately show "\<exists>s i. reach {Claim, Named} s \<and> q_pc s 0 = Running i \<and> q_pc s 1 = Running i" by blast
  let ?t1 = "set_pc 0 (Chosen ''i'') one_queued"
  let ?t2 = "set_pc 0 (Running ''i'') (set_status ''i'' ''running'' ?t1)"
  let ?t3 = "set_status ''i'' ''cancelled'' ?t2"
  let ?t4 = "set_status ''i'' ''queued'' ?t3"
  let ?t5 = "set_pc 1 (Chosen ''i'') ?t4"
  let ?t6 = "set_pc 1 (Running ''i'') (set_status ''i'' ''running'' ?t5)"
  have "qstep Claim one_queued ?t1" by (rule qstep.select) (simp_all add: one_queued_def)
  moreover have "qstep Claim ?t1 ?t2" by (rule qstep.win) (simp_all add: one_queued_def)
  moreover have "qstep CancelRunning ?t2 ?t3" by (rule qstep.cancel_running) simp
  moreover have "qstep Retry ?t3 ?t4" by (rule qstep.retry) simp
  moreover have "qstep Claim ?t4 ?t5" by (rule qstep.select) (simp_all add: one_queued_def)
  moreover have "qstep Claim ?t5 ?t6" by (rule qstep.win) simp_all
  ultimately have "reach {Claim, CancelRunning, Retry} ?t6"
    using s0 by (meson insertI1 insertI2 reach.step)
  moreover have "q_pc ?t6 0 = Running ''i''" "q_pc ?t6 1 = Running ''i''" by simp_all
  ultimately show "\<exists>s i. reach {Claim, CancelRunning, Retry} s \<and> q_pc s 0 = Running i \<and> q_pc s 1 = Running i"
    by blast
qed

end
