(* ===== verification/Auth.thy ===== *)
theory Auth
  imports Store Tables RateLimit
begin

text \<open>
  Accounts and sessions: the token service (\<open>app/security/tokens.py\<close>), password hashing
  (\<open>app/security/passwords.py\<close>), roles (\<open>app/security/permissions.py\<close>), the authentication
  service with its three repositories (\<open>app/services/auth_service.py\<close>), the request guards
  (\<open>app/api/auth_deps.py\<close>), the first-boot administrator (\<open>app/security/bootstrap.py\<close>) and
  the endpoints (\<open>app/api/v1/auth.py\<close>) with the transaction each request runs in.

  Instants are microseconds since the epoch, and a request reads the clock once.  Parameters
  (\<open>auth_env\<close>): argon2, PyJWT under the configured key, SHA-256, the mail provider, what the
  request draws at random, and the clocks.  The length and pattern limits of the request schemas
  (\<open>app/schemas/auth.py\<close>) are checked before any of this and are not modelled.
\<close>

section \<open>Rows\<close>

record user =
  us_id :: string
  us_email :: string
  us_username :: string
  us_full_name :: "string option"
  us_password_hash :: string
  us_role :: string
  us_is_active :: bool
  us_is_verified :: bool
  us_must_change_password :: bool
  us_token_version :: int
  us_last_login_at :: "int option"

record refresh_session =
  rs_jti :: string
  rs_user_id :: string
  rs_expires_at :: int
  rs_revoked_at :: "int option"
  rs_user_agent :: "string option"
  rs_ip_address :: "string option"

record password_reset_token =
  pt_token_hash :: string
  pt_user_id :: string
  pt_expires_at :: int
  pt_used_at :: "int option"
  pt_must_change_on_use :: bool

record auth_audit = audit_log_entry +
  al_ip_address :: "string option"
  al_request_id :: "string option"

text \<open>What leaves the process: a mail with a token, or the banner on the terminal.\<close>

datatype delivery =
    ResetMail string "string option" string
  | OtpBanner string string int

record auth_db =
  db_users :: "user list"
  db_sessions :: "refresh_session list"
  db_resets :: "password_reset_token list"
  db_audit :: "auth_audit list"

record auth_state =
  au_db :: auth_db
  au_events :: "domain_event list"
  au_sent :: "delivery list"

record auth_context =
  cx_ip_address :: "string option"
  cx_user_agent :: "string option"
  cx_request_id :: "string option"

type_synonym 'a auth_act = "auth_state \<Rightarrow> 'a result \<times> auth_state"

section \<open>Parameters\<close>

record jwt_payload =
  jp_sub :: string
  jp_typ :: string
  jp_jti :: string
  jp_ver :: "int option"
  jp_iat :: int
  jp_nbf :: int
  jp_exp :: int

datatype jwt_error = ExpiredSignature | InvalidToken

datatype verify_outcome = Verified | VerifyMismatch | InvalidHash

record auth_env =
  ae_now :: int
  ae_jwt_encode :: "jwt_payload \<Rightarrow> string"
  ae_jwt_decode :: "int \<Rightarrow> string \<Rightarrow> jwt_error + jwt_payload"
  ae_argon_hash :: "string \<Rightarrow> string"
  ae_argon_verify :: "string \<Rightarrow> string \<Rightarrow> verify_outcome"
  ae_argon_outdated :: "string \<Rightarrow> bool option"
  ae_sha256 :: "string \<Rightarrow> string"
  ae_access_ttl_minutes :: int
  ae_refresh_ttl_days :: int
  ae_email_enabled :: bool
  ae_email_sends :: bool
  ae_new_user_id :: string
  ae_access_jti :: string
  ae_refresh_jti :: string
  ae_reset_token :: string
  ae_limits :: limiter_settings
  ae_monotonic :: rat
  ae_client_host :: "string option"

section \<open>Passwords and tokens\<close>

definition hash_password :: "auth_env \<Rightarrow> string \<Rightarrow> string result" where
  "hash_password env plaintext =
     (if plaintext = [] then Inl ValueError else Inr (ae_argon_hash env plaintext))"

definition verify_password :: "auth_env \<Rightarrow> string \<Rightarrow> string \<Rightarrow> bool" where
  "verify_password env plaintext encoded =
     (case ae_argon_verify env encoded plaintext of
        Verified \<Rightarrow> True | VerifyMismatch \<Rightarrow> False | InvalidHash \<Rightarrow> False)"

text \<open>\<open>None\<close> is the \<open>InvalidHashError\<close> of argon2.\<close>

definition needs_rehash :: "auth_env \<Rightarrow> string \<Rightarrow> bool" where
  "needs_rehash env encoded =
     (case ae_argon_outdated env encoded of None \<Rightarrow> True | Some b \<Rightarrow> b)"

definition ACCESS :: string where "ACCESS = ''access''"
definition REFRESH :: string where "REFRESH = ''refresh''"
definition RESET :: string where "RESET = ''reset''"

record token_claims =
  tc_subject :: string
  tc_token_type :: string
  tc_token_id :: string
  tc_token_version :: int
  tc_issued_at :: int
  tc_expires_at :: int

definition seconds :: "int \<Rightarrow> int" where
  "seconds t = t div 1000000"

definition micros :: "int \<Rightarrow> int" where
  "micros s = s * 1000000"

text \<open>\<open>_issue\<close>; the token id is what \<open>secrets.token_urlsafe(16)\<close> drew.\<close>

definition issue :: "auth_env \<Rightarrow> string \<Rightarrow> string \<Rightarrow> string \<Rightarrow> int \<Rightarrow> int \<Rightarrow> string" where
  "issue env jti subject token_type ttl version =
     ae_jwt_encode env
       \<lparr>jp_sub = subject, jp_typ = token_type, jp_jti = jti, jp_ver = Some version,
        jp_iat = seconds (ae_now env), jp_nbf = seconds (ae_now env),
        jp_exp = seconds (ae_now env + ttl)\<rparr>"

definition issue_access :: "auth_env \<Rightarrow> string \<Rightarrow> int \<Rightarrow> string" where
  "issue_access env subject version =
     issue env (ae_access_jti env) subject ACCESS (micros (60 * ae_access_ttl_minutes env)) version"

definition issue_refresh :: "auth_env \<Rightarrow> string \<Rightarrow> int \<Rightarrow> string" where
  "issue_refresh env subject version =
     issue env (ae_refresh_jti env) subject REFRESH (micros (86400 * ae_refresh_ttl_days env)) version"

definition decode :: "auth_env \<Rightarrow> string \<Rightarrow> string \<Rightarrow> token_claims result" where
  "decode env token expected_type =
     (case ae_jwt_decode env (ae_now env) token of
        Inl ExpiredSignature \<Rightarrow> Inl (AuthenticationError ''Token has expired'')
      | Inl InvalidToken \<Rightarrow> Inl (AuthenticationError ''Invalid token'')
      | Inr p \<Rightarrow>
          if jp_typ p \<noteq> expected_type
          then Inl (AuthenticationError (''Wrong token type (expected '' @ expected_type @ '')''))
          else Inr \<lparr>tc_subject = jp_sub p, tc_token_type = jp_typ p, tc_token_id = jp_jti p,
                    tc_token_version = (case jp_ver p of None \<Rightarrow> 0 | Some v \<Rightarrow> v),
                    tc_issued_at = micros (jp_iat p), tc_expires_at = micros (jp_exp p)\<rparr>)"

section \<open>Roles\<close>

datatype user_role = ADMIN | USER

definition role_value :: "user_role \<Rightarrow> string" where
  "role_value r = (case r of ADMIN \<Rightarrow> ''admin'' | USER \<Rightarrow> ''user'')"

text \<open>\<open>Role(self.role)\<close>.\<close>

definition role_enum :: "user \<Rightarrow> user_role result" where
  "role_enum u =
     (if us_role u = ''admin'' then Inr ADMIN else if us_role u = ''user'' then Inr USER
      else Inl ValueError)"

definition PERMISSIONS :: "string list" where
  "PERMISSIONS =
     [''users.read'', ''users.write'', ''media.read'', ''media.write'', ''rules.read'', ''rules.write'',
      ''automations.read'', ''automations.write'', ''integrations.read'', ''integrations.write'',
      ''notifications.read'', ''notifications.write'', ''settings.read'', ''settings.write'',
      ''updates.read'', ''updates.write'']"

definition ROLE_DEFAULTS :: "user_role \<Rightarrow> string list" where
  "ROLE_DEFAULTS r =
     (case r of
        ADMIN \<Rightarrow> PERMISSIONS
      | USER \<Rightarrow> [''media.read'', ''rules.read'', ''automations.read'', ''integrations.read'',
                 ''notifications.read'', ''settings.read'', ''updates.read''])"

definition role_has :: "user_role \<Rightarrow> string \<Rightarrow> bool" where
  "role_has r permission = (r = ADMIN \<or> permission \<in> set (ROLE_DEFAULTS r))"

section \<open>Sessions as actions\<close>

definition abind :: "'a auth_act \<Rightarrow> ('a \<Rightarrow> 'b auth_act) \<Rightarrow> 'b auth_act" where
  "abind m f st = (case m st of (Inl e, st') \<Rightarrow> (Inl e, st') | (Inr x, st') \<Rightarrow> f x st')"

definition alift :: "'a result \<Rightarrow> 'a auth_act" where
  "alift r st = (r, st)"

definition aread :: "(auth_db \<Rightarrow> 'a) \<Rightarrow> 'a auth_act" where
  "aread f st = (Inr (f (au_db st)), st)"

definition awrite :: "(auth_db \<Rightarrow> auth_db) \<Rightarrow> unit auth_act" where
  "awrite f st = (Inr (), st\<lparr>au_db := f (au_db st)\<rparr>)"

definition asend :: "delivery \<Rightarrow> unit auth_act" where
  "asend d st = (Inr (), st\<lparr>au_sent := au_sent st @ [d]\<rparr>)"

definition aemit :: "string \<Rightarrow> (string \<times> pyval) list \<Rightarrow> unit auth_act" where
  "aemit name payload st =
     (Inr (), st\<lparr>au_events := au_events st @ [\<lparr>ev_name = name, ev_payload = payload, ev_source = ''auth''\<rparr>]\<rparr>)"

subsection \<open>Repositories\<close>

definition get_user :: "string \<Rightarrow> auth_db \<Rightarrow> user option" where
  "get_user i d = table_find us_id i (db_users d)"

definition get_by_email :: "string \<Rightarrow> auth_db \<Rightarrow> user option" where
  "get_by_email email d = table_find us_email (py_lower email) (db_users d)"

definition get_by_username :: "string \<Rightarrow> auth_db \<Rightarrow> user option" where
  "get_by_username username d = table_find us_username (py_lower username) (db_users d)"

definition find_by_login :: "string \<Rightarrow> auth_db \<Rightarrow> user option" where
  "find_by_login login d =
     (let l = py_lower (py_strip login) in
      if CHR ''@'' \<in> set l then get_by_email l d else get_by_username l d)"

definition add_user :: "user \<Rightarrow> auth_db \<Rightarrow> auth_db" where
  "add_user u d = d\<lparr>db_users := db_users d @ [u]\<rparr>"

definition update_user :: "string \<Rightarrow> (user \<Rightarrow> user) \<Rightarrow> auth_db \<Rightarrow> auth_db" where
  "update_user i f d = d\<lparr>db_users := map (\<lambda>u. if us_id u = i then f u else u) (db_users d)\<rparr>"

definition touch_login :: "auth_env \<Rightarrow> string \<Rightarrow> auth_db \<Rightarrow> auth_db" where
  "touch_login env i = update_user i (\<lambda>u. u\<lparr>us_last_login_at := Some (ae_now env)\<rparr>)"

definition bump_token_version :: "user \<Rightarrow> auth_db \<Rightarrow> auth_db" where
  "bump_token_version user = update_user (us_id user) (\<lambda>u. u\<lparr>us_token_version := us_token_version user + 1\<rparr>)"

definition get_session :: "string \<Rightarrow> auth_db \<Rightarrow> refresh_session option" where
  "get_session jti d = table_find rs_jti jti (db_sessions d)"

definition add_session :: "refresh_session \<Rightarrow> auth_db \<Rightarrow> auth_db" where
  "add_session r d = d\<lparr>db_sessions := db_sessions d @ [r]\<rparr>"

definition revoke_where :: "auth_env \<Rightarrow> (refresh_session \<Rightarrow> bool) \<Rightarrow> auth_db \<Rightarrow> auth_db" where
  "revoke_where env P d =
     d\<lparr>db_sessions := map (\<lambda>r. if P r \<and> rs_revoked_at r = None then r\<lparr>rs_revoked_at := Some (ae_now env)\<rparr> else r)
         (db_sessions d)\<rparr>"

definition revocable :: "(refresh_session \<Rightarrow> bool) \<Rightarrow> auth_db \<Rightarrow> nat" where
  "revocable P d = length (filter (\<lambda>r. P r \<and> rs_revoked_at r = None) (db_sessions d))"

definition revoke :: "auth_env \<Rightarrow> string \<Rightarrow> bool auth_act" where
  "revoke env jti =
     abind (aread (revocable (\<lambda>r. rs_jti r = jti))) (\<lambda>n.
     abind (awrite (revoke_where env (\<lambda>r. rs_jti r = jti))) (\<lambda>_. alift (Inr (n \<noteq> 0))))"

definition revoke_for_user :: "auth_env \<Rightarrow> string \<Rightarrow> nat auth_act" where
  "revoke_for_user env uid =
     abind (aread (revocable (\<lambda>r. rs_user_id r = uid))) (\<lambda>n.
     abind (awrite (revoke_where env (\<lambda>r. rs_user_id r = uid))) (\<lambda>_. alift (Inr n)))"

definition list_active :: "auth_env \<Rightarrow> string \<Rightarrow> auth_db \<Rightarrow> refresh_session list" where
  "list_active env uid d =
     filter (\<lambda>r. rs_user_id r = uid \<and> rs_revoked_at r = None \<and> ae_now env < rs_expires_at r) (db_sessions d)"

definition get_reset :: "string \<Rightarrow> auth_db \<Rightarrow> password_reset_token option" where
  "get_reset h d = table_find pt_token_hash h (db_resets d)"

definition add_reset :: "password_reset_token \<Rightarrow> auth_db \<Rightarrow> auth_db" where
  "add_reset t d = d\<lparr>db_resets := db_resets d @ [t]\<rparr>"

definition delete_resets :: "string \<Rightarrow> auth_db \<Rightarrow> auth_db" where
  "delete_resets uid d = d\<lparr>db_resets := filter (\<lambda>t. pt_user_id t \<noteq> uid) (db_resets d)\<rparr>"

definition mark_used :: "auth_env \<Rightarrow> string \<Rightarrow> auth_db \<Rightarrow> auth_db" where
  "mark_used env h d =
     d\<lparr>db_resets := map (\<lambda>t. if pt_token_hash t = h then t\<lparr>pt_used_at := Some (ae_now env)\<rparr> else t) (db_resets d)\<rparr>"

definition ctx_field :: "(auth_context \<Rightarrow> string option) \<Rightarrow> auth_context option \<Rightarrow> string option" where
  "ctx_field f ctx = (case ctx of None \<Rightarrow> None | Some c \<Rightarrow> f c)"

definition audit :: "string \<Rightarrow> string option \<Rightarrow> string option \<Rightarrow> string option \<Rightarrow> string option
    \<Rightarrow> auth_context option \<Rightarrow> (string \<times> pyval) list \<Rightarrow> unit auth_act" where
  "audit action actor_id actor_label target_type target_id ctx metadata =
     awrite (\<lambda>d. d\<lparr>db_audit := db_audit d @
       [\<lparr>al_action = action, al_actor_id = actor_id, al_actor_label = actor_label,
         al_target_type = target_type, al_target_id = target_id, al_metadata = metadata,
         al_ip_address = ctx_field cx_ip_address ctx, al_request_id = ctx_field cx_request_id ctx\<rparr>]\<rparr>)"

definition is_past :: "auth_env \<Rightarrow> int \<Rightarrow> bool" where
  "is_past env t = (t < ae_now env)"

section \<open>The authentication service\<close>

definition RESET_TOKEN_TTL_MINUTES :: int where "RESET_TOKEN_TTL_MINUTES = 30"
definition TERMINAL_OTP_TTL_MINUTES :: int where "TERMINAL_OTP_TTL_MINUTES = 15"

record token_pair =
  tp_access_token :: string
  tp_refresh_token :: string

definition validate_password :: "string \<Rightarrow> unit result" where
  "validate_password password =
     (if py_strip password = [] then Inl (ValidationError ''Password is required'')
      else if py_len password < 12 then Inl (ValidationError ''Password must be at least 12 characters'')
      else Inr ())"

definition hash_reset_token :: "auth_env \<Rightarrow> string \<Rightarrow> string" where
  "hash_reset_token env token = ae_sha256 env token"

definition register ::
    "auth_env \<Rightarrow> string \<Rightarrow> string \<Rightarrow> string \<Rightarrow> string option \<Rightarrow> user_role \<Rightarrow> auth_context option \<Rightarrow> user auth_act" where
  "register env email username password full_name role ctx =
     (let email_norm = py_lower (py_strip email); username_norm = py_lower (py_strip username) in
      abind (alift (validate_password password)) (\<lambda>_.
      abind (aread (get_by_email email_norm)) (\<lambda>e.
      if e \<noteq> None then alift (Inl (ConflictError ''A user with that email already exists'')) else
      abind (aread (get_by_username username_norm)) (\<lambda>n.
      if n \<noteq> None then alift (Inl (ConflictError ''A user with that username already exists'')) else
      abind (alift (hash_password env password)) (\<lambda>h.
      let user = \<lparr>us_id = ae_new_user_id env, us_email = email_norm, us_username = username_norm,
                  us_full_name = full_name, us_password_hash = h, us_role = role_value role,
                  us_is_active = True, us_is_verified = False, us_must_change_password = False,
                  us_token_version = 0, us_last_login_at = None\<rparr> in
      abind (awrite (add_user user)) (\<lambda>_.
      abind (audit ''auth.register'' (Some (us_id user)) (Some (us_username user)) (Some ''user'')
               (Some (us_id user)) ctx [(''role'', PyStr (us_role user))]) (\<lambda>_.
      abind (aemit ''system.user_registered''
               [(''id'', PyStr (us_id user)), (''username'', PyStr (us_username user))]) (\<lambda>_.
      alift (Inr user)))))))))"

definition issue_pair :: "auth_env \<Rightarrow> user \<Rightarrow> auth_context option \<Rightarrow> token_pair auth_act" where
  "issue_pair env user ctx =
     (let access = issue_access env (us_id user) (us_token_version user);
          refresh = issue_refresh env (us_id user) (us_token_version user) in
      abind (alift (decode env refresh REFRESH)) (\<lambda>claims.
      abind (awrite (add_session
        \<lparr>rs_jti = tc_token_id claims, rs_user_id = us_id user, rs_expires_at = tc_expires_at claims,
         rs_revoked_at = None, rs_user_agent = ctx_field cx_user_agent ctx,
         rs_ip_address = ctx_field cx_ip_address ctx\<rparr>)) (\<lambda>_.
      alift (Inr \<lparr>tp_access_token = access, tp_refresh_token = refresh\<rparr>))))"

definition login_failed ::
    "string option \<Rightarrow> string \<Rightarrow> string \<Rightarrow> auth_context option \<Rightarrow> 'a auth_act" where
  "login_failed actor_id label reason ctx =
     abind (audit ''auth.login_failed'' actor_id (Some label) None None ctx [(''reason'', PyStr reason)])
       (\<lambda>_. alift (Inl (AuthenticationError ''Invalid credentials'')))"

definition login :: "auth_env \<Rightarrow> string \<Rightarrow> string \<Rightarrow> auth_context option \<Rightarrow> (user \<times> token_pair) auth_act" where
  "login env name password ctx =
     abind (aread (find_by_login name)) (\<lambda>found.
     case found of
       None \<Rightarrow> login_failed None name ''unknown_or_inactive'' ctx
     | Some user \<Rightarrow>
         if \<not> us_is_active user then login_failed None name ''unknown_or_inactive'' ctx
         else if \<not> verify_password env password (us_password_hash user)
         then login_failed (Some (us_id user)) (us_username user) ''bad_password'' ctx
         else
           abind (if needs_rehash env (us_password_hash user) then
                    abind (alift (hash_password env password)) (\<lambda>h.
                    abind (awrite (update_user (us_id user) (\<lambda>u. u\<lparr>us_password_hash := h\<rparr>))) (\<lambda>_.
                    alift (Inr (user\<lparr>us_password_hash := h\<rparr>))))
                  else alift (Inr user)) (\<lambda>user.
           abind (awrite (touch_login env (us_id user))) (\<lambda>_.
           let user = user\<lparr>us_last_login_at := Some (ae_now env)\<rparr> in
           abind (issue_pair env user ctx) (\<lambda>pair.
           abind (audit ''auth.login'' (Some (us_id user)) (Some (us_username user)) None None ctx []) (\<lambda>_.
           alift (Inr (user, pair)))))))"

text \<open>\<open>refresh\<close>.  \<open>others\<close> is what other requests commit between the reads and the
  revocation.\<close>

definition refresh ::
    "auth_env \<Rightarrow> (auth_db \<Rightarrow> auth_db) \<Rightarrow> string \<Rightarrow> auth_context option \<Rightarrow> (user \<times> token_pair) auth_act" where
  "refresh env others token ctx =
     abind (alift (decode env token REFRESH)) (\<lambda>claims.
     abind (aread (get_session (tc_token_id claims))) (\<lambda>rec.
     if (case rec of None \<Rightarrow> True | Some r \<Rightarrow> rs_revoked_at r \<noteq> None \<or> is_past env (rs_expires_at r))
     then alift (Inl (AuthenticationError ''Refresh token is no longer valid'')) else
     abind (aread (get_user (tc_subject claims))) (\<lambda>found.
     case found of
       None \<Rightarrow> alift (Inl (AuthenticationError ''User is no longer active''))
     | Some user \<Rightarrow>
         if \<not> us_is_active user then alift (Inl (AuthenticationError ''User is no longer active''))
         else if us_token_version user \<noteq> tc_token_version claims
         then alift (Inl (AuthenticationError ''Refresh token has been invalidated''))
         else
           abind (awrite others) (\<lambda>_.
           abind (revoke env (tc_token_id claims)) (\<lambda>_.
           abind (issue_pair env user ctx) (\<lambda>pair.
           abind (audit ''auth.refresh'' (Some (us_id user)) (Some (us_username user)) None None ctx []) (\<lambda>_.
           alift (Inr (user, pair)))))))))"

definition logout :: "auth_env \<Rightarrow> string option \<Rightarrow> auth_context option \<Rightarrow> unit auth_act" where
  "logout env token ctx =
     (case token of
        None \<Rightarrow> alift (Inr ())
      | Some t \<Rightarrow>
          if t = [] then alift (Inr ())
          else case decode env t REFRESH of
            Inl _ \<Rightarrow> alift (Inr ())
          | Inr claims \<Rightarrow>
              abind (revoke env (tc_token_id claims)) (\<lambda>revoked.
              if revoked then audit ''auth.logout'' (Some (tc_subject claims)) None None None ctx []
              else alift (Inr ())))"

definition logout_all :: "auth_env \<Rightarrow> user \<Rightarrow> auth_context option \<Rightarrow> nat auth_act" where
  "logout_all env user ctx =
     abind (revoke_for_user env (us_id user)) (\<lambda>count.
     abind (audit ''auth.logout_all'' (Some (us_id user)) (Some (us_username user)) None None ctx
              [(''sessions_revoked'', PyInt (int count))]) (\<lambda>_.
     alift (Inr count)))"

definition change_password ::
    "auth_env \<Rightarrow> user \<Rightarrow> string \<Rightarrow> string \<Rightarrow> auth_context option \<Rightarrow> unit auth_act" where
  "change_password env user current_password new_password ctx =
     (if \<not> verify_password env current_password (us_password_hash user)
      then alift (Inl (AuthenticationError ''Current password is incorrect''))
      else
        abind (alift (validate_password new_password)) (\<lambda>_.
        abind (alift (hash_password env new_password)) (\<lambda>h.
        abind (awrite (update_user (us_id user) (\<lambda>u. u\<lparr>us_password_hash := h, us_must_change_password := False\<rparr>))) (\<lambda>_.
        abind (awrite (bump_token_version user)) (\<lambda>_.
        abind (revoke_for_user env (us_id user)) (\<lambda>_.
        audit ''auth.password_changed'' (Some (us_id user)) (Some (us_username user)) None None ctx []))))))"

text \<open>\<open>update_profile\<close>: the e-mail and the name that change; the name is trimmed and an empty one
  clears the field.\<close>

definition none_if_empty :: "string \<Rightarrow> string option" where
  "none_if_empty s = (if s = [] then None else Some s)"

definition changed_email :: "user \<Rightarrow> string option \<Rightarrow> string option" where
  "changed_email user email =
     (case email of
        None \<Rightarrow> None
      | Some e \<Rightarrow> (let n = py_lower (py_strip e) in if n \<noteq> us_email user then Some n else None))"

definition changed_name :: "user \<Rightarrow> string option \<Rightarrow> string option option" where
  "changed_name user full_name =
     (case full_name of
        None \<Rightarrow> None
      | Some f \<Rightarrow> (let n = none_if_empty (py_strip f) in if n \<noteq> us_full_name user then Some n else None))"

definition profile_update :: "string option \<Rightarrow> string option option \<Rightarrow> user \<Rightarrow> user" where
  "profile_update ce cn u =
     (let u1 = (case ce of None \<Rightarrow> u | Some e \<Rightarrow> u\<lparr>us_email := e, us_is_verified := False\<rparr>) in
      case cn of None \<Rightarrow> u1 | Some n \<Rightarrow> u1\<lparr>us_full_name := n\<rparr>)"

definition update_profile ::
    "user \<Rightarrow> string option \<Rightarrow> string option \<Rightarrow> auth_context option \<Rightarrow> user auth_act" where
  "update_profile user email full_name ctx =
     (let ce = changed_email user email; cn = changed_name user full_name in
      abind (aread (\<lambda>d. case ce of None \<Rightarrow> None | Some e \<Rightarrow> get_by_email e d)) (\<lambda>existing.
      if (case existing of None \<Rightarrow> False | Some x \<Rightarrow> us_id x \<noteq> us_id user)
      then alift (Inl (ValidationError ''Another account is already using that email.''))
      else if ce = None \<and> cn = None then alift (Inr user)
      else
        abind (awrite (update_user (us_id user) (profile_update ce cn))) (\<lambda>_.
        abind (audit ''auth.profile_updated'' (Some (us_id user)) (Some (us_username user)) None None ctx
                 [(''fields'', PyList ((if ce = None then [] else [PyStr ''email'']) @
                                       (if cn = None then [] else [PyStr ''full_name''])))]) (\<lambda>_.
        alift (Inr (profile_update ce cn user))))))"

definition deliver_reset :: "auth_env \<Rightarrow> user \<Rightarrow> int \<Rightarrow> unit auth_act" where
  "deliver_reset env user ttl_minutes =
     (if ae_email_enabled env
      then (if ae_email_sends env
            then asend (ResetMail (us_email user) (us_full_name user) (ae_reset_token env))
            else alift (Inr ()))
      else asend (OtpBanner (us_username user) (ae_reset_token env) ttl_minutes))"

definition request_password_reset :: "auth_env \<Rightarrow> string \<Rightarrow> auth_context option \<Rightarrow> unit auth_act" where
  "request_password_reset env email ctx =
     (let email_norm = py_lower (py_strip email) in
      abind (aread (get_by_email email_norm)) (\<lambda>found.
      let unmatched = audit ''auth.password_reset_requested'' None (Some email_norm) None None ctx
            [(''matched'', PyBool False)] in
      case found of
        None \<Rightarrow> unmatched
      | Some user \<Rightarrow>
          if \<not> us_is_active user then unmatched
          else
            (let enabled = ae_email_enabled env;
                 ttl_minutes = (if enabled then RESET_TOKEN_TTL_MINUTES else TERMINAL_OTP_TTL_MINUTES) in
             abind (awrite (delete_resets (us_id user))) (\<lambda>_.
             abind (awrite (add_reset
               \<lparr>pt_token_hash = hash_reset_token env (ae_reset_token env), pt_user_id = us_id user,
                pt_expires_at = ae_now env + micros (60 * ttl_minutes), pt_used_at = None,
                pt_must_change_on_use = (\<not> enabled)\<rparr>)) (\<lambda>_.
             abind (deliver_reset env user ttl_minutes) (\<lambda>_.
             audit ''auth.password_reset_requested'' (Some (us_id user)) (Some (us_username user)) None None ctx
               [(''matched'', PyBool True),
                (''delivery'', PyStr (if enabled then ''email'' else ''terminal_otp''))]))))))"

definition confirm_password_reset ::
    "auth_env \<Rightarrow> string \<Rightarrow> string \<Rightarrow> auth_context option \<Rightarrow> unit auth_act" where
  "confirm_password_reset env token new_password ctx =
     abind (alift (validate_password new_password)) (\<lambda>_.
     abind (aread (get_reset (hash_reset_token env token))) (\<lambda>rec.
     case rec of
       None \<Rightarrow> alift (Inl (AuthenticationError ''Reset token is invalid or has expired''))
     | Some r \<Rightarrow>
         if pt_used_at r \<noteq> None \<or> is_past env (pt_expires_at r)
         then alift (Inl (AuthenticationError ''Reset token is invalid or has expired''))
         else
           abind (aread (get_user (pt_user_id r))) (\<lambda>found.
           case found of
             None \<Rightarrow> alift (Inl (NotFoundError ''User no longer exists''))
           | Some user \<Rightarrow>
               if \<not> us_is_active user then alift (Inl (NotFoundError ''User no longer exists''))
               else
                 abind (alift (hash_password env new_password)) (\<lambda>h.
                 abind (awrite (update_user (us_id user) (\<lambda>u. u\<lparr>us_password_hash := h,
                     us_must_change_password := (pt_must_change_on_use r \<or> us_must_change_password u)\<rparr>))) (\<lambda>_.
                 abind (awrite (bump_token_version user)) (\<lambda>_.
                 abind (revoke_for_user env (us_id user)) (\<lambda>_.
                 abind (awrite (mark_used env (pt_token_hash r))) (\<lambda>_.
                 audit ''auth.password_reset_confirmed'' (Some (us_id user)) (Some (us_username user)) None None ctx
                   [(''must_change_on_use'', PyBool (pt_must_change_on_use r))]))))))))"

section \<open>Guards\<close>

definition resolve_user :: "token_claims \<Rightarrow> user auth_act" where
  "resolve_user claims =
     abind (aread (get_user (tc_subject claims))) (\<lambda>found.
     case found of
       None \<Rightarrow> alift (Inl (AuthenticationError ''User is no longer active''))
     | Some user \<Rightarrow>
         if \<not> us_is_active user then alift (Inl (AuthenticationError ''User is no longer active''))
         else if us_token_version user \<noteq> tc_token_version claims
         then alift (Inl (AuthenticationError ''Token has been invalidated''))
         else alift (Inr user))"

definition current_user :: "auth_env \<Rightarrow> string option \<Rightarrow> user auth_act" where
  "current_user env credentials =
     (case credentials of
        None \<Rightarrow> alift (Inl (AuthenticationError ''Authentication required''))
      | Some t \<Rightarrow> abind (alift (decode env t ACCESS)) resolve_user)"

definition optional_user :: "auth_env \<Rightarrow> string option \<Rightarrow> user option auth_act" where
  "optional_user env credentials st =
     (case credentials of
        None \<Rightarrow> (Inr None, st)
      | Some t \<Rightarrow>
          (case decode env t ACCESS of
             Inl _ \<Rightarrow> (Inr None, st)
           | Inr claims \<Rightarrow>
               (case resolve_user claims st of
                  (Inl _, st') \<Rightarrow> (Inr None, st')
                | (Inr u, st') \<Rightarrow> (Inr (Some u), st'))))"

definition require_admin :: "auth_env \<Rightarrow> string option \<Rightarrow> user auth_act" where
  "require_admin env credentials =
     abind (current_user env credentials) (\<lambda>user.
     abind (alift (role_enum user)) (\<lambda>r.
     if r \<noteq> ADMIN then alift (Inl (AuthorizationError ''Administrator role required''))
     else alift (Inr user)))"

definition require_permission :: "auth_env \<Rightarrow> string \<Rightarrow> string option \<Rightarrow> user auth_act" where
  "require_permission env permission credentials =
     abind (current_user env credentials) (\<lambda>user.
     abind (alift (role_enum user)) (\<lambda>r.
     if \<not> role_has r permission
     then alift (Inl (AuthorizationError (''Missing required permission: '' @ permission)))
     else alift (Inr user)))"

section \<open>Requests\<close>

text \<open>\<open>session_dependency\<close>: the database part of a request commits when the handler returns and is
  rolled back when it raises; what was emitted or sent is not.\<close>

definition in_session :: "'a auth_act \<Rightarrow> 'a auth_act" where
  "in_session act st =
     (case act st of
        (Inr x, st') \<Rightarrow> (Inr x, st')
      | (Inl e, st') \<Rightarrow> (Inl e, st'\<lparr>au_db := au_db st\<rparr>))"

datatype auth_request =
    Login string string
  | Refresh string
  | Logout "string option"
  | LogoutAll "string option"
  | Register string string string "string option"
  | Me "string option"
  | UpdateMe "string option" "string option" "string option"
  | ChangePassword "string option" string string
  | RequestReset string
  | ConfirmReset string string

datatype auth_response =
    Tokens token_pair int
  | UserPublic user
  | NoContent

record auth_app =
  aa_auth :: auth_state
  aa_buckets :: buckets

definition token_response :: "auth_env \<Rightarrow> user \<times> token_pair \<Rightarrow> auth_response auth_act" where
  "token_response env = (\<lambda>(_, pair). alift (Inr (Tokens pair (ae_access_ttl_minutes env * 60))))"

text \<open>The handler behind each route.\<close>

definition endpoint :: "auth_env \<Rightarrow> auth_context option \<Rightarrow> auth_request \<Rightarrow> auth_response auth_act" where
  "endpoint env ctx rq =
     (case rq of
        Login name password \<Rightarrow> abind (login env name password ctx) (token_response env)
      | Refresh t \<Rightarrow> abind (refresh env (\<lambda>d. d) t ctx) (token_response env)
      | Logout t \<Rightarrow> abind (logout env t ctx) (\<lambda>_. alift (Inr NoContent))
      | LogoutAll c \<Rightarrow> abind (current_user env c) (\<lambda>u. abind (logout_all env u ctx) (\<lambda>_. alift (Inr NoContent)))
      | Register email username password full_name \<Rightarrow>
          abind (register env email username password full_name USER ctx) (\<lambda>u. alift (Inr (UserPublic u)))
      | Me c \<Rightarrow> abind (current_user env c) (\<lambda>u. alift (Inr (UserPublic u)))
      | UpdateMe c email full_name \<Rightarrow>
          abind (current_user env c) (\<lambda>u.
          abind (update_profile u email full_name ctx) (\<lambda>u'. alift (Inr (UserPublic u'))))
      | ChangePassword c cur new \<Rightarrow>
          abind (current_user env c) (\<lambda>u.
          abind (change_password env u cur new ctx) (\<lambda>_. alift (Inr NoContent)))
      | RequestReset email \<Rightarrow> abind (request_password_reset env email ctx) (\<lambda>_. alift (Inr NoContent))
      | ConfirmReset token new \<Rightarrow> abind (confirm_password_reset env token new ctx) (\<lambda>_. alift (Inr NoContent)))"

definition limited_route :: "auth_request \<Rightarrow> string option" where
  "limited_route rq =
     (case rq of
        Login _ _ \<Rightarrow> Some ''login''
      | Register _ _ _ _ \<Rightarrow> Some ''register''
      | RequestReset _ \<Rightarrow> Some ''password_reset''
      | _ \<Rightarrow> None)"

definition handle_request ::
    "auth_env \<Rightarrow> auth_context option \<Rightarrow> auth_request \<Rightarrow> auth_app \<Rightarrow> auth_response result \<times> auth_app" where
  "handle_request env ctx rq app =
     (let run = (\<lambda>b. let (r, st) = in_session (endpoint env ctx rq) (aa_auth app)
                      in (r, \<lparr>aa_auth = st, aa_buckets = b\<rparr>)) in
      case limited_route rq of
        None \<Rightarrow> run (aa_buckets app)
      | Some route \<Rightarrow>
          (case check (ae_limits env) (client_ip (ae_client_host env), route) (ae_monotonic env) (aa_buckets app) of
             (Allowed, b) \<Rightarrow> run b
           | (RateLimited n, b) \<Rightarrow> (Inl (RateLimitError n), app\<lparr>aa_buckets := b\<rparr>)))"

section \<open>The first administrator\<close>

text \<open>\<open>settings.x or os.environ.get(X, default)\<close>.\<close>

definition configured :: "string option \<Rightarrow> string option \<Rightarrow> string \<Rightarrow> string" where
  "configured setting environ dflt =
     (case setting of
        Some s \<Rightarrow> if s \<noteq> [] then s else (case environ of None \<Rightarrow> dflt | Some e \<Rightarrow> e)
      | None \<Rightarrow> (case environ of None \<Rightarrow> dflt | Some e \<Rightarrow> e))"

record bootstrap_config =
  bc_username :: "string option \<times> string option"
  bc_password :: "string option \<times> string option"
  bc_email :: "string option \<times> string option"

text \<open>\<open>others\<close> is what another worker does between the first count and the second.\<close>

definition bootstrap_admin_if_needed ::
    "auth_env \<Rightarrow> (auth_db \<Rightarrow> auth_db) \<Rightarrow> bootstrap_config \<Rightarrow> auth_db \<Rightarrow> auth_db result" where
  "bootstrap_admin_if_needed env others bc d =
     (let username = py_strip (configured (fst (bc_username bc)) (snd (bc_username bc)) []);
          password = configured (fst (bc_password bc)) (snd (bc_password bc)) [];
          email = py_strip (configured (fst (bc_email bc)) (snd (bc_email bc)) (username @ ''@auditarr.local'')) in
      if db_users d \<noteq> [] then Inr d
      else if username = [] \<or> password = [] then Inr d
      else if py_len password < 12 then Inr d
      else
        (let d1 = others d in
         if db_users d1 \<noteq> [] then Inr d1
         else
           bind_r (hash_password env password) (\<lambda>h.
           Inr (add_user
             \<lparr>us_id = ae_new_user_id env, us_email = py_lower email, us_username = py_lower username,
              us_full_name = Some ''Administrator'', us_password_hash = h, us_role = role_value ADMIN,
              us_is_active = True, us_is_verified = True, us_must_change_password = False,
              us_token_version = 0, us_last_login_at = None\<rparr> d1))))"

end
