(* ===== verification/AuthGuarantees.thy ===== *)
theory AuthGuarantees
  imports Auth "HOL-Library.Countable"
begin

text \<open>
  What the authentication service guarantees over whole runs: requests by anybody, with any clock and
  any random draws, between two looks at the database.  The library evaluates the handlers
  symbolically (\<open>auth_simps\<close>) and orders databases by what later requests can change
  (\<open>evolves\<close>).
\<close>

named_theorems auth_simps \<open>symbolic evaluation of session actions\<close>

section \<open>Evaluation of actions\<close>

lemma abind_lift [auth_simps]:
  "abind (alift (Inr x)) f st = f x st" "abind (alift (Inl e)) f st = (Inl e, st)"
  "abind (aread g) f st = f (g (au_db st)) st"
  "abind (awrite w) f' st = f' () (st\<lparr>au_db := w (au_db st)\<rparr>)"
  "abind (asend x') f' st = f' () (st\<lparr>au_sent := au_sent st @ [x']\<rparr>)"
  "abind (aemit n p) f' st =
     f' () (st\<lparr>au_events := au_events st @ [\<lparr>ev_name = n, ev_payload = p, ev_source = ''auth''\<rparr>]\<rparr>)"
  by (simp_all add: abind_def alift_def aread_def awrite_def asend_def aemit_def)

lemma abind_assoc [auth_simps]: "abind (abind m f) g st = abind m (\<lambda>x. abind (f x) g) st"
  by (simp add: abind_def split: prod.split sum.split)

lemma run_lift [auth_simps]:
  "alift r st = (r, st)" "aread g st = (Inr (g (au_db st)), st)"
  "awrite w st = (Inr (), st\<lparr>au_db := w (au_db st)\<rparr>)"
  "asend x st = (Inr (), st\<lparr>au_sent := au_sent st @ [x]\<rparr>)"
  by (simp_all add: alift_def aread_def awrite_def asend_def)

lemma abind_if [auth_simps]: "abind (if b then m else n) f st = (if b then abind m f st else abind n f st)"
  by simp

lemma abind_audit [auth_simps]:
  "abind (audit a ai al tt ti ctx md) f st = f () (snd (audit a ai al tt ti ctx md st))"
  by (simp add: audit_def auth_simps)

lemma run_audit:
  "audit a ai al tt ti ctx md st = (Inr (), snd (audit a ai al tt ti ctx md st))"
  by (simp add: audit_def auth_simps)

lemma au_db_audit [simp]:
  "db_users (au_db (snd (audit a ai al tt ti ctx md st))) = db_users (au_db st)"
  "db_sessions (au_db (snd (audit a ai al tt ti ctx md st))) = db_sessions (au_db st)"
  "db_resets (au_db (snd (audit a ai al tt ti ctx md st))) = db_resets (au_db st)"
  by (simp_all add: audit_def auth_simps)

lemma fst_audit [simp]: "fst (audit a ai al tt ti ctx md st) = Inr ()"
  by (simp add: audit_def auth_simps)

lemma abind_revoke [auth_simps]:
  "abind (revoke env j) f st =
     f (revocable (\<lambda>r. rs_jti r = j) (au_db st) \<noteq> 0)
       (st\<lparr>au_db := revoke_where env (\<lambda>r. rs_jti r = j) (au_db st)\<rparr>)"
  "abind (revoke_for_user env i) g st =
     g (revocable (\<lambda>r. rs_user_id r = i) (au_db st))
       (st\<lparr>au_db := revoke_where env (\<lambda>r. rs_user_id r = i) (au_db st)\<rparr>)"
  by (simp_all add: revoke_def revoke_for_user_def auth_simps)

text \<open>The rows a database update leaves behind.\<close>

lemma db_rows [simp]:
  "db_users (revoke_where env P d) = db_users d" "db_resets (revoke_where env P d) = db_resets d"
  "db_users (add_session r d) = db_users d" "db_resets (add_session r d) = db_resets d"
  "db_sessions (add_session r d) = db_sessions d @ [r]"
  "db_sessions (add_user u d) = db_sessions d" "db_resets (add_user u d) = db_resets d"
  "db_users (add_user u d) = db_users d @ [u]"
  "db_sessions (update_user i f d) = db_sessions d" "db_resets (update_user i f d) = db_resets d"
  "db_sessions (touch_login env i d) = db_sessions d" "db_resets (touch_login env i d) = db_resets d"
  "db_sessions (bump_token_version u d) = db_sessions d" "db_resets (bump_token_version u d) = db_resets d"
  "db_users (add_reset t d) = db_users d" "db_sessions (add_reset t d) = db_sessions d"
  "db_resets (add_reset t d) = db_resets d @ [t]"
  "db_users (delete_resets i d) = db_users d" "db_sessions (delete_resets i d) = db_sessions d"
  "db_users (mark_used env h d) = db_users d" "db_sessions (mark_used env h d) = db_sessions d"
  by (simp_all add: revoke_where_def add_session_def add_user_def update_user_def touch_login_def
      bump_token_version_def add_reset_def delete_resets_def mark_used_def)

section \<open>How databases evolve\<close>

definition evolves :: "auth_db \<Rightarrow> auth_db \<Rightarrow> bool" where
  "evolves d d' \<longleftrightarrow>
     (\<forall>j r. get_session j d = Some r \<longrightarrow>
        (\<exists>r'. get_session j d' = Some r' \<and> (rs_revoked_at r \<noteq> None \<longrightarrow> rs_revoked_at r' \<noteq> None)))
   \<and> (\<forall>i u. get_user i d = Some u \<longrightarrow>
        (\<exists>u'. get_user i d' = Some u' \<and> us_token_version u \<le> us_token_version u' \<and> us_role u' = us_role u))
   \<and> (\<forall>i u'. get_user i d = None \<longrightarrow> get_user i d' = Some u' \<longrightarrow> us_role u' = ''user'')"

lemma evolves_same:
  "db_users d' = db_users d \<Longrightarrow> db_sessions d' = db_sessions d \<Longrightarrow> evolves d d'"
  by (simp add: evolves_def get_session_def get_user_def)

lemma evolvesI:
  assumes "\<And>j r. get_session j d = Some r \<Longrightarrow>
      \<exists>r'. get_session j d' = Some r' \<and> (rs_revoked_at r \<noteq> None \<longrightarrow> rs_revoked_at r' \<noteq> None)"
    "\<And>i u. get_user i d = Some u \<Longrightarrow>
      \<exists>u'. get_user i d' = Some u' \<and> us_token_version u \<le> us_token_version u' \<and> us_role u' = us_role u"
    "\<And>i u'. get_user i d = None \<Longrightarrow> get_user i d' = Some u' \<Longrightarrow> us_role u' = ''user''"
  shows "evolves d d'"
  unfolding evolves_def using assms by blast

lemma evolves_session:
  assumes "evolves d d'" "get_session j d = Some r"
  obtains r' where "get_session j d' = Some r'" "rs_revoked_at r \<noteq> None \<longrightarrow> rs_revoked_at r' \<noteq> None"
  using assms unfolding evolves_def by blast

lemma evolves_user:
  assumes "evolves d d'" "get_user i d = Some u"
  obtains u' where "get_user i d' = Some u'" "us_token_version u \<le> us_token_version u'" "us_role u' = us_role u"
  using assms unfolding evolves_def by blast

lemma evolves_new_user:
  "evolves d d' \<Longrightarrow> get_user i d = None \<Longrightarrow> get_user i d' = Some u' \<Longrightarrow> us_role u' = ''user''"
  unfolding evolves_def by blast

lemma evolves_trans:
  assumes 1: "evolves d d'" and 2: "evolves d' d''"
  shows "evolves d d''"
proof (rule evolvesI)
  fix j r assume "get_session j d = Some r"
  then obtain r' where "get_session j d' = Some r'" "rs_revoked_at r \<noteq> None \<longrightarrow> rs_revoked_at r' \<noteq> None"
    by (rule evolves_session [OF 1])
  moreover from this(1) obtain r'' where "get_session j d'' = Some r''" "rs_revoked_at r' \<noteq> None \<longrightarrow> rs_revoked_at r'' \<noteq> None"
    by (rule evolves_session [OF 2])
  ultimately show "\<exists>r'. get_session j d'' = Some r' \<and> (rs_revoked_at r \<noteq> None \<longrightarrow> rs_revoked_at r' \<noteq> None)"
    by blast
next
  fix i u assume "get_user i d = Some u"
  then obtain u' where "get_user i d' = Some u'" "us_token_version u \<le> us_token_version u'" "us_role u' = us_role u"
    by (rule evolves_user [OF 1])
  moreover from this(1) obtain u'' where "get_user i d'' = Some u''" "us_token_version u' \<le> us_token_version u''"
      "us_role u'' = us_role u'"
    by (rule evolves_user [OF 2])
  ultimately show "\<exists>u'. get_user i d'' = Some u' \<and> us_token_version u \<le> us_token_version u' \<and> us_role u' = us_role u"
    by auto
next
  fix i u' assume n: "get_user i d = None" and u': "get_user i d'' = Some u'"
  show "us_role u' = ''user''"
  proof (cases "get_user i d'")
    case None
    from evolves_new_user [OF 2 this u'] show ?thesis .
  next
    case (Some u1)
    with evolves_new_user [OF 1 n] have "us_role u1 = ''user''" by simp
    moreover from Some obtain u2 where "get_user i d'' = Some u2" "us_role u2 = us_role u1"
      by (rule evolves_user [OF 2])
    ultimately show ?thesis using u' by simp
  qed
qed

lemma evolves_revoke: "evolves d (revoke_where env P d)"
proof -
  have "get_session j (revoke_where env P d) =
      map_option (\<lambda>r. if P r \<and> rs_revoked_at r = None then r\<lparr>rs_revoked_at := Some (ae_now env)\<rparr> else r)
        (get_session j d)" for j
    by (simp add: get_session_def revoke_where_def table_find_map)
  then show ?thesis by (simp add: evolves_def get_user_def)
qed

lemma evolves_add_session: "evolves d (add_session r d)"
  by (auto simp: evolves_def get_session_def get_user_def table_find_append)

lemma evolves_add_user: "us_role u = ''user'' \<Longrightarrow> evolves d (add_user u d)"
  by (auto simp: evolves_def get_session_def get_user_def table_find_append split: option.splits if_splits)

lemma get_user_id: "get_user i d = Some u \<Longrightarrow> us_id u = i"
  unfolding get_user_def by (drule table_find_SomeD) simp

lemma get_user_update:
  assumes "\<And>u. us_id (f u) = us_id u"
  shows "get_user j (update_user i f d) = map_option (\<lambda>u. if us_id u = i then f u else u) (get_user j d)"
  using assms by (simp add: get_user_def update_user_def table_find_map)

lemma evolves_update_user:
  assumes "\<And>u. us_id (f u) = us_id u" "\<And>u. us_role (f u) = us_role u"
    "\<And>u. get_user i d = Some u \<Longrightarrow> us_token_version u \<le> us_token_version (f u)"
  shows "evolves d (update_user i f d)"
proof -
  note eq = get_user_update [where f = f, OF assms(1)]
  show ?thesis
  proof (rule evolvesI)
    fix j u assume u: "get_user j d = Some u"
    then have "us_id u = j" by (rule get_user_id)
    with u show "\<exists>u'. get_user j (update_user i f d) = Some u' \<and> us_token_version u \<le> us_token_version u' \<and> us_role u' = us_role u"
      using assms(2) assms(3) [of u] by (auto simp: eq)
  qed (auto simp: eq get_session_def)
qed

lemma evolves_touch_login: "evolves d (touch_login env i d)"
  unfolding touch_login_def by (rule evolves_update_user) auto

lemma evolves_bump:
  "get_user (us_id user) d = Some u \<Longrightarrow> us_token_version u \<le> us_token_version user \<Longrightarrow>
     evolves d (bump_token_version user d)"
  unfolding bump_token_version_def by (rule evolves_update_user) auto

lemma evolves_reset_rows:
  "evolves d (add_reset t d)" "evolves d (delete_resets i d)" "evolves d (mark_used env h d)"
  by (rule evolves_same; simp)+

lemma evolves_audit: "evolves (au_db st) (au_db (snd (audit a ai al tt ti ctx md st)))"
  by (rule evolves_same) simp_all

subsection \<open>A new password\<close>

text \<open>What a change and a reset share: the row gets the new hash and the next token version, and
  the account's sessions are revoked.\<close>

definition new_password :: "auth_env \<Rightarrow> user \<Rightarrow> (user \<Rightarrow> user) \<Rightarrow> auth_db \<Rightarrow> auth_db" where
  "new_password env user f d =
     revoke_where env (\<lambda>r. rs_user_id r = us_id user)
       (bump_token_version user (update_user (us_id user) f d))"

abbreviation password_fields :: "(user \<Rightarrow> user) \<Rightarrow> bool" where
  "password_fields f \<equiv> (\<forall>u. us_id (f u) = us_id u \<and> us_role (f u) = us_role u \<and> us_email (f u) = us_email u
     \<and> us_username (f u) = us_username u \<and> us_is_active (f u) = us_is_active u
     \<and> us_token_version (f u) = us_token_version u)"

lemma get_user_new_password:
  assumes "password_fields f"
  shows "get_user i (new_password env user f d) =
    map_option (\<lambda>u. if i = us_id user then (f u)\<lparr>us_token_version := us_token_version user + 1\<rparr> else u) (get_user i d)"
proof -
  have "get_user i (new_password env user f d) =
      get_user i (bump_token_version user (update_user (us_id user) f d))"
    by (simp add: new_password_def get_user_def)
  also have "\<dots> = map_option (\<lambda>u. if us_id u = us_id user then (f u)\<lparr>us_token_version := us_token_version user + 1\<rparr> else u)
      (get_user i d)"
    using assms by (simp add: bump_token_version_def get_user_update option.map_comp comp_def if_distrib cong: if_cong)
  finally show ?thesis using get_user_id by (cases "get_user i d") fastforce+
qed

lemma get_session_new_password:
  "get_session j (new_password env user f d) =
     map_option (\<lambda>r. if rs_user_id r = us_id user \<and> rs_revoked_at r = None
        then r\<lparr>rs_revoked_at := Some (ae_now env)\<rparr> else r) (get_session j d)"
  by (simp add: get_session_def new_password_def revoke_where_def table_find_map)

lemma evolves_new_password:
  assumes "get_user (us_id user) d = Some user" "password_fields f"
  shows "evolves d (new_password env user f d)"
proof (rule evolvesI)
  fix i u assume "get_user i d = Some u"
  then show "\<exists>u'. get_user i (new_password env user f d) = Some u'
      \<and> us_token_version u \<le> us_token_version u' \<and> us_role u' = us_role u"
    using assms by (auto simp: get_user_new_password [OF assms(2)])
qed (auto simp: get_session_new_password get_user_new_password [OF assms(2)])

lemma abind_alift [auth_simps]:
  "abind (alift r) f st = (case r of Inl e \<Rightarrow> (Inl e, st) | Inr x \<Rightarrow> f x st)"
  by (simp add: auth_simps split: sum.split)

text \<open>The outcome of the two operations: an error without effect, or a new password.\<close>

lemma change_password_cases:
  assumes "change_password env user cur new ctx st = (res, st')"
  shows "(\<exists>e. res = Inl e \<and> st' = st)
    \<or> (res = Inr () \<and> verify_password env cur (us_password_hash user)
       \<and> validate_password new = Inr ()
       \<and> (\<exists>h. hash_password env new = Inr h
           \<and> db_users (au_db st') = db_users (new_password env user
               (\<lambda>u. u\<lparr>us_password_hash := h, us_must_change_password := False\<rparr>) (au_db st))
           \<and> db_sessions (au_db st') = db_sessions (new_password env user
               (\<lambda>u. u\<lparr>us_password_hash := h, us_must_change_password := False\<rparr>) (au_db st))
           \<and> db_resets (au_db st') = db_resets (au_db st)))"
proof -
  have "res = fst (change_password env user cur new ctx st)" "st' = snd (change_password env user cur new ctx st)"
    using assms by simp_all
  then show ?thesis
    by (auto simp: change_password_def auth_simps new_password_def split: sum.split)
qed

definition reset_fields :: "string \<Rightarrow> password_reset_token \<Rightarrow> user \<Rightarrow> user" where
  "reset_fields h r = (\<lambda>u. u\<lparr>us_password_hash := h,
     us_must_change_password := (pt_must_change_on_use r \<or> us_must_change_password u)\<rparr>)"

lemma confirm_password_reset_cases:
  assumes "confirm_password_reset env tok new ctx st = (res, st')"
  shows "(\<exists>e. res = Inl e \<and> st' = st)
    \<or> (res = Inr () \<and> (\<exists>r user h. get_reset (hash_reset_token env tok) (au_db st) = Some r
         \<and> pt_used_at r = None \<and> ae_now env \<le> pt_expires_at r
         \<and> get_user (pt_user_id r) (au_db st) = Some user \<and> us_is_active user
         \<and> validate_password new = Inr () \<and> hash_password env new = Inr h
         \<and> db_users (au_db st') = db_users (new_password env user (reset_fields h r) (au_db st))
         \<and> db_sessions (au_db st') = db_sessions (new_password env user (reset_fields h r) (au_db st))
         \<and> db_resets (au_db st') = db_resets (mark_used env (pt_token_hash r) (au_db st))))"
proof -
  have eq: "res = fst (confirm_password_reset env tok new ctx st)" "st' = snd (confirm_password_reset env tok new ctx st)"
    using assms by simp_all
  have "db_resets (mark_used env h (d :: auth_db)) = map (\<lambda>t. if pt_token_hash t = h then t\<lparr>pt_used_at := Some (ae_now env)\<rparr> else t)
      (db_resets d)" for h d by (simp add: mark_used_def)
  then show ?thesis unfolding eq
    by (auto simp: confirm_password_reset_def auth_simps new_password_def is_past_def reset_fields_def
        split: sum.split option.split)
qed

lemma current_user_cases:
  assumes "current_user env c st = (res, st')"
  shows "st' = st \<and> (case res of
      Inl e \<Rightarrow> (\<exists>m. e = AuthenticationError m)
    | Inr u \<Rightarrow> get_user (us_id u) (au_db st) = Some u \<and> us_is_active u
        \<and> (\<exists>t claims. c = Some t \<and> decode env t ACCESS = Inr claims \<and> tc_subject claims = us_id u
             \<and> tc_token_version claims = us_token_version u))"
proof -
  have "res = fst (current_user env c st)" "st' = snd (current_user env c st)" using assms by simp_all
  moreover have "\<exists>m. e = AuthenticationError m" if "decode env t ty = Inl e" for t ty e
    using that by (auto simp: decode_def split: sum.splits jwt_error.splits if_splits)
  ultimately show ?thesis
    by (auto simp: current_user_def resolve_user_def auth_simps get_user_id split: option.split sum.split)
qed

section \<open>Properties of every write\<close>

text \<open>An operation started in \<open>st\<close> relates the database before and after by \<open>R\<close>.\<close>

definition safe_at :: "(auth_db \<Rightarrow> auth_db \<Rightarrow> bool) \<Rightarrow> auth_state \<Rightarrow> 'a auth_act \<Rightarrow> bool" where
  "safe_at R st act \<longleftrightarrow> R (au_db st) (au_db (snd (act st)))"

text \<open>The contract: a transitive relation that every single write of the service respects, each under
  what the handlers have checked before that write.  \<open>P\<close> restricts the random draws.\<close>

locale auth_order =
  fixes R :: "auth_db \<Rightarrow> auth_db \<Rightarrow> bool" and P :: "auth_env \<Rightarrow> bool"
  assumes same_rows: "db_users d' = db_users d \<Longrightarrow> db_sessions d' = db_sessions d \<Longrightarrow>
      db_resets d' = db_resets d \<Longrightarrow> R d d'"
    and trans: "R d d' \<Longrightarrow> R d' d'' \<Longrightarrow> R d d''"
    and revoking: "R d (revoke_where env Q d)"
    and session_opened: "R d (add_session r d)"
    and registering: "us_role u = ''user'' \<Longrightarrow> get_user (us_id u) d = None \<Longrightarrow>
      get_by_email (us_email u) d = None \<Longrightarrow> get_by_username (us_username u) d = None \<Longrightarrow>
      py_lower (us_email u) = us_email u \<Longrightarrow> py_lower (us_username u) = us_username u \<Longrightarrow> R d (add_user u d)"
    and touching: "password_fields f \<Longrightarrow> R d (update_user i f d)"
    and repassword: "get_user (us_id user) d = Some user \<Longrightarrow> password_fields f \<Longrightarrow> R d (new_password env user f d)"
    and profile: "get_user (us_id user) d = Some user \<Longrightarrow>
      (\<And>e. ce = Some e \<Longrightarrow> py_lower e = e \<and>
         (case get_by_email e d of None \<Rightarrow> True | Some x \<Rightarrow> us_id x = us_id user)) \<Longrightarrow>
      R d (update_user (us_id user) (profile_update ce cn) d)"
    and clearing: "R d (delete_resets i d)"
    and requesting: "P env \<Longrightarrow> pt_token_hash t = hash_reset_token env (ae_reset_token env) \<Longrightarrow> R d (add_reset t d)"
    and using_up: "R d (mark_used env h d)"
begin

lemma safe_read:
  "safe_at R st (alift r)" "safe_at R st (aread g)" "safe_at R st (asend x)" "safe_at R st (aemit n p)"
  "safe_at R st (audit a ai al tt ti ctx md)"
  by (simp_all add: safe_at_def auth_simps aemit_def same_rows)

lemma safe_abind:
  assumes "safe_at R st m" "\<And>x st'. m st = (Inr x, st') \<Longrightarrow> safe_at R st' (f x)"
  shows "safe_at R st (abind m f)"
proof (cases "m st")
  case (Pair r st')
  with assms show ?thesis
    by (cases r) (auto simp: safe_at_def abind_def intro: trans)
qed

lemma safe_write: "R (au_db st) (w (au_db st)) \<Longrightarrow> safe_at R st (awrite w)"
  by (simp add: safe_at_def auth_simps)

lemma safe_revoke: "safe_at R st (revoke env j)" "safe_at R st (revoke_for_user env i)"
  unfolding revoke_def revoke_for_user_def
  by (intro safe_abind safe_read safe_write revoking)+

lemma touch_login: "R d (touch_login env i d)"
  unfolding touch_login_def by (rule touching) simp

lemmas safe_intros = safe_read safe_abind safe_write safe_revoke session_opened touch_login clearing

lemma safe_if: "(b \<Longrightarrow> safe_at R st m) \<Longrightarrow> (\<not> b \<Longrightarrow> safe_at R st n) \<Longrightarrow> safe_at R st (if b then m else n)"
  by simp

lemma safe_option:
  "(x = None \<Longrightarrow> safe_at R st m) \<Longrightarrow> (\<And>y. x = Some y \<Longrightarrow> safe_at R st (f y)) \<Longrightarrow>
     safe_at R st (case x of None \<Rightarrow> m | Some y \<Rightarrow> f y)"
  by (cases x) auto

lemma safe_register:
  assumes "get_user (ae_new_user_id env) (au_db st) = None"
  shows "safe_at R st (register env e n p f USER ctx)"
  unfolding register_def Let_def
  by (intro safe_intros safe_if registering) (use assms in \<open>auto simp: auth_simps role_value_def\<close>)

lemma safe_issue_pair: "safe_at R st (issue_pair env user ctx)"
  unfolding issue_pair_def Let_def by (intro safe_intros)

lemma safe_login_failed: "safe_at R st (login_failed i l r ctx)"
  unfolding login_failed_def by (intro safe_intros)

lemma safe_login: "safe_at R st (login env n p ctx)"
  unfolding login_def Let_def
  by (intro safe_intros safe_if safe_option safe_login_failed safe_issue_pair touching) auto

lemma safe_refresh: "safe_at R st (refresh env (\<lambda>d. d) t ctx)"
  unfolding refresh_def Let_def
  by (intro safe_intros safe_if safe_option safe_issue_pair same_rows) auto

lemma safe_logout: "safe_at R st (logout env t ctx)"
  unfolding logout_def
  by (auto intro!: safe_intros safe_if split: option.split sum.split)

lemma safe_logout_all: "safe_at R st (logout_all env u ctx)"
  unfolding logout_all_def by (intro safe_intros)

lemma safe_update_profile:
  assumes "get_user (us_id u) (au_db st) = Some u"
  shows "safe_at R st (update_profile u e n ctx)"
  unfolding update_profile_def Let_def
  by (intro safe_intros safe_if profile)
    (use assms in \<open>auto simp: auth_simps changed_email_def Let_def split: option.splits if_splits\<close>)

lemma safe_request_reset: "P env \<Longrightarrow> safe_at R st (request_password_reset env e ctx)"
  unfolding request_password_reset_def deliver_reset_def Let_def
  by (intro safe_intros safe_if safe_option requesting [of env]) auto

lemma safe_change_password:
  assumes u: "get_user (us_id user) (au_db st) = Some user"
  shows "safe_at R st (change_password env user cur new ctx)"
proof -
  obtain res st' where run: "change_password env user cur new ctx st = (res, st')" by fastforce
  have "R (au_db st) (au_db st')" if "db_users (au_db st') = db_users (new_password env user f (au_db st))"
    "db_sessions (au_db st') = db_sessions (new_password env user f (au_db st))"
    "db_resets (au_db st') = db_resets (au_db st)" "password_fields f" for f
    using repassword [OF u that(4)] same_rows [OF that(1,2)] that(3) trans
    by (simp add: new_password_def) blast
  then show ?thesis
    using change_password_cases [OF run] run by (auto simp: safe_at_def same_rows)
qed

lemma safe_confirm: "safe_at R st (confirm_password_reset env tok new ctx)"
proof -
  obtain res st' where run: "confirm_password_reset env tok new ctx st = (res, st')" by fastforce
  have "R (au_db st) (au_db st')" if "db_users (au_db st') = db_users (new_password env user f (au_db st))"
    "db_sessions (au_db st') = db_sessions (new_password env user f (au_db st))"
    "db_resets (au_db st') = db_resets (mark_used env h (au_db st))" "password_fields f"
    "get_user i (au_db st) = Some user" for f i user h
  proof -
    have "R (au_db st) (new_password env user f (au_db st))"
      using repassword [OF _ that(4)] that(5) get_user_id by metis
    moreover have "R (mark_used env h (new_password env user f (au_db st))) (au_db st')"
      by (rule same_rows) (simp_all add: that(1-3), simp add: mark_used_def new_password_def)
    ultimately show ?thesis using using_up trans by blast
  qed
  then show ?thesis
    using confirm_password_reset_cases [OF run] run
    by (fastforce simp: safe_at_def same_rows reset_fields_def)
qed

lemma safe_endpoint:
  assumes "P env" "get_user (ae_new_user_id env) (au_db st) = None"
  shows "safe_at R st (endpoint env ctx rq)"
proof -
  have cu: "safe_at R st (current_user env c)" for c
    using current_user_cases by (metis same_rows prod.collapse safe_at_def)
  have tr: "safe_at R s (token_response env x)" for s x
    by (cases x) (simp add: token_response_def safe_read)
  have row: "st' = st \<and> get_user (us_id u) (au_db st) = Some u" if "current_user env c st = (Inr u, st')" for c u st'
    using current_user_cases [OF that] by simp
  show ?thesis
    by (cases rq; simp add: endpoint_def;
        intro safe_abind safe_read tr cu safe_login safe_refresh safe_logout safe_logout_all safe_register
          safe_update_profile safe_request_reset safe_confirm safe_change_password;
        (use assms in \<open>auto dest!: row\<close>)?)
qed

lemma handle_keeps:
  assumes "P env" "get_user (ae_new_user_id env) (au_db (aa_auth app)) = None"
  shows "R (au_db (aa_auth app)) (au_db (aa_auth (snd (handle_request env ctx rq app))))"
proof -
  let ?run = "in_session (endpoint env ctx rq) (aa_auth app)"
  have "R (au_db (aa_auth app)) (au_db (snd ?run))"
    using safe_endpoint [OF assms, of ctx rq]
    by (cases "endpoint env ctx rq (aa_auth app)") (auto simp: in_session_def safe_at_def same_rows split: sum.split)
  then show ?thesis
    by (cases ?run) (auto simp: handle_request_def Let_def same_rows split: prod.split option.split verdict.split)
qed

end

section \<open>Runs of requests\<close>

text \<open>Any number of requests, by anybody, with whatever clocks, draws and libraries \<open>P\<close> admits;
  an account id that is drawn is new.\<close>

inductive auth_reach :: "(auth_env \<Rightarrow> bool) \<Rightarrow> auth_app \<Rightarrow> auth_app \<Rightarrow> bool" for P where
  none: "auth_reach P app app"
| request: "auth_reach P app app' \<Longrightarrow> P env \<Longrightarrow> get_user (ae_new_user_id env) (au_db (aa_auth app')) = None \<Longrightarrow>
    auth_reach P app (snd (handle_request env ctx rq app'))"

context auth_order
begin

lemma reach_keeps:
  "auth_reach P app app' \<Longrightarrow> R (au_db (aa_auth app)) (au_db (aa_auth app'))"
  by (induction rule: auth_reach.induct) (auto intro: same_rows trans handle_keeps)

end

interpretation evolving: auth_order evolves "\<lambda>_. True"
proof unfold_locales
  fix user :: user and d ce cn
  show "evolves d (update_user (us_id user) (profile_update ce cn) d)"
    by (rule evolves_update_user) (auto simp: profile_update_def split: option.split)
next
  fix d env h
  show "evolves d (mark_used env h d)" by (rule evolves_reset_rows)
qed (auto intro: evolves_same evolves_trans evolves_revoke evolves_add_session evolves_add_user
      evolves_update_user evolves_new_password evolves_reset_rows)

text \<open>Reset tokens: a token hash all of whose rows are used up stays so while nobody draws it again.\<close>

definition spent :: "string \<Rightarrow> auth_db \<Rightarrow> bool" where
  "spent h d \<longleftrightarrow> (\<forall>t\<in>set (db_resets d). pt_token_hash t = h \<longrightarrow> pt_used_at t \<noteq> None)"

interpretation spending: auth_order "\<lambda>d d'. spent h d \<longrightarrow> spent h d'"
  "\<lambda>env. hash_reset_token env (ae_reset_token env) \<noteq> h" for h
  by unfold_locales (auto simp: spent_def new_password_def delete_resets_def mark_used_def)

text \<open>Accounts: ids, addresses and names stay unique, addresses and names lower case.\<close>

definition accounts_ok :: "auth_db \<Rightarrow> bool" where
  "accounts_ok d \<longleftrightarrow> unique_keys us_id (db_users d) \<and> unique_keys us_email (db_users d)
     \<and> unique_keys us_username (db_users d)
     \<and> (\<forall>u\<in>set (db_users d). py_lower (us_email u) = us_email u \<and> py_lower (us_username u) = us_username u)"

lemma unique_keys_update:
  assumes ids: "unique_keys us_id t" and keys: "unique_keys key t"
    and new: "\<And>x y. x \<in> set t \<Longrightarrow> y \<in> set t \<Longrightarrow> us_id x = i \<Longrightarrow> us_id y \<noteq> i \<Longrightarrow> key (f x) \<noteq> key y"
  shows "unique_keys key (map (\<lambda>u. if us_id u = i then f u else u) t)"
proof -
  let ?h = "\<lambda>u. if us_id u = i then f u else u"
  have ii: "inj_on us_id (set t)" "distinct t" and ik: "inj_on key (set t)"
    using ids keys by (simp_all add: unique_keys_def distinct_map)
  have "inj_on (\<lambda>u. key (?h u)) (set t)"
  proof (rule inj_onI)
    fix x y assume xy: "x \<in> set t" "y \<in> set t" "key (?h x) = key (?h y)"
    consider "us_id x = i" "us_id y = i" | "us_id x \<noteq> i" "us_id y \<noteq> i"
      using new [OF xy(1,2)] new [OF xy(2,1)] xy(3) by (auto split: if_splits)
    then show "x = y" using xy ii(1) ik by cases (auto dest: inj_onD)
  qed
  with ii(2) show ?thesis by (simp add: unique_keys_def distinct_map comp_def)
qed

lemma accounts_update:
  assumes "accounts_ok d" "\<And>u. us_id (f u) = us_id u" "\<And>u. us_username (f u) = us_username u"
    and email: "\<And>x y. x \<in> set (db_users d) \<Longrightarrow> y \<in> set (db_users d) \<Longrightarrow> us_id x = i \<Longrightarrow> us_id y \<noteq> i \<Longrightarrow>
        us_email (f x) \<noteq> us_email y"
      "\<And>x. x \<in> set (db_users d) \<Longrightarrow> us_id x = i \<Longrightarrow> py_lower (us_email (f x)) = us_email (f x)"
  shows "accounts_ok (update_user i f d)"
proof -
  have keep: "us_username x \<noteq> us_username y" "us_id x \<noteq> us_id y"
    if "x \<in> set (db_users d)" "y \<in> set (db_users d)" "us_id x = i" "us_id y \<noteq> i" for x y
    using assms(1) that by (auto simp: accounts_ok_def unique_keys_def distinct_map dest!: inj_onD)
  show ?thesis
    unfolding accounts_ok_def update_user_def
    using assms keep
    by (auto simp: accounts_ok_def intro!: unique_keys_update)
qed

lemma accounts_password:
  "accounts_ok d \<Longrightarrow> (\<And>u. us_id (f u) = us_id u \<and> us_email (f u) = us_email u \<and> us_username (f u) = us_username u) \<Longrightarrow>
     accounts_ok (update_user i f d)"
  by (rule accounts_update)
    (auto simp: accounts_ok_def unique_keys_def distinct_map dest!: inj_onD)

interpretation accounts: auth_order "\<lambda>d d'. accounts_ok d \<longrightarrow> accounts_ok d'" "\<lambda>_. True"
proof unfold_locales
  fix u :: user and d
  assume new: "us_role u = ''user''" "get_user (us_id u) d = None" "get_by_email (us_email u) d = None"
    "get_by_username (us_username u) d = None" "py_lower (us_email u) = us_email u"
    "py_lower (us_username u) = us_username u"
  then show "accounts_ok d \<longrightarrow> accounts_ok (add_user u d)"
    by (auto simp: accounts_ok_def unique_keys_def get_user_def get_by_email_def get_by_username_def
        table_find_None_iff)
next
  fix f :: "user \<Rightarrow> user" and d i
  assume "password_fields f"
  then show "accounts_ok d \<longrightarrow> accounts_ok (update_user i f d)" using accounts_password by blast
next
  fix user :: user and d f env
  assume "password_fields f"
  then have "accounts_ok d \<Longrightarrow> accounts_ok (update_user (us_id user) f d)" by (intro accounts_password) simp_all
  moreover have "accounts_ok d' \<Longrightarrow> accounts_ok (bump_token_version user d')" for d'
    unfolding bump_token_version_def by (rule accounts_password) simp_all
  moreover have "accounts_ok (revoke_where env Q d') = accounts_ok d'" for Q d' by (simp add: accounts_ok_def)
  ultimately show "accounts_ok d \<longrightarrow> accounts_ok (new_password env user f d)"
    unfolding new_password_def by blast
next
  fix user :: user and d ce cn
  assume row: "get_user (us_id user) d = Some user"
    and free: "\<And>e. ce = Some e \<Longrightarrow> py_lower e = e \<and> (case get_by_email e d of None \<Rightarrow> True | Some x \<Rightarrow> us_id x = us_id user)"
  show "accounts_ok d \<longrightarrow> accounts_ok (update_user (us_id user) (profile_update ce cn) d)"
  proof
    assume ok: "accounts_ok d"
    have e: "us_email (profile_update ce cn x) = (case ce of None \<Rightarrow> us_email x | Some e \<Rightarrow> e)" for x
      by (simp add: profile_update_def split: option.split)
    have "us_email x \<noteq> us_email y" if "x \<in> set (db_users d)" "y \<in> set (db_users d)" "us_id x \<noteq> us_id y" for x y
      using ok that by (auto simp: accounts_ok_def unique_keys_def distinct_map dest!: inj_onD)
    moreover have "us_email y \<noteq> e" if "ce = Some e" "y \<in> set (db_users d)" "us_id y \<noteq> us_id user" for e y
    proof
      assume "us_email y = e"
      then have "get_by_email e d = Some y"
        using ok free [OF that(1)] that(2) by (simp add: get_by_email_def accounts_ok_def table_find_Some_iff)
      with free [OF that(1)] that(3) show False by simp
    qed
    ultimately show "accounts_ok (update_user (us_id user) (profile_update ce cn) d)"
      using ok free
      by (intro accounts_update) (auto simp: e profile_update_def accounts_ok_def split: option.splits)
  qed
next
  fix d d' d'' :: auth_db
  assume "accounts_ok d \<longrightarrow> accounts_ok d'" "accounts_ok d' \<longrightarrow> accounts_ok d''"
  then show "accounts_ok d \<longrightarrow> accounts_ok d''" by blast
qed (simp_all add: accounts_ok_def)

section \<open>Sessions and tokens\<close>

lemma decode_error: "decode env t ty = Inl e \<Longrightarrow> \<exists>m. e = AuthenticationError m"
  by (auto simp: decode_def split: sum.splits jwt_error.splits if_splits)

lemma issue_pair_cases:
  assumes "issue_pair env user ctx st = (res, st')"
  shows "case res of
      Inl e \<Rightarrow> (\<exists>m. e = AuthenticationError m) \<and> st' = st
    | Inr p \<Rightarrow> (\<exists>c. decode env (tp_refresh_token p) REFRESH = Inr c
         \<and> tp_refresh_token p = issue_refresh env (us_id user) (us_token_version user)
         \<and> tp_access_token p = issue_access env (us_id user) (us_token_version user)
         \<and> au_db st' = add_session \<lparr>rs_jti = tc_token_id c, rs_user_id = us_id user,
              rs_expires_at = tc_expires_at c, rs_revoked_at = None,
              rs_user_agent = ctx_field cx_user_agent ctx, rs_ip_address = ctx_field cx_ip_address ctx\<rparr> (au_db st))"
proof -
  have "res = fst (issue_pair env user ctx st)" "st' = snd (issue_pair env user ctx st)" using assms by simp_all
  then show ?thesis by (auto simp: issue_pair_def auth_simps Let_def decode_error split: sum.split)
qed

text \<open>A refresh that succeeds found its session live and its user current, and leaves the session
  revoked; one that fails says so with an authentication error.\<close>

definition live_session :: "auth_env \<Rightarrow> token_claims \<Rightarrow> auth_db \<Rightarrow> bool" where
  "live_session env c d =
     (case get_session (tc_token_id c) d of
        None \<Rightarrow> False
      | Some r \<Rightarrow> rs_revoked_at r = None \<and> ae_now env \<le> rs_expires_at r)"

definition current_claims :: "token_claims \<Rightarrow> auth_db \<Rightarrow> bool" where
  "current_claims c d =
     (case get_user (tc_subject c) d of
        None \<Rightarrow> False
      | Some u \<Rightarrow> us_is_active u \<and> us_token_version u = tc_token_version c)"

lemma refresh_run:
  assumes "decode env t REFRESH = Inr c" "live_session env c (au_db st)" "current_claims c (au_db st)"
    "get_user (tc_subject c) (au_db st) = Some u"
  shows "refresh env others t ctx st =
    abind (issue_pair env u ctx) (\<lambda>pair.
    abind (audit ''auth.refresh'' (Some (us_id u)) (Some (us_username u)) None None ctx []) (\<lambda>_.
    alift (Inr (u, pair)))) (st\<lparr>au_db := revoke_where env (\<lambda>r. rs_jti r = tc_token_id c) (others (au_db st))\<rparr>)"
  using assms
  by (auto simp: refresh_def auth_simps is_past_def live_session_def current_claims_def split: option.splits)

lemma refresh_cases:
  assumes "refresh env others t ctx st = (res, st')"
  shows "case res of
      Inl e \<Rightarrow> (\<exists>m. e = AuthenticationError m)
    | Inr (u, p) \<Rightarrow> (\<exists>c s. decode env t REFRESH = Inr c \<and> live_session env c (au_db st)
         \<and> current_claims c (au_db st) \<and> get_user (tc_subject c) (au_db st) = Some u
         \<and> issue_pair env u ctx (st\<lparr>au_db := revoke_where env (\<lambda>r. rs_jti r = tc_token_id c) (others (au_db st))\<rparr>)
             = (Inr p, s)
         \<and> db_sessions (au_db st') = db_sessions (au_db s) \<and> db_users (au_db st') = db_users (au_db s)
         \<and> db_resets (au_db st') = db_resets (au_db s))"
proof -
  have eq: "res = fst (refresh env others t ctx st)" "st' = snd (refresh env others t ctx st)" using assms by simp_all
  have ip: "\<exists>m. e = AuthenticationError m" if "issue_pair env u ctx s = (Inl e, s')" for u s e s'
    using issue_pair_cases [OF that] by simp
  show ?thesis
  proof (cases "decode env t REFRESH")
    case (Inl e)
    then show ?thesis using decode_error [OF Inl] eq by (simp add: refresh_def auth_simps)
  next
    case (Inr c)
    show ?thesis
    proof (cases "live_session env c (au_db st) \<and> current_claims c (au_db st)")
      case False
      with Inr show ?thesis unfolding eq
        by (auto simp: refresh_def auth_simps live_session_def current_claims_def is_past_def split: option.splits)
    next
      case True
      then obtain u where u: "get_user (tc_subject c) (au_db st) = Some u"
        by (auto simp: current_claims_def split: option.splits)
      obtain p s where p: "issue_pair env u ctx (st\<lparr>au_db :=
          revoke_where env (\<lambda>r. rs_jti r = tc_token_id c) (others (au_db st))\<rparr>) = (p, s)" by fastforce
      with refresh_run [OF Inr _ _ u, of others ctx] True Inr u ip eq show ?thesis
        by (cases p) (auto simp: abind_def audit_def auth_simps)
    qed
  qed
qed

lemma refresh_refused:
  assumes "decode env t REFRESH = Inr c" "\<not> live_session env c (au_db st) \<or> \<not> current_claims c (au_db st)"
  shows "\<exists>m. fst (refresh env others t ctx st) = Inl (AuthenticationError m)"
proof -
  obtain res st' where "refresh env others t ctx st = (res, st')" by fastforce
  from refresh_cases [OF this] assms this show ?thesis by (cases res) auto
qed

lemma reach_any: "auth_reach P app app' \<Longrightarrow> auth_reach (\<lambda>_. True) app app'"
  by (induction rule: auth_reach.induct) (auto intro: auth_reach.intros)

lemma revoked_refused:
  assumes "auth_reach P app app'" "get_session (tc_token_id c) (au_db (aa_auth app)) = Some r" "rs_revoked_at r \<noteq> None"
    and "decode env2 t2 REFRESH = Inr c2" "tc_token_id c2 = tc_token_id c"
  shows "\<exists>m. fst (refresh env2 others t2 ctx2 (aa_auth app')) = Inl (AuthenticationError m)"
proof -
  from evolving.reach_keeps [OF reach_any [OF assms(1)]] assms(2) obtain r' where
    "get_session (tc_token_id c) (au_db (aa_auth app')) = Some r'" "rs_revoked_at r \<noteq> None \<longrightarrow> rs_revoked_at r' \<noteq> None"
    by (rule evolves_session)
  with assms(3,5) have "\<not> live_session env2 c2 (au_db (aa_auth app'))" by (simp add: live_session_def)
  with assms(4) show ?thesis by (blast intro: refresh_refused)
qed

text \<open>C8. A refresh token works once.  It is accepted only while its session is neither revoked nor
  expired and its user is active with the token's version; and once it has been exchanged, or its
  session has been logged out, no token of that session is ever accepted again, whatever requests
  anybody sends in between.\<close>

theorem refresh_token_single_use:
  assumes "decode env t REFRESH = Inr c"
    "is_ok (fst (refresh env (\<lambda>d. d) t ctx st)) \<and> aa_auth app = snd (refresh env (\<lambda>d. d) t ctx st)
     \<or> t \<noteq> [] \<and> get_session (tc_token_id c) (au_db st) \<noteq> None \<and> aa_auth app = snd (logout env (Some t) ctx st)"
    "auth_reach P app app'" "decode env2 t2 REFRESH = Inr c2" "tc_token_id c2 = tc_token_id c"
  shows "(is_ok (fst (refresh env (\<lambda>d. d) t ctx st)) \<longrightarrow>
            live_session env c (au_db st) \<and> current_claims c (au_db st))
    \<and> (\<exists>m. fst (refresh env2 others t2 ctx2 (aa_auth app')) = Inl (AuthenticationError m))"
proof -
  have rev: "\<exists>r'. get_session j (revoke_where env (\<lambda>r. rs_jti r = j) d) = Some r' \<and> rs_revoked_at r' \<noteq> None"
    if "get_session j d = Some r" for j d r
  proof -
    have "rs_jti r = j" using that table_find_SomeD unfolding get_session_def by fastforce
    with that show ?thesis by (auto simp: get_session_def revoke_where_def table_find_map)
  qed
  have live: "live_session env c (au_db st) \<and> current_claims c (au_db st)"
    if ok: "is_ok (fst (refresh env (\<lambda>d. d) t ctx st))"
  proof -
    obtain u p st' where "refresh env (\<lambda>d. d) t ctx st = (Inr (u, p), st')"
      using ok by (cases "refresh env (\<lambda>d. d) t ctx st") (auto simp: is_ok_iff)
    from refresh_cases [OF this] assms(1) show ?thesis by auto
  qed
  obtain r where r: "get_session (tc_token_id c) (au_db (aa_auth app)) = Some r" "rs_revoked_at r \<noteq> None"
    using assms(2)
  proof (elim disjE conjE)
    assume ok: "is_ok (fst (refresh env (\<lambda>d. d) t ctx st))" and app: "aa_auth app = snd (refresh env (\<lambda>d. d) t ctx st)"
    then obtain u p where run: "refresh env (\<lambda>d. d) t ctx st = (Inr (u, p), aa_auth app)"
      by (cases "refresh env (\<lambda>d. d) t ctx st") (auto simp: is_ok_iff)
    from refresh_cases [OF run] assms(1) obtain s where
      s: "issue_pair env u ctx (st\<lparr>au_db := revoke_where env (\<lambda>r. rs_jti r = tc_token_id c) (au_db st)\<rparr>) = (Inr p, s)"
      "db_sessions (au_db (aa_auth app)) = db_sessions (au_db s)" by auto
    obtain r0 where "get_session (tc_token_id c) (au_db st) = Some r0"
      using live [OF ok] by (auto simp: live_session_def split: option.splits)
    from rev [OF this] issue_pair_cases [OF s(1)] s(2) show ?thesis
      using that by (auto simp: get_session_def table_find_append)
  next
    assume "t \<noteq> []" "get_session (tc_token_id c) (au_db st) \<noteq> None"
      and app: "aa_auth app = snd (logout env (Some t) ctx st)"
    then obtain r' where "get_session (tc_token_id c) (revoke_where env (\<lambda>r. rs_jti r = tc_token_id c) (au_db st)) = Some r'"
      "rs_revoked_at r' \<noteq> None" using rev by blast
    with that \<open>t \<noteq> []\<close> assms(1) app show ?thesis
      by (auto simp: logout_def auth_simps get_session_def split: if_splits)
  qed
  from revoked_refused [OF assms(3) r assms(4,5)] live show ?thesis by blast
qed

lemma decode_unique: "decode env t ty = Inr c \<Longrightarrow> decode env t ty' = Inr c' \<Longrightarrow> c' = c"
  by (auto simp: decode_def split: sum.splits jwt_error.splits if_splits)

lemma stale_version_refused:
  assumes "auth_reach P app app'" "get_user i (au_db (aa_auth app)) = Some u"
    and c2: "decode env2 t2 ty = Inr c2" "tc_subject c2 = i" "tc_token_version c2 < us_token_version u"
  shows "(\<exists>m. fst (current_user env2 (Some t2) (aa_auth app')) = Inl (AuthenticationError m))
    \<and> (\<exists>m. fst (refresh env2 others t2 ctx2 (aa_auth app')) = Inl (AuthenticationError m))"
proof
  from evolving.reach_keeps [OF reach_any [OF assms(1)]] assms(2) obtain u' where
    u': "get_user i (au_db (aa_auth app')) = Some u'" "us_token_version u \<le> us_token_version u'"
    by (rule evolves_user)
  obtain r s where cu: "current_user env2 (Some t2) (aa_auth app') = (r, s)" by fastforce
  then show "\<exists>m. fst (current_user env2 (Some t2) (aa_auth app')) = Inl (AuthenticationError m)"
  proof (cases r)
    case (Inl e)
    with current_user_cases [OF cu] cu show ?thesis by simp
  next
    case (Inr w)
    with current_user_cases [OF cu] obtain c where c: "decode env2 t2 ACCESS = Inr c"
      "tc_subject c = us_id w" "tc_token_version c = us_token_version w"
      "get_user (us_id w) (au_db (aa_auth app')) = Some w" by auto
    from decode_unique [OF c2(1) c(1)] c(2-4) c2 u' show ?thesis by simp
  qed
  show "\<exists>m. fst (refresh env2 others t2 ctx2 (aa_auth app')) = Inl (AuthenticationError m)"
  proof (cases "decode env2 t2 REFRESH")
    case (Inl e)
    then show ?thesis using decode_error [OF Inl] by (simp add: refresh_def auth_simps)
  next
    case (Inr c)
    with decode_unique [OF c2(1)] c2 u' have "\<not> current_claims c (au_db (aa_auth app'))"
      by (simp add: current_claims_def)
    with Inr show ?thesis by (blast intro: refresh_refused)
  qed
qed

text \<open>C9. A new password ends every session.  When a password change or a reset succeeds, every
  session of the account is revoked, and from then on no access token and no refresh token issued
  for the account before is accepted, whatever requests follow.\<close>

theorem new_password_ends_sessions:
  assumes user: "get_user i (au_db st) = Some user"
    and act: "act = change_password env user cur new ctx
      \<or> act = confirm_password_reset env tok new ctx
        \<and> (\<exists>r. get_reset (hash_reset_token env tok) (au_db st) = Some r \<and> pt_user_id r = i)"
    and ok: "is_ok (fst (act st))" and app: "aa_auth app = snd (act st)" and reach: "auth_reach P app app'"
    and t2: "decode env2 t2 ty = Inr c2" "tc_subject c2 = i" "tc_token_version c2 \<le> us_token_version user"
  shows "(\<forall>j r. get_session j (au_db (aa_auth app)) = Some r \<and> rs_user_id r = i \<longrightarrow> rs_revoked_at r \<noteq> None)
    \<and> (\<exists>m. fst (current_user env2 (Some t2) (aa_auth app')) = Inl (AuthenticationError m))
    \<and> (\<exists>m. fst (refresh env2 others t2 ctx2 (aa_auth app')) = Inl (AuthenticationError m))"
proof -
  obtain x st' where run: "act st = (Inr x, st')" using ok by (cases "act st") (auto simp: is_ok_iff)
  have "\<exists>f. password_fields f \<and> db_users (au_db st') = db_users (new_password env user f (au_db st))
      \<and> db_sessions (au_db st') = db_sessions (new_password env user f (au_db st))"
  proof (rule disjE [OF act])
    assume "act = change_password env user cur new ctx"
    with change_password_cases [of env user cur new ctx st "Inr x" st'] run obtain h where
      "db_users (au_db st') = db_users (new_password env user
         (\<lambda>u. u\<lparr>us_password_hash := h, us_must_change_password := False\<rparr>) (au_db st))"
      "db_sessions (au_db st') = db_sessions (new_password env user
         (\<lambda>u. u\<lparr>us_password_hash := h, us_must_change_password := False\<rparr>) (au_db st))" by auto
    then show ?thesis
      by (intro exI [of _ "\<lambda>u. u\<lparr>us_password_hash := h, us_must_change_password := False\<rparr>"]) simp
  next
    assume "act = confirm_password_reset env tok new ctx
        \<and> (\<exists>r. get_reset (hash_reset_token env tok) (au_db st) = Some r \<and> pt_user_id r = i)"
    with confirm_password_reset_cases [of env tok new ctx st "Inr x" st'] run user
    obtain r h where "db_users (au_db st') = db_users (new_password env user (reset_fields h r) (au_db st))"
      "db_sessions (au_db st') = db_sessions (new_password env user (reset_fields h r) (au_db st))" by auto
    then show ?thesis by (intro exI [of _ "reset_fields h r"]) (simp add: reset_fields_def)
  qed
  then obtain f where f: "password_fields f"
    and users: "db_users (au_db st') = db_users (new_password env user f (au_db st))"
    and sess: "db_sessions (au_db st') = db_sessions (new_password env user f (au_db st))" by blast
  have gu: "get_user i (au_db (aa_auth app)) = Some ((f user)\<lparr>us_token_version := us_token_version user + 1\<rparr>)"
    using users app run user get_user_id [OF user] get_user_new_password [OF f, of i env user "au_db st"]
    by (simp add: get_user_def)
  have "rs_revoked_at r \<noteq> None" if "get_session j (au_db (aa_auth app)) = Some r" "rs_user_id r = i" for j r
  proof -
    have "Some r = get_session j (new_password env user f (au_db st))"
      using that(1) sess app run by (simp add: get_session_def)
    then show ?thesis
      using that(2) get_user_id [OF user]
      by (cases "get_session j (au_db st)") (auto simp: get_session_new_password split: if_splits)
  qed
  moreover have "tc_token_version c2 < us_token_version ((f user)\<lparr>us_token_version := us_token_version user + 1\<rparr>)"
    using t2(3) by simp
  note stale_version_refused [OF reach gu t2(1,2) this]
  ultimately show ?thesis by blast
qed

section \<open>Resets, accounts and roles\<close>

text \<open>A reset token works once: it is accepted only unused, before its expiry and for an active
  account, and sets exactly the password that was sent; after that, as long as nobody draws the same
  token again, it is refused in every later state.\<close>

theorem reset_token_single_use:
  assumes ok: "is_ok (fst (confirm_password_reset env tok new ctx st))"
    and app: "aa_auth app = snd (confirm_password_reset env tok new ctx st)"
    and reach: "auth_reach (\<lambda>e. hash_reset_token e (ae_reset_token e) \<noteq> hash_reset_token env tok) app app'"
    and same: "hash_reset_token env2 tok2 = hash_reset_token env tok"
  shows "(\<exists>r u. get_reset (hash_reset_token env tok) (au_db st) = Some r \<and> pt_used_at r = None
         \<and> ae_now env \<le> pt_expires_at r \<and> get_user (pt_user_id r) (au_db (aa_auth app)) = Some u
         \<and> us_is_active u \<and> hash_password env new = Inr (us_password_hash u)
         \<and> (pt_must_change_on_use r \<longrightarrow> us_must_change_password u))
    \<and> \<not> is_ok (fst (confirm_password_reset env2 tok2 new2 ctx2 (aa_auth app')))"
proof -
  obtain x where run: "confirm_password_reset env tok new ctx st = (Inr x, aa_auth app)"
    using ok app by (cases "confirm_password_reset env tok new ctx st") (auto simp: is_ok_iff)
  from confirm_password_reset_cases [OF run] obtain r user h where
    r: "get_reset (hash_reset_token env tok) (au_db st) = Some r" "pt_used_at r = None" "ae_now env \<le> pt_expires_at r"
    and user: "get_user (pt_user_id r) (au_db st) = Some user" "us_is_active user"
    and h: "hash_password env new = Inr h"
    and users: "db_users (au_db (aa_auth app)) = db_users (new_password env user (reset_fields h r) (au_db st))"
    and resets: "db_resets (au_db (aa_auth app)) = db_resets (mark_used env (pt_token_hash r) (au_db st))"
    by auto
  have pf: "password_fields (reset_fields h r)" by (simp add: reset_fields_def)
  have "get_user (pt_user_id r) (au_db (aa_auth app)) =
      Some ((reset_fields h r user)\<lparr>us_token_version := us_token_version user + 1\<rparr>)"
    using user get_user_id [OF user(1)] users get_user_new_password [OF pf, of "pt_user_id r" env user "au_db st"]
    by (simp add: get_user_def)
  moreover have "pt_token_hash r = hash_reset_token env tok"
    using r(1) table_find_SomeD unfolding get_reset_def by fastforce
  then have "spent (hash_reset_token env tok) (au_db (aa_auth app))"
    using resets by (auto simp: spent_def mark_used_def)
  then have sp: "spent (hash_reset_token env tok) (au_db (aa_auth app'))"
    using spending.reach_keeps [OF reach] by simp
  have "\<not> is_ok (fst (confirm_password_reset env2 tok2 new2 ctx2 (aa_auth app')))"
  proof
    assume "is_ok (fst (confirm_password_reset env2 tok2 new2 ctx2 (aa_auth app')))"
    then obtain y s where "confirm_password_reset env2 tok2 new2 ctx2 (aa_auth app') = (Inr y, s)"
      by (cases "confirm_password_reset env2 tok2 new2 ctx2 (aa_auth app')") (auto simp: is_ok_iff)
    from confirm_password_reset_cases [OF this] obtain r' where
      r': "get_reset (hash_reset_token env2 tok2) (au_db (aa_auth app')) = Some r'" "pt_used_at r' = None" by auto
    from table_find_SomeD [OF r'(1) [unfolded get_reset_def]] r'(2) sp same show False by (auto simp: spent_def)
  qed
  ultimately show ?thesis using r h user(2) by (auto simp: reset_fields_def)
qed

text \<open>C10. Requests never confuse accounts and never raise a role.  Ids, addresses and names of the
  accounts stay unique, and whoever passes a permission check beyond the read-only baseline was an
  administrator before the first request.\<close>

theorem requests_never_escalate:
  assumes "auth_reach P app app'" "accounts_ok (au_db (aa_auth app))"
    "require_permission env perm c (aa_auth app') = (Inr u, s)" "perm \<notin> set (ROLE_DEFAULTS USER)"
  shows "accounts_ok (au_db (aa_auth app'))
    \<and> (\<exists>u0. get_user (us_id u) (au_db (aa_auth app)) = Some u0 \<and> us_role u0 = ''admin'')"
proof -
  obtain w s' where cu: "current_user env c (aa_auth app') = (Inr w, s')" and w: "w = u" "us_role u = ''admin''"
    using assms(3,4)
    by (cases "current_user env c (aa_auth app')")
      (auto simp: require_permission_def abind_def role_enum_def role_has_def alift_def split: sum.splits if_splits)
  have g: "get_user (us_id u) (au_db (aa_auth app')) = Some u"
    using current_user_cases [OF cu] w by simp
  note ev = evolving.reach_keeps [OF reach_any [OF assms(1)]]
  have "\<exists>u0. get_user (us_id u) (au_db (aa_auth app)) = Some u0 \<and> us_role u0 = ''admin''"
  proof (cases "get_user (us_id u) (au_db (aa_auth app))")
    case None
    from evolves_new_user [OF ev None g] w show ?thesis by simp
  next
    case (Some u0)
    with ev obtain u' where "get_user (us_id u) (au_db (aa_auth app')) = Some u'" "us_role u' = us_role u0"
      by (rule evolves_user)
    with g w Some show ?thesis by simp
  qed
  then show ?thesis using accounts.reach_keeps [OF reach_any [OF assms(1)]] assms(2) by simp
qed

text \<open>A sign-in that fails gives the same error whatever was wrong, and leaves no trace: the
  service does write an audit row, but the request's transaction takes it back.\<close>

theorem failed_login_unrecorded:
  assumes "\<nexists>u. find_by_login name (au_db (aa_auth app)) = Some u \<and> us_is_active u
             \<and> verify_password env pw (us_password_hash u)"
  shows "fst (login env name pw ctx (aa_auth app)) = Inl (AuthenticationError ''Invalid credentials'')
    \<and> length (db_audit (au_db (snd (login env name pw ctx (aa_auth app))))) =
        Suc (length (db_audit (au_db (aa_auth app))))
    \<and> au_db (aa_auth (snd (handle_request env ctx (Login name pw) app))) = au_db (aa_auth app)"
proof -
  have 1: "fst (login env name pw ctx (aa_auth app)) = Inl (AuthenticationError ''Invalid credentials'')
      \<and> length (db_audit (au_db (snd (login env name pw ctx (aa_auth app))))) =
          Suc (length (db_audit (au_db (aa_auth app))))"
    using assms by (auto simp: login_def login_failed_def auth_simps audit_def split: option.split)
  then obtain s where "login env name pw ctx (aa_auth app) = (Inl (AuthenticationError ''Invalid credentials''), s)"
    by (metis prod.collapse)
  then show ?thesis
    using 1 by (auto simp: handle_request_def endpoint_def in_session_def abind_def Let_def
        split: option.split prod.split verdict.split)
qed

text \<open>Rotation is not atomic: two exchanges of one refresh token whose reads both precede the
  first revocation both succeed, because the outcome of the revocation is not looked at.\<close>

theorem concurrent_refresh_both_succeed:
  assumes "is_ok (fst (refresh env (\<lambda>d. d) t ctx st))"
  shows "is_ok (fst (refresh env (\<lambda>d. au_db (snd (refresh env2 (\<lambda>d. d) t ctx2 (st\<lparr>au_db := d\<rparr>)))) t ctx st))"
proof -
  obtain u p st' where run: "refresh env (\<lambda>d. d) t ctx st = (Inr (u, p), st')"
    using assms by (cases "refresh env (\<lambda>d. d) t ctx st") (auto simp: is_ok_iff)
  from refresh_cases [OF run] obtain c s where
    c: "decode env t REFRESH = Inr c" "live_session env c (au_db st)" "current_claims c (au_db st)"
      "get_user (tc_subject c) (au_db st) = Some u"
    and p: "issue_pair env u ctx (st\<lparr>au_db := revoke_where env (\<lambda>r. rs_jti r = tc_token_id c) (au_db st)\<rparr>) = (Inr p, s)"
    by auto
  have "fst (issue_pair env u ctx s) = fst (issue_pair env u ctx s')" for s s'
    by (simp add: issue_pair_def auth_simps Let_def split: sum.split)
  with p have "fst (issue_pair env u ctx s') = Inr p" for s' by (metis fst_conv)
  then show ?thesis
    unfolding refresh_run [OF c] abind_def
    by (auto simp: audit_def auth_simps split: prod.split sum.split) (metis fst_conv sum.distinct(1))
qed

section \<open>Signing in\<close>

text \<open>PyJWT: a token encoded under the configured key decodes to its payload, unless it has expired or
  is not valid yet.\<close>

definition jwt_ok :: "auth_env \<Rightarrow> bool" where
  "jwt_ok env \<longleftrightarrow> (\<forall>p t. ae_jwt_decode env t (ae_jwt_encode env p) =
     (if micros (jp_exp p) \<le> t then Inl ExpiredSignature
      else if t < micros (jp_nbf p) \<or> t < micros (jp_iat p) then Inl InvalidToken else Inr p))"

lemma decode_issue:
  assumes "jwt_ok env" "ae_jwt_decode env2 = ae_jwt_decode env" "ae_now env \<le> ae_now env2"
    "ae_now env2 < micros (seconds (ae_now env) + k)"
  shows "decode env2 (issue env jti i ty (micros k) v) ty' =
    (if ty \<noteq> ty' then Inl (AuthenticationError (''Wrong token type (expected '' @ ty' @ '')''))
     else Inr \<lparr>tc_subject = i, tc_token_type = ty, tc_token_id = jti, tc_token_version = v,
       tc_issued_at = micros (seconds (ae_now env)), tc_expires_at = micros (seconds (ae_now env) + k)\<rparr>)"
proof -
  have "seconds (ae_now env + micros k) = seconds (ae_now env) + k" by (simp add: seconds_def micros_def)
  moreover have "micros (seconds (ae_now env)) \<le> ae_now env2"
    using assms(3) by (simp add: seconds_def micros_def)
  ultimately show ?thesis
    using assms(1,2,4) by (simp add: decode_def issue_def jwt_ok_def)
qed

lemma now_before: "1 \<le> k \<Longrightarrow> t < micros (seconds t + k)"
proof -
  assume "1 \<le> k"
  have "t = t div 1000000 * 1000000 + t mod 1000000" by simp
  moreover have "t mod 1000000 < 1000000" by simp
  ultimately show ?thesis using \<open>1 \<le> k\<close> unfolding micros_def seconds_def distrib_right by linarith
qed

lemma issue_pair_ok:
  assumes "jwt_ok env" "1 \<le> ae_refresh_ttl_days env"
  shows "issue_pair env u ctx st =
    (Inr \<lparr>tp_access_token = issue_access env (us_id u) (us_token_version u),
          tp_refresh_token = issue_refresh env (us_id u) (us_token_version u)\<rparr>,
     st\<lparr>au_db := add_session \<lparr>rs_jti = ae_refresh_jti env, rs_user_id = us_id u,
        rs_expires_at = micros (seconds (ae_now env) + 86400 * ae_refresh_ttl_days env), rs_revoked_at = None,
        rs_user_agent = ctx_field cx_user_agent ctx, rs_ip_address = ctx_field cx_ip_address ctx\<rparr> (au_db st)\<rparr>)"
  using decode_issue [OF assms(1) refl order_refl now_before, of "86400 * ae_refresh_ttl_days env"] assms(2)
  by (simp add: issue_pair_def issue_refresh_def auth_simps Let_def)

lemma abind_issue_pair:
  assumes "jwt_ok env" "1 \<le> ae_refresh_ttl_days env"
  shows "abind (issue_pair env u ctx) f st =
    f \<lparr>tp_access_token = issue_access env (us_id u) (us_token_version u),
       tp_refresh_token = issue_refresh env (us_id u) (us_token_version u)\<rparr> (snd (issue_pair env u ctx st))"
  using issue_pair_ok [OF assms, of u ctx st] by (simp add: abind_def)

lemma find_by_login_get_user:
  assumes "accounts_ok d" "find_by_login name d = Some u"
  shows "get_user (us_id u) d = Some u"
proof -
  have "u \<in> set (db_users d)"
    using assms(2) table_find_SomeD
    by (fastforce simp: find_by_login_def Let_def get_by_email_def get_by_username_def split: if_splits)
  then show ?thesis using assms(1) by (simp add: get_user_def accounts_ok_def table_find_Some_iff)
qed

text \<open>The user row a sign-in leaves behind.\<close>

definition signed_in :: "auth_env \<Rightarrow> string \<Rightarrow> user \<Rightarrow> user" where
  "signed_in env pw u =
     (if needs_rehash env (us_password_hash u) then u\<lparr>us_password_hash := ae_argon_hash env pw\<rparr> else u)
       \<lparr>us_last_login_at := Some (ae_now env)\<rparr>"

lemma login_run:
  assumes "jwt_ok env" "1 \<le> ae_refresh_ttl_days env" "find_by_login name (au_db st) = Some u"
    "us_is_active u" "verify_password env pw (us_password_hash u)" "pw \<noteq> []"
    "get_user (us_id u) (au_db st) = Some u" "get_session (ae_refresh_jti env) (au_db st) = None"
  shows "\<exists>st'. login env name pw ctx st =
      (Inr (signed_in env pw u, \<lparr>tp_access_token = issue_access env (us_id u) (us_token_version u),
          tp_refresh_token = issue_refresh env (us_id u) (us_token_version u)\<rparr>), st')
    \<and> get_user (us_id u) (au_db st') = Some (signed_in env pw u)
    \<and> (\<exists>r. get_session (ae_refresh_jti env) (au_db st') = Some r \<and> rs_revoked_at r = None
         \<and> rs_expires_at r = micros (seconds (ae_now env) + 86400 * ae_refresh_ttl_days env))"
proof -
  have upd: "get_user (us_id u) (update_user (us_id u) f d) = map_option f (get_user (us_id u) d)"
    if "\<And>u. us_id (f u) = us_id u" for f d
    using that get_user_id by (cases "get_user (us_id u) d") (auto simp: get_user_update)
  have rows: "get_user i (add_session r d) = get_user i d" "get_session j (touch_login env k d) = get_session j d"
    "get_session j (update_user k f d) = get_session j d"
    "get_user i (au_db (snd (audit a ai al tt ti ctx md s))) = get_user i (au_db s)"
    "get_session j (au_db (snd (audit a ai al tt ti ctx md s))) = get_session j (au_db s)"
    for i j k r d f a ai al tt ti ctx md s
    by (simp_all add: get_user_def get_session_def)
  have new: "get_session j (add_session r d) = (case get_session j d of None \<Rightarrow> if rs_jti r = j then Some r else None | x \<Rightarrow> x)"
    for j r d by (simp add: get_session_def table_find_append split: option.split)
  show ?thesis
    using assms
    by (simp add: login_def auth_simps Let_def abind_issue_pair issue_pair_ok signed_in_def hash_password_def
        rows new upd touch_login_def)
qed

text \<open>Signing in with the right password works and the tokens are what they claim to be.  Until
  they expire, the access token identifies the account and the refresh token can be exchanged; each
  is refused where the other kind is expected.\<close>

theorem login_tokens_work:
  assumes jwt: "jwt_ok env" "1 \<le> ae_access_ttl_minutes env" "1 \<le> ae_refresh_ttl_days env"
    and row: "accounts_ok (au_db st)" "find_by_login name (au_db st) = Some u" "us_is_active u"
    and pw: "verify_password env pw (us_password_hash u)" "pw \<noteq> []"
    and fresh: "get_session (ae_refresh_jti env) (au_db st) = None"
    and later: "ae_jwt_encode env2 = ae_jwt_encode env" "ae_jwt_decode env2 = ae_jwt_decode env"
      "ae_now env \<le> ae_now env2" "1 \<le> ae_refresh_ttl_days env2"
  shows "\<exists>u' p st'. login env name pw ctx st = (Inr (u', p), st') \<and> us_id u' = us_id u
    \<and> (ae_now env2 < micros (seconds (ae_now env) + 60 * ae_access_ttl_minutes env) \<longrightarrow>
         current_user env2 (Some (tp_access_token p)) st' = (Inr u', st')
         \<and> (\<exists>m. fst (refresh env2 others (tp_access_token p) ctx2 st') = Inl (AuthenticationError m)))
    \<and> (ae_now env2 < micros (seconds (ae_now env) + 86400 * ae_refresh_ttl_days env) \<longrightarrow>
         is_ok (fst (refresh env2 others (tp_refresh_token p) ctx2 st'))
         \<and> (\<exists>m. fst (current_user env2 (Some (tp_refresh_token p)) st') = Inl (AuthenticationError m)))"
proof -
  obtain st' r where run: "login env name pw ctx st =
      (Inr (signed_in env pw u, \<lparr>tp_access_token = issue_access env (us_id u) (us_token_version u),
          tp_refresh_token = issue_refresh env (us_id u) (us_token_version u)\<rparr>), st')"
    and gu: "get_user (us_id u) (au_db st') = Some (signed_in env pw u)"
    and gs: "get_session (ae_refresh_jti env) (au_db st') = Some r" "rs_revoked_at r = None"
      "rs_expires_at r = micros (seconds (ae_now env) + 86400 * ae_refresh_ttl_days env)"
    using login_run [OF jwt(1,3) row(2,3) pw find_by_login_get_user [OF row(1,2)] fresh, of ctx] by blast
  have si: "us_id (signed_in env pw u) = us_id u" "us_is_active (signed_in env pw u)"
    "us_token_version (signed_in env pw u) = us_token_version u"
    using row(3) by (simp_all add: signed_in_def)
  note dec = decode_issue [OF jwt(1) later(2,3)]
  have jwt2: "jwt_ok env2" using jwt(1) later(1,2) by (simp add: jwt_ok_def)
  have acc: "current_user env2 (Some (issue_access env (us_id u) (us_token_version u))) st' = (Inr (signed_in env pw u), st')
      \<and> (\<exists>m. fst (refresh env2 others (issue_access env (us_id u) (us_token_version u)) ctx2 st') = Inl (AuthenticationError m))"
    if "ae_now env2 < micros (seconds (ae_now env) + 60 * ae_access_ttl_minutes env)"
    using dec [OF that] gu si
    by (simp add: current_user_def resolve_user_def refresh_def issue_access_def auth_simps ACCESS_def REFRESH_def)
  have ref: "is_ok (fst (refresh env2 others (issue_refresh env (us_id u) (us_token_version u)) ctx2 st'))
      \<and> (\<exists>m. fst (current_user env2 (Some (issue_refresh env (us_id u) (us_token_version u))) st') = Inl (AuthenticationError m))"
    if t: "ae_now env2 < micros (seconds (ae_now env) + 86400 * ae_refresh_ttl_days env)"
  proof
    let ?t = "issue_refresh env (us_id u) (us_token_version u)"
    define c where "c = \<lparr>tc_subject = us_id u, tc_token_type = REFRESH, tc_token_id = ae_refresh_jti env,
       tc_token_version = us_token_version u, tc_issued_at = micros (seconds (ae_now env)),
       tc_expires_at = micros (seconds (ae_now env) + 86400 * ae_refresh_ttl_days env)\<rparr>"
    have c: "decode env2 ?t REFRESH = Inr c" "live_session env2 c (au_db st')" "current_claims c (au_db st')"
      "get_user (tc_subject c) (au_db st') = Some (signed_in env pw u)"
      using dec [OF t] gu gs si t
      by (simp_all add: c_def issue_refresh_def live_session_def current_claims_def)
    show "is_ok (fst (refresh env2 others ?t ctx2 st'))"
      using refresh_run [OF c, of others ctx2] jwt2 later(4) by (simp add: abind_issue_pair auth_simps)
    show "\<exists>m. fst (current_user env2 (Some ?t) st') = Inl (AuthenticationError m)"
      using dec [OF t] by (simp add: current_user_def issue_refresh_def auth_simps ACCESS_def REFRESH_def)
  qed
  show ?thesis using run si acc ref by auto
qed

section \<open>Witnesses\<close>

definition sample_payload :: "string \<Rightarrow> string \<Rightarrow> jwt_payload" where
  "sample_payload typ jti =
     \<lparr>jp_sub = ''u1'', jp_typ = typ, jp_jti = jti, jp_ver = Some 0, jp_iat = 0, jp_nbf = 0, jp_exp = 1000\<rparr>"

definition sample_auth_env :: auth_env where
  "sample_auth_env =
     \<lparr>ae_now = 0, ae_jwt_encode = (\<lambda>p. if jp_typ p = ''refresh'' then ''r2'' else ''a2''),
      ae_jwt_decode = (\<lambda>t s. if s = ''r1'' then Inr (sample_payload ''refresh'' ''j1'')
        else if s = ''r2'' then Inr (sample_payload ''refresh'' ''j2'')
        else if s = ''a1'' then Inr (sample_payload ''access'' ''k1'') else Inl InvalidToken),
      ae_argon_hash = (\<lambda>p. CHR ''h'' # p),
      ae_argon_verify = (\<lambda>h p. if h = CHR ''h'' # p then Verified else VerifyMismatch),
      ae_argon_outdated = (\<lambda>_. Some False), ae_sha256 = (\<lambda>s. s), ae_access_ttl_minutes = 30,
      ae_refresh_ttl_days = 14, ae_email_enabled = False, ae_email_sends = False, ae_new_user_id = ''u9'',
      ae_access_jti = ''k2'', ae_refresh_jti = ''j2'', ae_reset_token = ''fresh'',
      ae_limits = \<lparr>auth_rate_limit_attempts = 0, auth_rate_limit_window_seconds = 60\<rparr>,
      ae_monotonic = 0, ae_client_host = None\<rparr>"

definition sample_user :: user where
  "sample_user =
     \<lparr>us_id = ''u1'', us_email = ''a@b'', us_username = ''root'', us_full_name = None,
      us_password_hash = ''hold password'', us_role = ''admin'', us_is_active = True, us_is_verified = True,
      us_must_change_password = False, us_token_version = 0, us_last_login_at = None\<rparr>"

definition sample_auth_state :: auth_state where
  "sample_auth_state =
     \<lparr>au_db = \<lparr>db_users = [sample_user],
        db_sessions = [\<lparr>rs_jti = ''j1'', rs_user_id = ''u1'', rs_expires_at = 9, rs_revoked_at = None,
           rs_user_agent = None, rs_ip_address = None\<rparr>],
        db_resets = [\<lparr>pt_token_hash = ''tok'', pt_user_id = ''u1'', pt_expires_at = 9, pt_used_at = None,
           pt_must_change_on_use = True\<rparr>],
        db_audit = []\<rparr>, au_events = [], au_sent = []\<rparr>"

definition sample_app :: "'a auth_act \<Rightarrow> auth_app" where
  "sample_app act = \<lparr>aa_auth = snd (act sample_auth_state), aa_buckets = (\<lambda>_. [])\<rparr>"

abbreviation sample_refresh :: "(user \<times> token_pair) auth_act" where
  "sample_refresh \<equiv> refresh sample_auth_env (\<lambda>d. d) ''r1'' None"

abbreviation sample_claims :: token_claims where
  "sample_claims \<equiv> \<lparr>tc_subject = ''u1'', tc_token_type = ''refresh'', tc_token_id = ''j1'',
     tc_token_version = 0, tc_issued_at = 0, tc_expires_at = 1000000000\<rparr>"

lemma sample_decode: "decode sample_auth_env ''r1'' REFRESH = Inr sample_claims"
  by code_simp

text \<open>One more request after an action.\<close>

lemma sample_reach:
  assumes "P sample_auth_env" "get_user ''u9'' (au_db (aa_auth (sample_app act))) = None"
  shows "auth_reach P (sample_app act) (snd (handle_request sample_auth_env None rq (sample_app act)))"
  using assms by (intro auth_reach.request auth_reach.none) (simp_all add: sample_auth_env_def)

theorem refresh_token_single_use_witness:
  "is_ok (fst (sample_refresh sample_auth_state))
   \<and> (\<exists>m. fst (refresh sample_auth_env (\<lambda>d. d) ''r1'' None
        (aa_auth (snd (handle_request sample_auth_env None (RequestReset ''a@b'') (sample_app sample_refresh)))))
       = Inl (AuthenticationError m))"
proof -
  have ok: "is_ok (fst (sample_refresh sample_auth_state))" by code_simp
  have n: "get_user ''u9'' (au_db (aa_auth (sample_app sample_refresh))) = None" by code_simp
  have "is_ok (fst (sample_refresh sample_auth_state)) \<and> aa_auth (sample_app sample_refresh) = snd (sample_refresh sample_auth_state)
     \<or> ''r1'' \<noteq> [] \<and> get_session (tc_token_id sample_claims) (au_db sample_auth_state) \<noteq> None
       \<and> aa_auth (sample_app sample_refresh) = snd (logout sample_auth_env (Some ''r1'') None sample_auth_state)"
    using ok by (simp add: sample_app_def)
  from refresh_token_single_use [OF sample_decode this sample_reach [of "\<lambda>_. True", OF TrueI n] sample_decode refl] ok
  show ?thesis by blast
qed

theorem new_password_ends_sessions_witness:
  "is_ok (fst (change_password sample_auth_env sample_user ''old password'' ''a new password'' None sample_auth_state))
   \<and> (\<exists>m. fst (current_user sample_auth_env (Some ''r1'') (aa_auth (snd (handle_request sample_auth_env None (RequestReset ''a@b'')
        (sample_app (change_password sample_auth_env sample_user ''old password'' ''a new password'' None))))))
       = Inl (AuthenticationError m))"
proof -
  let ?act = "change_password sample_auth_env sample_user ''old password'' ''a new password'' None"
  have u: "get_user ''u1'' (au_db sample_auth_state) = Some sample_user" by code_simp
  have ok: "is_ok (fst (?act sample_auth_state))" by code_simp
  have n: "get_user ''u9'' (au_db (aa_auth (sample_app ?act))) = None" by code_simp
  have act: "?act = ?act \<or> ?act = confirm_password_reset sample_auth_env ''tok'' ''a new password'' None
      \<and> (\<exists>r. get_reset (hash_reset_token sample_auth_env ''tok'') (au_db sample_auth_state) = Some r \<and> pt_user_id r = ''u1'')"
    by simp
  have app: "aa_auth (sample_app ?act) = snd (?act sample_auth_state)" by (simp add: sample_app_def)
  have v: "tc_subject sample_claims = ''u1''" "tc_token_version sample_claims \<le> us_token_version sample_user"
    by (simp_all add: sample_user_def)
  from new_password_ends_sessions [OF u act ok app sample_reach [of "\<lambda>_. True", OF TrueI n] sample_decode v] ok
  show ?thesis by blast
qed

theorem reset_token_single_use_witness:
  "is_ok (fst (confirm_password_reset sample_auth_env ''tok'' ''a new password'' None sample_auth_state))
   \<and> \<not> is_ok (fst (confirm_password_reset sample_auth_env ''tok'' ''another password'' None
        (aa_auth (snd (handle_request sample_auth_env None (RequestReset ''a@b'')
           (sample_app (confirm_password_reset sample_auth_env ''tok'' ''a new password'' None)))))))"
proof -
  let ?act = "confirm_password_reset sample_auth_env ''tok'' ''a new password'' None"
  have ok: "is_ok (fst (?act sample_auth_state))" by code_simp
  have n: "get_user ''u9'' (au_db (aa_auth (sample_app ?act))) = None" by code_simp
  have app: "aa_auth (sample_app ?act) = snd (?act sample_auth_state)" by (simp add: sample_app_def)
  have d: "hash_reset_token sample_auth_env (ae_reset_token sample_auth_env) \<noteq> hash_reset_token sample_auth_env ''tok''"
    by code_simp
  from reset_token_single_use [OF ok app sample_reach [of "\<lambda>e. hash_reset_token e (ae_reset_token e) \<noteq>
      hash_reset_token sample_auth_env ''tok''", OF d n] refl] ok
  show ?thesis by blast
qed

theorem requests_never_escalate_witness:
  "\<exists>u0. get_user ''u1'' (au_db (aa_auth (sample_app (alift (Inr ()))))) = Some u0 \<and> us_role u0 = ''admin''"
proof -
  let ?app = "sample_app (alift (Inr ()))"
  let ?app' = "snd (handle_request sample_auth_env None (Register ''x@y'' ''eve'' ''a long password'' None) ?app)"
  have n: "get_user ''u9'' (au_db (aa_auth ?app)) = None" by code_simp
  have acc: "accounts_ok (au_db (aa_auth ?app))" by code_simp
  have ok: "fst (require_permission sample_auth_env ''rules.write'' (Some ''a1'') (aa_auth ?app')) = Inr sample_user"
    by code_simp
  obtain s where "require_permission sample_auth_env ''rules.write'' (Some ''a1'') (aa_auth ?app') = (Inr sample_user, s)"
    using ok by (metis prod.collapse)
  moreover have "''rules.write'' \<notin> set (ROLE_DEFAULTS USER)" by code_simp
  ultimately have "\<exists>u0. get_user (us_id sample_user) (au_db (aa_auth ?app)) = Some u0 \<and> us_role u0 = ''admin''"
    using requests_never_escalate [OF sample_reach [of "\<lambda>_. True", OF TrueI n] acc] by blast
  then show ?thesis by (simp add: sample_user_def)
qed

theorem failed_login_unrecorded_witness:
  "au_db (aa_auth (snd (handle_request sample_auth_env None (Login ''root'' ''wrong'') (sample_app (alift (Inr ())))))) =
     au_db (aa_auth (sample_app (alift (Inr ()))))"
proof -
  have "find_by_login ''root'' (au_db (aa_auth (sample_app (alift (Inr ()))))) = Some sample_user" by code_simp
  moreover have "\<not> verify_password sample_auth_env ''wrong'' (us_password_hash sample_user)" by code_simp
  ultimately show ?thesis
    using failed_login_unrecorded [of "''root''" "sample_app (alift (Inr ()))" sample_auth_env "''wrong''" None] by simp
qed

theorem concurrent_refresh_both_succeed_witness:
  "is_ok (fst (refresh sample_auth_env (\<lambda>d. au_db (snd (refresh sample_auth_env (\<lambda>d. d) ''r1'' None
      (sample_auth_state\<lparr>au_db := d\<rparr>)))) ''r1'' None sample_auth_state))"
proof -
  have "is_ok (fst (sample_refresh sample_auth_state))" by code_simp
  then show ?thesis by (rule concurrent_refresh_both_succeed)
qed

text \<open>Tokens that spell their payload in unary, for the one property that needs a faithful codec.\<close>

definition unary_encode :: "jwt_payload \<Rightarrow> string" where
  "unary_encode p = replicate (to_nat (jp_sub p, jp_typ p, jp_jti p, jp_ver p, jp_iat p, jp_nbf p, jp_exp p)) (CHR ''x'')"

definition unary_decode :: "int \<Rightarrow> string \<Rightarrow> jwt_error + jwt_payload" where
  "unary_decode t s =
     (case from_nat (length s) of (a, b, c, v, i, n, e) \<Rightarrow>
        if micros e \<le> t then Inl ExpiredSignature
        else if t < micros n \<or> t < micros i then Inl InvalidToken
        else Inr \<lparr>jp_sub = a, jp_typ = b, jp_jti = c, jp_ver = v, jp_iat = i, jp_nbf = n, jp_exp = e\<rparr>)"

theorem login_tokens_work_witness:
  "\<exists>env u' p st'. jwt_ok env \<and> login env ''root'' ''old password'' None sample_auth_state = (Inr (u', p), st')
     \<and> current_user env (Some (tp_access_token p)) st' = (Inr u', st')"
proof -
  define env where "env = sample_auth_env\<lparr>ae_jwt_encode := unary_encode, ae_jwt_decode := unary_decode\<rparr>"
  have f: "ae_now env = 0" "ae_access_ttl_minutes env = 30" "ae_refresh_ttl_days env = 14"
    by (simp_all add: env_def sample_auth_env_def)
  have jwt: "jwt_ok env"
    by (auto simp: jwt_ok_def env_def unary_encode_def unary_decode_def)
  have u: "find_by_login ''root'' (au_db sample_auth_state) = Some sample_user" by code_simp
  have acc: "accounts_ok (au_db sample_auth_state)" by code_simp
  have pw: "verify_password env ''old password'' (us_password_hash sample_user)"
    by (simp add: verify_password_def env_def sample_auth_env_def sample_user_def)
  have s: "get_session (ae_refresh_jti env) (au_db sample_auth_state) = None"
    by (simp add: env_def sample_auth_env_def sample_auth_state_def get_session_def)
  have act: "us_is_active sample_user" by (simp add: sample_user_def)
  have "\<exists>u' p st'. login env ''root'' ''old password'' None sample_auth_state = (Inr (u', p), st') \<and> us_id u' = us_id sample_user
    \<and> (ae_now env < micros (seconds (ae_now env) + 60 * ae_access_ttl_minutes env) \<longrightarrow>
         current_user env (Some (tp_access_token p)) st' = (Inr u', st')
         \<and> (\<exists>m. fst (refresh env (\<lambda>d. d) (tp_access_token p) None st') = Inl (AuthenticationError m)))
    \<and> (ae_now env < micros (seconds (ae_now env) + 86400 * ae_refresh_ttl_days env) \<longrightarrow>
         is_ok (fst (refresh env (\<lambda>d. d) (tp_refresh_token p) None st'))
         \<and> (\<exists>m. fst (current_user env (Some (tp_refresh_token p)) st') = Inl (AuthenticationError m)))"
    by (rule login_tokens_work [OF jwt _ _ acc u act pw _ s refl refl order_refl]) (simp_all add: f)
  then show ?thesis using jwt by (auto simp: f seconds_def micros_def)
qed

end
