(* ===== verification/Classifier.thy ===== *)
theory Classifier
  imports Prelude
begin

text \<open>
  The file classifier (\<open>app/services/media/classifier.py\<close>): a name is put into one of six
  categories by its extension; only media candidates are worth probing.
\<close>

section \<open>The tables\<close>

definition VIDEO_EXTS :: "string list" where
  "VIDEO_EXTS =
     [''mkv'', ''mp4'', ''m4v'', ''mov'', ''avi'', ''wmv'', ''ts'', ''m2ts'', ''mts'', ''vob'', ''iso'',
      ''webm'', ''ogv'', ''flv'', ''3gp'', ''rm'', ''rmvb'', ''mpg'', ''mpeg'', ''mxf'', ''asf'', ''divx'',
      ''f4v'', ''qt'']"

definition AUDIO_EXTS :: "string list" where
  "AUDIO_EXTS =
     [''mp3'', ''flac'', ''wav'', ''aac'', ''ogg'', ''oga'', ''opus'', ''m4a'', ''m4b'', ''wma'', ''ape'',
      ''alac'', ''aiff'', ''aif'', ''dsd'', ''dsf'', ''wv'']"

definition SUBTITLE_EXTS :: "string list" where
  "SUBTITLE_EXTS = [''srt'', ''ssa'', ''ass'', ''vtt'', ''sub'', ''idx'', ''sup'', ''smi'', ''stl'']"

definition IMAGE_EXTS :: "string list" where
  "IMAGE_EXTS =
     [''jpg'', ''jpeg'', ''png'', ''webp'', ''bmp'', ''gif'', ''tif'', ''tiff'', ''heic'', ''avif'']"

definition METADATA_EXTS :: "string list" where
  "METADATA_EXTS = [''nfo'', ''xml'', ''json'', ''yml'', ''yaml'']"

definition JUNK_EXTS :: "string list" where
  "JUNK_EXTS = [''db'', ''ini'', ''tmp'', ''part'', ''!ut'', ''crdownload'', ''ds_store'', ''lnk'']"

definition JUNK_FILENAMES :: "string list" where
  "JUNK_FILENAMES = [''.ds_store'', ''thumbs.db'', ''desktop.ini'', ''.directory'']"

definition JUNK_PREFIXES :: "string list" where
  "JUNK_PREFIXES = [''._'']"

section \<open>Classification\<close>

record classify_result =
  cr_category :: string
  cr_is_video :: bool
  cr_is_audio :: bool

definition category :: "string \<Rightarrow> classify_result" where
  "category c = \<lparr>cr_category = c, cr_is_video = False, cr_is_audio = False\<rparr>"

text \<open>\<open>_ext\<close>: what follows the last dot.\<close>

definition ext_of :: "string \<Rightarrow> string" where
  "ext_of name =
     (if CHR ''.'' \<notin> set name then [] else rev (takeWhile (\<lambda>c. c \<noteq> CHR ''.'') (rev name)))"

definition classify :: "string \<Rightarrow> bool option \<Rightarrow> classify_result" where
  "classify filename has_video_stream =
     (let name_lc = py_lower (py_strip filename); ext = ext_of name_lc in
      if name_lc \<in> set JUNK_FILENAMES then category ''junk''
      else if \<exists>p\<in>set JUNK_PREFIXES. prefix p name_lc then category ''junk''
      else if ext \<in> set JUNK_EXTS then category ''junk''
      else if ext \<in> set SUBTITLE_EXTS then category ''subtitle''
      else if ext \<in> set IMAGE_EXTS then category ''image''
      else if ext \<in> set METADATA_EXTS then category ''metadata''
      else if ext \<in> set VIDEO_EXTS then (category ''media'')\<lparr>cr_is_video := True\<rparr>
      else if ext \<in> set AUDIO_EXTS then (category ''media'')\<lparr>cr_is_audio := True\<rparr>
      else if has_video_stream = Some True then (category ''media'')\<lparr>cr_is_video := True\<rparr>
      else category ''unknown'')"

definition should_probe :: "string \<Rightarrow> bool" where
  "should_probe filename = (cr_category (classify filename None) = ''media'')"

section \<open>Properties\<close>

definition CATEGORY_EXTS :: "(string \<times> string list) list" where
  "CATEGORY_EXTS =
     [(''junk'', JUNK_EXTS), (''subtitle'', SUBTITLE_EXTS), (''image'', IMAGE_EXTS),
      (''metadata'', METADATA_EXTS), (''media'', VIDEO_EXTS @ AUDIO_EXTS)]"

text \<open>The tables are disjoint, so the order of the tests does not matter.\<close>

lemma category_exts_disjoint: "distinct (concat (map snd CATEGORY_EXTS))"
  by code_simp

lemma classify_by_table:
  assumes "(c, xs) \<in> set CATEGORY_EXTS" "ext_of (py_lower (py_strip name)) \<in> set xs"
    "py_lower (py_strip name) \<notin> set JUNK_FILENAMES" "\<not> prefix ''._'' (py_lower (py_strip name))"
  shows "cr_category (classify name hvs) = c"
proof -
  have d: "set JUNK_EXTS \<inter> (set SUBTITLE_EXTS \<union> set IMAGE_EXTS \<union> set METADATA_EXTS \<union> set VIDEO_EXTS \<union> set AUDIO_EXTS) = {}"
    "set SUBTITLE_EXTS \<inter> (set IMAGE_EXTS \<union> set METADATA_EXTS \<union> set VIDEO_EXTS \<union> set AUDIO_EXTS) = {}"
    "set IMAGE_EXTS \<inter> (set METADATA_EXTS \<union> set VIDEO_EXTS \<union> set AUDIO_EXTS) = {}"
    "set METADATA_EXTS \<inter> (set VIDEO_EXTS \<union> set AUDIO_EXTS) = {}"
    using category_exts_disjoint by (auto simp: CATEGORY_EXTS_def)
  let ?e = "ext_of (py_lower (py_strip name))"
  have j: "\<not> (\<exists>p\<in>set JUNK_PREFIXES. prefix p (py_lower (py_strip name)))"
    using assms(4) by (simp add: JUNK_PREFIXES_def)
  note run = classify_def Let_def category_def assms(3) j
  consider "c = ''junk''" "?e \<in> set JUNK_EXTS" | "c = ''subtitle''" "?e \<in> set SUBTITLE_EXTS"
    | "c = ''image''" "?e \<in> set IMAGE_EXTS" | "c = ''metadata''" "?e \<in> set METADATA_EXTS"
    | "c = ''media''" "?e \<in> set VIDEO_EXTS \<union> set AUDIO_EXTS"
    using assms(1,2) unfolding CATEGORY_EXTS_def by auto
  then show ?thesis
  proof cases
    case 1
    then show ?thesis by (simp add: run)
  next
    case 2
    moreover from 2 d(1) have "?e \<notin> set JUNK_EXTS" by blast
    ultimately show ?thesis by (simp add: run)
  next
    case 3
    moreover from 3 d(1,2) have "?e \<notin> set JUNK_EXTS" "?e \<notin> set SUBTITLE_EXTS" by blast+
    ultimately show ?thesis by (simp add: run)
  next
    case 4
    moreover from 4 d(1-3) have "?e \<notin> set JUNK_EXTS" "?e \<notin> set SUBTITLE_EXTS" "?e \<notin> set IMAGE_EXTS" by blast+
    ultimately show ?thesis by (simp add: run)
  next
    case 5
    moreover from 5 d have "?e \<notin> set JUNK_EXTS" "?e \<notin> set SUBTITLE_EXTS" "?e \<notin> set IMAGE_EXTS"
      "?e \<notin> set METADATA_EXTS" by blast+
    ultimately show ?thesis by (auto simp: run)
  qed
qed

end
