(* ===== verification/Scanner.thy ===== *)
theory Scanner
  imports Classifier RulesService
begin

text \<open>
  The library scanner (\<open>app/services/media/scanner.py\<close>) with the repositories it writes through
  (\<open>app/services/repositories/media.py\<close>, \<open>scan.py\<close>, \<open>extension_rule.py\<close>), the scan
  endpoints (\<open>app/api/v1/scans.py\<close>), the worker job and the stale-scan reaper
  (\<open>app/worker.py\<close>).  The state is the database session of the rules service with the tables only
  the scanner uses.  Parameters (\<open>scan_env\<close>): what the operating system reports for the walk,
  ffprobe, the VirusTotal plugin's presence, new ids and the clocks.
\<close>

section \<open>Rows\<close>

record library =
  lb_id :: string
  lb_name :: string
  lb_root_path :: string
  lb_enabled :: bool
  lb_last_scan_at :: "int option"
  lb_last_scan_status :: "string option"
  lb_last_scan_file_count :: "int option"

record scan_run =
  sr_id :: string
  sr_library_id :: string
  sr_mode :: string
  sr_status :: string
  sr_created_at :: int
  sr_started_at :: "int option"
  sr_finished_at :: "int option"
  sr_files_seen :: int
  sr_files_added :: int
  sr_files_updated :: int
  sr_files_orphaned :: int
  sr_probe_failures :: int
  sr_error :: "string option"
  sr_follow_symlinks :: bool

record media_extension_rule =
  xr_extension :: string
  xr_disposition :: string
  xr_enabled :: bool

text \<open>A job on the ARQ queue.\<close>

record scan_job =
  jb_library_id :: string
  jb_mode :: string
  jb_follow_symlinks :: bool
  jb_run_id :: "string option"

record scan_state =
  sc_store :: store
  sc_libraries :: "library list"
  sc_runs :: "scan_run list"
  sc_ext_rules :: "media_extension_rule list"
  sc_jobs :: "scan_job list"

record scan_options =
  so_mode :: string
  so_follow_symlinks :: bool
  so_max_files :: "int option"
  so_run_rules :: bool

record scan_report =
  sp_run_id :: string
  sp_files_seen :: int
  sp_files_added :: int
  sp_files_updated :: int
  sp_files_orphaned :: int
  sp_probe_failures :: int
  sp_status :: string
  sp_error :: "string option"

record ffprobe_result =
  fp_ok :: bool
  fp_container :: "string option"
  fp_duration_seconds :: "pyfloat option"
  fp_bitrate_kbps :: "int option"
  fp_video_codec :: "string option"
  fp_audio_codec :: "string option"
  fp_subtitle_codec :: "string option"
  fp_width :: "int option"
  fp_height :: "int option"
  fp_framerate :: "pyfloat option"
  fp_has_subtitles :: bool
  fp_subtitle_languages :: "string list"
  fp_audio_languages :: "string list"
  fp_raw :: "pyval option"
  fp_error :: "string option"

record file_stat =
  fs_mode :: int
  fs_size :: int
  fs_mtime :: int
  fs_ino :: int

text \<open>\<open>sn_walk\<close> lists, for each directory \<open>os.walk\<close> reaches, its path and its entries with
  their status (\<open>None\<close>: \<open>stat\<close> failed).  \<open>sn_heartbeat k\<close> tells whether five seconds have
  passed since the last progress event when the \<open>k\<close>th file is done.\<close>

datatype enqueue_outcome = Enqueued | Duplicate | QueueDown string

record scan_env =
  sn_svc :: svc_env
  sn_now :: int
  sn_run_id :: string
  sn_media_id :: "string \<Rightarrow> string"
  sn_root_exists :: bool
  sn_root_is_dir :: bool
  sn_walk :: "bool \<Rightarrow> (string \<times> (string \<times> file_stat option) list) list"
  sn_probe :: "string \<Rightarrow> ffprobe_result"
  sn_heartbeat :: "int \<Rightarrow> bool"
  sn_enqueue :: "string \<Rightarrow> enqueue_outcome"

section \<open>Repositories\<close>

definition get_by_path :: "string \<Rightarrow> store \<Rightarrow> media_file option" where
  "get_by_path p st = table_find mf_path p (st_media st)"

text \<open>The columns \<open>upsert_by_path\<close> copies onto a row it finds.\<close>

definition refresh_columns :: "media_file \<Rightarrow> media_file \<Rightarrow> media_file" where
  "refresh_columns x m = x\<lparr>mf_library_id := mf_library_id m, mf_relative_path := mf_relative_path m,
     mf_filename := mf_filename m, mf_extension := mf_extension m, mf_size_bytes := mf_size_bytes m,
     mf_mtime := mf_mtime m, mf_inode := mf_inode m, mf_category := mf_category m,
     mf_container := mf_container m, mf_duration_seconds := mf_duration_seconds m,
     mf_bitrate_kbps := mf_bitrate_kbps m, mf_video_codec := mf_video_codec m,
     mf_audio_codec := mf_audio_codec m, mf_subtitle_codec := mf_subtitle_codec m,
     mf_width := mf_width m, mf_height := mf_height m, mf_framerate := mf_framerate m,
     mf_has_subtitles := mf_has_subtitles m, mf_subtitle_languages := mf_subtitle_languages m,
     mf_audio_languages := mf_audio_languages m, mf_probe := mf_probe m,
     mf_probe_failed := mf_probe_failed m, mf_probe_error := mf_probe_error m,
     mf_last_scan_id := mf_last_scan_id m, mf_seen_at := mf_seen_at m, mf_is_orphaned := mf_is_orphaned m\<rparr>"

definition upsert_by_path :: "media_file \<Rightarrow> store \<Rightarrow> store" where
  "upsert_by_path m st = st\<lparr>st_media := table_upsert mf_path refresh_columns m (st_media st)\<rparr>"

text \<open>\<open>mark_orphans\<close>; the comparison with a NULL scan id is not true.\<close>

definition untouched :: "string \<Rightarrow> string \<Rightarrow> media_file \<Rightarrow> bool" where
  "untouched library_id run_id m =
     (mf_library_id m = library_id \<and> \<not> mf_is_orphaned m
      \<and> (case mf_last_scan_id m of None \<Rightarrow> False | Some s \<Rightarrow> s \<noteq> run_id))"

definition mark_orphans :: "string \<Rightarrow> string \<Rightarrow> store \<Rightarrow> nat \<times> store" where
  "mark_orphans library_id run_id st =
     (length (filter (untouched library_id run_id) (st_media st)),
      st\<lparr>st_media := map (\<lambda>m. if untouched library_id run_id m then m\<lparr>mf_is_orphaned := True\<rparr> else m)
           (st_media st)\<rparr>)"

definition load_disposition_map :: "scan_state \<Rightarrow> string \<Rightarrow> string option" where
  "load_disposition_map s =
     map_of (rev (map (\<lambda>r. (xr_extension r, xr_disposition r))
       (sort_key xr_extension (filter xr_enabled (sc_ext_rules s)))))"

section \<open>Enumeration\<close>

definition is_regular_file :: "int \<Rightarrow> bool" where
  "is_regular_file mode = ((mode div 4096) mod 16 = 8)"

text \<open>A name whose bytes are not UTF-8 reaches Python with surrogate escapes and cannot be encoded
  back; names are their bytes here, so the test is for well-formed UTF-8.\<close>

definition cont_byte :: "nat \<Rightarrow> bool" where
  "cont_byte b = (128 \<le> b \<and> b < 192)"

fun utf8_ok :: "nat list \<Rightarrow> bool" where
  "utf8_ok [] = True"
| "utf8_ok (b # bs) =
     (if b < 128 then utf8_ok bs
      else case bs of
        [] \<Rightarrow> False
      | b1 # bs1 \<Rightarrow>
          if 194 \<le> b \<and> b < 224 then cont_byte b1 \<and> utf8_ok bs1
          else case bs1 of
            [] \<Rightarrow> False
          | b2 # bs2 \<Rightarrow>
              if 224 \<le> b \<and> b < 240
              then cont_byte b1 \<and> cont_byte b2 \<and> (b = 224 \<longrightarrow> 160 \<le> b1) \<and> (b = 237 \<longrightarrow> b1 < 160) \<and> utf8_ok bs2
              else case bs2 of
                [] \<Rightarrow> False
              | b3 # bs3 \<Rightarrow>
                  240 \<le> b \<and> b < 245 \<and> cont_byte b1 \<and> cont_byte b2 \<and> cont_byte b3
                  \<and> (b = 240 \<longrightarrow> 144 \<le> b1) \<and> (b = 244 \<longrightarrow> b1 < 144) \<and> utf8_ok bs3)"

definition contains_undecodable_bytes :: "string \<Rightarrow> bool" where
  "contains_undecodable_bytes s = (\<not> utf8_ok (map of_char s))"

definition join_path :: "string \<Rightarrow> string \<Rightarrow> string" where
  "join_path d n = (if d \<noteq> [] \<and> last d = CHR ''/'' then d @ n else d @ CHR ''/'' # n)"

definition relative_to :: "string \<Rightarrow> string \<Rightarrow> string" where
  "relative_to base p =
     (if base \<noteq> [] \<and> last base = CHR ''/'' then drop (length base) p else drop (Suc (length base)) p)"

record scan_entry =
  se_relative :: string
  se_path :: string
  se_name :: string
  se_stat :: file_stat

definition entry_of :: "string \<Rightarrow> string \<Rightarrow> string \<times> file_stat option \<Rightarrow> scan_entry option" where
  "entry_of base dirpath ns =
     (case snd ns of
        None \<Rightarrow> None
      | Some st \<Rightarrow>
          if \<not> is_regular_file (fs_mode st) then None
          else
            (let p = join_path dirpath (fst ns); rel = relative_to base p in
             if contains_undecodable_bytes rel \<or> contains_undecodable_bytes p then None
             else Some \<lparr>se_relative = rel, se_path = p, se_name = fst ns, se_stat = st\<rparr>))"

definition enumerate_files :: "scan_env \<Rightarrow> string \<Rightarrow> scan_options \<Rightarrow> scan_entry list result" where
  "enumerate_files env base opts =
     (if \<not> sn_root_exists env then Inl OSError
      else if \<not> sn_root_is_dir env then Inl OSError
      else Inr (concat (map (\<lambda>(dirpath, names). List.map_filter (entry_of base dirpath) names)
                 (sn_walk env (so_follow_symlinks opts)))))"

section \<open>One file\<close>

definition file_extension :: "string \<Rightarrow> string" where
  "file_extension name = py_lower (dropWhile (\<lambda>c. c = CHR ''.'') (name_suffix name))"

definition none_if_nil :: "string list \<Rightarrow> pyval list option" where
  "none_if_nil xs = (if xs = [] then None else Some (map PyStr xs))"

text \<open>The probe columns, shared by \<open>_build_media_file\<close> and \<open>reprobe_one\<close>.\<close>

definition probe_columns :: "ffprobe_result \<Rightarrow> media_file \<Rightarrow> media_file" where
  "probe_columns p m = m\<lparr>mf_container := fp_container p, mf_duration_seconds := fp_duration_seconds p,
     mf_bitrate_kbps := fp_bitrate_kbps p, mf_video_codec := fp_video_codec p, mf_audio_codec := fp_audio_codec p,
     mf_subtitle_codec := fp_subtitle_codec p, mf_width := fp_width p, mf_height := fp_height p,
     mf_framerate := fp_framerate p, mf_has_subtitles := fp_has_subtitles p,
     mf_subtitle_languages := none_if_nil (fp_subtitle_languages p),
     mf_audio_languages := none_if_nil (fp_audio_languages p), mf_probe := fp_raw p\<rparr>"

definition build_media_file ::
    "scan_env \<Rightarrow> library \<Rightarrow> scan_entry \<Rightarrow> string \<Rightarrow> ffprobe_result option \<Rightarrow> string \<Rightarrow> media_file" where
  "build_media_file env lib e cat probe last_scan_id =
     (let m = \<lparr>mf_id = sn_media_id env (se_path e), mf_library_id = lb_id lib, mf_path = se_path e,
               mf_relative_path = se_relative e, mf_filename = se_name e,
               mf_extension = file_extension (se_name e), mf_size_bytes = fs_size (se_stat e),
               mf_mtime = fs_mtime (se_stat e), mf_category = cat, mf_severity = ''ok'',
               mf_severity_rank = 10, mf_container = None, mf_duration_seconds = None,
               mf_bitrate_kbps = None, mf_video_codec = None, mf_audio_codec = None,
               mf_subtitle_codec = None, mf_width = None, mf_height = None, mf_framerate = None,
               mf_has_subtitles = False, mf_subtitle_languages = None, mf_audio_languages = None,
               mf_probe_failed = False, mf_is_orphaned = False, mf_hash_sha256 = None,
               mf_vt_status = None, mf_inode = (if fs_ino (se_stat e) = 0 then None else Some (fs_ino (se_stat e))),
               mf_probe = None, mf_probe_error = None, mf_last_scan_id = Some last_scan_id,
               mf_seen_at = sn_now env,
      mf_hash_computed_at = None, mf_virustotal_result = None, mf_virustotal_checked_at = None\<rparr>
      in case probe of
           None \<Rightarrow> m
         | Some p \<Rightarrow> if fp_ok p then probe_columns p m
                    else m\<lparr>mf_probe_failed := True, mf_probe_error := fp_error p\<rparr>)"

text \<open>The dispositions other than \<open>ignore\<close>.\<close>

definition apply_disposition :: "string option \<Rightarrow> media_file \<Rightarrow> media_file" where
  "apply_disposition d m =
     (if d = Some ''malicious'' then m\<lparr>mf_severity := ''crit'', mf_severity_rank := 5\<rparr>
      else if d = Some ''accepted'' then m\<lparr>mf_severity := ''ok'', mf_severity_rank := 0\<rparr>
      else if d = Some ''stats_only'' then m\<lparr>mf_severity := ''info'', mf_severity_rank := 1\<rparr>
      else m)"

definition probe_of :: "scan_env \<Rightarrow> scan_entry \<Rightarrow> ffprobe_result option" where
  "probe_of env e =
     (if cr_category (classify (se_name e) None) = ''media'' \<and> should_probe (se_name e)
      then Some (sn_probe env (se_path e)) else None)"

definition scanned_row :: "scan_env \<Rightarrow> library \<Rightarrow> string \<Rightarrow> (string \<Rightarrow> string option) \<Rightarrow> scan_entry \<Rightarrow> media_file" where
  "scanned_row env lib run_id dispositions e =
     apply_disposition (dispositions (file_extension (se_name e)))
       (build_media_file env lib e (cr_category (classify (se_name e) None)) (probe_of env e) run_id)"

subsection \<open>VirusTotal scope\<close>

text \<open>\<open>file_passes_vt_scan_scope\<close>.  An option that is not a list of strings makes the comprehension
  raise; the schema of the integration admits only lists, so such a value counts as absent here.\<close>

definition dict_strings :: "string \<Rightarrow> (string \<times> pyval) list \<Rightarrow> pyval list" where
  "dict_strings k d = (case map_of d k of Some (PyList xs) \<Rightarrow> xs | _ \<Rightarrow> [])"

definition strings_in :: "pyval list \<Rightarrow> string list" where
  "strings_in xs = List.map_filter (\<lambda>v. case v of PyStr s \<Rightarrow> Some s | _ \<Rightarrow> None) xs"

definition strip_dots :: "string \<Rightarrow> string" where
  "strip_dots s = dropWhile (\<lambda>c. c = CHR ''.'') s"

definition file_passes_vt_scan_scope ::
    "string \<Rightarrow> string \<Rightarrow> string list \<Rightarrow> (string \<times> pyval) list option \<Rightarrow> bool" where
  "file_passes_vt_scan_scope extension cat tags vt_options =
     (case vt_options of
        None \<Rightarrow> True
      | Some d \<Rightarrow>
          (let exts = dict_strings ''vt_scan_extensions'' d; cats = dict_strings ''vt_scan_categories'' d;
               req = dict_strings ''vt_scan_required_tags'' d;
               file_tags = map py_strip (filter (\<lambda>t. t \<noteq> []) tags) in
           d = [] \<or>
           ((exts = [] \<or> strip_dots (py_lower (py_strip extension))
                \<in> set (map (\<lambda>e. strip_dots (py_lower (py_strip e))) (strings_in exts)))
            \<and> (cats = [] \<or> py_lower (py_strip cat) \<in> set (map (\<lambda>c. py_lower (py_strip c)) (strings_in cats)))
            \<and> (\<forall>t\<in>set (strings_in req). py_strip t \<in> set file_tags))))"

text \<open>The options the scan reads: the \<open>options\<close> key of the first enabled VirusTotal row.\<close>

definition vt_row :: "store \<Rightarrow> integration option" where
  "vt_row st = find (\<lambda>i. ig_kind i = ''virustotal'' \<and> ig_enabled i) (st_integrations st)"

definition vt_options_of :: "integration \<Rightarrow> (string \<times> pyval) list option" where
  "vt_options_of i = (case map_of (ig_config i) ''options'' of Some (PyDict d) \<Rightarrow> Some d | _ \<Rightarrow> None)"

text \<open>Queueing the saved row for a lookup.  The plugin is imported on the way, and the query of the
  required tags names a column the tag model does not have, so it raises.\<close>

definition vt_enqueue :: "scan_env \<Rightarrow> integration option \<Rightarrow> media_file \<Rightarrow> store \<Rightarrow> store result" where
  "vt_enqueue env vt m st =
     (case vt of
        None \<Rightarrow> Inr st
      | Some i \<Rightarrow>
          if mf_hash_sha256 m = None \<or> mf_vt_status m \<noteq> None then Inr st
          else if \<not> sv_vt_plugin (sn_svc env) then Inl ImportError
          else
            (let opts = vt_options_of i in
             if (case opts of None \<Rightarrow> False | Some d \<Rightarrow> d \<noteq> [] \<and> dict_strings ''vt_scan_required_tags'' d \<noteq> [])
             then Inl AttributeError
             else if file_passes_vt_scan_scope (mf_extension m) (mf_category m) [] opts
             then Inr (enqueue_for_vt_lookup (sn_svc env) (mf_id m) st) else Inr st))"

section \<open>The scan\<close>

record scan_acc =
  ac_seen :: int
  ac_added :: int
  ac_updated :: int
  ac_probe_failures :: int
  ac_store :: store

definition scan_emit :: "string \<Rightarrow> (string \<times> pyval) list \<Rightarrow> store \<Rightarrow> store" where
  "scan_emit name payload = emit True name payload ''scanner''"

definition progress_payload :: "string \<Rightarrow> library \<Rightarrow> int \<Rightarrow> int \<Rightarrow> (string \<times> pyval) list" where
  "progress_payload run_id lib seen tot =
     [(''run_id'', PyStr run_id), (''library_id'', PyStr (lb_id lib)), (''files_seen'', PyInt seen),
      (''files_total_estimate'', PyInt tot)]"

definition PROGRESS_EVERY :: int where "PROGRESS_EVERY = 25"

text \<open>One iteration past the guards: the exception that leaves it, if any, with what it did.\<close>

definition scan_file ::
    "scan_env \<Rightarrow> library \<Rightarrow> string \<Rightarrow> int \<Rightarrow> (string \<Rightarrow> string option) \<Rightarrow> integration option \<Rightarrow> scan_entry
     \<Rightarrow> scan_acc \<Rightarrow> pyerr option \<times> scan_acc" where
  "scan_file env lib run_id tot dispositions vt e acc =
     (let row = scanned_row env lib run_id dispositions e;
          failed = (case probe_of env e of None \<Rightarrow> 0 | Some p \<Rightarrow> if fp_ok p then 0 else 1);
          st0 = ac_store acc; st1 = upsert_by_path row st0;
          saved = (case get_by_path (se_path e) st1 of None \<Rightarrow> row | Some m \<Rightarrow> m);
          new = (get_by_path (se_path e) st0 = None);
          st2 = (if new then scan_emit ''media.added'' [(''id'', PyStr (mf_id saved)), (''path'', PyStr (mf_path saved))] st1
                 else st1);
          acc1 = acc\<lparr>ac_added := ac_added acc + (if new then 1 else 0),
                     ac_updated := ac_updated acc + (if new then 0 else 1),
                     ac_probe_failures := ac_probe_failures acc + failed, ac_store := st2\<rparr> in
      case vt_enqueue env vt saved st2 of
        Inl err \<Rightarrow> (Some err, acc1)
      | Inr st3 \<Rightarrow>
          (None, acc1\<lparr>ac_store :=
             (if ac_seen acc mod PROGRESS_EVERY = 0 \<or> sn_heartbeat env (ac_seen acc)
              then scan_emit ''scan.progress'' (progress_payload run_id lib (ac_seen acc) tot) st3 else st3)\<rparr>))"

definition over_cap :: "scan_options \<Rightarrow> int \<Rightarrow> bool" where
  "over_cap opts seen = (case so_max_files opts of None \<Rightarrow> False | Some k \<Rightarrow> k < seen)"

fun scan_loop ::
    "scan_env \<Rightarrow> scan_options \<Rightarrow> library \<Rightarrow> string \<Rightarrow> int \<Rightarrow> (string \<Rightarrow> string option) \<Rightarrow> integration option
     \<Rightarrow> scan_entry list \<Rightarrow> scan_acc \<Rightarrow> pyerr option \<times> scan_acc" where
  "scan_loop env opts lib run_id tot dispositions vt [] acc = (None, acc)"
| "scan_loop env opts lib run_id tot dispositions vt (e # es) acc =
     (let acc1 = acc\<lparr>ac_seen := ac_seen acc + 1\<rparr> in
      if over_cap opts (ac_seen acc1) then (None, acc1)
      else if dispositions (file_extension (se_name e)) = Some ''ignore''
      then scan_loop env opts lib run_id tot dispositions vt es acc1
      else case scan_file env lib run_id tot dispositions vt e acc1 of
        (Some err, acc2) \<Rightarrow> (Some err, acc2)
      | (None, acc2) \<Rightarrow> scan_loop env opts lib run_id tot dispositions vt es acc2)"

definition update_run :: "string \<Rightarrow> (scan_run \<Rightarrow> scan_run) \<Rightarrow> scan_state \<Rightarrow> scan_state" where
  "update_run i f s = s\<lparr>sc_runs := map (\<lambda>r. if sr_id r = i then f r else r) (sc_runs s)\<rparr>"

definition update_library :: "string \<Rightarrow> (library \<Rightarrow> library) \<Rightarrow> scan_state \<Rightarrow> scan_state" where
  "update_library i f s = s\<lparr>sc_libraries := map (\<lambda>l. if lb_id l = i then f l else l) (sc_libraries s)\<rparr>"

definition new_run :: "scan_env \<Rightarrow> string \<Rightarrow> string \<Rightarrow> string \<Rightarrow> bool \<Rightarrow> string \<Rightarrow> int option \<Rightarrow> scan_run" where
  "new_run env i library_id mode follow status started_at =
     \<lparr>sr_id = i, sr_library_id = library_id, sr_mode = mode, sr_status = status, sr_created_at = sn_now env,
      sr_started_at = started_at, sr_finished_at = None, sr_files_seen = 0, sr_files_added = 0,
      sr_files_updated = 0, sr_files_orphaned = 0, sr_probe_failures = 0, sr_error = None,
      sr_follow_symlinks = follow\<rparr>"

text \<open>A queued row is taken over, otherwise a new one is made.\<close>

definition begin_run :: "scan_env \<Rightarrow> library \<Rightarrow> scan_options \<Rightarrow> string option \<Rightarrow> scan_state \<Rightarrow> string \<times> scan_state" where
  "begin_run env lib opts run s =
     (case run of
        None \<Rightarrow> (sn_run_id env, s\<lparr>sc_runs := sc_runs s @
           [new_run env (sn_run_id env) (lb_id lib) (so_mode opts) (so_follow_symlinks opts) ''running'' (Some (sn_now env))]\<rparr>)
      | Some i \<Rightarrow> (i, update_run i (\<lambda>r. r\<lparr>sr_status := ''running'', sr_started_at := Some (sn_now env)\<rparr>) s))"

definition report_of :: "string \<Rightarrow> scan_acc \<Rightarrow> int \<Rightarrow> string \<Rightarrow> string option \<Rightarrow> scan_report" where
  "report_of run_id acc orphaned status err =
     \<lparr>sp_run_id = run_id, sp_files_seen = ac_seen acc, sp_files_added = ac_added acc,
      sp_files_updated = ac_updated acc, sp_files_orphaned = orphaned,
      sp_probe_failures = ac_probe_failures acc, sp_status = status, sp_error = err\<rparr>"

text \<open>The handler of an exception: nothing is rolled back.\<close>

definition scan_failed :: "scan_env \<Rightarrow> library \<Rightarrow> string \<Rightarrow> pyerr \<Rightarrow> scan_acc \<Rightarrow> scan_state \<Rightarrow> scan_report result \<times> scan_state" where
  "scan_failed env lib run_id err acc s =
     (let msg = sv_exc_str (sn_svc env) err;
          s1 = update_library (lb_id lib) (\<lambda>l. l\<lparr>lb_last_scan_status := Some ''failed''\<rparr>)
            (update_run run_id (\<lambda>r. r\<lparr>sr_status := ''failed'', sr_finished_at := Some (sn_now env),
               sr_error := Some (py_take 2000 msg)\<rparr>) (s\<lparr>sc_store := ac_store acc\<rparr>))
      in (Inr (report_of run_id acc 0 ''failed'' (Some msg)),
          s1\<lparr>sc_store := scan_emit ''scan.failed'' [(''run_id'', PyStr run_id), (''library_id'', PyStr (lb_id lib)),
             (''error'', PyStr msg)] (sc_store s1)\<rparr>))"

text \<open>The rules pass after the scan has committed.  When it raises, its rows are rolled back; what it
  sent or moved before it raised is not in the result of \<open>evaluate_library\<close>.\<close>

definition rules_pass :: "scan_env \<Rightarrow> library \<Rightarrow> scan_options \<Rightarrow> store \<Rightarrow> nat result \<times> store" where
  "rules_pass env lib opts st =
     (if so_run_rules opts
      then (case evaluate_library (sn_svc env) (sn_now env) (lb_id lib) [] st of
              Inl err \<Rightarrow> (Inl err, st) | Inr (n, st') \<Rightarrow> (Inr n, st'))
      else (Inr 0, st))"

text \<open>The end of a scan whose loop has run.  A rules pass that raised is logged and rolled back, and the
  rollback expires every row of the session: the read of \<open>run.id\<close> for the payload of
  \<open>scan.completed\<close>, and then the one of \<open>library.id\<close> in the handler, need a query outside the
  greenlet, so \<open>MissingGreenlet\<close> leaves \<open>scan\<close>.\<close>

definition scan_completed ::
    "scan_env \<Rightarrow> library \<Rightarrow> scan_options \<Rightarrow> string \<Rightarrow> int \<Rightarrow> scan_acc \<Rightarrow> scan_state \<Rightarrow> scan_report result \<times> scan_state" where
  "scan_completed env lib opts run_id tot acc s =
     (let st1 = scan_emit ''scan.progress'' (progress_payload run_id lib (ac_seen acc) tot) (ac_store acc);
          (n, st2) = mark_orphans (lb_id lib) run_id st1; orphaned = int n;
          s1 = update_run run_id (\<lambda>r. r\<lparr>sr_status := ''completed'', sr_finished_at := Some (sn_now env),
                 sr_files_seen := ac_seen acc, sr_files_added := ac_added acc, sr_files_updated := ac_updated acc,
                 sr_files_orphaned := orphaned, sr_probe_failures := ac_probe_failures acc\<rparr>) s;
          s2 = update_library (lb_id lib) (\<lambda>l. l\<lparr>lb_last_scan_at := Some (sn_now env),
                 lb_last_scan_status := Some ''completed'', lb_last_scan_file_count := Some (ac_seen acc)\<rparr>) s1
      in case rules_pass env lib opts st2 of
           (Inl err, st3) \<Rightarrow> (Inl MissingGreenlet, s2\<lparr>sc_store := st3\<rparr>)
         | (Inr evaluated, st3) \<Rightarrow>
             (Inr (report_of run_id acc orphaned ''completed'' None),
              s2\<lparr>sc_store := scan_emit ''scan.completed''
                [(''run_id'', PyStr run_id), (''library_id'', PyStr (lb_id lib)), (''files_seen'', PyInt (ac_seen acc)),
                 (''files_added'', PyInt (ac_added acc)), (''files_updated'', PyInt (ac_updated acc)),
                 (''files_orphaned'', PyInt orphaned), (''probe_failures'', PyInt (ac_probe_failures acc)),
                 (''files_evaluated'', PyInt (int evaluated))] st3\<rparr>))"

definition scan ::
    "scan_env \<Rightarrow> library \<Rightarrow> scan_options \<Rightarrow> string option \<Rightarrow> scan_state \<Rightarrow> scan_report result \<times> scan_state" where
  "scan env lib opts run s =
     (let (run_id, s1) = begin_run env lib opts run s;
          st1 = scan_emit ''scan.started'' [(''run_id'', PyStr run_id), (''library_id'', PyStr (lb_id lib)),
                  (''mode'', PyStr (so_mode opts))] (sc_store s1);
          acc0 = \<lparr>ac_seen = 0, ac_added = 0, ac_updated = 0, ac_probe_failures = 0, ac_store = st1\<rparr>;
          vt = vt_row st1; dispositions = load_disposition_map s1 in
      case enumerate_files env (lb_root_path lib) opts of
        Inl err \<Rightarrow> scan_failed env lib run_id err acc0 s1
      | Inr es \<Rightarrow>
          (let tot = int (length es);
               acc1 = acc0\<lparr>ac_store := scan_emit ''scan.progress'' (progress_payload run_id lib 0 tot) st1\<rparr> in
           case scan_loop env opts lib run_id tot dispositions vt es acc1 of
             (Some err, acc2) \<Rightarrow> scan_failed env lib run_id err acc2 s1
           | (None, acc2) \<Rightarrow> scan_completed env lib opts run_id tot acc2 (s1\<lparr>sc_store := ac_store acc2\<rparr>)))"

text \<open>\<open>reprobe_one\<close> on the row it is given; \<open>on_disk\<close> is whether its path exists.\<close>

definition reprobe_one :: "scan_env \<Rightarrow> (string \<Rightarrow> bool) \<Rightarrow> string \<Rightarrow> store \<Rightarrow> store" where
  "reprobe_one env on_disk i st =
     (case table_find mf_id i (st_media st) of
        None \<Rightarrow> st
      | Some m \<Rightarrow>
          (let upd = (\<lambda>f. st\<lparr>st_media := map (\<lambda>x. if mf_id x = i then f x else x) (st_media st)\<rparr>);
               ev = (\<lambda>ok orphaned. scan_emit ''media.reprobed''
                      [(''id'', PyStr i), (''ok'', PyBool ok), (''orphaned'', PyBool orphaned)]) in
           if \<not> on_disk (mf_path m)
           then ev False True (upd (\<lambda>x. x\<lparr>mf_is_orphaned := True, mf_seen_at := sn_now env\<rparr>))
           else
             (let p = sn_probe env (mf_path m);
                  base = (\<lambda>x. x\<lparr>mf_seen_at := sn_now env, mf_is_orphaned := False\<rparr>) in
              ev (fp_ok p) False
                (upd (\<lambda>x. if fp_ok p
                          then probe_columns p ((base x)\<lparr>mf_probe_failed := False, mf_probe_error := None\<rparr>)
                          else (base x)\<lparr>mf_probe_failed := True, mf_probe_error := fp_error p\<rparr>)))))"

section \<open>Starting scans\<close>

definition active :: "scan_run \<Rightarrow> bool" where
  "active r = (sr_status r \<in> {''queued'', ''running''})"

definition find_active_for_library :: "string \<Rightarrow> scan_state \<Rightarrow> scan_run option" where
  "find_active_for_library library_id s =
     (case sort_key (\<lambda>r. - sr_created_at r) (filter (\<lambda>r. sr_library_id r = library_id \<and> active r) (sc_runs s)) of
        [] \<Rightarrow> None | r # _ \<Rightarrow> Some r)"

definition get_library :: "string \<Rightarrow> scan_state \<Rightarrow> library option" where
  "get_library i s = table_find lb_id i (sc_libraries s)"

definition get_run :: "string \<Rightarrow> scan_state \<Rightarrow> scan_run option" where
  "get_run i s = table_find sr_id i (sc_runs s)"

definition fail_run :: "scan_env \<Rightarrow> string \<Rightarrow> string \<Rightarrow> scan_state \<Rightarrow> scan_state" where
  "fail_run env i msg = update_run i (\<lambda>r. r\<lparr>sr_status := ''failed'', sr_error := Some msg,
     sr_finished_at := Some (sn_now env)\<rparr>)"

definition DEDUP_MESSAGE :: string where
  "DEDUP_MESSAGE = ''ARQ refused to enqueue this scan because a job '' @ ''with the same id is already on the queue. This '' @
     ''usually means a prior worker crashed without '' @ ''clearing its in-flight jobs. Restart the worker '' @
     ''or wait for the stale-scan reaper to clean up '' @ ''the queued row.''"

definition DEDUP_MESSAGE_ALL :: string where
  "DEDUP_MESSAGE_ALL = ''ARQ refused to enqueue: a job with the same '' @ ''id is already on the queue. Likely a stale job '' @
     ''from a prior worker crash. Restart the worker '' @ ''or wait for the reaper.''"

text \<open>\<open>redis.enqueue\<close> and what the endpoints do with its outcome.\<close>

definition enqueue_scan :: "scan_env \<Rightarrow> string \<Rightarrow> scan_job \<Rightarrow> string \<Rightarrow> scan_state \<Rightarrow> scan_state" where
  "enqueue_scan env dedup_msg job i s =
     (case sn_enqueue env i of
        Enqueued \<Rightarrow> s\<lparr>sc_jobs := sc_jobs s @ [job]\<rparr>
      | Duplicate \<Rightarrow> fail_run env i dedup_msg s
      | QueueDown msg \<Rightarrow> fail_run env i (''queue unavailable: '' @ msg) s)"

text \<open>\<open>trigger_scan\<close>, by way of the queue or in the request; the id of the row is \<open>sn_run_id\<close>.\<close>

definition queue_scan :: "scan_env \<Rightarrow> library \<Rightarrow> string \<Rightarrow> bool \<Rightarrow> scan_state \<Rightarrow> scan_run result \<times> scan_state" where
  "queue_scan env lib mode follow s =
     (let run = new_run env (sn_run_id env) (lb_id lib) mode follow ''queued'' None;
          s1 = enqueue_scan env DEDUP_MESSAGE
            \<lparr>jb_library_id = lb_id lib, jb_mode = mode, jb_follow_symlinks = follow, jb_run_id = Some (sr_id run)\<rparr>
            (sr_id run) (s\<lparr>sc_runs := sc_runs s @ [run]\<rparr>)
      in (Inr (case get_run (sr_id run) s1 of None \<Rightarrow> run | Some r \<Rightarrow> r), s1))"

definition scan_in_request :: "scan_env \<Rightarrow> library \<Rightarrow> string \<Rightarrow> bool \<Rightarrow> scan_state \<Rightarrow> scan_run result \<times> scan_state" where
  "scan_in_request env lib mode follow s =
     (case scan env lib \<lparr>so_mode = mode, so_follow_symlinks = follow, so_max_files = None, so_run_rules = True\<rparr> None s of
        (Inl err, s1) \<Rightarrow> (Inl err, s1)
      | (Inr rep, s1) \<Rightarrow>
          (case get_run (sp_run_id rep) s1 of
             None \<Rightarrow> (Inl (NotFoundError ''Scan run not found after creation''), s1)
           | Some r \<Rightarrow> (Inr r, s1)))"

definition trigger_scan ::
    "scan_env \<Rightarrow> string \<Rightarrow> string \<Rightarrow> bool \<Rightarrow> bool \<Rightarrow> scan_state \<Rightarrow> scan_run result \<times> scan_state" where
  "trigger_scan env library_id mode follow enqueue s =
     (case get_library library_id s of
        None \<Rightarrow> (Inl (NotFoundError ''Library not found''), s)
      | Some lib \<Rightarrow>
          if \<not> lb_enabled lib then (Inl (ValidationError ''Library is disabled''), s)
          else case find_active_for_library (lb_id lib) s of
            Some r \<Rightarrow> (Inl (ConflictError (''A scan is already '' @ sr_status r @ '' for this library (run id ''
                @ sr_id r @ ''). Wait for it to finish before starting another.'')), s)
          | None \<Rightarrow> if enqueue then queue_scan env lib mode follow s else scan_in_request env lib mode follow s)"

text \<open>\<open>trigger_scan_all\<close>; the row of a library is \<open>ids (lb_id lib)\<close>.  The jobs carry no run id.\<close>

fun queue_rows :: "scan_env \<Rightarrow> (string \<Rightarrow> string) \<Rightarrow> string \<Rightarrow> bool \<Rightarrow> library list \<Rightarrow> scan_state \<Rightarrow> scan_run list \<times> scan_state" where
  "queue_rows env ids mode follow [] s = ([], s)"
| "queue_rows env ids mode follow (l # ls) s =
     (if \<not> lb_enabled l \<or> find_active_for_library (lb_id l) s \<noteq> None then queue_rows env ids mode follow ls s
      else
        (let run = new_run env (ids (lb_id l)) (lb_id l) mode follow ''queued'' None;
             (rs, s1) = queue_rows env ids mode follow ls (s\<lparr>sc_runs := sc_runs s @ [run]\<rparr>)
         in (run # rs, s1)))"

fun enqueue_rows :: "scan_env \<Rightarrow> string \<Rightarrow> bool \<Rightarrow> scan_run list \<Rightarrow> scan_state \<Rightarrow> scan_state" where
  "enqueue_rows env mode follow [] s = s"
| "enqueue_rows env mode follow (r # rs) s =
     enqueue_rows env mode follow rs
       (enqueue_scan env DEDUP_MESSAGE_ALL
          \<lparr>jb_library_id = sr_library_id r, jb_mode = mode, jb_follow_symlinks = follow, jb_run_id = None\<rparr> (sr_id r) s)"

definition trigger_scan_all :: "scan_env \<Rightarrow> (string \<Rightarrow> string) \<Rightarrow> string \<Rightarrow> bool \<Rightarrow> scan_state \<Rightarrow> scan_run list \<times> scan_state" where
  "trigger_scan_all env ids mode follow s =
     (let (rs, s1) = queue_rows env ids mode follow (sort_key lb_name (sc_libraries s)) s;
          s2 = enqueue_rows env mode follow rs s1
      in (map (\<lambda>r. case get_run (sr_id r) s2 of None \<Rightarrow> r | Some r' \<Rightarrow> r') rs, s2))"

text \<open>The worker's job: \<open>None\<close> when the library is gone, the status of the row when it is not
  queued any more, otherwise the status a scan reports, or what it raised.\<close>

definition scan_library :: "scan_env \<Rightarrow> scan_job \<Rightarrow> scan_state \<Rightarrow> string result \<times> scan_state" where
  "scan_library env job s =
     (case get_library (jb_library_id job) s of
        None \<Rightarrow> (Inr ''missing'', s)
      | Some lib \<Rightarrow>
          (let opts = \<lparr>so_mode = jb_mode job, so_follow_symlinks = jb_follow_symlinks job,
                       so_max_files = None, so_run_rules = True\<rparr>;
               run = (case jb_run_id job of None \<Rightarrow> None | Some i \<Rightarrow> get_run i s) in
           if (case run of None \<Rightarrow> False | Some r \<Rightarrow> sr_status r \<noteq> ''queued'')
           then (Inr (sr_status (the run)), s)
           else (case scan env lib opts (map_option sr_id run) s of
                   (Inl err, s1) \<Rightarrow> (Inl err, s1) | (Inr rep, s1) \<Rightarrow> (Inr (sp_status rep), s1))))"

definition quoted :: "string \<Rightarrow> string" where
  "quoted t = CHR 0x27 # t @ [CHR 0x27]"

definition reset_message :: "scan_run \<Rightarrow> string" where
  "reset_message r = ''Manually reset by operator (was '' @ quoted (sr_status r) @ ''). '' @
     ''Use this when a scan is stuck because the worker died '' @ ''mid-run; the library is now free for new scans.''"

definition reset_library_scans :: "scan_env \<Rightarrow> string \<Rightarrow> scan_state \<Rightarrow> string list result \<times> scan_state" where
  "reset_library_scans env library_id s =
     (case get_library library_id s of
        None \<Rightarrow> (Inl (NotFoundError ''Library not found''), s)
      | Some lib \<Rightarrow>
          (let stuck = filter (\<lambda>r. sr_library_id r = library_id \<and> active r) (sc_runs s);
               s1 = s\<lparr>sc_runs := map (\<lambda>r. if sr_library_id r = library_id \<and> active r
                       then r\<lparr>sr_status := ''failed'', sr_finished_at := Some (sn_now env),
                              sr_error := Some (reset_message r)\<rparr>
                       else r) (sc_runs s)\<rparr>
           in (Inr (map sr_id stuck),
               if stuck = [] then s
               else update_library library_id (\<lambda>l. l\<lparr>lb_last_scan_status := Some ''failed''\<rparr>) s1)))"

definition STALE_THRESHOLD_SECONDS :: int where "STALE_THRESHOLD_SECONDS = 3600"

definition reference_ts :: "scan_run \<Rightarrow> int" where
  "reference_ts r = (case sr_started_at r of None \<Rightarrow> sr_created_at r | Some t \<Rightarrow> t)"

definition stale :: "scan_env \<Rightarrow> scan_run \<Rightarrow> bool" where
  "stale env r = (active r \<and> reference_ts r < sn_now env - STALE_THRESHOLD_SECONDS * 1000000)"

definition age_seconds :: "scan_env \<Rightarrow> scan_run \<Rightarrow> int" where
  "age_seconds env r = (sn_now env - reference_ts r) div 1000000"

definition reap_message :: "scan_env \<Rightarrow> scan_run \<Rightarrow> string" where
  "reap_message env r = ''Reaped by stale-scan watchdog: row was stuck at '' @ quoted (sr_status r) @ '' for '' @
     str_int (age_seconds env r) @ ''s (threshold '' @ str_int STALE_THRESHOLD_SECONDS @ ''s). The worker '' @
     ''likely crashed mid-scan; check journalctl for '' @ ''OOM-killer or SIGKILL events around that time. The '' @
     ''library is now unblocked for new scans.''"

definition reap_stale_scans :: "scan_env \<Rightarrow> scan_state \<Rightarrow> string list \<times> scan_state" where
  "reap_stale_scans env s =
     (let stuck = filter (stale env) (sc_runs s);
          s1 = s\<lparr>sc_runs := map (\<lambda>r. if stale env r
              then r\<lparr>sr_status := ''failed'', sr_finished_at := Some (sn_now env), sr_error := Some (reap_message env r)\<rparr>
              else r) (sc_runs s)\<rparr>;
          s2 = fold (\<lambda>r. update_library (sr_library_id r) (\<lambda>l. l\<lparr>lb_last_scan_status := Some ''failed''\<rparr>)) stuck s1
      in (map sr_id stuck,
          s2\<lparr>sc_store := fold (\<lambda>r. emit True ''scan.reaped''
             [(''run_id'', PyStr (sr_id r)), (''library_id'', PyStr (sr_library_id r)),
              (''previous_status'', PyStr ''queued''), (''age_seconds'', PyInt (age_seconds env r))]
             ''worker.reap_stale_scans'') stuck (sc_store s2)\<rparr>))"

end
