(* ===== verification/ScanGuarantees.thy ===== *)
theory ScanGuarantees
  imports Scanner RuleGuarantees
begin

text \<open>
  What a scan guarantees: the rows of the library afterwards are the reconciliation of the walk with
  the rows before (\<open>reconcile\<close>), whatever the outcome the run row ends in the state the report
  says, and the paths by which a scan is started keep one scan per library, or do not.
\<close>

interpretation media_paths: keyed_table mf_path refresh_columns
  by unfold_locales (simp add: refresh_columns_def)

section \<open>Reconciliation\<close>

lemma scanned_row_path [simp]: "mf_path (scanned_row env lib run_id d e) = se_path e"
  by (simp add: scanned_row_def apply_disposition_def build_media_file_def probe_columns_def Let_def split: option.split)

lemma scanned_row_fields [simp]:
  "mf_library_id (scanned_row env lib run_id d e) = lb_id lib"
  "mf_last_scan_id (scanned_row env lib run_id d e) = Some run_id"
  "mf_is_orphaned (scanned_row env lib run_id d e) = False"
  by (simp_all add: scanned_row_def apply_disposition_def build_media_file_def probe_columns_def Let_def split: option.split)

lemma refresh_columns_fields [simp]:
  "mf_path (refresh_columns x r) = mf_path x" "mf_id (refresh_columns x r) = mf_id x"
  "mf_library_id (refresh_columns x r) = mf_library_id r" "mf_last_scan_id (refresh_columns x r) = mf_last_scan_id r"
  "mf_is_orphaned (refresh_columns x r) = mf_is_orphaned r" "mf_severity (refresh_columns x r) = mf_severity x"
  "mf_hash_sha256 (refresh_columns x r) = mf_hash_sha256 x" "mf_vt_status (refresh_columns x r) = mf_vt_status x"
  by (simp_all add: refresh_columns_def)

text \<open>Many upserts at once: rows found are refreshed in place, the others are appended.\<close>

definition merge_rows :: "media_file list \<Rightarrow> media_file list \<Rightarrow> media_file list" where
  "merge_rows rows t =
     map (\<lambda>m. case table_find mf_path (mf_path m) rows of None \<Rightarrow> m | Some r \<Rightarrow> refresh_columns m r) t
     @ filter (\<lambda>r. table_find mf_path (mf_path r) t = None) rows"

lemma fold_upsert:
  "distinct (map mf_path rows) \<Longrightarrow>
     fold (table_upsert mf_path refresh_columns) rows t = merge_rows rows t"
proof (induction rows arbitrary: t)
  case Nil
  then show ?case by (simp add: merge_rows_def)
next
  case (Cons r rows)
  then have new: "table_find mf_path (mf_path r) rows = None" by (auto simp: table_find_None_iff)
  show ?case
  proof (cases "table_find mf_path (mf_path r) t")
    case None
    have m: "mf_path m \<noteq> mf_path r" if "m \<in> set t" for m
      using None that by (metis image_eqI table_find_None_iff)
    have "filter (\<lambda>x. table_find mf_path (mf_path x) (t @ [r]) = None) rows =
        filter (\<lambda>x. table_find mf_path (mf_path x) t = None) rows"
      using Cons.prems by (intro filter_cong) (auto simp: table_find_append split: option.split)
    moreover have "map (\<lambda>m. case table_find mf_path (mf_path m) (r # rows) of None \<Rightarrow> m | Some x \<Rightarrow> refresh_columns m x) t =
        map (\<lambda>m. case table_find mf_path (mf_path m) rows of None \<Rightarrow> m | Some x \<Rightarrow> refresh_columns m x) t"
    proof (rule map_cong)
      fix x assume "x \<in> set t"
      from m [OF this] have "mf_path r \<noteq> mf_path x" by simp
      then show "(case table_find mf_path (mf_path x) (r # rows) of None \<Rightarrow> x | Some y \<Rightarrow> refresh_columns x y) =
        (case table_find mf_path (mf_path x) rows of None \<Rightarrow> x | Some y \<Rightarrow> refresh_columns x y)" by simp
    qed simp
    ultimately show ?thesis
      using Cons.IH [of "t @ [r]"] Cons.prems None new by (simp add: merge_rows_def table_upsert_def)
  next
    case (Some y)
    let ?t = "map (\<lambda>x. if mf_path x = mf_path r then refresh_columns x r else x) t"
    have keys: "map mf_path ?t = map mf_path t" by simp
    then have "mf_path ` set ?t = mf_path ` set t" by (metis list.set_map)
    then have absent: "table_find mf_path p ?t = None \<longleftrightarrow> table_find mf_path p t = None" for p
      by (simp only: table_find_None_iff)
    have step: "(case table_find mf_path (mf_path m) (r # rows) of None \<Rightarrow> m | Some x \<Rightarrow> refresh_columns m x) =
        (case table_find mf_path (mf_path (if mf_path m = mf_path r then refresh_columns m r else m)) rows of
           None \<Rightarrow> (if mf_path m = mf_path r then refresh_columns m r else m)
         | Some x \<Rightarrow> refresh_columns (if mf_path m = mf_path r then refresh_columns m r else m) x)" for m
      using new by (cases "mf_path m = mf_path r") auto
    have "fold (table_upsert mf_path refresh_columns) (r # rows) t = merge_rows rows ?t"
      using Cons.IH [of ?t] Cons.prems Some by (simp add: table_upsert_def [of _ _ r])
    also have "\<dots> = merge_rows (r # rows) t"
      unfolding merge_rows_def absent step using Some by (simp add: comp_def)
    finally show ?thesis .
  qed
qed

section \<open>The loop\<close>

definition kept :: "(string \<Rightarrow> string option) \<Rightarrow> scan_entry list \<Rightarrow> scan_entry list" where
  "kept d es = filter (\<lambda>e. d (file_extension (se_name e)) \<noteq> Some ''ignore'') es"

text \<open>The files the loop reaches under the cap.\<close>

definition visited :: "scan_options \<Rightarrow> scan_entry list \<Rightarrow> scan_entry list" where
  "visited opts es = (case so_max_files opts of None \<Rightarrow> es | Some k \<Rightarrow> take (nat k) es)"

text \<open>The VirusTotal step cannot raise: no enabled integration, or the plugin is there and no scope
  is configured under the key the scan reads.\<close>

definition vt_quiet :: "scan_env \<Rightarrow> integration option \<Rightarrow> bool" where
  "vt_quiet env vt = (case vt of None \<Rightarrow> True | Some i \<Rightarrow> sv_vt_plugin (sn_svc env) \<and> vt_options_of i = None)"

lemma vt_quiet_ok:
  "vt_quiet env vt \<Longrightarrow> \<exists>st'. vt_enqueue env vt m st = Inr st' \<and> st_media st' = st_media st"
  by (auto simp: vt_quiet_def vt_enqueue_def enqueue_for_vt_lookup_def Let_def split: option.splits)

lemma st_media_emit [simp]: "st_media (scan_emit n p st) = st_media st"
  by (simp add: scan_emit_def emit_def)

lemma st_media_upsert [simp]: "st_media (upsert_by_path m st) = table_upsert mf_path refresh_columns m (st_media st)"
  by (simp add: upsert_by_path_def)

definition probe_failed :: "scan_env \<Rightarrow> scan_entry \<Rightarrow> bool" where
  "probe_failed env e = (case probe_of env e of None \<Rightarrow> False | Some p \<Rightarrow> \<not> fp_ok p)"

lemma scan_file_quiet:
  assumes "vt_quiet env vt"
  shows "\<exists>acc'. scan_file env lib run_id tot d vt e acc = (None, acc')
    \<and> st_media (ac_store acc') = table_upsert mf_path refresh_columns (scanned_row env lib run_id d e) (st_media (ac_store acc))
    \<and> ac_seen acc' = ac_seen acc
    \<and> ac_added acc' = ac_added acc + (if get_by_path (se_path e) (ac_store acc) = None then 1 else 0)
    \<and> ac_updated acc' = ac_updated acc + (if get_by_path (se_path e) (ac_store acc) = None then 0 else 1)
    \<and> ac_probe_failures acc' = ac_probe_failures acc + (if probe_failed env e then 1 else 0)"
proof -
  let ?st1 = "upsert_by_path (scanned_row env lib run_id d e) (ac_store acc)"
  define saved where "saved = (case get_by_path (se_path e) ?st1 of None \<Rightarrow> scanned_row env lib run_id d e | Some m \<Rightarrow> m)"
  define st2 where "st2 = (if get_by_path (se_path e) (ac_store acc) = None
    then scan_emit ''media.added'' [(''id'', PyStr (mf_id saved)), (''path'', PyStr (mf_path saved))] ?st1 else ?st1)"
  obtain st3 where st3: "vt_enqueue env vt saved st2 = Inr st3" "st_media st3 = st_media st2"
    using vt_quiet_ok [OF assms] by blast
  have "st_media st2 = st_media ?st1" by (simp add: st2_def)
  moreover have "(case probe_of env e of None \<Rightarrow> 0 | Some p \<Rightarrow> if fp_ok p then 0 else 1) = (if probe_failed env e then 1 else (0 :: int))"
    by (simp add: probe_failed_def split: option.split)
  ultimately show ?thesis
    using st3 unfolding scan_file_def Let_def saved_def [symmetric] st2_def [symmetric] by simp
qed

lemma over_cap_Suc:
  "ac_seen acc \<ge> 0 \<Longrightarrow> over_cap opts (ac_seen acc + 1) \<longleftrightarrow>
     (\<exists>k. so_max_files opts = Some k \<and> k \<le> ac_seen acc)"
  by (auto simp: over_cap_def split: option.splits)

text \<open>What remains of the cap after \<open>n\<close> files.\<close>

definition capped :: "scan_options \<Rightarrow> int \<Rightarrow> 'a list \<Rightarrow> 'a list" where
  "capped opts n es = (case so_max_files opts of None \<Rightarrow> es | Some k \<Rightarrow> take (nat (k - n)) es)"

lemma scan_loop_quiet:
  assumes "vt_quiet env vt" "distinct (map se_path es)" "0 \<le> ac_seen acc"
  shows "\<exists>acc'. scan_loop env opts lib run_id tot d vt es acc = (None, acc')
    \<and> st_media (ac_store acc') =
        fold (table_upsert mf_path refresh_columns) (map (scanned_row env lib run_id d) (kept d (capped opts (ac_seen acc) es)))
          (st_media (ac_store acc))
    \<and> ac_seen acc' = ac_seen acc + int (length (capped opts (ac_seen acc) es))
        + (if length (capped opts (ac_seen acc) es) < length es then 1 else 0)
    \<and> ac_added acc' = ac_added acc +
        int (length (filter (\<lambda>e. get_by_path (se_path e) (ac_store acc) = None) (kept d (capped opts (ac_seen acc) es))))
    \<and> ac_updated acc' = ac_updated acc +
        int (length (filter (\<lambda>e. get_by_path (se_path e) (ac_store acc) \<noteq> None) (kept d (capped opts (ac_seen acc) es))))
    \<and> ac_probe_failures acc' = ac_probe_failures acc +
        int (length (filter (probe_failed env) (kept d (capped opts (ac_seen acc) es))))"
  using assms(2,3)
proof (induction es arbitrary: acc)
  case Nil
  then show ?case by (simp add: capped_def kept_def split: option.split)
next
  case (Cons e es)
  let ?acc1 = "acc\<lparr>ac_seen := ac_seen acc + 1\<rparr>"
  show ?case
  proof (cases "over_cap opts (ac_seen acc + 1)")
    case True
    then have "capped opts (ac_seen acc) (e # es) = []"
      using Cons.prems by (auto simp: over_cap_Suc capped_def)
    then show ?thesis using True by (simp add: kept_def)
  next
    case False
    then have c: "capped opts (ac_seen acc) (e # es) = e # capped opts (ac_seen acc + 1) es"
    proof (cases "so_max_files opts")
      case (Some k)
      with False Cons.prems have "ac_seen acc < k" by (simp add: over_cap_Suc)
      then have "nat (k - ac_seen acc) = Suc (nat (k - (ac_seen acc + 1)))" by simp
      with Some show ?thesis by (simp add: capped_def)
    qed (simp add: capped_def)
    show ?thesis
    proof (cases "d (file_extension (se_name e)) = Some ''ignore''")
      case True
      with False c Cons.IH [of ?acc1] Cons.prems show ?thesis by (auto simp: kept_def Let_def)
    next
      case go: False
      obtain acc2 where a2: "scan_file env lib run_id tot d vt e ?acc1 = (None, acc2)"
        "st_media (ac_store acc2) = table_upsert mf_path refresh_columns (scanned_row env lib run_id d e) (st_media (ac_store acc))"
        "ac_seen acc2 = ac_seen acc + 1"
        "ac_added acc2 = ac_added acc + (if get_by_path (se_path e) (ac_store acc) = None then 1 else 0)"
        "ac_updated acc2 = ac_updated acc + (if get_by_path (se_path e) (ac_store acc) = None then 0 else 1)"
        "ac_probe_failures acc2 = ac_probe_failures acc + (if probe_failed env e then 1 else 0)"
        using scan_file_quiet [OF assms(1), of lib run_id tot d e ?acc1] by auto
      have same: "get_by_path (se_path e') (ac_store acc2) = None \<longleftrightarrow> get_by_path (se_path e') (ac_store acc) = None"
        if "e' \<in> set es" for e'
      proof -
        have "se_path e \<notin> se_path ` set es" using Cons.prems(1) by simp
        with that have "se_path e' \<noteq> se_path e" by (metis imageI)
        then show ?thesis
          using a2(2) media_paths.upsert_keys [of "scanned_row env lib run_id d e" "st_media (ac_store acc)"]
          by (auto simp: get_by_path_def table_find_None_iff)
      qed
      have sub: "set (kept d (capped opts (ac_seen acc + 1) es)) \<subseteq> set es"
        by (auto simp: kept_def capped_def split: option.splits dest: in_set_takeD)
      have same': "get_by_path (se_path x) (ac_store acc2) = None \<longleftrightarrow> get_by_path (se_path x) (ac_store acc) = None"
        if "x \<in> set (kept d (capped opts (ac_seen acc + 1) es))" for x
        using same sub that by blast
      have f: "filter (\<lambda>e. get_by_path (se_path e) (ac_store acc2) = None) (kept d (capped opts (ac_seen acc + 1) es)) =
          filter (\<lambda>e. get_by_path (se_path e) (ac_store acc) = None) (kept d (capped opts (ac_seen acc + 1) es))"
        "filter (\<lambda>e. get_by_path (se_path e) (ac_store acc2) \<noteq> None) (kept d (capped opts (ac_seen acc + 1) es)) =
          filter (\<lambda>e. get_by_path (se_path e) (ac_store acc) \<noteq> None) (kept d (capped opts (ac_seen acc + 1) es))"
        using same' by (simp_all cong: filter_cong)
      from False go a2(1) have "scan_loop env opts lib run_id tot d vt (e # es) acc = scan_loop env opts lib run_id tot d vt es acc2"
        by (simp add: Let_def)
      moreover have "kept d (capped opts (ac_seen acc) (e # es)) = e # kept d (capped opts (ac_seen acc + 1) es)"
        using go c by (simp add: kept_def)
      moreover have pre: "distinct (map se_path es)" "0 \<le> ac_seen acc2" using Cons.prems a2(3) by simp_all
      obtain acc' where ih: "scan_loop env opts lib run_id tot d vt es acc2 = (None, acc')"
        "st_media (ac_store acc') =
          fold (table_upsert mf_path refresh_columns) (map (scanned_row env lib run_id d) (kept d (capped opts (ac_seen acc2) es)))
            (st_media (ac_store acc2))"
        "ac_seen acc' = ac_seen acc2 + int (length (capped opts (ac_seen acc2) es))
          + (if length (capped opts (ac_seen acc2) es) < length es then 1 else 0)"
        "ac_added acc' = ac_added acc2 +
          int (length (filter (\<lambda>e. get_by_path (se_path e) (ac_store acc2) = None) (kept d (capped opts (ac_seen acc2) es))))"
        "ac_updated acc' = ac_updated acc2 +
          int (length (filter (\<lambda>e. get_by_path (se_path e) (ac_store acc2) \<noteq> None) (kept d (capped opts (ac_seen acc2) es))))"
        "ac_probe_failures acc' = ac_probe_failures acc2 +
          int (length (filter (probe_failed env) (kept d (capped opts (ac_seen acc2) es))))"
        using Cons.IH [OF pre] by blast
      ultimately show ?thesis
        by (intro exI [of _ acc']) (simp add: ih a2(2-6) c f del: scan_loop.simps not_None_eq)
    qed
  qed
qed

section \<open>The outcome of a scan\<close>

lemma find_merge_rows:
  assumes "distinct (map mf_path rows)"
  shows "table_find mf_path p (merge_rows rows t) =
    (case table_find mf_path p t of
       None \<Rightarrow> table_find mf_path p rows
     | Some m \<Rightarrow> Some (case table_find mf_path p rows of None \<Rightarrow> m | Some r \<Rightarrow> refresh_columns m r))"
proof -
  let ?f = "\<lambda>m. case table_find mf_path (mf_path m) rows of None \<Rightarrow> m | Some r \<Rightarrow> refresh_columns m r"
  have f: "table_find mf_path p (map ?f t) = map_option ?f (table_find mf_path p t)"
    by (rule table_find_map) (simp split: option.split)
  have k: "mf_path m = p" if "table_find mf_path p u = Some m" for m u using that by (auto dest: table_find_SomeD)
  show ?thesis
  proof (cases "table_find mf_path p t")
    case None
    then show ?thesis
      using assms k [of rows] by (auto simp: merge_rows_def table_find_append f table_find_filter unique_keys_def split: option.split)
  next
    case (Some m)
    then show ?thesis using k [OF Some] by (simp add: merge_rows_def table_find_append f)
  qed
qed

lemma find_scanned:
  "table_find mf_path p (map (scanned_row env lib run_id d) es) =
     map_option (scanned_row env lib run_id d) (find (\<lambda>e. se_path e = p) es)"
  by (induction es) auto

lemma find_mark_orphans:
  "table_find mf_path p (st_media (snd (mark_orphans l i st))) =
     map_option (\<lambda>m. if untouched l i m then m\<lparr>mf_is_orphaned := True\<rparr> else m) (table_find mf_path p (st_media st))"
  unfolding mark_orphans_def by (simp add: table_find_map)

text \<open>What a path holds after a walk that kept the entries \<open>es\<close>: a visited file is inserted or its
  row refreshed, a row the walk did not touch is orphaned, anything else stays.\<close>

definition reconciled ::
    "scan_env \<Rightarrow> library \<Rightarrow> string \<Rightarrow> (string \<Rightarrow> string option) \<Rightarrow> scan_entry list \<Rightarrow> store \<Rightarrow> string \<Rightarrow> media_file option" where
  "reconciled env lib run_id d es st p =
     (case find (\<lambda>e. se_path e = p) es of
        Some e \<Rightarrow> (let r = scanned_row env lib run_id d e in
                   Some (case get_by_path p st of None \<Rightarrow> r | Some m \<Rightarrow> refresh_columns m r))
      | None \<Rightarrow> map_option (\<lambda>m. if untouched (lb_id lib) run_id m then m\<lparr>mf_is_orphaned := True\<rparr> else m)
                  (get_by_path p st))"

lemma touched [simp]:
  "\<not> untouched l i (scanned_row env lib i d e)" "\<not> untouched l i (refresh_columns m (scanned_row env lib i d e))"
  by (simp_all add: untouched_def)

lemma distinct_kept: "distinct (map se_path es) \<Longrightarrow> distinct (map se_path (kept d (capped opts n es)))"
proof -
  assume d: "distinct (map se_path es)"
  have "distinct (map se_path (capped opts n es))"
    using d by (simp add: capped_def distinct_take take_map [symmetric] split: option.split)
  then show ?thesis unfolding kept_def by (simp add: distinct_map inj_on_def)
qed

lemma reconciled_orphans:
  assumes "distinct (map se_path es)"
    and "st_media st' = merge_rows (map (scanned_row env lib run_id d) es) (st_media st)"
  shows "table_find mf_path p (st_media (snd (mark_orphans (lb_id lib) run_id st'))) = reconciled env lib run_id d es st p"
proof -
  have "distinct (map mf_path (map (scanned_row env lib run_id d) es))" using assms(1) by (simp add: comp_def)
  then show ?thesis
    unfolding find_mark_orphans assms(2) reconciled_def
    by (cases "find (\<lambda>e. se_path e = p) es"; cases "table_find mf_path p (st_media st)")
      (simp_all add: find_merge_rows find_scanned get_by_path_def Let_def)
qed

lemma orphan_count:
  assumes "distinct (map se_path es)"
    and "st_media st' = merge_rows (map (scanned_row env lib run_id d) es) (st_media st)"
  shows "fst (mark_orphans (lb_id lib) run_id st') =
    length (filter (\<lambda>m. untouched (lb_id lib) run_id m \<and> mf_path m \<notin> se_path ` set es) (st_media st))"
proof -
  let ?rows = "map (scanned_row env lib run_id d) es"
  let ?f = "\<lambda>m. case table_find mf_path (mf_path m) ?rows of None \<Rightarrow> m | Some r \<Rightarrow> refresh_columns m r"
  have none: "table_find mf_path p ?rows = None \<longleftrightarrow> p \<notin> se_path ` set es" for p
    by (simp add: table_find_None_iff image_image)
  have u: "untouched (lb_id lib) run_id (?f m) \<longleftrightarrow> untouched (lb_id lib) run_id m \<and> mf_path m \<notin> se_path ` set es" for m
    using none [of "mf_path m"] by (auto simp: find_scanned split: option.split)
  have "filter (untouched (lb_id lib) run_id) (filter P ?rows) = []" for P by (auto simp: filter_empty_conv)
  then show ?thesis
    by (simp add: mark_orphans_def assms(2) merge_rows_def filter_map comp_def u)
qed

lemma update_run_store [simp]:
  "sc_store (update_run i f s) = sc_store s" "sc_libraries (update_run i f s) = sc_libraries s"
  "sc_ext_rules (update_run i f s) = sc_ext_rules s" "sc_jobs (update_run i f s) = sc_jobs s"
  by (simp_all add: update_run_def)

lemma update_library_frame [simp]:
  "sc_store (update_library i f s) = sc_store s" "sc_runs (update_library i f s) = sc_runs s"
  "sc_jobs (update_library i f s) = sc_jobs s"
  by (simp_all add: update_library_def)

lemma begin_run_frame [simp]:
  "sc_store (snd (begin_run env lib opts run s)) = sc_store s"
  "sc_libraries (snd (begin_run env lib opts run s)) = sc_libraries s"
  "sc_ext_rules (snd (begin_run env lib opts run s)) = sc_ext_rules s"
  "sc_jobs (snd (begin_run env lib opts run s)) = sc_jobs s"
  "fst (begin_run env lib opts run s) = (case run of None \<Rightarrow> sn_run_id env | Some i \<Rightarrow> i)"
  by (simp_all add: begin_run_def split: option.split)

lemma vt_row_emit [simp]: "vt_row (scan_emit n p st) = vt_row st"
  by (simp add: vt_row_def scan_emit_def emit_def)

lemma get_by_path_emit [simp]: "get_by_path q (scan_emit n p st) = get_by_path q st"
  by (simp add: get_by_path_def)

lemma load_disposition_frame: "sc_ext_rules s = sc_ext_rules s' \<Longrightarrow> load_disposition_map s = load_disposition_map s'"
  by (simp add: load_disposition_map_def)

text \<open>What a scan returns once its loop has run: the report, unless the rules pass raised.\<close>

definition scan_result :: "nat result \<Rightarrow> scan_report \<Rightarrow> scan_report result" where
  "scan_result passed rep = (case passed of Inl _ \<Rightarrow> Inl MissingGreenlet | Inr _ \<Rightarrow> Inr rep)"

lemma scan_completed_shape:
  assumes "scan_completed env lib opts run_id tot acc s = (res, s')"
    and "st = scan_emit ''scan.progress'' (progress_payload run_id lib (ac_seen acc) tot) (ac_store acc)"
    and "mark_orphans (lb_id lib) run_id st = (n, st2)"
    and "rep = report_of run_id acc (int n) ''completed'' None"
  shows "res = scan_result (fst (rules_pass env lib opts st2)) rep"
    and "st_media (sc_store s') = st_media (snd (rules_pass env lib opts st2))"
    and "res = Inl MissingGreenlet \<Longrightarrow> sc_store s' = st2"
    and "sc_runs s' = map (\<lambda>r. if sr_id r = run_id then r\<lparr>sr_status := ''completed'', sr_finished_at := Some (sn_now env),
                 sr_files_seen := ac_seen acc, sr_files_added := ac_added acc, sr_files_updated := ac_updated acc,
                 sr_files_orphaned := int n, sr_probe_failures := ac_probe_failures acc\<rparr> else r) (sc_runs s)"
    and "sc_jobs s' = sc_jobs s"
    and "sc_libraries s' = map (\<lambda>l. if lb_id l = lb_id lib then l\<lparr>lb_last_scan_at := Some (sn_now env),
          lb_last_scan_status := Some ''completed'', lb_last_scan_file_count := Some (ac_seen acc)\<rparr> else l) (sc_libraries s)"
proof -
  obtain x st3 where p: "rules_pass env lib opts st2 = (x, st3)" by fastforce
  then have same: "x = Inl e \<Longrightarrow> st3 = st2" for e by (auto simp: rules_pass_def split: if_splits sum.splits)
  note d = assms(1) [unfolded scan_completed_def Let_def, folded assms(2), unfolded assms(3) prod.case p]
  show "res = scan_result (fst (rules_pass env lib opts st2)) rep"
    and "st_media (sc_store s') = st_media (snd (rules_pass env lib opts st2))"
    and "res = Inl MissingGreenlet \<Longrightarrow> sc_store s' = st2"
    and "sc_jobs s' = sc_jobs s"
    using d same by (cases x; auto simp: p scan_result_def assms(4))+
  show "sc_runs s' = map (\<lambda>r. if sr_id r = run_id then r\<lparr>sr_status := ''completed'', sr_finished_at := Some (sn_now env),
                 sr_files_seen := ac_seen acc, sr_files_added := ac_added acc, sr_files_updated := ac_updated acc,
                 sr_files_orphaned := int n, sr_probe_failures := ac_probe_failures acc\<rparr> else r) (sc_runs s)"
    using d by (cases x; clarsimp simp: update_run_def simp del: map_eq_conv)
  show "sc_libraries s' = map (\<lambda>l. if lb_id l = lb_id lib then l\<lparr>lb_last_scan_at := Some (sn_now env),
          lb_last_scan_status := Some ''completed'', lb_last_scan_file_count := Some (ac_seen acc)\<rparr> else l) (sc_libraries s)"
    using d by (cases x; clarsimp simp: update_run_def update_library_def simp del: map_eq_conv)
qed

lemma completed_raises:
  "scan_completed env lib opts i tot acc s = (Inl err, s') \<Longrightarrow>
     err = MissingGreenlet \<and> so_run_rules opts
     \<and> (\<exists>e. evaluate_library (sn_svc env) (sn_now env) (lb_id lib) [] (sc_store s') = Inl e)"
  by (auto simp: scan_completed_def Let_def rules_pass_def split: prod.splits sum.splits if_splits)

lemma fold_upsert_unique:
  "unique_keys mf_path t \<Longrightarrow> unique_keys mf_path (fold (table_upsert mf_path refresh_columns) rows t)"
  by (induction rows arbitrary: t) (simp_all add: media_paths.upsert_unique)

text \<open>A scan over a walk that succeeds, with a quiet VirusTotal step, runs its loop to the end.\<close>

lemma scan_runs_loop:
  assumes walk: "enumerate_files env (lb_root_path lib) opts = Inr es"
    and paths: "distinct (map se_path es)"
    and quiet: "vt_quiet env (vt_row (sc_store s))"
    and i: "i = (case run of None \<Rightarrow> sn_run_id env | Some i \<Rightarrow> i)"
    and d: "d = load_disposition_map s"
    and ks: "ks = kept d (capped opts 0 es)"
  obtains acc s1 where
    "scan env lib opts run s = scan_completed env lib opts i (int (length es)) acc s1"
    "st_media (ac_store acc) =
       fold (table_upsert mf_path refresh_columns) (map (scanned_row env lib i d) ks) (st_media (sc_store s))"
    "ac_seen acc = int (length (capped opts 0 es)) + (if length (capped opts 0 es) < length es then 1 else 0)"
    "ac_added acc = int (length (filter (\<lambda>e. get_by_path (se_path e) (sc_store s) = None) ks))"
    "ac_updated acc = int (length (filter (\<lambda>e. get_by_path (se_path e) (sc_store s) \<noteq> None) ks))"
    "ac_probe_failures acc = int (length (filter (probe_failed env) ks))"
proof -
  obtain s1 where b: "begin_run env lib opts run s = (i, s1)"
    using begin_run_frame(5) [of env lib opts run s] by (cases "begin_run env lib opts run s") (simp add: i)
  have s1: "sc_store s1 = sc_store s" "load_disposition_map s1 = d"
    using begin_run_frame(1,3) [of env lib opts run s] b by (simp_all add: d load_disposition_map_def)
  define st1 where "st1 = scan_emit ''scan.started'' [(''run_id'', PyStr i), (''library_id'', PyStr (lb_id lib)),
                  (''mode'', PyStr (so_mode opts))] (sc_store s)"
  define acc where "acc = \<lparr>ac_seen = 0, ac_added = 0, ac_updated = 0, ac_probe_failures = 0,
    ac_store = scan_emit ''scan.progress'' (progress_payload i lib 0 (int (length es))) st1\<rparr>"
  have a: "ac_seen acc = 0" "ac_added acc = 0" "ac_updated acc = 0" "ac_probe_failures acc = 0"
    "st_media (ac_store acc) = st_media (sc_store s)" "\<And>p. get_by_path p (ac_store acc) = get_by_path p (sc_store s)"
    by (simp_all add: acc_def st1_def)
  obtain acc' where l: "scan_loop env opts lib i (int (length es)) d (vt_row st1) es acc = (None, acc')"
    and m: "st_media (ac_store acc') =
      fold (table_upsert mf_path refresh_columns) (map (scanned_row env lib i d) ks) (st_media (sc_store s))"
    and c: "ac_seen acc' = int (length (capped opts 0 es)) + (if length (capped opts 0 es) < length es then 1 else 0)"
      "ac_added acc' = int (length (filter (\<lambda>e. get_by_path (se_path e) (sc_store s) = None) ks))"
      "ac_updated acc' = int (length (filter (\<lambda>e. get_by_path (se_path e) (sc_store s) \<noteq> None) ks))"
      "ac_probe_failures acc' = int (length (filter (probe_failed env) ks))"
    using scan_loop_quiet [of env "vt_row st1" es acc opts lib i "int (length es)" d] quiet paths
    unfolding a ks [symmetric] by (auto simp: st1_def)
  have "scan env lib opts run s = scan_completed env lib opts i (int (length es)) acc' (s1\<lparr>sc_store := ac_store acc'\<rparr>)"
    using b walk l s1 unfolding scan_def by (simp add: st1_def acc_def Let_def)
  from that [OF this m c] show thesis .
qed

section \<open>The run row\<close>

lemma runs_update_run: "sc_runs (update_run i f s) = map (\<lambda>r. if sr_id r = i then f r else r) (sc_runs s)"
  by (simp add: update_run_def)

definition same_run :: "string \<Rightarrow> scan_run list \<Rightarrow> scan_run list \<Rightarrow> bool" where
  "same_run i rs rs' = (filter (\<lambda>r. sr_id r \<noteq> i) rs' = filter (\<lambda>r. sr_id r \<noteq> i) rs)"

lemma filter_other_map: "(\<And>r. sr_id (f r) = sr_id r) \<Longrightarrow>
  filter (\<lambda>r. sr_id r \<noteq> i) (map (\<lambda>r. if sr_id r = i then f r else r) rs) = filter (\<lambda>r. sr_id r \<noteq> i) rs"
  by (induction rs) auto

text \<open>The row of the run, in the state the report tells.\<close>

definition settled :: "scan_env \<Rightarrow> scan_report \<Rightarrow> scan_run \<Rightarrow> bool" where
  "settled env rep r = (sr_status r = sp_status rep \<and> sr_finished_at r = Some (sn_now env)
     \<and> (sp_status rep = ''completed'' \<longrightarrow> sr_files_seen r = sp_files_seen rep \<and> sr_files_added r = sp_files_added rep
          \<and> sr_files_updated r = sp_files_updated rep \<and> sr_files_orphaned r = sp_files_orphaned rep
          \<and> sr_probe_failures r = sp_probe_failures rep)
     \<and> (sp_status rep = ''failed'' \<longrightarrow> (\<exists>e. sp_error rep = Some e \<and> sr_error r = Some (py_take 2000 e))))"

lemma map_run_rows:
  assumes "rs' = map (\<lambda>r. if sr_id r = i then f r else r) rs" "\<And>r. sr_id (f r) = sr_id r"
  shows "same_run i rs rs'" "map sr_id rs' = map sr_id rs" "(\<And>r. P (f r)) \<Longrightarrow> \<forall>r\<in>set rs'. sr_id r = i \<longrightarrow> P r"
  using assms by (auto simp: same_run_def filter_other_map)

text \<open>C11. A scan whose root can be walked reconciles the library with the disk.  Whatever the table held,
  the rules pass of the scan starts from a table with one row per path in which every file the walk
  reached (up to the cap, extensions marked \<open>ignore\<close> left out) is inserted or has its scanned
  columns refreshed with its severity, hash and VirusTotal verdict kept, every row of the library last
  stamped by another scan is orphaned, and every other row is untouched; and the row of the run, which is the
  report where the rules pass does not raise, counts the files seen, inserted, refreshed, failed by ffprobe and
  orphaned.  Three things are not as documented: the severity of an extension's disposition reaches new rows
  only, as a row that exists keeps its own; a row of an ignored extension that was indexed before is
  orphaned like any other the scan did not reach, and a scan cut short by \<open>max_files\<close> counts one file
  more than it handled.
\<close>

theorem scan_reconciles:
  assumes "enumerate_files env (lb_root_path lib) opts = Inr es"
    and "distinct (map se_path es)"
    and unique: "unique_keys mf_path (st_media (sc_store s))"
    and "vt_quiet env (vt_row (sc_store s))"
    and scan: "scan env lib opts run s = (res, s')"
    and "i = (case run of None \<Rightarrow> sn_run_id env | Some i \<Rightarrow> i)"
    and "d = load_disposition_map s"
    and ks: "ks = kept d (capped opts 0 es)"
  shows "\<exists>st rep. (\<forall>p. get_by_path p st = reconciled env lib i d ks (sc_store s) p)
    \<and> unique_keys mf_path (st_media st)
    \<and> st_media (sc_store s') = st_media (snd (rules_pass env lib opts st))
    \<and> res = scan_result (fst (rules_pass env lib opts st)) rep
    \<and> (\<forall>r\<in>set (sc_runs s'). sr_id r = i \<longrightarrow> settled env rep r)
    \<and> sp_status rep = ''completed''
    \<and> sp_files_seen rep = int (length (capped opts 0 es)) + (if length (capped opts 0 es) < length es then 1 else 0)
    \<and> sp_files_added rep = int (length (filter (\<lambda>e. get_by_path (se_path e) (sc_store s) = None) ks))
    \<and> sp_files_updated rep = int (length (filter (\<lambda>e. get_by_path (se_path e) (sc_store s) \<noteq> None) ks))
    \<and> sp_probe_failures rep = int (length (filter (probe_failed env) ks))
    \<and> sp_files_orphaned rep =
      int (length (filter (\<lambda>m. untouched (lb_id lib) i m \<and> mf_path m \<notin> se_path ` set ks) (st_media (sc_store s))))"
proof -
  obtain acc s1 where go: "scan env lib opts run s = scan_completed env lib opts i (int (length es)) acc s1"
    and m: "st_media (ac_store acc) =
       fold (table_upsert mf_path refresh_columns) (map (scanned_row env lib i d) ks) (st_media (sc_store s))"
    and c: "ac_seen acc = int (length (capped opts 0 es)) + (if length (capped opts 0 es) < length es then 1 else 0)"
      "ac_added acc = int (length (filter (\<lambda>e. get_by_path (se_path e) (sc_store s) = None) ks))"
      "ac_updated acc = int (length (filter (\<lambda>e. get_by_path (se_path e) (sc_store s) \<noteq> None) ks))"
      "ac_probe_failures acc = int (length (filter (probe_failed env) ks))"
    by (rule scan_runs_loop [OF assms(1,2,4,6,7) ks])
  define st where "st = scan_emit ''scan.progress'' (progress_payload i lib (ac_seen acc) (int (length es))) (ac_store acc)"
  obtain n st2 where mo: "mark_orphans (lb_id lib) i st = (n, st2)" by fastforce
  define rep where "rep = report_of i acc (int n) ''completed'' None"
  have ends: "scan_completed env lib opts i (int (length es)) acc s1 = (res, s')" using go scan by simp
  note shape = scan_completed_shape [OF ends st_def mo rep_def]
  have dk: "distinct (map se_path ks)" using assms(2) by (simp add: ks distinct_kept)
  then have "distinct (map mf_path (map (scanned_row env lib i d) ks))" by (simp add: comp_def)
  then have m': "st_media st = merge_rows (map (scanned_row env lib i d) ks) (st_media (sc_store s))"
    using m by (simp add: st_def fold_upsert)
  have st2: "st2 = snd (mark_orphans (lb_id lib) i st)" "n = fst (mark_orphans (lb_id lib) i st)" by (simp_all add: mo)
  have "unique_keys mf_path (st_media st)" using fold_upsert_unique [OF unique] m by (simp add: st_def)
  then have u: "unique_keys mf_path (st_media st2)"
    unfolding st2 by (simp add: mark_orphans_def unique_keys_map)
  have rec: "\<forall>p. get_by_path p st2 = reconciled env lib i d ks (sc_store s) p"
    using reconciled_orphans [OF dk m'] unfolding get_by_path_def st2 by blast
  have set_rep: "\<forall>r\<in>set (sc_runs s'). sr_id r = i \<longrightarrow> settled env rep r"
    by (rule map_run_rows(3) [OF shape(4)]) (simp_all add: rep_def report_of_def settled_def)
  have counts: "sp_status rep = ''completed''" "sp_files_seen rep = ac_seen acc" "sp_files_added rep = ac_added acc"
    "sp_files_updated rep = ac_updated acc" "sp_probe_failures rep = ac_probe_failures acc" "sp_files_orphaned rep = int n"
    by (simp_all add: rep_def report_of_def)
  show ?thesis
    by (intro exI [of _ st2] exI [of _ rep])
      (use rec u shape(1,2) set_rep counts in \<open>simp add: c st2(2) orphan_count [OF dk m']\<close>)
qed

text \<open>A library of two files, both scanned before, the walk of which is capped after the first.\<close>

definition sample_probe :: ffprobe_result where
  "sample_probe = \<lparr>fp_ok = False, fp_container = None, fp_duration_seconds = None, fp_bitrate_kbps = None,
     fp_video_codec = None, fp_audio_codec = None, fp_subtitle_codec = None, fp_width = None, fp_height = None,
     fp_framerate = None, fp_has_subtitles = False, fp_subtitle_languages = [], fp_audio_languages = [],
     fp_raw = None, fp_error = Some ''ffprobe failed''\<rparr>"

definition sample_stat :: file_stat where
  "sample_stat = \<lparr>fs_mode = 33188, fs_size = 700, fs_mtime = 5, fs_ino = 0\<rparr>"

definition sample_scan_env :: scan_env where
  "sample_scan_env =
     \<lparr>sn_svc = sample_env, sn_now = 9000000000, sn_run_id = ''r1'', sn_media_id = (\<lambda>p. ''m'' @ p), sn_root_exists = True,
      sn_root_is_dir = True,
      sn_walk = (\<lambda>f. [(''/tv'', [(''b.avi'', Some sample_stat), (''a.avi'', Some sample_stat), (''gone.mkv'', None)])]),
      sn_probe = (\<lambda>p. sample_probe), sn_heartbeat = (\<lambda>k. False), sn_enqueue = (\<lambda>i. Enqueued)\<rparr>"

definition sample_library :: library where
  "sample_library = \<lparr>lb_id = ''lib'', lb_name = ''TV'', lb_root_path = ''/tv'', lb_enabled = True, lb_last_scan_at = None,
     lb_last_scan_status = None, lb_last_scan_file_count = None\<rparr>"

definition sample_scan_state :: scan_state where
  "sample_scan_state =
     \<lparr>sc_store = sample_store\<lparr>st_media := [sample_media\<lparr>mf_is_orphaned := False, mf_last_scan_id := Some ''r0''\<rparr>]\<rparr>,
      sc_libraries = [sample_library], sc_runs = [], sc_ext_rules = [], sc_jobs = []\<rparr>"

definition sample_scan_options :: "int option \<Rightarrow> scan_options" where
  "sample_scan_options cap = \<lparr>so_mode = ''full'', so_follow_symlinks = False, so_max_files = cap, so_run_rules = False\<rparr>"

definition sample_entry :: "string \<Rightarrow> scan_entry" where
  "sample_entry n = \<lparr>se_relative = n, se_path = ''/tv/'' @ n, se_name = n, se_stat = sample_stat\<rparr>"

lemma sample_walk:
  "enumerate_files sample_scan_env (lb_root_path sample_library) (sample_scan_options cap) =
     Inr [sample_entry ''b.avi'', sample_entry ''a.avi'']"
  by (simp add: enumerate_files_def sample_scan_env_def sample_library_def sample_entry_def entry_of_def Let_def
      List.map_filter_def sample_stat_def is_regular_file_def join_path_def relative_to_def
      contains_undecodable_bytes_def)

theorem scan_reconciles_witness:
  "\<exists>rep s'. scan sample_scan_env sample_library (sample_scan_options (Some 1)) None sample_scan_state = (Inr rep, s')
     \<and> sp_files_seen rep = 2 \<and> sp_files_added rep = 1 \<and> sp_files_updated rep = 0 \<and> sp_probe_failures rep = 1
     \<and> sp_files_orphaned rep = 1
     \<and> map_option mf_is_orphaned (get_by_path ''/tv/a.avi'' (sc_store s')) = Some True"
proof -
  obtain res s' where sc: "scan sample_scan_env sample_library (sample_scan_options (Some 1)) None sample_scan_state = (res, s')"
    by fastforce
  have d: "load_disposition_map sample_scan_state = (\<lambda>_. None)"
    by (simp add: load_disposition_map_def sample_scan_state_def)
  let ?ks = "[sample_entry ''b.avi'']"
  have ks: "?ks = kept (\<lambda>_. None) (capped (sample_scan_options (Some 1)) 0 [sample_entry ''b.avi'', sample_entry ''a.avi''])"
    by (simp add: kept_def capped_def sample_scan_options_def)
  have q: "vt_quiet sample_scan_env (vt_row (sc_store sample_scan_state))"
    "unique_keys mf_path (st_media (sc_store sample_scan_state))"
    "distinct (map se_path [sample_entry ''b.avi'', sample_entry ''a.avi''])"
    by (simp_all add: vt_quiet_def vt_row_def sample_scan_state_def sample_store_def unique_keys_def sample_entry_def)
  have c: "capped (sample_scan_options (Some 1)) 0 [sample_entry ''b.avi'', sample_entry ''a.avi''] = ?ks"
    by (simp add: capped_def sample_scan_options_def)
  have pf: "probe_failed sample_scan_env (sample_entry ''b.avi'')" by code_simp
  have g: "get_by_path ''/tv/b.avi'' (sc_store sample_scan_state) = None"
    "get_by_path ''/tv/a.avi'' (sc_store sample_scan_state) =
       Some (sample_media\<lparr>mf_is_orphaned := False, mf_last_scan_id := Some ''r0''\<rparr>)"
    "untouched ''lib'' ''r1'' (sample_media\<lparr>mf_is_orphaned := False, mf_last_scan_id := Some ''r0''\<rparr>)"
    by (simp_all add: get_by_path_def sample_scan_state_def sample_store_def sample_media_def untouched_def)
  have norules: "rules_pass sample_scan_env sample_library (sample_scan_options (Some 1)) st = (Inr 0, st)" for st
    by (simp add: rules_pass_def sample_scan_options_def)
  have p: "se_path (sample_entry ''b.avi'') = ''/tv/b.avi''" "lb_id sample_library = ''lib''" "sn_run_id sample_scan_env = ''r1''"
    "st_media (sc_store sample_scan_state) = [sample_media\<lparr>mf_is_orphaned := False, mf_last_scan_id := Some ''r0''\<rparr>]"
    "mf_path sample_media = ''/tv/a.avi''"
    by (simp_all add: sample_entry_def sample_library_def sample_scan_env_def sample_scan_state_def sample_media_def)
  note scan_reconciles [OF sample_walk q(3,2,1) sc refl d [symmetric] ks]
  then obtain st rep where st: "\<forall>p. get_by_path p st = reconciled sample_scan_env sample_library ''r1'' (\<lambda>_. None) ?ks (sc_store sample_scan_state) p"
      "st_media (sc_store s') = st_media st" "res = Inr rep"
    and r: "sp_files_seen rep = 2" "sp_files_added rep = 1" "sp_files_updated rep = 0" "sp_probe_failures rep = 1"
      "sp_files_orphaned rep = 1"
    unfolding c norules using g pf by (auto simp: p scan_result_def)
  have "map_option mf_is_orphaned (get_by_path ''/tv/a.avi'' (sc_store s')) =
      map_option mf_is_orphaned (reconciled sample_scan_env sample_library ''r1'' (\<lambda>_. None) ?ks (sc_store sample_scan_state) ''/tv/a.avi'')"
    using st(1,2) by (simp add: get_by_path_def)
  also have "\<dots> = Some True"
    using g by (simp add: reconciled_def sample_entry_def sample_library_def)
  finally show ?thesis using sc r st(3) by auto
qed

lemma scan_failed_rows:
  assumes "scan_failed env lib i err acc s = (res, s')"
  shows "res = Inr (report_of i acc 0 ''failed'' (Some (sv_exc_str (sn_svc env) err)))"
    and "sc_runs s' = map (\<lambda>r. if sr_id r = i then r\<lparr>sr_status := ''failed'', sr_finished_at := Some (sn_now env),
               sr_error := Some (py_take 2000 (sv_exc_str (sn_svc env) err))\<rparr> else r) (sc_runs s)"
    and "sc_jobs s' = sc_jobs s"
    and "sc_libraries s' =
      map (\<lambda>l. if lb_id l = lb_id lib then l\<lparr>lb_last_scan_status := Some ''failed''\<rparr> else l) (sc_libraries s)"
  using assms by (auto simp add: scan_failed_def Let_def runs_update_run update_library_def)

text \<open>The end of a scan: the run row and the library in the state of a report, whether or not it is returned.\<close>

definition ends_settled :: "scan_env \<Rightarrow> library \<Rightarrow> string \<Rightarrow> scan_report \<Rightarrow> scan_state \<Rightarrow> scan_state \<Rightarrow> bool" where
  "ends_settled env lib i rep s s' = (sp_run_id rep = i \<and> sp_status rep \<in> {''completed'', ''failed''}
     \<and> same_run i (sc_runs s) (sc_runs s') \<and> map sr_id (sc_runs s') = map sr_id (sc_runs s)
     \<and> (\<forall>r\<in>set (sc_runs s'). sr_id r = i \<longrightarrow> settled env rep r) \<and> sc_jobs s' = sc_jobs s
     \<and> (\<forall>l\<in>set (sc_libraries s'). lb_id l = lb_id lib \<longrightarrow> lb_last_scan_status l = Some (sp_status rep)))"

lemma scan_failed_settles:
  assumes "scan_failed env lib i err acc s = (res, s')"
  shows "\<exists>rep. res = Inr rep \<and> sp_status rep = ''failed'' \<and> ends_settled env lib i rep s s'"
proof -
  note rows = scan_failed_rows [OF assms]
  note runs = map_run_rows [OF rows(2)]
  have "\<forall>r\<in>set (sc_runs s'). sr_id r = i \<longrightarrow> settled env (report_of i acc 0 ''failed'' (Some (sv_exc_str (sn_svc env) err))) r"
    by (rule runs(3)) (simp_all add: report_of_def settled_def)
  moreover have "same_run i (sc_runs s) (sc_runs s')" "map sr_id (sc_runs s') = map sr_id (sc_runs s)" by (rule runs(1,2); simp)+
  ultimately show ?thesis unfolding rows(1) ends_settled_def by (auto simp: report_of_def rows(3,4))
qed

lemma scan_completed_settles:
  assumes "scan_completed env lib opts i tot acc s = (res, s')"
  shows "\<exists>rep. (res = Inr rep \<or> res = Inl MissingGreenlet) \<and> sp_status rep = ''completed'' \<and> ends_settled env lib i rep s s'"
proof -
  define st where "st = scan_emit ''scan.progress'' (progress_payload i lib (ac_seen acc) tot) (ac_store acc)"
  obtain n st2 where mo: "mark_orphans (lb_id lib) i st = (n, st2)" by fastforce
  define rep where "rep = report_of i acc (int n) ''completed'' None"
  note shape = scan_completed_shape [OF assms st_def mo rep_def]
  note runs = map_run_rows [OF shape(4)]
  have "\<forall>r\<in>set (sc_runs s'). sr_id r = i \<longrightarrow> settled env rep r"
    by (rule runs(3)) (simp_all add: rep_def report_of_def settled_def)
  moreover have "same_run i (sc_runs s) (sc_runs s')" "map sr_id (sc_runs s') = map sr_id (sc_runs s)" by (rule runs(1,2); simp)+
  moreover have "res = Inr rep \<or> res = Inl MissingGreenlet" unfolding shape(1) by (simp add: scan_result_def split: sum.split)
  ultimately show ?thesis unfolding ends_settled_def
    by (intro exI [of _ rep]) (auto simp: rep_def report_of_def shape(5,6))
qed

lemma scan_ends:
  assumes "scan env lib opts run s = (res, s')"
  obtains (failed) err acc where
      "scan_failed env lib (case run of None \<Rightarrow> sn_run_id env | Some i \<Rightarrow> i) err acc (snd (begin_run env lib opts run s)) = (res, s')"
  | (completed) tot acc where
      "scan_completed env lib opts (case run of None \<Rightarrow> sn_run_id env | Some i \<Rightarrow> i) tot acc
         ((snd (begin_run env lib opts run s))\<lparr>sc_store := ac_store acc\<rparr>) = (res, s')"
proof -
  obtain i s1 where b: "begin_run env lib opts run s = (i, s1)" by (cases "begin_run env lib opts run s")
  then have i: "i = (case run of None \<Rightarrow> sn_run_id env | Some i \<Rightarrow> i)"
    using begin_run_frame(5) [of env lib opts run s] by simp
  show thesis
    using assms that b unfolding i [symmetric]
    by (auto simp: scan_def Let_def split: sum.splits prod.splits option.splits)
qed

lemma scan_settles:
  assumes "scan env lib opts run s = (res, s')"
  obtains rep where "ends_settled env lib (case run of None \<Rightarrow> sn_run_id env | Some i \<Rightarrow> i) rep (snd (begin_run env lib opts run s)) s'"
    "res = Inr rep \<or> (res = Inl MissingGreenlet \<and> sp_status rep = ''completed'' \<and> so_run_rules opts
       \<and> (\<exists>e. evaluate_library (sn_svc env) (sn_now env) (lb_id lib) [] (sc_store s') = Inl e))"
  using assms
proof (cases rule: scan_ends)
  case (failed err acc)
  from scan_failed_settles [OF failed] that show thesis by blast
next
  case (completed tot acc)
  from scan_completed_settles [OF completed] obtain rep where rep: "res = Inr rep \<or> res = Inl MissingGreenlet" "sp_status rep = ''completed''"
    "ends_settled env lib (case run of None \<Rightarrow> sn_run_id env | Some i \<Rightarrow> i) rep
       ((snd (begin_run env lib opts run s))\<lparr>sc_store := ac_store acc\<rparr>) s'" by blast
  from rep(3) have "ends_settled env lib (case run of None \<Rightarrow> sn_run_id env | Some i \<Rightarrow> i) rep (snd (begin_run env lib opts run s)) s'"
    by (simp add: ends_settled_def)
  with rep(1,2) completed_raises completed that show thesis by blast
qed

lemma begin_run_same:
  "same_run (case run of None \<Rightarrow> sn_run_id env | Some i \<Rightarrow> i) (sc_runs s) (sc_runs (snd (begin_run env lib opts run s)))"
  "map sr_id (sc_runs (snd (begin_run env lib opts run s))) =
     map sr_id (sc_runs s) @ (case run of None \<Rightarrow> [sn_run_id env] | Some i \<Rightarrow> [])"
  by (simp_all add: begin_run_def same_run_def runs_update_run filter_other_map new_run_def comp_def if_distrib cong: if_cong
      split: option.split)

lemma same_run_trans: "same_run i a b \<Longrightarrow> same_run i b c \<Longrightarrow> same_run i a c"
  by (simp add: same_run_def)

text \<open>C12. A scan settles its run.  Whatever the disk, ffprobe, the VirusTotal step and the rules do, the row of
  the run (the one it was given, if that row exists, or the one it made) ends \<open>completed\<close> or
  \<open>failed\<close>, with a finish time and the counters of a report or its error cut to 2000 characters; no other
  run is changed and the library shows the same status.  The scan returns that report, except when the rules pass raises,
  which the code means to survive: then the run stays \<open>completed\<close>, but the rollback has expired the rows and
  \<open>MissingGreenlet\<close> is raised in place of the report.  (Statements of the database that fail and workers that are killed
  are outside.)
\<close>

theorem scan_always_settles:
  assumes scan: "scan env lib opts run s = (res, s')"
    and row: "\<And>i. run = Some i \<Longrightarrow> i \<in> sr_id ` set (sc_runs s)"
  shows "\<exists>rep. (res = Inr rep \<or> (res = Inl MissingGreenlet \<and> sp_status rep = ''completed'' \<and> so_run_rules opts
        \<and> (\<exists>e. evaluate_library (sn_svc env) (sn_now env) (lb_id lib) [] (sc_store s') = Inl e)))
    \<and> sp_status rep \<in> {''completed'', ''failed''}
    \<and> sp_run_id rep = (case run of None \<Rightarrow> sn_run_id env | Some i \<Rightarrow> i)
    \<and> (\<exists>r\<in>set (sc_runs s'). sr_id r = sp_run_id rep)
    \<and> (\<forall>r\<in>set (sc_runs s'). sr_id r = sp_run_id rep \<longrightarrow> settled env rep r \<and> \<not> active r)
    \<and> filter (\<lambda>r. sr_id r \<noteq> sp_run_id rep) (sc_runs s') = filter (\<lambda>r. sr_id r \<noteq> sp_run_id rep) (sc_runs s)
    \<and> (\<forall>l\<in>set (sc_libraries s'). lb_id l = lb_id lib \<longrightarrow> lb_last_scan_status l = Some (sp_status rep))"
proof -
  let ?i = "case run of None \<Rightarrow> sn_run_id env | Some i \<Rightarrow> i"
  let ?s1 = "snd (begin_run env lib opts run s)"
  obtain rep where e: "ends_settled env lib ?i rep ?s1 s'"
    and res: "res = Inr rep \<or> (res = Inl MissingGreenlet \<and> sp_status rep = ''completed'' \<and> so_run_rules opts
       \<and> (\<exists>e. evaluate_library (sn_svc env) (sn_now env) (lb_id lib) [] (sc_store s') = Inl e))"
    using scan by (rule scan_settles)
  note h = e [unfolded ends_settled_def]
  have "?i \<in> set (map sr_id (sc_runs ?s1))"
    using row unfolding begin_run_same(2) by (cases run) simp_all
  then have "?i \<in> set (map sr_id (sc_runs s'))" using h by (metis (no_types))
  then have "\<exists>r\<in>set (sc_runs s'). sr_id r = ?i" by force
  then have row': "\<exists>r\<in>set (sc_runs s'). sr_id r = sp_run_id rep" using h by simp
  have same: "same_run ?i (sc_runs s) (sc_runs s')" using begin_run_same(1) h same_run_trans by blast
  have idle: "\<not> active r" if "settled env rep r" "sp_status rep \<in> {''completed'', ''failed''}" for r
    using that by (auto simp: settled_def active_def)
  show ?thesis using res h row' same idle unfolding same_run_def by (intro exI [of _ rep]) simp
qed

text \<open>A library with a rule that raises on a file of it.\<close>

definition raising_rule :: rule where
  "raising_rule = (sample_rule ''r'')\<lparr>ru_definition := Some (warn_def\<lparr>rd_match :=
     Leaf \<lparr>cond_field = ''size_bytes'', cond_op = ''gt'', cond_value = PyStr ''abc''\<rparr>\<rparr>)\<rparr>"

definition raising_state :: scan_state where
  "raising_state = sample_scan_state\<lparr>sc_store := (sc_store sample_scan_state)\<lparr>st_rules := [raising_rule]\<rparr>\<rparr>"

definition with_rules :: scan_options where
  "with_rules = (sample_scan_options None)\<lparr>so_run_rules := True\<rparr>"

theorem scan_always_settles_witness:
  "\<exists>s'. scan sample_scan_env sample_library with_rules None raising_state = (Inl MissingGreenlet, s')
     \<and> (\<exists>r\<in>set (sc_runs s'). sr_id r = ''r1'' \<and> sr_status r = ''completed'')"
proof -
  obtain res s' where sc: "scan sample_scan_env sample_library with_rules None raising_state = (res, s')"
    by fastforce
  have "fst (scan sample_scan_env sample_library with_rules None raising_state) = Inl MissingGreenlet" by code_simp
  then have "res = Inl MissingGreenlet" by (simp add: sc)
  moreover have "sn_run_id sample_scan_env = ''r1''" by (simp add: sample_scan_env_def)
  ultimately show ?thesis
    using scan_always_settles [OF sc] sc by (fastforce simp: settled_def)
qed

section \<open>Starting scans\<close>

lemma find_active_None_iff:
  "find_active_for_library l s = None \<longleftrightarrow> (\<forall>r\<in>set (sc_runs s). sr_library_id r = l \<longrightarrow> \<not> active r)"
proof -
  let ?f = "filter (\<lambda>r. sr_library_id r = l \<and> active r) (sc_runs s)"
  have "find_active_for_library l s = None \<longleftrightarrow> sort_key (\<lambda>r. - sr_created_at r) ?f = []"
    by (simp add: find_active_for_library_def split: list.split)
  also have "\<dots> \<longleftrightarrow> ?f = []" by (simp only: set_empty [symmetric] set_sort)
  finally show ?thesis by (auto simp: filter_empty_conv)
qed

lemma scan_same_run:
  assumes "scan env lib opts run s = (res, s')"
  shows "same_run (case run of None \<Rightarrow> sn_run_id env | Some i \<Rightarrow> i) (sc_runs s) (sc_runs s')"
proof (rule scan_settles [OF assms])
  fix rep
  assume "ends_settled env lib (case run of None \<Rightarrow> sn_run_id env | Some i \<Rightarrow> i) rep (snd (begin_run env lib opts run s)) s'"
  then show ?thesis using same_run_trans [OF begin_run_same(1)] unfolding ends_settled_def by blast
qed

text \<open>A worker job without a run id leaves the rows there are alone.\<close>

lemma scan_library_no_run:
  assumes "jb_run_id job = None" "r \<in> set (sc_runs s)" "sr_id r \<noteq> sn_run_id env"
  shows "r \<in> set (sc_runs (snd (scan_library env job s)))"
proof (cases "get_library (jb_library_id job) s")
  case (Some lib)
  define opts where "opts = \<lparr>so_mode = jb_mode job, so_follow_symlinks = jb_follow_symlinks job, so_max_files = None, so_run_rules = True\<rparr>"
  obtain res s' where sc: "scan env lib opts None s = (res, s')" by fastforce
  then have "same_run (sn_run_id env) (sc_runs s) (sc_runs s')" using scan_same_run by fastforce
  then have "set (filter (\<lambda>r. sr_id r \<noteq> sn_run_id env) (sc_runs s')) = set (filter (\<lambda>r. sr_id r \<noteq> sn_run_id env) (sc_runs s))"
    by (simp only: same_run_def)
  with assms(2,3) have "r \<in> set (sc_runs s')" by auto
  with Some sc assms(1) show ?thesis by (simp add: scan_library_def opts_def Let_def split: sum.split)
qed (use assms in \<open>simp add: scan_library_def\<close>)

lemma queue_rows_adds:
  "queue_rows env ids mode follow ls s = (rs, s1) \<Longrightarrow>
     sc_runs s1 = sc_runs s @ rs \<and> sc_jobs s1 = sc_jobs s \<and> sc_libraries s1 = sc_libraries s
     \<and> (\<forall>r\<in>set rs. sr_status r = ''queued'' \<and> sr_library_id r \<in> lb_id ` set (filter lb_enabled ls) \<and> sr_id r = ids (sr_library_id r))"
proof (induction ls arbitrary: s rs s1)
  case (Cons l ls)
  show ?case
  proof (cases "\<not> lb_enabled l \<or> find_active_for_library (lb_id l) s \<noteq> None")
    case True
    then have "queue_rows env ids mode follow ls s = (rs, s1)" using Cons.prems by simp
    from Cons.IH [OF this] show ?thesis by auto
  next
    case False
    let ?run = "new_run env (ids (lb_id l)) (lb_id l) mode follow ''queued'' None"
    obtain rs' where q: "queue_rows env ids mode follow ls (s\<lparr>sc_runs := sc_runs s @ [?run]\<rparr>) = (rs', s1)" "rs = ?run # rs'"
      using Cons.prems False by (auto simp: Let_def split: prod.splits)
    from Cons.IH [OF q(1)] q(2) False show ?thesis by (auto simp: new_run_def)
  qed
qed simp

lemma enqueue_rows_ok:
  "(\<And>r. r \<in> set rs \<Longrightarrow> sn_enqueue env (sr_id r) = Enqueued) \<Longrightarrow>
     sc_runs (enqueue_rows env mode follow rs s) = sc_runs s \<and> sc_libraries (enqueue_rows env mode follow rs s) = sc_libraries s
     \<and> sc_jobs (enqueue_rows env mode follow rs s) = sc_jobs s @
       map (\<lambda>r. \<lparr>jb_library_id = sr_library_id r, jb_mode = mode, jb_follow_symlinks = follow, jb_run_id = None\<rparr>) rs"
  by (induction rs arbitrary: s) (simp_all add: enqueue_scan_def)

text \<open>Workers taking jobs one after the other, each with its own environment.\<close>

fun run_jobs :: "(scan_env \<times> scan_job) list \<Rightarrow> scan_state \<Rightarrow> scan_state" where
  "run_jobs [] s = s"
| "run_jobs ((env, job) # js) s = run_jobs js (snd (scan_library env job s))"

lemma run_jobs_keep:
  "(\<And>env job. (env, job) \<in> set js \<Longrightarrow> jb_run_id job = None \<and> sr_id r \<noteq> sn_run_id env) \<Longrightarrow>
     r \<in> set (sc_runs s) \<Longrightarrow> r \<in> set (sc_runs (run_jobs js s))"
  by (induction js s rule: run_jobs.induct) (auto intro: scan_library_no_run)

lemma trigger_scan_blocked:
  assumes "get_library l s = Some lib" "lb_enabled lib" "r \<in> set (sc_runs s)" "active r" "sr_library_id r = lb_id lib"
  shows "\<exists>msg. trigger_scan env l mode follow enqueue s = (Inl (ConflictError msg), s)"
proof -
  from assms find_active_None_iff obtain r' where "find_active_for_library (lb_id lib) s = Some r'" by fastforce
  with assms show ?thesis by (simp add: trigger_scan_def)
qed

text \<open>Scans and resets keep which libraries there are and which of them are enabled.\<close>

definition library_switches :: "scan_state \<Rightarrow> (string \<times> bool) list" where
  "library_switches s = map (\<lambda>l. (lb_id l, lb_enabled l)) (sc_libraries s)"

lemma switches_update_library:
  "(\<And>l. lb_id (f l) = lb_id l \<and> lb_enabled (f l) = lb_enabled l) \<Longrightarrow>
     map (\<lambda>l. (lb_id l, lb_enabled l)) (map (\<lambda>l. if lb_id l = i then f l else l) ls) = map (\<lambda>l. (lb_id l, lb_enabled l)) ls"
  by simp

lemma scan_switches:
  assumes "scan env lib opts run s = (res, s')"
  shows "library_switches s' = library_switches s"
  using assms
proof (cases rule: scan_ends)
  case (failed err acc)
  show ?thesis unfolding library_switches_def scan_failed_rows(4) [OF failed] by (subst switches_update_library) simp_all
next
  case (completed tot acc)
  obtain n st2 where mo: "mark_orphans (lb_id lib) (case run of None \<Rightarrow> sn_run_id env | Some i \<Rightarrow> i)
      (scan_emit ''scan.progress'' (progress_payload (case run of None \<Rightarrow> sn_run_id env | Some i \<Rightarrow> i) lib (ac_seen acc) tot) (ac_store acc))
      = (n, st2)" by fastforce
  show ?thesis
    unfolding library_switches_def scan_completed_shape(6) [OF completed refl mo refl] by (subst switches_update_library) simp_all
qed

lemma scan_library_switches: "library_switches (snd (scan_library env job s)) = library_switches s"
  by (auto simp: scan_library_def Let_def dest: scan_switches split: option.split prod.split sum.split)

lemma run_jobs_switches: "library_switches (run_jobs js s) = library_switches s"
  by (induction js s rule: run_jobs.induct) (simp_all add: scan_library_switches)

lemma get_library_switches:
  "library_switches s' = library_switches s \<Longrightarrow> get_library i s = Some lib \<Longrightarrow>
     \<exists>lib'. get_library i s' = Some lib' \<and> lb_id lib' = i \<and> lb_enabled lib' = lb_enabled lib"
proof -
  have "map_option lb_enabled (table_find lb_id i ls) = map_of (map (\<lambda>l. (lb_id l, lb_enabled l)) ls) i" for ls
    by (induction ls) auto
  then have m: "map_option lb_enabled (get_library i s) = map_of (library_switches s) i" for s
    by (simp add: get_library_def library_switches_def)
  assume "library_switches s' = library_switches s" "get_library i s = Some lib"
  with m [of s] m [of s'] obtain lib' where l: "get_library i s' = Some lib'" "lb_enabled lib' = lb_enabled lib"
    by (cases "get_library i s'") (simp_all, metis option.inject)
  moreover from l(1) have "lb_id lib' = i" unfolding get_library_def by (auto dest: table_find_SomeD)
  ultimately show ?thesis by blast
qed

lemma queue_rows_covers:
  "queue_rows env ids mode follow ls s = (rs, s1) \<Longrightarrow> lib \<in> set ls \<Longrightarrow> lb_enabled lib \<Longrightarrow>
     \<exists>r\<in>set (sc_runs s1). sr_library_id r = lb_id lib \<and> active r"
proof (induction ls arbitrary: s rs s1)
  case (Cons l ls)
  show ?case
  proof (cases "lib \<in> set ls")
    case True
    with Cons show ?thesis by (auto simp: Let_def split: if_splits prod.splits)
  next
    case False
    with Cons.prems(2) have l: "lib = l" by simp
    show ?thesis
    proof (cases "find_active_for_library (lb_id l) s = None")
      case True
      let ?run = "new_run env (ids (lb_id l)) (lb_id l) mode follow ''queued'' None"
      obtain rs' where "queue_rows env ids mode follow ls (s\<lparr>sc_runs := sc_runs s @ [?run]\<rparr>) = (rs', s1)"
        using Cons.prems True l by (auto simp: Let_def split: prod.splits)
      from queue_rows_adds [OF this] have "?run \<in> set (sc_runs s1)" by simp
      then show ?thesis using l by (force simp: new_run_def active_def)
    next
      case False
      then have "queue_rows env ids mode follow ls s = (rs, s1)" using Cons.prems l by simp
      from queue_rows_adds [OF this] False l show ?thesis by (auto simp: find_active_None_iff)
    qed
  qed
qed simp

text \<open>A scan of all libraries leaves its run rows behind.  The rows \<open>trigger_scan_all\<close> returns are
  queued under jobs that carry no run id: after the workers have run every one of these jobs, to the end
  and whatever their outcome, the row of each library is still \<open>queued\<close>, and a scan of that library
  is refused with a conflict.
\<close>

theorem scan_all_row_stuck:
  assumes all: "trigger_scan_all env ids mode follow s = (rs, s1)" "sc_jobs s = []"
    and queue: "\<And>i. sn_enqueue env i = Enqueued"
    and jobs: "map snd js = sc_jobs s1"
    and fresh: "\<And>e j. (e, j) \<in> set js \<Longrightarrow> sn_run_id e \<notin> sr_id ` set (sc_runs s1)"
    and lib: "get_library (lb_id lib) s = Some lib" "lb_enabled lib" "find_active_for_library (lb_id lib) s = None"
  shows "(\<exists>r\<in>set (sc_runs (run_jobs js s1)). sr_id r = ids (lb_id lib) \<and> sr_library_id r = lb_id lib \<and> sr_status r = ''queued'')
    \<and> (\<exists>msg. trigger_scan env' (lb_id lib) mode' follow' enqueue' (run_jobs js s1) = (Inl (ConflictError msg), run_jobs js s1))"
proof -
  obtain rs0 s0 where q: "queue_rows env ids mode follow (sort_key lb_name (sc_libraries s)) s = (rs0, s0)"
    by (cases "queue_rows env ids mode follow (sort_key lb_name (sc_libraries s)) s")
  note a = queue_rows_adds [OF q]
  have s1: "s1 = enqueue_rows env mode follow rs0 s0" using all(1) q by (simp add: trigger_scan_all_def Let_def)
  have e: "sc_runs s1 = sc_runs s @ rs0" "sc_libraries s1 = sc_libraries s" "\<forall>j\<in>set (sc_jobs s1). jb_run_id j = None"
    using enqueue_rows_ok [of rs0 env mode follow s0] queue a all(2) by (auto simp: s1)
  have "lib \<in> set (sc_libraries s)" using lib(1) unfolding get_library_def by (auto dest: table_find_SomeD)
  then obtain r where r: "r \<in> set (sc_runs s0)" "sr_library_id r = lb_id lib" "active r"
    using queue_rows_covers [OF q, of lib] lib(2) by auto
  with a lib(3) have r0: "r \<in> set rs0" by (auto simp: find_active_None_iff)
  have "(e, j) \<in> set js \<Longrightarrow> jb_run_id j = None \<and> sr_id r \<noteq> sn_run_id e" for e j
  proof -
    assume "(e, j) \<in> set js"
    moreover from this have "j \<in> set (sc_jobs s1)" unfolding jobs [symmetric] by force
    ultimately show ?thesis using e fresh r0 by force
  qed
  then have stays: "r \<in> set (sc_runs (run_jobs js s1))" using r0 e(1) by (intro run_jobs_keep) auto
  have "library_switches (run_jobs js s1) = library_switches s"
    by (simp add: run_jobs_switches) (simp add: library_switches_def e(2))
  then obtain lib' where "get_library (lb_id lib) (run_jobs js s1) = Some lib'" "lb_id lib' = lb_id lib" "lb_enabled lib'"
    using get_library_switches [OF _ lib(1)] lib(2) by blast
  with trigger_scan_blocked stays r(2,3) show ?thesis using a r0 r(2) by metis
qed

definition stuck_jobs :: "(scan_env \<times> scan_job) list" where
  "stuck_jobs = [(sample_scan_env, \<lparr>jb_library_id = ''lib'', jb_mode = ''full'', jb_follow_symlinks = False, jb_run_id = None\<rparr>)]"

theorem scan_all_row_stuck_witness:
  "\<exists>msg s1. snd (trigger_scan_all sample_scan_env (\<lambda>l. ''q'' @ l) ''full'' False sample_scan_state) = s1
     \<and> trigger_scan sample_scan_env ''lib'' ''full'' False True (run_jobs stuck_jobs s1) =
         (Inl (ConflictError msg), run_jobs stuck_jobs s1)"
proof -
  obtain rs s1 where t: "trigger_scan_all sample_scan_env (\<lambda>l. ''q'' @ l) ''full'' False sample_scan_state = (rs, s1)"
    by (cases "trigger_scan_all sample_scan_env (\<lambda>l. ''q'' @ l) ''full'' False sample_scan_state")
  have s1: "s1 = snd (trigger_scan_all sample_scan_env (\<lambda>l. ''q'' @ l) ''full'' False sample_scan_state)" using t by (metis snd_conv)
  have j: "map snd stuck_jobs = sc_jobs s1" "sr_id ` set (sc_runs s1) = {''qlib''}"
    unfolding s1 by (simp_all add: trigger_scan_all_def sample_scan_state_def sample_library_def find_active_for_library_def
        enqueue_scan_def sample_scan_env_def new_run_def stuck_jobs_def Let_def)
  have l: "get_library (lb_id sample_library) sample_scan_state = Some sample_library" "lb_enabled sample_library"
    "find_active_for_library (lb_id sample_library) sample_scan_state = None" "lb_id sample_library = ''lib''"
    "sc_jobs sample_scan_state = []" "\<And>i. sn_enqueue sample_scan_env i = Enqueued" "sn_run_id sample_scan_env = ''r1''"
    by (simp_all add: get_library_def sample_scan_state_def sample_library_def find_active_for_library_def sample_scan_env_def)
  have "\<And>e jb. (e, jb) \<in> set stuck_jobs \<Longrightarrow> sn_run_id e \<notin> sr_id ` set (sc_runs s1)"
    unfolding j(2) stuck_jobs_def using l(7) by simp
  from scan_all_row_stuck [OF t l(5,6) j(1) this l(1-3), where env' = sample_scan_env and mode' = "''full''" and follow' = False and enqueue' = True] t l(4) show ?thesis by auto
qed

lemma map_idle:
  "get_library l s' = Some lib \<Longrightarrow> lb_enabled lib \<Longrightarrow> (\<forall>r\<in>set (sc_runs s'). sr_library_id r = lb_id lib \<longrightarrow> \<not> active r) \<Longrightarrow>
     \<exists>run s2. trigger_scan env l mode follow True s' = (Inr run, s2)"
  unfolding find_active_None_iff [symmetric]
  by (auto simp: trigger_scan_def queue_scan_def Let_def)

lemma reset_idle:
  assumes "get_library l s = Some lib"
  shows "\<forall>r\<in>set (sc_runs (snd (reset_library_scans env l s))). sr_library_id r = l \<longrightarrow> \<not> active r"
    and "library_switches (snd (reset_library_scans env l s)) = library_switches s"
proof -
  show "library_switches (snd (reset_library_scans env l s)) = library_switches s"
    using assms by (simp add: reset_library_scans_def library_switches_def update_library_def Let_def)
  show "\<forall>r\<in>set (sc_runs (snd (reset_library_scans env l s))). sr_library_id r = l \<longrightarrow> \<not> active r"
    using assms by (auto simp: reset_library_scans_def Let_def filter_empty_conv active_def [of "_\<lparr>sr_status := _, sr_finished_at := _, sr_error := _\<rparr>"])
qed

lemma fold_update_library:
  "sc_runs (fold (\<lambda>r. update_library (g r) (\<lambda>l. l\<lparr>lb_last_scan_status := x\<rparr>)) rs s) = sc_runs s"
  "library_switches (fold (\<lambda>r. update_library (g r) (\<lambda>l. l\<lparr>lb_last_scan_status := x\<rparr>)) rs s) = library_switches s"
  by (induction rs arbitrary: s) (simp_all add: library_switches_def update_library_def)

lemma reap_idle:
  "r \<in> set (sc_runs (snd (reap_stale_scans env s))) \<Longrightarrow> active r \<Longrightarrow> r \<in> set (sc_runs s) \<and> \<not> stale env r"
  "library_switches (snd (reap_stale_scans env s)) = library_switches s"
  by (auto simp: reap_stale_scans_def Let_def fold_update_library active_def [of "_\<lparr>sr_status := _, sr_finished_at := _, sr_error := _\<rparr>"]
      library_switches_def [of "_\<lparr>sc_store := _\<rparr>"] library_switches_def [of "_\<lparr>sc_runs := _\<rparr>"]
      simp flip: library_switches_def)

text \<open>A library never stays blocked.  Whatever rows dead workers left behind, after an operator resets the
  library a scan of it is queued; and the reaper does the same on its own as soon as every queued or
  running row of the library has been there for more than an hour.
\<close>

theorem stuck_scans_unblock:
  assumes "get_library l s = Some lib" "lb_enabled lib"
    and "\<forall>r\<in>set (sc_runs s). sr_library_id r = l \<and> active r \<longrightarrow> reference_ts r < sn_now renv - 3600 * 1000000"
  shows "(\<exists>run s2. trigger_scan env l mode follow True (snd (reset_library_scans renv l s)) = (Inr run, s2))
    \<and> (\<exists>run s2. trigger_scan env l mode follow True (snd (reap_stale_scans renv s)) = (Inr run, s2))"
proof
  obtain lib1 where "get_library l (snd (reset_library_scans renv l s)) = Some lib1" "lb_id lib1 = l" "lb_enabled lib1"
    using get_library_switches [OF reset_idle(2) [OF assms(1)] assms(1)] assms(2) by blast
  then show "\<exists>run s2. trigger_scan env l mode follow True (snd (reset_library_scans renv l s)) = (Inr run, s2)"
    using reset_idle(1) [OF assms(1)] by (intro map_idle) auto
  obtain lib2 where l2: "get_library l (snd (reap_stale_scans renv s)) = Some lib2" "lb_id lib2 = l" "lb_enabled lib2"
    using get_library_switches [OF reap_idle(2) assms(1)] assms(2) by blast
  have "\<forall>r\<in>set (sc_runs (snd (reap_stale_scans renv s))). sr_library_id r = l \<longrightarrow> \<not> active r"
    using reap_idle(1) assms(3) by (fastforce simp: stale_def STALE_THRESHOLD_SECONDS_def)
  with l2 show "\<exists>run s2. trigger_scan env l mode follow True (snd (reap_stale_scans renv s)) = (Inr run, s2)"
    by (intro map_idle) auto
qed

theorem stuck_scans_unblock_witness:
  "\<exists>run s2. trigger_scan sample_scan_env ''lib'' ''full'' False True (snd (reap_stale_scans sample_scan_env
     (sample_scan_state\<lparr>sc_runs := [new_run (sample_scan_env\<lparr>sn_now := 0\<rparr>) ''q'' ''lib'' ''full'' False ''running'' (Some 5)]\<rparr>))) = (Inr run, s2)"
proof -
  let ?s = "sample_scan_state\<lparr>sc_runs := [new_run (sample_scan_env\<lparr>sn_now := 0\<rparr>) ''q'' ''lib'' ''full'' False ''running'' (Some 5)]\<rparr>"
  have "get_library ''lib'' ?s = Some sample_library" "lb_enabled sample_library"
    "\<forall>r\<in>set (sc_runs ?s). sr_library_id r = ''lib'' \<and> active r \<longrightarrow> reference_ts r < sn_now sample_scan_env - 3600 * 1000000"
    by (simp_all add: get_library_def sample_scan_state_def sample_library_def new_run_def reference_ts_def sample_scan_env_def)
  from stuck_scans_unblock [OF this] show ?thesis by blast
qed

end
