(* ===== verification/VirusTotal.thy ===== *)
theory VirusTotal
  imports Integrations Cron RulesService
begin

text \<open>
  The VirusTotal plugin (\<open>plugins/virustotal/backend.py\<close>): the three quota windows, the lookup of a
  hash, the health check, and the pass that drains the queue, with the job that starts it
  (\<open>app/automation/jobs.py\<close>).  Parameters (\<open>vt_env\<close>): what VirusTotal answers, the clock, the
  text of an instant and \<open>int\<close>, \<open>float\<close> and \<open>repr\<close>.  \<open>vs_requests\<close> records the hashes that were sent.
\<close>

section \<open>Quota\<close>

definition VT_MINUTE_CEILING :: int where "VT_MINUTE_CEILING = 4"
definition VT_DAILY_CEILING_DEFAULT :: int where "VT_DAILY_CEILING_DEFAULT = 500"
definition VT_MONTHLY_CEILING_DEFAULT :: int where "VT_MONTHLY_CEILING_DEFAULT = 15500"

record quota_state =
  qs_minute_counter :: int
  qs_minute_window_started :: int
  qs_day_counter :: int
  qs_day_window :: int
  qs_month_counter :: int
  qs_month_window :: "int \<times> int"
  qs_last_check_at :: "int option"
  qs_minute_quota_alerted :: bool
  qs_day_quota_alerted :: bool
  qs_month_quota_alerted :: bool

definition date_of :: "int \<Rightarrow> int" where
  "date_of now = now div 86400000000"

definition month_of :: "int \<Rightarrow> int \<times> int" where
  "month_of now = (let (y, m, d) = civil_from_days (date_of now) in (y, m))"

definition rotate_minute :: "int \<Rightarrow> quota_state \<Rightarrow> quota_state" where
  "rotate_minute now q =
     (if now - qs_minute_window_started q \<ge> 60000000
      then q\<lparr>qs_minute_window_started := now, qs_minute_counter := 0, qs_minute_quota_alerted := False\<rparr> else q)"

definition rotate_day :: "int \<Rightarrow> quota_state \<Rightarrow> quota_state" where
  "rotate_day now q =
     (if qs_day_window q \<noteq> date_of now
      then q\<lparr>qs_day_window := date_of now, qs_day_counter := 0, qs_day_quota_alerted := False\<rparr> else q)"

definition rotate_month :: "int \<Rightarrow> quota_state \<Rightarrow> quota_state" where
  "rotate_month now q =
     (if qs_month_window q \<noteq> month_of now
      then q\<lparr>qs_month_window := month_of now, qs_month_counter := 0, qs_month_quota_alerted := False\<rparr> else q)"

definition rotate_windows :: "quota_state \<Rightarrow> int \<Rightarrow> quota_state" where
  "rotate_windows q now = rotate_month now (rotate_day now (rotate_minute now q))"

record vt_caps =
  cap_minute :: int
  cap_daily :: int
  cap_monthly :: int

definition remaining :: "vt_caps \<Rightarrow> quota_state \<Rightarrow> int \<times> int \<times> int" where
  "remaining c q = (max 0 (cap_minute c - qs_minute_counter q), max 0 (cap_daily c - qs_day_counter q),
     max 0 (cap_monthly c - qs_month_counter q))"

text \<open>The text of an instant is a parameter.\<close>

definition quota_snapshot :: "(int \<Rightarrow> string) \<Rightarrow> vt_caps \<Rightarrow> quota_state \<Rightarrow> (string \<times> pyval) list" where
  "quota_snapshot isoformat c q =
     [(''minute_used'', PyInt (qs_minute_counter q)), (''minute_cap'', PyInt (cap_minute c)),
      (''minute_remaining'', PyInt (max 0 (cap_minute c - qs_minute_counter q))),
      (''day_used'', PyInt (qs_day_counter q)), (''day_cap'', PyInt (cap_daily c)),
      (''day_remaining'', PyInt (max 0 (cap_daily c - qs_day_counter q))),
      (''month_used'', PyInt (qs_month_counter q)), (''month_cap'', PyInt (cap_monthly c)),
      (''month_remaining'', PyInt (max 0 (cap_monthly c - qs_month_counter q))),
      (''last_check_at'', case qs_last_check_at q of None \<Rightarrow> PyNone | Some t \<Rightarrow> PyStr (isoformat t))]"

text \<open>The window that is full, in the order they are tried.\<close>

definition full_window :: "vt_caps \<Rightarrow> quota_state \<Rightarrow> string option" where
  "full_window c q =
     (if qs_minute_counter q \<ge> cap_minute c then Some ''minute''
      else if qs_day_counter q \<ge> cap_daily c then Some ''day''
      else if qs_month_counter q \<ge> cap_monthly c then Some ''month'' else None)"

record vt_state =
  vs_quota :: quota_state
  vs_store :: store
  vs_requests :: "string list"

definition quota_event :: "bool \<Rightarrow> string \<Rightarrow> int \<Rightarrow> store \<Rightarrow> store" where
  "quota_event bus window cap =
     emit bus ''virustotal.quota_exhausted'' [(''window'', PyStr window), (''cap'', PyInt cap)] ''virustotal''"

text \<open>The first refusal of a window is announced.\<close>

definition refuse :: "vt_caps \<Rightarrow> bool \<Rightarrow> string \<Rightarrow> vt_state \<Rightarrow> vt_state" where
  "refuse c bus window s =
     (let q = vs_quota s in
      if window = ''minute''
      then (if qs_minute_quota_alerted q then s
            else s\<lparr>vs_quota := q\<lparr>qs_minute_quota_alerted := True\<rparr>,
                   vs_store := quota_event bus window (cap_minute c) (vs_store s)\<rparr>)
      else if window = ''day''
      then (if qs_day_quota_alerted q then s
            else s\<lparr>vs_quota := q\<lparr>qs_day_quota_alerted := True\<rparr>,
                   vs_store := quota_event bus window (cap_daily c) (vs_store s)\<rparr>)
      else (if qs_month_quota_alerted q then s
            else s\<lparr>vs_quota := q\<lparr>qs_month_quota_alerted := True\<rparr>,
                   vs_store := quota_event bus window (cap_monthly c) (vs_store s)\<rparr>))"

definition check_and_increment_quota ::
    "vt_caps \<Rightarrow> bool \<Rightarrow> int \<Rightarrow> vt_state \<Rightarrow> (bool \<times> string option) \<times> vt_state" where
  "check_and_increment_quota c bus now s =
     (let q = rotate_windows (vs_quota s) now; s1 = s\<lparr>vs_quota := q\<rparr> in
      case full_window c q of
        Some w \<Rightarrow> ((False, Some w), refuse c bus w s1)
      | None \<Rightarrow> ((True, None), s1\<lparr>vs_quota := q\<lparr>qs_minute_counter := qs_minute_counter q + 1,
          qs_day_counter := qs_day_counter q + 1, qs_month_counter := qs_month_counter q + 1,
          qs_last_check_at := Some now\<rparr>\<rparr>))"

section \<open>Lookup\<close>

definition VT_STATUS_CLEAN :: string where "VT_STATUS_CLEAN = ''clean''"
definition VT_STATUS_MALICIOUS :: string where "VT_STATUS_MALICIOUS = ''malicious''"
definition VT_STATUS_SUSPICIOUS :: string where "VT_STATUS_SUSPICIOUS = ''suspicious''"
definition VT_STATUS_NOT_FOUND :: string where "VT_STATUS_NOT_FOUND = ''not_found''"

text \<open>An answer: a transport error, or a status code with the document the body parses to.\<close>

datatype vt_response = HTTPError | Response int "pyval option"

record vt_env =
  ve_get :: "string \<Rightarrow> nat \<Rightarrow> vt_response"
  ve_now :: "nat \<Rightarrow> int"
  ve_iso :: "int \<Rightarrow> string"
  ve_ints :: int_str
  ve_exc_str :: string
  ve_float_ok :: "string \<Rightarrow> bool"
  ve_repr :: "pyval \<Rightarrow> string"

text \<open>\<open>d.get(k, default)\<close> on a value that need not be a dictionary.\<close>

definition py_get :: "pyval \<Rightarrow> string \<Rightarrow> pyval \<Rightarrow> pyval result" where
  "py_get v k dflt =
     (case v of PyDict d \<Rightarrow> Inr (case map_of d k of None \<Rightarrow> dflt | Some w \<Rightarrow> w) | _ \<Rightarrow> Inl AttributeError)"

definition get_or_empty :: "pyval \<Rightarrow> string \<Rightarrow> pyval result" where
  "get_or_empty v k = bind_r (py_get v k PyNone) (\<lambda>w. Inr (py_or w (PyDict [])))"

definition stat_count :: "int_str \<Rightarrow> pyval \<Rightarrow> string \<Rightarrow> int result" where
  "stat_count ints stats k = bind_r (py_get stats k (PyInt 0)) (to_int ints)"

definition classify_status :: "int_str \<Rightarrow> pyval \<Rightarrow> string result" where
  "classify_status ints stats =
     bind_r (stat_count ints stats ''malicious'') (\<lambda>malicious.
     bind_r (stat_count ints stats ''suspicious'') (\<lambda>suspicious.
     Inr (if malicious > 0 then VT_STATUS_MALICIOUS
          else if suspicious > 0 then VT_STATUS_SUSPICIOUS else VT_STATUS_CLEAN)))"

definition permalink :: "string \<Rightarrow> string" where
  "permalink sha256 = ''https://www.virustotal.com/gui/file/'' @ sha256"

definition found_result :: "int_str \<Rightarrow> string \<Rightarrow> string \<Rightarrow> pyval \<Rightarrow> (string \<times> pyval) list result" where
  "found_result ints sha256 now_iso stats =
     bind_r (classify_status ints stats) (\<lambda>vt_status.
     bind_r (stat_count ints stats ''malicious'') (\<lambda>malicious.
     bind_r (stat_count ints stats ''suspicious'') (\<lambda>suspicious.
     bind_r (stat_count ints stats ''harmless'') (\<lambda>harmless.
     bind_r (stat_count ints stats ''undetected'') (\<lambda>undetected.
     Inr [(''vt_status'', PyStr vt_status), (''status'', PyStr ''ok''), (''malicious'', PyInt malicious),
          (''suspicious'', PyInt suspicious), (''harmless'', PyInt harmless), (''undetected'', PyInt undetected),
          (''permalink'', PyStr (permalink sha256)), (''checked_at'', PyStr now_iso)])))))"

definition not_found_result :: "string \<Rightarrow> string \<Rightarrow> (string \<times> pyval) list" where
  "not_found_result sha256 now_iso =
     [(''vt_status'', PyStr VT_STATUS_NOT_FOUND), (''status'', PyStr ''not_found''), (''checked_at'', PyStr now_iso),
      (''permalink'', PyStr (permalink sha256))]"

definition pick :: "string \<Rightarrow> (string \<times> pyval) list \<Rightarrow> pyval" where
  "pick k d = (case map_of d k of None \<Rightarrow> PyNone | Some v \<Rightarrow> v)"

definition result_event :: "bool \<Rightarrow> (string \<times> pyval) list \<Rightarrow> store \<Rightarrow> store" where
  "result_event bus payload = emit bus ''virustotal.result'' payload ''virustotal''"

text \<open>What an answer becomes: an exception, nothing to persist, or the result with its event.\<close>

definition read_response ::
    "vt_env \<Rightarrow> bool \<Rightarrow> string \<Rightarrow> int \<Rightarrow> vt_response \<Rightarrow> store \<Rightarrow> (string \<times> pyval) list option result \<times> store" where
  "read_response env bus sha256 now r st =
     (case r of
        HTTPError \<Rightarrow> (Inr None, st)
      | Response code body \<Rightarrow>
          if code = 404
          then (Inr (Some (not_found_result sha256 (ve_iso env now))),
                result_event bus [(''sha256'', PyStr sha256), (''vt_status'', PyStr VT_STATUS_NOT_FOUND)] st)
          else if code \<ge> 400 then (Inr None, st)
          else case body of
            None \<Rightarrow> (Inr None, st)
          | Some b \<Rightarrow>
              (case bind_r (get_or_empty b ''data'') (\<lambda>data.
                    bind_r (get_or_empty data ''attributes'') (\<lambda>attributes.
                    bind_r (get_or_empty attributes ''last_analysis_stats'')
                      (found_result (ve_ints env) sha256 (ve_iso env now)))) of
                 Inl e \<Rightarrow> (Inl e, st)
               | Inr res \<Rightarrow> (Inr (Some res), result_event bus
                   [(''sha256'', PyStr sha256), (''vt_status'', pick ''vt_status'' res),
                    (''malicious'', pick ''malicious'' res), (''suspicious'', pick ''suspicious'' res)] st)))"

text \<open>\<open>lookup_by_hash\<close>; \<open>k\<close> is which of the clock readings and answers it meets.\<close>

definition lookup_by_hash ::
    "vt_env \<Rightarrow> string \<Rightarrow> string \<Rightarrow> int \<Rightarrow> int \<Rightarrow> bool \<Rightarrow> nat \<Rightarrow> vt_state \<Rightarrow> (string \<times> pyval) list option result \<times> vt_state" where
  "lookup_by_hash env api_key sha256 daily_quota monthly_quota bus k s =
     (if api_key = [] \<or> sha256 = [] then (Inr None, s)
      else
        (let ((allowed, window), s1) = check_and_increment_quota
               \<lparr>cap_minute = VT_MINUTE_CEILING, cap_daily = daily_quota, cap_monthly = monthly_quota\<rparr> bus (ve_now env k) s in
         if \<not> allowed then (Inr None, s1)
         else
           (let (res, st2) = read_response env bus sha256 (ve_now env k) (ve_get env sha256 k) (vs_store s1)
            in (res, s1\<lparr>vs_store := st2, vs_requests := vs_requests s1 @ [sha256]\<rparr>))))"

text \<open>The wrappers of \<open>app/services/virustotal.py\<close>.\<close>

definition legacy_lookup_by_hash ::
    "vt_env \<Rightarrow> string \<Rightarrow> string \<Rightarrow> int \<Rightarrow> nat \<Rightarrow> vt_state \<Rightarrow> (string \<times> pyval) list option result \<times> vt_state" where
  "legacy_lookup_by_hash env api_key sha256 daily_quota k s =
     lookup_by_hash env api_key sha256 daily_quota VT_MONTHLY_CEILING_DEFAULT False k s"

definition legacy_check_and_increment_quota :: "int \<Rightarrow> int \<Rightarrow> vt_state \<Rightarrow> bool \<times> vt_state" where
  "legacy_check_and_increment_quota cap now s =
     (case check_and_increment_quota \<lparr>cap_minute = VT_MINUTE_CEILING, cap_daily = cap, cap_monthly = VT_MONTHLY_CEILING_DEFAULT\<rparr>
             False now s of ((allowed, _), s1) \<Rightarrow> (allowed, s1))"

section \<open>The drain\<close>

definition VT_DRAIN_MAX_ATTEMPTS :: int where "VT_DRAIN_MAX_ATTEMPTS = 5"
definition VT_DRAIN_DEFAULT_BATCH_SIZE :: int where "VT_DRAIN_DEFAULT_BATCH_SIZE = 20"

record drain_counters =
  dc_examined :: int
  dc_looked_up :: int
  dc_persisted :: int
  dc_skipped_missing_file :: int
  dc_skipped_missing_hash :: int
  dc_skipped_quota_exhausted :: int
  dc_attempts_incremented :: int
  dc_rows_abandoned_max_attempts :: int
  dc_rows_deleted_after_lookup :: int

definition no_drain_counters :: drain_counters where
  "no_drain_counters = \<lparr>dc_examined = 0, dc_looked_up = 0, dc_persisted = 0, dc_skipped_missing_file = 0,
     dc_skipped_missing_hash = 0, dc_skipped_quota_exhausted = 0, dc_attempts_incremented = 0,
     dc_rows_abandoned_max_attempts = 0, dc_rows_deleted_after_lookup = 0\<rparr>"

definition dequeue :: "string \<Rightarrow> vt_state \<Rightarrow> vt_state" where
  "dequeue i s = s\<lparr>vs_store := (vs_store s)\<lparr>st_vt_queue :=
     filter (\<lambda>q. vq_media_file_id q \<noteq> i) (st_vt_queue (vs_store s))\<rparr>\<rparr>"

definition bump_attempt :: "vt_queue_item \<Rightarrow> int \<Rightarrow> vt_state \<Rightarrow> vt_state" where
  "bump_attempt q now s = s\<lparr>vs_store := (vs_store s)\<lparr>st_vt_queue :=
     map (\<lambda>x. if vq_media_file_id x = vq_media_file_id q
              then x\<lparr>vq_attempt_count := vq_attempt_count q + 1, vq_last_attempted_at := Some now\<rparr> else x)
       (st_vt_queue (vs_store s))\<rparr>\<rparr>"

definition stamp :: "string \<Rightarrow> (string \<times> pyval) list \<Rightarrow> int \<Rightarrow> vt_state \<Rightarrow> vt_state" where
  "stamp i res now s = s\<lparr>vs_store := (vs_store s)\<lparr>st_media :=
     map (\<lambda>m. if mf_id m = i
              then m\<lparr>mf_vt_status := (case pick ''vt_status'' res of PyStr t \<Rightarrow> Some t | _ \<Rightarrow> None),
                     mf_virustotal_result := Some res, mf_virustotal_checked_at := Some now\<rparr> else m)
       (st_media (vs_store s))\<rparr>\<rparr>"

text \<open>A pass of the loop body; the last component is the exception that leaves it.\<close>

definition drain_row ::
    "vt_env \<Rightarrow> string \<Rightarrow> int \<Rightarrow> int \<Rightarrow> bool \<Rightarrow> nat \<Rightarrow> vt_queue_item \<Rightarrow> drain_counters \<times> vt_state
     \<Rightarrow> (drain_counters \<times> vt_state) \<times> pyerr option" where
  "drain_row env api_key daily monthly bus k q cs =
     (let c = (fst cs)\<lparr>dc_examined := dc_examined (fst cs) + 1\<rparr>; s = snd cs; i = vq_media_file_id q in
      case table_find mf_id i (st_media (vs_store s)) of
        None \<Rightarrow> ((c\<lparr>dc_skipped_missing_file := dc_skipped_missing_file c + 1\<rparr>, dequeue i s), None)
      | Some m \<Rightarrow>
          if mf_hash_sha256 m \<in> {None, Some []}
          then ((c\<lparr>dc_skipped_missing_hash := dc_skipped_missing_hash c + 1\<rparr>, dequeue i s), None)
          else
            (let c1 = c\<lparr>dc_looked_up := dc_looked_up c + 1\<rparr>;
                 (res, s1) = lookup_by_hash env api_key (the (mf_hash_sha256 m)) daily monthly bus k s in
             case res of
               Inl e \<Rightarrow> ((c1, s1), Some e)
             | Inr None \<Rightarrow>
                 (let c2 = c1\<lparr>dc_attempts_incremented := dc_attempts_incremented c1 + 1\<rparr>;
                      s2 = bump_attempt q (ve_now env k) s1 in
                  if vq_attempt_count q + 1 \<ge> VT_DRAIN_MAX_ATTEMPTS
                  then ((c2\<lparr>dc_rows_abandoned_max_attempts := dc_rows_abandoned_max_attempts c2 + 1\<rparr>, dequeue i s2), None)
                  else ((c2\<lparr>dc_skipped_quota_exhausted := dc_skipped_quota_exhausted c2 + 1\<rparr>, s2), None))
             | Inr (Some r) \<Rightarrow>
                 ((c1\<lparr>dc_persisted := dc_persisted c1 + 1,
                      dc_rows_deleted_after_lookup := dc_rows_deleted_after_lookup c1 + 1\<rparr>,
                   dequeue i (stamp i r (ve_now env k) s1)), None)))"

fun drain_rows ::
    "vt_env \<Rightarrow> string \<Rightarrow> int \<Rightarrow> int \<Rightarrow> bool \<Rightarrow> nat \<Rightarrow> vt_queue_item list \<Rightarrow> drain_counters \<times> vt_state
     \<Rightarrow> (drain_counters \<times> vt_state) \<times> pyerr option" where
  "drain_rows env api_key daily monthly bus k [] cs = (cs, None)"
| "drain_rows env api_key daily monthly bus k (q # qs) cs =
     (case drain_row env api_key daily monthly bus k q cs of
        (cs1, Some e) \<Rightarrow> (cs1, Some e)
      | (cs1, None) \<Rightarrow> drain_rows env api_key daily monthly bus (Suc k) qs cs1)"

definition drain_batch :: "int \<Rightarrow> store \<Rightarrow> vt_queue_item list" where
  "drain_batch batch_size st = take (nat batch_size) (sort_key vq_enqueued_at (st_vt_queue st))"

text \<open>An exception leaves the transaction to be rolled back; the quota and the requests made stay.\<close>

definition drain_vt_queue ::
    "vt_env \<Rightarrow> string \<Rightarrow> int \<Rightarrow> int \<Rightarrow> int \<Rightarrow> bool \<Rightarrow> vt_state \<Rightarrow> drain_counters result \<times> vt_state" where
  "drain_vt_queue env api_key daily monthly batch_size bus s =
     (case drain_rows env api_key daily monthly bus 0 (drain_batch batch_size (vs_store s)) (no_drain_counters, s) of
        ((c, s1), None) \<Rightarrow> (Inr c, s1)
      | ((c, s1), Some e) \<Rightarrow> (Inl e, s1\<lparr>vs_store := (vs_store s)\<lparr>st_events := st_events (vs_store s1)\<rparr>\<rparr>))"

datatype drain_summary = NoIntegration | MissingApiKey | Drained drain_counters

text \<open>\<open>str(v)\<close>, and whether \<open>float(v)\<close> raises.\<close>

definition secret_str :: "vt_env \<Rightarrow> pyval \<Rightarrow> string" where
  "secret_str env v = (case v of PyStr t \<Rightarrow> t | PyInt n \<Rightarrow> str_int n | PyNone \<Rightarrow> ''None''
     | PyBool b \<Rightarrow> (if b then ''True'' else ''False'') | _ \<Rightarrow> ve_repr env v)"

definition float_check :: "vt_env \<Rightarrow> pyval \<Rightarrow> unit result" where
  "float_check env v = (case v of
       PyInt n \<Rightarrow> bind_r (float_of_int n) (\<lambda>_. Inr ())
     | PyBool b \<Rightarrow> Inr () | PyFloat f \<Rightarrow> Inr ()
     | PyStr t \<Rightarrow> (if ve_float_ok env t then Inr () else Inl ValueError)
     | _ \<Rightarrow> Inl TypeError)"

text \<open>\<open>healthcheck\<close> on the answer to the probe.\<close>

definition vt_healthcheck :: "vt_env \<Rightarrow> integration_config \<Rightarrow> vt_response \<Rightarrow> health_report result" where
  "vt_healthcheck env config r =
     (if py_strip (secret_str env (case map_of (icf_secrets config) ''api_key'' of None \<Rightarrow> PyStr [] | Some v \<Rightarrow> v)) = []
      then Inr \<lparr>hr_status = ''error'', hr_detail = Some ''VirusTotal API key is not configured.''\<rparr>
      else bind_r (float_check env (case map_of (icf_options config) ''timeout_seconds'' of None \<Rightarrow> PyInt 10 | Some v \<Rightarrow> v)) (\<lambda>_. case r of
        HTTPError \<Rightarrow> Inr \<lparr>hr_status = ''error'', hr_detail = Some (''VirusTotal unreachable: '' @ ve_exc_str env)\<rparr>
      | Response code body \<Rightarrow>
          if code \<in> {401, 403}
          then Inr \<lparr>hr_status = ''degraded'', hr_detail = Some (''VirusTotal rejected the API key. Generate a fresh '' @
                 ''key at https://www.virustotal.com/gui/my-apikey and '' @ ''re-save the integration.'')\<rparr>
          else if code \<ge> 400
          then Inr \<lparr>hr_status = ''degraded'', hr_detail = Some (''VirusTotal returned HTTP '' @ str_int code @ '' on '' @
                 ''the /users/me probe.'')\<rparr>
          else Inr \<lparr>hr_status = ''ok'', hr_detail = Some ''VirusTotal API key accepted.''\<rparr>))"

definition int_or :: "int_str \<Rightarrow> (string \<times> pyval) list \<Rightarrow> string \<Rightarrow> int \<Rightarrow> int result" where
  "int_or ints d k dflt = to_int ints (py_or (pick k d) (PyInt dflt))"

definition run_drain_vt_queue ::
    "vt_env \<Rightarrow> integ_env \<Rightarrow> (string \<times> pyval) list \<Rightarrow> vt_state \<Rightarrow> drain_summary result \<times> vt_state" where
  "run_drain_vt_queue env ienv args s =
     (case find (\<lambda>i. ig_kind i = ''virustotal'' \<and> ig_enabled i) (rev (st_integrations (vs_store s))) of
        None \<Rightarrow> (Inr NoIntegration, s)
      | Some ig \<Rightarrow>
          (case im_build_config ienv ig of
             Inl e \<Rightarrow> (Inl e, s)
           | Inr config \<Rightarrow>
               (let api_key = py_strip (secret_str env (case map_of (icf_secrets config) ''api_key'' of None \<Rightarrow> PyStr [] | Some v \<Rightarrow> v)) in
                if api_key = [] then (Inr MissingApiKey, s)
                else case bind_r (int_or (ve_ints env) (icf_options config) ''daily_quota'' VT_DAILY_CEILING_DEFAULT) (\<lambda>daily.
                          bind_r (int_or (ve_ints env) (icf_options config) ''monthly_quota'' VT_MONTHLY_CEILING_DEFAULT) (\<lambda>monthly.
                          bind_r (float_check env (py_or (pick ''timeout_seconds'' (icf_options config)) (PyInt 10))) (\<lambda>_.
                          bind_r (int_or (ve_ints env) args ''batch_size'' VT_DRAIN_DEFAULT_BATCH_SIZE) (\<lambda>batch_size.
                          Inr (daily, monthly, batch_size))))) of
                  Inl e \<Rightarrow> (Inl e, s)
                | Inr (daily, monthly, batch_size) \<Rightarrow>
                    (case drain_vt_queue env api_key daily monthly batch_size True s of
                       (Inl e, s1) \<Rightarrow> (Inl e, s1)
                     | (Inr c, s1) \<Rightarrow> (Inr (Drained c), s1)))))"

end
