(* ===== verification/VtGuarantees.thy ===== *)
theory VtGuarantees
  imports VirusTotal RuleGuarantees
begin

text \<open>
  What the VirusTotal worker guarantees: the bound on lookups per window (locale \<open>fixed_window\<close>,
  interpreted for the three windows), the bookkeeping of a drain, and what an exhausted quota does to
  the rows that wait.
\<close>

section \<open>Fixed windows\<close>

text \<open>A counter of granted requests.  \<open>same i s\<close> tells whether the request still falls into the window
  the counter was started in; otherwise the counter starts again from zero.\<close>

locale fixed_window =
  fixes step :: "'i \<Rightarrow> 's \<Rightarrow> bool \<times> 's"
    and cnt :: "'s \<Rightarrow> int"
    and cap :: "'i \<Rightarrow> int"
    and same :: "'i \<Rightarrow> 's \<Rightarrow> bool"
  assumes counts: "cnt (snd (step i s)) = (if same i s then cnt s else 0) + (if fst (step i s) then 1 else 0)"
    and capped: "fst (step i s) \<Longrightarrow> cnt (snd (step i s)) \<le> cap i"
begin

primrec grants :: "'i list \<Rightarrow> 's \<Rightarrow> nat" where
  "grants [] s = 0"
| "grants (i # is) s = (if fst (step i s) then 1 else 0) + grants is (snd (step i s))"

primrec after :: "'i list \<Rightarrow> 's \<Rightarrow> 's" where
  "after [] s = s"
| "after (i # is) s = after is (snd (step i s))"

primrec stays :: "'i list \<Rightarrow> 's \<Rightarrow> bool" where
  "stays [] s = True"
| "stays (i # is) s = (same i s \<and> stays is (snd (step i s)))"

lemma cnt_nonneg: "0 \<le> cnt s \<Longrightarrow> 0 \<le> cnt (after is s)"
  by (induction "is" arbitrary: s) (simp_all add: counts)

lemma grants_append: "grants (xs @ ys) s = grants xs s + grants ys (after xs s)"
  by (induction xs arbitrary: s) simp_all

lemma grants_stay:
  "stays is s \<Longrightarrow> (\<And>i. i \<in> set is \<Longrightarrow> cap i \<le> K) \<Longrightarrow> int (grants is s) \<le> max 0 (K - cnt s)"
proof (induction "is" arbitrary: s)
  case (Cons i "is")
  let ?s = "snd (step i s)"
  have ih: "int (grants is ?s) \<le> max 0 (K - cnt ?s)" using Cons by simp
  have c: "cnt ?s = cnt s + (if fst (step i s) then 1 else 0)" using Cons.prems(1) by (simp add: counts)
  show ?case
  proof (cases "fst (step i s)")
    case True
    with capped [of i s] Cons.prems(2) [of i] have "cnt ?s \<le> K" by simp
    with True c ih show ?thesis by simp
  next
    case False
    with c ih show ?thesis by simp
  qed
qed simp

lemma grants_window:
  assumes "stays is (snd (step i s))" "\<And>j. j \<in> set (i # is) \<Longrightarrow> cap j \<le> K" "0 \<le> cnt s" "0 \<le> K"
  shows "int (grants (i # is) s) \<le> K"
proof -
  let ?s = "snd (step i s)"
  have g: "int (grants is ?s) \<le> max 0 (K - cnt ?s)" using assms(1,2) by (intro grants_stay) auto
  show ?thesis
  proof (cases "fst (step i s)")
    case True
    have "cnt ?s \<le> K" using capped [OF True] assms(2) [of i] by simp
    moreover have "1 \<le> cnt ?s" using True assms(3) by (simp add: counts)
    ultimately show ?thesis using True g by simp
  next
    case False
    moreover have "0 \<le> cnt ?s" using assms(3) by (simp add: counts)
    ultimately show ?thesis using g assms(4) by simp
  qed
qed

lemma first_rotation:
  "stays is s \<or> (\<exists>ys i zs. is = ys @ i # zs \<and> stays ys s \<and> \<not> same i (after ys s))"
proof (induction "is" arbitrary: s)
  case (Cons i "is")
  show ?case
  proof (cases "same i s")
    case True
    then show ?thesis
    proof (cases "stays is (snd (step i s))")
      case False
      with Cons.IH obtain ys j zs where "is = ys @ j # zs" "stays ys (snd (step i s))" "\<not> same j (after ys (snd (step i s)))"
        by blast
      with True have "i # is = (i # ys) @ j # zs \<and> stays (i # ys) s \<and> \<not> same j (after (i # ys) s)" by simp
      then show ?thesis by blast
    qed simp
  next
    case False
    then have "i # is = [] @ i # is \<and> stays [] s \<and> \<not> same i (after [] s)" by simp
    then show ?thesis by blast
  qed
qed simp

text \<open>When at most one rotation can happen, two full windows fit.\<close>

lemma grants_two_windows:
  assumes "\<And>ys i zs. is = ys @ i # zs \<Longrightarrow> \<not> same i (after ys s) \<Longrightarrow> stays zs (snd (step i (after ys s)))"
    and "\<And>i. i \<in> set is \<Longrightarrow> cap i \<le> K" "0 \<le> cnt s" "0 \<le> K"
  shows "int (grants is s) \<le> 2 * K"
proof (cases "stays is s")
  case True
  then have "int (grants is s) \<le> max 0 (K - cnt s)" using assms(2) by (rule grants_stay)
  then show ?thesis using assms(3,4) by simp
next
  case False
  with first_rotation [of "is" s] obtain ys i zs where d: "is = ys @ i # zs" "stays ys s" "\<not> same i (after ys s)" by blast
  have "int (grants ys s) \<le> max 0 (K - cnt s)" using d(1,2) assms(2) by (intro grants_stay) auto
  moreover have "int (grants (i # zs) (after ys s)) \<le> K"
    using assms(1) [OF d(1,3)] assms(2,4) cnt_nonneg [OF assms(3)] d(1) by (intro grants_window) auto
  ultimately show ?thesis using assms(3) by (simp add: d(1) grants_append)
qed

end

text \<open>A request for quota: the caps it is made with and its instant.\<close>

definition quota_step :: "bool \<Rightarrow> vt_caps \<times> int \<Rightarrow> vt_state \<Rightarrow> bool \<times> vt_state" where
  "quota_step bus i s = (fst (fst (check_and_increment_quota (fst i) bus (snd i) s)),
     snd (check_and_increment_quota (fst i) bus (snd i) s))"

lemma refuse_frame [simp]:
  "qs_minute_counter (vs_quota (refuse c bus w s)) = qs_minute_counter (vs_quota s)"
  "qs_day_counter (vs_quota (refuse c bus w s)) = qs_day_counter (vs_quota s)"
  "qs_month_counter (vs_quota (refuse c bus w s)) = qs_month_counter (vs_quota s)"
  "qs_minute_window_started (vs_quota (refuse c bus w s)) = qs_minute_window_started (vs_quota s)"
  "qs_day_window (vs_quota (refuse c bus w s)) = qs_day_window (vs_quota s)"
  "qs_month_window (vs_quota (refuse c bus w s)) = qs_month_window (vs_quota s)"
  "vs_requests (refuse c bus w s) = vs_requests s"
  "st_media (vs_store (refuse c bus w s)) = st_media (vs_store s)"
  "st_vt_queue (vs_store (refuse c bus w s)) = st_vt_queue (vs_store s)"
  by (simp_all add: refuse_def Let_def quota_event_def)

lemma rotate_windows_simps [simp]:
  "qs_minute_counter (rotate_windows q now) = (if now - qs_minute_window_started q \<ge> 60000000 then 0 else qs_minute_counter q)"
  "qs_minute_window_started (rotate_windows q now) =
     (if now - qs_minute_window_started q \<ge> 60000000 then now else qs_minute_window_started q)"
  "qs_day_counter (rotate_windows q now) = (if qs_day_window q = date_of now then qs_day_counter q else 0)"
  "qs_day_window (rotate_windows q now) = date_of now"
  "qs_month_counter (rotate_windows q now) = (if qs_month_window q = month_of now then qs_month_counter q else 0)"
  "qs_month_window (rotate_windows q now) = month_of now"
  by (simp_all add: rotate_windows_def rotate_minute_def rotate_day_def rotate_month_def)

lemma full_window_None:
  "full_window c q = None \<longleftrightarrow>
     qs_minute_counter q < cap_minute c \<and> qs_day_counter q < cap_daily c \<and> qs_month_counter q < cap_monthly c"
  by (auto simp: full_window_def)

lemmas quota_simps = quota_step_def check_and_increment_quota_def Let_def full_window_None

lemma quota_step_windows:
  "qs_minute_window_started (vs_quota (snd (quota_step bus i s))) =
     (if snd i - qs_minute_window_started (vs_quota s) \<ge> 60000000 then snd i else qs_minute_window_started (vs_quota s))"
  "qs_day_window (vs_quota (snd (quota_step bus i s))) = date_of (snd i)"
  "qs_month_window (vs_quota (snd (quota_step bus i s))) = month_of (snd i)"
  by (simp_all add: quota_simps split: option.split)

interpretation minute_window: fixed_window "quota_step bus" "\<lambda>s. qs_minute_counter (vs_quota s)" "\<lambda>i. cap_minute (fst i)"
    "\<lambda>i s. snd i - qs_minute_window_started (vs_quota s) < 60000000" for bus
  by unfold_locales (auto simp: quota_simps split: option.splits)

interpretation day_window: fixed_window "quota_step bus" "\<lambda>s. qs_day_counter (vs_quota s)" "\<lambda>i. cap_daily (fst i)"
    "\<lambda>i s. qs_day_window (vs_quota s) = date_of (snd i)" for bus
  by unfold_locales (auto simp: quota_simps split: option.splits)

interpretation month_window: fixed_window "quota_step bus" "\<lambda>s. qs_month_counter (vs_quota s)" "\<lambda>i. cap_monthly (fst i)"
    "\<lambda>i s. qs_month_window (vs_quota s) = month_of (snd i)" for bus
  by unfold_locales (auto simp: quota_simps split: option.splits)

text \<open>How many of a sequence of requests are granted.\<close>

primrec vt_grants :: "bool \<Rightarrow> (vt_caps \<times> int) list \<Rightarrow> vt_state \<Rightarrow> nat" where
  "vt_grants bus [] s = 0"
| "vt_grants bus (i # is) s = (if fst (quota_step bus i s) then 1 else 0) + vt_grants bus is (snd (quota_step bus i s))"

primrec vt_after :: "bool \<Rightarrow> (vt_caps \<times> int) list \<Rightarrow> vt_state \<Rightarrow> vt_state" where
  "vt_after bus [] s = s"
| "vt_after bus (i # is) s = vt_after bus is (snd (quota_step bus i s))"

lemma vt_grants_windows:
  "minute_window.grants bus is s = vt_grants bus is s" "day_window.grants bus is s = vt_grants bus is s"
  "month_window.grants bus is s = vt_grants bus is s"
  "minute_window.after bus is s = vt_after bus is s" "day_window.after bus is s = vt_after bus is s"
  "month_window.after bus is s = vt_after bus is s"
  by (induction "is" arbitrary: s) simp_all

lemma day_stays:
  "(\<And>i. i \<in> set is \<Longrightarrow> date_of (snd i) = d) \<Longrightarrow> qs_day_window (vs_quota s) = d \<Longrightarrow> day_window.stays bus is s"
  by (induction "is" arbitrary: s) (simp_all add: quota_step_windows)

lemma month_stays:
  "(\<And>i. i \<in> set is \<Longrightarrow> month_of (snd i) = m) \<Longrightarrow> qs_month_window (vs_quota s) = m \<Longrightarrow> month_window.stays bus is s"
  by (induction "is" arbitrary: s) (simp_all add: quota_step_windows)

lemma minute_stays:
  "(\<And>i. i \<in> set is \<Longrightarrow> snd i < t + 60000000) \<Longrightarrow> t \<le> qs_minute_window_started (vs_quota s) \<Longrightarrow> minute_window.stays bus is s"
proof (induction "is" arbitrary: s)
  case (Cons i "is")
  have "snd i - qs_minute_window_started (vs_quota s) < 60000000" using Cons.prems(1) [of i] Cons.prems(2) by simp
  moreover from this have "minute_window.stays bus is (snd (quota_step bus i s))"
    using Cons.prems by (intro Cons.IH) (simp_all add: quota_step_windows)
  ultimately show ?case by simp
qed simp

lemma grants_per_day:
  assumes "\<And>i. i \<in> set is \<Longrightarrow> cap_daily (fst i) \<le> K" "\<And>i. i \<in> set is \<Longrightarrow> date_of (snd i) = d"
    "0 \<le> qs_day_counter (vs_quota s)" "0 \<le> K"
  shows "int (vt_grants bus is s) \<le> K"
proof (cases "is")
  case (Cons i js)
  have "day_window.stays bus js (snd (quota_step bus i s))"
    by (rule day_stays [of _ d]) (use Cons assms(2) in \<open>auto simp: quota_step_windows\<close>)
  from day_window.grants_window [OF this, of K] assms Cons show ?thesis
    unfolding vt_grants_windows by simp
qed (use assms in simp)

lemma grants_per_month:
  assumes "\<And>i. i \<in> set is \<Longrightarrow> cap_monthly (fst i) \<le> K" "\<And>i. i \<in> set is \<Longrightarrow> month_of (snd i) = m"
    "0 \<le> qs_month_counter (vs_quota s)" "0 \<le> K"
  shows "int (vt_grants bus is s) \<le> K"
proof (cases "is")
  case (Cons i js)
  have "month_window.stays bus js (snd (quota_step bus i s))"
    by (rule month_stays [of _ m]) (use Cons assms(2) in \<open>auto simp: quota_step_windows\<close>)
  from month_window.grants_window [OF this, of K] assms Cons show ?thesis
    unfolding vt_grants_windows by simp
qed (use assms in simp)

lemma grants_per_minute:
  assumes "\<And>i. i \<in> set is \<Longrightarrow> cap_minute (fst i) \<le> K" "\<And>i. i \<in> set is \<Longrightarrow> t \<le> snd i \<and> snd i < t + 60000000"
    "0 \<le> qs_minute_counter (vs_quota s)" "0 \<le> K"
  shows "int (vt_grants bus is s) \<le> 2 * K"
proof -
  have "minute_window.stays bus zs (snd (quota_step bus i (minute_window.after bus ys s)))"
    if "is = ys @ i # zs" "\<not> snd i - qs_minute_window_started (vs_quota (minute_window.after bus ys s)) < 60000000" for ys i zs
    by (rule minute_stays [of _ t]) (use that assms(2) in \<open>auto simp: quota_step_windows\<close>)
  from minute_window.grants_two_windows [OF this, of "is" K] assms(1,3,4) show ?thesis
    unfolding vt_grants_windows by blast
qed

text \<open>C21. The quota of VirusTotal lookups.  Take any consecutive requests for quota, from any state of the
  counters, with caps of at most \<open>per_minute\<close>, \<open>per_day\<close> and \<open>per_month\<close>: if they all fall on
  one UTC date at most \<open>per_day\<close> are granted, in one UTC month at most \<open>per_month\<close>, and within any
  sixty seconds at most twice \<open>per_minute\<close> (the minute window starts again at the first request after
  it has ended, so two full windows can meet inside sixty seconds: the limit of the provider is not kept); and the counters stay non-negative, so the bounds hold again for what follows.\<close>

theorem vt_quota_bounds:
  assumes "0 \<le> qs_minute_counter (vs_quota s)" "0 \<le> qs_day_counter (vs_quota s)" "0 \<le> qs_month_counter (vs_quota s)"
    and "\<forall>i\<in>set calls. cap_minute (fst i) \<le> per_minute \<and> cap_daily (fst i) \<le> per_day \<and> cap_monthly (fst i) \<le> per_month"
    and "0 \<le> per_minute" "0 \<le> per_day" "0 \<le> per_month"
  shows "(\<forall>d. (\<forall>i\<in>set calls. date_of (snd i) = d) \<longrightarrow> int (vt_grants bus calls s) \<le> per_day)
    \<and> (\<forall>m. (\<forall>i\<in>set calls. month_of (snd i) = m) \<longrightarrow> int (vt_grants bus calls s) \<le> per_month)
    \<and> (\<forall>t. (\<forall>i\<in>set calls. t \<le> snd i \<and> snd i < t + 60000000) \<longrightarrow> int (vt_grants bus calls s) \<le> 2 * per_minute)
    \<and> 0 \<le> qs_minute_counter (vs_quota (vt_after bus calls s)) \<and> 0 \<le> qs_day_counter (vs_quota (vt_after bus calls s))
    \<and> 0 \<le> qs_month_counter (vs_quota (vt_after bus calls s))"
  using grants_per_day [of calls per_day _ s bus] grants_per_month [of calls per_month _ s bus]
    grants_per_minute [of calls per_minute _ s bus] assms
    minute_window.cnt_nonneg [of s bus calls] day_window.cnt_nonneg [of s bus calls] month_window.cnt_nonneg [of s bus calls]
  unfolding vt_grants_windows by blast

definition sample_quota :: quota_state where
  "sample_quota = \<lparr>qs_minute_counter = 0, qs_minute_window_started = 0, qs_day_counter = 0, qs_day_window = 0,
     qs_month_counter = 0, qs_month_window = (1970, 1), qs_last_check_at = None, qs_minute_quota_alerted = False,
     qs_day_quota_alerted = False, qs_month_quota_alerted = False\<rparr>"

definition sample_vt_state :: "store \<Rightarrow> vt_state" where
  "sample_vt_state st = \<lparr>vs_quota = sample_quota, vs_store = st, vs_requests = []\<rparr>"

definition sample_caps :: vt_caps where
  "sample_caps = \<lparr>cap_minute = 4, cap_daily = 500, cap_monthly = 15500\<rparr>"

text \<open>Four requests at the end of a window and four at the start of the next are all granted.\<close>

definition sample_burst :: "(vt_caps \<times> int) list" where
  "sample_burst = replicate 5 (sample_caps, 59000000) @ replicate 5 (sample_caps, 61000000)"

theorem vt_quota_bounds_witness:
  "vt_grants False sample_burst (sample_vt_state sample_store) = 8
   \<and> int (vt_grants False sample_burst (sample_vt_state sample_store)) \<le> 2 * 4"
proof -
  have t: "\<forall>i\<in>set sample_burst. 59000000 \<le> snd i \<and> snd i < 59000000 + 60000000"
    and c: "\<forall>i\<in>set sample_burst. cap_minute (fst i) \<le> 4 \<and> cap_daily (fst i) \<le> 500 \<and> cap_monthly (fst i) \<le> 15500"
    by (simp_all add: sample_burst_def sample_caps_def)
  have z: "0 \<le> qs_minute_counter (vs_quota (sample_vt_state sample_store))" "0 \<le> qs_day_counter (vs_quota (sample_vt_state sample_store))"
    "0 \<le> qs_month_counter (vs_quota (sample_vt_state sample_store))" "0 \<le> (4 :: int)" "0 \<le> (500 :: int)" "0 \<le> (15500 :: int)"
    by (simp_all add: sample_vt_state_def sample_quota_def)
  have "int (vt_grants False sample_burst (sample_vt_state sample_store)) \<le> 2 * 4"
    using vt_quota_bounds [OF z(1-3) c z(4-6), of False] t by blast
  moreover have "vt_grants False sample_burst (sample_vt_state sample_store) = 8" by code_simp
  ultimately show ?thesis by simp
qed

section \<open>A drain\<close>

definition vt_verdicts :: "string set" where
  "vt_verdicts = {VT_STATUS_CLEAN, VT_STATUS_MALICIOUS, VT_STATUS_SUSPICIOUS, VT_STATUS_NOT_FOUND}"

lemma check_quota_frame [simp]:
  "st_media (vs_store (snd (check_and_increment_quota c bus now s))) = st_media (vs_store s)"
  "st_vt_queue (vs_store (snd (check_and_increment_quota c bus now s))) = st_vt_queue (vs_store s)"
  "vs_requests (snd (check_and_increment_quota c bus now s)) = vs_requests s"
  by (simp_all add: check_and_increment_quota_def Let_def split: option.split)

lemma read_response_frame:
  "read_response env bus sha now r st = (res, st') \<Longrightarrow> st_media st' = st_media st \<and> st_vt_queue st' = st_vt_queue st"
  by (auto simp: read_response_def result_event_def split: vt_response.splits if_splits option.splits sum.splits)

lemma found_result_verdict:
  "found_result ints sha t0 stats = Inr r \<Longrightarrow> \<exists>t\<in>vt_verdicts. pick ''vt_status'' r = PyStr t"
  by (auto simp: found_result_def classify_status_def bind_r_def pick_def vt_verdicts_def split: sum.splits)

lemma read_response_verdict:
  "read_response env bus sha now r st = (Inr (Some res), st') \<Longrightarrow> \<exists>t\<in>vt_verdicts. pick ''vt_status'' res = PyStr t"
  by (auto simp: read_response_def not_found_result_def pick_def [of _ "(_ # _)"] vt_verdicts_def bind_r_def
      split: vt_response.splits if_splits option.splits sum.splits dest: found_result_verdict)

lemma lookup_cases:
  assumes "lookup_by_hash env key sha daily monthly bus k s = (res, s')"
  obtains (idle) "res = Inr None" "s' = s"
  | (denied) c where "res = Inr None" "s' = snd (check_and_increment_quota c bus (ve_now env k) s)"
  | (asked) c st where "read_response env bus sha (ve_now env k) (ve_get env sha k)
        (vs_store (snd (check_and_increment_quota c bus (ve_now env k) s))) = (res, st)"
      "s' = (snd (check_and_increment_quota c bus (ve_now env k) s))\<lparr>vs_store := st, vs_requests := vs_requests s @ [sha]\<rparr>"
proof -
  define c where "c = \<lparr>cap_minute = VT_MINUTE_CEILING, cap_daily = daily, cap_monthly = monthly\<rparr>"
  obtain ok w s1 where q: "check_and_increment_quota c bus (ve_now env k) s = ((ok, w), s1)"
    by (metis prod.exhaust)
  have r: "vs_requests s1 = vs_requests s" using check_quota_frame(3) [of c bus "ve_now env k" s] q by simp
  show thesis
  proof (cases "key = [] \<or> sha = []")
    case True
    with assms show thesis by (intro idle) (simp_all add: lookup_by_hash_def)
  next
    case False
    show thesis
    proof (cases ok)
      case True
      obtain st where "read_response env bus sha (ve_now env k) (ve_get env sha k) (vs_store s1) = (res, st)"
        "s' = s1\<lparr>vs_store := st, vs_requests := vs_requests s1 @ [sha]\<rparr>"
        using assms False True q by (auto simp: lookup_by_hash_def c_def [symmetric] split: prod.splits)
      with q r show thesis by (intro asked [of c st]) simp_all
    next
      case no: False
      with assms False q show thesis by (intro denied [of c]) (simp_all add: lookup_by_hash_def c_def [symmetric])
    qed
  qed
qed

lemma lookup_frame:
  assumes "lookup_by_hash env key sha daily monthly bus k s = (res, s')"
  shows "st_media (vs_store s') = st_media (vs_store s)" "st_vt_queue (vs_store s') = st_vt_queue (vs_store s)"
    "res = Inr (Some r) \<Longrightarrow> \<exists>t\<in>vt_verdicts. pick ''vt_status'' r = PyStr t"
  using assms
  by (cases rule: lookup_cases; auto dest: read_response_frame read_response_verdict)+

text \<open>The balance of the counters.\<close>

definition balanced :: "drain_counters \<Rightarrow> bool" where
  "balanced c = (dc_examined c = dc_skipped_missing_file c + dc_skipped_missing_hash c + dc_looked_up c
     \<and> dc_looked_up c = dc_persisted c + dc_attempts_incremented c
     \<and> dc_attempts_incremented c = dc_rows_abandoned_max_attempts c + dc_skipped_quota_exhausted c
     \<and> dc_rows_deleted_after_lookup c = dc_persisted c)"

definition left_queue :: "drain_counters \<Rightarrow> int" where
  "left_queue c = dc_skipped_missing_file c + dc_skipped_missing_hash c + dc_persisted c + dc_rows_abandoned_max_attempts c"

text \<open>What one row of the queue does: it goes, or stays with an attempt counted.\<close>

definition queue_step :: "string \<Rightarrow> vt_queue_item list \<Rightarrow> vt_queue_item list \<Rightarrow> bool" where
  "queue_step i t t' = (map vq_media_file_id t' = map vq_media_file_id t
     \<or> map vq_media_file_id t' = filter (\<lambda>j. j \<noteq> i) (map vq_media_file_id t))"

definition verdict_row :: "media_file \<Rightarrow> bool" where
  "verdict_row m = (\<exists>t\<in>vt_verdicts. mf_vt_status m = Some t)"

lemma map_id_filter: "map vq_media_file_id (filter (\<lambda>q. vq_media_file_id q \<noteq> i) t) = filter (\<lambda>j. j \<noteq> i) (map vq_media_file_id t)"
  by (induction t) auto

lemma bump_attempt_frame [simp]:
  "map vq_media_file_id (st_vt_queue (vs_store (bump_attempt q now s))) = map vq_media_file_id (st_vt_queue (vs_store s))"
  "st_media (vs_store (bump_attempt q now s)) = st_media (vs_store s)" "vs_requests (bump_attempt q now s) = vs_requests s"
  "vs_quota (bump_attempt q now s) = vs_quota s"
  by (simp_all add: bump_attempt_def)

lemma dequeue_frame [simp]:
  "map vq_media_file_id (st_vt_queue (vs_store (dequeue i s))) = filter (\<lambda>j. j \<noteq> i) (map vq_media_file_id (st_vt_queue (vs_store s)))"
  "st_media (vs_store (dequeue i s)) = st_media (vs_store s)" "vs_requests (dequeue i s) = vs_requests s"
  "vs_quota (dequeue i s) = vs_quota s"
  by (simp_all add: dequeue_def map_id_filter)

lemma stamp_frame [simp]:
  "st_vt_queue (vs_store (stamp i r now s)) = st_vt_queue (vs_store s)"
  "map mf_id (st_media (vs_store (stamp i r now s))) = map mf_id (st_media (vs_store s))"
  by (simp_all add: stamp_def)

lemma stamp_rows:
  "\<exists>t\<in>vt_verdicts. pick ''vt_status'' r = PyStr t \<Longrightarrow> m \<in> set (st_media (vs_store (stamp i r now s))) \<Longrightarrow>
     m \<in> set (st_media (vs_store s)) \<or> verdict_row m"
  by (auto simp: stamp_def verdict_row_def)

lemma count_gone:
  "distinct xs \<Longrightarrow> i \<in> set xs \<Longrightarrow> int (length (filter (\<lambda>j. j \<noteq> i) xs)) = int (length xs) - 1"
proof -
  assume "distinct xs" "i \<in> set xs"
  then have "length (filter (\<lambda>j. j = i) xs) = 1" by (simp add: distinct_length_filter)
  moreover have "length (filter (\<lambda>j. j = i) xs) + length (filter (\<lambda>j. j \<noteq> i) xs) = length xs"
    by (rule sum_length_filter_compl)
  ultimately show ?thesis by simp
qed

lemma drain_row_cases:
  assumes "drain_row env key daily monthly bus k q (c, s) = ((c', s'), None)"
  obtains (gone_file) "c' = c\<lparr>dc_examined := dc_examined c + 1, dc_skipped_missing_file := dc_skipped_missing_file c + 1\<rparr>"
      "s' = dequeue (vq_media_file_id q) s"
  | (no_hash) "c' = c\<lparr>dc_examined := dc_examined c + 1, dc_skipped_missing_hash := dc_skipped_missing_hash c + 1\<rparr>"
      "s' = dequeue (vq_media_file_id q) s"
  | (retry) sha s1 where "lookup_by_hash env key sha daily monthly bus k s = (Inr None, s1)"
      "vq_attempt_count q + 1 < VT_DRAIN_MAX_ATTEMPTS"
      "c' = c\<lparr>dc_examined := dc_examined c + 1, dc_looked_up := dc_looked_up c + 1,
        dc_attempts_incremented := dc_attempts_incremented c + 1, dc_skipped_quota_exhausted := dc_skipped_quota_exhausted c + 1\<rparr>"
      "s' = bump_attempt q (ve_now env k) s1"
  | (abandon) sha s1 where "lookup_by_hash env key sha daily monthly bus k s = (Inr None, s1)"
      "vq_attempt_count q + 1 \<ge> VT_DRAIN_MAX_ATTEMPTS"
      "c' = c\<lparr>dc_examined := dc_examined c + 1, dc_looked_up := dc_looked_up c + 1,
        dc_attempts_incremented := dc_attempts_incremented c + 1,
        dc_rows_abandoned_max_attempts := dc_rows_abandoned_max_attempts c + 1\<rparr>"
      "s' = dequeue (vq_media_file_id q) (bump_attempt q (ve_now env k) s1)"
  | (persist) sha s1 r where "lookup_by_hash env key sha daily monthly bus k s = (Inr (Some r), s1)"
      "c' = c\<lparr>dc_examined := dc_examined c + 1, dc_looked_up := dc_looked_up c + 1, dc_persisted := dc_persisted c + 1,
        dc_rows_deleted_after_lookup := dc_rows_deleted_after_lookup c + 1\<rparr>"
      "s' = dequeue (vq_media_file_id q) (stamp (vq_media_file_id q) r (ve_now env k) s1)"
proof (cases "table_find mf_id (vq_media_file_id q) (st_media (vs_store s))")
  case None
  with assms show thesis by (intro gone_file) (simp_all add: drain_row_def Let_def)
next
  case (Some m)
  show thesis
  proof (cases "mf_hash_sha256 m \<in> {None, Some []}")
    case True
    with assms Some show thesis by (intro no_hash) (simp_all add: drain_row_def Let_def)
  next
    case False
    then obtain sha where h: "mf_hash_sha256 m = Some sha" "sha \<noteq> []" by auto
    obtain res s1 where l: "lookup_by_hash env key sha daily monthly bus k s = (res, s1)"
      by (metis prod.exhaust)
    note go = assms Some h l
    show thesis
    proof (cases res)
      case (Inl e)
      with go show thesis by (simp add: drain_row_def Let_def)
    next
      case (Inr x)
      show thesis
      proof (cases x)
        case None
        show thesis
        proof (cases "vq_attempt_count q + 1 \<ge> VT_DRAIN_MAX_ATTEMPTS")
          case True
          with go Inr None show thesis by (intro abandon [of sha s1]) (simp_all add: drain_row_def Let_def)
        next
          case False
          with go Inr None show thesis by (intro retry [of sha s1]) (simp_all add: drain_row_def Let_def)
        qed
      next
        case (Some r)
        with go Inr show thesis by (intro persist [of sha r s1]) (simp_all add: drain_row_def Let_def)
      qed
    qed
  qed
qed

lemma drain_row_step:
  assumes row: "drain_row env key daily monthly bus k q (c, s) = ((c', s'), None)"
    and bal: "balanced c"
    and queue: "distinct (map vq_media_file_id (st_vt_queue (vs_store s)))" "vq_media_file_id q \<in> vq_media_file_id ` set (st_vt_queue (vs_store s))"
  shows "balanced c' \<and> dc_examined c' = dc_examined c + 1
    \<and> queue_step (vq_media_file_id q) (st_vt_queue (vs_store s)) (st_vt_queue (vs_store s'))
    \<and> int (length (st_vt_queue (vs_store s'))) = int (length (st_vt_queue (vs_store s))) - (left_queue c' - left_queue c)
    \<and> map mf_id (st_media (vs_store s')) = map mf_id (st_media (vs_store s))
    \<and> (\<forall>m\<in>set (st_media (vs_store s')). m \<in> set (st_media (vs_store s)) \<or> verdict_row m)"
proof -
  let ?i = "vq_media_file_id q"
  let ?n = "int (length (st_vt_queue (vs_store s)))"
  have len: "length t = length (map vq_media_file_id t)" for t :: "vt_queue_item list" by simp
  have gone: "int (length (filter (\<lambda>j. j \<noteq> ?i) (map vq_media_file_id (st_vt_queue (vs_store s))))) = ?n - 1"
    using count_gone [OF queue(1)] queue(2) by simp
  have out: "queue_step ?i (st_vt_queue (vs_store s)) (st_vt_queue (vs_store (dequeue ?i x)))
      \<and> int (length (st_vt_queue (vs_store (dequeue ?i x)))) = ?n - 1"
    if "map vq_media_file_id (st_vt_queue (vs_store x)) = map vq_media_file_id (st_vt_queue (vs_store s))" for x
    using gone that by (simp add: queue_step_def len [of "st_vt_queue (vs_store (dequeue ?i x))"] del: length_map)
  from row show ?thesis
  proof (cases rule: drain_row_cases)
    case gone_file
    then show ?thesis using bal out [of s] by (simp add: balanced_def left_queue_def)
  next
    case no_hash
    then show ?thesis using bal out [of s] by (simp add: balanced_def left_queue_def)
  next
    case (retry sha s1)
    note f = lookup_frame(1,2) [OF retry(1)]
    have "map vq_media_file_id (st_vt_queue (vs_store s')) = map vq_media_file_id (st_vt_queue (vs_store s))"
      using retry f by simp
    then have "queue_step ?i (st_vt_queue (vs_store s)) (st_vt_queue (vs_store s'))" "length (st_vt_queue (vs_store s')) = length (st_vt_queue (vs_store s))"
      by (simp_all add: queue_step_def map_equality_iff)
    then show ?thesis using bal retry f by (simp add: balanced_def left_queue_def)
  next
    case (abandon sha s1)
    note f = lookup_frame(1,2) [OF abandon(1)]
    show ?thesis using bal abandon f out [of "bump_attempt q (ve_now env k) s1"] by (simp add: balanced_def left_queue_def)
  next
    case (persist sha s1 r)
    note f = lookup_frame [OF persist(1)]
    show ?thesis
      using bal persist f(1,2) out [of "stamp ?i r (ve_now env k) s1"] stamp_rows [OF f(3) [OF refl], of _ ?i "ve_now env k" s1]
      by (simp add: balanced_def left_queue_def)
  qed
qed

lemma queue_step_members:
  "queue_step i t t' \<Longrightarrow> j \<noteq> i \<Longrightarrow> j \<in> vq_media_file_id ` set t' \<longleftrightarrow> j \<in> vq_media_file_id ` set t"
  "queue_step i t t' \<Longrightarrow> distinct (map vq_media_file_id t) \<Longrightarrow> distinct (map vq_media_file_id t')"
proof -
  assume q: "queue_step i t t'"
  then have "set (map vq_media_file_id t') = set (map vq_media_file_id t)
      \<or> set (map vq_media_file_id t') = set (filter (\<lambda>j. j \<noteq> i) (map vq_media_file_id t))"
    unfolding queue_step_def by metis
  then show "j \<noteq> i \<Longrightarrow> j \<in> vq_media_file_id ` set t' \<longleftrightarrow> j \<in> vq_media_file_id ` set t" by auto
  from q show "distinct (map vq_media_file_id t) \<Longrightarrow> distinct (map vq_media_file_id t')"
    unfolding queue_step_def by (metis distinct_filter)
qed

lemma drain_rows_account:
  assumes "drain_rows env key daily monthly bus k qs (c, s) = ((c', s'), None)" "balanced c"
    and "distinct (map vq_media_file_id (st_vt_queue (vs_store s)))" "distinct (map vq_media_file_id qs)"
    and "set (map vq_media_file_id qs) \<subseteq> vq_media_file_id ` set (st_vt_queue (vs_store s))"
  shows "balanced c' \<and> dc_examined c' = dc_examined c + int (length qs)
    \<and> (\<forall>j. j \<notin> vq_media_file_id ` set qs \<longrightarrow>
         (j \<in> vq_media_file_id ` set (st_vt_queue (vs_store s')) \<longleftrightarrow> j \<in> vq_media_file_id ` set (st_vt_queue (vs_store s))))
    \<and> int (length (st_vt_queue (vs_store s'))) = int (length (st_vt_queue (vs_store s))) - (left_queue c' - left_queue c)
    \<and> map mf_id (st_media (vs_store s')) = map mf_id (st_media (vs_store s))
    \<and> (\<forall>m\<in>set (st_media (vs_store s')). m \<in> set (st_media (vs_store s)) \<or> verdict_row m)"
  using assms
proof (induction qs arbitrary: k c s)
  case (Cons q qs)
  obtain c1 s1 where r: "drain_row env key daily monthly bus k q (c, s) = ((c1, s1), None)"
    and rest: "drain_rows env key daily monthly bus (Suc k) qs (c1, s1) = ((c', s'), None)"
    using Cons.prems(1) by (auto split: prod.splits option.splits)
  have q: "vq_media_file_id q \<in> vq_media_file_id ` set (st_vt_queue (vs_store s))" using Cons.prems(5) by simp
  note st = drain_row_step [OF r Cons.prems(2,3) q]
  have d1: "distinct (map vq_media_file_id (st_vt_queue (vs_store s1)))"
    using st queue_step_members(2) Cons.prems(3) by blast
  have new: "vq_media_file_id q \<notin> vq_media_file_id ` set qs" using Cons.prems(4) by simp
  have sub: "set (map vq_media_file_id qs) \<subseteq> vq_media_file_id ` set (st_vt_queue (vs_store s1))"
  proof
    fix j assume j: "j \<in> set (map vq_media_file_id qs)"
    then have "j \<noteq> vq_media_file_id q" using new by (metis list.set_map)
    moreover have "j \<in> vq_media_file_id ` set (st_vt_queue (vs_store s))" using j Cons.prems(5) by auto
    ultimately show "j \<in> vq_media_file_id ` set (st_vt_queue (vs_store s1))" using st queue_step_members(1) by blast
  qed
  have dq: "distinct (map vq_media_file_id qs)" using Cons.prems(4) by simp
  note ih = Cons.IH [OF rest conjunct1 [OF st] d1 dq sub]
  from st have step: "queue_step (vq_media_file_id q) (st_vt_queue (vs_store s)) (st_vt_queue (vs_store s1))" by simp
  have others: "j \<in> vq_media_file_id ` set (st_vt_queue (vs_store s')) \<longleftrightarrow> j \<in> vq_media_file_id ` set (st_vt_queue (vs_store s))"
    if j: "j \<notin> vq_media_file_id ` set (q # qs)" for j
  proof -
    from j have n: "j \<noteq> vq_media_file_id q" "j \<notin> vq_media_file_id ` set qs" by simp_all
    from ih n(2) have "j \<in> vq_media_file_id ` set (st_vt_queue (vs_store s')) \<longleftrightarrow> j \<in> vq_media_file_id ` set (st_vt_queue (vs_store s1))"
      by simp
    with queue_step_members(1) [OF step n(1)] show ?thesis by simp
  qed
  have rows: "\<forall>m\<in>set (st_media (vs_store s')). m \<in> set (st_media (vs_store s)) \<or> verdict_row m"
    using ih st by fast
  show ?case using ih st others rows by simp
qed simp

lemma drain_batch_rows:
  assumes "distinct (map vq_media_file_id (st_vt_queue st))"
  shows "distinct (map vq_media_file_id (drain_batch n st))" "set (drain_batch n st) \<subseteq> set (st_vt_queue st)"
    "length (drain_batch n st) = min (length (st_vt_queue st)) (nat n)"
proof -
  have "distinct (map vq_media_file_id (sort_key vq_enqueued_at (st_vt_queue st)))"
    using assms by (simp add: distinct_map)
  then show "distinct (map vq_media_file_id (drain_batch n st))"
    by (simp add: drain_batch_def take_map [symmetric] distinct_take)
  show "set (drain_batch n st) \<subseteq> set (st_vt_queue st)" by (auto simp: drain_batch_def dest: in_set_takeD)
qed (simp add: drain_batch_def)

text \<open>A drain accounts for every row it examines.  It examines the oldest rows, as many as the batch
  allows; each is dropped because its file is gone or has no hash, or is looked up and then either stamped
  and dropped or kept with one more attempt, and dropped at the fifth; the counters say which, the queue is
  shorter by exactly the dropped rows, no row outside the batch comes or goes, no media row is added or
  removed, and one that changed carries one of the four verdicts.\<close>

theorem vt_drain_accounts:
  assumes "drain_vt_queue env api_key daily monthly batch bus s = (Inr c, s')"
    and "unique_keys vq_media_file_id (st_vt_queue (vs_store s))"
  shows "dc_examined c = int (min (length (st_vt_queue (vs_store s))) (nat batch))
    \<and> dc_examined c = dc_skipped_missing_file c + dc_skipped_missing_hash c + dc_looked_up c
    \<and> dc_looked_up c = dc_persisted c + dc_rows_abandoned_max_attempts c + dc_skipped_quota_exhausted c
    \<and> int (length (st_vt_queue (vs_store s'))) = int (length (st_vt_queue (vs_store s)))
        - (dc_skipped_missing_file c + dc_skipped_missing_hash c + dc_persisted c + dc_rows_abandoned_max_attempts c)
    \<and> (\<forall>j. j \<notin> vq_media_file_id ` set (drain_batch batch (vs_store s)) \<longrightarrow>
         (j \<in> vq_media_file_id ` set (st_vt_queue (vs_store s')) \<longleftrightarrow> j \<in> vq_media_file_id ` set (st_vt_queue (vs_store s))))
    \<and> map mf_id (st_media (vs_store s')) = map mf_id (st_media (vs_store s))
    \<and> (\<forall>m\<in>set (st_media (vs_store s')). m \<in> set (st_media (vs_store s))
         \<or> mf_vt_status m \<in> {Some ''clean'', Some ''malicious'', Some ''suspicious'', Some ''not_found''})"
proof -
  have d: "distinct (map vq_media_file_id (st_vt_queue (vs_store s)))" using assms(2) by (simp add: unique_keys_def)
  have r: "drain_rows env api_key daily monthly bus 0 (drain_batch batch (vs_store s)) (no_drain_counters, s) = ((c, s'), None)"
    using assms(1) by (auto simp: drain_vt_queue_def split: prod.splits option.splits)
  have b: "balanced no_drain_counters" by (simp add: balanced_def no_drain_counters_def)
  have sub: "set (map vq_media_file_id (drain_batch batch (vs_store s))) \<subseteq> vq_media_file_id ` set (st_vt_queue (vs_store s))"
    using drain_batch_rows(2) [OF d] by auto
  have v: "verdict_row m \<longleftrightarrow> mf_vt_status m \<in> {Some ''clean'', Some ''malicious'', Some ''suspicious'', Some ''not_found''}" for m
    by (auto simp: verdict_row_def vt_verdicts_def VT_STATUS_CLEAN_def VT_STATUS_MALICIOUS_def VT_STATUS_SUSPICIOUS_def
        VT_STATUS_NOT_FOUND_def)
  from drain_rows_account [OF r b d drain_batch_rows(1) [OF d] sub] drain_batch_rows(3) [OF d, of batch]
  show ?thesis unfolding v by (simp add: balanced_def left_queue_def no_drain_counters_def)
qed

definition sample_vt_env :: vt_env where
  "sample_vt_env = \<lparr>ve_get = (\<lambda>sha k. Response 404 None), ve_now = (\<lambda>k. 5000000), ve_iso = (\<lambda>t. ''now''), ve_ints = (\<lambda>t. None),
     ve_exc_str = ''error'', ve_float_ok = (\<lambda>t. True), ve_repr = (\<lambda>v. ''?'')\<rparr>"

definition hashed_store :: "vt_queue_item list \<Rightarrow> store" where
  "hashed_store qs = sample_store\<lparr>st_media := [sample_media\<lparr>mf_hash_sha256 := Some ''ab''\<rparr>], st_vt_queue := qs\<rparr>"

definition queued_row :: "string \<Rightarrow> int \<Rightarrow> vt_queue_item" where
  "queued_row i n = \<lparr>vq_media_file_id = i, vq_enqueued_at = 0, vq_last_attempted_at = None, vq_attempt_count = n\<rparr>"

theorem vt_drain_accounts_witness:
  "\<exists>c s'. drain_vt_queue sample_vt_env ''key'' 500 15500 20 False (sample_vt_state (hashed_store [queued_row ''m1'' 0, queued_row ''gone'' 0])) = (Inr c, s')
     \<and> dc_examined c = 2 \<and> int (length (st_vt_queue (vs_store s'))) = 2 -
        (dc_skipped_missing_file c + dc_skipped_missing_hash c + dc_persisted c + dc_rows_abandoned_max_attempts c)"
proof -
  let ?s = "sample_vt_state (hashed_store [queued_row ''m1'' 0, queued_row ''gone'' 0])"
  let ?d = "drain_vt_queue sample_vt_env ''key'' 500 15500 20 False ?s"
  have "is_ok (fst ?d)" by code_simp
  then obtain c s' where d: "?d = (Inr c, s')"
    by (cases ?d; cases "fst ?d") (simp_all add: is_ok_def)
  have u: "unique_keys vq_media_file_id (st_vt_queue (vs_store ?s))"
    by (simp add: unique_keys_def sample_vt_state_def hashed_store_def queued_row_def)
  have n: "length (st_vt_queue (vs_store ?s)) = 2" by (simp add: sample_vt_state_def hashed_store_def)
  from vt_drain_accounts [OF d u] show ?thesis
    unfolding n by (intro exI [of _ c] exI [of _ s']) (simp add: d)
qed

section \<open>An exhausted quota\<close>

definition minute_full :: "vt_env \<Rightarrow> vt_state \<Rightarrow> bool" where
  "minute_full env s = (VT_MINUTE_CEILING \<le> qs_minute_counter (vs_quota s)
     \<and> (\<forall>k. ve_now env k - qs_minute_window_started (vs_quota s) < 60000000))"

lemma lookup_denied:
  assumes "minute_full env s"
  obtains s' where "lookup_by_hash env key sha daily monthly bus k s = (Inr None, s')" "minute_full env s'"
    "vs_requests s' = vs_requests s" "st_media (vs_store s') = st_media (vs_store s)" "st_vt_queue (vs_store s') = st_vt_queue (vs_store s)"
proof -
  define c where "c = \<lparr>cap_minute = VT_MINUTE_CEILING, cap_daily = daily, cap_monthly = monthly\<rparr>"
  have now: "\<not> 60000000 \<le> ve_now env k - qs_minute_window_started (vs_quota s)" "VT_MINUTE_CEILING \<le> qs_minute_counter (vs_quota s)"
    using assms by (auto simp: minute_full_def not_le)
  then have "full_window c (rotate_windows (vs_quota s) (ve_now env k)) = Some ''minute''"
    by (simp add: full_window_def c_def)
  then obtain w where w: "full_window c (rotate_windows (vs_quota s) (ve_now env k)) = Some w" by blast
  define s1 where "s1 = refuse c bus w (s\<lparr>vs_quota := rotate_windows (vs_quota s) (ve_now env k)\<rparr>)"
  have q: "check_and_increment_quota c bus (ve_now env k) s = ((False, Some w), s1)"
    by (simp add: check_and_increment_quota_def Let_def w s1_def)
  have f: "minute_full env s1" "vs_requests s1 = vs_requests s" "st_media (vs_store s1) = st_media (vs_store s)"
    "st_vt_queue (vs_store s1) = st_vt_queue (vs_store s)"
    using assms now by (simp_all add: s1_def minute_full_def)
  show thesis
  proof (cases "key = [] \<or> sha = []")
    case True
    then show thesis using that [of s] assms by (simp add: lookup_by_hash_def)
  next
    case False
    then have "lookup_by_hash env key sha daily monthly bus k s = (Inr None, s1)"
      by (simp add: lookup_by_hash_def c_def [symmetric] q)
    with f show thesis by (intro that [of s1])
  qed
qed

definition has_hash :: "store \<Rightarrow> vt_queue_item \<Rightarrow> bool" where
  "has_hash st q = (case table_find mf_id (vq_media_file_id q) (st_media st) of
     None \<Rightarrow> False | Some m \<Rightarrow> mf_hash_sha256 m \<notin> {None, Some []})"

lemma drain_row_denied:
  assumes "minute_full env s"
  obtains c' s' where "drain_row env key daily monthly bus k q (c, s) = ((c', s'), None)" "minute_full env s'"
    "vs_requests s' = vs_requests s" "st_media (vs_store s') = st_media (vs_store s)"
    "st_vt_queue (vs_store s') =
       (if has_hash (vs_store s) q \<and> vq_attempt_count q + 1 < VT_DRAIN_MAX_ATTEMPTS
        then map (\<lambda>x. if vq_media_file_id x = vq_media_file_id q
              then x\<lparr>vq_attempt_count := vq_attempt_count q + 1, vq_last_attempted_at := Some (ve_now env k)\<rparr> else x)
             (st_vt_queue (vs_store s))
        else filter (\<lambda>x. vq_media_file_id x \<noteq> vq_media_file_id q) (st_vt_queue (vs_store s)))"
proof (cases "has_hash (vs_store s) q")
  case False
  have d: "minute_full env (dequeue (vq_media_file_id q) s)"
    "st_vt_queue (vs_store (dequeue (vq_media_file_id q) s)) =
       filter (\<lambda>x. vq_media_file_id x \<noteq> vq_media_file_id q) (st_vt_queue (vs_store s))"
    using assms by (simp_all add: minute_full_def dequeue_def)
  obtain c' where "drain_row env key daily monthly bus k q (c, s) = ((c', dequeue (vq_media_file_id q) s), None)"
    using False by (fastforce simp: has_hash_def drain_row_def Let_def split: option.splits)
  with d False show thesis by (intro that [of c' "dequeue (vq_media_file_id q) s"]) simp_all
next
  case True
  then obtain m sha where m: "table_find mf_id (vq_media_file_id q) (st_media (vs_store s)) = Some m"
    "mf_hash_sha256 m = Some sha" "sha \<noteq> []" by (auto simp: has_hash_def split: option.splits)
  obtain s1 where l: "lookup_by_hash env key sha daily monthly bus k s = (Inr None, s1)" "minute_full env s1"
    "vs_requests s1 = vs_requests s" "st_media (vs_store s1) = st_media (vs_store s)" "st_vt_queue (vs_store s1) = st_vt_queue (vs_store s)"
    using lookup_denied [OF assms] by metis
  let ?b = "bump_attempt q (ve_now env k) s1"
  have f: "minute_full env ?b" "minute_full env (dequeue (vq_media_file_id q) ?b)" using l(2) by (simp_all add: minute_full_def)
  have g: "filter (\<lambda>x. vq_media_file_id x \<noteq> vq_media_file_id q) (map (\<lambda>x. if vq_media_file_id x = vq_media_file_id q
      then x\<lparr>vq_attempt_count := n, vq_last_attempted_at := t\<rparr> else x) xs) = filter (\<lambda>x. vq_media_file_id x \<noteq> vq_media_file_id q) xs" for n t xs
    by (induction xs) auto
  show thesis
  proof (cases "vq_attempt_count q + 1 < VT_DRAIN_MAX_ATTEMPTS")
    case low: True
    obtain c' where "drain_row env key daily monthly bus k q (c, s) = ((c', ?b), None)"
      using m l(1) low by (simp add: drain_row_def Let_def)
    moreover have "st_vt_queue (vs_store ?b) = map (\<lambda>x. if vq_media_file_id x = vq_media_file_id q
        then x\<lparr>vq_attempt_count := vq_attempt_count q + 1, vq_last_attempted_at := Some (ve_now env k)\<rparr> else x)
        (st_vt_queue (vs_store s))" using l(5) by (simp add: bump_attempt_def)
    ultimately show thesis using f(1) l(3,4) True low by (intro that [of c' ?b]) simp_all
  next
    case high: False
    obtain c' where "drain_row env key daily monthly bus k q (c, s) = ((c', dequeue (vq_media_file_id q) ?b), None)"
      using m l(1) high by (simp add: drain_row_def Let_def)
    moreover have "st_vt_queue (vs_store (dequeue (vq_media_file_id q) ?b)) =
        filter (\<lambda>x. vq_media_file_id x \<noteq> vq_media_file_id q) (st_vt_queue (vs_store s))"
      using l(5) by (simp add: bump_attempt_def dequeue_def g)
    ultimately show thesis using f(2) l(3,4) True high by (intro that [of c' "dequeue (vq_media_file_id q) ?b"]) simp_all
  qed
qed

lemma drain_rows_denied:
  assumes "minute_full env s" "distinct (map vq_media_file_id qs)" "set qs \<subseteq> set (st_vt_queue (vs_store s))"
    "distinct (map vq_media_file_id (st_vt_queue (vs_store s)))"
  shows "\<exists>c' s'. drain_rows env key daily monthly bus k qs (c, s) = ((c', s'), None)
    \<and> vs_requests s' = vs_requests s \<and> st_media (vs_store s') = st_media (vs_store s)
    \<and> vq_media_file_id ` set (st_vt_queue (vs_store s')) \<subseteq> vq_media_file_id ` set (st_vt_queue (vs_store s))
    \<and> (\<forall>x\<in>set (st_vt_queue (vs_store s)). vq_media_file_id x \<notin> vq_media_file_id ` set qs \<longrightarrow> x \<in> set (st_vt_queue (vs_store s')))
    \<and> (\<forall>q\<in>set qs. has_hash (vs_store s) q \<longrightarrow>
         (if vq_attempt_count q + 1 < VT_DRAIN_MAX_ATTEMPTS
          then \<exists>x\<in>set (st_vt_queue (vs_store s')). vq_media_file_id x = vq_media_file_id q \<and> vq_attempt_count x = vq_attempt_count q + 1
          else vq_media_file_id q \<notin> vq_media_file_id ` set (st_vt_queue (vs_store s'))))"
  using assms
proof (induction qs arbitrary: k c s)
  case Nil
  then show ?case by simp
next
  case (Cons q qs)
  let ?i = "vq_media_file_id q"
  let ?keep = "has_hash (vs_store s) q \<and> vq_attempt_count q + 1 < VT_DRAIN_MAX_ATTEMPTS"
  obtain c1 s1 where r: "drain_row env key daily monthly bus k q (c, s) = ((c1, s1), None)" and f: "minute_full env s1"
    and same: "vs_requests s1 = vs_requests s" "st_media (vs_store s1) = st_media (vs_store s)"
    and queue: "st_vt_queue (vs_store s1) =
       (if ?keep then map (\<lambda>x. if vq_media_file_id x = ?i
              then x\<lparr>vq_attempt_count := vq_attempt_count q + 1, vq_last_attempted_at := Some (ve_now env k)\<rparr> else x)
             (st_vt_queue (vs_store s))
        else filter (\<lambda>x. vq_media_file_id x \<noteq> ?i) (st_vt_queue (vs_store s)))"
    by (rule drain_row_denied [OF Cons.prems(1), where key = key and daily = daily and monthly = monthly and bus = bus and k = k and q = q and c = c])
  have new: "?i \<notin> vq_media_file_id ` set qs" using Cons.prems(2) by simp
  have others: "x \<in> set (st_vt_queue (vs_store s1))" if "x \<in> set (st_vt_queue (vs_store s))" "vq_media_file_id x \<noteq> ?i" for x
    using that by (auto simp: queue intro: image_eqI [of _ _ x])
  have idl: "map vq_media_file_id (st_vt_queue (vs_store s1)) =
      (if ?keep then map vq_media_file_id (st_vt_queue (vs_store s))
       else filter (\<lambda>j. j \<noteq> ?i) (map vq_media_file_id (st_vt_queue (vs_store s))))"
    unfolding queue by (simp add: map_id_filter)
  have "set (map vq_media_file_id (st_vt_queue (vs_store s1))) \<subseteq> set (map vq_media_file_id (st_vt_queue (vs_store s)))"
    unfolding idl by auto
  then have ids: "vq_media_file_id ` set (st_vt_queue (vs_store s1)) \<subseteq> vq_media_file_id ` set (st_vt_queue (vs_store s))"
    by (simp only: list.set_map)
  have d1: "distinct (map vq_media_file_id (st_vt_queue (vs_store s1)))"
    unfolding idl using Cons.prems(4) by simp
  have "vq_media_file_id x \<noteq> ?i" if "x \<in> set qs" for x using that new by (metis imageI)
  then have sub: "set qs \<subseteq> set (st_vt_queue (vs_store s1))" using Cons.prems(3) others by auto
  have dq: "distinct (map vq_media_file_id qs)" using Cons.prems(2) by simp
  obtain c' s' where ih: "drain_rows env key daily monthly bus (Suc k) qs (c1, s1) = ((c', s'), None)"
    "vs_requests s' = vs_requests s1" "st_media (vs_store s') = st_media (vs_store s1)"
    "vq_media_file_id ` set (st_vt_queue (vs_store s')) \<subseteq> vq_media_file_id ` set (st_vt_queue (vs_store s1))"
    "\<forall>x\<in>set (st_vt_queue (vs_store s1)). vq_media_file_id x \<notin> vq_media_file_id ` set qs \<longrightarrow> x \<in> set (st_vt_queue (vs_store s'))"
    "\<forall>q\<in>set qs. has_hash (vs_store s1) q \<longrightarrow>
         (if vq_attempt_count q + 1 < VT_DRAIN_MAX_ATTEMPTS
          then \<exists>x\<in>set (st_vt_queue (vs_store s')). vq_media_file_id x = vq_media_file_id q \<and> vq_attempt_count x = vq_attempt_count q + 1
          else vq_media_file_id q \<notin> vq_media_file_id ` set (st_vt_queue (vs_store s')))"
    using Cons.IH [OF f dq sub d1] by blast
  have hh: "has_hash (vs_store s1) = has_hash (vs_store s)" by (simp add: has_hash_def same fun_eq_iff)
  have this_row: "if vq_attempt_count q + 1 < VT_DRAIN_MAX_ATTEMPTS
      then \<exists>x\<in>set (st_vt_queue (vs_store s')). vq_media_file_id x = ?i \<and> vq_attempt_count x = vq_attempt_count q + 1
      else ?i \<notin> vq_media_file_id ` set (st_vt_queue (vs_store s'))" if h: "has_hash (vs_store s) q"
  proof (cases "vq_attempt_count q + 1 < VT_DRAIN_MAX_ATTEMPTS")
    case True
    let ?x = "q\<lparr>vq_attempt_count := vq_attempt_count q + 1, vq_last_attempted_at := Some (ve_now env k)\<rparr>"
    have "?x \<in> set (st_vt_queue (vs_store s1))" using Cons.prems(3) True h by (auto simp: queue intro!: image_eqI [of _ _ q])
    then have "?x \<in> set (st_vt_queue (vs_store s'))" using ih(5) new by simp
    then show ?thesis using True by (auto intro!: bexI [of _ ?x])
  next
    case False
    then have "?i \<notin> vq_media_file_id ` set (st_vt_queue (vs_store s1))" by (auto simp: queue)
    then show ?thesis using ih(4) False by auto
  qed
  have stay: "\<forall>x\<in>set (st_vt_queue (vs_store s)). vq_media_file_id x \<notin> vq_media_file_id ` set (q # qs) \<longrightarrow> x \<in> set (st_vt_queue (vs_store s'))"
    using ih(5) others by auto
  have "drain_rows env key daily monthly bus k (q # qs) (c, s) = ((c', s'), None)" using r ih(1) by simp
  moreover have "vq_media_file_id ` set (st_vt_queue (vs_store s')) \<subseteq> vq_media_file_id ` set (st_vt_queue (vs_store s))"
    using ih(4) ids by (rule subset_trans)
  ultimately show ?case
    using ih(2,3,6) same hh this_row stay by (intro exI [of _ c'] exI [of _ s']) simp
qed

text \<open>An exhausted quota uses up the attempts of the rows that wait.  While the minute window is full no
  request is sent and no file gets a verdict, but every examined row with a hash still loses one of its five
  attempts, and one that has none left is deleted from the queue without ever having been looked up.\<close>

theorem vt_quota_spends_attempts:
  assumes "minute_full env s" "unique_keys vq_media_file_id (st_vt_queue (vs_store s))"
    and "q \<in> set (drain_batch batch (vs_store s))" "has_hash (vs_store s) q"
  shows "\<exists>c s'. drain_vt_queue env api_key daily monthly batch bus s = (Inr c, s')
    \<and> vs_requests s' = vs_requests s \<and> st_media (vs_store s') = st_media (vs_store s)
    \<and> (if vq_attempt_count q < 4
       then \<exists>x\<in>set (st_vt_queue (vs_store s')). vq_media_file_id x = vq_media_file_id q \<and> vq_attempt_count x = vq_attempt_count q + 1
       else vq_media_file_id q \<notin> vq_media_file_id ` set (st_vt_queue (vs_store s')))"
proof -
  have d: "distinct (map vq_media_file_id (st_vt_queue (vs_store s)))" using assms(2) by (simp add: unique_keys_def)
  note b = drain_batch_rows(1,2) [OF d, of batch]
  have max: "vq_attempt_count q + 1 < VT_DRAIN_MAX_ATTEMPTS \<longleftrightarrow> vq_attempt_count q < 4"
    by (auto simp: VT_DRAIN_MAX_ATTEMPTS_def)
  from drain_rows_denied [OF assms(1) b d, of api_key daily monthly bus 0 no_drain_counters] obtain c s' where
    r: "drain_rows env api_key daily monthly bus 0 (drain_batch batch (vs_store s)) (no_drain_counters, s) = ((c, s'), None)"
    and rest: "vs_requests s' = vs_requests s" "st_media (vs_store s') = st_media (vs_store s)"
      "if vq_attempt_count q < 4
       then \<exists>x\<in>set (st_vt_queue (vs_store s')). vq_media_file_id x = vq_media_file_id q \<and> vq_attempt_count x = vq_attempt_count q + 1
       else vq_media_file_id q \<notin> vq_media_file_id ` set (st_vt_queue (vs_store s'))"
    using assms(3,4) unfolding max [symmetric] by blast
  from r have "drain_vt_queue env api_key daily monthly batch bus s = (Inr c, s')" by (simp add: drain_vt_queue_def)
  with rest show ?thesis by blast
qed

theorem vt_quota_spends_attempts_witness:
  "\<exists>c s'. drain_vt_queue sample_vt_env ''key'' 500 15500 20 False
      ((sample_vt_state (hashed_store [queued_row ''m1'' 4]))\<lparr>vs_quota := sample_quota\<lparr>qs_minute_counter := 4\<rparr>\<rparr>) = (Inr c, s')
     \<and> vs_requests s' = [] \<and> st_vt_queue (vs_store s') = []"
proof -
  let ?s = "(sample_vt_state (hashed_store [queued_row ''m1'' 4]))\<lparr>vs_quota := sample_quota\<lparr>qs_minute_counter := 4\<rparr>\<rparr>"
  have f: "minute_full sample_vt_env ?s"
    by (simp add: minute_full_def VT_MINUTE_CEILING_def sample_vt_env_def sample_quota_def)
  have u: "unique_keys vq_media_file_id (st_vt_queue (vs_store ?s))" and q: "queued_row ''m1'' 4 \<in> set (drain_batch 20 (vs_store ?s))"
    and h: "has_hash (vs_store ?s) (queued_row ''m1'' 4)"
    by (simp_all add: unique_keys_def sample_vt_state_def hashed_store_def drain_batch_def has_hash_def queued_row_def sample_media_def)
  obtain c s' where d: "drain_vt_queue sample_vt_env ''key'' 500 15500 20 False ?s = (Inr c, s')" "vs_requests s' = vs_requests ?s"
    "''m1'' \<notin> vq_media_file_id ` set (st_vt_queue (vs_store s'))"
    using vt_quota_spends_attempts [OF f u q h, of "''key''" 500 15500 False] by (auto simp: queued_row_def)
  moreover have "st_vt_queue (vs_store (snd (drain_vt_queue sample_vt_env ''key'' 500 15500 20 False ?s))) = []" by code_simp
  ultimately show ?thesis by (intro exI [of _ c] exI [of _ s']) (simp add: sample_vt_state_def)
qed

end
