(* ===== verification/MediaDelete.thy ===== *)
theory MediaDelete
  imports RulesService RuleGuarantees
begin

text \<open>
  Deletion of media files by an operator (\<open>app/services/media_delete_service.py\<close>) with its endpoints
  (\<open>app/api/v1/media.py\<close>) and the request's transaction.  The file system is a map from paths of
  regular files to their contents.  Parameters (\<open>delete_env\<close>): the data directory, the name of the day,
  fresh bucket names, and which system calls fail.
\<close>

record delete_env =
  de_data_dir :: string
  de_today :: string
  de_uuid :: "nat \<Rightarrow> string"
  de_mkdir_fails :: "string \<Rightarrow> bool"
  de_move_fails :: "string \<Rightarrow> string \<Rightarrow> bool"
  de_bus :: bool

record delete_state =
  ds_store :: store
  ds_fs :: "string \<Rightarrow> string option"

record delete_result =
  dr_media_id :: string
  dr_path :: string
  dr_removed_from_disk :: bool
  dr_trash_path :: "string option"

definition slash :: "string \<Rightarrow> string \<Rightarrow> string" where
  "slash d n = d @ CHR ''/'' # n"

text \<open>\<open>_allocate_bucket_dir\<close>; \<open>k\<close> tells the calls apart.\<close>

definition allocate_bucket_dir :: "delete_env \<Rightarrow> nat \<Rightarrow> string result" where
  "allocate_bucket_dir env k =
     (let bucket = slash (slash (slash (de_data_dir env) ''trash'') (de_today env)) (de_uuid env k)
      in if de_mkdir_fails env bucket then Inl OSError else Inr bucket)"

text \<open>\<open>shutil.move\<close> onto a path that is not a directory replaces what is there.\<close>

definition move_onto :: "string \<Rightarrow> string \<Rightarrow> (string \<Rightarrow> string option) \<Rightarrow> string \<Rightarrow> string option" where
  "move_onto src dst fs = (fs(src := None))(dst := fs src)"

definition trash_target :: "string \<Rightarrow> media_file \<Rightarrow> string" where
  "trash_target bucket m = slash bucket (if mf_relative_path m = [] then name_part (mf_path m) else mf_relative_path m)"

text \<open>The disk half of \<open>_delete_record\<close>: where the file went, or the exception.\<close>

definition trash_file :: "delete_env \<Rightarrow> string \<Rightarrow> media_file \<Rightarrow> delete_state \<Rightarrow> string option result \<times> delete_state" where
  "trash_file env bucket m s =
     (if ds_fs s (mf_path m) = None then (Inr None, s)
      else
        (let dst = trash_target bucket m in
         if de_mkdir_fails env (dir_part dst) \<or> de_move_fails env (mf_path m) dst then (Inl OSError, s)
         else (Inr (Some dst), s\<lparr>ds_fs := move_onto (mf_path m) dst (ds_fs s)\<rparr>)))"

text \<open>The database half.\<close>

definition forget_record ::
    "delete_env \<Rightarrow> string option \<Rightarrow> bool \<Rightarrow> string option \<Rightarrow> string option \<Rightarrow> media_file \<Rightarrow> delete_state \<Rightarrow> delete_state" where
  "forget_record env actor_id remove reason trash m s =
     s\<lparr>ds_store := delete_media (mf_id m)
        (emit (de_bus env) ''media.deleted''
          [(''id'', PyStr (mf_id m)), (''path'', PyStr (mf_path m)), (''reason'', opt_str reason),
           (''remove_from_disk'', PyBool remove)] ''media.delete_service''
          (audit_record ''file.deleted'' actor_id (Some ''operator'') (Some ''media_file'') (Some (mf_id m))
            [(''path'', PyStr (mf_path m)), (''reason'', opt_str reason), (''remove_from_disk'', PyBool remove),
             (''trash_path'', opt_str trash)] (ds_store s)))\<rparr>"

definition delete_record ::
    "delete_env \<Rightarrow> string option \<Rightarrow> bool \<Rightarrow> string option \<Rightarrow> string option \<Rightarrow> media_file \<Rightarrow> delete_state
     \<Rightarrow> delete_result result \<times> delete_state" where
  "delete_record env actor_id remove reason bucket_dir m s =
     (let (trash, s1) =
        (if \<not> remove then (Inr None, s)
         else case (case bucket_dir of Some b \<Rightarrow> Inr b | None \<Rightarrow> allocate_bucket_dir env 0) of
           Inl e \<Rightarrow> (Inl e, s)
         | Inr bucket \<Rightarrow> trash_file env bucket m s) in
      case trash of
        Inl e \<Rightarrow> (Inl e, s1)
      | Inr t \<Rightarrow> (Inr \<lparr>dr_media_id = mf_id m, dr_path = mf_path m, dr_removed_from_disk = (t \<noteq> None), dr_trash_path = t\<rparr>,
                 forget_record env actor_id remove reason t m s1))"

definition delete_one ::
    "delete_env \<Rightarrow> string option \<Rightarrow> bool \<Rightarrow> string option \<Rightarrow> string \<Rightarrow> delete_state \<Rightarrow> delete_result result \<times> delete_state" where
  "delete_one env actor_id remove reason media_id s =
     (case table_find mf_id media_id (st_media (ds_store s)) of
        None \<Rightarrow> (Inl LookupError, s)
      | Some m \<Rightarrow> delete_record env actor_id remove reason None m s)"

fun delete_each ::
    "delete_env \<Rightarrow> string option \<Rightarrow> bool \<Rightarrow> string option \<Rightarrow> string option \<Rightarrow> string list \<Rightarrow> delete_state
     \<Rightarrow> delete_result list result \<times> delete_state" where
  "delete_each env actor_id remove reason bucket [] s = (Inr [], s)"
| "delete_each env actor_id remove reason bucket (i # is) s =
     (case table_find mf_id i (st_media (ds_store s)) of
        None \<Rightarrow> delete_each env actor_id remove reason bucket is s
      | Some m \<Rightarrow>
          (case delete_record env actor_id remove reason bucket m s of
             (Inl e, s1) \<Rightarrow> (Inl e, s1)
           | (Inr r, s1) \<Rightarrow>
               (case delete_each env actor_id remove reason bucket is s1 of
                  (Inl e, s2) \<Rightarrow> (Inl e, s2)
                | (Inr rs, s2) \<Rightarrow> (Inr (r # rs), s2))))"

definition bulk_delete ::
    "delete_env \<Rightarrow> string option \<Rightarrow> bool \<Rightarrow> string option \<Rightarrow> string list \<Rightarrow> delete_state
     \<Rightarrow> delete_result list result \<times> delete_state" where
  "bulk_delete env actor_id remove reason media_ids s =
     (if remove
      then (case allocate_bucket_dir env 0 of
              Inl e \<Rightarrow> (Inl e, s)
            | Inr bucket \<Rightarrow> delete_each env actor_id remove reason (Some bucket) media_ids s)
      else delete_each env actor_id remove reason None media_ids s)"

text \<open>The endpoints: the transaction commits with the answer and is rolled back on an exception; the
  files and the events sent are not part of it.\<close>

definition in_request :: "delete_state \<Rightarrow> 'a result \<times> delete_state \<Rightarrow> 'a result \<times> delete_state" where
  "in_request s r =
     (case r of
        (Inr x, s1) \<Rightarrow> (Inr x, s1)
      | (Inl e, s1) \<Rightarrow> (Inl e, s1\<lparr>ds_store := (ds_store s)\<lparr>st_events := st_events (ds_store s1)\<rparr>\<rparr>))"

definition delete_media_file ::
    "delete_env \<Rightarrow> string \<Rightarrow> bool \<Rightarrow> string option \<Rightarrow> string \<Rightarrow> delete_state \<Rightarrow> delete_result result \<times> delete_state" where
  "delete_media_file env user remove reason media_id s =
     in_request s (case delete_one env (Some user) remove reason media_id s of
       (Inl LookupError, s1) \<Rightarrow> (Inl (NotFoundError (''Media file '' @ (CHR 0x27 # media_id @ [CHR 0x27]) @ '' not found'')), s1)
     | r \<Rightarrow> r)"

record bulk_response =
  br_deleted :: "delete_result list"
  br_requested :: nat
  br_not_found :: "string list"

definition bulk_delete_media ::
    "delete_env \<Rightarrow> string \<Rightarrow> bool \<Rightarrow> string option \<Rightarrow> string list \<Rightarrow> delete_state \<Rightarrow> bulk_response result \<times> delete_state" where
  "bulk_delete_media env user remove reason ids s =
     (if \<not> distinct ids then (Inl (ValidationError ''ids must not contain duplicates''), s)
      else in_request s
        (case bulk_delete env (Some user) remove reason ids s of
           (Inl e, s1) \<Rightarrow> (Inl e, s1)
         | (Inr rs, s1) \<Rightarrow>
             (Inr \<lparr>br_deleted = rs, br_requested = length ids,
                   br_not_found = filter (\<lambda>i. i \<notin> dr_media_id ` set rs) ids\<rparr>, s1)))"

section \<open>The effect of a bulk delete\<close>

text \<open>The rows a list of ids selects, and what happens to the disk for one of them.\<close>

definition chosen :: "string list \<Rightarrow> media_file list \<Rightarrow> media_file list" where
  "chosen is t = List.map_filter (\<lambda>i. table_find mf_id i t) is"

definition trash_step :: "string \<Rightarrow> media_file \<Rightarrow> (string \<Rightarrow> string option) \<Rightarrow> string \<Rightarrow> string option" where
  "trash_step bucket m fs = (if fs (mf_path m) = None then fs else move_onto (mf_path m) (trash_target bucket m) fs)"

definition outcome :: "string \<Rightarrow> (string \<Rightarrow> string option) \<Rightarrow> media_file \<Rightarrow> delete_result" where
  "outcome bucket fs m = \<lparr>dr_media_id = mf_id m, dr_path = mf_path m, dr_removed_from_disk = (fs (mf_path m) \<noteq> None),
     dr_trash_path = (if fs (mf_path m) = None then None else Some (trash_target bucket m))\<rparr>"

fun outcomes :: "string \<Rightarrow> (string \<Rightarrow> string option) \<Rightarrow> media_file list \<Rightarrow> delete_result list" where
  "outcomes bucket fs [] = []"
| "outcomes bucket fs (m # ms) = outcome bucket fs m # outcomes bucket (trash_step bucket m fs) ms"

lemma delete_record_effect:
  assumes "delete_record env a True reason (Some bucket) m s = (Inr r, s')"
  shows "r = outcome bucket (ds_fs s) m" "ds_fs s' = trash_step bucket m (ds_fs s)"
    "st_media (ds_store s') = filter (\<lambda>x. mf_id x \<noteq> mf_id m) (st_media (ds_store s))"
    "length (st_audit (ds_store s')) = Suc (length (st_audit (ds_store s)))"
  using assms
  by (auto simp: delete_record_def trash_file_def Let_def outcome_def trash_step_def forget_record_def delete_media_def
      audit_record_def split: if_splits)

lemma chosen_simps [simp]:
  "chosen [] t = []"
  "chosen (i # is) t = (case table_find mf_id i t of None \<Rightarrow> chosen is t | Some m \<Rightarrow> m # chosen is t)"
  by (simp_all add: chosen_def List.map_filter_simps split: option.split)

lemma chosen_filter:
  "unique_keys mf_id t \<Longrightarrow> i \<notin> set is \<Longrightarrow> chosen is (filter (\<lambda>x. mf_id x \<noteq> i) t) = chosen is t"
proof (induction "is")
  case (Cons j js)
  have "table_find mf_id j (filter (\<lambda>x. mf_id x \<noteq> i) t) = table_find mf_id j t"
    using Cons.prems table_find_filter [OF Cons.prems(1), of j "\<lambda>x. mf_id x \<noteq> i"]
    by (auto split: option.split dest: table_find_SomeD)
  with Cons show ?case by (simp split: option.split)
qed simp

lemma delete_each_effect:
  "delete_each env a True reason (Some bucket) is s = (Inr rs, s') \<Longrightarrow> distinct is \<Longrightarrow> unique_keys mf_id (st_media (ds_store s)) \<Longrightarrow>
     rs = outcomes bucket (ds_fs s) (chosen is (st_media (ds_store s)))
     \<and> ds_fs s' = fold (trash_step bucket) (chosen is (st_media (ds_store s))) (ds_fs s)
     \<and> st_media (ds_store s') = filter (\<lambda>x. mf_id x \<notin> set is) (st_media (ds_store s))
     \<and> length (st_audit (ds_store s')) = length (st_audit (ds_store s)) + length rs"
proof (induction "is" arbitrary: s rs)
  case (Cons i "is")
  show ?case
  proof (cases "table_find mf_id i (st_media (ds_store s))")
    case None
    then have "mf_id x \<noteq> i" if "x \<in> set (st_media (ds_store s))" for x
      using that by (metis imageI table_find_None_iff)
    then have "filter (\<lambda>x. mf_id x \<notin> set (i # is)) (st_media (ds_store s)) = filter (\<lambda>x. mf_id x \<notin> set is) (st_media (ds_store s))"
      by (intro filter_cong) auto
    with None Cons.IH [of s rs] Cons.prems show ?thesis by simp
  next
    case (Some m)
    then have i: "mf_id m = i" by (auto dest: table_find_SomeD)
    obtain r s1 rs1 where d: "delete_record env a True reason (Some bucket) m s = (Inr r, s1)"
      and rest: "delete_each env a True reason (Some bucket) is s1 = (Inr rs1, s')" and rs: "rs = r # rs1"
      using Cons.prems(1) Some by (auto split: prod.splits sum.splits)
    note e = delete_record_effect [OF d]
    have u: "unique_keys mf_id (st_media (ds_store s1))" unfolding e(3) by (rule unique_keys_filter) (rule Cons.prems(3))
    have c: "chosen is (st_media (ds_store s1)) = chosen is (st_media (ds_store s))"
      unfolding e(3) i using Cons.prems by (intro chosen_filter) auto
    have "filter (\<lambda>x. mf_id x \<notin> set (i # is)) (st_media (ds_store s)) = filter (\<lambda>x. mf_id x \<notin> set is) (st_media (ds_store s1))"
      unfolding e(3) i by (auto intro: filter_cong)
    with Cons.IH [OF rest _ u] Cons.prems(2) show ?thesis using Some rs e c by simp
  qed
qed simp

text \<open>Moves that do not get in each other's way: distinct sources, distinct targets, no source a target.\<close>

definition separate :: "string \<Rightarrow> media_file list \<Rightarrow> bool" where
  "separate bucket ms = (distinct (map mf_path ms) \<and> distinct (map (trash_target bucket) ms)
     \<and> set (map mf_path ms) \<inter> set (map (trash_target bucket) ms) = {})"

lemma trash_step_other: "p \<noteq> mf_path m \<Longrightarrow> p \<noteq> trash_target bucket m \<Longrightarrow> trash_step bucket m fs p = fs p"
  by (simp add: trash_step_def move_onto_def)

lemma fold_trash_other:
  "p \<notin> set (map mf_path ms) \<Longrightarrow> p \<notin> set (map (trash_target bucket) ms) \<Longrightarrow> fold (trash_step bucket) ms fs p = fs p"
  by (induction ms arbitrary: fs) (simp_all add: trash_step_other)

lemma fold_trash_moves:
  "separate bucket ms \<Longrightarrow> m \<in> set ms \<Longrightarrow> fs (mf_path m) \<noteq> None \<Longrightarrow>
     fold (trash_step bucket) ms fs (trash_target bucket m) = fs (mf_path m)
     \<and> fold (trash_step bucket) ms fs (mf_path m) = None"
proof (induction ms arbitrary: fs)
  case (Cons x ms)
  have sep: "separate bucket ms" using Cons.prems(1) by (auto simp: separate_def)
  show ?case
  proof (cases "m = x")
    case True
    have "mf_path x \<noteq> trash_target bucket x" using Cons.prems(1) by (auto simp: separate_def)
    then have s: "trash_step bucket x fs (trash_target bucket x) = fs (mf_path x)" "trash_step bucket x fs (mf_path x) = None"
      using Cons.prems(3) unfolding True by (auto simp: trash_step_def move_onto_def)
    have "trash_target bucket x \<notin> set (map mf_path ms)" "trash_target bucket x \<notin> set (map (trash_target bucket) ms)"
      "mf_path x \<notin> set (map mf_path ms)" "mf_path x \<notin> set (map (trash_target bucket) ms)"
      using Cons.prems(1) by (auto simp: separate_def)
    with s True show ?thesis by (simp add: fold_trash_other)
  next
    case False
    then have m: "m \<in> set ms" using Cons.prems(2) by simp
    have "mf_path m \<in> mf_path ` set ms" using m by (rule imageI)
    then have "mf_path m \<noteq> mf_path x" "mf_path m \<noteq> trash_target bucket x" using Cons.prems(1) by (auto simp: separate_def)
    then have "trash_step bucket x fs (mf_path m) = fs (mf_path m)" by (rule trash_step_other)
    with Cons.IH [OF sep m, of "trash_step bucket x fs"] Cons.prems(3) show ?thesis by simp
  qed
qed simp

lemma outcomes_separate:
  "separate bucket ms \<Longrightarrow> outcomes bucket fs ms = map (outcome bucket fs) ms"
proof (induction ms arbitrary: fs)
  case (Cons x ms)
  have "outcome bucket (trash_step bucket x fs) m = outcome bucket fs m" if "m \<in> set ms" for m
  proof -
    have "mf_path m \<in> mf_path ` set ms" using that by (rule imageI)
    then have "mf_path m \<noteq> mf_path x" "mf_path m \<noteq> trash_target bucket x" using Cons.prems by (auto simp: separate_def)
    then show ?thesis by (simp add: outcome_def trash_step_other)
  qed
  with Cons show ?case by (simp add: separate_def)
qed simp

lemma set_chosen: "m \<in> set (chosen is t) \<Longrightarrow> m \<in> set t"
  by (induction "is") (auto split: option.splits dest: table_find_SomeD)

lemma chosen_ids:
  "map mf_id (chosen is t) = filter (\<lambda>i. i \<in> mf_id ` set t) is"
proof (induction "is")
  case (Cons i "is")
  then show ?case
    using table_find_None_iff [of mf_id i t] by (cases "table_find mf_id i t") (auto dest: table_find_SomeD)
qed simp

lemma fold_trash_untouched:
  "(\<And>m. m \<in> set ms \<Longrightarrow> p \<noteq> mf_path m \<and> (fs (mf_path m) \<noteq> None \<longrightarrow> p \<noteq> trash_target bucket m)) \<Longrightarrow> separate bucket ms \<Longrightarrow>
     fold (trash_step bucket) ms fs p = fs p"
proof (induction ms arbitrary: fs)
  case (Cons x ms)
  have here: "trash_step bucket x fs p = fs p" using Cons.prems(1) [of x] by (auto simp: trash_step_def move_onto_def)
  have "trash_step bucket x fs (mf_path m) = fs (mf_path m)" if "m \<in> set ms" for m
  proof -
    have "mf_path m \<in> mf_path ` set ms" using that by (rule imageI)
    then show ?thesis using Cons.prems(2) by (intro trash_step_other) (auto simp: separate_def)
  qed
  then have "fold (trash_step bucket) ms (trash_step bucket x fs) p = trash_step bucket x fs p"
    using Cons.prems by (intro Cons.IH) (auto simp: separate_def)
  with here show ?case by simp
qed simp

text \<open>C22. What an operator deletes from disk can be recovered.  When a bulk delete with removal from disk
  answers, and the files it selects do not share a relative path (nor lie inside the new bucket), the rows of
  exactly the requested ids are gone, ids without a row are reported as not found, each deletion has its audit
  row, and each file that was on disk has left its path and lies with its contents at the reported place in
  the trash; every other file is untouched.\<close>

theorem bulk_delete_recoverable:
  assumes del: "bulk_delete_media env user True reason ids s = (Inr resp, s')"
    and bucket: "allocate_bucket_dir env 0 = Inr bucket"
    and rows: "unique_keys mf_id (st_media (ds_store s))" "separate bucket (chosen ids (st_media (ds_store s)))"
  shows "st_media (ds_store s') = filter (\<lambda>m. mf_id m \<notin> set ids) (st_media (ds_store s))
    \<and> map dr_media_id (br_deleted resp) = filter (\<lambda>i. i \<in> mf_id ` set (st_media (ds_store s))) ids
    \<and> br_not_found resp = filter (\<lambda>i. i \<notin> mf_id ` set (st_media (ds_store s))) ids
    \<and> length (st_audit (ds_store s')) = length (st_audit (ds_store s)) + length (br_deleted resp)
    \<and> (\<forall>r\<in>set (br_deleted resp).
         case ds_fs s (dr_path r) of
           None \<Rightarrow> \<not> dr_removed_from_disk r \<and> dr_trash_path r = None
         | Some content \<Rightarrow> dr_removed_from_disk r
             \<and> (\<exists>t. dr_trash_path r = Some t \<and> ds_fs s' t = Some content \<and> ds_fs s' (dr_path r) = None))
    \<and> (\<forall>p. p \<notin> dr_path ` set (br_deleted resp) \<and> Some p \<notin> dr_trash_path ` set (br_deleted resp) \<longrightarrow> ds_fs s' p = ds_fs s p)"
proof -
  let ?ms = "chosen ids (st_media (ds_store s))"
  have d: "distinct ids" using del by (auto simp: bulk_delete_media_def split: if_splits)
  obtain rs where each: "delete_each env (Some user) True reason (Some bucket) ids s = (Inr rs, s')"
    and resp: "resp = \<lparr>br_deleted = rs, br_requested = length ids, br_not_found = filter (\<lambda>i. i \<notin> dr_media_id ` set rs) ids\<rparr>"
    using del d bucket by (auto simp: bulk_delete_media_def bulk_delete_def in_request_def split: prod.splits sum.splits)
  note e = delete_each_effect [OF each d rows(1)]
  have rs: "rs = map (outcome bucket (ds_fs s)) ?ms" using e outcomes_separate [OF rows(2)] by simp
  have fs: "ds_fs s' = fold (trash_step bucket) ?ms (ds_fs s)" using e by simp
  have ids: "map dr_media_id rs = filter (\<lambda>i. i \<in> mf_id ` set (st_media (ds_store s))) ids"
    unfolding rs chosen_ids [symmetric] by (simp add: outcome_def comp_def)
  have "dr_media_id ` set rs = set (map dr_media_id rs)" by simp
  then have nf: "filter (\<lambda>i. i \<notin> dr_media_id ` set rs) ids = filter (\<lambda>i. i \<notin> mf_id ` set (st_media (ds_store s))) ids"
    unfolding ids by (auto intro!: filter_cong)
  have moved: "case ds_fs s (dr_path r) of
           None \<Rightarrow> \<not> dr_removed_from_disk r \<and> dr_trash_path r = None
         | Some content \<Rightarrow> dr_removed_from_disk r
             \<and> (\<exists>t. dr_trash_path r = Some t \<and> ds_fs s' t = Some content \<and> ds_fs s' (dr_path r) = None)" if r: "r \<in> set rs" for r
  proof -
    from r obtain m where m: "m \<in> set ?ms" "r = outcome bucket (ds_fs s) m" unfolding rs by auto
    then show ?thesis using fold_trash_moves [OF rows(2) m(1), of "ds_fs s"] by (auto simp: outcome_def fs split: option.split)
  qed
  have others: "ds_fs s' p = ds_fs s p" if p: "p \<notin> dr_path ` set rs" "Some p \<notin> dr_trash_path ` set rs" for p
  proof -
    show ?thesis unfolding fs using p rows(2) by (intro fold_trash_untouched) (force simp: rs outcome_def)+
  qed
  show ?thesis using e ids nf moved others by (simp add: resp)
qed

text \<open>Two rows of different libraries with the same name inside their library, both on disk.\<close>

definition sample_delete_env :: delete_env where
  "sample_delete_env = \<lparr>de_data_dir = ''/data'', de_today = ''2026-01-01'', de_uuid = (\<lambda>k. ''u''), de_mkdir_fails = (\<lambda>p. False),
     de_move_fails = (\<lambda>p q. False), de_bus = True\<rparr>"

definition twin_media :: media_file where
  "twin_media = sample_media\<lparr>mf_id := ''m2'', mf_library_id := ''lib2'', mf_path := ''/anime/a.avi''\<rparr>"

definition sample_delete_state :: "media_file list \<Rightarrow> delete_state" where
  "sample_delete_state ms = \<lparr>ds_store = sample_store\<lparr>st_media := ms\<rparr>,
     ds_fs = [''/tv/a.avi'' \<mapsto> ''first'', ''/anime/a.avi'' \<mapsto> ''second'']\<rparr>"

theorem bulk_delete_recoverable_witness:
  "\<exists>resp s'. bulk_delete_media sample_delete_env ''admin'' True None [''m1'', ''m9''] (sample_delete_state [sample_media, twin_media]) = (Inr resp, s')
     \<and> br_not_found resp = [''m9''] \<and> (\<exists>t. ds_fs s' t = Some ''first'') \<and> ds_fs s' ''/tv/a.avi'' = None"
proof -
  let ?s = "sample_delete_state [sample_media, twin_media]"
  let ?d = "bulk_delete_media sample_delete_env ''admin'' True None [''m1'', ''m9''] ?s"
  have "is_ok (fst ?d)" by code_simp
  then obtain resp s' where d: "?d = (Inr resp, s')" by (cases ?d; cases "fst ?d") (simp_all add: is_ok_def)
  let ?b = "''/data/trash/2026-01-01/u''"
  have b: "allocate_bucket_dir sample_delete_env 0 = Inr ?b"
    by (simp add: allocate_bucket_dir_def sample_delete_env_def slash_def)
  have u: "unique_keys mf_id (st_media (ds_store ?s))" and c: "chosen [''m1'', ''m9''] (st_media (ds_store ?s)) = [sample_media]"
    by (simp_all add: unique_keys_def sample_delete_state_def sample_media_def twin_media_def)
  have sep: "separate ?b (chosen [''m1'', ''m9''] (st_media (ds_store ?s)))"
    unfolding c by (simp add: separate_def trash_target_def slash_def sample_media_def)
  note r = bulk_delete_recoverable [OF d b u sep]
  have ids: "mf_id ` set (st_media (ds_store ?s)) = {''m1'', ''m2''}"
    by (simp add: sample_delete_state_def sample_media_def twin_media_def)
  obtain x where x: "br_deleted resp = [x]" "dr_media_id x = ''m1''" using r unfolding ids by auto
  have "dr_path x = ''/tv/a.avi''"
  proof -
    have "map dr_path (case fst ?d of Inl _ \<Rightarrow> [] | Inr y \<Rightarrow> br_deleted y) = [''/tv/a.avi'']" by code_simp
    then show ?thesis using d x by simp
  qed
  moreover have "ds_fs ?s ''/tv/a.avi'' = Some ''first''" by (simp add: sample_delete_state_def)
  moreover have "br_not_found resp = [''m9'']" using r unfolding ids by simp
  ultimately show ?thesis using r d x(1) by auto
qed

text \<open>One bucket for a whole batch loses files.  When two files of a bulk delete have the same relative path
  (two libraries may well hold one), both are reported at one place in the trash, and afterwards only the
  contents of the second are there: nothing on disk holds those of the first any more, unless another file
  already had the same contents.\<close>

theorem bulk_delete_same_name_lost:
  assumes del: "bulk_delete_media env user True reason [i, j] s = (Inr resp, s')"
    and bucket: "allocate_bucket_dir env 0 = Inr bucket"
    and rows: "unique_keys mf_id (st_media (ds_store s))" "table_find mf_id i (st_media (ds_store s)) = Some a"
      "table_find mf_id j (st_media (ds_store s)) = Some b"
    and same: "trash_target bucket a = trash_target bucket b" "mf_path a \<noteq> mf_path b"
      "mf_path a \<noteq> trash_target bucket a" "mf_path b \<noteq> trash_target bucket a"
    and disk: "ds_fs s (mf_path a) = Some first" "ds_fs s (mf_path b) = Some second"
  shows "map dr_trash_path (br_deleted resp) = [Some (trash_target bucket a), Some (trash_target bucket a)]
    \<and> ds_fs s' (trash_target bucket a) = Some second
    \<and> (\<forall>p. ds_fs s' p = Some first \<longrightarrow> (p \<noteq> mf_path a \<and> ds_fs s p = Some first) \<or> first = second)"
proof -
  have d: "distinct [i, j]" using del by (auto simp: bulk_delete_media_def split: if_splits)
  obtain rs where each: "delete_each env (Some user) True reason (Some bucket) [i, j] s = (Inr rs, s')" and resp: "br_deleted resp = rs"
    using del d bucket by (auto simp: bulk_delete_media_def bulk_delete_def in_request_def split: prod.splits sum.splits)
  have c: "chosen [i, j] (st_media (ds_store s)) = [a, b]" using rows by simp
  note e = delete_each_effect [OF each d rows(1), unfolded c]
  have fs: "ds_fs s' = trash_step bucket b (trash_step bucket a (ds_fs s))" using e by simp
  have one: "trash_step bucket a (ds_fs s) = move_onto (mf_path a) (trash_target bucket a) (ds_fs s)"
    using disk by (simp add: trash_step_def)
  have there: "trash_step bucket a (ds_fs s) (mf_path b) = Some second"
    using same disk by (subst trash_step_other) auto
  have two: "ds_fs s' = move_onto (mf_path b) (trash_target bucket a) (move_onto (mf_path a) (trash_target bucket a) (ds_fs s))"
    unfolding fs using there by (simp add: trash_step_def [of bucket b] one same(1))
  have "map dr_trash_path rs = [Some (trash_target bucket a), Some (trash_target bucket a)]"
    using e there disk same(1) by (simp add: outcome_def)
  moreover have "ds_fs s' (trash_target bucket a) = Some second"
    unfolding two using same disk by (simp add: move_onto_def)
  moreover have "ds_fs s' p = Some first \<Longrightarrow> (p \<noteq> mf_path a \<and> ds_fs s p = Some first) \<or> first = second" for p
    unfolding two using same disk by (auto simp: move_onto_def split: if_splits)
  ultimately show ?thesis by (simp add: resp)
qed

theorem bulk_delete_same_name_lost_witness:
  "\<exists>resp s'. bulk_delete_media sample_delete_env ''admin'' True None [''m1'', ''m2''] (sample_delete_state [sample_media, twin_media]) = (Inr resp, s')
     \<and> (\<forall>p. ds_fs s' p \<noteq> Some ''first'')"
proof -
  let ?s = "sample_delete_state [sample_media, twin_media]"
  let ?d = "bulk_delete_media sample_delete_env ''admin'' True None [''m1'', ''m2''] ?s"
  have "is_ok (fst ?d)" by code_simp
  then obtain resp s' where d: "?d = (Inr resp, s')" by (cases ?d; cases "fst ?d") (simp_all add: is_ok_def)
  let ?b = "''/data/trash/2026-01-01/u''"
  have b: "allocate_bucket_dir sample_delete_env 0 = Inr ?b"
    by (simp add: allocate_bucket_dir_def sample_delete_env_def slash_def)
  have u: "unique_keys mf_id (st_media (ds_store ?s))" "table_find mf_id ''m1'' (st_media (ds_store ?s)) = Some sample_media"
    "table_find mf_id ''m2'' (st_media (ds_store ?s)) = Some twin_media"
    by (simp_all add: unique_keys_def sample_delete_state_def sample_media_def twin_media_def)
  have t: "trash_target ?b sample_media = trash_target ?b twin_media" "mf_path sample_media \<noteq> mf_path twin_media"
    "mf_path sample_media \<noteq> trash_target ?b sample_media" "mf_path twin_media \<noteq> trash_target ?b sample_media"
    by (simp_all add: trash_target_def slash_def sample_media_def twin_media_def)
  have f: "ds_fs ?s (mf_path sample_media) = Some ''first''" "ds_fs ?s (mf_path twin_media) = Some ''second''"
    by (simp_all add: sample_delete_state_def sample_media_def twin_media_def)
  have only: "ds_fs ?s p = Some ''first'' \<Longrightarrow> p = mf_path sample_media" for p
    by (auto simp: sample_delete_state_def sample_media_def split: if_splits)
  from bulk_delete_same_name_lost [OF d b u t f] only d show ?thesis by auto
qed

text \<open>A bulk delete that fails half way leaves disk and database apart.  When the move of a later file is
  refused, the request fails and its transaction is rolled back, so every row is there and no audit row says
  otherwise; but the files moved before it have left the library and lie in the trash.\<close>

theorem bulk_delete_failure_splits:
  assumes rows: "table_find mf_id i (st_media (ds_store s)) = Some a" "table_find mf_id j (st_media (ds_store s)) = Some b"
      "i \<noteq> j" "unique_keys mf_id (st_media (ds_store s))"
    and disk: "ds_fs s (mf_path a) = Some first" "ds_fs s (mf_path b) = Some second" "mf_path b \<noteq> mf_path a"
    and bucket: "allocate_bucket_dir env 0 = Inr bucket" "mf_path a \<noteq> trash_target bucket a" "mf_path b \<noteq> trash_target bucket a"
    and calls: "\<not> de_mkdir_fails env (dir_part (trash_target bucket a))" "\<not> de_move_fails env (mf_path a) (trash_target bucket a)"
      "de_move_fails env (mf_path b) (trash_target bucket b)"
  shows "\<exists>s'. bulk_delete_media env user True reason [i, j] s = (Inl OSError, s')
    \<and> st_media (ds_store s') = st_media (ds_store s) \<and> st_audit (ds_store s') = st_audit (ds_store s)
    \<and> ds_fs s' (mf_path a) = None \<and> ds_fs s' (trash_target bucket a) = Some first"
proof -
  obtain r s1 where d: "delete_record env (Some user) True reason (Some bucket) a s = (Inr r, s1)"
    using disk(1) calls(1,2) by (simp add: delete_record_def trash_file_def Let_def)
  note e = delete_record_effect [OF d]
  have i: "mf_id a = i" "mf_id b = j" using rows(1,2) by (auto dest: table_find_SomeD)
  have bj: "table_find mf_id j (st_media (ds_store s1)) = Some b"
    unfolding e(3) using table_find_filter [OF rows(4), of j] rows(2,3) i by simp
  have fs: "ds_fs s1 (mf_path b) = Some second" "ds_fs s1 (mf_path a) = None" "ds_fs s1 (trash_target bucket a) = Some first"
    unfolding e(2) using disk bucket by (simp_all add: trash_step_def move_onto_def)
  have f: "delete_record env (Some user) True reason (Some bucket) b s1 = (Inl OSError, s1)"
    using fs(1) calls(3) by (simp add: delete_record_def trash_file_def Let_def)
  have "delete_each env (Some user) True reason (Some bucket) [i, j] s = (Inl OSError, s1)"
    using rows(1) d bj f by simp
  then have "bulk_delete_media env user True reason [i, j] s =
      (Inl OSError, s1\<lparr>ds_store := (ds_store s)\<lparr>st_events := st_events (ds_store s1)\<rparr>\<rparr>)"
    using rows(3) bucket(1) by (simp add: bulk_delete_media_def bulk_delete_def in_request_def)
  with fs show ?thesis by simp
qed

theorem bulk_delete_failure_splits_witness:
  "\<exists>s'. bulk_delete_media (sample_delete_env\<lparr>de_move_fails := (\<lambda>p q. p = ''/anime/a.avi'')\<rparr>) ''admin'' True None [''m1'', ''m2'']
      (sample_delete_state [sample_media, twin_media]) = (Inl OSError, s')
     \<and> map mf_id (st_media (ds_store s')) = [''m1'', ''m2''] \<and> ds_fs s' ''/tv/a.avi'' = None"
proof -
  let ?s = "sample_delete_state [sample_media, twin_media]"
  let ?env = "sample_delete_env\<lparr>de_move_fails := (\<lambda>p q. p = ''/anime/a.avi'')\<rparr>"
  let ?b = "''/data/trash/2026-01-01/u''"
  have b: "allocate_bucket_dir ?env 0 = Inr ?b" "mf_path sample_media \<noteq> trash_target ?b sample_media" "mf_path twin_media \<noteq> trash_target ?b sample_media"
    by (simp_all add: allocate_bucket_dir_def sample_delete_env_def slash_def trash_target_def sample_media_def twin_media_def)
  have u: "table_find mf_id ''m1'' (st_media (ds_store ?s)) = Some sample_media"
    "table_find mf_id ''m2'' (st_media (ds_store ?s)) = Some twin_media" "''m1'' \<noteq> ''m2''" "unique_keys mf_id (st_media (ds_store ?s))"
    by (simp_all add: unique_keys_def sample_delete_state_def sample_media_def twin_media_def)
  have f: "ds_fs ?s (mf_path sample_media) = Some ''first''" "ds_fs ?s (mf_path twin_media) = Some ''second''" "mf_path twin_media \<noteq> mf_path sample_media"
    by (simp_all add: sample_delete_state_def sample_media_def twin_media_def)
  have c: "\<not> de_mkdir_fails ?env (dir_part (trash_target ?b sample_media))" "\<not> de_move_fails ?env (mf_path sample_media) (trash_target ?b sample_media)"
    "de_move_fails ?env (mf_path twin_media) (trash_target ?b twin_media)"
    by (simp_all add: sample_delete_env_def sample_media_def twin_media_def)
  have m: "mf_path sample_media = ''/tv/a.avi''" "map mf_id (st_media (ds_store ?s)) = [''m1'', ''m2'']"
    by (simp_all add: sample_media_def twin_media_def sample_delete_state_def)
  from bulk_delete_failure_splits [OF u f b c, of "''admin''" None] m show ?thesis by (metis (no_types))
qed

end
