(* ===== verification/RuntimeSchema.thy ===== *)
theory RuntimeSchema
  imports Prelude
begin

text \<open>
  The runtime-editable settings (\<open>app/core/runtime_settings_schema.py\<close>): one specification per setting,
  the managed secrets, and the validation of a write.  The conversion of a value to a field's type and
  the matching of a pattern are pydantic's (parameters of \<open>rt_env\<close>); the constraints are evaluated here.
\<close>

section \<open>Specifications\<close>

datatype field_type = FStr | FInt | FBool | FStrList

datatype constraint = Ge int | Le int | MinLength nat | MaxLength nat | Pattern string

record runtime_field_spec =
  fs_key :: string
  fs_label :: string
  fs_description :: string
  fs_category :: string
  fs_field_type :: field_type
  fs_field_default :: pyval
  fs_field_constraints :: "constraint list"
  fs_impact :: string
  fs_requires_warning :: "string option"
  fs_group :: "string option"
  fs_sensitivity :: string
  fs_restart_required :: bool

definition spec_log_level :: runtime_field_spec where
  "spec_log_level =
    \<lparr>fs_key = ''log_level'', fs_label = ''Log level'',
     fs_description =
       (''Minimum log severity emitted by the API and worker. DEBUG is verbose enough to slow '' @
       ''down production a touch and noisy in journalctl; use it only for short debugging '' @
       ''windows.''),
     fs_category = ''logging'', fs_field_type = FStr,
     fs_field_default = PyStr ''info'', fs_field_constraints = [Pattern ''^(debug|info|warning|error|critical)$''],
     fs_impact = ''immediate'',
     fs_requires_warning = Some (''Setting this to DEBUG will produce a lot of journal noise and may slightly slow down '' @
       ''request handling.''),
     fs_group = None, fs_sensitivity = ''normal'', fs_restart_required = False\<rparr>"

definition spec_access_token_ttl_minutes :: runtime_field_spec where
  "spec_access_token_ttl_minutes =
    \<lparr>fs_key = ''access_token_ttl_minutes'', fs_label = ''Access token TTL (minutes)'',
     fs_description =
       (''How long an access token stays valid after issue. Shorter windows tighten the blast '' @
       ''radius of a leaked token but force more refresh round-trips.''),
     fs_category = ''auth'', fs_field_type = FInt,
     fs_field_default = PyInt 30, fs_field_constraints = [Ge 1, Le 1440],
     fs_impact = ''immediate'',
     fs_requires_warning = None,
     fs_group = Some ''tokens'', fs_sensitivity = ''normal'', fs_restart_required = False\<rparr>"

definition spec_refresh_token_ttl_days :: runtime_field_spec where
  "spec_refresh_token_ttl_days =
    \<lparr>fs_key = ''refresh_token_ttl_days'', fs_label = ''Refresh token TTL (days)'',
     fs_description =
       (''How long a refresh token stays valid after issue. After this window users are forced to '' @
       ''log in again.''),
     fs_category = ''auth'', fs_field_type = FInt,
     fs_field_default = PyInt 14, fs_field_constraints = [Ge 1, Le 90],
     fs_impact = ''immediate'',
     fs_requires_warning = None,
     fs_group = Some ''tokens'', fs_sensitivity = ''normal'', fs_restart_required = False\<rparr>"

definition spec_ws_require_auth :: runtime_field_spec where
  "spec_ws_require_auth =
    \<lparr>fs_key = ''ws_require_auth'', fs_label = ''Require auth on WebSocket upgrade'',
     fs_description =
       (''When enabled, WebSocket clients must present a valid access JWT in the ?token= query '' @
       ''param. Disabling this is a debugging-only override; never disable in production.''),
     fs_category = ''auth'', fs_field_type = FBool,
     fs_field_default = PyBool True, fs_field_constraints = [],
     fs_impact = ''immediate'',
     fs_requires_warning = Some (''Disabling WebSocket auth makes the live-event stream open to anyone who can reach the '' @
       ''server. Only do this in a trusted local environment.''),
     fs_group = Some ''websocket'', fs_sensitivity = ''normal'', fs_restart_required = False\<rparr>"

definition spec_auth_rate_limit_attempts :: runtime_field_spec where
  "spec_auth_rate_limit_attempts =
    \<lparr>fs_key = ''auth_rate_limit_attempts'', fs_label = ''Login attempts per window'',
     fs_description =
       (''Maximum failed login attempts allowed per IP within the rate-limit window. Successful '' @
       ''logins do not count.''),
     fs_category = ''rate_limiting'', fs_field_type = FInt,
     fs_field_default = PyInt 10, fs_field_constraints = [Ge 1, Le 1000],
     fs_impact = ''immediate'',
     fs_requires_warning = None,
     fs_group = Some ''login'', fs_sensitivity = ''normal'', fs_restart_required = False\<rparr>"

definition spec_auth_rate_limit_window_seconds :: runtime_field_spec where
  "spec_auth_rate_limit_window_seconds =
    \<lparr>fs_key = ''auth_rate_limit_window_seconds'', fs_label = ''Rate-limit window (seconds)'',
     fs_description =
       ''Width of the sliding window the login rate limit uses.'',
     fs_category = ''rate_limiting'', fs_field_type = FInt,
     fs_field_default = PyInt 300, fs_field_constraints = [Ge 10, Le 86400],
     fs_impact = ''immediate'',
     fs_requires_warning = None,
     fs_group = Some ''login'', fs_sensitivity = ''normal'', fs_restart_required = False\<rparr>"

definition spec_scanner_ffprobe_timeout_seconds :: runtime_field_spec where
  "spec_scanner_ffprobe_timeout_seconds =
    \<lparr>fs_key = ''scanner_ffprobe_timeout_seconds'', fs_label = ''ffprobe timeout (seconds)'',
     fs_description =
       (''Hard ceiling on per-file ffprobe runtime. ffprobe occasionally hangs on malformed or '' @
       ''DRM-tied containers; this kills it and marks the file unscannable.''),
     fs_category = ''scanner'', fs_field_type = FInt,
     fs_field_default = PyInt 30, fs_field_constraints = [Ge 1, Le 600],
     fs_impact = ''next_tick'',
     fs_requires_warning = None,
     fs_group = None, fs_sensitivity = ''normal'', fs_restart_required = False\<rparr>"

definition spec_scanner_worker_concurrency :: runtime_field_spec where
  "spec_scanner_worker_concurrency =
    \<lparr>fs_key = ''scanner_worker_concurrency'', fs_label = ''Scanner worker concurrency'',
     fs_description =
       (''Number of files the scanner processes in parallel. Higher values use more CPU and IO. '' @
       ''Values above 8 rarely pay off on consumer storage.''),
     fs_category = ''scanner'', fs_field_type = FInt,
     fs_field_default = PyInt 4, fs_field_constraints = [Ge 1, Le 32],
     fs_impact = ''next_tick'',
     fs_requires_warning = Some ''Increasing this may saturate slow storage. Monitor disk throughput after raising.'',
     fs_group = None, fs_sensitivity = ''normal'', fs_restart_required = False\<rparr>"

definition spec_scanner_max_file_size_mb :: runtime_field_spec where
  "spec_scanner_max_file_size_mb =
    \<lparr>fs_key = ''scanner_max_file_size_mb'', fs_label = ''Scanner max file size (MB)'',
     fs_description =
       (''Skip files larger than this when scanning. Default 50 GB covers remuxes; raise for '' @
       ''archival 8K masters.''),
     fs_category = ''scanner'', fs_field_type = FInt,
     fs_field_default = PyInt 51200, fs_field_constraints = [Ge 1, Le 1048576],
     fs_impact = ''next_tick'',
     fs_requires_warning = None,
     fs_group = None, fs_sensitivity = ''normal'', fs_restart_required = False\<rparr>"

definition spec_update_feed_url :: runtime_field_spec where
  "spec_update_feed_url =
    \<lparr>fs_key = ''update_feed_url'', fs_label = ''Update feed URL'',
     fs_description =
       (''JSON endpoint the updater hits to learn about new builds. Defaults to the GitHub '' @
       ''commits/main endpoint so any newer commit on the upstream branch surfaces as '' @
       [CHR 0x27] @
       ''update available'' @
       [CHR 0x27] @
       ''. Point at .../releases/latest to track release tags instead.''),
     fs_category = ''updater'', fs_field_type = FStr,
     fs_field_default = PyStr ''https://api.github.com/repos/ShogyX/Auditarr/commits/main'', fs_field_constraints = [MinLength 1, MaxLength 1024, Pattern ''^https?://''],
     fs_impact = ''next_tick'',
     fs_requires_warning = None,
     fs_group = None, fs_sensitivity = ''normal'', fs_restart_required = False\<rparr>"

definition spec_update_check_interval_minutes :: runtime_field_spec where
  "spec_update_check_interval_minutes =
    \<lparr>fs_key = ''update_check_interval_minutes'', fs_label = ''Update check interval (minutes)'',
     fs_description =
       ''How often the background scheduler hits the feed.'',
     fs_category = ''updater'', fs_field_type = FInt,
     fs_field_default = PyInt 60, fs_field_constraints = [Ge 5, Le 1440],
     fs_impact = ''next_tick'',
     fs_requires_warning = None,
     fs_group = None, fs_sensitivity = ''normal'', fs_restart_required = False\<rparr>"

definition spec_update_install_mode :: runtime_field_spec where
  "spec_update_install_mode =
    \<lparr>fs_key = ''update_install_mode'', fs_label = ''Install mode'',
     fs_description =
       (''Override the auto-detected install environment. '' @
       [CHR 0x60] @
       [CHR 0x60] @
       ''auto'' @
       [CHR 0x60] @
       [CHR 0x60] @
       '' lets the backend detect Docker vs bare-metal at startup.''),
     fs_category = ''updater'', fs_field_type = FStr,
     fs_field_default = PyStr ''auto'', fs_field_constraints = [Pattern ''^(auto|docker|bare-metal|unmanaged)$''],
     fs_impact = ''immediate'',
     fs_requires_warning = Some (''Setting the wrong install mode routes apply requests to the wrong helper. Use '' @
       [CHR 0x27] @
       ''auto'' @
       [CHR 0x27] @
       '' unless you have a specific reason to override.''),
     fs_group = None, fs_sensitivity = ''normal'', fs_restart_required = False\<rparr>"

definition spec_plugin_gallery_url :: runtime_field_spec where
  "spec_plugin_gallery_url =
    \<lparr>fs_key = ''plugin_gallery_url'', fs_label = ''Plugin gallery URL'',
     fs_description =
       ''JSON manifest URL listing community plugins. Empty string disables the gallery UI.'',
     fs_category = ''plugins'', fs_field_type = FStr,
     fs_field_default = PyStr ''https://raw.githubusercontent.com/auditarr/plugins/main/gallery.json'', fs_field_constraints = [MaxLength 1024],
     fs_impact = ''next_tick'',
     fs_requires_warning = None,
     fs_group = None, fs_sensitivity = ''normal'', fs_restart_required = False\<rparr>"

definition spec_housekeeping_delivery_retention_days :: runtime_field_spec where
  "spec_housekeeping_delivery_retention_days =
    \<lparr>fs_key = ''housekeeping_delivery_retention_days'', fs_label = ''Notification delivery retention (days)'',
     fs_description =
       ''How long to keep notification delivery rows. 0 = keep forever.'',
     fs_category = ''housekeeping'', fs_field_type = FInt,
     fs_field_default = PyInt 30, fs_field_constraints = [Ge 0, Le 3650],
     fs_impact = ''next_tick'',
     fs_requires_warning = None,
     fs_group = Some ''retention'', fs_sensitivity = ''normal'', fs_restart_required = False\<rparr>"

definition spec_housekeeping_update_check_retention_days :: runtime_field_spec where
  "spec_housekeeping_update_check_retention_days =
    \<lparr>fs_key = ''housekeeping_update_check_retention_days'', fs_label = ''Update-feed check retention (days)'',
     fs_description =
       ''How long to keep update-feed-check rows. 0 = keep forever.'',
     fs_category = ''housekeeping'', fs_field_type = FInt,
     fs_field_default = PyInt 90, fs_field_constraints = [Ge 0, Le 3650],
     fs_impact = ''next_tick'',
     fs_requires_warning = None,
     fs_group = Some ''retention'', fs_sensitivity = ''normal'', fs_restart_required = False\<rparr>"

definition spec_housekeeping_rule_evaluation_retention_days :: runtime_field_spec where
  "spec_housekeeping_rule_evaluation_retention_days =
    \<lparr>fs_key = ''housekeeping_rule_evaluation_retention_days'', fs_label = ''Rule evaluation retention (days)'',
     fs_description =
       (''How long to keep rule-evaluation rows. 0 = keep forever. Grows with library size '' @
       [CHR 0xC3] @
       [CHR 0x97] @
       '' rule count; trim aggressively on large libraries.''),
     fs_category = ''housekeeping'', fs_field_type = FInt,
     fs_field_default = PyInt 0, fs_field_constraints = [Ge 0, Le 3650],
     fs_impact = ''next_tick'',
     fs_requires_warning = None,
     fs_group = Some ''retention'', fs_sensitivity = ''normal'', fs_restart_required = False\<rparr>"

definition spec_housekeeping_job_run_retention_days :: runtime_field_spec where
  "spec_housekeeping_job_run_retention_days =
    \<lparr>fs_key = ''housekeeping_job_run_retention_days'', fs_label = ''Job run retention (days)'',
     fs_description =
       ''How long to keep background job-run rows. 0 = keep forever.'',
     fs_category = ''housekeeping'', fs_field_type = FInt,
     fs_field_default = PyInt 60, fs_field_constraints = [Ge 0, Le 3650],
     fs_impact = ''next_tick'',
     fs_requires_warning = None,
     fs_group = Some ''retention'', fs_sensitivity = ''normal'', fs_restart_required = False\<rparr>"

definition spec_notifications_webhook_default_timeout_seconds :: runtime_field_spec where
  "spec_notifications_webhook_default_timeout_seconds =
    \<lparr>fs_key = ''notifications_webhook_default_timeout_seconds'', fs_label = ''Webhook default timeout (seconds)'',
     fs_description =
       ''HTTP timeout used when no per-channel override is set.'',
     fs_category = ''webhooks'', fs_field_type = FInt,
     fs_field_default = PyInt 10, fs_field_constraints = [Ge 1, Le 120],
     fs_impact = ''immediate'',
     fs_requires_warning = None,
     fs_group = None, fs_sensitivity = ''normal'', fs_restart_required = False\<rparr>"

definition spec_notifications_webhook_max_retries :: runtime_field_spec where
  "spec_notifications_webhook_max_retries =
    \<lparr>fs_key = ''notifications_webhook_max_retries'', fs_label = ''Webhook max retries'',
     fs_description =
       (''How many times to retry a failed webhook before giving up. Each retry waits with '' @
       ''exponential backoff.''),
     fs_category = ''webhooks'', fs_field_type = FInt,
     fs_field_default = PyInt 3, fs_field_constraints = [Ge 0, Le 10],
     fs_impact = ''immediate'',
     fs_requires_warning = None,
     fs_group = None, fs_sensitivity = ''normal'', fs_restart_required = False\<rparr>"

definition spec_virustotal_enabled :: runtime_field_spec where
  "spec_virustotal_enabled =
    \<lparr>fs_key = ''virustotal_enabled'', fs_label = ''VirusTotal integration enabled'',
     fs_description =
       (''Master switch for the VirusTotal integration. When off, no submissions or lookups '' @
       ''happen regardless of the API key state.''),
     fs_category = ''integrations'', fs_field_type = FBool,
     fs_field_default = PyBool False, fs_field_constraints = [],
     fs_impact = ''immediate'',
     fs_requires_warning = None,
     fs_group = Some ''virustotal'', fs_sensitivity = ''normal'', fs_restart_required = False\<rparr>"

definition spec_virustotal_scan_on_import :: runtime_field_spec where
  "spec_virustotal_scan_on_import =
    \<lparr>fs_key = ''virustotal_scan_on_import'', fs_label = ''Submit new files on import'',
     fs_description =
       (''Submit a file'' @
       [CHR 0x27] @
       ''s SHA256 hash for lookup as soon as it'' @
       [CHR 0x27] @
       ''s imported. When off, files only get checked if requested explicitly via the API.''),
     fs_category = ''integrations'', fs_field_type = FBool,
     fs_field_default = PyBool False, fs_field_constraints = [],
     fs_impact = ''immediate'',
     fs_requires_warning = None,
     fs_group = Some ''virustotal'', fs_sensitivity = ''normal'', fs_restart_required = False\<rparr>"

definition spec_virustotal_rescan_interval_days :: runtime_field_spec where
  "spec_virustotal_rescan_interval_days =
    \<lparr>fs_key = ''virustotal_rescan_interval_days'', fs_label = ''Rescan interval (days)'',
     fs_description =
       (''Re-check a file'' @
       [CHR 0x27] @
       ''s hash if the last verdict is older than this. 0 disables rescanning.''),
     fs_category = ''integrations'', fs_field_type = FInt,
     fs_field_default = PyInt 30, fs_field_constraints = [Ge 0, Le 365],
     fs_impact = ''next_tick'',
     fs_requires_warning = None,
     fs_group = Some ''virustotal'', fs_sensitivity = ''normal'', fs_restart_required = False\<rparr>"

definition spec_virustotal_daily_quota :: runtime_field_spec where
  "spec_virustotal_daily_quota =
    \<lparr>fs_key = ''virustotal_daily_quota'', fs_label = ''Daily submission quota'',
     fs_description =
       (''Hard cap on hash submissions per UTC day. VirusTotal'' @
       [CHR 0x27] @
       ''s free tier is 500/day; the default leaves headroom for other tools sharing the account.''),
     fs_category = ''integrations'', fs_field_type = FInt,
     fs_field_default = PyInt 250, fs_field_constraints = [Ge 0, Le 100000],
     fs_impact = ''immediate'',
     fs_requires_warning = None,
     fs_group = Some ''virustotal'', fs_sensitivity = ''normal'', fs_restart_required = False\<rparr>"

definition spec_dashboard_issue_min_severity :: runtime_field_spec where
  "spec_dashboard_issue_min_severity =
    \<lparr>fs_key = ''dashboard_issue_min_severity'', fs_label = ''Open-issues threshold'',
     fs_description =
       (''Minimum severity a file must have to count as an '' @
       [CHR 0x22] @
       ''open issue'' @
       [CHR 0x22] @
       '' on the dashboard tile and sidebar badge. The default '' @
       [CHR 0x27] @
       ''warn'' @
       [CHR 0x27] @
       '' excludes '' @
       [CHR 0x27] @
       ''ok'' @
       [CHR 0x27] @
       '' and '' @
       [CHR 0x27] @
       ''info'' @
       [CHR 0x27] @
       '' rows so informational signal doesn'' @
       [CHR 0x27] @
       ''t drown out actionable ones. Raise to '' @
       [CHR 0x27] @
       ''high'' @
       [CHR 0x27] @
       '' for operators who only care about the most actionable rows; lower to '' @
       [CHR 0x27] @
       ''info'' @
       [CHR 0x27] @
       '' to include every non-ok file.''),
     fs_category = ''dashboard'', fs_field_type = FStr,
     fs_field_default = PyStr ''warn'', fs_field_constraints = [Pattern ''^(info|warn|high|error|crit)$''],
     fs_impact = ''immediate'',
     fs_requires_warning = None,
     fs_group = None, fs_sensitivity = ''normal'', fs_restart_required = False\<rparr>"

definition spec_optimization_in_process_runner_enabled :: runtime_field_spec where
  "spec_optimization_in_process_runner_enabled =
    \<lparr>fs_key = ''optimization_in_process_runner_enabled'', fs_label = ''Run transcodes in-process'',
     fs_description =
       (''Master switch for the local ffmpeg worker. When ON (the default), profiles whose '' @
       ''routing_target is '' @
       [CHR 0x27] @
       ''in_process'' @
       [CHR 0x27] @
       '' execute on this Auditarr host. When OFF, in-process jobs fail with a clear error '' @
       ''directing the operator to reconfigure the profile to route to plex / jellyfin / tdarr. '' @
       ''Useful when you want Auditarr to queue + coordinate transcodes but offload the actual '' @
       ''encoding to a beefier box that'' @
       [CHR 0x27] @
       ''s running one of those integrations.''),
     fs_category = ''optimization'', fs_field_type = FBool,
     fs_field_default = PyBool True, fs_field_constraints = [],
     fs_impact = ''next_tick'',
     fs_requires_warning = Some (''Disabling the in-process runner will fail any queued in-process items on the next tick. '' @
       ''Reconfigure those profiles to a non-in_process routing_target first.''),
     fs_group = None, fs_sensitivity = ''normal'', fs_restart_required = False\<rparr>"

definition spec_optimization_hwaccel_warning_acknowledged :: runtime_field_spec where
  "spec_optimization_hwaccel_warning_acknowledged =
    \<lparr>fs_key = ''optimization_hwaccel_warning_acknowledged'', fs_label = (''Hide '' @
       [CHR 0x27] @
       ''no hardware acceleration'' @
       [CHR 0x27] @
       '' banner''),
     fs_description =
       (''When ON, the dashboard hides the '' @
       [CHR 0x27] @
       ''no hardware acceleration detected'' @
       [CHR 0x27] @
       '' banner. The startup probe still runs and the result is still logged; only the banner '' @
       ''is suppressed. Set this when you'' @
       [CHR 0x27] @
       ''ve intentionally deployed Auditarr on a CPU-only host and don'' @
       [CHR 0x27] @
       ''t want the reminder.''),
     fs_category = ''optimization'', fs_field_type = FBool,
     fs_field_default = PyBool False, fs_field_constraints = [],
     fs_impact = ''immediate'',
     fs_requires_warning = None,
     fs_group = None, fs_sensitivity = ''normal'', fs_restart_required = False\<rparr>"

definition spec_preferred_audio_languages :: runtime_field_spec where
  "spec_preferred_audio_languages =
    \<lparr>fs_key = ''preferred_audio_languages'', fs_label = ''Preferred audio languages'',
     fs_description =
       (''Comma-separated list of ISO 639-2 three-letter language codes (e.g. '' @
       [CHR 0x27] @
       ''eng,fra'' @
       [CHR 0x27] @
       ''). The foreign-audio dashboard tile counts files whose primary audio isn'' @
       [CHR 0x27] @
       ''t in this list. Empty list disables the tile.''),
     fs_category = ''dashboard'', fs_field_type = FStrList,
     fs_field_default = PyList [PyStr ''eng''], fs_field_constraints = [],
     fs_impact = ''immediate'',
     fs_requires_warning = None,
     fs_group = Some ''language_preferences'', fs_sensitivity = ''normal'', fs_restart_required = False\<rparr>"

definition spec_preferred_subtitle_languages :: runtime_field_spec where
  "spec_preferred_subtitle_languages =
    \<lparr>fs_key = ''preferred_subtitle_languages'', fs_label = ''Preferred subtitle languages'',
     fs_description =
       (''Comma-separated list of ISO 639-2 codes for the subtitle tracks that '' @
       [CHR 0x27] @
       ''rescue'' @
       [CHR 0x27] @
       '' a foreign-audio file from the dashboard count. A file with non-preferred audio is only '' @
       ''flagged if it ALSO has no subtitle track in this list.''),
     fs_category = ''dashboard'', fs_field_type = FStrList,
     fs_field_default = PyList [PyStr ''eng''], fs_field_constraints = [],
     fs_impact = ''immediate'',
     fs_requires_warning = None,
     fs_group = Some ''language_preferences'', fs_sensitivity = ''normal'', fs_restart_required = False\<rparr>"

definition RUNTIME_EDITABLE :: "runtime_field_spec list" where
  "RUNTIME_EDITABLE =
    [spec_log_level,
     spec_access_token_ttl_minutes,
     spec_refresh_token_ttl_days,
     spec_ws_require_auth,
     spec_auth_rate_limit_attempts,
     spec_auth_rate_limit_window_seconds,
     spec_scanner_ffprobe_timeout_seconds,
     spec_scanner_worker_concurrency,
     spec_scanner_max_file_size_mb,
     spec_update_feed_url,
     spec_update_check_interval_minutes,
     spec_update_install_mode,
     spec_plugin_gallery_url,
     spec_housekeeping_delivery_retention_days,
     spec_housekeeping_update_check_retention_days,
     spec_housekeeping_rule_evaluation_retention_days,
     spec_housekeeping_job_run_retention_days,
     spec_notifications_webhook_default_timeout_seconds,
     spec_notifications_webhook_max_retries,
     spec_virustotal_enabled,
     spec_virustotal_scan_on_import,
     spec_virustotal_rescan_interval_days,
     spec_virustotal_daily_quota,
     spec_dashboard_issue_min_severity,
     spec_optimization_in_process_runner_enabled,
     spec_optimization_hwaccel_warning_acknowledged,
     spec_preferred_audio_languages,
     spec_preferred_subtitle_languages]"

lemmas runtime_specs =
  spec_log_level_def spec_access_token_ttl_minutes_def spec_refresh_token_ttl_days_def
  spec_ws_require_auth_def spec_auth_rate_limit_attempts_def spec_auth_rate_limit_window_seconds_def
  spec_scanner_ffprobe_timeout_seconds_def spec_scanner_worker_concurrency_def spec_scanner_max_file_size_mb_def
  spec_update_feed_url_def spec_update_check_interval_minutes_def spec_update_install_mode_def
  spec_plugin_gallery_url_def spec_housekeeping_delivery_retention_days_def spec_housekeeping_update_check_retention_days_def
  spec_housekeeping_rule_evaluation_retention_days_def spec_housekeeping_job_run_retention_days_def spec_notifications_webhook_default_timeout_seconds_def
  spec_notifications_webhook_max_retries_def spec_virustotal_enabled_def spec_virustotal_scan_on_import_def
  spec_virustotal_rescan_interval_days_def spec_virustotal_daily_quota_def spec_dashboard_issue_min_severity_def
  spec_optimization_in_process_runner_enabled_def spec_optimization_hwaccel_warning_acknowledged_def spec_preferred_audio_languages_def
  spec_preferred_subtitle_languages_def

text \<open>\<open>Settings.model_fields[key].default\<close> of the class in \<open>app/core/settings.py\<close>; \<open>None\<close>
  is the sentinel \<open>PydanticUndefined\<close> of a field that has a factory instead.\<close>

definition class_defaults :: "(string \<times> pyval option) list" where
  "class_defaults =
    [(''log_level'', Some (PyStr ''info'')),
     (''access_token_ttl_minutes'', Some (PyInt 30)),
     (''refresh_token_ttl_days'', Some (PyInt 14)),
     (''update_feed_url'', Some (PyStr ''https://api.github.com/repos/ShogyX/Auditarr/commits/main'')),
     (''update_check_interval_minutes'', Some (PyInt 60)),
     (''update_install_mode'', Some (PyStr ''auto'')),
     (''plugin_gallery_url'', Some (PyStr ''https://raw.githubusercontent.com/auditarr/plugins/main/gallery.json'')),
     (''housekeeping_delivery_retention_days'', Some (PyInt 30)),
     (''housekeeping_update_check_retention_days'', Some (PyInt 90)),
     (''housekeeping_rule_evaluation_retention_days'', Some (PyInt 0)),
     (''housekeeping_job_run_retention_days'', Some (PyInt 60)),
     (''auth_rate_limit_attempts'', Some (PyInt 10)),
     (''auth_rate_limit_window_seconds'', Some (PyInt 300)),
     (''ws_require_auth'', Some (PyBool True)),
     (''scanner_ffprobe_timeout_seconds'', Some (PyInt 30)),
     (''scanner_worker_concurrency'', Some (PyInt 4)),
     (''scanner_max_file_size_mb'', Some (PyInt 51200)),
     (''notifications_webhook_default_timeout_seconds'', Some (PyInt 10)),
     (''notifications_webhook_max_retries'', Some (PyInt 3)),
     (''dashboard_issue_min_severity'', Some (PyStr ''warn'')),
     (''virustotal_enabled'', Some (PyBool False)),
     (''virustotal_scan_on_import'', Some (PyBool False)),
     (''virustotal_rescan_interval_days'', Some (PyInt 30)),
     (''virustotal_daily_quota'', Some (PyInt 250)),
     (''optimization_in_process_runner_enabled'', Some (PyBool True)),
     (''optimization_hwaccel_warning_acknowledged'', Some (PyBool False)),
     (''preferred_audio_languages'', None),
     (''preferred_subtitle_languages'', None)]"

section \<open>Secrets\<close>

record secret_spec =
  ss_key :: string
  ss_label :: string
  ss_description :: string
  ss_category :: string
  ss_min_length :: nat
  ss_max_length :: nat
  ss_test_handler :: "string option"

definition SECRETS :: "secret_spec list" where
  "SECRETS =
    [\<lparr>ss_key = ''virustotal_api_key'', ss_label = ''VirusTotal API key'',
      ss_description = ''API key from your VirusTotal account. Stored encrypted; '' @
        ''never returned via the API after it'' @ [CHR 0x27] @ ''s set. Test below '' @
        ''after entering to confirm it works.'',
      ss_category = ''integrations'',
      ss_min_length = 32, ss_max_length = 128, ss_test_handler = Some ''virustotal_api_key''\<rparr>]"

section \<open>Validation\<close>

record rt_env =
  rt_coerce :: "field_type \<Rightarrow> pyval \<Rightarrow> pyval option"
  rt_pattern :: "string \<Rightarrow> string \<Rightarrow> bool"
  rt_repr :: "string \<Rightarrow> string"
  rt_msg :: "string \<Rightarrow> pyval \<Rightarrow> string"
  rt_str :: "pyval \<Rightarrow> string"
  rt_now :: int

definition RUNTIME_EDITABLE_BY_KEY :: "string \<Rightarrow> runtime_field_spec option" where
  "RUNTIME_EDITABLE_BY_KEY key = find (\<lambda>s. fs_key s = key) RUNTIME_EDITABLE"

definition SECRETS_BY_KEY :: "string \<Rightarrow> secret_spec option" where
  "SECRETS_BY_KEY key = find (\<lambda>s. ss_key s = key) SECRETS"

fun constraint_holds :: "rt_env \<Rightarrow> constraint \<Rightarrow> pyval \<Rightarrow> bool" where
  "constraint_holds env (Ge n) (PyInt m) = (n \<le> m)"
| "constraint_holds env (Le n) (PyInt m) = (m \<le> n)"
| "constraint_holds env (MinLength n) (PyStr s) = (n \<le> py_len s)"
| "constraint_holds env (MaxLength n) (PyStr s) = (py_len s \<le> n)"
| "constraint_holds env (Pattern p) (PyStr s) = rt_pattern env p s"
| "constraint_holds env _ _ = False"

text \<open>The validator model of a field.\<close>

definition validator :: "rt_env \<Rightarrow> runtime_field_spec \<Rightarrow> pyval \<Rightarrow> pyval option" where
  "validator env spec v =
     (case rt_coerce env (fs_field_type spec) v of
        None \<Rightarrow> None
      | Some w \<Rightarrow> if \<forall>c\<in>set (fs_field_constraints spec). constraint_holds env c w then Some w else None)"

fun split_comma :: "string \<Rightarrow> string list" where
  "split_comma [] = [[]]"
| "split_comma (c # cs) =
     (if c = CHR '','' then [] # split_comma cs
      else case split_comma cs of [] \<Rightarrow> [[c]] | w # ws \<Rightarrow> (c # w) # ws)"

definition clean_words :: "string list \<Rightarrow> pyval" where
  "clean_words ws = PyList (map (\<lambda>w. PyStr (py_lower (py_strip w))) (filter (\<lambda>w. py_strip w \<noteq> []) ws))"

definition normalize_value :: "rt_env \<Rightarrow> runtime_field_spec \<Rightarrow> pyval \<Rightarrow> pyval" where
  "normalize_value env spec v =
     (if fs_field_type spec = FStrList
      then (case v of PyStr s \<Rightarrow> clean_words (split_comma s) | PyList xs \<Rightarrow> clean_words (map (rt_str env) xs) | _ \<Rightarrow> v)
      else v)"

definition http_url :: "string \<Rightarrow> bool" where
  "http_url s = (prefix ''http://'' s \<or> prefix ''https://'' s)"

definition validate_runtime_setting :: "rt_env \<Rightarrow> string \<Rightarrow> pyval \<Rightarrow> pyval result" where
  "validate_runtime_setting env key v =
     (case RUNTIME_EDITABLE_BY_KEY key of
        None \<Rightarrow> Inl (ValidationError (rt_repr env key @ '' is not a runtime-editable setting. '' @
                  ''Edit the env file and restart the service to change it.''))
      | Some spec \<Rightarrow>
          if key = ''plugin_gallery_url'' \<and> (case v of PyStr s \<Rightarrow> s \<noteq> [] \<and> \<not> http_url s | _ \<Rightarrow> False)
          then Inl (ValidationError (''plugin_gallery_url must be empty (to disable) or an '' @ ''http(s) URL.''))
          else case validator env spec (normalize_value env spec v) of
            None \<Rightarrow> Inl (ValidationError (key @ '': '' @ rt_msg env key v))
          | Some w \<Rightarrow> Inr w)"

definition validate_secret :: "rt_env \<Rightarrow> string \<Rightarrow> string \<Rightarrow> unit result" where
  "validate_secret env key plaintext =
     (case SECRETS_BY_KEY key of
        None \<Rightarrow> Inl (ValidationError (rt_repr env key @ '' is not a managed secret.''))
      | Some spec \<Rightarrow>
          if py_len plaintext < ss_min_length spec
          then Inl (ValidationError (key @ '': must be at least '' @ str_int (int (ss_min_length spec)) @ '' characters''))
          else if py_len plaintext > ss_max_length spec
          then Inl (ValidationError (key @ '': must be at most '' @ str_int (int (ss_max_length spec)) @ '' characters''))
          else Inr ())"

end
