(* ===== verification/RuntimeSettings.thy ===== *)
theory RuntimeSettings
  imports RuntimeSchema Secrets Tables
begin

text \<open>
  The runtime settings service (\<open>app/services/runtime_settings.py\<close>) with its repositories: overrides in
  the database, the settings object of each process, the audit of changes, the reload that follows a
  notification, and the encrypted secrets.  A setting of a process is \<open>None\<close> when it holds the
  sentinel \<open>PydanticUndefined\<close>.
\<close>

section \<open>State\<close>

record override_row =
  ov_key :: string
  ov_value :: pyval

record setting_change =
  sg_key :: string
  sg_prev_value :: "pyval option"
  sg_next_value :: "pyval option"
  sg_set_by_user_id :: "string option"
  sg_set_at :: int

record encrypted_secret =
  es_key :: string
  es_ciphertext :: string
  es_set_by_user_id :: "string option"
  es_last_set_at :: int
  es_last_tested_at :: "int option"
  es_last_test_ok :: "bool option"
  es_last_test_detail :: "string option"

record rt_db =
  db_overrides :: "override_row list"
  db_changes :: "setting_change list"
  db_secrets :: "encrypted_secret list"

record process =
  pr_settings :: "string \<Rightarrow> pyval option"
  pr_root_level :: "int option"

section \<open>Repositories\<close>

definition replace_value :: "override_row \<Rightarrow> override_row \<Rightarrow> override_row" where
  "replace_value x r = x\<lparr>ov_value := ov_value r\<rparr>"

definition override_get_one :: "string \<Rightarrow> rt_db \<Rightarrow> pyval option" where
  "override_get_one key db = map_option ov_value (table_find ov_key key (db_overrides db))"

definition override_upsert :: "string \<Rightarrow> pyval \<Rightarrow> rt_db \<Rightarrow> rt_db" where
  "override_upsert key v db = db\<lparr>db_overrides := table_upsert ov_key replace_value \<lparr>ov_key = key, ov_value = v\<rparr> (db_overrides db)\<rparr>"

definition override_delete :: "string \<Rightarrow> rt_db \<Rightarrow> bool \<times> rt_db" where
  "override_delete key db =
     (key \<in> ov_key ` set (db_overrides db), db\<lparr>db_overrides := filter (\<lambda>r. ov_key r \<noteq> key) (db_overrides db)\<rparr>)"

definition change_append :: "rt_env \<Rightarrow> string \<Rightarrow> pyval option \<Rightarrow> pyval option \<Rightarrow> string option \<Rightarrow> rt_db \<Rightarrow> rt_db" where
  "change_append env key prev nxt user db = db\<lparr>db_changes := db_changes db @
     [\<lparr>sg_key = key, sg_prev_value = prev, sg_next_value = nxt, sg_set_by_user_id = user, sg_set_at = rt_now env\<rparr>]\<rparr>"

text \<open>Newest first; the limit is clamped.\<close>

definition list_for_key :: "string \<Rightarrow> int \<Rightarrow> rt_db \<Rightarrow> setting_change list" where
  "list_for_key key limit db =
     take (nat (max 1 (min 500 limit))) (sort_key (\<lambda>c. - sg_set_at c) (filter (\<lambda>c. sg_key c = key) (db_changes db)))"

section \<open>Applying overrides\<close>

text \<open>\<open>getattr(logging, level.upper())\<close> for the names the pattern admits.\<close>

definition log_levels :: "(string \<times> int) list" where
  "log_levels = [(''debug'', 10), (''info'', 20), (''warning'', 30), (''error'', 40), (''critical'', 50)]"

definition apply_side_effects :: "string \<Rightarrow> process \<Rightarrow> process" where
  "apply_side_effects key p =
     (if key = ''log_level''
      then (case pr_settings p key of
              Some (PyStr s) \<Rightarrow> (case map_of log_levels s of None \<Rightarrow> p | Some n \<Rightarrow> p\<lparr>pr_root_level := Some n\<rparr>)
            | _ \<Rightarrow> p)
      else p)"

definition set_attr :: "string \<Rightarrow> pyval option \<Rightarrow> process \<Rightarrow> process" where
  "set_attr key v p = p\<lparr>pr_settings := (pr_settings p)(key := v)\<rparr>"

definition apply_override :: "rt_env \<Rightarrow> override_row \<Rightarrow> process \<Rightarrow> process" where
  "apply_override env r p =
     (if RUNTIME_EDITABLE_BY_KEY (ov_key r) = None then p
      else case validate_runtime_setting env (ov_key r) (ov_value r) of
        Inl _ \<Rightarrow> p
      | Inr v \<Rightarrow> apply_side_effects (ov_key r) (set_attr (ov_key r) (Some v) p))"

definition apply_overrides_inproc :: "rt_env \<Rightarrow> override_row list \<Rightarrow> process \<Rightarrow> process" where
  "apply_overrides_inproc env rows p = fold (apply_override env) rows p"

definition load_and_apply_overrides :: "rt_env \<Rightarrow> rt_db \<Rightarrow> process \<Rightarrow> process" where
  "load_and_apply_overrides env db p = apply_overrides_inproc env (db_overrides db) p"

section \<open>The service\<close>

record effective =
  ef_value :: "pyval option"
  ef_is_override :: bool
  ef_env_default :: pyval

definition list_effective :: "rt_db \<Rightarrow> process \<Rightarrow> (string \<times> effective) list" where
  "list_effective db p =
     map (\<lambda>spec. (fs_key spec,
       case override_get_one (fs_key spec) db of
         Some v \<Rightarrow> \<lparr>ef_value = Some v, ef_is_override = True, ef_env_default = fs_field_default spec\<rparr>
       | None \<Rightarrow> \<lparr>ef_value = pr_settings p (fs_key spec), ef_is_override = False, ef_env_default = fs_field_default spec\<rparr>))
       RUNTIME_EDITABLE"

definition set_override ::
    "rt_env \<Rightarrow> string \<Rightarrow> pyval \<Rightarrow> string option \<Rightarrow> rt_db \<times> process \<Rightarrow> pyval result \<times> rt_db \<times> process" where
  "set_override env key v user dp =
     (case validate_runtime_setting env key v of
        Inl e \<Rightarrow> (Inl e, dp)
      | Inr coerced \<Rightarrow>
          (let (db, p) = dp; prev = override_get_one key db;
               p1 = apply_side_effects key (set_attr key (Some coerced) p);
               db1 = change_append env key prev (Some coerced) user (override_upsert key coerced db)
           in (Inr coerced, db1, p1)))"

text \<open>The value a cleared key falls back to.\<close>

definition cleared_value :: "runtime_field_spec \<Rightarrow> pyval option" where
  "cleared_value spec =
     (case map_of class_defaults (fs_key spec) of
        None \<Rightarrow> Some (fs_field_default spec)
      | Some (Some PyNone) \<Rightarrow> Some (fs_field_default spec)
      | Some v \<Rightarrow> v)"

definition clear_override :: "rt_env \<Rightarrow> string \<Rightarrow> string option \<Rightarrow> rt_db \<times> process \<Rightarrow> bool result \<times> rt_db \<times> process" where
  "clear_override env key user dp =
     (case RUNTIME_EDITABLE_BY_KEY key of
        None \<Rightarrow> (Inl (ValidationError (rt_repr env key @ '' is not a runtime-editable setting.'')), dp)
      | Some spec \<Rightarrow>
          (let (db, p) = dp; prev = override_get_one key db; (removed, db1) = override_delete key db in
           if removed
           then (Inr True, change_append env key prev None user db1,
                 apply_side_effects key (set_attr key (cleared_value spec) p))
           else (Inr False, dp)))"

definition list_history :: "rt_env \<Rightarrow> string \<Rightarrow> int \<Rightarrow> rt_db \<Rightarrow> setting_change list result" where
  "list_history env key limit db =
     (if RUNTIME_EDITABLE_BY_KEY key = None
      then Inl (ValidationError (rt_repr env key @ '' is not a runtime-editable setting.''))
      else Inr (list_for_key key limit db))"

section \<open>Secrets\<close>

definition new_secret :: "rt_env \<Rightarrow> string \<Rightarrow> string \<Rightarrow> string option \<Rightarrow> encrypted_secret" where
  "new_secret env key ct user = \<lparr>es_key = key, es_ciphertext = ct, es_set_by_user_id = user, es_last_set_at = rt_now env,
     es_last_tested_at = None, es_last_test_ok = None, es_last_test_detail = None\<rparr>"

text \<open>The update of an existing row takes every column of the new one, the test result included.\<close>

definition secret_upsert :: "encrypted_secret \<Rightarrow> rt_db \<Rightarrow> rt_db" where
  "secret_upsert r db = db\<lparr>db_secrets := table_upsert es_key (\<lambda>x y. y) r (db_secrets db)\<rparr>"

definition set_secret :: "rt_env \<Rightarrow> crypto \<Rightarrow> string \<Rightarrow> string \<Rightarrow> string \<Rightarrow> string option \<Rightarrow> rt_db \<Rightarrow> unit result \<times> rt_db" where
  "set_secret env c nonce key plaintext user db =
     (case validate_secret env key plaintext of
        Inl e \<Rightarrow> (Inl e, db)
      | Inr _ \<Rightarrow> (Inr (), secret_upsert (new_secret env key (encrypt_bytes c nonce plaintext) user) db))"

definition clear_secret :: "rt_env \<Rightarrow> string \<Rightarrow> rt_db \<Rightarrow> bool result \<times> rt_db" where
  "clear_secret env key db =
     (if SECRETS_BY_KEY key = None then (Inl (ValidationError (rt_repr env key @ '' is not a managed secret.'')), db)
      else (Inr (key \<in> es_key ` set (db_secrets db)), db\<lparr>db_secrets := filter (\<lambda>r. es_key r \<noteq> key) (db_secrets db)\<rparr>))"

definition get_plaintext :: "crypto \<Rightarrow> string \<Rightarrow> rt_db \<Rightarrow> secret_error + string option" where
  "get_plaintext c key db =
     (case table_find es_key key (db_secrets db) of
        None \<Rightarrow> Inr None
      | Some r \<Rightarrow> (case decrypt_bytes c (es_ciphertext r) of Inl e \<Rightarrow> Inl e | Inr s \<Rightarrow> Inr (Some s)))"

definition record_test_outcome :: "rt_env \<Rightarrow> string \<Rightarrow> bool \<Rightarrow> string option \<Rightarrow> rt_db \<Rightarrow> rt_db" where
  "record_test_outcome env key ok detail db = db\<lparr>db_secrets :=
     map (\<lambda>r. if es_key r = key
              then r\<lparr>es_last_tested_at := Some (rt_now env), es_last_test_ok := Some ok,
                     es_last_test_detail := (case detail of None \<Rightarrow> None | Some d \<Rightarrow> if d = [] then None else Some (py_take 512 d))\<rparr>
              else r) (db_secrets db)\<rparr>"

record secret_status =
  st_key :: string
  st_label :: string
  st_category :: string
  st_has_value :: bool
  st_last_set_at :: "int option"
  st_set_by_user_id :: "string option"
  st_last_tested_at :: "int option"
  st_last_test_ok :: "bool option"
  st_last_test_detail :: "string option"

definition list_status :: "rt_db \<Rightarrow> secret_status list" where
  "list_status db =
     map (\<lambda>spec. let row = table_find es_key (ss_key spec) (db_secrets db) in
       \<lparr>st_key = ss_key spec, st_label = ss_label spec, st_category = ss_category spec, st_has_value = (row \<noteq> None),
        st_last_set_at = map_option es_last_set_at row,
        st_set_by_user_id = (case row of None \<Rightarrow> None | Some r \<Rightarrow> es_set_by_user_id r),
        st_last_tested_at = (case row of None \<Rightarrow> None | Some r \<Rightarrow> es_last_tested_at r),
        st_last_test_ok = (case row of None \<Rightarrow> None | Some r \<Rightarrow> es_last_test_ok r),
        st_last_test_detail = (case row of None \<Rightarrow> None | Some r \<Rightarrow> es_last_test_detail r)\<rparr>) SECRETS"

section \<open>What the service guarantees\<close>

interpretation override_table: keyed_table ov_key replace_value
  by unfold_locales (simp add: replace_value_def)

interpretation secret_table: keyed_table es_key "\<lambda>x y. y"
  by unfold_locales simp

text \<open>What is relied on of pydantic and \<open>str\<close>: a converted value converts to itself, a string field
  takes strings only and a list field lists of strings only, both unchanged.\<close>

definition coerce_ok :: "rt_env \<Rightarrow> bool" where
  "coerce_ok env =
     ((\<forall>t v w. rt_coerce env t v = Some w \<longrightarrow> rt_coerce env t w = Some w)
      \<and> (\<forall>v w. rt_coerce env FStr v = Some w \<longrightarrow> w = v \<and> (\<exists>s. v = PyStr s))
      \<and> (\<forall>v w. rt_coerce env FStrList v = Some w \<longrightarrow> w = v \<and> (\<exists>ws. v = PyList (map PyStr ws)))
      \<and> (\<forall>s. rt_str env (PyStr s) = s))"

lemma normalize_idem:
  assumes "coerce_ok env"
  shows "normalize_value env spec (normalize_value env spec v) = normalize_value env spec v"
proof -
  have r: "rt_str env (PyStr w) = w" for w using assms by (simp add: coerce_ok_def)
  have cw: "normalize_value env spec (clean_words ws) = clean_words ws" if "fs_field_type spec = FStrList" for ws
    using that by (simp add: normalize_value_def clean_words_def r comp_def filter_map py_strip_lower)
  have "normalize_value env spec v = v \<or> fs_field_type spec = FStrList \<and> (\<exists>ws. normalize_value env spec v = clean_words ws)"
    by (auto simp: normalize_value_def split: pyval.split)
  then show ?thesis using cw by auto
qed

text \<open>A validated value validates to itself.\<close>

lemma validate_stable:
  assumes ok: "coerce_ok env" and v: "validate_runtime_setting env key v = Inr w"
  shows "validate_runtime_setting env key w = Inr w"
proof -
  obtain spec where s: "RUNTIME_EDITABLE_BY_KEY key = Some spec" using v by (auto simp: validate_runtime_setting_def split: option.splits)
  let ?n = "normalize_value env spec v"
  have val: "validator env spec ?n = Some w" and url: "\<not> (key = ''plugin_gallery_url'' \<and> (case v of PyStr s \<Rightarrow> s \<noteq> [] \<and> \<not> http_url s | _ \<Rightarrow> False))"
    using v s by (auto simp: validate_runtime_setting_def split: if_splits option.splits)
  have c: "rt_coerce env (fs_field_type spec) ?n = Some w" "\<forall>c\<in>set (fs_field_constraints spec). constraint_holds env c w"
    using val by (auto simp: validator_def split: option.splits if_splits)
  have cw: "rt_coerce env (fs_field_type spec) w = Some w" using ok c(1) by (auto simp: coerce_ok_def)
  have nw: "normalize_value env spec w = w"
  proof (cases "fs_field_type spec = FStrList")
    case True
    then have "w = ?n" using ok c(1) by (auto simp: coerce_ok_def)
    then show ?thesis using normalize_idem [OF ok] by simp
  qed (simp add: normalize_value_def)
  have gallery: "w = v" if "key = ''plugin_gallery_url''"
  proof -
    have "spec = spec_plugin_gallery_url"
      using s that by (simp add: RUNTIME_EDITABLE_BY_KEY_def RUNTIME_EDITABLE_def runtime_specs)
    then have "fs_field_type spec = FStr" by (simp add: spec_plugin_gallery_url_def)
    then show ?thesis using ok c(1) by (auto simp: coerce_ok_def normalize_value_def)
  qed
  show ?thesis
    using s cw c(2) nw url gallery by (auto simp: validate_runtime_setting_def validator_def)
qed

lemma pr_side_effects [simp]: "pr_settings (apply_side_effects key p) = pr_settings p"
  by (simp add: apply_side_effects_def split: option.split pyval.split)

lemma pr_set_attr [simp]: "pr_settings (set_attr key v p) = (pr_settings p)(key := v)"
  by (simp add: set_attr_def)

lemma apply_override_settings:
  "pr_settings (apply_override env r p) =
     (case validate_runtime_setting env (ov_key r) (ov_value r) of
        Inl _ \<Rightarrow> pr_settings p | Inr v \<Rightarrow> (pr_settings p)(ov_key r := Some v))"
  by (auto simp: apply_override_def validate_runtime_setting_def split: sum.split)

lemma apply_overrides_other:
  "key \<notin> ov_key ` set rows \<Longrightarrow> pr_settings (apply_overrides_inproc env rows p) key = pr_settings p key"
  unfolding apply_overrides_inproc_def
  by (induction rows arbitrary: p) (auto simp: apply_override_settings split: sum.split)

text \<open>What a key holds after a reload: the validated override, or what it held before.\<close>

definition reloaded :: "rt_env \<Rightarrow> rt_db \<Rightarrow> string \<Rightarrow> pyval option \<Rightarrow> pyval option" where
  "reloaded env db key old =
     (case override_get_one key db of
        None \<Rightarrow> old
      | Some v \<Rightarrow> (case validate_runtime_setting env key v of Inl _ \<Rightarrow> old | Inr w \<Rightarrow> Some w))"

lemma pr_load:
  assumes "unique_keys ov_key (db_overrides db)"
  shows "pr_settings (load_and_apply_overrides env db p) key = reloaded env db key (pr_settings p key)"
proof -
  have "pr_settings (apply_overrides_inproc env rows p) key =
      (case table_find ov_key key rows of None \<Rightarrow> pr_settings p key
       | Some r \<Rightarrow> (case validate_runtime_setting env key (ov_value r) of Inl _ \<Rightarrow> pr_settings p key | Inr w \<Rightarrow> Some w))"
    if "unique_keys ov_key rows" for rows p
    using that
  proof (induction rows arbitrary: p)
    case (Cons r rows)
    have u: "unique_keys ov_key rows" "ov_key r \<notin> ov_key ` set rows" using Cons.prems by (simp_all add: unique_keys_def)
    have step: "apply_overrides_inproc env (r # rows) p = apply_overrides_inproc env rows (apply_override env r p)"
      by (simp add: apply_overrides_inproc_def)
    show ?case
    proof (cases "ov_key r = key")
      case True
      then show ?thesis using u(2) by (simp add: step apply_overrides_other apply_override_settings split: sum.split)
    next
      case False
      then show ?thesis
        by (simp add: step Cons.IH [OF u(1)] apply_override_settings split: option.split sum.split)
    qed
  qed (simp add: apply_overrides_inproc_def)
  from this [OF assms] show ?thesis
    by (simp add: load_and_apply_overrides_def reloaded_def override_get_one_def split: option.split)
qed

lemma get_upsert:
  "override_get_one k (override_upsert key v db) = (if k = key then Some v else override_get_one k db)"
  by (simp add: override_get_one_def override_upsert_def override_table.find_upsert replace_value_def split: option.split)

lemma change_append_overrides [simp]: "db_overrides (change_append env key a b u db) = db_overrides db"
  "override_get_one k (change_append env key a b u db) = override_get_one k db"
  by (simp_all add: change_append_def override_get_one_def)

lemma upsert_keeps [simp]:
  "unique_keys ov_key (db_overrides db) \<Longrightarrow> unique_keys ov_key (db_overrides (override_upsert key v db))"
  "db_changes (override_upsert key v db) = db_changes db"
  "db_secrets (override_upsert key v db) = db_secrets db"
  by (simp_all add: override_upsert_def override_table.upsert_unique)

lemma set_override_InrD:
  assumes "set_override env key v user (db, p) = (Inr w, db', p')"
  shows "validate_runtime_setting env key v = Inr w"
    "p' = apply_side_effects key (set_attr key (Some w) p)"
    "db' = change_append env key (override_get_one key db) (Some w) user (override_upsert key w db)"
  using assms by (auto simp: set_override_def Let_def split: sum.splits)

text \<open>C23. A successful \<open>set_override\<close> reaches every process: the writing process holds the coerced
  value at once, any process holds it after it reloads, and on every other key the reload gives what
  it gave before the change.  Reloading twice is reloading once, the override table keeps one row per
  key, and one audit row with the previous override and the new value is appended.\<close>

theorem override_reaches_processes:
  assumes ok: "coerce_ok env" and u: "unique_keys ov_key (db_overrides db)"
    and s: "set_override env key v user (db, p) = (Inr w, db', p')"
  shows "pr_settings p' = (pr_settings p)(key := Some w)
    \<and> unique_keys ov_key (db_overrides db')
    \<and> (\<forall>q. pr_settings (load_and_apply_overrides env db' q) = (pr_settings (load_and_apply_overrides env db q))(key := Some w))
    \<and> (\<forall>q. pr_settings (load_and_apply_overrides env db' (load_and_apply_overrides env db' q)) =
             pr_settings (load_and_apply_overrides env db' q))
    \<and> db_changes db' = db_changes db @ [\<lparr>sg_key = key, sg_prev_value = override_get_one key db, sg_next_value = Some w,
         sg_set_by_user_id = user, sg_set_at = rt_now env\<rparr>]"
proof -
  note d = set_override_InrD [OF s]
  have u': "unique_keys ov_key (db_overrides db')" using u by (simp add: d(3))
  have val: "validate_runtime_setting env key w = Inr w" using validate_stable [OF ok d(1)] .
  have get: "override_get_one k db' = (if k = key then Some w else override_get_one k db)" for k by (simp add: d(3) get_upsert)
  have re: "reloaded env db' k old = (if k = key then Some w else reloaded env db k old)" for k old
    by (simp add: reloaded_def get val)
  have idem: "reloaded env db' k (reloaded env db' k old) = reloaded env db' k old" for k old
    by (simp add: reloaded_def split: option.split sum.split)
  have load: "pr_settings (load_and_apply_overrides env db' q) k = reloaded env db' k (pr_settings q k)" for q k
    by (rule pr_load [OF u'])
  have one: "pr_settings (load_and_apply_overrides env db' q) = (pr_settings (load_and_apply_overrides env db q))(key := Some w)" for q
    by (rule ext) (simp add: load pr_load [OF u] re)
  have two: "pr_settings (load_and_apply_overrides env db' (load_and_apply_overrides env db' q)) = pr_settings (load_and_apply_overrides env db' q)" for q
    by (rule ext) (simp add: load idem)
  have here: "pr_settings p' = (pr_settings p)(key := Some w)" by (simp add: d(2))
  have log: "db_changes db' = db_changes db @ [\<lparr>sg_key = key, sg_prev_value = override_get_one key db, sg_next_value = Some w,
         sg_set_by_user_id = user, sg_set_at = rt_now env\<rparr>]" by (simp add: d(3) change_append_def)
  show ?thesis using here u' one two log by blast
qed

section \<open>Bounds\<close>

definition in_bounds :: "rt_env \<Rightarrow> process \<Rightarrow> bool" where
  "in_bounds env p =
     (\<forall>spec\<in>set RUNTIME_EDITABLE. fs_field_type spec \<noteq> FStrList \<longrightarrow>
        (case pr_settings p (fs_key spec) of None \<Rightarrow> False
         | Some v \<Rightarrow> \<forall>c\<in>set (fs_field_constraints spec). constraint_holds env c v))"

text \<open>The regular expressions of the table: three alternatives of words and a URL scheme.\<close>

definition known_patterns :: "(string \<times> (string \<Rightarrow> bool)) list" where
  "known_patterns =
     [(''^(debug|info|warning|error|critical)$'', \<lambda>s. s \<in> set [''debug'', ''info'', ''warning'', ''error'', ''critical'']),
      (''^(auto|docker|bare-metal|unmanaged)$'', \<lambda>s. s \<in> set [''auto'', ''docker'', ''bare-metal'', ''unmanaged'']),
      (''^(info|warn|high|error|crit)$'', \<lambda>s. s \<in> set [''info'', ''warn'', ''high'', ''error'', ''crit'']),
      (''^https?://'', http_url)]"

definition patterns_ok :: "rt_env \<Rightarrow> bool" where
  "patterns_ok env = (\<forall>(p, f)\<in>set known_patterns. \<forall>s. rt_pattern env p s = f s)"

text \<open>An instance of the parameters, for the evaluation of defaults and for witnesses.\<close>

fun exact_type :: "field_type \<Rightarrow> pyval \<Rightarrow> pyval option" where
  "exact_type FInt (PyInt n) = Some (PyInt n)"
| "exact_type FBool (PyBool b) = Some (PyBool b)"
| "exact_type FStr (PyStr s) = Some (PyStr s)"
| "exact_type FStrList (PyList xs) = (if \<forall>x\<in>set xs. case x of PyStr _ \<Rightarrow> True | _ \<Rightarrow> False then Some (PyList xs) else None)"
| "exact_type _ _ = None"

definition sample_rt :: rt_env where
  "sample_rt = \<lparr>rt_coerce = exact_type,
     rt_pattern = (\<lambda>p s. case map_of known_patterns p of None \<Rightarrow> False | Some f \<Rightarrow> f s),
     rt_repr = (\<lambda>s. [CHR 0x27] @ s @ [CHR 0x27]), rt_msg = (\<lambda>k v. ''invalid value''),
     rt_str = (\<lambda>v. case v of PyStr s \<Rightarrow> s | _ \<Rightarrow> []), rt_now = 1700000000\<rparr>"

lemma sample_patterns_ok: "patterns_ok sample_rt"
  by (simp add: patterns_ok_def sample_rt_def known_patterns_def)

lemma sample_coerce_ok: "coerce_ok sample_rt"
proof -
  have a: "exact_type t v = Some w \<Longrightarrow> w = v" for t v w by (cases t; cases v) (auto split: if_splits)
  have b: "exact_type FStr v = Some w \<Longrightarrow> \<exists>s. v = PyStr s" for v w by (cases v) auto
  have c: "exact_type FStrList v = Some w \<Longrightarrow> \<exists>ws. v = PyList (map PyStr ws)" for v w
  proof (cases v)
    case (PyList xs)
    moreover assume "exact_type FStrList v = Some w"
    ultimately have x: "\<forall>x\<in>set xs. case x of PyStr _ \<Rightarrow> True | _ \<Rightarrow> False" by (simp split: if_split_asm)
    have "\<exists>w. x = PyStr w" if "x \<in> set xs" for x using bspec [OF x that] by (cases x) auto
    then show ?thesis using PyList by (simp add: ex_map_conv)
  qed auto
  have d: "exact_type t v = Some w \<Longrightarrow> exact_type t w = Some w" for t v w using a by blast
  show ?thesis unfolding coerce_ok_def using a b c d by (auto simp: sample_rt_def)
qed

lemma distinct_setting_keys: "distinct (map fs_key RUNTIME_EDITABLE)"
  by (simp add: RUNTIME_EDITABLE_def runtime_specs)

lemma by_key: "RUNTIME_EDITABLE_BY_KEY key = Some spec \<longleftrightarrow> spec \<in> set RUNTIME_EDITABLE \<and> fs_key spec = key"
  using table_find_Some_iff [of fs_key RUNTIME_EDITABLE key spec] distinct_setting_keys
  by (simp add: RUNTIME_EDITABLE_BY_KEY_def table_find_def unique_keys_def)

lemma validated_constraints:
  assumes "validate_runtime_setting env (fs_key spec) v = Inr w" "spec \<in> set RUNTIME_EDITABLE" "c \<in> set (fs_field_constraints spec)"
  shows "constraint_holds env c w"
proof -
  have "RUNTIME_EDITABLE_BY_KEY (fs_key spec) = Some spec" using assms(2) by (simp add: by_key)
  then show ?thesis using assms(1,3) by (auto simp: validate_runtime_setting_def validator_def split: if_splits option.splits)
qed

lemma in_bounds_set:
  assumes "in_bounds env p" "validate_runtime_setting env key v = Inr w"
  shows "in_bounds env (apply_side_effects key (set_attr key (Some w) p))"
  using assms validated_constraints [of env _ v w] by (auto simp: in_bounds_def)

lemma table_patterns:
  "list_all (\<lambda>spec. list_all (\<lambda>c. case c of Pattern p \<Rightarrow> p \<in> fst ` set known_patterns | _ \<Rightarrow> True) (fs_field_constraints spec)) RUNTIME_EDITABLE"
  by (simp add: RUNTIME_EDITABLE_def runtime_specs known_patterns_def)

lemma constraint_sample:
  assumes "patterns_ok env" "spec \<in> set RUNTIME_EDITABLE" "c \<in> set (fs_field_constraints spec)"
  shows "constraint_holds env c v = constraint_holds sample_rt c v"
proof -
  have "rt_pattern env p s = rt_pattern sample_rt p s" if "c = Pattern p" for p s
  proof -
    have "p \<in> fst ` set known_patterns" using table_patterns assms(2,3) that by (fastforce simp: list_all_iff)
    then show ?thesis using assms(1) sample_patterns_ok by (fastforce simp: patterns_ok_def)
  qed
  then show ?thesis by (cases c; cases v) auto
qed

lemma sample_defaults:
  "list_all (\<lambda>spec. fs_field_type spec = FStrList \<or>
     (case cleared_value spec of None \<Rightarrow> False | Some v \<Rightarrow> list_all (\<lambda>c. constraint_holds sample_rt c v) (fs_field_constraints spec)))
   RUNTIME_EDITABLE"
  by code_simp

lemma default_constraints:
  assumes "patterns_ok env" "spec \<in> set RUNTIME_EDITABLE" "fs_field_type spec \<noteq> FStrList"
  shows "\<exists>v. cleared_value spec = Some v \<and> (\<forall>c\<in>set (fs_field_constraints spec). constraint_holds env c v)"
  using sample_defaults assms constraint_sample [OF assms(1,2)] by (fastforce simp: list_all_iff split: option.splits)

lemma in_bounds_reset:
  assumes "patterns_ok env" "in_bounds env p" "RUNTIME_EDITABLE_BY_KEY key = Some spec"
  shows "in_bounds env (apply_side_effects key (set_attr key (cleared_value spec) p))"
proof -
  have s: "spec \<in> set RUNTIME_EDITABLE" "fs_key spec = key" using assms(3) by (auto simp: by_key)
  have eq: "t = spec" if "t \<in> set RUNTIME_EDITABLE" "fs_key t = key" for t
    using that assms(3) by (metis by_key option.inject)
  show ?thesis unfolding in_bounds_def
  proof (intro ballI impI)
    fix t assume t: "t \<in> set RUNTIME_EDITABLE" "fs_field_type t \<noteq> FStrList"
    show "case pr_settings (apply_side_effects key (set_attr key (cleared_value spec) p)) (fs_key t) of None \<Rightarrow> False
          | Some v \<Rightarrow> \<forall>c\<in>set (fs_field_constraints t). constraint_holds env c v"
    proof (cases "fs_key t = key")
      case True
      then show ?thesis using default_constraints [OF assms(1) t] eq [OF t(1) True] by auto
    next
      case False
      then show ?thesis using assms(2) t by (auto simp: in_bounds_def)
    qed
  qed
qed

lemma in_bounds_apply: "in_bounds env p \<Longrightarrow> in_bounds env (apply_override env r p)"
  using in_bounds_set [of env p "ov_key r" "ov_value r"] by (auto simp: apply_override_def split: sum.split)

text \<open>Every setting with numeric, length or pattern limits stays within them: a write and a clear
  keep a process within the limits, whether they succeed or fail, and so does a reload from a database
  with any rows whatever, rows of unknown keys and rows written under older limits included.\<close>

theorem settings_stay_in_bounds:
  assumes "patterns_ok env" "in_bounds env p"
  shows "in_bounds env (snd (snd (set_override env key v user (db, p))))
    \<and> in_bounds env (snd (snd (clear_override env key user (db, p))))
    \<and> in_bounds env (load_and_apply_overrides env db p)"
proof -
  have a: "in_bounds env (snd (snd (set_override env key v user (db, p))))"
    using in_bounds_set [OF assms(2), of key v] assms(2) by (simp add: set_override_def Let_def split: sum.split)
  have b: "in_bounds env (snd (snd (clear_override env key user (db, p))))"
    using in_bounds_reset [OF assms, of key] assms(2) by (simp add: clear_override_def override_delete_def split: option.split)
  have "in_bounds env q \<Longrightarrow> in_bounds env (apply_overrides_inproc env rows q)" for rows q
    unfolding apply_overrides_inproc_def by (induction rows arbitrary: q) (simp_all add: in_bounds_apply)
  then show ?thesis using a b assms(2) by (simp add: load_and_apply_overrides_def)
qed

section \<open>What a clear leaves behind\<close>

text \<open>A cleared override stays in force in the other processes: the clear removes the row and resets
  the process that served it, but a process that held the override value still holds it after any
  number of reloads, since a reload only applies rows that exist.\<close>

theorem cleared_override_stays:
  assumes "unique_keys ov_key (db_overrides db)" "override_get_one key db = Some v"
    "validate_runtime_setting env key v = Inr w" "clear_override env key user (db, p) = (r, db', p')"
  shows "r = Inr True \<and> override_get_one key db' = None
    \<and> pr_settings p' key = cleared_value (the (RUNTIME_EDITABLE_BY_KEY key))
    \<and> pr_settings ((load_and_apply_overrides env db' ^^ n) (load_and_apply_overrides env db q)) key = Some w"
proof -
  obtain spec where s: "RUNTIME_EDITABLE_BY_KEY key = Some spec"
    using assms(3) by (auto simp: validate_runtime_setting_def split: option.splits)
  have "key \<in> ov_key ` set (db_overrides db)" using assms(2) table_find_None_iff [of ov_key key "db_overrides db"]
    by (auto simp: override_get_one_def)
  then have d: "r = Inr True" "p' = apply_side_effects key (set_attr key (cleared_value spec) p)"
    "db_overrides db' = filter (\<lambda>x. ov_key x \<noteq> key) (db_overrides db)"
    using assms(4) s by (auto simp: clear_override_def override_delete_def)
  have gone: "override_get_one key db' = None" by (auto simp: override_get_one_def d(3) table_find_None_iff)
  have u: "unique_keys ov_key (db_overrides db')" using assms(1) by (simp add: d(3) unique_keys_filter)
  have "pr_settings ((load_and_apply_overrides env db' ^^ n) (load_and_apply_overrides env db q)) key = Some w"
    by (induction n) (simp_all add: pr_load [OF u] pr_load [OF assms(1)] reloaded_def gone assms(2,3))
  then show ?thesis using s d gone by simp
qed

lemma language_specs:
  "RUNTIME_EDITABLE_BY_KEY ''preferred_audio_languages'' = Some spec_preferred_audio_languages"
  "RUNTIME_EDITABLE_BY_KEY ''preferred_subtitle_languages'' = Some spec_preferred_subtitle_languages"
  "cleared_value spec_preferred_audio_languages = None" "cleared_value spec_preferred_subtitle_languages = None"
  "fs_field_default spec_preferred_audio_languages = PyList [PyStr ''eng'']"
  "fs_field_default spec_preferred_subtitle_languages = PyList [PyStr ''eng'']"
proof -
  have m: "spec_preferred_audio_languages \<in> set RUNTIME_EDITABLE" "spec_preferred_subtitle_languages \<in> set RUNTIME_EDITABLE"
    by (simp_all add: RUNTIME_EDITABLE_def)
  show "RUNTIME_EDITABLE_BY_KEY ''preferred_audio_languages'' = Some spec_preferred_audio_languages"
    "RUNTIME_EDITABLE_BY_KEY ''preferred_subtitle_languages'' = Some spec_preferred_subtitle_languages"
    using m by (simp_all add: by_key spec_preferred_audio_languages_def spec_preferred_subtitle_languages_def)
  show "cleared_value spec_preferred_audio_languages = None" by code_simp
  show "cleared_value spec_preferred_subtitle_languages = None" by code_simp
qed (simp_all add: spec_preferred_audio_languages_def spec_preferred_subtitle_languages_def)

text \<open>Clearing an override of a language list leaves the setting without a value: the class declares
  the default as a factory, so the value read off the model field is the sentinel and not the list.\<close>

theorem cleared_languages_undefined:
  assumes "key \<in> {''preferred_audio_languages'', ''preferred_subtitle_languages''}" "override_get_one key db = Some v"
  shows "pr_settings (snd (snd (clear_override env key user (db, p)))) key = None
    \<and> fs_field_default (the (RUNTIME_EDITABLE_BY_KEY key)) = PyList [PyStr ''eng'']"
proof -
  have "key \<in> ov_key ` set (db_overrides db)" using assms(2) table_find_None_iff [of ov_key key "db_overrides db"]
    by (auto simp: override_get_one_def)
  moreover have "\<exists>spec. RUNTIME_EDITABLE_BY_KEY key = Some spec \<and> cleared_value spec = None \<and> fs_field_default spec = PyList [PyStr ''eng'']"
    using assms(1) language_specs by auto
  ultimately show ?thesis by (auto simp: clear_override_def override_delete_def)
qed

section \<open>Secrets at rest\<close>

text \<open>A stored secret is read back exactly, the key keeps a single row, other secrets and all overrides
  are untouched, a fresh row carries no test result, and the status list the API returns does not
  depend on the plaintext.\<close>

theorem secret_set_roundtrip:
  assumes "crypto_ok c" "length nonce = NONCE_LEN" "set_secret env c nonce key plain user db = (Inr (), db')"
  shows "get_plaintext c key db' = Inr (Some plain)
    \<and> (\<forall>k. k \<noteq> key \<longrightarrow> get_plaintext c k db' = get_plaintext c k db)
    \<and> (unique_keys es_key (db_secrets db) \<longrightarrow> unique_keys es_key (db_secrets db'))
    \<and> db_overrides db' = db_overrides db
    \<and> map_option es_last_test_ok (table_find es_key key (db_secrets db')) = Some None
    \<and> (\<forall>other nonce'. fst (set_secret env c nonce' key other user db) = Inr () \<longrightarrow>
         list_status (snd (set_secret env c nonce' key other user db)) = list_status db')"
proof -
  have d: "db' = secret_upsert (new_secret env key (encrypt_bytes c nonce plain) user) db"
    using assms(3) by (auto simp: set_secret_def split: sum.splits)
  have find: "table_find es_key k (db_secrets (secret_upsert (new_secret env key ct user) db)) =
      (if k = key then Some (new_secret env key ct user) else table_find es_key k (db_secrets db))" for k ct
    by (simp add: secret_upsert_def secret_table.find_upsert new_secret_def split: option.split)
  have "decrypt_bytes c (encrypt_bytes c nonce plain) = Inr plain"
    using gcm_laws [OF assms(1)] assms(2) by (simp add: decrypt_bytes_def encrypt_bytes_def NONCE_LEN_def)
  then have read: "get_plaintext c key db' = Inr (Some plain)" by (simp add: get_plaintext_def d find) (simp add: new_secret_def)
  have status: "list_status (secret_upsert (new_secret env key ct user) db) = list_status (secret_upsert (new_secret env key ct' user) db)" for ct ct'
    by (simp add: list_status_def find Let_def) (simp add: new_secret_def)
  have other: "list_status (snd (set_secret env c n key x user db)) = list_status db'" if "fst (set_secret env c n key x user db) = Inr ()" for n x
    using that by (auto simp: set_secret_def d status split: sum.splits)
  have uk: "unique_keys es_key (db_secrets db) \<longrightarrow> unique_keys es_key (db_secrets db')"
    by (simp add: d secret_upsert_def secret_table.upsert_unique)
  have rest: "get_plaintext c k db' = get_plaintext c k db" if "k \<noteq> key" for k using that by (simp add: get_plaintext_def d find)
  have fresh: "map_option es_last_test_ok (table_find es_key key (db_secrets db')) = Some None" by (simp add: d find) (simp add: new_secret_def)
  have "db_overrides db' = db_overrides db" by (simp add: d secret_upsert_def)
  then show ?thesis using read uk other rest fresh by blast
qed

section \<open>Witnesses\<close>

definition sample_db :: rt_db where
  "sample_db = \<lparr>db_overrides = [\<lparr>ov_key = ''virustotal_daily_quota'', ov_value = PyInt 100\<rparr>,
      \<lparr>ov_key = ''preferred_audio_languages'', ov_value = PyList [PyStr ''fra'']\<rparr>], db_changes = [], db_secrets = []\<rparr>"

definition stock :: process where
  "stock = \<lparr>pr_settings = (\<lambda>k. case RUNTIME_EDITABLE_BY_KEY k of None \<Rightarrow> None | Some spec \<Rightarrow> Some (fs_field_default spec)), pr_root_level = None\<rparr>"

lemma sample_db_unique: "unique_keys ov_key (db_overrides sample_db)"
  by code_simp

lemma stock_in_bounds: "in_bounds sample_rt stock"
  by code_simp

theorem override_reaches_processes_witness:
  "pr_settings (load_and_apply_overrides sample_rt
     (fst (snd (set_override sample_rt ''scanner_worker_concurrency'' (PyInt 8) None (sample_db, stock)))) stock) ''scanner_worker_concurrency''
   = Some (PyInt 8)"
proof -
  obtain d' q' where s: "set_override sample_rt ''scanner_worker_concurrency'' (PyInt 8) None (sample_db, stock) = (Inr (PyInt 8), d', q')"
  proof -
    have "fst (set_override sample_rt ''scanner_worker_concurrency'' (PyInt 8) None (sample_db, stock)) = Inr (PyInt 8)" by code_simp
    then show thesis using that by (metis prod.collapse)
  qed
  show ?thesis using override_reaches_processes [OF sample_coerce_ok sample_db_unique s] by (simp add: s)
qed

theorem settings_stay_in_bounds_witness:
  "in_bounds sample_rt (snd (snd (set_override sample_rt ''scanner_worker_concurrency'' (PyInt 8) None (sample_db, stock))))"
  using settings_stay_in_bounds [OF sample_patterns_ok stock_in_bounds] by blast

theorem cleared_override_stays_witness:
  "pr_settings ((load_and_apply_overrides sample_rt (fst (snd (clear_override sample_rt ''virustotal_daily_quota'' None (sample_db, stock)))) ^^ 3)
     (load_and_apply_overrides sample_rt sample_db stock)) ''virustotal_daily_quota'' = Some (PyInt 100)"
proof -
  obtain r d' q' where c: "clear_override sample_rt ''virustotal_daily_quota'' None (sample_db, stock) = (r, d', q')" by (metis prod.collapse)
  have g: "override_get_one ''virustotal_daily_quota'' sample_db = Some (PyInt 100)" by code_simp
  have v: "validate_runtime_setting sample_rt ''virustotal_daily_quota'' (PyInt 100) = Inr (PyInt 100)" by code_simp
  show ?thesis using cleared_override_stays [OF sample_db_unique g v c] by (simp add: c)
qed

theorem cleared_languages_undefined_witness:
  "pr_settings (snd (snd (clear_override sample_rt ''preferred_audio_languages'' None (sample_db, stock)))) ''preferred_audio_languages'' = None"
  using cleared_languages_undefined [of "''preferred_audio_languages''" sample_db "PyList [PyStr ''fra'']"]
  by (simp add: sample_db_def override_get_one_def)

theorem secret_set_roundtrip_witness:
  "get_plaintext sample_crypto ''virustotal_api_key''
     (snd (set_secret sample_rt sample_crypto ''abcdefghijkl'' ''virustotal_api_key'' (replicate 40 (CHR ''k'')) None sample_db))
   = Inr (Some (replicate 40 (CHR ''k'')))"
proof -
  obtain d' where s: "set_secret sample_rt sample_crypto ''abcdefghijkl'' ''virustotal_api_key'' (replicate 40 (CHR ''k'')) None sample_db = (Inr (), d')"
  proof -
    have "fst (set_secret sample_rt sample_crypto ''abcdefghijkl'' ''virustotal_api_key'' (replicate 40 (CHR ''k'')) None sample_db) = Inr ()" by code_simp
    then show thesis using that by (metis prod.collapse)
  qed
  have n: "length ''abcdefghijkl'' = NONCE_LEN" by (simp add: NONCE_LEN_def)
  show ?thesis using secret_set_roundtrip [OF sample_crypto_ok n s] by (simp add: s)
qed

end
