(* ===== verification/Analyzer.thy ===== *)
theory Analyzer
  imports SessionManager RuleSchema "HOL-Library.List_Lexorder" "HOL-Library.Char_ord"
begin

text \<open>
  The playback analyzer (\<open>app/services/playback/analyzer.py\<close>) with the repository of rule suggestions:
  five heuristics over the plays of the last thirty days propose rules, and the proposals are merged into
  the suggestions an operator has deployed, dismissed or not yet looked at.  Times are microseconds.
  Parameters (\<open>analyzer_env\<close>): the clock, new identifiers, and the floating-point figures that are
  only displayed (the rounded rate and the confidence).  A float quotient is below 0.5 exactly when the
  rational is, so the threshold on the rate is compared exactly.
\<close>

section \<open>Rows\<close>

record playback_event =
  pe_integration_id :: string
  pe_media_file_id :: "string option"
  pe_source_path :: string
  pe_device_kind :: "string option"
  pe_device_name :: "string option"
  pe_decision :: string
  pe_reason_code :: "string option"
  pe_source_codec :: "string option"
  pe_source_bitrate_kbps :: "int option"
  pe_source_width :: "int option"
  pe_source_height :: "int option"
  pe_source_container :: "string option"
  pe_target_codec :: "string option"
  pe_target_bitrate_kbps :: "int option"
  pe_started_at :: int
  pe_completed_at :: "int option"
  pe_duration_s :: "int option"
  pe_upstream_id :: string
  pe_reconciled_with_session_id :: "string option"

text \<open>The columns the heuristics read of either kind of row.\<close>

record play =
  pl_media_file_id :: "string option"
  pl_source_path :: "string option"
  pl_device_kind :: "string option"
  pl_device_name :: "string option"
  pl_decision :: "string option"
  pl_reason_code :: "string option"
  pl_source_codec :: "string option"
  pl_source_bitrate_kbps :: "int option"
  pl_source_width :: "int option"
  pl_source_height :: "int option"
  pl_source_container :: "string option"

definition play_of_session :: "playback_session \<Rightarrow> play" where
  "play_of_session r = (let i = ps_info r in
     \<lparr>pl_media_file_id = si_media_file_id i, pl_source_path = si_source_path i, pl_device_kind = si_device_kind i,
      pl_device_name = si_device_name i, pl_decision = si_decision i, pl_reason_code = si_reason_code i,
      pl_source_codec = si_source_codec i, pl_source_bitrate_kbps = si_source_bitrate_kbps i,
      pl_source_width = si_source_width i, pl_source_height = si_source_height i,
      pl_source_container = si_source_container i\<rparr>)"

definition play_of_event :: "playback_event \<Rightarrow> play" where
  "play_of_event e =
     \<lparr>pl_media_file_id = pe_media_file_id e, pl_source_path = Some (pe_source_path e), pl_device_kind = pe_device_kind e,
      pl_device_name = pe_device_name e, pl_decision = Some (pe_decision e), pl_reason_code = pe_reason_code e,
      pl_source_codec = pe_source_codec e, pl_source_bitrate_kbps = pe_source_bitrate_kbps e,
      pl_source_width = pe_source_width e, pl_source_height = pe_source_height e,
      pl_source_container = pe_source_container e\<rparr>"

record rule_suggestion =
  sug_id :: string
  sug_name :: string
  sug_definition :: "rule_definition option"
  sug_heuristic :: string
  sug_evidence :: "(string \<times> pyval) list"
  sug_files_affected :: int
  sug_est_runtime_s :: "int option"
  sug_confidence :: pyfloat
  sug_dedup_key :: string
  sug_status :: string
  sug_deployed_rule_id :: "string option"
  sug_deployed_at :: "int option"
  sug_dismissed_at :: "int option"
  sug_dismissed_reason :: "string option"
  sug_created_at :: int

record suggestion_candidate =
  sc_heuristic :: string
  sc_name :: string
  sc_definition :: rule_definition
  sc_evidence :: "(string \<times> pyval) list"
  sc_files_affected :: int
  sc_est_runtime_s :: "int option"
  sc_confidence :: pyfloat
  sc_dedup_key :: string

record analyzer_env =
  ae_now :: int
  ae_rate :: "nat \<Rightarrow> nat \<Rightarrow> pyfloat"
  ae_confidence :: "string \<Rightarrow> nat \<Rightarrow> nat \<Rightarrow> pyfloat"
  ae_new_id :: "nat \<Rightarrow> string"

section \<open>Thresholds\<close>

definition ANALYSIS_WINDOW_DAYS :: int where "ANALYSIS_WINDOW_DAYS = 30"
definition MIN_EVENTS_TOTAL :: nat where "MIN_EVENTS_TOTAL = 20"
definition MIN_FAMILY_PLAYS :: nat where "MIN_FAMILY_PLAYS = 10"
definition MIN_BITRATE_CEILING_KBPS :: int where "MIN_BITRATE_CEILING_KBPS = 10000"
definition MIN_FAILED_PLAYS :: nat where "MIN_FAILED_PLAYS = 3"
definition DISMISS_STICKY_DAYS :: int where "DISMISS_STICKY_DAYS = 30"

definition days :: "int \<Rightarrow> int" where
  "days n = n * 86400000000"

text \<open>\<open>rate < MIN_TRANSCODE_RATE\<close>.\<close>

definition below_rate :: "nat \<Rightarrow> nat \<Rightarrow> bool" where
  "below_rate transcodes plays = (2 * transcodes < plays)"

section \<open>Grouping and counting\<close>

definition given :: "string option \<Rightarrow> bool" where
  "given x = (x \<noteq> None \<and> x \<noteq> Some [])"

fun group_add :: "'k \<Rightarrow> 'a \<Rightarrow> ('k \<times> 'a list) list \<Rightarrow> ('k \<times> 'a list) list" where
  "group_add k x [] = [(k, [x])]"
| "group_add k x ((l, xs) # g) = (if l = k then (l, xs @ [x]) # g else (l, xs) # group_add k x g)"

text \<open>A dictionary of lists, in the order in which its keys appear.\<close>

definition group_by :: "('a \<Rightarrow> 'k option) \<Rightarrow> 'a list \<Rightarrow> ('k \<times> 'a list) list" where
  "group_by f xs = fold (\<lambda>x g. case f x of None \<Rightarrow> g | Some k \<Rightarrow> group_add k x g) xs []"

text \<open>\<open>Counter(xs).most_common(n)\<close>.\<close>

definition most_common :: "nat \<Rightarrow> 'a list \<Rightarrow> ('a \<times> nat) list" where
  "most_common n xs = take n (sort_key (\<lambda>kc. - int (snd kc)) (map (\<lambda>kys. (fst kys, length (snd kys))) (group_by Some xs)))"

definition top_devices :: "play list \<Rightarrow> pyval" where
  "top_devices ps = PyList (map (\<lambda>(d, c). PyDict [(''device'', PyStr d), (''count'', PyInt (int c))])
     (most_common 3 (map the (filter given (map pl_device_kind ps)))))"

text \<open>The identifiers of the affected files, without repetition.\<close>

definition affected :: "play list \<Rightarrow> string list" where
  "affected ps = remdups (map the (filter given (map pl_media_file_id ps)))"

definition transcoded :: "play list \<Rightarrow> play list" where
  "transcoded = filter (\<lambda>p. pl_decision p = Some ''transcode'')"

definition upper_char :: "char \<Rightarrow> char" where
  "upper_char c = (let n = (of_char c :: nat) in if 97 \<le> n \<and> n \<le> 122 then char_of (n - 32) else c)"

definition py_upper :: "string \<Rightarrow> string" where
  "py_upper = map upper_char"

text \<open>A rule of one condition that sets a severity and a tag.\<close>

definition label_rule :: "string \<Rightarrow> string \<Rightarrow> pyval \<Rightarrow> string \<Rightarrow> string \<Rightarrow> rule_definition" where
  "label_rule field op v severity tag =
     \<lparr>rd_match = Leaf \<lparr>cond_field = field, cond_op = op, cond_value = v\<rparr>,
      rd_actions = [SetSeverity severity, AddTag tag], acknowledged_destructive = False\<rparr>"

section \<open>Heuristics\<close>

definition codec_of :: "play \<Rightarrow> string option" where
  "codec_of p = (if given (pl_source_codec p) then Some (py_lower (the (pl_source_codec p))) else None)"

definition high_transcode_codec :: "analyzer_env \<Rightarrow> play list \<Rightarrow> suggestion_candidate list result" where
  "high_transcode_codec env events = Inr (concat (map (\<lambda>(codec, plays).
     let transcodes = transcoded plays in
     if length plays < MIN_FAMILY_PLAYS \<or> below_rate (length transcodes) (length plays) then []
     else [\<lparr>sc_heuristic = ''high_transcode_codec'',
            sc_name = ''Flag '' @ py_upper codec @ '' files that transcode frequently'',
            sc_definition = label_rule ''video_codec'' ''eq'' (PyStr codec) ''warn'' (''transcode-'' @ codec),
            sc_evidence = [(''codec'', PyStr codec), (''total_plays'', PyInt (int (length plays))),
              (''transcodes'', PyInt (int (length transcodes))),
              (''transcode_rate'', PyFloat (ae_rate env (length transcodes) (length plays))),
              (''top_devices'', top_devices transcodes)],
            sc_files_affected = int (length (affected transcodes)), sc_est_runtime_s = None,
            sc_confidence = ae_confidence env ''high_transcode_codec'' (length transcodes) (length plays),
            sc_dedup_key = ''high_transcode_codec:'' @ codec\<rparr>])
     (group_by codec_of events)))"

definition bitrate_ceiling :: "analyzer_env \<Rightarrow> play list \<Rightarrow> suggestion_candidate list result" where
  "bitrate_ceiling env events =
     (let transcodes = filter (\<lambda>e. case pl_source_bitrate_kbps e of None \<Rightarrow> False | Some b \<Rightarrow> b > MIN_BITRATE_CEILING_KBPS)
            (transcoded events);
          bitrates = sort (map (\<lambda>e. the (pl_source_bitrate_kbps e)) transcodes);
          p25 = bitrates ! (length bitrates div 4);
          ceiling = (p25 div 1000) * 1000 in
      if length transcodes < MIN_FAMILY_PLAYS then Inr []
      else if ceiling < MIN_BITRATE_CEILING_KBPS then Inr []
      else Inr [\<lparr>sc_heuristic = ''bitrate_ceiling'',
            sc_name = ''Flag files above '' @ str_int ceiling @ '' kbps that often transcode'',
            sc_definition = label_rule ''bitrate_kbps'' ''gt'' (PyInt ceiling) ''warn'' ''bitrate-too-high'',
            sc_evidence = [(''ceiling_kbps'', PyInt ceiling), (''transcoded_above_ceiling'', PyInt (int (length transcodes))),
              (''p25_bitrate_kbps'', PyInt p25), (''min_bitrate_kbps'', PyInt (hd bitrates)),
              (''max_bitrate_kbps'', PyInt (last bitrates))],
            sc_files_affected = int (length (affected transcodes)), sc_est_runtime_s = None,
            sc_confidence = ae_confidence env ''bitrate_ceiling'' (length transcodes) (length transcodes),
            sc_dedup_key = ''bitrate_ceiling:'' @ str_int ceiling\<rparr>])"

definition container_of :: "play \<Rightarrow> string option" where
  "container_of p =
     (if pl_reason_code p = Some ''video.container.unsupported'' \<and> given (pl_source_container p)
      then Some (py_lower (the (pl_source_container p))) else None)"

definition container_compatibility :: "analyzer_env \<Rightarrow> play list \<Rightarrow> suggestion_candidate list result" where
  "container_compatibility env events = Inr (concat (map (\<lambda>(container, plays).
     if length plays < MIN_FAMILY_PLAYS then []
     else [\<lparr>sc_heuristic = ''container_compat'',
            sc_name = ''Flag .'' @ container @ '' files '' @ [CHR 0xE2, CHR 0x80, CHR 0x94] @ '' container repeatedly '' @ ''blocks direct play'',
            sc_definition = label_rule ''container'' ''eq'' (PyStr container) ''warn'' (''container-'' @ container @ ''-unsupported''),
            sc_evidence = [(''container'', PyStr container), (''transcodes_due_to_container'', PyInt (int (length plays))),
              (''top_devices'', top_devices plays)],
            sc_files_affected = int (length (affected plays)), sc_est_runtime_s = None,
            sc_confidence = ae_confidence env ''container_compat'' (length plays) (length plays),
            sc_dedup_key = ''container_compat:'' @ container\<rparr>])
     (group_by container_of events)))"

definition class_for :: "int option \<Rightarrow> int option \<Rightarrow> string option" where
  "class_for width height =
     (case (width, height) of
        (Some w, Some h) \<Rightarrow>
          Some (if w \<ge> 3800 then ''4k'' else if w \<ge> 2400 then ''1440p'' else if w \<ge> 1900 then ''1080p''
                else if w \<ge> 1200 then ''720p'' else ''sd'')
      | _ \<Rightarrow> None)"

definition width_floor :: "string \<Rightarrow> int" where
  "width_floor klass = the (map_of [(''4k'', 3800), (''1440p'', 2400), (''1080p'', 1900), (''720p'', 1200), (''sd'', 0)] klass)"

definition resolution_mismatch :: "analyzer_env \<Rightarrow> play list \<Rightarrow> suggestion_candidate list result" where
  "resolution_mismatch env events = Inr (concat (map (\<lambda>(klass, plays).
     let transcodes = transcoded plays in
     if length plays < MIN_FAMILY_PLAYS \<or> below_rate (length transcodes) (length plays) \<or> width_floor klass = 0 then []
     else [\<lparr>sc_heuristic = ''resolution_mismatch'',
            sc_name = ''Flag '' @ py_upper klass @ '' content that frequently transcodes'',
            sc_definition = label_rule ''width'' ''gte'' (PyInt (width_floor klass)) ''warn'' (''hi-res-'' @ klass),
            sc_evidence = [(''resolution_class'', PyStr klass), (''width_floor'', PyInt (width_floor klass)),
              (''total_plays'', PyInt (int (length plays))), (''transcodes'', PyInt (int (length transcodes))),
              (''transcode_rate'', PyFloat (ae_rate env (length transcodes) (length plays)))],
            sc_files_affected = int (length (affected transcodes)), sc_est_runtime_s = None,
            sc_confidence = ae_confidence env ''resolution_mismatch'' (length transcodes) (length plays),
            sc_dedup_key = ''resolution_mismatch:'' @ klass\<rparr>])
     (group_by (\<lambda>p. class_for (pl_source_width p) (pl_source_height p)) events)))"

text \<open>The base name of the first failed play of each file; \<open>None.rsplit\<close> raises.\<close>

fun filenames_by_id :: "play list \<Rightarrow> (string \<times> string) list \<Rightarrow> (string \<times> string) list result" where
  "filenames_by_id [] d = Inr d"
| "filenames_by_id (e # es) d =
     (if given (pl_media_file_id e) \<and> map_of d (the (pl_media_file_id e)) = None
      then (case pl_source_path e of
              None \<Rightarrow> Inl AttributeError
            | Some p \<Rightarrow> filenames_by_id es (if name_part p = [] then d else d @ [(the (pl_media_file_id e), name_part p)]))
      else filenames_by_id es d)"

definition failed_sample :: "play \<Rightarrow> pyval" where
  "failed_sample e = PyDict
     [(''source_path'', opt_str (pl_source_path e)), (''decision'', opt_str (pl_decision e)), (''device_name'', opt_str (pl_device_name e)),
       (''device_kind'', opt_str (pl_device_kind e)), (''source_codec'', opt_str (pl_source_codec e)), (''reason_code'', opt_str (pl_reason_code e))]"

definition failed_key :: "string list \<Rightarrow> string" where
  "failed_key ids = ''failed_playback:'' @ join_with '','' (take 10 (sort ids))"

definition failed_playback :: "analyzer_env \<Rightarrow> play list \<Rightarrow> suggestion_candidate list result" where
  "failed_playback env events =
     (let failed = filter (\<lambda>e. pl_decision e = Some ''failed'') events; ids = affected failed in
      if length failed < MIN_FAILED_PLAYS \<or> ids = [] then Inr []
      else bind_r (filenames_by_id failed []) (\<lambda>d.
        let filenames = sort (map snd d); rule_filenames = take 50 filenames in
        if filenames = [] then Inr []
        else Inr [\<lparr>sc_heuristic = ''failed_playback'',
            sc_name = ''Flag '' @ str_int (int (length ids)) @ '' files that failed to play'',
            sc_definition = label_rule ''filename'' ''in'' (PyList (map PyStr rule_filenames)) ''error'' ''playback-failed'',
            sc_evidence = [(''failed_events'', PyInt (int (length failed))), (''affected_file_count'', PyInt (int (length ids))),
              (''rule_covers_filenames'', PyInt (int (length rule_filenames))),
              (''sample'', PyList (map failed_sample (take 10 failed))),
              (''reason_codes'', PyList (map (\<lambda>(r, c). PyList [PyStr r, PyInt (int c)])
                 (most_common 5 (map the (filter given (map pl_reason_code failed))))))],
            sc_files_affected = int (length ids), sc_est_runtime_s = None,
            sc_confidence = ae_confidence env ''failed_playback'' (length failed) MIN_FAILED_PLAYS,
            sc_dedup_key = failed_key ids\<rparr>]))"

section \<open>The repository\<close>

definition has_deployed :: "string \<Rightarrow> rule_suggestion list \<Rightarrow> bool" where
  "has_deployed key t = (\<exists>r\<in>set t. sug_dedup_key r = key \<and> sug_status r = ''deployed'')"

definition has_recent_dismissal :: "int \<Rightarrow> string \<Rightarrow> rule_suggestion list \<Rightarrow> bool" where
  "has_recent_dismissal now key t =
     (\<exists>r\<in>set t. sug_dedup_key r = key \<and> sug_status r = ''dismissed''
        \<and> (case sug_dismissed_at r of None \<Rightarrow> False | Some d \<Rightarrow> d \<ge> now - days DISMISS_STICKY_DAYS))"

definition get_by_dedup_key :: "string \<Rightarrow> rule_suggestion list \<Rightarrow> rule_suggestion option" where
  "get_by_dedup_key key t = table_find sug_dedup_key key t"

text \<open>Highest confidence first, then most files, then newest.\<close>

definition pyfloat_desc :: "rule_suggestion \<Rightarrow> rat" where
  "pyfloat_desc r = (case sug_confidence r of Fin q \<Rightarrow> - q | _ \<Rightarrow> 0)"

definition list_pending :: "rule_suggestion list \<Rightarrow> rule_suggestion list" where
  "list_pending t = sort_key pyfloat_desc (sort_key (\<lambda>r. - sug_files_affected r)
     (sort_key (\<lambda>r. - sug_created_at r) (filter (\<lambda>r. sug_status r = ''pending'') t)))"

text \<open>The insert: the columns are 256 and 64 characters wide.\<close>

definition add_suggestion :: "rule_suggestion \<Rightarrow> rule_suggestion list \<Rightarrow> rule_suggestion list result" where
  "add_suggestion r t =
     (if py_len (sug_name r) > 256 \<or> py_len (sug_dedup_key r) > 256 \<or> py_len (sug_heuristic r) > 64 then Inl (RuntimeError ''DataError'')
      else if sug_dedup_key r \<in> sug_dedup_key ` set t \<or> sug_id r \<in> sug_id ` set t then Inl IntegrityError
      else Inr (t @ [r]))"

section \<open>The run\<close>

record analysis_outcome =
  ao_examined_events :: nat
  ao_candidates_generated :: nat
  ao_suggestions_created :: nat
  ao_skipped_deduped :: nat
  ao_skipped_dismissed :: nat
  ao_skipped_deployed :: nat
  ao_skipped_too_few_events :: bool
  ao_examined_events_total :: nat
  ao_examined_events_resolved :: nat
  ao_examined_events_unresolved :: nat

definition cutoff :: "analyzer_env \<Rightarrow> int" where
  "cutoff env = ae_now env - days ANALYSIS_WINDOW_DAYS"

definition session_rows :: "analyzer_env \<Rightarrow> playback_session list \<Rightarrow> playback_session list" where
  "session_rows env ss = filter (\<lambda>r. ps_state r = ''stopped'' \<and> ps_started_at r \<ge> cutoff env \<and> si_media_file_id (ps_info r) \<noteq> None) ss"

definition event_rows :: "analyzer_env \<Rightarrow> playback_event list \<Rightarrow> playback_event list" where
  "event_rows env es = filter (\<lambda>e. pe_started_at e \<ge> cutoff env \<and> pe_media_file_id e \<noteq> None \<and> pe_reconciled_with_session_id e = None) es"

definition total_in_window :: "analyzer_env \<Rightarrow> playback_session list \<Rightarrow> playback_event list \<Rightarrow> nat" where
  "total_in_window env ss es =
     length (filter (\<lambda>e. pe_started_at e \<ge> cutoff env) es)
     + length (filter (\<lambda>r. ps_started_at r \<ge> cutoff env \<and> ps_state r = ''stopped'') ss)"

definition heuristics :: "(analyzer_env \<Rightarrow> play list \<Rightarrow> suggestion_candidate list result) list" where
  "heuristics = [high_transcode_codec, bitrate_ceiling, container_compatibility, resolution_mismatch, failed_playback]"

text \<open>A heuristic that raises contributes nothing.\<close>

definition candidates :: "analyzer_env \<Rightarrow> play list \<Rightarrow> suggestion_candidate list" where
  "candidates env rows = concat (map (\<lambda>h. case h env rows of Inl _ \<Rightarrow> [] | Inr cs \<Rightarrow> cs) heuristics)"

definition refresh_evidence :: "suggestion_candidate \<Rightarrow> rule_suggestion \<Rightarrow> rule_suggestion" where
  "refresh_evidence c r = r\<lparr>sug_evidence := sc_evidence c, sug_files_affected := sc_files_affected c,
     sug_confidence := sc_confidence c, sug_est_runtime_s := sc_est_runtime_s c\<rparr>"

definition new_suggestion :: "analyzer_env \<Rightarrow> nat \<Rightarrow> suggestion_candidate \<Rightarrow> rule_suggestion" where
  "new_suggestion env k c =
     \<lparr>sug_id = ae_new_id env k, sug_name = sc_name c, sug_definition = Some (sc_definition c), sug_heuristic = sc_heuristic c,
      sug_evidence = sc_evidence c, sug_files_affected = sc_files_affected c, sug_est_runtime_s = sc_est_runtime_s c,
      sug_confidence = sc_confidence c, sug_dedup_key = sc_dedup_key c, sug_status = ''pending'',
      sug_deployed_rule_id = None, sug_deployed_at = None, sug_dismissed_at = None, sug_dismissed_reason = None,
      sug_created_at = ae_now env\<rparr>"

definition persist_one ::
    "analyzer_env \<Rightarrow> suggestion_candidate \<Rightarrow> analysis_outcome \<times> rule_suggestion list \<Rightarrow> (analysis_outcome \<times> rule_suggestion list) result" where
  "persist_one env c ot =
     (let (out, t) = ot; key = sc_dedup_key c in
      if has_deployed key t then Inr (out\<lparr>ao_skipped_deployed := Suc (ao_skipped_deployed out)\<rparr>, t)
      else if has_recent_dismissal (ae_now env) key t then Inr (out\<lparr>ao_skipped_dismissed := Suc (ao_skipped_dismissed out)\<rparr>, t)
      else if get_by_dedup_key key t \<noteq> None
      then Inr (out\<lparr>ao_skipped_deduped := Suc (ao_skipped_deduped out)\<rparr>, map (\<lambda>r. if sug_dedup_key r = key then refresh_evidence c r else r) t)
      else bind_r (add_suggestion (new_suggestion env (ao_suggestions_created out) c) t) (\<lambda>t1.
        Inr (out\<lparr>ao_suggestions_created := Suc (ao_suggestions_created out)\<rparr>, t1)))"

fun persist ::
    "analyzer_env \<Rightarrow> suggestion_candidate list \<Rightarrow> analysis_outcome \<times> rule_suggestion list \<Rightarrow> (analysis_outcome \<times> rule_suggestion list) result" where
  "persist env [] ot = Inr ot"
| "persist env (c # cs) ot = bind_r (persist_one env c ot) (persist env cs)"

definition first_outcome :: "nat \<Rightarrow> nat \<Rightarrow> analysis_outcome" where
  "first_outcome all_plays examined =
     \<lparr>ao_examined_events = examined, ao_candidates_generated = 0, ao_suggestions_created = 0, ao_skipped_deduped = 0,
      ao_skipped_dismissed = 0, ao_skipped_deployed = 0, ao_skipped_too_few_events = False,
      ao_examined_events_total = all_plays, ao_examined_events_resolved = examined,
      ao_examined_events_unresolved = all_plays - examined\<rparr>"

text \<open>\<open>analyze\<close>; an exception leaves the table as it was, since the transaction is rolled back.\<close>

definition analyze ::
    "analyzer_env \<Rightarrow> playback_session list \<Rightarrow> playback_event list \<Rightarrow> rule_suggestion list
     \<Rightarrow> analysis_outcome result \<times> rule_suggestion list" where
  "analyze env ss es t =
     (let rows = map play_of_session (session_rows env ss) @ map play_of_event (event_rows env es);
          out = first_outcome (total_in_window env ss es) (length rows) in
      if length rows < MIN_EVENTS_TOTAL then (Inr (out\<lparr>ao_skipped_too_few_events := True\<rparr>), t)
      else (let cs = candidates env rows in
            case persist env cs (out\<lparr>ao_candidates_generated := length cs\<rparr>, t) of
              Inl e \<Rightarrow> (Inl e, t)
            | Inr (out1, t1) \<Rightarrow> (Inr out1, t1)))"

end
