(* ===== verification/AnalyzerGuarantees.thy ===== *)
theory AnalyzerGuarantees
  imports Analyzer BuiltinRules
begin

text \<open>
  What the analyzer of \<open>Analyzer\<close> guarantees: every rule it proposes is valid, evaluates on every
  file and only labels; a run accounts for each of its proposals and never revives or duplicates one; and
  three places where the run does not do what it documents.
\<close>

section \<open>Groups\<close>

lemma group_add_keys: "fst ` set (group_add k x g) = insert k (fst ` set g)"
  by (induction k x g rule: group_add.induct) auto

lemma group_add_distinct: "distinct (map fst g) \<Longrightarrow> distinct (map fst (group_add k x g))"
proof (induction k x g rule: group_add.induct)
  case (2 k x l xs g)
  then show ?case using group_add_keys [of k x g] by auto
qed simp

lemma group_add_map: "map_of (group_add k x g) = (map_of g)(k \<mapsto> (case map_of g k of None \<Rightarrow> [x] | Some xs \<Rightarrow> xs @ [x]))"
  by (induction k x g rule: group_add.induct) (auto simp: fun_eq_iff)

lemma group_by_inv:
  "distinct (map fst (group_by f es))
   \<and> map_of (group_by f es) k = (let ys = filter (\<lambda>e. f e = Some k) es in if ys = [] then None else Some ys)"
proof (induction es arbitrary: k rule: rev_induct)
  case (snoc e es)
  have step: "group_by f (es @ [e]) = (case f e of None \<Rightarrow> group_by f es | Some k \<Rightarrow> group_add k e (group_by f es))"
    by (cases "f e") (simp_all add: group_by_def)
  have d: "distinct (map fst (group_by f es))" using snoc [of k] by simp
  have m: "map_of (group_by f es) j = (let ys = filter (\<lambda>e. f e = Some j) es in if ys = [] then None else Some ys)" for j
    using snoc [of j] by simp
  show ?case
    by (cases "f e") (auto simp: step d group_add_distinct group_add_map m Let_def)
qed (simp add: group_by_def)

lemma group_by_mem:
  assumes "(k, ys) \<in> set (group_by f es)"
  shows "ys = filter (\<lambda>e. f e = Some k) es \<and> ys \<noteq> []"
proof -
  have "map_of (group_by f es) k = Some ys"
    using conjunct1 [OF group_by_inv [of f es k]] assms by (rule map_of_is_SomeI)
  moreover have "map_of (group_by f es) k = (let ys = filter (\<lambda>e. f e = Some k) es in if ys = [] then None else Some ys)"
    using group_by_inv [of f es k] by (rule conjunct2)
  ultimately show ?thesis by (auto simp: Let_def split: if_splits)
qed

section \<open>Proposed rules\<close>

text \<open>The widths of the columns the plays come from.\<close>

definition play_fits :: "play \<Rightarrow> bool" where
  "play_fits p =
     ((case pl_source_codec p of None \<Rightarrow> True | Some s \<Rightarrow> py_len s \<le> 32)
      \<and> (case pl_source_container p of None \<Rightarrow> True | Some s \<Rightarrow> py_len s \<le> 32)
      \<and> int64_ok (pl_source_bitrate_kbps p))"

definition sound_label :: "rule_definition \<Rightarrow> bool" where
  "sound_label d = (\<exists>field op v severity tag. d = label_rule field op v severity tag
     \<and> (\<forall>env. rule_safe env d))"

lemma py_len_append2 [simp]: "py_len (s @ t) = py_len s + py_len t"
  by (simp add: py_len_def)

lemma py_len_Nil [simp]: "py_len [] = 0"
  by (simp add: py_len_def)

lemma py_len_Cons: "py_len (c # s) = (if 128 \<le> (of_char c :: nat) \<and> (of_char c :: nat) < 192 then 0 else 1) + py_len s"
  by (simp add: py_len_def)

lemma py_len_lower [simp]: "py_len (py_lower s) = py_len s"
proof (induction s)
  case (Cons c s)
  then show ?case by (auto simp: py_lower_def py_len_Cons of_char_lower_char Let_def)
qed (simp add: py_lower_def)

lemma label_rule_sound:
  assumes "field \<in> set SUPPORTED_FIELDS" "op \<in> set (ops_for_field field)" "field \<noteq> ''vt_status''"
    "severity_level severity \<noteq> None" "1 \<le> py_len tag" "py_len tag \<le> 64"
    "\<And>env. condition_safe env \<lparr>cond_field = field, cond_op = op, cond_value = v\<rparr>"
  shows "sound_label (label_rule field op v severity tag)"
proof -
  have "valid_rule (label_rule field op v severity tag)"
    using assms(1-6) by (auto simp: valid_rule_def model_validate_def label_rule_def validate_condition_def validate_field_def
        validate_op_def validate_value_def check_length_def validate_destructive_ack_def)
  then have "rule_safe env (label_rule field op v severity tag)" for env
    using assms(7) [of env] by (simp add: rule_safe_def label_rule_def)
  then show ?thesis unfolding sound_label_def by blast
qed

lemma severities_known: "severity_level ''warn'' \<noteq> None" "severity_level ''error'' \<noteq> None"
  by (simp_all add: severity_level_def SEVERITY_LEVELS_def)

lemmas label_ops = vocabulary_defs ops_for_field_def condition_safe_def

lemma codec_rule_sound:
  "py_len codec \<le> 32 \<Longrightarrow> sound_label (label_rule ''video_codec'' ''eq'' (PyStr codec) ''warn'' (''transcode-'' @ codec))"
  by (rule label_rule_sound) (simp_all add: label_ops py_len_Cons severities_known)

lemma container_rule_sound:
  "py_len c \<le> 32 \<Longrightarrow> sound_label (label_rule ''container'' ''eq'' (PyStr c) ''warn'' (''container-'' @ c @ ''-unsupported''))"
  by (rule label_rule_sound) (simp_all add: label_ops py_len_Cons severities_known)

lemma bitrate_rule_sound:
  "int64_ok (Some n) \<Longrightarrow> sound_label (label_rule ''bitrate_kbps'' ''gt'' (PyInt n) ''warn'' ''bitrate-too-high'')"
  by (rule label_rule_sound) (simp_all add: label_ops py_len_Cons severities_known as_number_int64)

lemma failed_rule_sound:
  "names \<noteq> [] \<Longrightarrow> sound_label (label_rule ''filename'' ''in'' (PyList (map PyStr names)) ''error'' ''playback-failed'')"
  by (rule label_rule_sound) (simp_all add: label_ops py_len_Cons severities_known py_or_def)

lemma class_for_cases: "class_for w h = Some k \<Longrightarrow> k \<in> {''4k'', ''1440p'', ''1080p'', ''720p'', ''sd''}"
  by (auto simp: class_for_def split: option.splits if_splits)

lemma width_rule_sound:
  assumes "k \<in> {''4k'', ''1440p'', ''1080p'', ''720p'', ''sd''}"
  shows "sound_label (label_rule ''width'' ''gte'' (PyInt (width_floor k)) ''warn'' (''hi-res-'' @ k))"
proof (rule label_rule_sound)
  fix env
  have "int64_ok (Some (width_floor k))" using assms by (auto simp: int64_ok_def width_floor_def)
  then show "condition_safe env \<lparr>cond_field = ''width'', cond_op = ''gte'', cond_value = PyInt (width_floor k)\<rparr>"
    by (simp add: condition_safe_def as_number_int64)
qed (use assms in \<open>auto simp: label_ops py_len_Cons severities_known\<close>)

lemma play_fitsD:
  "play_fits p \<Longrightarrow> pl_source_codec p = Some t \<Longrightarrow> py_len t \<le> 32"
  "play_fits p \<Longrightarrow> pl_source_container p = Some t \<Longrightarrow> py_len t \<le> 32"
  by (simp_all add: play_fits_def)

lemma group_key_fits:
  assumes "\<forall>p\<in>set events. play_fits p"
  shows "(k, ps) \<in> set (group_by codec_of events) \<Longrightarrow> py_len k \<le> 32"
    "(k, ps) \<in> set (group_by container_of events) \<Longrightarrow> py_len k \<le> 32"
proof -
  assume m: "(k, ps) \<in> set (group_by codec_of events)"
  then obtain p where "p \<in> set events" "codec_of p = Some k" using group_by_mem [OF m] by (auto simp: filter_empty_conv)
  then show "py_len k \<le> 32" using play_fitsD(1) [OF bspec [OF assms]] by (auto simp: codec_of_def given_def split: if_splits)
next
  assume m: "(k, ps) \<in> set (group_by container_of events)"
  then obtain p where "p \<in> set events" "container_of p = Some k" using group_by_mem [OF m] by (auto simp: filter_empty_conv)
  then show "py_len k \<le> 32" using play_fitsD(2) [OF bspec [OF assms]] by (auto simp: container_of_def given_def split: if_splits)
qed

lemma bitrate_candidates_sound:
  assumes fit: "\<forall>p\<in>set events. play_fits p" and c: "bitrate_ceiling env events = Inr cs" "c \<in> set cs"
  shows "sound_label (sc_definition c)"
proof -
  let ?ts = "filter (\<lambda>e. case pl_source_bitrate_kbps e of None \<Rightarrow> False | Some b \<Rightarrow> b > MIN_BITRATE_CEILING_KBPS) (transcoded events)"
  let ?bs = "sort (map (\<lambda>e. the (pl_source_bitrate_kbps e)) ?ts)"
  let ?p = "?bs ! (length ?bs div 4)"
  have ten: "MIN_FAMILY_PLAYS \<le> length ?ts" and def: "sc_definition c = label_rule ''bitrate_kbps'' ''gt'' (PyInt (?p div 1000 * 1000)) ''warn'' ''bitrate-too-high''"
    using c by (auto simp: bitrate_ceiling_def Let_def split: if_splits)
  then have "length ?bs div 4 < length ?bs" by (simp add: MIN_FAMILY_PLAYS_def)
  then have "?p \<in> set ?bs" by (rule nth_mem)
  then obtain e where e: "e \<in> set ?ts" "?p = the (pl_source_bitrate_kbps e)" by auto
  then obtain b where b: "pl_source_bitrate_kbps e = Some b" "?p = b" "b > MIN_BITRATE_CEILING_KBPS" by (auto split: option.splits)
  moreover have "play_fits e" using e(1) fit by (auto simp: transcoded_def)
  ultimately have r: "b < 2 ^ 63" "b > 10000" by (auto simp: play_fits_def int64_ok_def MIN_BITRATE_CEILING_KBPS_def)
  then have "b div 1000 * 1000 \<le> b" "0 \<le> b div 1000 * 1000" by auto
  then have "int64_ok (Some (b div 1000 * 1000))" using r by (auto simp: int64_ok_def)
  then show ?thesis unfolding def b(2) by (rule bitrate_rule_sound)
qed

lemma candidates_sound:
  assumes fit: "\<forall>p\<in>set rows. play_fits p" and c: "c \<in> set (candidates env rows)"
  shows "sound_label (sc_definition c)"
proof -
  obtain h cs where h: "h \<in> set heuristics" "h env rows = Inr cs" "c \<in> set cs"
    using c by (auto simp: candidates_def split: sum.splits) metis
  consider (codec) cs where "high_transcode_codec env rows = Inr cs" "c \<in> set cs"
    | (bitrate) cs where "bitrate_ceiling env rows = Inr cs" "c \<in> set cs"
    | (container) cs where "container_compatibility env rows = Inr cs" "c \<in> set cs"
    | (resolution) cs where "resolution_mismatch env rows = Inr cs" "c \<in> set cs"
    | (failed) cs where "failed_playback env rows = Inr cs" "c \<in> set cs"
    using h by (auto simp: heuristics_def)
  then show ?thesis
  proof cases
    case codec
    then obtain k ps where "(k, ps) \<in> set (group_by codec_of rows)"
      "sc_definition c = label_rule ''video_codec'' ''eq'' (PyStr k) ''warn'' (''transcode-'' @ k)"
      by (auto simp: high_transcode_codec_def Let_def split: if_splits)
    then show ?thesis using codec_rule_sound [OF group_key_fits(1) [OF fit]] by metis
  next
    case bitrate
    then show ?thesis using bitrate_candidates_sound [OF fit] by blast
  next
    case container
    then obtain k ps where "(k, ps) \<in> set (group_by container_of rows)"
      "sc_definition c = label_rule ''container'' ''eq'' (PyStr k) ''warn'' (''container-'' @ k @ ''-unsupported'')"
      by (auto simp: container_compatibility_def split: if_splits)
    then show ?thesis using container_rule_sound [OF group_key_fits(2) [OF fit]] by metis
  next
    case resolution
    then obtain k ps where g: "(k, ps) \<in> set (group_by (\<lambda>p. class_for (pl_source_width p) (pl_source_height p)) rows)"
      "sc_definition c = label_rule ''width'' ''gte'' (PyInt (width_floor k)) ''warn'' (''hi-res-'' @ k)"
      by (auto simp: resolution_mismatch_def Let_def split: if_splits)
    moreover have "k \<in> {''4k'', ''1440p'', ''1080p'', ''720p'', ''sd''}"
      using group_by_mem [OF g(1)] by (auto simp: filter_empty_conv dest!: class_for_cases)
    ultimately show ?thesis using width_rule_sound by simp
  next
    case failed
    then show ?thesis
      by (auto simp: failed_playback_def Let_def bind_r_Inr_iff split: if_splits intro!: failed_rule_sound)
  qed
qed

text \<open>C24. Every rule the analyzer proposes, whatever was played, is accepted by the rule validator as it
  stands, and once deployed it evaluates without an exception on every file; a match can set a severity
  and add a tag but carries no deletion, notification, transcode, lookup or search.  (Two of the heuristics
  document that their rule queues an optimization; it does not.)\<close>

theorem suggested_rules_label:
  assumes "\<forall>p\<in>set rows. play_fits p" and "c \<in> set (candidates env rows)" and "input_ok i"
  shows "model_validate (sc_definition c) = Inr (sc_definition c)
    \<and> (\<exists>r. evaluate penv (sc_definition c) i = Inr r
         \<and> er_delete_paths r = [] \<and> er_notifications r = [] \<and> er_queue_optimizations r = []
         \<and> \<not> er_vt_lookup_requested r \<and> er_search_upstream_requests r = [])"
proof -
  obtain field op v severity tag where d: "sc_definition c = label_rule field op v severity tag"
    and s: "rule_safe penv (sc_definition c)"
    using candidates_sound [OF assms(1,2)] unfolding sound_label_def by metis
  have l: "list_all labels_only (rd_actions (sc_definition c))" by (simp add: d label_rule_def)
  have v: "model_validate (sc_definition c) = Inr (sc_definition c)" using s by (simp add: rule_safe_def valid_rule_def)
  show ?thesis using v evaluate_safe [OF s assms(3)] l by (auto simp: labels_only_fold empty_result_def)
qed

section \<open>The run\<close>

text \<open>What a run never changes of a suggestion.\<close>

definition settled :: "rule_suggestion \<Rightarrow> rule_suggestion" where
  "settled r = r\<lparr>sug_evidence := [], sug_files_affected := 0, sug_est_runtime_s := None, sug_confidence := Fin 0\<rparr>"

lemma settled_refresh [simp]: "settled (refresh_evidence c r) = settled r"
  by (simp add: settled_def refresh_evidence_def)

lemma settled_eqD: "settled x = settled r \<Longrightarrow> sug_dedup_key x = sug_dedup_key r \<and> sug_status x = sug_status r \<and> sug_dismissed_at x = sug_dismissed_at r"
  by (cases x, cases r) (simp add: settled_def)

lemma keys_settled: "map settled t' = map settled t \<Longrightarrow> map sug_dedup_key t' = map sug_dedup_key t"
proof -
  assume e: "map settled t' = map settled t"
  have "sug_dedup_key r = sug_dedup_key (settled r)" for r by (simp add: settled_def)
  then have "map sug_dedup_key u = map sug_dedup_key (map settled u)" for u by simp
  then show "map sug_dedup_key t' = map sug_dedup_key t" using e by metis
qed

text \<open>The rows of a key the run may not touch.\<close>

definition closed_key :: "int \<Rightarrow> rule_suggestion list \<Rightarrow> string \<Rightarrow> bool" where
  "closed_key now t key = (has_deployed key t \<or> has_recent_dismissal now key t)"

definition handled :: "analysis_outcome \<Rightarrow> nat" where
  "handled out = ao_suggestions_created out + ao_skipped_deduped out + ao_skipped_dismissed out + ao_skipped_deployed out"

text \<open>What a step of the loop, and the loop, does to the table.\<close>

definition merged :: "analyzer_env \<Rightarrow> suggestion_candidate list \<Rightarrow> analysis_outcome \<times> rule_suggestion list \<Rightarrow> analysis_outcome \<times> rule_suggestion list \<Rightarrow> bool" where
  "merged env cs ot ot' =
     (handled (fst ot') = handled (fst ot) + length cs
      \<and> ao_candidates_generated (fst ot') = ao_candidates_generated (fst ot)
      \<and> ao_examined_events_unresolved (fst ot') = ao_examined_events_unresolved (fst ot)
      \<and> (\<exists>new. map settled (snd ot') = map settled (snd ot) @ map settled new
           \<and> length new + ao_suggestions_created (fst ot) = ao_suggestions_created (fst ot')
           \<and> (\<forall>r\<in>set new. sug_status r = ''pending'' \<and> py_len (sug_dedup_key r) \<le> 256 \<and> sug_dedup_key r \<notin> sug_dedup_key ` set (snd ot)))
      \<and> unique_keys sug_dedup_key (snd ot')
      \<and> sug_dedup_key ` set (snd ot') = sug_dedup_key ` set (snd ot) \<union> sc_dedup_key ` set cs
      \<and> (\<forall>r\<in>set (snd ot). closed_key (ae_now env) (snd ot) (sug_dedup_key r) \<longrightarrow> r \<in> set (snd ot')))"

lemma refreshed_settled: "map settled (map (\<lambda>r. if sug_dedup_key r = k then refresh_evidence c r else r) t) = map settled t"
  by (induction t) auto

lemma persist_one_merged:
  assumes "unique_keys sug_dedup_key t" "persist_one env c (out, t) = Inr ot'"
  shows "merged env [c] (out, t) ot'"
proof -
  let ?k = "sc_dedup_key c"
  consider (deployed) "has_deployed ?k t" "ot' = (out\<lparr>ao_skipped_deployed := Suc (ao_skipped_deployed out)\<rparr>, t)"
    | (dismissed) "has_recent_dismissal (ae_now env) ?k t" "ot' = (out\<lparr>ao_skipped_dismissed := Suc (ao_skipped_dismissed out)\<rparr>, t)"
    | (dedup) "\<not> closed_key (ae_now env) t ?k" "get_by_dedup_key ?k t \<noteq> None"
        "ot' = (out\<lparr>ao_skipped_deduped := Suc (ao_skipped_deduped out)\<rparr>, map (\<lambda>r. if sug_dedup_key r = ?k then refresh_evidence c r else r) t)"
    | (new) t1 where "?k \<notin> sug_dedup_key ` set t" "add_suggestion (new_suggestion env (ao_suggestions_created out) c) t = Inr t1"
        "ot' = (out\<lparr>ao_suggestions_created := Suc (ao_suggestions_created out)\<rparr>, t1)"
    using assms(2) table_find_None_iff [of sug_dedup_key ?k t]
    by (auto simp: persist_one_def closed_key_def get_by_dedup_key_def bind_r_Inr_iff Let_def split: if_splits)
  then show ?thesis
  proof cases
    case deployed
    then have "?k \<in> sug_dedup_key ` set t" unfolding has_deployed_def by (metis image_eqI)
    then show ?thesis using assms(1) deployed(2) by (auto simp: merged_def handled_def)
  next
    case dismissed
    then have "?k \<in> sug_dedup_key ` set t" unfolding has_recent_dismissal_def by (metis image_eqI)
    then show ?thesis using assms(1) dismissed(2) by (auto simp: merged_def handled_def)
  next
    case dedup
    let ?t = "map (\<lambda>r. if sug_dedup_key r = ?k then refresh_evidence c r else r) t"
    have k: "map sug_dedup_key ?t = map sug_dedup_key t" by (rule keys_settled [OF refreshed_settled])
    then have "unique_keys sug_dedup_key ?t" "sug_dedup_key ` set ?t = sug_dedup_key ` set t"
      using assms(1) unfolding unique_keys_def by (metis, metis list.set_map)
    moreover have "?k \<in> sug_dedup_key ` set t"
      using dedup(2) table_find_None_iff [of sug_dedup_key ?k t] by (auto simp: get_by_dedup_key_def)
    moreover have "r \<in> set ?t" if "r \<in> set t" "closed_key (ae_now env) t (sug_dedup_key r)" for r
      using that dedup(1) by force
    ultimately show ?thesis using dedup(3) refreshed_settled [of ?k c t]
      by (simp add: merged_def handled_def insert_absorb del: map_map set_map)
  next
    case new
    then show ?thesis using assms(1)
      by (auto simp: merged_def handled_def add_suggestion_def new_suggestion_def unique_keys_def settled_def split: if_splits
          intro!: exI [of _ "[new_suggestion env (ao_suggestions_created out) c]"])
  qed
qed

lemma mergedE:
  assumes "merged env cs x y"
  obtains new where "map settled (snd y) = map settled (snd x) @ map settled new"
    "length new + ao_suggestions_created (fst x) = ao_suggestions_created (fst y)"
    "\<forall>r\<in>set new. sug_status r = ''pending'' \<and> py_len (sug_dedup_key r) \<le> 256 \<and> sug_dedup_key r \<notin> sug_dedup_key ` set (snd x)"
  using assms unfolding merged_def by (elim conjE exE) (rule that)

lemma mergedD:
  assumes "merged env cs (o1, t) (o2, u)"
  obtains new where "map settled u = map settled t @ map settled new"
    "length new + ao_suggestions_created o1 = ao_suggestions_created o2"
    "\<forall>r\<in>set new. sug_status r = ''pending'' \<and> py_len (sug_dedup_key r) \<le> 256 \<and> sug_dedup_key r \<notin> sug_dedup_key ` set t"
    "unique_keys sug_dedup_key u" "sug_dedup_key ` set u = sug_dedup_key ` set t \<union> sc_dedup_key ` set cs"
proof -
  obtain new where "map settled (snd (o2, u)) = map settled (snd (o1, t)) @ map settled new"
    "length new + ao_suggestions_created (fst (o1, t)) = ao_suggestions_created (fst (o2, u))"
    "\<forall>r\<in>set new. sug_status r = ''pending'' \<and> py_len (sug_dedup_key r) \<le> 256 \<and> sug_dedup_key r \<notin> sug_dedup_key ` set (snd (o1, t))"
    by (rule mergedE [OF assms])
  moreover have "unique_keys sug_dedup_key u" "sug_dedup_key ` set u = sug_dedup_key ` set t \<union> sc_dedup_key ` set cs"
    using assms by (simp_all add: merged_def)
  ultimately show thesis using that by simp
qed

lemma closed_settled:
  assumes "map settled t' = map settled t @ map settled new" "\<forall>r\<in>set new. sug_status r = ''pending''"
  shows "closed_key now t' k = closed_key now t k"
proof -
  have fields: "(\<exists>r\<in>set u. P (sug_dedup_key r) (sug_status r) (sug_dismissed_at r))
      = (\<exists>r\<in>settled ` set u. P (sug_dedup_key r) (sug_status r) (sug_dismissed_at r))" for u P
    by (simp add: settled_def)
  have same: "settled ` set t' = settled ` set (t @ new)" using assms(1) by (metis list.set_map map_append)
  have "(\<exists>r\<in>set t'. P (sug_dedup_key r) (sug_status r) (sug_dismissed_at r))
      = (\<exists>r\<in>set (t @ new). P (sug_dedup_key r) (sug_status r) (sug_dismissed_at r))" for P
    unfolding fields [of t'] fields [of "t @ new"] same ..
  from this [of "\<lambda>d s a. d = k \<and> s = ''deployed''"]
    this [of "\<lambda>d s a. d = k \<and> s = ''dismissed'' \<and> (case a of None \<Rightarrow> False | Some x \<Rightarrow> x \<ge> now - days DISMISS_STICKY_DAYS)"]
  show ?thesis using assms(2)
    by (auto simp: closed_key_def has_deployed_def has_recent_dismissal_def)
qed

lemma merged_trans:
  assumes "merged env cs x y" "merged env ds y z"
  shows "merged env (cs @ ds) x z"
proof -
  obtain n1 where n1: "map settled (snd y) = map settled (snd x) @ map settled n1"
    "length n1 + ao_suggestions_created (fst x) = ao_suggestions_created (fst y)"
    "\<forall>r\<in>set n1. sug_status r = ''pending'' \<and> py_len (sug_dedup_key r) \<le> 256 \<and> sug_dedup_key r \<notin> sug_dedup_key ` set (snd x)"
    by (rule mergedE [OF assms(1)])
  obtain n2 where n2: "map settled (snd z) = map settled (snd y) @ map settled n2"
    "length n2 + ao_suggestions_created (fst y) = ao_suggestions_created (fst z)"
    "\<forall>r\<in>set n2. sug_status r = ''pending'' \<and> py_len (sug_dedup_key r) \<le> 256 \<and> sug_dedup_key r \<notin> sug_dedup_key ` set (snd y)"
    by (rule mergedE [OF assms(2)])
  have k: "sug_dedup_key ` set (snd x) \<subseteq> sug_dedup_key ` set (snd y)" using assms(1) by (auto simp: merged_def)
  have "sug_dedup_key r \<notin> sug_dedup_key ` set (snd x)" if "r \<in> set n2" for r using n2(3) k that by blast
  then have new: "map settled (snd z) = map settled (snd x) @ map settled (n1 @ n2)
      \<and> length (n1 @ n2) + ao_suggestions_created (fst x) = ao_suggestions_created (fst z)
      \<and> (\<forall>r\<in>set (n1 @ n2). sug_status r = ''pending'' \<and> py_len (sug_dedup_key r) \<le> 256 \<and> sug_dedup_key r \<notin> sug_dedup_key ` set (snd x))"
    using n1 n2(1,2) n2(3) by (simp add: ball_Un) 
  have "closed_key now (snd y) j = closed_key now (snd x) j" for now j using closed_settled [OF n1(1)] n1(3) by blast
  then show ?thesis using assms new unfolding merged_def by (intro conjI exI [of _ "n1 @ n2"]) auto
qed

lemma persist_merged:
  "unique_keys sug_dedup_key (snd ot) \<Longrightarrow> persist env cs ot = Inr ot' \<Longrightarrow> merged env cs ot ot'"
proof (induction cs arbitrary: ot)
  case Nil
  then show ?case by (simp add: merged_def)
next
  case (Cons c cs)
  then obtain m where m: "persist_one env c ot = Inr m" "persist env cs m = Inr ot'" by (auto simp: bind_r_Inr_iff)
  have one: "merged env [c] ot m" using persist_one_merged [of "snd ot" env c "fst ot" m] Cons.prems(1) m(1) by simp
  then have "unique_keys sug_dedup_key (snd m)" by (simp add: merged_def)
  then show ?case using merged_trans [OF one Cons.IH [OF _ m(2)]] by simp
qed

definition rows_of :: "analyzer_env \<Rightarrow> playback_session list \<Rightarrow> playback_event list \<Rightarrow> play list" where
  "rows_of env ss es = map play_of_session (session_rows env ss) @ map play_of_event (event_rows env es)"

lemma analyze_cases:
  assumes "unique_keys sug_dedup_key t"
  obtains (few) "length (rows_of env ss es) < MIN_EVENTS_TOTAL"
      "analyze env ss es t = (Inr (first_outcome (total_in_window env ss es) (length (rows_of env ss es))\<lparr>ao_skipped_too_few_events := True\<rparr>), t)"
    | (failed) e where "analyze env ss es t = (Inl e, t)"
    | (run) out t' where "analyze env ss es t = (Inr out, t')" "MIN_EVENTS_TOTAL \<le> length (rows_of env ss es)"
        "merged env (candidates env (rows_of env ss es))
           (first_outcome (total_in_window env ss es) (length (rows_of env ss es))
              \<lparr>ao_candidates_generated := length (candidates env (rows_of env ss es))\<rparr>, t) (out, t')"
proof -
  let ?r = "rows_of env ss es"
  let ?o = "first_outcome (total_in_window env ss es) (length ?r)\<lparr>ao_candidates_generated := length (candidates env ?r)\<rparr>"
  consider "length ?r < MIN_EVENTS_TOTAL" | e where "MIN_EVENTS_TOTAL \<le> length ?r" "persist env (candidates env ?r) (?o, t) = Inl e"
    | out t' where "MIN_EVENTS_TOTAL \<le> length ?r" "persist env (candidates env ?r) (?o, t) = Inr (out, t')"
    by (metis not_le obj_sumE surj_pair)
  then show thesis
  proof cases
    case 1
    then show ?thesis using few by (simp add: analyze_def rows_of_def)
  next
    case 2
    then show ?thesis using failed by (simp add: analyze_def rows_of_def not_less)
  next
    case 3
    then have "merged env (candidates env ?r) (?o, t) (out, t')" using persist_merged [OF _ 3(2)] assms by simp
    then show ?thesis using run 3 by (simp add: analyze_def rows_of_def not_less)
  qed
qed

text \<open>C25. A run accounts for every proposal: each is created, merged into the row that has its key, or
  skipped because that key was deployed or recently dismissed, and afterwards each has exactly one row.
  Rows that existed keep all but their evidence and counters, those of deployed and recently dismissed
  keys keep everything, and only new rows are added, pending and under new keys.  So a key whose dismissal is
  older than the thirty days after which it is documented to be revisited stays dismissed.  A run that raises
  changes nothing.\<close>

theorem analyze_accounts:
  assumes "unique_keys sug_dedup_key t" and "analyze env ss es t = (res, t')"
  shows "unique_keys sug_dedup_key t'
    \<and> (case res of Inl _ \<Rightarrow> t' = t
       | Inr out \<Rightarrow>
           ao_suggestions_created out + ao_skipped_deduped out + ao_skipped_dismissed out + ao_skipped_deployed out
             = ao_candidates_generated out
           \<and> (\<not> ao_skipped_too_few_events out \<longrightarrow> ao_candidates_generated out = length (candidates env (rows_of env ss es))
                \<and> sug_dedup_key ` set t' = sug_dedup_key ` set t \<union> sc_dedup_key ` set (candidates env (rows_of env ss es)))
           \<and> (\<exists>new. map settled t' = map settled t @ map settled new \<and> length new = ao_suggestions_created out
                \<and> (\<forall>r\<in>set new. sug_status r = ''pending'' \<and> sug_dedup_key r \<notin> sug_dedup_key ` set t))
           \<and> (\<forall>r\<in>set t. closed_key (ae_now env) t (sug_dedup_key r) \<longrightarrow> r \<in> set t'))"
proof (rule analyze_cases [OF assms(1), where env = env and ss = ss and es = es])
  assume "length (rows_of env ss es) < MIN_EVENTS_TOTAL"
    "analyze env ss es t = (Inr (first_outcome (total_in_window env ss es) (length (rows_of env ss es))\<lparr>ao_skipped_too_few_events := True\<rparr>), t)"
  then show ?thesis using assms by (auto simp: first_outcome_def)
next
  fix e assume "analyze env ss es t = (Inl e, t)"
  then show ?thesis using assms by auto
next
  fix out u
  let ?cs = "candidates env (rows_of env ss es)"
  assume a: "analyze env ss es t = (Inr out, u)"
    and m: "merged env ?cs (first_outcome (total_in_window env ss es) (length (rows_of env ss es))\<lparr>ao_candidates_generated := length ?cs\<rparr>, t) (out, u)"
  then have e: "res = Inr out" "t' = u" using assms(2) by auto
  have ex: "\<exists>new. map settled u = map settled t @ map settled new \<and> length new = ao_suggestions_created out
      \<and> (\<forall>r\<in>set new. sug_status r = ''pending'' \<and> sug_dedup_key r \<notin> sug_dedup_key ` set t)"
    by (rule mergedD [OF m]) (auto simp: first_outcome_def)
  have rest: "handled out = length ?cs" "ao_candidates_generated out = length ?cs" "unique_keys sug_dedup_key u"
    "sug_dedup_key ` set u = sug_dedup_key ` set t \<union> sc_dedup_key ` set ?cs"
    "\<forall>r\<in>set t. closed_key (ae_now env) t (sug_dedup_key r) \<longrightarrow> r \<in> set u"
    using m unfolding merged_def handled_def by (simp_all only: fst_conv snd_conv) (simp_all add: first_outcome_def)
  show ?thesis unfolding e using ex rest by (simp add: handled_def)
qed

section \<open>Where the run departs from its documentation\<close>

lemma analyze_settled:
  assumes "unique_keys sug_dedup_key t"
  shows "unique_keys sug_dedup_key (snd (analyze env ss es t))
    \<and> (\<exists>new. map settled (snd (analyze env ss es t)) = map settled t @ map settled new
         \<and> (\<forall>r\<in>set new. sug_dedup_key r \<notin> sug_dedup_key ` set t))"
proof -
  obtain res t' where a: "analyze env ss es t = (res, t')" by (cases "analyze env ss es t")
  show ?thesis
  proof (rule analyze_cases [OF assms, where env = env and ss = ss and es = es])
    fix out u
    assume r: "analyze env ss es t = (Inr out, u)"
      and m: "merged env (candidates env (rows_of env ss es)) (first_outcome (total_in_window env ss es) (length (rows_of env ss es))
          \<lparr>ao_candidates_generated := length (candidates env (rows_of env ss es))\<rparr>, t) (out, u)"
    show ?thesis unfolding r snd_conv by (rule mergedD [OF m]) blast
  qed (use assms in auto)
qed

definition runs :: "(analyzer_env \<times> playback_session list \<times> playback_event list) list \<Rightarrow> rule_suggestion list \<Rightarrow> rule_suggestion list" where
  "runs rs t = fold (\<lambda>(env, ss, es) t. snd (analyze env ss es t)) rs t"

lemma runs_settled:
  assumes "unique_keys sug_dedup_key t" "r \<in> set t"
  shows "unique_keys sug_dedup_key (runs rs t) \<and> (\<exists>x\<in>set (runs rs t). settled x = settled r)"
  using assms
proof (induction rs arbitrary: t r)
  case (Cons e rs)
  obtain env ss es where e: "e = (env, ss, es)" by (cases e)
  let ?u = "snd (analyze env ss es t)"
  obtain new where u: "unique_keys sug_dedup_key ?u" "map settled ?u = map settled t @ map settled new"
    using analyze_settled [OF Cons.prems(1), of env ss es] by blast
  have "settled r \<in> settled ` set ?u" using u(2) Cons.prems(2) by (metis Un_iff image_eqI list.set_map set_append)
  then obtain x where x: "x \<in> set ?u" "settled x = settled r" by auto
  show ?case using Cons.IH [OF u(1) x(1)] x(2) by (simp add: runs_def e)
qed (auto simp: runs_def)

text \<open>A dismissed pattern is never suggested again: after any number of runs, at any times and over any
  plays, no pending suggestion has its key, since the row of the dismissed suggestion keeps its status and
  the key is unique.  The thirty days after which a pattern is meant to be reconsidered do not end.\<close>

theorem dismissed_never_returns:
  assumes "unique_keys sug_dedup_key t" "r \<in> set t" "sug_status r = ''dismissed''"
  shows "sug_dedup_key r \<notin> sug_dedup_key ` set (list_pending (runs rs t))"
proof
  assume "sug_dedup_key r \<in> sug_dedup_key ` set (list_pending (runs rs t))"
  then obtain x where x: "x \<in> set (list_pending (runs rs t))" "sug_dedup_key x = sug_dedup_key r" by auto
  obtain y where y: "unique_keys sug_dedup_key (runs rs t)" "y \<in> set (runs rs t)" "settled y = settled r"
    using runs_settled [OF assms(1,2)] by blast
  then have k: "sug_dedup_key y = sug_dedup_key r" "sug_status y = ''dismissed''" using settled_eqD [OF y(3)] assms(3) by simp_all
  have p: "x \<in> set (runs rs t)" "sug_status x = ''pending''" using x(1) by (simp_all add: list_pending_def)
  have "table_find sug_dedup_key (sug_dedup_key r) (runs rs t) = Some x" using p(1) x(2) y(1) by (simp add: table_find_Some_iff)
  moreover have "table_find sug_dedup_key (sug_dedup_key r) (runs rs t) = Some y" using y(1,2) k(1) by (simp add: table_find_Some_iff)
  ultimately have "x = y" by simp
  then show False using p(2) k(2) by simp
qed

text \<open>A play that both the live tracker and the history recorded is counted as unresolved: when every
  row of the window has its file, the run still reports as many unresolved plays as there are reconciled
  events, since the total counts both rows and the examined plays only one.\<close>

theorem reconciled_counted_unresolved:
  assumes "unique_keys sug_dedup_key t" "analyze env ss es t = (Inr out, t')"
    "\<forall>r\<in>set ss. si_media_file_id (ps_info r) \<noteq> None" "\<forall>e\<in>set es. pe_media_file_id e \<noteq> None"
  shows "ao_examined_events_unresolved out =
    length (filter (\<lambda>e. pe_started_at e \<ge> cutoff env \<and> pe_reconciled_with_session_id e \<noteq> None) es)"
proof -
  have parts: "length (filter P xs) = length (filter (\<lambda>x. P x \<and> Q x) xs) + length (filter (\<lambda>x. P x \<and> \<not> Q x) xs)" for P Q and xs :: "playback_event list"
    by (induction xs) auto
  have ev: "event_rows env es = filter (\<lambda>e. pe_started_at e \<ge> cutoff env \<and> pe_reconciled_with_session_id e = None) es"
    unfolding event_rows_def using assms(4) by (intro filter_cong) auto
  have se: "session_rows env ss = filter (\<lambda>r. ps_started_at r \<ge> cutoff env \<and> ps_state r = ''stopped'') ss"
    unfolding session_rows_def using assms(3) by (intro filter_cong) auto
  have un: "total_in_window env ss es - length (rows_of env ss es) =
      length (filter (\<lambda>e. pe_started_at e \<ge> cutoff env \<and> pe_reconciled_with_session_id e \<noteq> None) es)"
    using parts [where P = "\<lambda>e. pe_started_at e \<ge> cutoff env" and Q = "\<lambda>e. pe_reconciled_with_session_id e = None" and xs = es]
    by (simp add: total_in_window_def rows_of_def ev se)
  have "ao_examined_events_unresolved out = total_in_window env ss es - length (rows_of env ss es)"
  proof (rule analyze_cases [OF assms(1), where env = env and ss = ss and es = es])
    fix o1 u
    assume r: "analyze env ss es t = (Inr o1, u)"
      and m: "merged env (candidates env (rows_of env ss es)) (first_outcome (total_in_window env ss es) (length (rows_of env ss es))
          \<lparr>ao_candidates_generated := length (candidates env (rows_of env ss es))\<rparr>, t) (o1, u)"
    then show ?thesis using assms(2) by (simp add: merged_def first_outcome_def)
  qed (use assms(2) in \<open>auto simp: first_outcome_def\<close>)
  then show ?thesis using un by simp
qed

lemma join_with_len: "xs \<noteq> [] \<Longrightarrow> \<forall>x\<in>set xs. py_len x = n \<Longrightarrow> py_len (join_with '','' xs) = n * length xs + (length xs - 1)"
proof (induction xs rule: induct_list012)
  case (3 x y zs)
  then show ?case by (simp add: py_len_Cons)
qed simp_all

lemma failed_key_wide:
  assumes "7 \<le> length ids" "\<forall>i\<in>set ids. py_len i = 36"
  shows "256 < py_len (failed_key ids)"
proof -
  let ?xs = "take 10 (sort ids)"
  have n: "7 \<le> length ?xs" "\<forall>x\<in>set ?xs. py_len x = 36" using assms by (auto dest: in_set_takeD)
  have "?xs \<noteq> []" using n(1) by (metis list.size(3) not_numeral_le_zero)
  from join_with_len [OF this n(2)] have "py_len (join_with '','' ?xs) \<ge> 258" using n(1) by linarith
  then show ?thesis by (simp add: failed_key_def py_len_Cons)
qed

text \<open>A cluster of seven or more failed files aborts the whole run: the key of its suggestion joins up to
  ten file identifiers of 36 characters and is wider than its column, so the insert raises and the
  suggestions of every other heuristic of the run are rolled back with it.\<close>

theorem failed_cluster_aborts_run:
  assumes "unique_keys sug_dedup_key t" "MIN_EVENTS_TOTAL \<le> length (rows_of env ss es)"
    "c \<in> set (candidates env (rows_of env ss es))" "sc_dedup_key c = failed_key ids"
    "7 \<le> length ids" "\<forall>i\<in>set ids. py_len i = 36" "failed_key ids \<notin> sug_dedup_key ` set t"
  shows "\<exists>e. analyze env ss es t = (Inl e, t)"
proof (rule analyze_cases [OF assms(1), where env = env and ss = ss and es = es])
  fix out u
  assume m: "merged env (candidates env (rows_of env ss es)) (first_outcome (total_in_window env ss es) (length (rows_of env ss es))
          \<lparr>ao_candidates_generated := length (candidates env (rows_of env ss es))\<rparr>, t) (out, u)"
  obtain new where new: "map settled u = map settled t @ map settled new" "\<forall>r\<in>set new. py_len (sug_dedup_key r) \<le> 256"
    and k: "sug_dedup_key ` set u = sug_dedup_key ` set t \<union> sc_dedup_key ` set (candidates env (rows_of env ss es))"
    by (rule mergedD [OF m]) blast
  have "failed_key ids \<in> sug_dedup_key ` set u" using k assms(3,4) by (metis UnCI image_eqI)
  moreover have "sug_dedup_key ` set u = sug_dedup_key ` (set t \<union> set new)"
    using keys_settled [of u "t @ new"] new(1) by (metis list.set_map map_append set_append)
  ultimately obtain r where "r \<in> set new" "sug_dedup_key r = failed_key ids" using assms(7) by auto
  then show ?thesis using new(2) failed_key_wide [OF assms(5,6)] by fastforce
qed (use assms(2) in auto)

section \<open>Witnesses\<close>

definition hevc_play :: "string \<Rightarrow> playback_event" where
  "hevc_play u = \<lparr>pe_integration_id = ''i'', pe_media_file_id = Some ''m1'', pe_source_path = ''/tv/a.mkv'', pe_device_kind = Some ''Roku'',
     pe_device_name = None, pe_decision = ''transcode'', pe_reason_code = None, pe_source_codec = Some ''hevc'',
     pe_source_bitrate_kbps = Some 8000, pe_source_width = Some 1920, pe_source_height = Some 1080, pe_source_container = Some ''mkv'',
     pe_target_codec = None, pe_target_bitrate_kbps = None, pe_started_at = 0, pe_completed_at = None, pe_duration_s = None,
     pe_upstream_id = u, pe_reconciled_with_session_id = None\<rparr>"

definition failed_play :: "char \<Rightarrow> playback_event" where
  "failed_play c = (hevc_play [c])\<lparr>pe_decision := ''failed'', pe_media_file_id := Some (replicate 36 c)\<rparr>"

definition sample_analyzer :: analyzer_env where
  "sample_analyzer = \<lparr>ae_now = 1000, ae_rate = (\<lambda>_ _. Fin 1), ae_confidence = (\<lambda>_ _ _. Fin (7 / 10)), ae_new_id = (\<lambda>k. ''s'' @ str_nat k)\<rparr>"

definition hevc_plays :: "playback_event list" where
  "hevc_plays = replicate 20 (hevc_play ''e'')"

definition dismissed_row :: rule_suggestion where
  "dismissed_row = (new_suggestion sample_analyzer 0 (hd (candidates sample_analyzer (map play_of_event hevc_plays))))
     \<lparr>sug_status := ''dismissed'', sug_dismissed_at := Some (- days 60)\<rparr>"

theorem suggested_rules_label_witness:
  "model_validate (sc_definition (hd (candidates sample_analyzer (map play_of_event hevc_plays))))
     = Inr (sc_definition (hd (candidates sample_analyzer (map play_of_event hevc_plays))))"
proof -
  have f: "\<forall>p\<in>set (map play_of_event hevc_plays). play_fits p" by code_simp
  have "candidates sample_analyzer (map play_of_event hevc_plays) \<noteq> []" by code_simp
  then have c: "hd (candidates sample_analyzer (map play_of_event hevc_plays)) \<in> set (candidates sample_analyzer (map play_of_event hevc_plays))" by simp
  have i: "input_ok wide_input" by (simp add: input_ok_def int64_ok_def wide_input_def)
  show ?thesis using suggested_rules_label [OF f c i] by blast
qed

theorem analyze_accounts_witness:
  "unique_keys sug_dedup_key (snd (analyze sample_analyzer [] hevc_plays []))"
  using analyze_accounts [of "[]" sample_analyzer "[]" hevc_plays] by (simp add: unique_keys_def prod_eq_iff)

theorem dismissed_never_returns_witness:
  "sug_dedup_key dismissed_row \<notin> sug_dedup_key ` set (list_pending (runs [(sample_analyzer, [], hevc_plays)] [dismissed_row]))"
  by (rule dismissed_never_returns) (simp_all add: unique_keys_def dismissed_row_def)

theorem reconciled_counted_unresolved_witness:
  "\<exists>out t'. analyze sample_analyzer [] [(hevc_play ''e'')\<lparr>pe_reconciled_with_session_id := Some ''s''\<rparr>] [] = (Inr out, t')
     \<and> ao_examined_events_unresolved out = 1"
proof -
  let ?e = "(hevc_play ''e'')\<lparr>pe_reconciled_with_session_id := Some ''s''\<rparr>"
  have "\<exists>out. analyze sample_analyzer [] [?e] [] = (Inr out, [])" by (simp add: analyze_def event_rows_def session_rows_def MIN_EVENTS_TOTAL_def)
  then obtain out where a: "analyze sample_analyzer [] [?e] [] = (Inr out, [])" ..
  have "ao_examined_events_unresolved out = length (filter (\<lambda>e. pe_started_at e \<ge> cutoff sample_analyzer \<and> pe_reconciled_with_session_id e \<noteq> None) [?e])"
    by (rule reconciled_counted_unresolved [OF _ a]) (simp_all add: unique_keys_def hevc_play_def)
  then show ?thesis using a by (simp add: hevc_play_def cutoff_def sample_analyzer_def days_def ANALYSIS_WINDOW_DAYS_def)
qed

theorem failed_cluster_aborts_run_witness:
  "\<exists>e. analyze sample_analyzer [] (replicate 13 (hevc_play ''e'') @ map failed_play ''abcdefg'') [] = (Inl e, [])"
proof -
  let ?es = "replicate 13 (hevc_play ''e'') @ map failed_play ''abcdefg''"
  let ?ids = "map (replicate 36) ''abcdefg''"
  have n: "MIN_EVENTS_TOTAL \<le> length (rows_of sample_analyzer [] ?es)" by code_simp
  have "\<exists>c\<in>set (candidates sample_analyzer (rows_of sample_analyzer [] ?es)). sc_dedup_key c = failed_key ?ids" by code_simp
  then obtain c where c: "c \<in> set (candidates sample_analyzer (rows_of sample_analyzer [] ?es))" "sc_dedup_key c = failed_key ?ids" ..
  have w: "\<forall>i\<in>set ?ids. py_len i = 36" by code_simp
  show ?thesis by (rule failed_cluster_aborts_run [OF _ n c _ w]) (simp_all add: unique_keys_def)
qed

end
