(* ===== verification/RulesApi.thy ===== *)
theory RulesApi
  imports Analyzer RulesService
begin

text \<open>
  The endpoints of rules (\<open>app/api/v1/rules.py\<close>, bodies in \<open>app/schemas/rules.py\<close>): create, read,
  update, delete, duplicate, export and import of rules, and the deployment and dismissal of suggestions.
  A request runs in one transaction, so an exception leaves the state as it was.  Parameters
  (\<open>rules_env\<close>): the clock, its short text and new identifiers.  The definition of a body is \<open>None\<close>
  where it is not of the shape of a rule.  Columns have the width the models declare.
\<close>

section \<open>State and bodies\<close>

record rules_env =
  rq_new_id :: "nat \<Rightarrow> string"
  rq_now :: int
  rq_now_short :: string

record rules_db =
  rq_store :: store
  rq_suggestions :: "rule_suggestion list"

record rule_body =
  rb_name :: string
  rb_description :: "string option"
  rb_enabled :: bool
  rb_priority :: int
  rb_definition :: "rule_definition option"

record rule_patch =
  rp_name :: "string option"
  rp_description :: "string option"
  rp_enabled :: "bool option"
  rp_priority :: "int option"
  rp_definition :: "rule_definition option option"

definition opt_all :: "('a \<Rightarrow> bool) \<Rightarrow> 'a option \<Rightarrow> bool" where
  "opt_all P x = (case x of None \<Rightarrow> True | Some v \<Rightarrow> P v)"

definition name_ok :: "string \<Rightarrow> bool" where "name_ok s = (1 \<le> py_len s \<and> py_len s \<le> 120)"
definition priority_ok :: "int \<Rightarrow> bool" where "priority_ok n = (0 \<le> n \<and> n \<le> 10000)"

definition rule_create_ok :: "rule_body \<Rightarrow> bool" where
  "rule_create_ok b = (name_ok (rb_name b) \<and> opt_all (\<lambda>d. py_len d \<le> 2000) (rb_description b) \<and> priority_ok (rb_priority b))"

definition rule_update_ok :: "rule_patch \<Rightarrow> bool" where
  "rule_update_ok b = (opt_all name_ok (rp_name b) \<and> opt_all (\<lambda>d. py_len d \<le> 2000) (rp_description b) \<and> opt_all priority_ok (rp_priority b))"

definition export_entry_ok :: "rule_body \<Rightarrow> bool" where
  "export_entry_ok b = (name_ok (rb_name b) \<and> priority_ok (rb_priority b))"

definition bad_request :: "'a result" where
  "bad_request = Inl (ValidationError ''Request validation failed'')"

text \<open>The session of a request: committed with the answer, rolled back on an exception.\<close>

definition in_transaction :: "rules_db \<Rightarrow> ('a \<times> rules_db) result \<Rightarrow> 'a result \<times> rules_db" where
  "in_transaction s m = (case m of Inl e \<Rightarrow> (Inl e, s) | Inr (x, s1) \<Rightarrow> (Inr x, s1))"

text \<open>\<open>_validate_definition\<close> catches pydantic's error only.\<close>

definition check_definition :: "rule_definition option \<Rightarrow> rule_definition result" where
  "check_definition d =
     (case d of
        None \<Rightarrow> Inl (ValidationError ''Rule definition is invalid'')
      | Some r \<Rightarrow> (case model_validate r of
          Inl (ValidationError _) \<Rightarrow> Inl (ValidationError ''Rule definition is invalid'')
        | res \<Rightarrow> res))"

section \<open>The repository\<close>

definition rules_of :: "rules_db \<Rightarrow> rule list" where
  "rules_of s = st_rules (rq_store s)"

definition get_rule_row :: "string \<Rightarrow> rules_db \<Rightarrow> rule option" where
  "get_rule_row i s = table_find ru_id i (rules_of s)"

definition get_by_name :: "string \<Rightarrow> rules_db \<Rightarrow> rule option" where
  "get_by_name n s = table_find ru_name n (rules_of s)"

definition put_rules :: "rule list \<Rightarrow> rules_db \<Rightarrow> rules_db" where
  "put_rules rs s = s\<lparr>rq_store := (rq_store s)\<lparr>st_rules := rs\<rparr>\<rparr>"

text \<open>The insert: names are unique and 120 characters wide.\<close>

definition add_rule :: "rule \<Rightarrow> rules_db \<Rightarrow> rules_db result" where
  "add_rule r s =
     (if py_len (ru_name r) > 120 then Inl (RuntimeError ''DataError'')
      else if get_by_name (ru_name r) s \<noteq> None \<or> get_rule_row (ru_id r) s \<noteq> None then Inl IntegrityError
      else Inr (put_rules (rules_of s @ [r]) s))"

definition new_rule :: "string \<Rightarrow> string \<Rightarrow> rule_body \<Rightarrow> rule" where
  "new_rule i name b =
     \<lparr>ru_id = i, ru_name = name, ru_description = rb_description b, ru_enabled = rb_enabled b, ru_priority = rb_priority b,
      ru_definition = rb_definition b, ru_is_builtin = False, ru_last_evaluated_at = None, ru_last_match_count = 0\<rparr>"

definition list_all_rules :: "rules_db \<Rightarrow> rule list" where
  "list_all_rules s = sort_key ru_priority (sort_key ru_name (rules_of s))"

section \<open>Rules\<close>

definition list_rules :: "bool option \<Rightarrow> rules_db \<Rightarrow> rule list" where
  "list_rules is_builtin s = filter (\<lambda>r. opt_all (\<lambda>b. ru_is_builtin r = b) is_builtin) (list_all_rules s)"

definition create_rule :: "rules_env \<Rightarrow> rule_body \<Rightarrow> rules_db \<Rightarrow> rule result \<times> rules_db" where
  "create_rule env b s =
     in_transaction s
       (if \<not> rule_create_ok b then bad_request
        else bind_r (check_definition (rb_definition b)) (\<lambda>_.
          if get_by_name (rb_name b) s \<noteq> None then Inl (ConflictError ''A rule with that name already exists'')
          else let r = new_rule (rq_new_id env 0) (rb_name b) b in bind_r (add_rule r s) (\<lambda>s1. Inr (r, s1))))"

definition get_rule :: "string \<Rightarrow> rules_db \<Rightarrow> rule result" where
  "get_rule i s = (case get_rule_row i s of None \<Rightarrow> Inl (NotFoundError ''Rule not found'') | Some r \<Rightarrow> Inr r)"

definition forbidden_fields :: "rule_patch \<Rightarrow> rule \<Rightarrow> string list" where
  "forbidden_fields b r =
     (if \<not> opt_all (\<lambda>n. n = ru_name r) (rp_name b) then [''name''] else [])
     @ (if \<not> opt_all (\<lambda>d. Some d = ru_description r) (rp_description b) then [''description''] else [])
     @ (if rp_definition b \<noteq> None then [''definition''] else [])"

definition or_keep :: "'a option \<Rightarrow> 'a \<Rightarrow> 'a" where
  "or_keep new old = (case new of None \<Rightarrow> old | Some v \<Rightarrow> v)"

definition patched :: "rule_patch \<Rightarrow> rule \<Rightarrow> rule" where
  "patched b r = r\<lparr>ru_definition := or_keep (rp_definition b) (ru_definition r), ru_name := or_keep (rp_name b) (ru_name r),
     ru_description := (case rp_description b of None \<Rightarrow> ru_description r | Some d \<Rightarrow> Some d),
     ru_enabled := or_keep (rp_enabled b) (ru_enabled r), ru_priority := or_keep (rp_priority b) (ru_priority r)\<rparr>"

text \<open>The flush of a changed row checks the width and the uniqueness of its name.\<close>

definition flush_rule :: "rule \<Rightarrow> rules_db \<Rightarrow> rules_db result" where
  "flush_rule r s =
     (if py_len (ru_name r) > 120 then Inl (RuntimeError ''DataError'')
      else if \<exists>x\<in>set (rules_of s). ru_id x \<noteq> ru_id r \<and> ru_name x = ru_name r then Inl IntegrityError
      else Inr (put_rules (map (\<lambda>x. if ru_id x = ru_id r then r else x) (rules_of s)) s))"

definition update_rule :: "string \<Rightarrow> rule_patch \<Rightarrow> rules_db \<Rightarrow> rule result \<times> rules_db" where
  "update_rule i b s =
     in_transaction s
           (if \<not> rule_update_ok b then bad_request
            else case get_rule_row i s of
              None \<Rightarrow> Inl (NotFoundError ''Rule not found'')
            | Some r \<Rightarrow>
                if ru_is_builtin r \<and> forbidden_fields b r \<noteq> []
                then Inl (ValidationError (''Cannot edit built-in rule fields: '' @ join_with '', '' (forbidden_fields b r)
                       @ ''. Duplicate the rule to create a writable custom copy.''))
                else bind_r (case rp_definition b of None \<Rightarrow> Inr () | Some d \<Rightarrow> bind_r (check_definition d) (\<lambda>_. Inr ())) (\<lambda>_.
                  bind_r (flush_rule (patched b r) s) (\<lambda>s1. Inr (patched b r, s1))))"

text \<open>The delete: evaluations and notification windows go with the rule, queue items and suggestions lose
  their reference to it.\<close>

definition drop_rule :: "string \<Rightarrow> rules_db \<Rightarrow> rules_db" where
  "drop_rule i s =
     s\<lparr>rq_store := (rq_store s)
         \<lparr>st_rules := filter (\<lambda>r. ru_id r \<noteq> i) (rules_of s),
          st_evals := filter (\<lambda>e. re_rule_id e \<noteq> i) (st_evals (rq_store s)),
          st_windows := filter (\<lambda>w. nw_rule_id w \<noteq> i) (st_windows (rq_store s)),
          st_opt := map (\<lambda>q. if oi_queued_by_rule_id q = Some i then q\<lparr>oi_queued_by_rule_id := None\<rparr> else q) (st_opt (rq_store s))\<rparr>,
       rq_suggestions := map (\<lambda>g. if sug_deployed_rule_id g = Some i then g\<lparr>sug_deployed_rule_id := None\<rparr> else g) (rq_suggestions s)\<rparr>"

definition delete_rule :: "string \<Rightarrow> rules_db \<Rightarrow> unit result \<times> rules_db" where
  "delete_rule i s =
     (case get_rule_row i s of
        None \<Rightarrow> (Inl (NotFoundError ''Rule not found''), s)
      | Some r \<Rightarrow>
          if ru_is_builtin r then (Inl (ValidationError ''Cannot delete a built-in rule. Disable it instead.''), s)
          else (Inr (), drop_rule i s))"

definition first_free :: "(string \<Rightarrow> bool) \<Rightarrow> string list \<Rightarrow> string \<Rightarrow> string" where
  "first_free taken cs fallback = (case find (\<lambda>c. \<not> taken c) cs of None \<Rightarrow> fallback | Some c \<Rightarrow> c)"

definition suffixed :: "string \<Rightarrow> string \<Rightarrow> string" where
  "suffixed base suf = base @ '' ('' @ suf @ '')''"

text \<open>The copies \<open>2\<close> to \<open>99\<close> are tried before the time of day.\<close>

definition copy_name :: "rules_env \<Rightarrow> string \<Rightarrow> rules_db \<Rightarrow> string" where
  "copy_name env base s =
     first_free (\<lambda>c. get_by_name c s \<noteq> None)
       (suffixed base ''copy'' # map (\<lambda>n. suffixed base (''copy '' @ str_int (int n))) [2..<100])
       (suffixed base (''copy '' @ rq_now_short env))"

definition copy_body :: "rule \<Rightarrow> rule_body" where
  "copy_body r = \<lparr>rb_name = ru_name r, rb_description = ru_description r, rb_enabled = False, rb_priority = ru_priority r,
     rb_definition = ru_definition r\<rparr>"

definition duplicate_rule :: "rules_env \<Rightarrow> string \<Rightarrow> rules_db \<Rightarrow> rule result \<times> rules_db" where
  "duplicate_rule env i s =
     in_transaction s (case get_rule_row i s of
        None \<Rightarrow> Inl (NotFoundError ''Rule not found'')
      | Some r \<Rightarrow>
          (let c = new_rule (rq_new_id env 0) (copy_name env (ru_name r) s) (copy_body r) in
           bind_r (add_rule c s) (\<lambda>s1. Inr (c, s1))))"

definition dry_run :: "pyenv \<Rightarrow> rule_definition option \<Rightarrow> string \<Rightarrow> rules_db \<Rightarrow> eval_result result" where
  "dry_run env d media_id s =
     bind_r (check_definition d) (\<lambda>def.
       case table_find mf_id media_id (st_media (rq_store s)) of
         None \<Rightarrow> Inl (NotFoundError ''Media file not found'')
       | Some m \<Rightarrow> evaluate env def (build_input m (rq_store s)))"

section \<open>Bundles\<close>

definition export_entry :: "rule \<Rightarrow> rule_body" where
  "export_entry r = \<lparr>rb_name = ru_name r, rb_description = ru_description r, rb_enabled = ru_enabled r, rb_priority = ru_priority r,
     rb_definition = ru_definition r\<rparr>"

record rule_bundle =
  bu_version :: string
  bu_exported_at :: int
  bu_rules :: "rule_body list"

text \<open>The entries are checked as they are built; \<open>now\<close> is the clock.\<close>

definition export_rules :: "int \<Rightarrow> bool \<Rightarrow> rules_db \<Rightarrow> rule_bundle result" where
  "export_rules now include_builtins s =
     (let es = map export_entry (if include_builtins then list_all_rules s else filter (\<lambda>r. \<not> ru_is_builtin r) (list_all_rules s)) in
      if list_all export_entry_ok es then Inr \<lparr>bu_version = ''1'', bu_exported_at = now, bu_rules = es\<rparr> else Inl (RuntimeError ''ValidationError''))"

record import_outcome =
  io_name :: string
  io_final_name :: string
  io_action :: string
  io_rule_id :: "string option"
  io_error :: "string option"

record import_acc =
  ia_db :: rules_db
  ia_minted :: "string list"
  ia_ids :: nat
  ia_outcomes :: "import_outcome list"
  ia_created :: nat
  ia_skipped :: nat
  ia_renamed :: nat
  ia_overwritten :: nat
  ia_errors :: nat

definition report_entry :: "string \<Rightarrow> string \<Rightarrow> string \<Rightarrow> string option \<Rightarrow> string option \<Rightarrow> import_acc \<Rightarrow> import_acc" where
  "report_entry name final what rid err a = a\<lparr>ia_outcomes := ia_outcomes a @
     [\<lparr>io_name = name, io_final_name = final, io_action = what, io_rule_id = rid, io_error = err\<rparr>]\<rparr>"

definition next_available_name :: "rules_env \<Rightarrow> string \<Rightarrow> string list \<Rightarrow> rules_db \<Rightarrow> string" where
  "next_available_name env base minted s =
     first_free (\<lambda>c. c \<in> set minted \<or> get_by_name c s \<noteq> None)
       (suffixed base ''imported'' # map (\<lambda>n. suffixed base (''imported '' @ str_int (int n))) [2..<101])
       (suffixed base (''imported '' @ rq_now_short env))"

text \<open>A new row under the given name.\<close>

definition mint :: "rules_env \<Rightarrow> string \<Rightarrow> rule_body \<Rightarrow> import_acc \<Rightarrow> (string \<times> import_acc) result" where
  "mint env name e a =
     (let i = rq_new_id env (ia_ids a) in
      bind_r (add_rule (new_rule i name e) (ia_db a)) (\<lambda>s1.
        Inr (i, a\<lparr>ia_db := s1, ia_minted := name # ia_minted a, ia_ids := Suc (ia_ids a)\<rparr>)))"

definition mint_renamed :: "rules_env \<Rightarrow> rule_body \<Rightarrow> import_acc \<Rightarrow> import_acc result" where
  "mint_renamed env e a =
     (let name = next_available_name env (rb_name e) (ia_minted a) (ia_db a) in
      bind_r (mint env name e a) (\<lambda>(i, a1).
        Inr (report_entry (rb_name e) name ''renamed'' (Some i) None (a1\<lparr>ia_renamed := Suc (ia_renamed a1)\<rparr>))))"

definition overwrite :: "rule_body \<Rightarrow> rule \<Rightarrow> rule" where
  "overwrite e r = r\<lparr>ru_description := rb_description e, ru_enabled := rb_enabled e, ru_priority := rb_priority e,
     ru_definition := rb_definition e\<rparr>"

definition import_entry :: "rules_env \<Rightarrow> string \<Rightarrow> rule_body \<Rightarrow> import_acc \<Rightarrow> import_acc result" where
  "import_entry env on_conflict e a =
     (case check_definition (rb_definition e) of
        Inl (ValidationError m) \<Rightarrow>
          Inr (report_entry (rb_name e) (rb_name e) ''error'' None (Some m) (a\<lparr>ia_errors := Suc (ia_errors a)\<rparr>))
      | Inl x \<Rightarrow> Inl x
      | Inr _ \<Rightarrow>
          (let existing = get_by_name (rb_name e) (ia_db a) in
           if existing = None \<and> rb_name e \<notin> set (ia_minted a)
           then bind_r (mint env (rb_name e) e a) (\<lambda>(i, a1).
             Inr (report_entry (rb_name e) (rb_name e) ''created'' (Some i) None (a1\<lparr>ia_created := Suc (ia_created a1)\<rparr>)))
           else if on_conflict = ''skip''
           then Inr (report_entry (rb_name e) (rb_name e) ''skipped'' (map_option ru_id existing) None (a\<lparr>ia_skipped := Suc (ia_skipped a)\<rparr>))
           else if on_conflict = ''overwrite''
           then (case existing of
                   None \<Rightarrow> mint_renamed env e a
                 | Some r \<Rightarrow>
                     if ru_is_builtin r
                     then Inr (report_entry (rb_name e) (rb_name e) ''skipped'' (Some (ru_id r))
                       (Some (''Cannot overwrite a built-in rule. '' @ ''Duplicate the builtin first if you need a custom variant.''))
                       (a\<lparr>ia_skipped := Suc (ia_skipped a)\<rparr>))
                     else Inr (report_entry (rb_name e) (rb_name e) ''overwritten'' (Some (ru_id r)) None
                       (a\<lparr>ia_db := put_rules (map (\<lambda>x. if ru_id x = ru_id r then overwrite e x else x) (rules_of (ia_db a))) (ia_db a),
                          ia_overwritten := Suc (ia_overwritten a)\<rparr>)))
           else mint_renamed env e a))"

fun import_entries :: "rules_env \<Rightarrow> string \<Rightarrow> rule_body list \<Rightarrow> import_acc \<Rightarrow> import_acc result" where
  "import_entries env on_conflict [] a = Inr a"
| "import_entries env on_conflict (e # es) a = bind_r (import_entry env on_conflict e a) (import_entries env on_conflict es)"

definition empty_import :: "rules_db \<Rightarrow> import_acc" where
  "empty_import s = \<lparr>ia_db = s, ia_minted = [], ia_ids = 0, ia_outcomes = [], ia_created = 0, ia_skipped = 0, ia_renamed = 0,
     ia_overwritten = 0, ia_errors = 0\<rparr>"

definition import_rules :: "rules_env \<Rightarrow> string \<Rightarrow> rule_bundle \<Rightarrow> rules_db \<Rightarrow> import_acc result \<times> rules_db" where
  "import_rules env on_conflict b s =
     in_transaction s
       (if on_conflict \<notin> {''skip'', ''rename'', ''overwrite''} \<or> \<not> list_all export_entry_ok (bu_rules b) then bad_request
        else if bu_version b \<noteq> ''1''
        then Inl (ValidationError (''Unsupported bundle version '' @ [CHR 0x27] @ bu_version b @ [CHR 0x27] @ ''; ''
               @ ''this server reads version '' @ [CHR 0x27] @ ''1'' @ [CHR 0x27]))
        else bind_r (import_entries env on_conflict (bu_rules b) (empty_import s)) (\<lambda>a. Inr (a, ia_db a)))"

section \<open>Suggestions\<close>

definition get_suggestion :: "string \<Rightarrow> rules_db \<Rightarrow> rule_suggestion result" where
  "get_suggestion i s = (case table_find sug_id i (rq_suggestions s) of
     None \<Rightarrow> Inl (NotFoundError ''Suggestion not found'') | Some g \<Rightarrow> Inr g)"

definition put_suggestion :: "rule_suggestion \<Rightarrow> rules_db \<Rightarrow> rules_db" where
  "put_suggestion g s = s\<lparr>rq_suggestions := map (\<lambda>x. if sug_id x = sug_id g then g else x) (rq_suggestions s)\<rparr>"

text \<open>\<open>dy_definition\<close> is \<open>None\<close> for an absent or empty object, which falls back to the suggestion's.\<close>

record deploy_body =
  dy_name :: "string option"
  dy_description :: "string option"
  dy_priority :: "int option"
  dy_enabled :: "bool option"
  dy_definition :: "rule_definition option option"

definition deploy_body_ok :: "deploy_body \<Rightarrow> bool" where
  "deploy_body_ok b = (opt_all (\<lambda>n. py_len n \<le> 256) (dy_name b) \<and> opt_all (\<lambda>d. py_len d \<le> 1024) (dy_description b) \<and> opt_all priority_ok (dy_priority b))"

definition deployed_rule :: "rules_env \<Rightarrow> deploy_body \<Rightarrow> rule_suggestion \<Rightarrow> rules_db \<Rightarrow> rule" where
  "deployed_rule env b g s =
     (let name = (case dy_name b of Some (c # cs) \<Rightarrow> c # cs | _ \<Rightarrow> sug_name g) in
      new_rule (rq_new_id env 0)
        (if get_by_name name s \<noteq> None then suffixed name (rq_now_short env) else name)
        \<lparr>rb_name = name,
         rb_description = Some (case dy_description b of Some (c # cs) \<Rightarrow> c # cs | _ \<Rightarrow> ''Deployed from suggestion ('' @ sug_heuristic g @ '')''),
         rb_enabled = or_keep (dy_enabled b) True, rb_priority = or_keep (dy_priority b) 100,
         rb_definition = or_keep (dy_definition b) (sug_definition g)\<rparr>)"

definition deploy_suggestion :: "rules_env \<Rightarrow> string \<Rightarrow> deploy_body \<Rightarrow> rules_db \<Rightarrow> rule result \<times> rules_db" where
  "deploy_suggestion env i b s =
     in_transaction s
           (if \<not> deploy_body_ok b then bad_request
            else bind_r (get_suggestion i s) (\<lambda>g.
              if sug_status g \<noteq> ''pending'' then Inl (ConflictError (''Suggestion is '' @ sug_status g @ '', cannot deploy''))
              else bind_r (check_definition (or_keep (dy_definition b) (sug_definition g))) (\<lambda>_.
                let r = deployed_rule env b g s in
                bind_r (add_rule r s) (\<lambda>s1. Inr (r, put_suggestion (g\<lparr>sug_status := ''deployed'', sug_deployed_rule_id := Some (ru_id r),
                  sug_deployed_at := Some (rq_now env)\<rparr>) s1)))))"

definition dismiss_suggestion :: "rules_env \<Rightarrow> string \<Rightarrow> string option \<Rightarrow> rules_db \<Rightarrow> rule_suggestion result \<times> rules_db" where
  "dismiss_suggestion env i reason s =
     in_transaction s
           (if \<not> opt_all (\<lambda>r. py_len r \<le> 1024) reason then bad_request
            else bind_r (get_suggestion i s) (\<lambda>g.
              if sug_status g = ''deployed'' then Inl (ConflictError ''Suggestion already deployed'')
              else let d = g\<lparr>sug_status := ''dismissed'', sug_dismissed_at := Some (rq_now env), sug_dismissed_reason := reason\<rparr> in
                   Inr (d, put_suggestion d s)))"

section \<open>The vocabulary of the rule builder\<close>

definition type_for :: "string \<Rightarrow> string" where
  "type_for key = (if key \<in> set NUMERIC_FIELDS then ''numeric'' else if key \<in> set BOOL_FIELDS then ''bool''
     else if key \<in> set ARRAY_FIELDS then ''array'' else ''string'')"

definition ops_by_type :: "(string \<times> string list) list" where
  "ops_by_type = [(''numeric'', sort NUMERIC_OPS), (''string'', sort STRING_OPS), (''bool'', sort BOOL_OPS), (''array'', sort SET_OPS)]"

definition field_enums :: "(string \<times> string list) list" where
  "field_enums = [(''category'', [''media'', ''subtitle'', ''image'', ''metadata'', ''junk'', ''unknown'']), (''vt_status'', sort VT_STATUS_VALUES)]"

text \<open>\<open>key.replace("_", " ").capitalize()\<close> but for five names.\<close>

definition capitalize :: "string \<Rightarrow> string" where
  "capitalize s = (case s of [] \<Rightarrow> [] | c # cs \<Rightarrow> upper_char c # py_lower cs)"

definition field_label :: "string \<Rightarrow> string" where
  "field_label key =
     (case map_of [(''bitrate_kbps'', ''Bitrate (kbps)''), (''size_bytes'', ''Size (bytes)''), (''duration_seconds'', ''Duration (s)''),
                   (''has_subtitles'', ''Has subtitles''), (''is_orphaned'', ''Orphaned'')] key of
        Some l \<Rightarrow> l
      | None \<Rightarrow> capitalize (map (\<lambda>c. if c = CHR ''_'' then CHR '' '' else c) key))"

record vocabulary_field =
  vf_key :: string
  vf_label :: string
  vf_type :: string
  vf_enum :: "string list option"

definition vocabulary_fields :: "vocabulary_field list" where
  "vocabulary_fields = map (\<lambda>k. \<lparr>vf_key = k, vf_label = field_label k, vf_type = type_for k, vf_enum = map_of field_enums k\<rparr>) (sort SUPPORTED_FIELDS)"

end
