(* ===== verification/RulesApiGuarantees.thy ===== *)
theory RulesApiGuarantees
  imports RulesApi "HOL-Library.Multiset"
begin

text \<open>
  What the rule endpoints of \<open>RulesApi\<close> guarantee: over any sequence of requests the table of rules stays
  well formed, shipped rules keep what the code base owns and suggestions follow their lifecycle; an export
  restores in an empty installation; an import accounts for its entries; and the builder's vocabulary is the
  validator's.
\<close>

section \<open>Requests\<close>

datatype rules_request =
    Create rule_body
  | Update string rule_patch
  | Remove string
  | Duplicate string
  | Import string rule_bundle
  | Deploy string deploy_body
  | Dismiss string "string option"

definition serve :: "rules_env \<Rightarrow> rules_request \<Rightarrow> rules_db \<Rightarrow> rules_db" where
  "serve env q s =
     (case q of
        Create b \<Rightarrow> snd (create_rule env b s)
      | Update i b \<Rightarrow> snd (update_rule i b s)
      | Remove i \<Rightarrow> snd (delete_rule i s)
      | Duplicate i \<Rightarrow> snd (duplicate_rule env i s)
      | Import c b \<Rightarrow> snd (import_rules env c b s)
      | Deploy i b \<Rightarrow> snd (deploy_suggestion env i b s)
      | Dismiss i r \<Rightarrow> snd (dismiss_suggestion env i r s))"

definition serve_all :: "(rules_env \<times> rules_request) list \<Rightarrow> rules_db \<Rightarrow> rules_db" where
  "serve_all qs s = fold (\<lambda>(env, q) s. serve env q s) qs s"

section \<open>The table of rules\<close>

definition accepted :: "rule_definition option \<Rightarrow> bool" where
  "accepted d = (\<exists>r. check_definition d = Inr r)"

definition rules_wf :: "rule list \<Rightarrow> bool" where
  "rules_wf rs = (unique_keys ru_name rs \<and> unique_keys ru_id rs
     \<and> (\<forall>r\<in>set rs. py_len (ru_name r) \<le> 120 \<and> accepted (ru_definition r)))"

text \<open>What the code base owns of a shipped rule.\<close>

definition core :: "rule \<Rightarrow> string \<times> string \<times> string option \<times> rule_definition option" where
  "core r = (ru_id r, ru_name r, ru_description r, ru_definition r)"

definition shipped :: "rule list \<Rightarrow> (string \<times> string \<times> string option \<times> rule_definition option) list" where
  "shipped rs = map core (filter ru_is_builtin rs)"

text \<open>A change of the table that keeps it well formed and keeps the shipped rules.\<close>

definition sound_change :: "rule list \<Rightarrow> rule list \<Rightarrow> bool" where
  "sound_change rs rs' = (rules_wf rs \<longrightarrow> rules_wf rs' \<and> shipped rs' = shipped rs)"

lemma sound_refl [simp]: "sound_change rs rs"
  by (simp add: sound_change_def)

lemma sound_trans: "sound_change a b \<Longrightarrow> sound_change b c \<Longrightarrow> sound_change a c"
  by (simp add: sound_change_def)

lemma rules_of_put [simp]: "rules_of (put_rules rs s) = rs" "rq_suggestions (put_rules rs s) = rq_suggestions s"
  by (simp_all add: rules_of_def put_rules_def)

lemma add_ruleD:
  assumes "add_rule r s = Inr s1"
  shows "s1 = put_rules (rules_of s @ [r]) s" "py_len (ru_name r) \<le> 120" "ru_name r \<notin> ru_name ` set (rules_of s)"
    "ru_id r \<notin> ru_id ` set (rules_of s)"
  using assms table_find_None_iff [of ru_name "ru_name r" "rules_of s"] table_find_None_iff [of ru_id "ru_id r" "rules_of s"]
  by (auto simp: add_rule_def get_by_name_def get_rule_row_def split: if_splits)

lemma add_sound:
  assumes "add_rule r s = Inr s1" "accepted (ru_definition r)" "\<not> ru_is_builtin r"
  shows "sound_change (rules_of s) (rules_of s1)"
  using add_ruleD [OF assms(1)] assms(2,3)
  by (auto simp: sound_change_def rules_wf_def shipped_def unique_keys_def)

lemma new_rule_simps [simp]:
  "ru_definition (new_rule i n b) = rb_definition b" "\<not> ru_is_builtin (new_rule i n b)" "ru_name (new_rule i n b) = n"
  "ru_id (new_rule i n b) = i"
  by (simp_all add: new_rule_def)

lemma get_by_name_row: "get_by_name n s = Some r \<Longrightarrow> r \<in> set (rules_of s) \<and> ru_name r = n"
  unfolding get_by_name_def by (drule table_find_SomeD)

lemma get_rule_rowD: "get_rule_row i s = Some r \<Longrightarrow> r \<in> set (rules_of s) \<and> ru_id r = i"
  unfolding get_rule_row_def by (drule table_find_SomeD)

text \<open>Replacing the row of an identifier.\<close>

lemma replace_sound:
  assumes r: "r \<in> set rs" and new: "ru_id r' = ru_id r" "py_len (ru_name r') \<le> 120" "accepted (ru_definition r')"
      "ru_is_builtin r' = ru_is_builtin r" "ru_is_builtin r \<Longrightarrow> core r' = core r"
    and names: "\<forall>x\<in>set rs. ru_id x \<noteq> ru_id r \<longrightarrow> ru_name x \<noteq> ru_name r'"
  shows "sound_change rs (map (\<lambda>x. if ru_id x = ru_id r then r' else x) rs)"
  unfolding sound_change_def
proof (intro impI)
  assume wf: "rules_wf rs"
  let ?f = "\<lambda>x. if ru_id x = ru_id r then r' else x"
  have u: "distinct (map ru_id rs)" "distinct (map ru_name rs)" using wf by (simp_all add: rules_wf_def unique_keys_def)
  have same: "x = r" if "x \<in> set rs" "ru_id x = ru_id r" for x
    using u(1) that r by (metis distinct_map inj_onD)
  have ids: "map ru_id (map ?f rs) = map ru_id rs" using new(1) by simp
  have "inj_on (\<lambda>x. ru_name (?f x)) (set rs)"
  proof (rule inj_onI)
    fix x y assume xy: "x \<in> set rs" "y \<in> set rs" "ru_name (?f x) = ru_name (?f y)"
    show "x = y"
      using xy names same u(2) by (cases "ru_id x = ru_id r"; cases "ru_id y = ru_id r") (auto simp: distinct_map inj_on_def, metis same)
  qed
  then have "distinct (map ru_name (map ?f rs))" using u(1) by (simp add: distinct_map comp_def)
  moreover have "\<forall>x\<in>set (map ?f rs). py_len (ru_name x) \<le> 120 \<and> accepted (ru_definition x)"
    using wf new by (auto simp: rules_wf_def)
  moreover have "shipped (map ?f rs) = shipped rs"
  proof -
    have "map core (filter ru_is_builtin (map ?f ys)) = map core (filter ru_is_builtin ys)" if "set ys \<subseteq> set rs" for ys
      using that
    proof (induction ys)
      case (Cons y ys)
      then show ?case using new(4,5) same [of y] by auto
    qed simp
    then show ?thesis by (simp add: shipped_def)
  qed
  moreover have "distinct (map ru_id (map ?f rs))" by (simp only: ids u(1))
  ultimately show "rules_wf (map ?f rs) \<and> shipped (map ?f rs) = shipped rs"
    unfolding rules_wf_def unique_keys_def by blast
qed

lemma in_transaction_snd:
  "(\<And>x s1. m = Inr (x, s1) \<Longrightarrow> P s1) \<Longrightarrow> P s \<Longrightarrow> P (snd (in_transaction s m))"
  by (auto simp: in_transaction_def split: sum.split)

lemma create_sound: "sound_change (rules_of s) (rules_of (snd (create_rule env b s)))"
  unfolding create_rule_def
  by (rule in_transaction_snd)
    (auto simp: bad_request_def Let_def bind_r_Inr_iff accepted_def split: if_splits intro: add_sound)

lemma duplicate_sound: "rules_wf (rules_of s) \<Longrightarrow> sound_change (rules_of s) (rules_of (snd (duplicate_rule env i s)))"
  unfolding duplicate_rule_def
  by (rule in_transaction_snd)
    (auto simp: Let_def bind_r_Inr_iff copy_body_def rules_wf_def split: option.splits dest!: get_rule_rowD intro!: add_sound)

lemma patched_simps [simp]: "ru_id (patched b r) = ru_id r" "ru_is_builtin (patched b r) = ru_is_builtin r"
  by (simp_all add: patched_def)

lemma patched_core: "forbidden_fields b r = [] \<Longrightarrow> core (patched b r) = core r"
  by (auto simp: forbidden_fields_def core_def patched_def or_keep_def opt_all_def split: option.splits if_splits)

lemma update_sound:
  assumes wf: "rules_wf (rules_of s)"
  shows "sound_change (rules_of s) (rules_of (snd (update_rule i b s)))"
  unfolding update_rule_def
proof (rule in_transaction_snd)
  fix x s1
  assume "(if \<not> rule_update_ok b then bad_request
            else case get_rule_row i s of
              None \<Rightarrow> Inl (NotFoundError ''Rule not found'')
            | Some r \<Rightarrow>
                if ru_is_builtin r \<and> forbidden_fields b r \<noteq> []
                then Inl (ValidationError (''Cannot edit built-in rule fields: '' @ join_with '', '' (forbidden_fields b r)
                       @ ''. Duplicate the rule to create a writable custom copy.''))
                else bind_r (case rp_definition b of None \<Rightarrow> Inr () | Some d \<Rightarrow> bind_r (check_definition d) (\<lambda>_. Inr ())) (\<lambda>_.
                  bind_r (flush_rule (patched b r) s) (\<lambda>s1. Inr (patched b r, s1)))) = Inr (x, s1)"
  then obtain r where u: "get_rule_row i s = Some r" "ru_is_builtin r \<longrightarrow> forbidden_fields b r = []"
      "flush_rule (patched b r) s = Inr s1" "case rp_definition b of None \<Rightarrow> True | Some d \<Rightarrow> accepted d"
    by (auto simp: bad_request_def bind_r_Inr_iff accepted_def split: if_splits option.splits)
  have f: "py_len (ru_name (patched b r)) \<le> 120" "\<forall>x\<in>set (rules_of s). ru_id x \<noteq> ru_id r \<longrightarrow> ru_name x \<noteq> ru_name (patched b r)"
    "s1 = put_rules (map (\<lambda>x. if ru_id x = ru_id r then patched b r else x) (rules_of s)) s"
    using u(3) by (auto simp: flush_rule_def split: if_splits)
  have r: "r \<in> set (rules_of s)" using get_rule_rowD [OF u(1)] by simp
  have "accepted (ru_definition (patched b r))"
    using u(4) wf r by (auto simp: patched_def or_keep_def rules_wf_def split: option.splits)
  then show "sound_change (rules_of s) (rules_of s1)"
    unfolding f(3) rules_of_put using f(1,2) u(2) patched_core by (intro replace_sound [OF r]) auto
qed simp

lemma delete_sound: "sound_change (rules_of s) (rules_of (snd (delete_rule i s)))"
proof (cases "get_rule_row i s")
  case (Some r)
  show ?thesis
  proof (cases "ru_is_builtin r")
    case False
    have "shipped (filter (\<lambda>x. ru_id x \<noteq> i) (rules_of s)) = shipped (rules_of s)" if wf: "rules_wf (rules_of s)"
    proof -
      have "\<not> ru_is_builtin x" if "x \<in> set (rules_of s)" "ru_id x = i" for x
        using wf that False get_rule_rowD [OF Some]
        by (metis distinct_map inj_onD rules_wf_def unique_keys_def)
      then have "filter ru_is_builtin (filter (\<lambda>x. ru_id x \<noteq> i) (rules_of s)) = filter ru_is_builtin (rules_of s)"
        by (auto simp: filter_filter intro!: filter_cong)
      then show ?thesis by (simp add: shipped_def)
    qed
    then show ?thesis using Some False
      by (auto simp: delete_rule_def drop_rule_def sound_change_def rules_wf_def rules_of_def unique_keys_filter)
  qed (simp add: delete_rule_def Some)
qed (simp add: delete_rule_def)

section \<open>Imports\<close>

lemma report_simps [simp]:
  "ia_db (report_entry n f w i e a) = ia_db a" "ia_minted (report_entry n f w i e a) = ia_minted a" "ia_ids (report_entry n f w i e a) = ia_ids a"
  "ia_created (report_entry n f w i e a) = ia_created a" "ia_skipped (report_entry n f w i e a) = ia_skipped a"
  "ia_renamed (report_entry n f w i e a) = ia_renamed a" "ia_overwritten (report_entry n f w i e a) = ia_overwritten a"
  "ia_errors (report_entry n f w i e a) = ia_errors a" "length (ia_outcomes (report_entry n f w i e a)) = Suc (length (ia_outcomes a))"
  by (simp_all add: report_entry_def)

definition settled_entries :: "import_acc \<Rightarrow> nat" where
  "settled_entries a = ia_created a + ia_skipped a + ia_renamed a + ia_overwritten a + ia_errors a"

text \<open>The branches of an entry.\<close>

lemma mintE:
  assumes "mint env name e a = Inr (i, a1)"
  obtains s1 where "add_rule (new_rule i name e) (ia_db a) = Inr s1" "i = rq_new_id env (ia_ids a)"
    "a1 = a\<lparr>ia_db := s1, ia_minted := name # ia_minted a, ia_ids := Suc (ia_ids a)\<rparr>"
  using assms by (auto simp: mint_def Let_def bind_r_Inr_iff)

lemma import_entry_cases:
  assumes "import_entry env c e a = Inr a'"
  obtains
    (error) m where "\<not> accepted (rb_definition e)"
      "a' = report_entry (rb_name e) (rb_name e) ''error'' None (Some m) (a\<lparr>ia_errors := Suc (ia_errors a)\<rparr>)"
  | (create) i s1 where "accepted (rb_definition e)" "get_by_name (rb_name e) (ia_db a) = None" "rb_name e \<notin> set (ia_minted a)"
      "i = rq_new_id env (ia_ids a)" "add_rule (new_rule i (rb_name e) e) (ia_db a) = Inr s1"
      "a' = report_entry (rb_name e) (rb_name e) ''created'' (Some i) None
         (a\<lparr>ia_db := s1, ia_minted := rb_name e # ia_minted a, ia_ids := Suc (ia_ids a), ia_created := Suc (ia_created a)\<rparr>)"
  | (skip) i err where "accepted (rb_definition e)" "get_by_name (rb_name e) (ia_db a) \<noteq> None \<or> rb_name e \<in> set (ia_minted a)"
      "a' = report_entry (rb_name e) (rb_name e) ''skipped'' i err (a\<lparr>ia_skipped := Suc (ia_skipped a)\<rparr>)"
      "c = ''overwrite'' \<longrightarrow> (\<exists>r. get_by_name (rb_name e) (ia_db a) = Some r \<and> ru_is_builtin r)"
  | (overwrite) r where "accepted (rb_definition e)" "c = ''overwrite''" "get_by_name (rb_name e) (ia_db a) = Some r" "\<not> ru_is_builtin r"
      "a' = report_entry (rb_name e) (rb_name e) ''overwritten'' (Some (ru_id r)) None
         (a\<lparr>ia_db := put_rules (map (\<lambda>x. if ru_id x = ru_id r then overwrite e x else x) (rules_of (ia_db a))) (ia_db a),
            ia_overwritten := Suc (ia_overwritten a)\<rparr>)"
  | (rename) i name s1 where "accepted (rb_definition e)" "c = ''overwrite'' \<longrightarrow> get_by_name (rb_name e) (ia_db a) = None \<and> rb_name e \<in> set (ia_minted a)"
      "name = next_available_name env (rb_name e) (ia_minted a) (ia_db a)"
      "i = rq_new_id env (ia_ids a)" "add_rule (new_rule i name e) (ia_db a) = Inr s1"
      "a' = report_entry (rb_name e) name ''renamed'' (Some i) None
         (a\<lparr>ia_db := s1, ia_minted := name # ia_minted a, ia_ids := Suc (ia_ids a), ia_renamed := Suc (ia_renamed a)\<rparr>)"
proof (cases "check_definition (rb_definition e)")
  case (Inl x)
  then show thesis using assms error by (auto simp: import_entry_def accepted_def split: pyerr.splits)
next
  case (Inr d)
  then have acc: "accepted (rb_definition e)" by (auto simp: accepted_def)
  let ?x = "get_by_name (rb_name e) (ia_db a)"
  have entry: "(if ?x = None \<and> rb_name e \<notin> set (ia_minted a)
           then bind_r (mint env (rb_name e) e a) (\<lambda>(i, a1).
             Inr (report_entry (rb_name e) (rb_name e) ''created'' (Some i) None (a1\<lparr>ia_created := Suc (ia_created a1)\<rparr>)))
           else if c = ''skip''
           then Inr (report_entry (rb_name e) (rb_name e) ''skipped'' (map_option ru_id ?x) None (a\<lparr>ia_skipped := Suc (ia_skipped a)\<rparr>))
           else if c = ''overwrite''
           then (case ?x of
                   None \<Rightarrow> mint_renamed env e a
                 | Some r \<Rightarrow>
                     if ru_is_builtin r
                     then Inr (report_entry (rb_name e) (rb_name e) ''skipped'' (Some (ru_id r))
                       (Some (''Cannot overwrite a built-in rule. '' @ ''Duplicate the builtin first if you need a custom variant.''))
                       (a\<lparr>ia_skipped := Suc (ia_skipped a)\<rparr>))
                     else Inr (report_entry (rb_name e) (rb_name e) ''overwritten'' (Some (ru_id r)) None
                       (a\<lparr>ia_db := put_rules (map (\<lambda>x. if ru_id x = ru_id r then overwrite e x else x) (rules_of (ia_db a))) (ia_db a),
                          ia_overwritten := Suc (ia_overwritten a)\<rparr>)))
           else mint_renamed env e a) = Inr a'"
    using assms Inr by (simp add: import_entry_def Let_def)
  have renamed: thesis if m0: "mint_renamed env e a = Inr a'" and c0: "c = ''overwrite'' \<longrightarrow> ?x = None \<and> rb_name e \<in> set (ia_minted a)"
  proof -
    obtain i a1 where m: "mint env (next_available_name env (rb_name e) (ia_minted a) (ia_db a)) e a = Inr (i, a1)"
      "a' = report_entry (rb_name e) (next_available_name env (rb_name e) (ia_minted a) (ia_db a)) ''renamed'' (Some i) None (a1\<lparr>ia_renamed := Suc (ia_renamed a1)\<rparr>)"
      using m0 by (auto simp: mint_renamed_def Let_def bind_r_Inr_iff)
    show thesis by (rule mintE [OF m(1)]) (use rename [OF acc c0 refl] m(2) in simp)
  qed
  consider (fresh) "?x = None" "rb_name e \<notin> set (ia_minted a)" | (skip) "?x \<noteq> None \<or> rb_name e \<in> set (ia_minted a)" "c = ''skip''"
    | (over) r where "c = ''overwrite''" "?x = Some r" | (minted) "?x = None" "rb_name e \<in> set (ia_minted a)" "c = ''overwrite''"
    | (ren) "?x \<noteq> None \<or> rb_name e \<in> set (ia_minted a)" "c \<noteq> ''skip''" "c \<noteq> ''overwrite''" by fastforce
  then show thesis
  proof cases
    case fresh
    then obtain i a1 where m: "mint env (rb_name e) e a = Inr (i, a1)"
      "a' = report_entry (rb_name e) (rb_name e) ''created'' (Some i) None (a1\<lparr>ia_created := Suc (ia_created a1)\<rparr>)"
      using entry by (auto simp: bind_r_Inr_iff)
    show ?thesis by (rule mintE [OF m(1)]) (use create [OF acc fresh] m(2) in simp)
  next
    case skip
    then show ?thesis using entry that(3) [OF acc skip(1)] by auto
  next
    case over
    then show ?thesis using entry that(3) [OF acc] that(4) [OF acc over(1)] by (auto split: if_splits)
  next
    case minted
    then show ?thesis using entry renamed by simp
  next
    case ren
    then show ?thesis using entry renamed by auto
  qed
qed

text \<open>What entries do to the accumulator.\<close>

definition minted_known :: "import_acc \<Rightarrow> bool" where
  "minted_known a = (set (ia_minted a) \<subseteq> ru_name ` set (rules_of (ia_db a)))"

definition imported :: "string \<Rightarrow> nat \<Rightarrow> import_acc \<Rightarrow> import_acc \<Rightarrow> bool" where
  "imported c n a a' =
     (sound_change (rules_of (ia_db a)) (rules_of (ia_db a'))
      \<and> settled_entries a' = settled_entries a + n
      \<and> length (ia_outcomes a') = length (ia_outcomes a) + n
      \<and> rq_suggestions (ia_db a') = rq_suggestions (ia_db a)
      \<and> (c \<noteq> ''overwrite'' \<longrightarrow> prefix (rules_of (ia_db a)) (rules_of (ia_db a')))
      \<and> (minted_known a \<longrightarrow> minted_known a' \<and> (c = ''overwrite'' \<longrightarrow> ia_renamed a' = ia_renamed a)))"

lemma overwrite_simps [simp]: "ru_id (overwrite e r) = ru_id r" "ru_name (overwrite e r) = ru_name r"
  "ru_is_builtin (overwrite e r) = ru_is_builtin r" "ru_definition (overwrite e r) = rb_definition e"
  by (simp_all add: overwrite_def)

lemma replace_eq:
  assumes "rules_wf rs" "r \<in> set rs"
  shows "map (\<lambda>x. if ru_id x = ru_id r then f x else x) rs = map (\<lambda>x. if ru_id x = ru_id r then f r else x) rs"
  using assms by (auto simp: rules_wf_def unique_keys_def distinct_map inj_on_def)

lemma overwrite_sound:
  assumes "get_by_name n s = Some r" "accepted (rb_definition e)" "\<not> ru_is_builtin r"
  shows "sound_change (rules_of s) (map (\<lambda>x. if ru_id x = ru_id r then overwrite e x else x) (rules_of s))"
  unfolding sound_change_def
proof (intro impI)
  assume wf: "rules_wf (rules_of s)"
  have r: "r \<in> set (rules_of s)" using get_by_name_row [OF assms(1)] by simp
  have names: "\<forall>x\<in>set (rules_of s). ru_id x \<noteq> ru_id r \<longrightarrow> ru_name x \<noteq> ru_name (overwrite e r)"
    using wf r by (auto simp: rules_wf_def unique_keys_def distinct_map inj_on_def)
  have "sound_change (rules_of s) (map (\<lambda>x. if ru_id x = ru_id r then overwrite e r else x) (rules_of s))"
    using wf r assms(2,3) names by (intro replace_sound [OF r]) (auto simp: rules_wf_def)
  then show "rules_wf (map (\<lambda>x. if ru_id x = ru_id r then overwrite e x else x) (rules_of s))
      \<and> shipped (map (\<lambda>x. if ru_id x = ru_id r then overwrite e x else x) (rules_of s)) = shipped (rules_of s)"
    using wf unfolding replace_eq [OF wf r, of "overwrite e"] by (simp add: sound_change_def)
qed

lemma get_by_name_None: "get_by_name n s = None \<longleftrightarrow> n \<notin> ru_name ` set (rules_of s)"
  by (simp add: get_by_name_def table_find_None_iff)

lemma import_entry_imported:
  assumes "import_entry env c e a = Inr a'"
  shows "imported c 1 a a'"
  using assms
proof (cases rule: import_entry_cases)
  case (error m)
  then show ?thesis by (simp add: imported_def settled_entries_def minted_known_def)
next
  case (create i s1)
  have "sound_change (rules_of (ia_db a)) (rules_of s1)" using add_sound [OF create(5)] create(1) by simp
  moreover have "rules_of s1 = rules_of (ia_db a) @ [new_rule i (rb_name e) e]" "rq_suggestions s1 = rq_suggestions (ia_db a)"
    using add_ruleD(1) [OF create(5)] by simp_all
  ultimately show ?thesis unfolding create(6) imported_def settled_entries_def minted_known_def report_simps by auto
next
  case (skip i err)
  then show ?thesis by (simp add: imported_def settled_entries_def minted_known_def)
next
  case (overwrite r)
  let ?rs = "map (\<lambda>x. if ru_id x = ru_id r then RulesApi.overwrite e x else x) (rules_of (ia_db a))"
  have "map ru_name ?rs = map ru_name (rules_of (ia_db a))" by simp
  then have names: "ru_name ` set ?rs = ru_name ` set (rules_of (ia_db a))" by (metis list.set_map)
  have known: "minted_known a' = minted_known a"
    unfolding minted_known_def overwrite(5) report_simps by (simp add: names del: set_map)
  show ?thesis using overwrite(2,5) overwrite_sound [OF overwrite(3,1,4)] known
    by (simp add: imported_def settled_entries_def)
next
  case (rename i name s1)
  have "sound_change (rules_of (ia_db a)) (rules_of s1)" using add_sound [OF rename(5)] rename(1) by simp
  moreover have "rules_of s1 = rules_of (ia_db a) @ [new_rule i name e]" "rq_suggestions s1 = rq_suggestions (ia_db a)"
    using add_ruleD(1) [OF rename(5)] by simp_all
  moreover have "\<not> (minted_known a \<and> c = ''overwrite'')"
    using rename(2) by (auto simp: get_by_name_None minted_known_def)
  ultimately show ?thesis unfolding rename(6) imported_def settled_entries_def minted_known_def report_simps by auto
qed

lemma imported_trans: "imported c m x y \<Longrightarrow> imported c n y z \<Longrightarrow> imported c (m + n) x z"
  unfolding imported_def by (auto intro: sound_trans prefix_order.trans)

lemma import_entries_imported: "import_entries env c es a = Inr a' \<Longrightarrow> imported c (length es) a a'"
proof (induction es arbitrary: a)
  case Nil
  then show ?case by (simp add: imported_def)
next
  case (Cons e es)
  then obtain m where m: "import_entry env c e a = Inr m" "import_entries env c es m = Inr a'" by (auto simp: bind_r_Inr_iff)
  show ?case using imported_trans [OF import_entry_imported [OF m(1)] Cons.IH [OF m(2)]] by simp
qed


lemma empty_import_simps [simp]: "ia_db (empty_import s) = s" "ia_outcomes (empty_import s) = []" "settled_entries (empty_import s) = 0"
  "minted_known (empty_import s)" "ia_renamed (empty_import s) = 0" "ia_created (empty_import s) = 0" "ia_skipped (empty_import s) = 0"
  "ia_overwritten (empty_import s) = 0" "ia_errors (empty_import s) = 0" "ia_minted (empty_import s) = []" "ia_ids (empty_import s) = 0"
  by (simp_all add: empty_import_def settled_entries_def minted_known_def)

lemma import_sound: "sound_change (rules_of s) (rules_of (snd (import_rules env c b s)))"
  unfolding import_rules_def
  by (rule in_transaction_snd)
    (auto simp: bad_request_def bind_r_Inr_iff imported_def split: if_splits dest!: import_entries_imported)

lemma put_suggestion_rules [simp]: "rules_of (put_suggestion g s) = rules_of s"
  by (simp add: put_suggestion_def rules_of_def)

lemma deployed_rule_simps [simp]:
  "ru_definition (deployed_rule env b g s) = or_keep (dy_definition b) (sug_definition g)" "\<not> ru_is_builtin (deployed_rule env b g s)"
  by (simp_all add: deployed_rule_def Let_def)

lemma deploy_suggestionD:
  assumes "deploy_suggestion env i b s = (Inr r, s')"
  obtains g s1 where "get_suggestion i s = Inr g" "sug_status g = ''pending''" "accepted (or_keep (dy_definition b) (sug_definition g))"
    "r = deployed_rule env b g s" "add_rule r s = Inr s1"
    "s' = put_suggestion (g\<lparr>sug_status := ''deployed'', sug_deployed_rule_id := Some (ru_id r), sug_deployed_at := Some (rq_now env)\<rparr>) s1"
  using assms
  by (auto simp: deploy_suggestion_def in_transaction_def bad_request_def bind_r_Inr_iff Let_def accepted_def
      split: if_splits sum.splits prod.splits)

lemma in_transaction_error: "fst (in_transaction s m) = Inl e \<Longrightarrow> snd (in_transaction s m) = s"
  by (auto simp: in_transaction_def split: sum.splits prod.splits)

lemma deploy_sound: "sound_change (rules_of s) (rules_of (snd (deploy_suggestion env i b s)))"
proof (cases "fst (deploy_suggestion env i b s)")
  case (Inl e)
  then have "snd (deploy_suggestion env i b s) = s" unfolding deploy_suggestion_def by (rule in_transaction_error)
  then show ?thesis by simp
next
  case (Inr r)
  then have d: "deploy_suggestion env i b s = (Inr r, snd (deploy_suggestion env i b s))" by (simp add: prod_eq_iff)
  obtain g s1 where "accepted (or_keep (dy_definition b) (sug_definition g))" "r = deployed_rule env b g s" "add_rule r s = Inr s1"
    "rules_of (snd (deploy_suggestion env i b s)) = rules_of s1"
    by (rule deploy_suggestionD [OF d]) (use put_suggestion_rules in metis)
  then show ?thesis using add_sound [of r s s1] by simp
qed

lemma dismiss_sound: "sound_change (rules_of s) (rules_of (snd (dismiss_suggestion env i r s)))"
  unfolding dismiss_suggestion_def
  by (rule in_transaction_snd) (auto simp: bad_request_def bind_r_Inr_iff Let_def split: if_splits)

lemma serve_sound: "rules_wf (rules_of s) \<Longrightarrow> sound_change (rules_of s) (rules_of (serve env q s))"
  by (cases q) (simp_all add: serve_def create_sound update_sound delete_sound duplicate_sound import_sound deploy_sound dismiss_sound)

text \<open>C26. Whatever requests the rule endpoints serve, in any order and with any bodies, the table of rules
  stays well formed (names and identifiers are unique, names fit their column, every stored definition is
  one the validator accepts) and the shipped rules keep their identifier, name, description and
  definition: none is removed, rewritten or joined by another.\<close>

theorem rules_requests_safe:
  assumes "rules_wf (rules_of s)"
  shows "rules_wf (rules_of (serve_all qs s)) \<and> shipped (rules_of (serve_all qs s)) = shipped (rules_of s)"
  using assms
proof (induction qs arbitrary: s)
  case (Cons p qs)
  obtain env q where p: "p = (env, q)" by (cases p)
  have "rules_wf (rules_of (serve env q s)) \<and> shipped (rules_of (serve env q s)) = shipped (rules_of s)"
    using serve_sound [OF Cons.prems] Cons.prems by (simp add: sound_change_def)
  then show ?case using Cons.IH [of "serve env q s"] by (simp add: serve_all_def p)
qed (simp add: serve_all_def)


section \<open>Export and import\<close>

lemma entry_of_new [simp]: "export_entry (new_rule i (rb_name e) e) = e"
  by (simp add: export_entry_def new_rule_def)

lemma import_fresh:
  assumes "distinct (map rb_name es)" "\<forall>e\<in>set es. accepted (rb_definition e) \<and> py_len (rb_name e) \<le> 120"
    "rb_name ` set es \<inter> ru_name ` set (rules_of (ia_db a)) = {}" "minted_known a"
    "ru_id ` set (rules_of (ia_db a)) \<subseteq> rq_new_id env ` {..<ia_ids a}"
    "inj_on (rq_new_id env) {..<ia_ids a + length es}" "\<forall>r\<in>set (rules_of (ia_db a)). \<not> ru_is_builtin r"
  shows "\<exists>a'. import_entries env c es a = Inr a' \<and> ia_created a' = ia_created a + length es
    \<and> map export_entry (rules_of (ia_db a')) = map export_entry (rules_of (ia_db a)) @ es
    \<and> (\<forall>r\<in>set (rules_of (ia_db a')). \<not> ru_is_builtin r)"
  using assms
proof (induction es arbitrary: a)
  case (Cons e es)
  let ?i = "rq_new_id env (ia_ids a)"
  let ?s = "put_rules (rules_of (ia_db a) @ [new_rule ?i (rb_name e) e]) (ia_db a)"
  let ?a = "report_entry (rb_name e) (rb_name e) ''created'' (Some ?i) None
    (a\<lparr>ia_db := ?s, ia_minted := rb_name e # ia_minted a, ia_ids := Suc (ia_ids a), ia_created := Suc (ia_created a)\<rparr>)"
  have n: "rb_name e \<notin> ru_name ` set (rules_of (ia_db a))" using Cons.prems(3) by auto
  have m: "rb_name e \<notin> set (ia_minted a)" using Cons.prems(4) n by (auto simp: minted_known_def)
  have i: "?i \<notin> ru_id ` set (rules_of (ia_db a))"
  proof
    assume "?i \<in> ru_id ` set (rules_of (ia_db a))"
    then obtain k where "k < ia_ids a" "?i = rq_new_id env k" using Cons.prems(5) by auto
    then have "ia_ids a = k" using inj_onD [OF Cons.prems(6), of "ia_ids a" k] by simp
    then show False using \<open>k < ia_ids a\<close> by simp
  qed
  have add: "add_rule (new_rule ?i (rb_name e) e) (ia_db a) = Inr ?s"
    using n i Cons.prems(2) by (auto simp: add_rule_def get_by_name_None get_rule_row_def table_find_None_iff)
  obtain d where "check_definition (rb_definition e) = Inr d" using Cons.prems(2) by (auto simp: accepted_def)
  then have one: "import_entry env c e a = Inr ?a"
    using n m add by (simp add: import_entry_def mint_def Let_def get_by_name_None)
  have names: "rb_name ` set es \<inter> ru_name ` set (rules_of (ia_db ?a)) = {}" using Cons.prems(1,3) by auto
  have ids: "ru_id ` set (rules_of (ia_db ?a)) \<subseteq> rq_new_id env ` {..<ia_ids ?a}" using Cons.prems(5) by (auto simp: lessThan_Suc)
  have known: "minted_known ?a" using Cons.prems(4) by (auto simp: minted_known_def)
  obtain a' where "import_entries env c es ?a = Inr a'" "ia_created a' = ia_created ?a + length es"
    "map export_entry (rules_of (ia_db a')) = map export_entry (rules_of (ia_db ?a)) @ es" "\<forall>r\<in>set (rules_of (ia_db a')). \<not> ru_is_builtin r"
    using Cons.IH [OF _ _ names known ids] Cons.prems(1,2,6,7) by auto
  then show ?case by (simp add: one)
qed simp

lemma map_sort_key: "map f (sort_key (\<lambda>x. g (f x)) xs) = sort_key g (map f xs)"
proof (induction xs)
  case (Cons x xs)
  have "map f (insort_key (\<lambda>x. g (f x)) x ys) = insort_key g (f x) (map f ys)" for ys by (induction ys) auto
  then show ?case using Cons by simp
qed simp

definition bundle_order :: "rule_body list \<Rightarrow> rule_body list" where
  "bundle_order es = sort_key rb_priority (sort_key rb_name es)"

lemma exported_entries:
  "map export_entry (filter (\<lambda>r. \<not> ru_is_builtin r) (list_all_rules s)) = bundle_order (map export_entry (filter (\<lambda>r. \<not> ru_is_builtin r) (rules_of s)))"
proof -
  have k: "(\<lambda>r. rb_priority (export_entry r)) = ru_priority" "(\<lambda>r. rb_name (export_entry r)) = ru_name" by (simp_all add: export_entry_def fun_eq_iff)
  show ?thesis
    using map_sort_key [of export_entry rb_priority] map_sort_key [of export_entry rb_name]
    by (simp add: bundle_order_def list_all_rules_def filter_sort k)
qed

lemma bundle_order_twice: "distinct (map rb_name es) \<Longrightarrow> bundle_order (bundle_order es) = bundle_order es"
proof -
  assume d: "distinct (map rb_name es)"
  have "sort_key rb_name (bundle_order es) = sort_key rb_name es"
    by (rule sort_key_inj_key_eq) (use d in \<open>auto simp: bundle_order_def distinct_map\<close>)
  then show ?thesis by (simp add: bundle_order_def)
qed

text \<open>C28. An export restores: importing the bundle of a well-formed installation into one without rules, under
  any conflict strategy and with fresh identifiers, creates every entry, gives back exactly the exported
  rules (names, descriptions, flags, priorities and definitions), and exporting again gives the same
  bundle with its own time stamp.\<close>

theorem export_import_restores:
  assumes wf: "rules_wf (rules_of s)" and ex: "export_rules now False s = Inr b" and t: "rules_of t = []"
    and c: "c \<in> {''skip'', ''rename'', ''overwrite''}" and ids: "inj_on (rq_new_id env) {..<length (bu_rules b)}"
  shows "\<exists>a t'. import_rules env c b t = (Inr a, t') \<and> ia_created a = length (bu_rules b)
    \<and> map export_entry (rules_of t') = bu_rules b \<and> export_rules later False t' = Inr (b\<lparr>bu_exported_at := later\<rparr>)"
proof -
  let ?custom = "filter (\<lambda>r. \<not> ru_is_builtin r) (rules_of s)"
  let ?es = "map export_entry ?custom"
  have b: "bu_rules b = bundle_order ?es" "bu_version b = ''1''" "list_all export_entry_ok (bu_rules b)"
    using ex by (auto simp: export_rules_def exported_entries Let_def split: if_splits)
  have names: "map rb_name ?es = map ru_name ?custom" by (simp add: export_entry_def)
  have d: "distinct (map rb_name ?es)"
    unfolding names using wf unique_keys_filter [of ru_name "rules_of s"] by (simp add: rules_wf_def unique_keys_def)
  then have d': "distinct (map rb_name (bu_rules b))" 
  proof -
    have "mset (map rb_name (bu_rules b)) = mset (map rb_name ?es)" by (simp add: b(1) bundle_order_def multiset.map_comp)
    then show ?thesis using d mset_eq_imp_distinct_iff by blast
  qed
  have ok: "\<forall>e\<in>set (bu_rules b). accepted (rb_definition e) \<and> py_len (rb_name e) \<le> 120"
    using wf by (auto simp: b(1) bundle_order_def export_entry_def rules_wf_def)
  obtain a where a: "import_entries env c (bu_rules b) (empty_import t) = Inr a" "ia_created a = length (bu_rules b)"
    "map export_entry (rules_of (ia_db a)) = bu_rules b" "\<forall>r\<in>set (rules_of (ia_db a)). \<not> ru_is_builtin r"
    using import_fresh [OF d' ok, of "empty_import t" env c] t ids by auto
  have "filter (\<lambda>r. \<not> ru_is_builtin r) (rules_of (ia_db a)) = rules_of (ia_db a)" using a(4) by simp
  then have "map export_entry (filter (\<lambda>r. \<not> ru_is_builtin r) (list_all_rules (ia_db a))) = bu_rules b"
    using bundle_order_twice [OF d] by (simp add: exported_entries a(3) b(1))
  then have "export_rules later False (ia_db a) = Inr (b\<lparr>bu_exported_at := later\<rparr>)" using b(2,3) by (simp add: export_rules_def Let_def)
  moreover have "import_rules env c b t = (Inr a, ia_db a)"
    using c b(2,3) a(1) by (auto simp: import_rules_def in_transaction_def)
  ultimately show ?thesis using a(2,3) by blast
qed

text \<open>One malformed entry can reject a whole bundle: where a condition on \<open>vt_status\<close> compares with a list,
  the validator raises a \<open>TypeError\<close>, which the import does not catch, so the request fails and none of the
  other entries is imported.\<close>

theorem unhashable_entry_aborts_import:
  assumes "e \<in> set (bu_rules b)" "rb_definition e = Some d"
    "rd_match d = Leaf \<lparr>cond_field = ''vt_status'', cond_op = ''eq'', cond_value = PyList xs\<rparr>"
  shows "\<exists>x. import_rules env c b s = (Inl x, s)"
proof -
  have bad: "check_definition (rb_definition e) = Inl TypeError"
    using assms(2,3) by (simp add: check_definition_def model_validate_def validate_condition_def validate_field_def
        validate_op_def validate_value_def ops_for_field_def vocabulary_defs)
  have "import_entries env c es a \<noteq> Inr a'" if "e \<in> set es" for es a a'
    using that
  proof (induction es arbitrary: a)
    case (Cons y es)
    show ?case
    proof
      assume "import_entries env c (y # es) a = Inr a'"
      then obtain m where m: "import_entry env c y a = Inr m" "import_entries env c es m = Inr a'" by (auto simp: bind_r_Inr_iff)
      have "y \<noteq> e" using m(1) bad by (auto simp: import_entry_def)
      then show False using Cons m(2) by auto
    qed
  qed simp
  then have "import_entries env c (bu_rules b) (empty_import s) \<noteq> Inr a'" for a' using assms(1) by blast
  then obtain x where "import_entries env c (bu_rules b) (empty_import s) = Inl x" by (meson obj_sumE)
  then show ?thesis by (auto simp: import_rules_def in_transaction_def bad_request_def)
qed

section \<open>The lifecycle of suggestions\<close>

definition status_step :: "rule_suggestion \<Rightarrow> rule_suggestion \<Rightarrow> bool" where
  "status_step g h = (sug_id h = sug_id g
     \<and> (sug_status h = sug_status g \<or> sug_status g = ''pending'' \<and> sug_status h = ''deployed''
        \<or> sug_status g \<noteq> ''deployed'' \<and> sug_status h = ''dismissed''))"

definition lifecycle :: "rules_db \<Rightarrow> rules_db \<Rightarrow> bool" where
  "lifecycle s s' = list_all2 status_step (rq_suggestions s) (rq_suggestions s')"

lemma lifecycle_same: "rq_suggestions s' = rq_suggestions s \<Longrightarrow> lifecycle s s'"
  by (simp add: lifecycle_def status_step_def list.rel_refl)

lemma lifecycle_refl [simp]: "lifecycle s s"
  by (rule lifecycle_same) simp

lemma lifecycle_trans: "lifecycle s t \<Longrightarrow> lifecycle t u \<Longrightarrow> lifecycle s u"
  unfolding lifecycle_def by (rule list_all2_trans) (auto simp: status_step_def)

lemma lifecycle_put:
  assumes "unique_keys sug_id (rq_suggestions s)" "get_suggestion i s = Inr g" "status_step g h"
    and s: "rq_suggestions s1 = rq_suggestions s"
  shows "lifecycle s (put_suggestion h s1)"
proof -
  have g: "g \<in> set (rq_suggestions s)"
    using assms(2) by (auto simp: get_suggestion_def split: option.splits dest: table_find_SomeD)
  have "list_all2 status_step ys (map (\<lambda>x. if sug_id x = sug_id h then h else x) ys)" if "set ys \<subseteq> set (rq_suggestions s)" for ys
    using that
  proof (induction ys)
    case (Cons y ys)
    have "y = g" if "sug_id y = sug_id h"
      using that assms(1,3) g Cons.prems by (auto simp: status_step_def unique_keys_def distinct_map inj_on_def)
    then show ?case using Cons assms(3) by (auto simp: status_step_def)
  qed simp
  then show ?thesis by (simp add: lifecycle_def put_suggestion_def s)
qed

lemma add_rule_suggestions: "add_rule r s = Inr s1 \<Longrightarrow> rq_suggestions s1 = rq_suggestions s"
  by (drule add_ruleD(1)) simp

lemma lifecycle_serve:
  assumes u: "unique_keys sug_id (rq_suggestions s)"
  shows "lifecycle s (serve env q s)"
proof (cases q)
  case (Create b)
  show ?thesis unfolding Create serve_def rules_request.case create_rule_def
    by (rule in_transaction_snd)
      (auto simp: bad_request_def bind_r_Inr_iff Let_def split: if_splits dest: add_rule_suggestions intro: lifecycle_same)
next
  case (Update i b)
  show ?thesis unfolding Update serve_def rules_request.case update_rule_def
    by (rule in_transaction_snd)
      (auto simp: bad_request_def bind_r_Inr_iff flush_rule_def split: if_splits option.splits intro: lifecycle_same)
next
  case (Remove i)
  have "list_all2 status_step ys (map (\<lambda>g. if sug_deployed_rule_id g = Some i then g\<lparr>sug_deployed_rule_id := None\<rparr> else g) ys)" for ys
    by (induction ys) (auto simp: status_step_def)
  then have "lifecycle s (drop_rule i s)" by (simp add: lifecycle_def drop_rule_def)
  then show ?thesis unfolding Remove serve_def rules_request.case by (simp add: delete_rule_def lifecycle_same split: option.split)
next
  case (Duplicate i)
  show ?thesis unfolding Duplicate serve_def rules_request.case duplicate_rule_def
    by (rule in_transaction_snd)
      (auto simp: bind_r_Inr_iff Let_def split: option.splits dest: add_rule_suggestions intro: lifecycle_same)
next
  case (Import c b)
  show ?thesis unfolding Import serve_def rules_request.case import_rules_def
    by (rule in_transaction_snd)
      (auto simp: bad_request_def bind_r_Inr_iff imported_def split: if_splits dest!: import_entries_imported intro: lifecycle_same)
next
  case (Deploy i b)
  show ?thesis
  proof (cases "fst (deploy_suggestion env i b s)")
    case (Inl e)
    then have "snd (deploy_suggestion env i b s) = s" unfolding deploy_suggestion_def by (rule in_transaction_error)
    then show ?thesis by (simp add: Deploy serve_def lifecycle_same)
  next
    case (Inr r)
    then have d: "deploy_suggestion env i b s = (Inr r, snd (deploy_suggestion env i b s))" by (simp add: prod_eq_iff)
    show ?thesis
    proof (rule deploy_suggestionD [OF d])
      fix g s1
      assume "get_suggestion i s = Inr g" "sug_status g = ''pending''" "add_rule r s = Inr s1"
        "snd (deploy_suggestion env i b s) = put_suggestion (g\<lparr>sug_status := ''deployed'', sug_deployed_rule_id := Some (ru_id r), sug_deployed_at := Some (rq_now env)\<rparr>) s1"
      then show ?thesis
        by (simp add: Deploy serve_def) (rule lifecycle_put [OF u], auto simp: status_step_def dest: add_rule_suggestions)
    qed
  qed
next
  case (Dismiss i r)
  show ?thesis unfolding Dismiss serve_def rules_request.case dismiss_suggestion_def
    by (rule in_transaction_snd)
      (auto simp: bad_request_def bind_r_Inr_iff Let_def status_step_def split: if_splits intro!: lifecycle_put [OF u])
qed

lemma lifecycle_ids: "lifecycle s s' \<Longrightarrow> map sug_id (rq_suggestions s') = map sug_id (rq_suggestions s)"
  unfolding lifecycle_def by (induction rule: list_all2_induct) (auto simp: status_step_def)

text \<open>Over any sequence of requests every suggestion stays, and its status only moves from pending to
  deployed or to dismissed: a deployed suggestion is deployed for good.\<close>

theorem suggestion_lifecycle:
  assumes "unique_keys sug_id (rq_suggestions s)"
  shows "list_all2 status_step (rq_suggestions s) (rq_suggestions (serve_all qs s))"
proof -
  have "lifecycle s (serve_all qs s)" using assms
  proof (induction qs arbitrary: s)
    case (Cons p qs)
    obtain env q where p: "p = (env, q)" by (cases p)
    have one: "lifecycle s (serve env q s)" using lifecycle_serve [OF Cons.prems] .
    then have "unique_keys sug_id (rq_suggestions (serve env q s))" using Cons.prems lifecycle_ids [OF one] by (simp add: unique_keys_def)
    then show ?case using lifecycle_trans [OF one Cons.IH] by (simp add: serve_all_def p)
  qed (simp add: serve_all_def lifecycle_same)
  then show ?thesis by (simp add: lifecycle_def)
qed

section \<open>The vocabulary\<close>

text \<open>The rule builder offers exactly what the validator accepts: a field and an operator are on
  offer together precisely when a condition with them passes the field and operator checks.\<close>

theorem vocabulary_exact:
  "(validate_field f = Inr () \<and> validate_op f oper = Inr ()) \<longleftrightarrow>
   (\<exists>v\<in>set vocabulary_fields. vf_key v = f \<and> (\<exists>ops. map_of ops_by_type (vf_type v) = Some ops \<and> oper \<in> set ops))"
proof -
  have "map_of ops_by_type (type_for f) = Some (sort (ops_for_field f))"
    by (simp add: ops_by_type_def type_for_def ops_for_field_def)
  then show ?thesis by (auto simp: vocabulary_fields_def validate_field_def validate_op_def)
qed

section \<open>Witnesses\<close>

definition sample_rule :: "string \<Rightarrow> bool \<Rightarrow> rule" where
  "sample_rule n builtin = \<lparr>ru_id = n, ru_name = n, ru_description = None, ru_enabled = True, ru_priority = 100,
     ru_definition = Some (label_rule ''width'' ''gte'' (PyInt 3800) ''warn'' ''big''), ru_is_builtin = builtin,
     ru_last_evaluated_at = None, ru_last_match_count = 0\<rparr>"

definition no_store :: store where
  "no_store = \<lparr>st_media = [], st_tags = [], st_rules = [], st_evals = [], st_windows = [], st_opt = [], st_profiles = [],
     st_vt_queue = [], st_integrations = [], st_channels = [], st_deliveries = [], st_audit = [], st_events = [], st_files = [], st_libraries = []\<rparr>"

definition sample_rules_db :: "rule list \<Rightarrow> rules_db" where
  "sample_rules_db rs = \<lparr>rq_store = no_store\<lparr>st_rules := rs\<rparr>, rq_suggestions = []\<rparr>"

definition sample_rules_env :: rules_env where
  "sample_rules_env = \<lparr>rq_new_id = (\<lambda>k. replicate k (CHR ''i'')), rq_now = 0, rq_now_short = ''20260101-000000''\<rparr>"

definition two_rules :: rules_db where
  "two_rules = sample_rules_db [sample_rule ''shipped'' True, sample_rule ''mine'' False]"

lemma two_rules_wf: "rules_wf (rules_of two_rules)"
proof -
  have "accepted (Some (label_rule ''width'' ''gte'' (PyInt 3800) ''warn'' ''big''))" unfolding accepted_def
    by (rule exI [of _ "label_rule ''width'' ''gte'' (PyInt 3800) ''warn'' ''big''"]) code_simp
  then show ?thesis
    by (simp add: rules_wf_def two_rules_def sample_rules_db_def rules_of_def sample_rule_def unique_keys_def py_len_def)
qed

theorem rules_requests_safe_witness:
  "rules_wf (rules_of (serve_all [(sample_rules_env, Remove ''shipped''), (sample_rules_env, Duplicate ''mine'')] two_rules))"
  using rules_requests_safe [OF two_rules_wf] by blast



theorem export_import_restores_witness:
  "\<exists>a t'. import_rules sample_rules_env ''rename'' \<lparr>bu_version = ''1'', bu_exported_at = 7, bu_rules = [export_entry (sample_rule ''mine'' False)]\<rparr> (sample_rules_db []) = (Inr a, t')
     \<and> map export_entry (rules_of t') = [export_entry (sample_rule ''mine'' False)]"
proof -
  let ?b = "\<lparr>bu_version = ''1'', bu_exported_at = 7, bu_rules = [export_entry (sample_rule ''mine'' False)]\<rparr>"
  have e: "export_rules 7 False two_rules = Inr ?b"
    by (simp add: export_rules_def list_all_rules_def two_rules_def sample_rules_db_def rules_of_def sample_rule_def export_entry_def
        export_entry_ok_def name_ok_def priority_ok_def py_len_def filter_sort)
  have i: "inj_on (rq_new_id sample_rules_env) {..<length (bu_rules ?b)}" by (rule inj_onI) simp
  show ?thesis
    using export_import_restores [OF two_rules_wf e _ _ i, of "sample_rules_db []" "''rename''" 8] by (auto simp: sample_rules_db_def rules_of_def)
qed

definition bad_entry :: rule_body where
  "bad_entry = \<lparr>rb_name = ''vt'', rb_description = None, rb_enabled = True, rb_priority = 1,
     rb_definition = Some (label_rule ''vt_status'' ''eq'' (PyList [PyStr ''malicious'']) ''crit'' ''vt'')\<rparr>"

theorem unhashable_entry_aborts_import_witness:
  "\<exists>x. import_rules sample_rules_env ''rename'' \<lparr>bu_version = ''1'', bu_exported_at = 7, bu_rules = [export_entry (sample_rule ''new'' False), bad_entry]\<rparr> two_rules
     = (Inl x, two_rules)"
  by (rule unhashable_entry_aborts_import [where e = bad_entry and xs = "[PyStr ''malicious'']"
        and d = "label_rule ''vt_status'' ''eq'' (PyList [PyStr ''malicious'']) ''crit'' ''vt''"]) (simp_all add: bad_entry_def label_rule_def)

theorem suggestion_lifecycle_witness:
  "list_all2 status_step (rq_suggestions two_rules) (rq_suggestions (serve_all [(sample_rules_env, Dismiss ''g'' None)] two_rules))"
  by (rule suggestion_lifecycle) (simp add: two_rules_def sample_rules_db_def unique_keys_def)

end
