(* ===== verification/SourceWhitelist.thy ===== *)
theory SourceWhitelist
  imports Prelude "HOL-Library.Word"
begin

text \<open>
  The source whitelist of the webhook receiver (\<open>app/api/v1/webhooks.py\<close>) with what it uses of
  Python's \<open>ipaddress\<close> module: IPv4 addresses are 32-bit words, a network is an address and a
  mask, and membership is the bitwise test.  Parameters (\<open>net_env\<close>): the IPv6 halves of the
  module, whose addresses stay opaque, name resolution, and \<open>str\<close> of a value that is not a string.
\<close>

section \<open>IPv4\<close>

fun split_char :: "char \<Rightarrow> string \<Rightarrow> string list" where
  "split_char d [] = [[]]"
| "split_char d (c # cs) =
     (if c = d then [] # split_char d cs
      else case split_char d cs of [] \<Rightarrow> [[c]] | w # ws \<Rightarrow> (c # w) # ws)"

definition is_digit :: "char \<Rightarrow> bool" where
  "is_digit c = (48 \<le> (of_char c :: nat) \<and> (of_char c :: nat) \<le> 57)"

definition digits_value :: "string \<Rightarrow> nat" where
  "digits_value s = fold (\<lambda>c n. 10 * n + (of_char c - 48)) s 0"

text \<open>\<open>_parse_octet\<close>: at most three digits, no leading zero, at most 255.\<close>

definition parse_octet :: "string \<Rightarrow> nat option" where
  "parse_octet s =
     (if s = [] \<or> \<not> list_all is_digit s \<or> length s > 3 then None
      else if s \<noteq> ''0'' \<and> hd s = CHR ''0'' then None
      else if digits_value s > 255 then None
      else Some (digits_value s))"

definition join_octets :: "nat \<Rightarrow> nat \<Rightarrow> nat \<Rightarrow> nat \<Rightarrow> 32 word" where
  "join_octets a b c d = ((of_nat a * 256 + of_nat b) * 256 + of_nat c) * 256 + of_nat d"

definition ipv4_address :: "string \<Rightarrow> 32 word option" where
  "ipv4_address s =
     (case map parse_octet (split_char (CHR ''.'') s) of
        [Some a, Some b, Some c, Some d] \<Rightarrow> Some (join_octets a b c d)
      | _ \<Rightarrow> None)"

definition netmask :: "nat \<Rightarrow> 32 word" where
  "netmask n = not (mask (32 - n))"

text \<open>A mask is a run of ones; a mask that is not is read as a host mask, its complement.\<close>

definition prefix_of_mask :: "32 word \<Rightarrow> nat option" where
  "prefix_of_mask w = find (\<lambda>n. netmask n = w) [0..<33]"

definition make_netmask :: "string \<Rightarrow> nat option" where
  "make_netmask s =
     (if s \<noteq> [] \<and> list_all is_digit s \<and> digits_value s \<le> 32 then Some (digits_value s)
      else case ipv4_address s of
        None \<Rightarrow> None
      | Some w \<Rightarrow> (case prefix_of_mask w of Some n \<Rightarrow> Some n | None \<Rightarrow> prefix_of_mask (not w)))"

record ipv4_network =
  n4_address :: "32 word"
  n4_prefixlen :: nat

text \<open>\<open>IPv4Network(entry, strict=False)\<close>: host bits are cleared.\<close>

definition ipv4_network_of :: "string \<Rightarrow> ipv4_network option" where
  "ipv4_network_of s =
     (case split_char (CHR ''/'') s of
        [a, m] \<Rightarrow> (case (ipv4_address a, make_netmask m) of
            (Some w, Some n) \<Rightarrow> Some \<lparr>n4_address = and w (netmask n), n4_prefixlen = n\<rparr>
          | _ \<Rightarrow> None)
      | _ \<Rightarrow> None)"

definition in_ipv4_network :: "32 word \<Rightarrow> ipv4_network \<Rightarrow> bool" where
  "in_ipv4_network w n = (and w (netmask (n4_prefixlen n)) = n4_address n)"

section \<open>Addresses and networks of either version\<close>

datatype ip_addr = V4 "32 word" | V6 nat

record net_env =
  ne_ip6 :: "string \<Rightarrow> nat option"
  ne_net6 :: "string \<Rightarrow> (nat \<Rightarrow> bool) option"
  ne_resolve :: "string \<Rightarrow> string list option"
  ne_str :: "pyval \<Rightarrow> string"

definition ip_address :: "net_env \<Rightarrow> string \<Rightarrow> ip_addr option" where
  "ip_address env s = (case ipv4_address s of Some w \<Rightarrow> Some (V4 w) | None \<Rightarrow> map_option V6 (ne_ip6 env s))"

text \<open>\<open>ip_network\<close>, as the membership test of its result; an address of the other version is in no
  network.\<close>

definition ip_network :: "net_env \<Rightarrow> string \<Rightarrow> (ip_addr \<Rightarrow> bool) option" where
  "ip_network env s =
     (case ipv4_network_of s of
        Some n \<Rightarrow> Some (\<lambda>a. case a of V4 w \<Rightarrow> in_ipv4_network w n | V6 _ \<Rightarrow> False)
      | None \<Rightarrow> (case ne_net6 env s of
          Some p \<Rightarrow> Some (\<lambda>a. case a of V4 _ \<Rightarrow> False | V6 k \<Rightarrow> p k)
        | None \<Rightarrow> None))"

section \<open>The whitelist\<close>

text \<open>\<open>str(x or "")\<close>.\<close>

definition str_or_empty :: "net_env \<Rightarrow> pyval \<Rightarrow> string" where
  "str_or_empty env v = (if \<not> py_truthy v then [] else case v of PyStr s \<Rightarrow> s | _ \<Rightarrow> ne_str env v)"

definition is_client :: "net_env \<Rightarrow> ip_addr option \<Rightarrow> string \<Rightarrow> bool" where
  "is_client env client s = (case ip_address env s of None \<Rightarrow> False | Some a \<Rightarrow> client = Some a)"

definition entry_matches :: "net_env \<Rightarrow> ip_addr option \<Rightarrow> string \<Rightarrow> bool" where
  "entry_matches env client entry =
     (if entry = [] then False
      else if CHR ''/'' \<in> set entry
      then (case (ip_network env entry, client) of (Some net, Some a) \<Rightarrow> net a | _ \<Rightarrow> False)
      else if ip_address env entry \<noteq> None then is_client env client entry
      else (case ne_resolve env entry of
              None \<Rightarrow> False
            | Some found \<Rightarrow> list_ex (is_client env client) found))"

definition matches_source_whitelist :: "net_env \<Rightarrow> string \<Rightarrow> pyval \<Rightarrow> bool" where
  "matches_source_whitelist env host whitelist =
     (host \<noteq> [] \<and> (case whitelist of
        PyList entries \<Rightarrow> list_ex (\<lambda>e. entry_matches env (ip_address env host) (py_strip (str_or_empty env e))) entries
      | _ \<Rightarrow> False))"

section \<open>Networks by prefix\<close>

lemma same_prefix:
  fixes w v :: "32 word"
  shows "and w (netmask n) = and v (netmask n) \<longleftrightarrow> drop_bit (32 - n) w = drop_bit (32 - n) v"
proof
  assume m: "and w (netmask n) = and v (netmask n)"
  show "drop_bit (32 - n) w = drop_bit (32 - n) v"
  proof (rule bit_eqI)
    fix k assume "possible_bit TYPE(32 word) k"
    have "bit (and w (netmask n)) (32 - n + k) = bit (and v (netmask n)) (32 - n + k)" by (simp add: m)
    then show "bit (drop_bit (32 - n) w) k = bit (drop_bit (32 - n) v) k"
      by (auto simp: netmask_def bit_simps dest: bit_imp_le_length)
  qed
next
  assume d: "drop_bit (32 - n) w = drop_bit (32 - n) v"
  show "and w (netmask n) = and v (netmask n)"
  proof (rule bit_eqI)
    fix k assume "possible_bit TYPE(32 word) k"
    have "bit (drop_bit (32 - n) w) (k - (32 - n)) = bit (drop_bit (32 - n) v) (k - (32 - n))" by (simp add: d)
    then show "bit (and w (netmask n)) k = bit (and v (netmask n)) k"
      by (auto simp: netmask_def bit_simps)
  qed
qed

lemma netmask_idem: "and (and w (netmask n)) (netmask n) = and w (netmask n)"
  by (simp add: bit_eq_iff bit_simps)

lemma in_network_prefix:
  assumes "n4_address net = and a (netmask (n4_prefixlen net))"
  shows "in_ipv4_network w net \<longleftrightarrow> drop_bit (32 - n4_prefixlen net) w = drop_bit (32 - n4_prefixlen net) a"
  by (simp add: in_ipv4_network_def assms same_prefix)

end
