(* ===== verification/Webhooks.thy ===== *)
theory Webhooks
  imports SourceWhitelist PathMapping Secrets Scanner
begin

text \<open>
  Inbound webhooks: the receiver (\<open>app/api/v1/webhooks.py\<close>), the secret it verifies
  (\<open>generate_webhook_secret\<close> of \<open>app/api/v1/integrations.py\<close>) and the dispatcher
  (\<open>app/services/webhook_dispatcher.py\<close>).  A request runs in one transaction: an exception undoes its
  writes, but events already on the bus stay.  Parameters (\<open>hook_env\<close>): the scanner's, the
  secret box and its nonce, HMAC-SHA256, the JSON parser, the network, whether a path is on disk and the
  random token of a new secret.
\<close>

section \<open>Event extraction\<close>

text \<open>\<open>x.get(k)\<close> on a value that may not be a dict.\<close>

definition get_key :: "pyval \<Rightarrow> string \<Rightarrow> pyval result" where
  "get_key v k = (case v of PyDict d \<Rightarrow> Inr (dict_get d k) | _ \<Rightarrow> Inl AttributeError)"

definition or_empty :: "pyval \<Rightarrow> pyval" where
  "or_empty v = (if py_truthy v then v else PyDict [])"

text \<open>The path an entry names, if it is a dict with one.\<close>

definition entry_path :: "net_env \<Rightarrow> string \<Rightarrow> pyval \<Rightarrow> string list" where
  "entry_path env key v =
     (case v of PyDict d \<Rightarrow> if py_truthy (dict_get d key) then [str_or_empty env (dict_get d key)] else [] | _ \<Rightarrow> [])"

definition event_name :: "net_env \<Rightarrow> pyval \<Rightarrow> string" where
  "event_name env v = py_strip (str_or_empty env v)"

definition given_paths :: "string list \<Rightarrow> string list" where
  "given_paths ps = filter (\<lambda>p. p \<noteq> []) ps"

definition extract_sonarr :: "net_env \<Rightarrow> pyval \<Rightarrow> (string \<times> string list) result" where
  "extract_sonarr env payload =
     bind_r (get_key payload ''eventType'') (\<lambda>event.
     bind_r (get_key payload ''episodeFile'') (\<lambda>ef.
     bind_r (get_key payload ''episodeFiles'') (\<lambda>efs.
     bind_r (each_of efs) (\<lambda>entries.
       Inr (event_name env event, given_paths (entry_path env ''path'' ef @ concat (map (entry_path env ''path'') entries)))))))"

definition extract_radarr :: "net_env \<Rightarrow> pyval \<Rightarrow> (string \<times> string list) result" where
  "extract_radarr env payload =
     bind_r (get_key payload ''eventType'') (\<lambda>event.
     bind_r (get_key payload ''movieFile'') (\<lambda>file.
       Inr (event_name env event, given_paths (entry_path env ''path'' file))))"

definition plex_parts :: "net_env \<Rightarrow> pyval \<Rightarrow> string list result" where
  "plex_parts env media =
     bind_r (get_key (or_empty media) ''Part'') (\<lambda>part.
     bind_r (each_of part) (\<lambda>parts. Inr (concat (map (entry_path env ''file'') parts))))"

definition extract_plex :: "net_env \<Rightarrow> pyval \<Rightarrow> (string \<times> string list) result" where
  "extract_plex env payload =
     bind_r (get_key payload ''event'') (\<lambda>event.
     bind_r (get_key payload ''Metadata'') (\<lambda>metadata.
     bind_r (get_key (or_empty metadata) ''Media'') (\<lambda>media.
     bind_r (each_of media) (\<lambda>entries.
     bind_r (map_r (plex_parts env) entries) (\<lambda>paths.
       Inr (event_name env event, given_paths (concat paths)))))))"

definition extract_jellyfin :: "net_env \<Rightarrow> pyval \<Rightarrow> (string \<times> string list) result" where
  "extract_jellyfin env payload =
     bind_r (get_key payload ''NotificationType'') (\<lambda>event.
     bind_r (get_key payload ''Item'') (\<lambda>item.
       Inr (event_name env event, given_paths (entry_path env ''Path'' item))))"

definition EXTRACTORS :: "(string \<times> (net_env \<Rightarrow> pyval \<Rightarrow> (string \<times> string list) result)) list" where
  "EXTRACTORS = [(''sonarr'', extract_sonarr), (''radarr'', extract_radarr), (''plex'', extract_plex),
     (''jellyfin'', extract_jellyfin)]"

datatype hook_action = Reprobe | Remove | Ignored

definition ACTIONS :: "((string \<times> string) \<times> hook_action) list" where
  "ACTIONS =
     [((''sonarr'', ''Download''), Reprobe), ((''sonarr'', ''Rename''), Reprobe), ((''sonarr'', ''EpisodeFileDelete''), Remove),
      ((''radarr'', ''Download''), Reprobe), ((''radarr'', ''Rename''), Reprobe), ((''radarr'', ''MovieFileDelete''), Remove),
      ((''plex'', ''library.new''), Reprobe),
      ((''jellyfin'', ''ItemAdded''), Reprobe), ((''jellyfin'', ''ItemUpdated''), Reprobe), ((''jellyfin'', ''ItemRemoved''), Remove)]"

definition action_for :: "string \<Rightarrow> string \<Rightarrow> hook_action" where
  "action_for kind event = (case map_of ACTIONS (kind, event) of None \<Rightarrow> Ignored | Some a \<Rightarrow> a)"

section \<open>The dispatcher\<close>

datatype json_answer = Parsed pyval | JsonError | NotText

record hook_env =
  hk_net :: net_env
  hk_scan :: scan_env
  hk_on_disk :: "string \<Rightarrow> bool"
  hk_crypto :: crypto
  hk_nonce :: string
  hk_token :: string
  hk_hmac :: "string \<Rightarrow> string \<Rightarrow> string"
  hk_json :: "string \<Rightarrow> json_answer"

record webhook_outcome =
  wo_kind :: string
  wo_event :: string
  wo_action :: hook_action
  wo_paths :: "string list"
  wo_detail :: string

text \<open>The default handlers.  \<open>ffprobe\<close> is whether the context carries a probe service: the scanner
  is built with \<open>None\<close> otherwise, and raises when a file on disk is probed.\<close>

definition reprobe_path :: "hook_env \<Rightarrow> bool \<Rightarrow> string \<Rightarrow> store \<Rightarrow> unit result \<times> store" where
  "reprobe_path env ffprobe path st =
     (case get_by_path path st of
        None \<Rightarrow> (Inr (), st)
      | Some m \<Rightarrow>
          if hk_on_disk env (mf_path m) \<and> \<not> ffprobe then (Inl AttributeError, st)
          else (Inr (), reprobe_one (hk_scan env) (hk_on_disk env) (mf_id m) st))"

definition remove_path :: "string \<Rightarrow> store \<Rightarrow> store" where
  "remove_path path st =
     (case get_by_path path st of
        None \<Rightarrow> st
      | Some m \<Rightarrow>
          emit True ''media.removed'' [(''media_id'', PyStr (mf_id m)), (''path'', PyStr path), (''source'', PyStr ''webhook'')] ''webhooks''
            (st\<lparr>st_media := map (\<lambda>x. if mf_id x = mf_id m then x\<lparr>mf_is_orphaned := True\<rparr> else x) (st_media st)\<rparr>))"

fun handle_paths :: "hook_env \<Rightarrow> bool \<Rightarrow> hook_action \<Rightarrow> string list \<Rightarrow> store \<Rightarrow> unit result \<times> store" where
  "handle_paths env ffprobe what [] st = (Inr (), st)"
| "handle_paths env ffprobe what (p # ps) st =
     (case what of
        Reprobe \<Rightarrow> (case reprobe_path env ffprobe p st of
            (Inl e, st1) \<Rightarrow> (Inl e, st1)
          | (Inr _, st1) \<Rightarrow> handle_paths env ffprobe what ps st1)
      | Remove \<Rightarrow> handle_paths env ffprobe what ps (remove_path p st)
      | Ignored \<Rightarrow> (Inr (), st))"

definition local_paths :: "integration \<Rightarrow> string list \<Rightarrow> string list" where
  "local_paths ig ps = map (\<lambda>p. remap_path p (parse_mappings (dict_get (ig_config ig) ''path_mappings''))) ps"

definition quoted_repr :: "string \<Rightarrow> string" where
  "quoted_repr s = [CHR 0x27] @ s @ [CHR 0x27]"

definition dispatch_hook ::
    "hook_env \<Rightarrow> bool \<Rightarrow> string \<Rightarrow> pyval \<Rightarrow> integration \<Rightarrow> store \<Rightarrow> webhook_outcome result \<times> store" where
  "dispatch_hook env ffprobe kind payload ig st =
     (case map_of EXTRACTORS kind of
        None \<Rightarrow> (Inr \<lparr>wo_kind = kind, wo_event = [], wo_action = Ignored, wo_paths = [],
                     wo_detail = ''unknown kind '' @ quoted_repr kind\<rparr>, st)
      | Some extractor \<Rightarrow>
          (case extractor (hk_net env) payload of
             Inl e \<Rightarrow> (Inl e, st)
           | Inr (event, upstream) \<Rightarrow>
               (let what = action_for kind event in
                if what = Ignored \<or> upstream = []
                then (Inr \<lparr>wo_kind = kind, wo_event = event, wo_action = Ignored, wo_paths = upstream, wo_detail = []\<rparr>, st)
                else (case handle_paths env ffprobe what (local_paths ig upstream) st of
                  (Inl e, st1) \<Rightarrow> (Inl e, st1)
                | (Inr _, st1) \<Rightarrow>
                    (Inr \<lparr>wo_kind = kind, wo_event = event, wo_action = what, wo_paths = local_paths ig upstream, wo_detail = []\<rparr>, st1)))))"

section \<open>The receiver\<close>

definition WEBHOOK_RECEIVER_KINDS :: "string list" where
  "WEBHOOK_RECEIVER_KINDS = [''sonarr'', ''radarr'', ''plex'', ''jellyfin'']"

text \<open>\<open>hd_secrets\<close> is the column \<open>webhook_secret_ciphertext\<close> of the rows that have one.\<close>

record hook_db =
  hd_store :: store
  hd_secrets :: "(string \<times> string) list"

record hook_request =
  hr_client :: "string option"
  hr_signature :: "string option"
  hr_body :: string

datatype hook_error = HttpError nat string | Raised pyerr

definition get_integration :: "string \<Rightarrow> store \<Rightarrow> integration option" where
  "get_integration i st = table_find ig_id i (st_integrations st)"

definition decrypt_secret :: "hook_env \<Rightarrow> string \<Rightarrow> string result" where
  "decrypt_secret env ct =
     (case decrypt_dict (hk_crypto env) ct of
        Inl _ \<Rightarrow> Inl ValueError
      | Inr d \<Rightarrow> Inr (case map_of d ''value'' of
          None \<Rightarrow> []
        | Some (PyStr s) \<Rightarrow> s
        | Some v \<Rightarrow> ne_str (hk_net env) v))"

definition NO_SECRET :: string where
  "NO_SECRET = ''No webhook secret configured for this integration. '' @ ''Generate one via ''
     @ ''POST /integrations/{id}/webhook-secret first.''"

definition is_ascii :: "string \<Rightarrow> bool" where
  "is_ascii s = list_all (\<lambda>c. (of_char c :: nat) < 128) s"

definition bare_signature :: "string \<Rightarrow> string" where
  "bare_signature s = (if prefix ''sha256='' s then drop 7 s else s)"

text \<open>\<open>compare_digest\<close> refuses text that is not ASCII.\<close>

definition verify_signature :: "hook_env \<Rightarrow> string \<Rightarrow> string \<Rightarrow> string option \<Rightarrow> bool result" where
  "verify_signature env body secret header =
     (let sig = (case header of None \<Rightarrow> [] | Some h \<Rightarrow> h) in
      if sig = [] \<or> secret = [] then Inr False
      else let received = bare_signature (py_strip sig) in
           if \<not> is_ascii received then Inl TypeError else Inr (received = hk_hmac env secret body))"

definition read_payload :: "hook_env \<Rightarrow> string \<Rightarrow> pyval result" where
  "read_payload env body =
     (case hk_json env (if body = [] then ''{}'' else body) of
        Parsed v \<Rightarrow> Inr v
      | JsonError \<Rightarrow> Inr (PyDict [])
      | NotText \<Rightarrow> Inl ValueError)"

definition raised :: "'a result \<Rightarrow> hook_error + 'a" where
  "raised r = (case r of Inl e \<Rightarrow> Inl (Raised e) | Inr x \<Rightarrow> Inr x)"

definition bind_h :: "hook_error + 'a \<Rightarrow> ('a \<Rightarrow> hook_error + 'b) \<Rightarrow> hook_error + 'b" where
  "bind_h m f = (case m of Inl e \<Rightarrow> Inl e | Inr x \<Rightarrow> f x)"

text \<open>The checks before a payload is looked at, in their order.\<close>

definition admit ::
    "hook_env \<Rightarrow> string \<Rightarrow> string \<Rightarrow> hook_request \<Rightarrow> hook_db \<Rightarrow> hook_error + integration" where
  "admit env kind i req s =
     (if kind \<notin> set WEBHOOK_RECEIVER_KINDS then Inl (HttpError 404 (''Unsupported webhook kind '' @ quoted_repr kind))
      else case get_integration i (hd_store s) of
        None \<Rightarrow> Inl (HttpError 404 ''Integration not found'')
      | Some ig \<Rightarrow>
          (let wl = dict_get (ig_config ig) ''source_whitelist'' in
           if ig_kind ig \<noteq> kind
           then Inl (HttpError 400 (''Integration '' @ quoted_repr i @ '' is of kind '' @ quoted_repr (ig_kind ig) @ '', not '' @ quoted_repr kind))
           else if py_truthy wl \<and> \<not> matches_source_whitelist (hk_net env) (case hr_client req of None \<Rightarrow> [] | Some h \<Rightarrow> h) wl
           then Inl (HttpError 403 (''Source not in this integration'' @ [CHR 0x27] @ ''s whitelist.''))
           else case map_of (hd_secrets s) i of
             None \<Rightarrow> Inl (HttpError 401 NO_SECRET)
           | Some ct \<Rightarrow>
               if ct = [] then Inl (HttpError 401 NO_SECRET)
               else bind_h (raised (decrypt_secret env ct)) (\<lambda>secret.
                 bind_h (raised (verify_signature env (hr_body req) secret (hr_signature req))) (\<lambda>ok.
                   if ok then Inr ig else Inl (HttpError 401 ''Invalid or missing signature'')))))"

definition receive_webhook ::
    "hook_env \<Rightarrow> string \<Rightarrow> string \<Rightarrow> hook_request \<Rightarrow> hook_db \<Rightarrow> (hook_error + webhook_outcome) \<times> hook_db" where
  "receive_webhook env kind i req s =
     (case bind_h (admit env kind i req s) (\<lambda>ig. bind_h (raised (read_payload env (hr_body req))) (\<lambda>p. Inr (ig, p))) of
        Inl e \<Rightarrow> (Inl e, s)
      | Inr (ig, payload) \<Rightarrow>
          (case dispatch_hook env False kind payload ig (hd_store s) of
             (Inl e, st) \<Rightarrow> (Inl (Raised e), s\<lparr>hd_store := (hd_store s)\<lparr>st_events := st_events st\<rparr>\<rparr>)
           | (Inr out, st) \<Rightarrow> (Inr out, s\<lparr>hd_store := st\<rparr>)))"

section \<open>The secret\<close>

definition set_secret_of :: "string \<Rightarrow> string \<Rightarrow> hook_db \<Rightarrow> hook_db" where
  "set_secret_of i ct s = s\<lparr>hd_secrets := (i, ct) # filter (\<lambda>(k, _). k \<noteq> i) (hd_secrets s)\<rparr>"

definition generate_webhook_secret :: "hook_env \<Rightarrow> string \<Rightarrow> hook_db \<Rightarrow> string result \<times> hook_db" where
  "generate_webhook_secret env i s =
     (case get_integration i (hd_store s) of
        None \<Rightarrow> (Inl (NotFoundError ''Integration not found''), s)
      | Some ig \<Rightarrow>
          if ig_kind ig \<notin> set WEBHOOK_RECEIVER_KINDS
          then (Inl (ValidationError (''Integration kind '' @ quoted_repr (ig_kind ig) @ '' does not accept '' @ ''inbound webhooks. Supported kinds: ''
                 @ ''['' @ quoted_repr ''jellyfin'' @ '', '' @ quoted_repr ''plex'' @ '', '' @ quoted_repr ''radarr'' @ '', ''
                 @ quoted_repr ''sonarr'' @ ''].'')), s)
          else (Inr (hk_token env),
                set_secret_of i (encrypt_dict (hk_crypto env) (hk_nonce env) [(''value'', PyStr (hk_token env))]) s))"

end
