(* ===== verification/WebhookGuarantees.thy ===== *)
theory WebhookGuarantees
  imports Webhooks
begin

text \<open>
  What the webhook receiver guarantees: who is let in, what an accepted request does to the tables, and the
  requests that fail although they are authentic.
\<close>

section \<open>Who is let in\<close>

lemma bind_h_simps [simp]: "bind_h (Inl e) f = Inl e" "bind_h (Inr x) f = f x"
  by (simp_all add: bind_h_def)

lemma raised_simps [simp]: "raised (Inl e) = Inl (Raised e)" "raised (Inr x) = Inr x"
  by (simp_all add: raised_def)

lemma raised_Inr_iff: "raised r = Inr x \<longleftrightarrow> r = Inr x"
  by (cases r) simp_all

lemma bind_h_Inr_iff: "bind_h m f = Inr y \<longleftrightarrow> (\<exists>x. m = Inr x \<and> f x = Inr y)"
  by (cases m) auto

definition authentic :: "hook_env \<Rightarrow> string \<Rightarrow> string \<Rightarrow> hook_request \<Rightarrow> hook_db \<Rightarrow> integration \<Rightarrow> bool" where
  "authentic env kind i req s ig =
     (kind \<in> set WEBHOOK_RECEIVER_KINDS \<and> get_integration i (hd_store s) = Some ig \<and> ig_kind ig = kind
      \<and> (let wl = dict_get (ig_config ig) ''source_whitelist'' in
         \<not> py_truthy wl \<or> (\<exists>host. hr_client req = Some host \<and> matches_source_whitelist (hk_net env) host wl))
      \<and> (\<exists>ct secret h. map_of (hd_secrets s) i = Some ct \<and> ct \<noteq> [] \<and> decrypt_secret env ct = Inr secret \<and> secret \<noteq> []
           \<and> hr_signature req = Some h \<and> bare_signature (py_strip h) = hk_hmac env secret (hr_body req)))"

lemma verify_true:
  "verify_signature env body secret header = Inr True \<Longrightarrow>
     secret \<noteq> [] \<and> (\<exists>h. header = Some h \<and> bare_signature (py_strip h) = hk_hmac env secret body)"
  by (cases header) (auto simp: verify_signature_def Let_def split: if_splits)

lemma no_host: "\<not> matches_source_whitelist env [] wl"
  by (simp add: matches_source_whitelist_def)

lemma admit_authentic: "admit env kind i req s = Inr ig \<Longrightarrow> authentic env kind i req s ig"
  unfolding admit_def authentic_def
  by (auto simp: Let_def bind_h_Inr_iff raised_Inr_iff no_host split: if_splits option.splits dest!: verify_true)

text \<open>C29. Nobody gets past the receiver without the secret: a request that is answered with an outcome, or
  leaves a trace in the database or on the bus, names a supported kind and an integration of that kind,
  comes from a host the integration's whitelist admits when it has one, and carries the HMAC of its body
  under the integration's decrypted, non-empty secret.\<close>

theorem webhook_needs_signature:
  assumes "receive_webhook env kind i req s = (res, s')" and "s' \<noteq> s \<or> (\<exists>out. res = Inr out)"
  shows "\<exists>ig. authentic env kind i req s ig"
proof -
  have "\<exists>ig. admit env kind i req s = Inr ig"
  proof (cases "admit env kind i req s")
    case (Inl e)
    then have "receive_webhook env kind i req s = (Inl e, s)" by (simp add: receive_webhook_def)
    then show ?thesis using assms by simp
  qed simp
  then show ?thesis using admit_authentic by blast
qed

section \<open>Networks\<close>

lemma slash_splits: "split_char d s = [a, b] \<Longrightarrow> d \<in> set s"
proof (rule ccontr)
  assume "split_char d s = [a, b]" "d \<notin> set s"
  moreover have "d \<notin> set s \<Longrightarrow> split_char d s = [s]" by (induction s) auto
  ultimately show False by simp
qed

text \<open>C30. A whitelist entry in CIDR form admits exactly the IPv4 clients that share the prefix: the client's
  address and the address of the entry, host bits included, agree on the leading bits the mask keeps.\<close>

theorem whitelist_cidr:
  assumes "split_char (CHR ''/'') entry = [a, m]" and "ipv4_address a = Some base" and "make_netmask m = Some n"
  shows "entry_matches env (ip_address env host) entry \<longleftrightarrow>
    (\<exists>w. ip_address env host = Some (V4 w) \<and> drop_bit (32 - n) w = drop_bit (32 - n) base)"
proof -
  let ?net = "\<lparr>n4_address = and base (netmask n), n4_prefixlen = n\<rparr>"
  have slash: "CHR ''/'' \<in> set entry" by (rule slash_splits [OF assms(1)])
  then have "entry \<noteq> []" by auto
  moreover have "ipv4_network_of entry = Some ?net" using assms by (simp add: ipv4_network_of_def)
  moreover have "in_ipv4_network w ?net \<longleftrightarrow> drop_bit (32 - n) w = drop_bit (32 - n) base" for w
    using in_network_prefix [of ?net base w] by simp
  ultimately show ?thesis using slash
    by (auto simp: entry_matches_def ip_network_def split: option.splits ip_addr.splits)
qed

section \<open>The secret\<close>

lemma decrypt_minted:
  assumes "crypto_ok (hk_crypto env)" "length (hk_nonce env) = NONCE_LEN"
  shows "decrypt_secret env (encrypt_dict (hk_crypto env) (hk_nonce env) [(''value'', PyStr token)]) = Inr token"
proof -
  have "secret_dict [(''value'', PyStr token)]" by (simp add: secret_dict_def)
  from decrypt_encrypt_dict [OF assms this] show ?thesis by (auto simp: decrypt_secret_def)
qed

text \<open>The secret that is shown once is the one requests are checked against: after it has been minted
  for an integration without a whitelist, a request for that integration is let in exactly when its
  signature, with or without its prefix, is the HMAC of its body under the shown token; whatever secret
  was there before no longer counts.\<close>

theorem webhook_secret_roundtrip:
  assumes "generate_webhook_secret env i s = (Inr token, s')"
    and "crypto_ok (hk_crypto env)" "length (hk_nonce env) = NONCE_LEN" "hk_token env \<noteq> []"
    and "get_integration i (hd_store s) = Some ig" "dict_get (ig_config ig) ''source_whitelist'' = PyNone"
    and "hr_signature req = Some h" "h \<noteq> []" "is_ascii (bare_signature (py_strip h))"
  shows "admit env (ig_kind ig) i req s' =
    (if bare_signature (py_strip h) = hk_hmac env token (hr_body req) then Inr ig
     else Inl (HttpError 401 ''Invalid or missing signature''))"
proof -
  let ?ct = "encrypt_dict (hk_crypto env) (hk_nonce env) [(''value'', PyStr (hk_token env))]"
  have g: "token = hk_token env" "s' = set_secret_of i ?ct s" "ig_kind ig \<in> set WEBHOOK_RECEIVER_KINDS"
    using assms(1,5) by (auto simp: generate_webhook_secret_def split: if_splits)
  have "?ct \<noteq> []" by (simp add: encrypt_dict_def b64encode_Nil_iff)
  then show ?thesis using g assms(4-9) decrypt_minted [OF assms(2,3), of "hk_token env"]
    by (simp add: admit_def Let_def set_secret_of_def verify_signature_def)
qed

section \<open>What a request does\<close>

definition missing :: "hook_env \<Rightarrow> hook_action \<Rightarrow> media_file \<Rightarrow> media_file" where
  "missing env what m =
     (case what of
        Reprobe \<Rightarrow> m\<lparr>mf_is_orphaned := True, mf_seen_at := sn_now (hk_scan env)\<rparr>
      | Remove \<Rightarrow> m\<lparr>mf_is_orphaned := True\<rparr>
      | Ignored \<Rightarrow> m)"

definition marked :: "hook_env \<Rightarrow> hook_action \<Rightarrow> string list \<Rightarrow> media_file list \<Rightarrow> media_file list" where
  "marked env what ps t = map (\<lambda>m. if mf_path m \<in> set ps then missing env what m else m) t"

lemma missing_simps [simp]:
  "mf_path (missing env what m) = mf_path m" "mf_id (missing env what m) = mf_id m"
  "missing env what (missing env what m) = missing env what m"
  by (cases what; simp add: missing_def)+

lemma marked_twice: "marked env what ps (marked env what qs t) = marked env what (qs @ ps) t"
  by (simp add: marked_def)

lemma marked_keys:
  "unique_keys mf_id (marked env what ps t) = unique_keys mf_id t"
  "unique_keys mf_path (marked env what ps t) = unique_keys mf_path t"
  unfolding marked_def by (rule unique_keys_map; simp)+

lemma by_path_update:
  assumes "unique_keys mf_id t" "unique_keys mf_path t" "table_find mf_path p t = Some m"
  shows "map (\<lambda>x. if mf_id x = mf_id m then f x else x) t = map (\<lambda>x. if mf_path x = p then f x else x) t"
proof (rule map_cong [OF refl])
  fix x assume x: "x \<in> set t"
  have m: "m \<in> set t" "mf_path m = p" using assms(2,3) by (simp_all add: table_find_Some_iff)
  have "mf_id x = mf_id m \<longleftrightarrow> mf_path x = p"
    using assms(1,2) x m unfolding unique_keys_def distinct_map by (metis inj_onD)
  then show "(if mf_id x = mf_id m then f x else x) = (if mf_path x = p then f x else x)" by simp
qed

lemma by_path_none: "table_find mf_path p t = None \<Longrightarrow> marked env what [p] t = t"
  by (auto simp: marked_def table_find_None_iff intro!: map_idI)

lemma remove_marks:
  assumes "unique_keys mf_id (st_media st)" "unique_keys mf_path (st_media st)"
  shows "\<exists>es. remove_path p st = st\<lparr>st_media := marked env Remove [p] (st_media st), st_events := st_events st @ es\<rparr>"
proof (cases "get_by_path p st")
  case None
  then show ?thesis using by_path_none [of p "st_media st" env Remove]
    by (intro exI [of _ "[]"]) (simp add: remove_path_def get_by_path_def)
next
  case (Some m)
  then have m: "table_find mf_path p (st_media st) = Some m" by (simp add: get_by_path_def)
  have "st_media (remove_path p st) = marked env Remove [p] (st_media st)"
    using by_path_update [OF assms m] Some by (simp add: remove_path_def marked_def missing_def)
  moreover have "\<exists>es M. remove_path p st = st\<lparr>st_media := M, st_events := st_events st @ es\<rparr>"
    unfolding remove_path_def Some option.case emit_def by (simp, blast)
  ultimately show ?thesis by auto
qed

lemma reprobe_marks:
  assumes "unique_keys mf_id (st_media st)" "unique_keys mf_path (st_media st)"
    and "reprobe_path env False p st = (Inr u, st')"
  shows "\<exists>es. st' = st\<lparr>st_media := marked env Reprobe [p] (st_media st), st_events := st_events st @ es\<rparr>"
proof (cases "get_by_path p st")
  case None
  then show ?thesis using assms(3) by_path_none [of p "st_media st" env Reprobe]
    by (intro exI [of _ "[]"]) (simp add: reprobe_path_def get_by_path_def)
next
  case (Some m)
  then have "table_find mf_id (mf_id m) (st_media st) = Some m"
    using assms(1,2) by (simp add: get_by_path_def table_find_Some_iff)
  moreover have "\<not> hk_on_disk env (mf_path m)" using assms(3) Some by (auto simp: reprobe_path_def)
  ultimately have e: "st' = scan_emit ''media.reprobed'' [(''id'', PyStr (mf_id m)), (''ok'', PyBool False), (''orphaned'', PyBool True)]
      (st\<lparr>st_media := map (\<lambda>x. if mf_id x = mf_id m then missing env Reprobe x else x) (st_media st)\<rparr>)"
    using assms(3) Some by (simp add: reprobe_path_def reprobe_one_def Let_def missing_def cong: if_cong)
  have "st_media st' = marked env Reprobe [p] (st_media st)"
    using by_path_update [OF assms(1,2), of p m "missing env Reprobe"] Some
    unfolding e by (simp add: scan_emit_def marked_def get_by_path_def)
  moreover have "\<exists>es M. st' = st\<lparr>st_media := M, st_events := st_events st @ es\<rparr>"
    unfolding e scan_emit_def emit_def by (simp, blast)
  ultimately show ?thesis by auto
qed

lemma handle_paths_marks:
  assumes "handle_paths env False what ps st = (Inr u, st')"
    and "unique_keys mf_id (st_media st)" "unique_keys mf_path (st_media st)"
  shows "\<exists>es. st' = st\<lparr>st_media := marked env what ps (st_media st), st_events := st_events st @ es\<rparr>"
  using assms
proof (induction ps arbitrary: st)
  case Nil
  then show ?case by (intro exI [of _ "[]"]) (simp add: marked_def)
next
  case (Cons p ps)
  show ?case
  proof (cases what)
    case Ignored
    then show ?thesis using Cons.prems(1)
      by (intro exI [of _ "[]"]) (simp add: marked_def missing_def cong: if_cong)
  next
    case Remove
    obtain es where r: "remove_path p st = st\<lparr>st_media := marked env Remove [p] (st_media st), st_events := st_events st @ es\<rparr>"
      using remove_marks [OF Cons.prems(2,3)] by blast
    have "handle_paths env False what ps (remove_path p st) = (Inr u, st')" using Cons.prems(1) Remove by simp
    from Cons.IH [OF this] show ?thesis using Cons.prems(2,3) Remove
      by (auto simp: r marked_keys marked_twice)
  next
    case Reprobe
    obtain v st1 where s1: "reprobe_path env False p st = (Inr v, st1)" and s2: "handle_paths env False what ps st1 = (Inr u, st')"
      using Cons.prems(1) Reprobe by (auto split: prod.splits sum.splits)
    obtain es where r: "st1 = st\<lparr>st_media := marked env Reprobe [p] (st_media st), st_events := st_events st @ es\<rparr>"
      using reprobe_marks [OF Cons.prems(2,3) s1] by blast
    from Cons.IH [OF s2] show ?thesis using Cons.prems(2,3) Reprobe
      by (auto simp: r marked_keys marked_twice)
  qed
qed

text \<open>An accepted webhook only ever marks rows as missing: after a request that is answered, the rows
  whose path the event names, translated by the integration's mappings, are orphaned (and seen now, for a
  reprobe), every other row is as it was, and apart from events on the bus nothing else has changed; an
  event that is not in the table, or names no path, changes nothing at all.\<close>

theorem webhook_marks_missing:
  assumes "receive_webhook env kind i req s = (Inr out, s')"
    and "unique_keys mf_id (st_media (hd_store s))" "unique_keys mf_path (st_media (hd_store s))"
  shows "\<exists>es. s' = s\<lparr>hd_store := (hd_store s)
      \<lparr>st_media := marked env (wo_action out) (wo_paths out) (st_media (hd_store s)), st_events := st_events (hd_store s) @ es\<rparr>\<rparr>
    \<and> (wo_action out = Ignored \<longrightarrow> s' = s)"
proof -
  obtain ig payload st where d: "dispatch_hook env False kind payload ig (hd_store s) = (Inr out, st)" and s': "s' = s\<lparr>hd_store := st\<rparr>"
    using assms(1) by (auto simp: receive_webhook_def split: sum.splits prod.splits)
  consider (ignored) "wo_action out = Ignored" "st = hd_store s"
    | (handled) u where "handle_paths env False (wo_action out) (wo_paths out) (hd_store s) = (Inr u, st)" "wo_action out \<noteq> Ignored"
    using d by (auto simp: dispatch_hook_def Let_def split: option.splits sum.splits prod.splits if_splits)
  then show ?thesis
  proof cases
    case ignored
    then show ?thesis by (intro exI [of _ "[]"]) (simp add: s' marked_def missing_def cong: if_cong)
  next
    case handled
    from handle_paths_marks [OF this(1) assms(2,3)] handled(2) show ?thesis by (auto simp: s')
  qed
qed

section \<open>Requests that fail\<close>

lemma known_on_disk_marked:
  assumes "table_find mf_path p t = Some m"
  shows "\<exists>m'. table_find mf_path p (marked env what qs t) = Some m' \<and> mf_path m' = p"
  using assms table_find_SomeD [OF assms]
  unfolding marked_def by (subst table_find_map) auto

lemma reprobe_known_raises:
  assumes "unique_keys mf_id (st_media st)" "unique_keys mf_path (st_media st)"
    and "p \<in> set ps" "table_find mf_path p (st_media st) = Some m" "hk_on_disk env p"
  shows "\<exists>st'. handle_paths env False Reprobe ps st = (Inl AttributeError, st')"
  using assms
proof (induction ps arbitrary: st m)
  case (Cons q ps)
  show ?case
  proof (cases "reprobe_path env False q st")
    case (Pair r st1)
    show ?thesis
    proof (cases r)
      case (Inl e)
      then have "e = AttributeError" using Pair by (auto simp: reprobe_path_def split: option.splits if_splits)
      then show ?thesis using Pair Inl by simp
    next
      case (Inr u)
      have "q \<noteq> p"
      proof
        assume "q = p"
        then have "get_by_path q st = Some m" "mf_path m = p" using Cons.prems(4) table_find_SomeD [OF Cons.prems(4)]
          by (simp_all add: get_by_path_def)
        then show False using Pair Inr Cons.prems(5) by (simp add: reprobe_path_def)
      qed
      then have p: "p \<in> set ps" using Cons.prems(3) by simp
      obtain es where st1: "st1 = st\<lparr>st_media := marked env Reprobe [q] (st_media st), st_events := st_events st @ es\<rparr>"
        using reprobe_marks [OF Cons.prems(1,2)] Pair Inr by blast
      obtain m' where "table_find mf_path p (st_media st1) = Some m'"
        using known_on_disk_marked [OF Cons.prems(4), of env Reprobe "[q]"] by (auto simp: st1)
      from Cons.IH [OF _ _ p this Cons.prems(5)] show ?thesis
        using Cons.prems(1,2) Pair Inr by (simp add: st1 marked_keys)
    qed
  qed
qed simp

text \<open>C33. The event the receiver is for fails: an authentic request that announces a downloaded or renamed
  file the library knows and the disk has is answered with an exception, because the receiver builds the
  scanner without a probe service; the database is rolled back, so the file is never reprobed.\<close>

theorem webhook_reprobe_raises:
  assumes "admit env kind i req s = Inr ig" "read_payload env (hr_body req) = Inr payload"
    and "map_of EXTRACTORS kind = Some extract" "extract (hk_net env) payload = Inr (event, ps)"
    and "action_for kind event = Reprobe" "p \<in> set (local_paths ig ps)"
    and "get_by_path p (hd_store s) = Some m" "hk_on_disk env p"
    and "unique_keys mf_id (st_media (hd_store s))" "unique_keys mf_path (st_media (hd_store s))"
  shows "\<exists>es. receive_webhook env kind i req s =
    (Inl (Raised AttributeError), s\<lparr>hd_store := (hd_store s)\<lparr>st_events := es\<rparr>\<rparr>)"
proof -
  obtain st' where h: "handle_paths env False Reprobe (local_paths ig ps) (hd_store s) = (Inl AttributeError, st')"
    using reprobe_known_raises [OF assms(9,10,6) _ assms(8)] assms(7) by (auto simp: get_by_path_def)
  have "ps \<noteq> []" using assms(6) by (auto simp: local_paths_def)
  then have "dispatch_hook env False kind payload ig (hd_store s) = (Inl AttributeError, st')"
    using assms(3-5) h by (simp add: dispatch_hook_def Let_def)
  then show ?thesis using assms(1,2) by (auto simp: receive_webhook_def intro: exI [of _ "st_events st'"])
qed

text \<open>An unauthenticated request can make the receiver fail: a signature header with a character outside
  ASCII, for any integration with a secret and no whitelist, is not answered with 401 but raises in the
  comparison; nothing is stored.\<close>

theorem non_ascii_signature_raises:
  assumes "get_integration i (hd_store s) = Some ig" "ig_kind ig = kind" "kind \<in> set WEBHOOK_RECEIVER_KINDS"
    and "dict_get (ig_config ig) ''source_whitelist'' = PyNone"
    and "map_of (hd_secrets s) i = Some ct" "ct \<noteq> []" "decrypt_secret env ct = Inr secret" "secret \<noteq> []"
    and "hr_signature req = Some h" "\<not> is_ascii (bare_signature (py_strip h))"
  shows "receive_webhook env kind i req s = (Inl (Raised TypeError), s)"
proof -
  have "h \<noteq> []" using assms(10) by (auto simp: is_ascii_def bare_signature_def py_strip_def)
  then show ?thesis using assms by (simp add: receive_webhook_def admit_def Let_def verify_signature_def)
qed

section \<open>Witnesses\<close>

definition sample_net :: net_env where
  "sample_net = \<lparr>ne_ip6 = (\<lambda>_. None), ne_net6 = (\<lambda>_. None), ne_resolve = (\<lambda>_. None), ne_str = (\<lambda>_. [])\<rparr>"

definition download :: pyval where
  "download = PyDict [(''eventType'', PyStr ''Download''), (''episodeFile'', PyDict [(''path'', PyStr ''/tv/a.mkv'')])]"

definition deletion :: pyval where
  "deletion = PyDict [(''eventType'', PyStr ''EpisodeFileDelete''), (''episodeFile'', PyDict [(''path'', PyStr ''/tv/a.mkv'')])]"

text \<open>A toy HMAC (the secret before the body) and the parser of two bodies.\<close>

definition sample_hooks :: hook_env where
  "sample_hooks =
     \<lparr>hk_net = sample_net, hk_scan = undefined\<lparr>sn_now := 7\<rparr>, hk_on_disk = (\<lambda>_. True), hk_crypto = sample_crypto,
      hk_nonce = ''abcdefghijkl'', hk_token = ''t0k'', hk_hmac = (\<lambda>k b. k @ b),
      hk_json = (\<lambda>b. if b = ''dl'' then Parsed download else if b = ''rm'' then Parsed deletion else JsonError)\<rparr>"

definition sonarr_row :: "(string \<times> pyval) list \<Rightarrow> integration" where
  "sonarr_row cfg = \<lparr>ig_id = ''i'', ig_name = ''Sonarr'', ig_kind = ''sonarr'', ig_enabled = True, ig_config = cfg,
     ig_secrets_ciphertext = None, ig_health_status = ''ok'', ig_health_detail = None, ig_health_checked_at = None\<rparr>"

definition known_file :: media_file where
  "known_file = (undefined :: media_file)\<lparr>mf_id := ''m'', mf_path := ''/tv/a.mkv'', mf_is_orphaned := False\<rparr>"

definition sample_hook_db :: hook_db where
  "sample_hook_db = \<lparr>hd_store = (undefined :: store)\<lparr>st_integrations := [sonarr_row []], st_media := [known_file], st_events := []\<rparr>,
     hd_secrets = [(''i'', encrypt_dict sample_crypto ''abcdefghijkl'' [(''value'', PyStr ''t0k'')])]\<rparr>"

definition signed :: "string \<Rightarrow> hook_request" where
  "signed body = \<lparr>hr_client = Some ''10.0.0.1'', hr_signature = Some (''sha256='' @ ''t0k'' @ body), hr_body = body\<rparr>"

lemma sample_box: "crypto_ok (hk_crypto sample_hooks)" "length (hk_nonce sample_hooks) = NONCE_LEN"
  by (simp_all add: sample_hooks_def sample_crypto_ok NONCE_LEN_def)

lemma sample_secret:
  "decrypt_secret sample_hooks (encrypt_dict sample_crypto ''abcdefghijkl'' [(''value'', PyStr ''t0k'')]) = Inr ''t0k''"
  using decrypt_minted [OF sample_box, of "''t0k''"] by (simp add: sample_hooks_def)

lemma sample_ct: "encrypt_dict sample_crypto ''abcdefghijkl'' [(''value'', PyStr ''t0k'')] \<noteq> []"
  unfolding encrypt_dict_def b64encode_Nil_iff by simp

lemma sample_integration_row: "get_integration ''i'' (hd_store sample_hook_db) = Some (sonarr_row [])"
  by (simp add: get_integration_def sample_hook_db_def sonarr_row_def)

lemma sample_signature:
  assumes "body = ''dl'' \<or> body = ''rm''"
  shows "bare_signature (py_strip (''sha256='' @ ''t0k'' @ body)) = ''t0k'' @ body \<and> is_ascii (''t0k'' @ body)"
  using assms by (elim disjE) (simp only:, code_simp)+

lemma sample_admit: "body = ''dl'' \<or> body = ''rm'' \<Longrightarrow> admit sample_hooks ''sonarr'' ''i'' (signed body) sample_hook_db = Inr (sonarr_row [])"
proof -
  assume b: "body = ''dl'' \<or> body = ''rm''"
  have "verify_signature sample_hooks body ''t0k'' (Some (''sha256='' @ ''t0k'' @ body)) = Inr True"
    using sample_signature [OF b] by (simp add: verify_signature_def Let_def sample_hooks_def)
  then show ?thesis
    using sample_integration_row sample_secret sample_ct
    by (simp add: admit_def WEBHOOK_RECEIVER_KINDS_def Let_def sonarr_row_def dict_get_def sample_hook_db_def signed_def)
qed

lemma sample_unique: "unique_keys mf_id (st_media (hd_store sample_hook_db))" "unique_keys mf_path (st_media (hd_store sample_hook_db))"
  by (simp_all add: sample_hook_db_def unique_keys_def)

lemma sample_extract:
  "extract_sonarr (hk_net sample_hooks) download = Inr (''Download'', [''/tv/a.mkv''])"
  "extract_sonarr (hk_net sample_hooks) deletion = Inr (''EpisodeFileDelete'', [''/tv/a.mkv''])"
  unfolding sample_hooks_def hook_env.simps by code_simp+

lemma sample_actions: "action_for ''sonarr'' ''Download'' = Reprobe" "action_for ''sonarr'' ''EpisodeFileDelete'' = Remove"
  by code_simp+

lemma sample_paths: "local_paths (sonarr_row []) [''/tv/a.mkv''] = [''/tv/a.mkv'']"
  by code_simp

lemma sample_payload:
  "read_payload sample_hooks ''dl'' = Inr download" "read_payload sample_hooks ''rm'' = Inr deletion"
  by (simp_all add: read_payload_def sample_hooks_def)

lemma sample_extractor: "map_of EXTRACTORS ''sonarr'' = Some extract_sonarr"
  by (simp add: EXTRACTORS_def)

lemma removal_answered:
  "\<exists>out s'. receive_webhook sample_hooks ''sonarr'' ''i'' (signed ''rm'') sample_hook_db = (Inr out, s')
     \<and> wo_action out = Remove \<and> wo_paths out = [''/tv/a.mkv'']"
proof -
  have a: "admit sample_hooks ''sonarr'' ''i'' (signed ''rm'') sample_hook_db = Inr (sonarr_row [])" using sample_admit by simp
  have b: "hr_body (signed ''rm'') = ''rm''" by (simp add: signed_def)
  have "handle_paths sample_hooks False Remove [''/tv/a.mkv''] st = (Inr (), remove_path ''/tv/a.mkv'' st)" for st by simp
  then show ?thesis
    using a b sample_payload(2) sample_extract(2) sample_extractor sample_actions(2) sample_paths
    by (simp add: receive_webhook_def dispatch_hook_def Let_def)
qed

theorem webhook_needs_signature_witness:
  "\<exists>ig. authentic sample_hooks ''sonarr'' ''i'' (signed ''rm'') sample_hook_db ig"
proof -
  obtain out s' where "receive_webhook sample_hooks ''sonarr'' ''i'' (signed ''rm'') sample_hook_db = (Inr out, s')"
    using removal_answered by blast
  then show ?thesis using webhook_needs_signature by blast
qed

theorem whitelist_cidr_witness:
  "entry_matches sample_net (ip_address sample_net ''10.1.200.7'') ''10.1.2.3/16''
    \<and> \<not> entry_matches sample_net (ip_address sample_net ''10.2.2.3'') ''10.1.2.3/16''"
proof -
  have s: "split_char (CHR ''/'') ''10.1.2.3/16'' = [''10.1.2.3'', ''16'']" by code_simp
  have a: "ipv4_address ''10.1.2.3'' = Some 0x0A010203" "make_netmask ''16'' = Some 16" by code_simp+
  have h: "ip_address sample_net ''10.1.200.7'' = Some (V4 0x0A01C807)" "ip_address sample_net ''10.2.2.3'' = Some (V4 0x0A020203)"
    by code_simp+
  have d: "drop_bit 16 (0x0A01C807 :: 32 word) = drop_bit 16 0x0A010203" "drop_bit 16 (0x0A020203 :: 32 word) \<noteq> drop_bit 16 0x0A010203"
    by code_simp+
  show ?thesis
    using whitelist_cidr [OF s a, of sample_net "''10.1.200.7''"] whitelist_cidr [OF s a, of sample_net "''10.2.2.3''"] d by (simp add: h)
qed

theorem webhook_secret_roundtrip_witness:
  "\<exists>s'. generate_webhook_secret sample_hooks ''i'' sample_hook_db = (Inr ''t0k'', s')
     \<and> admit sample_hooks ''sonarr'' ''i'' (signed ''rm'') s' = Inr (sonarr_row [])"
proof -
  obtain s' where g: "generate_webhook_secret sample_hooks ''i'' sample_hook_db = (Inr ''t0k'', s')"
    using sample_integration_row by (simp add: generate_webhook_secret_def WEBHOOK_RECEIVER_KINDS_def sonarr_row_def sample_hooks_def)
  have k: "hk_token sample_hooks \<noteq> []" by (simp add: sample_hooks_def)
  have w: "dict_get (ig_config (sonarr_row [])) ''source_whitelist'' = PyNone" by (simp add: sonarr_row_def dict_get_def)
  have h: "hr_signature (signed ''rm'') = Some (''sha256='' @ ''t0k'' @ ''rm'')" by (simp add: signed_def)
  have n: "''sha256='' @ ''t0k'' @ ''rm'' \<noteq> []" by simp
  have sig: "bare_signature (py_strip (''sha256='' @ ''t0k'' @ ''rm'')) = ''t0k'' @ ''rm''" "is_ascii (''t0k'' @ ''rm'')"
    using sample_signature [of "''rm''"] by simp_all
  have ok: "is_ascii (bare_signature (py_strip (''sha256='' @ ''t0k'' @ ''rm'')))" unfolding sig(1) by (rule sig(2))
  have "ig_kind (sonarr_row []) = ''sonarr''" "hk_hmac sample_hooks ''t0k'' (hr_body (signed ''rm'')) = ''t0k'' @ ''rm''"
    by (simp_all add: sonarr_row_def sample_hooks_def signed_def)
  then show ?thesis
    using g webhook_secret_roundtrip [OF g sample_box k sample_integration_row w h n ok] unfolding sig(1) by simp
qed

theorem webhook_marks_missing_witness:
  "\<exists>s' out. receive_webhook sample_hooks ''sonarr'' ''i'' (signed ''rm'') sample_hook_db = (Inr out, s')
     \<and> st_media (hd_store s') = [known_file\<lparr>mf_is_orphaned := True\<rparr>]"
proof -
  obtain out s' where r: "receive_webhook sample_hooks ''sonarr'' ''i'' (signed ''rm'') sample_hook_db = (Inr out, s')"
    and o: "wo_action out = Remove" "wo_paths out = [''/tv/a.mkv'']"
    using removal_answered by blast
  from webhook_marks_missing [OF r sample_unique] have "st_media (hd_store s') = [known_file\<lparr>mf_is_orphaned := True\<rparr>]"
    by (auto simp: o marked_def missing_def sample_hook_db_def known_file_def)
  with r show ?thesis by blast
qed

theorem webhook_reprobe_raises_witness:
  "\<exists>es. receive_webhook sample_hooks ''sonarr'' ''i'' (signed ''dl'') sample_hook_db =
    (Inl (Raised AttributeError), sample_hook_db\<lparr>hd_store := (hd_store sample_hook_db)\<lparr>st_events := es\<rparr>\<rparr>)"
proof -
  have a: "admit sample_hooks ''sonarr'' ''i'' (signed ''dl'') sample_hook_db = Inr (sonarr_row [])" using sample_admit by simp
  have b: "read_payload sample_hooks (hr_body (signed ''dl'')) = Inr download" using sample_payload by (simp add: signed_def)
  have p: "''/tv/a.mkv'' \<in> set (local_paths (sonarr_row []) [''/tv/a.mkv''])" using sample_paths by simp
  have f: "get_by_path ''/tv/a.mkv'' (hd_store sample_hook_db) = Some known_file" "hk_on_disk sample_hooks ''/tv/a.mkv''"
    by (simp_all add: get_by_path_def sample_hook_db_def known_file_def sample_hooks_def)
  show ?thesis by (rule webhook_reprobe_raises [OF a b sample_extractor sample_extract(1) sample_actions(1) p f sample_unique])
qed

theorem non_ascii_signature_raises_witness:
  "receive_webhook sample_hooks ''sonarr'' ''i'' ((signed ''dl'')\<lparr>hr_signature := Some [CHR 0xC3, CHR 0xA9]\<rparr>) sample_hook_db
     = (Inl (Raised TypeError), sample_hook_db)"
proof -
  have "\<not> is_ascii (bare_signature (py_strip [CHR 0xC3, CHR 0xA9]))" by code_simp
  moreover have "map_of (hd_secrets sample_hook_db) ''i'' = Some (encrypt_dict sample_crypto ''abcdefghijkl'' [(''value'', PyStr ''t0k'')])"
    by (simp add: sample_hook_db_def)
  moreover have "''sonarr'' \<in> set WEBHOOK_RECEIVER_KINDS" "ig_kind (sonarr_row []) = ''sonarr''"
    "dict_get (ig_config (sonarr_row [])) ''source_whitelist'' = PyNone"
    by (simp_all add: WEBHOOK_RECEIVER_KINDS_def sonarr_row_def dict_get_def)
  ultimately show ?thesis
    using non_ascii_signature_raises [OF sample_integration_row _ _ _ _ sample_ct sample_secret] by simp
qed

end
