(* ===== verification/TagSync.thy ===== *)
theory TagSync
  imports Integrations PathMapping
begin

text \<open>
  The mirror of upstream tags (\<open>app/integrations/tag_sync.py\<close>): the tags an integration reports are
  filtered by its lists, matched against the paths of the media table by \<open>LIKE\<close>, and the rows of the
  integration's source are made equal to what was found.  Parameters: \<open>str\<close> of a value that is no string,
  and the dialect of the database, since \<open>LIKE\<close> folds ASCII case on SQLite only, knows the escape
  character on PostgreSQL only, and only PostgreSQL enforces the width of a column.
\<close>

section \<open>LIKE\<close>

datatype dialect = Sqlite | Postgres

definition next_char :: "string \<Rightarrow> string" where
  "next_char s = dropWhile (\<lambda>c. 128 \<le> (of_char c :: nat) \<and> (of_char c :: nat) < 192) (tl s)"

definition same_char :: "dialect \<Rightarrow> char \<Rightarrow> char \<Rightarrow> bool" where
  "same_char d p c = (case d of Sqlite \<Rightarrow> lower_char p = lower_char c | Postgres \<Rightarrow> p = c)"

text \<open>A trailing escape character does not occur: the pattern ends in \<open>%\<close>.\<close>

function (sequential) sql_like :: "dialect \<Rightarrow> string \<Rightarrow> string \<Rightarrow> bool" where
  "sql_like d [] s = (s = [])"
| "sql_like d (p # ps) s =
     (if p = CHR ''%''
      then if sql_like d ps s then True else if s = [] then False else sql_like d (p # ps) (next_char s)
      else if s = [] then False
      else if p = CHR ''_'' then sql_like d ps (next_char s)
      else if d = Postgres \<and> p = CHR 0x5C \<and> ps \<noteq> [] then if hd s = hd ps then sql_like d (tl ps) (tl s) else False
      else if same_char d p (hd s) then sql_like d ps (tl s) else False)"
  by pat_completeness auto

lemma next_char_less: "s \<noteq> [] \<Longrightarrow> length (next_char s) < length s"
  using length_dropWhile_le [of _ "tl s"] by (cases s) (auto simp: next_char_def less_Suc_eq_le)

lemma next_char_bound: "length (next_char (c # cs)) \<le> length cs"
  using next_char_less [of "c # cs"] by simp

lemma next_char_bound': "length (next_char (c # cs)) \<le> Suc (length cs)"
  using next_char_bound [of c cs] by simp

termination sql_like
  by (relation "measure (\<lambda>(d, p, s). length p + length s)")
     (auto simp: next_char_bound next_char_bound' less_Suc_eq_le neq_Nil_conv)

declare sql_like.simps [simp del]

section \<open>The lists of an integration\<close>

record tag_entry =
  te_media_path :: string
  te_tag :: string

record tag_sync_env =
  ts_str :: "pyval \<Rightarrow> string"
  ts_dialect :: dialect
  ts_bus :: bool

definition lower_names :: "tag_sync_env \<Rightarrow> pyval list \<Rightarrow> string list" where
  "lower_names env xs =
     map (\<lambda>v. py_lower (py_strip (case v of PyStr s \<Rightarrow> s | _ \<Rightarrow> ts_str env v))) (filter py_truthy xs)"

definition filter_tags_by_lists :: "tag_sync_env \<Rightarrow> pyval list \<Rightarrow> pyval list \<Rightarrow> tag_entry list \<Rightarrow> tag_entry list" where
  "filter_tags_by_lists env allowlist denylist tags =
     (if allowlist = [] \<and> denylist = [] then tags
      else let allow = lower_names env allowlist; deny = lower_names env denylist in
        filter (\<lambda>e. let t = py_lower (py_strip (te_tag e)) in (allow = [] \<or> t \<in> set allow) \<and> t \<notin> set deny) tags)"

section \<open>The reconciliation\<close>

definition title_pattern :: "string \<Rightarrow> string" where
  "title_pattern path = py_rstrip (CHR ''/'') path @ ''/%''"

definition desired_pairs :: "dialect \<Rightarrow> tag_entry list \<Rightarrow> media_file list \<Rightarrow> (string \<times> string) list" where
  "desired_pairs d tags media = concat (map (\<lambda>e.
     if te_media_path e = [] then []
     else map (\<lambda>m. (mf_id m, te_tag e)) (filter (\<lambda>m. sql_like d (title_pattern (te_media_path e)) (mf_path m)) media)) tags)"

definition tag_pair :: "media_tag \<Rightarrow> string \<times> string" where
  "tag_pair t = (mt_media_file_id t, mt_name t)"

definition existing_pairs :: "string \<Rightarrow> media_tag list \<Rightarrow> (string \<times> string) list" where
  "existing_pairs source t = map tag_pair (filter (\<lambda>r. mt_source r = source) t)"

record tag_sync_report =
  tr_integration_id :: string
  tr_inserted :: nat
  tr_removed :: nat
  tr_skipped_no_path :: nat
  tr_title_count :: nat

definition apply_tag_sync :: "tag_sync_env \<Rightarrow> integration \<Rightarrow> tag_entry list \<Rightarrow> store \<Rightarrow> tag_sync_report result \<times> store" where
  "apply_tag_sync env ig tags st =
     (case (each_of (dict_get (ig_config ig) ''tag_allowlist''), each_of (dict_get (ig_config ig) ''tag_denylist'')) of
        (Inr allowlist, Inr denylist) \<Rightarrow>
          (let source = ig_kind ig;
               kept = filter_tags_by_lists env allowlist denylist tags;
               desired = dedup (desired_pairs (ts_dialect env) kept (st_media st));
               existing = existing_pairs source (st_tags st);
               to_insert = filter (\<lambda>p. p \<notin> set existing) desired;
               to_remove = filter (\<lambda>p. p \<notin> set desired) existing;
               report = \<lparr>tr_integration_id = ig_id ig, tr_inserted = length to_insert, tr_removed = card (set to_remove),
                         tr_skipped_no_path = length (filter (\<lambda>e. te_media_path e = []) kept),
                         tr_title_count = card (te_media_path ` set (filter (\<lambda>e. te_media_path e \<noteq> []) kept))\<rparr> in
           if ts_dialect env = Postgres \<and> (\<exists>p\<in>set to_insert. py_len (snd p) > 64) then (Inl (RuntimeError ''DataError''), st)
           else (Inr report,
             emit (ts_bus env) ''integration.tags_synced''
               [(''integration_id'', PyStr (ig_id ig)), (''kind'', PyStr source), (''inserted'', PyInt (int (tr_inserted report))),
                (''removed'', PyInt (int (tr_removed report)))] ''integrations''
               (st\<lparr>st_tags := filter (\<lambda>r. \<not> (mt_source r = source \<and> tag_pair r \<in> set to_remove)) (st_tags st)
                   @ map (\<lambda>(i, n). \<lparr>mt_media_file_id = i, mt_name = n, mt_source = source\<rparr>) to_insert\<rparr>)))
      | (Inl e, _) \<Rightarrow> (Inl e, st)
      | (_, Inl e) \<Rightarrow> (Inl e, st))"

section \<open>Patterns without wildcards\<close>

definition wildcard_free :: "string \<Rightarrow> bool" where
  "wildcard_free s = (set s \<inter> {CHR ''%'', CHR ''_'', CHR 0x5C} = {})"

lemma like_Nil [simp]: "sql_like d [] s \<longleftrightarrow> s = []"
  by (simp add: sql_like.simps)

lemma like_anything: "sql_like d ''%'' s"
proof (induction "length s" arbitrary: s rule: less_induct)
  case less
  then have "s \<noteq> [] \<Longrightarrow> sql_like d ''%'' (next_char s)" using next_char_less by blast
  then show ?case by (subst sql_like.simps) simp
qed

lemma like_prefix: "wildcard_free p \<Longrightarrow> sql_like Postgres (p @ ''%'') s \<longleftrightarrow> prefix p s"
proof (induction p arbitrary: s)
  case Nil
  then show ?case using like_anything [of Postgres s] by simp
next
  case (Cons c cs)
  then have c: "c \<noteq> CHR ''%''" "c \<noteq> CHR ''_''" "c \<noteq> CHR 0x5C" "wildcard_free cs" by (auto simp: wildcard_free_def)
  have "sql_like Postgres ((c # cs) @ ''%'') s \<longleftrightarrow> s \<noteq> [] \<and> c = hd s \<and> sql_like Postgres (cs @ ''%'') (tl s)"
    unfolding append_Cons by (subst sql_like.simps) (use c(1-3) in \<open>simp add: same_char_def\<close>)
  then show ?case using Cons.IH [OF c(4)] by (cases s) auto
qed

text \<open>A title whose path has no wildcard character tags, on PostgreSQL, exactly the files below its
  directory: the files whose path continues the title's with a slash, and none of a sibling whose name it
  is a prefix of.\<close>

theorem title_matches_directory:
  assumes "wildcard_free path"
  shows "sql_like Postgres (title_pattern path) file \<longleftrightarrow> (\<exists>rest. file = py_rstrip (CHR ''/'') path @ ''/'' @ rest)"
proof -
  have "set (py_rstrip (CHR ''/'') path) \<subseteq> set path"
    unfolding py_rstrip_def using set_dropWhileD by fastforce
  then have "wildcard_free (py_rstrip (CHR ''/'') path @ ''/'')" using assms by (auto simp: wildcard_free_def)
  from like_prefix [OF this] show ?thesis by (simp add: title_pattern_def prefix_def)
qed

section \<open>Source and table\<close>

lemma existing_filter:
  "existing_pairs src (filter (\<lambda>r. \<not> (mt_source r = src \<and> tag_pair r \<in> R)) t) = filter (\<lambda>p. p \<notin> R) (existing_pairs src t)"
  by (simp add: existing_pairs_def filter_map o_def conj_commute cong: conj_cong)

lemma existing_new: "existing_pairs src (map (\<lambda>(i, n). \<lparr>mt_media_file_id = i, mt_name = n, mt_source = src\<rparr>) ps) = ps"
  by (induction ps) (auto simp: existing_pairs_def tag_pair_def)

lemma existing_append: "existing_pairs src (a @ b) = existing_pairs src a @ existing_pairs src b"
  by (simp add: existing_pairs_def)

lemma other_sources:
  "filter (\<lambda>r. mt_source r \<noteq> src) (filter (\<lambda>r. \<not> (mt_source r = src \<and> Q r)) t
     @ map (\<lambda>(i, n). \<lparr>mt_media_file_id = i, mt_name = n, mt_source = src\<rparr>) ps) = filter (\<lambda>r. mt_source r \<noteq> src) t"
proof -
  have "filter (\<lambda>r. mt_source r \<noteq> src) (map (\<lambda>(i, n). \<lparr>mt_media_file_id = i, mt_name = n, mt_source = src\<rparr>) ps) = []"
    by (induction ps) auto
  moreover have "filter (\<lambda>r. mt_source r \<noteq> src) (filter (\<lambda>r. \<not> (mt_source r = src \<and> Q r)) t) = filter (\<lambda>r. mt_source r \<noteq> src) t"
    by (auto intro: filter_cong)
  ultimately show ?thesis by simp
qed

definition wanted :: "tag_sync_env \<Rightarrow> integration \<Rightarrow> tag_entry list \<Rightarrow> store \<Rightarrow> (string \<times> string) set" where
  "wanted env ig tags st =
     (case (each_of (dict_get (ig_config ig) ''tag_allowlist''), each_of (dict_get (ig_config ig) ''tag_denylist'')) of
        (Inr allowlist, Inr denylist) \<Rightarrow>
          set (desired_pairs (ts_dialect env) (filter_tags_by_lists env allowlist denylist tags) (st_media st))
      | _ \<Rightarrow> {})"

lemma wanted_media: "st_media st' = st_media st \<Longrightarrow> wanted env ig tags st' = wanted env ig tags st"
  unfolding wanted_def by metis

lemma apply_tag_sync_tags:
  assumes "apply_tag_sync env ig tags st = (Inr report, st')"
  shows "set (existing_pairs (ig_kind ig) (st_tags st')) = wanted env ig tags st"
    and "filter (\<lambda>r. mt_source r \<noteq> ig_kind ig) (st_tags st') = filter (\<lambda>r. mt_source r \<noteq> ig_kind ig) (st_tags st)"
    and "st_media st' = st_media st"
    and "tr_inserted report = card (wanted env ig tags st - set (existing_pairs (ig_kind ig) (st_tags st)))"
    and "tr_removed report = card (set (existing_pairs (ig_kind ig) (st_tags st)) - wanted env ig tags st)"
    and "distinct (existing_pairs (ig_kind ig) (st_tags st)) \<Longrightarrow> distinct (existing_pairs (ig_kind ig) (st_tags st'))"
proof -
  let ?ex = "existing_pairs (ig_kind ig) (st_tags st)"
  obtain allow deny where l: "each_of (dict_get (ig_config ig) ''tag_allowlist'') = Inr allow"
      "each_of (dict_get (ig_config ig) ''tag_denylist'') = Inr deny"
    using assms by (auto simp: apply_tag_sync_def split: sum.splits)
  define des where "des = dedup (desired_pairs (ts_dialect env) (filter_tags_by_lists env allow deny tags) (st_media st))"
  have w: "wanted env ig tags st = set des" by (simp add: wanted_def l des_def)
  have d: "distinct des" by (simp add: des_def)
  have t: "st_tags st' = filter (\<lambda>r. \<not> (mt_source r = ig_kind ig \<and> tag_pair r \<in> set (filter (\<lambda>p. p \<notin> set des) ?ex))) (st_tags st)
      @ map (\<lambda>(i, n). \<lparr>mt_media_file_id = i, mt_name = n, mt_source = ig_kind ig\<rparr>) (filter (\<lambda>p. p \<notin> set ?ex) des)"
    and m: "st_media st' = st_media st"
    and r: "tr_inserted report = length (filter (\<lambda>p. p \<notin> set ?ex) des)" "tr_removed report = card (set (filter (\<lambda>p. p \<notin> set des) ?ex))"
    using assms by (auto simp: apply_tag_sync_def l Let_def des_def split: if_splits)
  have ex: "existing_pairs (ig_kind ig) (st_tags st') =
      filter (\<lambda>p. p \<notin> set (filter (\<lambda>p. p \<notin> set des) ?ex)) ?ex @ filter (\<lambda>p. p \<notin> set ?ex) des"
    unfolding t existing_append existing_filter existing_new by simp
  show "set (existing_pairs (ig_kind ig) (st_tags st')) = wanted env ig tags st" unfolding ex w by auto
  show "filter (\<lambda>r. mt_source r \<noteq> ig_kind ig) (st_tags st') = filter (\<lambda>r. mt_source r \<noteq> ig_kind ig) (st_tags st)"
    unfolding t by (rule other_sources)
  show "st_media st' = st_media st" by (rule m)
  show "tr_inserted report = card (wanted env ig tags st - set ?ex)"
    unfolding r w using d by (simp add: distinct_card [symmetric] set_diff_eq)
  show "tr_removed report = card (set ?ex - wanted env ig tags st)" unfolding r w by (simp add: set_diff_eq)
  show "distinct ?ex \<Longrightarrow> distinct (existing_pairs (ig_kind ig) (st_tags st'))" unfolding ex using d by auto
qed

text \<open>C31. A sync makes the rows of its source equal to what upstream reports: afterwards they are exactly the
  pairs of a file below a title and a tag of that title that the lists let through, the report counts what
  was missing and what was stale, rows of other sources are untouched, and a second run of the same sync
  finds nothing to do.\<close>

theorem tag_sync_reconciles:
  assumes "apply_tag_sync env ig tags st = (Inr report, st')"
  shows "set (existing_pairs (ig_kind ig) (st_tags st')) = wanted env ig tags st
    \<and> filter (\<lambda>r. mt_source r \<noteq> ig_kind ig) (st_tags st') = filter (\<lambda>r. mt_source r \<noteq> ig_kind ig) (st_tags st)
    \<and> tr_inserted report = card (wanted env ig tags st - set (existing_pairs (ig_kind ig) (st_tags st)))
    \<and> tr_removed report = card (set (existing_pairs (ig_kind ig) (st_tags st)) - wanted env ig tags st)
    \<and> (\<forall>again st''. apply_tag_sync env ig tags st' = (Inr again, st'') \<longrightarrow>
         tr_inserted again = 0 \<and> tr_removed again = 0 \<and> st_tags st'' = st_tags st')"
proof -
  note a = apply_tag_sync_tags [OF assms]
  have "tr_inserted again = 0 \<and> tr_removed again = 0 \<and> st_tags st'' = st_tags st'"
    if s: "apply_tag_sync env ig tags st' = (Inr again, st'')" for again st''
  proof -
    note b = apply_tag_sync_tags [OF s]
    have w: "wanted env ig tags st' = wanted env ig tags st" by (rule wanted_media [OF a(3)])
    obtain allow deny where l: "each_of (dict_get (ig_config ig) ''tag_allowlist'') = Inr allow"
        "each_of (dict_get (ig_config ig) ''tag_denylist'') = Inr deny"
      using assms by (auto simp: apply_tag_sync_def split: sum.splits)
    let ?des = "dedup (desired_pairs (ts_dialect env) (filter_tags_by_lists env allow deny tags) (st_media st'))"
    have e: "set (existing_pairs (ig_kind ig) (st_tags st')) = set ?des"
      using a(1) by (simp add: wanted_def l a(3))
    have "tag_pair r \<in> set ?des" if "r \<in> set (st_tags st')" "mt_source r = ig_kind ig" for r
      using that unfolding e [symmetric] existing_pairs_def by auto
    then have "filter (\<lambda>r. \<not> (mt_source r = ig_kind ig \<and> tag_pair r \<in> set (filter (\<lambda>p. p \<notin> set ?des) (existing_pairs (ig_kind ig) (st_tags st'))))) (st_tags st') = st_tags st'"
      by (intro filter_True) auto
    then have "st_tags st'' = st_tags st'" using s e by (auto simp: apply_tag_sync_def l Let_def split: if_splits)
    then show ?thesis using b(4,5) a(1) w by simp
  qed
  then show ?thesis using a by blast
qed

text \<open>C34. The source is the kind and not the integration, so two integrations of one kind undo each other:
  after the second is synced, no tag is left of the first that the second does not report too.\<close>

theorem second_instance_wipes_tags:
  assumes "ig_kind b = ig_kind a"
    and "apply_tag_sync env a tags_a st = (Inr ra, st1)" and "apply_tag_sync env b tags_b st1 = (Inr rb, st2)"
    and "p \<in> wanted env a tags_a st" and "p \<notin> wanted env b tags_b st"
  shows "p \<in> set (existing_pairs (ig_kind a) (st_tags st1)) \<and> p \<notin> set (existing_pairs (ig_kind a) (st_tags st2))"
proof -
  have "wanted env b tags_b st1 = wanted env b tags_b st"
    by (rule wanted_media [OF apply_tag_sync_tags(3) [OF assms(2)]])
  then show ?thesis using apply_tag_sync_tags(1) [OF assms(2)] apply_tag_sync_tags(1) [OF assms(3)] assms(1,4,5) by simp
qed

section \<open>Witnesses\<close>

definition tag_file :: "string \<Rightarrow> string \<Rightarrow> media_file" where
  "tag_file i p = (undefined :: media_file)\<lparr>mf_id := i, mf_path := p\<rparr>"

definition tag_store :: store where
  "tag_store = (undefined :: store)\<lparr>st_media := [tag_file ''1'' ''/tv/A/x.mkv'', tag_file ''2'' ''/tv/AB/y.mkv''], st_tags := []\<rparr>"

definition sample_tag_env :: tag_sync_env where
  "sample_tag_env = \<lparr>ts_str = (\<lambda>_. []), ts_dialect = Postgres, ts_bus = False\<rparr>"

definition sonarr_of :: "string \<Rightarrow> integration" where
  "sonarr_of i = (sample_integration i ''sonarr'')\<lparr>ig_kind := ''sonarr'', ig_config := []\<rparr>"

theorem title_matches_directory_witness:
  "sql_like Postgres (title_pattern ''/tv/A'') ''/tv/A/x'' \<and> \<not> sql_like Postgres (title_pattern ''/tv/A'') ''/tv/AB/x''"
proof -
  have w: "wildcard_free ''/tv/A''" by (simp add: wildcard_free_def)
  have r: "py_rstrip (CHR ''/'') ''/tv/A'' = ''/tv/A''" by code_simp
  show ?thesis unfolding title_matches_directory [OF w] r by simp
qed

lemma sample_sync:
  "\<exists>r st'. apply_tag_sync sample_tag_env (sonarr_of i) [\<lparr>te_media_path = p, te_tag = ''t''\<rparr>] (tag_store\<lparr>st_tags := t\<rparr>) = (Inr r, st')"
  by (auto simp: apply_tag_sync_def sonarr_of_def dict_get_def each_of_def Let_def sample_tag_env_def filter_tags_by_lists_def
      desired_pairs_def py_len_def split: if_splits)

lemma sample_wanted:
  "wanted sample_tag_env (sonarr_of i) [\<lparr>te_media_path = ''/tv/A'', te_tag = ''t''\<rparr>] (tag_store\<lparr>st_tags := t\<rparr>) = {(''1'', ''t'')}"
  "wanted sample_tag_env (sonarr_of i) [\<lparr>te_media_path = ''/tv/AB'', te_tag = ''t''\<rparr>] (tag_store\<lparr>st_tags := t\<rparr>) = {(''2'', ''t'')}"
proof -
  have m: "sql_like Postgres (title_pattern ''/tv/A'') ''/tv/A/x.mkv''" "\<not> sql_like Postgres (title_pattern ''/tv/A'') ''/tv/AB/y.mkv''"
    "\<not> sql_like Postgres (title_pattern ''/tv/AB'') ''/tv/A/x.mkv''" "sql_like Postgres (title_pattern ''/tv/AB'') ''/tv/AB/y.mkv''"
    by code_simp+
  show "wanted sample_tag_env (sonarr_of i) [\<lparr>te_media_path = ''/tv/A'', te_tag = ''t''\<rparr>] (tag_store\<lparr>st_tags := t\<rparr>) = {(''1'', ''t'')}"
    "wanted sample_tag_env (sonarr_of i) [\<lparr>te_media_path = ''/tv/AB'', te_tag = ''t''\<rparr>] (tag_store\<lparr>st_tags := t\<rparr>) = {(''2'', ''t'')}"
    using m by (simp_all add: wanted_def sonarr_of_def dict_get_def each_of_def sample_tag_env_def filter_tags_by_lists_def desired_pairs_def
        tag_store_def tag_file_def)
qed

theorem tag_sync_reconciles_witness:
  "\<exists>r st'. apply_tag_sync sample_tag_env (sonarr_of ''a'') [\<lparr>te_media_path = ''/tv/A'', te_tag = ''t''\<rparr>] (tag_store\<lparr>st_tags := []\<rparr>) = (Inr r, st')
     \<and> set (existing_pairs ''sonarr'' (st_tags st')) = {(''1'', ''t'')} \<and> tr_inserted r = 1"
proof -
  obtain r st' where a: "apply_tag_sync sample_tag_env (sonarr_of ''a'') [\<lparr>te_media_path = ''/tv/A'', te_tag = ''t''\<rparr>] (tag_store\<lparr>st_tags := []\<rparr>) = (Inr r, st')"
    using sample_sync by blast
  have k: "ig_kind (sonarr_of ''a'') = ''sonarr''" by (simp add: sonarr_of_def)
  show ?thesis using a tag_sync_reconciles [OF a, unfolded k sample_wanted] by (auto simp: existing_pairs_def)
qed

theorem second_instance_wipes_tags_witness:
  "\<exists>ra rb st1 st2. apply_tag_sync sample_tag_env (sonarr_of ''a'') [\<lparr>te_media_path = ''/tv/A'', te_tag = ''t''\<rparr>] (tag_store\<lparr>st_tags := []\<rparr>) = (Inr ra, st1)
     \<and> apply_tag_sync sample_tag_env (sonarr_of ''b'') [\<lparr>te_media_path = ''/tv/AB'', te_tag = ''t''\<rparr>] st1 = (Inr rb, st2)
     \<and> (''1'', ''t'') \<notin> set (existing_pairs ''sonarr'' (st_tags st2))"
proof -
  obtain ra st1 where a: "apply_tag_sync sample_tag_env (sonarr_of ''a'') [\<lparr>te_media_path = ''/tv/A'', te_tag = ''t''\<rparr>] (tag_store\<lparr>st_tags := []\<rparr>) = (Inr ra, st1)"
    using sample_sync by blast
  have "st1 = tag_store\<lparr>st_tags := st_tags st1\<rparr>"
    using a by (auto simp: apply_tag_sync_def Let_def sample_tag_env_def emit_def split: sum.splits if_splits)
  then obtain rb st2 where b: "apply_tag_sync sample_tag_env (sonarr_of ''b'') [\<lparr>te_media_path = ''/tv/AB'', te_tag = ''t''\<rparr>] st1 = (Inr rb, st2)"
    using sample_sync by metis
  have k: "ig_kind (sonarr_of ''b'') = ig_kind (sonarr_of ''a'')" "ig_kind (sonarr_of ''a'') = ''sonarr''" by (simp_all add: sonarr_of_def)
  have "(''1'', ''t'') \<notin> set (existing_pairs ''sonarr'' (st_tags st2))"
    using second_instance_wipes_tags [OF k(1) a b, of "(''1'', ''t'')"] unfolding k(2) sample_wanted by simp
  then show ?thesis using a b by blast
qed

end
