(* ===== verification/Updater.thy ===== *)
theory Updater
  imports Versioning Store PathMapping
begin

text \<open>
  The update engine: the feed (\<open>app/updater/feed.py\<close>), the install mode
  (\<open>app/updater/install_mode.py\<close>), the service with its checks and applies
  (\<open>app/updater/service.py\<close>) and their repository (\<open>app/services/repositories/updater.py\<close>).
  Times are microseconds.  Parameters (\<open>update_env\<close>): the answer of the feed, \<open>fromisoformat\<close>, the
  host, the clock, new identifiers, whether writing the sentinel or deleting the status file fails, and
  whether the service has a bus.
\<close>

section \<open>The feed\<close>

record feed_result =
  fr_ok :: bool
  fr_version :: "string option"
  fr_changelog :: "string option"
  fr_detail :: "string option"
  fr_commit_sha :: "string option"
  fr_commit_date :: "int option"
  fr_commit_message :: "string option"

definition feed_failure :: "string \<Rightarrow> feed_result" where
  "feed_failure detail = \<lparr>fr_ok = False, fr_version = None, fr_changelog = None, fr_detail = Some detail,
     fr_commit_sha = None, fr_commit_date = None, fr_commit_message = None\<rparr>"

text \<open>\<open>HttpFailure\<close> carries the text of the exception; the body of a reply is \<open>None\<close> where it is not JSON.\<close>

datatype feed_answer = HttpFailure string | Reply nat "pyval option"

definition utc_suffix :: "string \<Rightarrow> string" where
  "utc_suffix s = concat (map (\<lambda>c. if c = CHR ''Z'' then ''+00:00'' else [c]) s)"

definition parse_iso :: "(string \<Rightarrow> int option) \<Rightarrow> pyval \<Rightarrow> int option" where
  "parse_iso iso_of v = (case v of PyStr s \<Rightarrow> if py_strip s = [] then None else iso_of (utc_suffix (py_strip s)) | _ \<Rightarrow> None)"

definition str_field :: "pyval \<Rightarrow> string option" where
  "str_field v = (case v of PyStr s \<Rightarrow> Some s | _ \<Rightarrow> None)"

definition blank :: "pyval \<Rightarrow> bool" where
  "blank v = (case v of PyStr s \<Rightarrow> py_strip s = [] | _ \<Rightarrow> True)"

definition dict_field :: "pyval \<Rightarrow> string \<Rightarrow> pyval" where
  "dict_field v k = (case v of PyDict d \<Rightarrow> dict_get d k | _ \<Rightarrow> PyNone)"

definition strip_v :: "string \<Rightarrow> string" where
  "strip_v s = dropWhile (\<lambda>c. c = CHR ''v'') (py_strip s)"

definition normalize_github_commits :: "(string \<Rightarrow> int option) \<Rightarrow> (string \<times> pyval) list \<Rightarrow> feed_result" where
  "normalize_github_commits iso_of payload =
     (let sha = dict_get payload ''sha''; commit = dict_get payload ''commit'';
          message = str_field (dict_field commit ''message'');
          committer = parse_iso iso_of (dict_field (dict_field commit ''committer'') ''date'');
          author = parse_iso iso_of (dict_field (dict_field commit ''author'') ''date'') in
      if blank sha then feed_failure (''commits feed missing '' @ [CHR 0x27] @ ''sha'' @ [CHR 0x27])
      else \<lparr>fr_ok = True, fr_version = None, fr_changelog = message, fr_detail = None,
            fr_commit_sha = map_option py_strip (str_field sha),
            fr_commit_date = (case committer of Some d \<Rightarrow> Some d | None \<Rightarrow> author), fr_commit_message = message\<rparr>)"

definition normalize_github_release :: "(string \<times> pyval) list \<Rightarrow> feed_result" where
  "normalize_github_release payload =
     (let tag = dict_get payload ''tag_name'' in
      if blank tag then feed_failure ''GitHub feed missing tag_name''
      else \<lparr>fr_ok = True, fr_version = map_option strip_v (str_field tag), fr_changelog = str_field (dict_get payload ''body''),
            fr_detail = None, fr_commit_sha = None, fr_commit_date = None, fr_commit_message = None\<rparr>)"

definition normalize_generic :: "(string \<Rightarrow> int option) \<Rightarrow> (string \<times> pyval) list \<Rightarrow> feed_result" where
  "normalize_generic iso_of payload =
     (let version = dict_get payload ''version''; sha = py_or (dict_get payload ''commit_sha'') (dict_get payload ''sha'') in
      if blank version \<and> blank sha
      then feed_failure (''generic feed missing '' @ [CHR 0x27] @ ''version'' @ [CHR 0x27] @ '' or '' @ [CHR 0x27] @ ''commit_sha'' @ [CHR 0x27])
      else \<lparr>fr_ok = True, fr_version = map_option strip_v (str_field version),
            fr_changelog = str_field (dict_get payload ''changelog''), fr_detail = None,
            fr_commit_sha = map_option py_strip (str_field sha), fr_commit_date = parse_iso iso_of (dict_get payload ''commit_date''),
            fr_commit_message = str_field (dict_get payload ''commit_message'')\<rparr>)"

datatype feed_shape = Commits | Release | Generic

definition detect_shape :: "(string \<times> pyval) list \<Rightarrow> feed_shape" where
  "detect_shape payload =
     (case (dict_get payload ''sha'', dict_get payload ''commit'') of
        (PyStr _, PyDict _) \<Rightarrow> Commits
      | _ \<Rightarrow> if ''tag_name'' \<in> fst ` set payload then Release else Generic)"

definition read_feed :: "(string \<Rightarrow> int option) \<Rightarrow> feed_answer \<Rightarrow> feed_result" where
  "read_feed iso_of answer =
     (case answer of
        HttpFailure e \<Rightarrow> feed_failure (py_take 500 (''feed unreachable: '' @ e))
      | Reply code body \<Rightarrow>
          if code \<ge> 400 then feed_failure (''feed returned HTTP '' @ str_nat code)
          else (case body of
            None \<Rightarrow> feed_failure ''feed returned non-JSON body''
          | Some (PyDict d) \<Rightarrow>
              (case detect_shape d of
                 Commits \<Rightarrow> normalize_github_commits iso_of d
               | Release \<Rightarrow> normalize_github_release d
               | Generic \<Rightarrow> normalize_generic iso_of d)
          | Some _ \<Rightarrow> feed_failure ''feed root is not a JSON object''))"

section \<open>Install mode\<close>

record host =
  ho_docker_marker :: bool
  ho_container :: string
  ho_cgroup :: "string option"
  ho_bare_metal_marker :: bool
  ho_invocation_id :: string

definition is_docker :: "host \<Rightarrow> bool" where
  "is_docker h = (ho_docker_marker h \<or> py_lower (ho_container h) \<in> {''docker'', ''oci'', ''podman''}
     \<or> (case ho_cgroup h of None \<Rightarrow> False | Some s \<Rightarrow> substr_in ''docker'' s \<or> substr_in ''/containerd/'' s))"

definition is_bare_metal :: "host \<Rightarrow> bool" where
  "is_bare_metal h = (ho_bare_metal_marker h \<and> ho_invocation_id h \<noteq> [])"

definition detect_install_mode :: "host \<Rightarrow> string \<Rightarrow> string" where
  "detect_install_mode h configured =
     (let c = py_lower (py_strip (if configured = [] then ''auto'' else configured)) in
      if c \<in> {''docker'', ''bare-metal'', ''unmanaged''} then c
      else if c \<noteq> ''auto'' then ''unmanaged''
      else if is_docker h then ''docker'' else if is_bare_metal h then ''bare-metal'' else ''unmanaged'')"

section \<open>Rows and repository\<close>

record update_check =
  uc_id :: string
  uc_checked_at :: int
  uc_ok :: bool
  uc_latest_version :: "string option"
  uc_latest_commit_sha :: "string option"
  uc_latest_commit_date :: "int option"
  uc_changelog :: "string option"
  uc_detail :: "string option"
  uc_feed_url :: string

record update_apply =
  ua_id :: string
  ua_status :: string
  ua_from_version :: "string option"
  ua_to_version :: string
  ua_started_at :: int
  ua_finished_at :: "int option"
  ua_triggered_by :: "string option"
  ua_detail :: "string option"
  ua_error :: "string option"

text \<open>The two files shared with the host: the sentinel the service writes, and the status the host writes.\<close>

record sentinel =
  sl_apply_id :: string
  sl_from_version :: string
  sl_to_version :: string
  sl_requested_at :: int

datatype status_file = Absent | Unreadable | Payload pyval

record updater_state =
  us_checks :: "update_check list"
  us_applies :: "update_apply list"
  us_sentinel :: "sentinel option"
  us_status :: status_file
  us_events :: "domain_event list"

record update_env =
  ue_feed :: feed_answer
  ue_iso :: "string \<Rightarrow> int option"
  ue_host :: host
  ue_now :: int
  ue_new_id :: string
  ue_write_fails :: bool
  ue_unlink_fails :: bool
  ue_bus :: bool
  ue_app_version :: string
  ue_app_commit_sha :: string
  ue_app_commit_date :: string
  ue_feed_url :: string
  ue_install_mode :: string
  ue_timeout_seconds :: int

definition is_open :: "update_apply \<Rightarrow> bool" where
  "is_open a = (ua_status a \<in> {''requested'', ''running''})"

definition is_stale :: "update_env \<Rightarrow> update_apply \<Rightarrow> bool" where
  "is_stale env a = (is_open a \<and> ua_started_at a < ue_now env - ue_timeout_seconds env * 1000000)"

definition reap :: "update_env \<Rightarrow> update_apply \<Rightarrow> update_apply" where
  "reap env a = a\<lparr>ua_status := ''failed'', ua_finished_at := Some (ue_now env),
     ua_error := Some ''reaper: stale apply, host helper never reported back''\<rparr>"

definition reap_stale :: "update_env \<Rightarrow> updater_state \<Rightarrow> updater_state" where
  "reap_stale env s = s\<lparr>us_applies := map (\<lambda>a. if is_stale env a then reap env a else a) (us_applies s)\<rparr>"

definition has_open :: "updater_state \<Rightarrow> bool" where
  "has_open s = list_ex is_open (us_applies s)"

definition get_apply :: "string \<Rightarrow> updater_state \<Rightarrow> update_apply option" where
  "get_apply i s = table_find ua_id i (us_applies s)"

definition set_apply :: "update_apply \<Rightarrow> updater_state \<Rightarrow> updater_state" where
  "set_apply a s = s\<lparr>us_applies := map (\<lambda>x. if ua_id x = ua_id a then a else x) (us_applies s)\<rparr>"

definition latest_check :: "updater_state \<Rightarrow> update_check option" where
  "latest_check s = (case sort_key (\<lambda>c. - uc_checked_at c) (us_checks s) of [] \<Rightarrow> None | c # _ \<Rightarrow> Some c)"

definition update_emit :: "update_env \<Rightarrow> string \<Rightarrow> (string \<times> pyval) list \<Rightarrow> updater_state \<Rightarrow> updater_state" where
  "update_emit env name payload s = (if ue_bus env
     then s\<lparr>us_events := us_events s @ [\<lparr>ev_name = name, ev_payload = payload, ev_source = ''updater''\<rparr>]\<rparr> else s)"

section \<open>Checks and status\<close>

definition nonempty :: "string option \<Rightarrow> bool" where
  "nonempty x = (case x of None \<Rightarrow> False | Some s \<Rightarrow> s \<noteq> [])"

definition installed_date :: "update_env \<Rightarrow> int option" where
  "installed_date env = (let v = utc_suffix (py_strip (ue_app_commit_date env)) in if v = [] then None else ue_iso env v)"

definition opt_time :: "int option \<Rightarrow> pyval" where
  "opt_time t = (case t of None \<Rightarrow> PyNone | Some n \<Rightarrow> PyInt n)"

definition check_now :: "update_env \<Rightarrow> updater_state \<Rightarrow> update_check \<times> updater_state" where
  "check_now env s =
     (let f = read_feed (ue_iso env) (ue_feed env);
          row = \<lparr>uc_id = ue_new_id env, uc_checked_at = ue_now env, uc_ok = fr_ok f, uc_latest_version = fr_version f,
                 uc_latest_commit_sha = fr_commit_sha f, uc_latest_commit_date = fr_commit_date f, uc_changelog = fr_changelog f,
                 uc_detail = fr_detail f, uc_feed_url = ue_feed_url env\<rparr>;
          s1 = s\<lparr>us_checks := us_checks s @ [row]\<rparr> in
      (row,
       if \<not> fr_ok f then s1
       else if nonempty (fr_commit_sha f)
       then (if is_newer_commit (the (fr_commit_sha f)) (ue_app_commit_sha env) (fr_commit_date f) (installed_date env)
             then update_emit env ''update.available''
               [(''installed_commit'', PyStr (ue_app_commit_sha env)), (''latest_commit'', PyStr (the (fr_commit_sha f))),
                (''latest_commit_date'', opt_time (fr_commit_date f))] s1
             else s1)
       else if nonempty (fr_version f) \<and> is_newer (the (fr_version f)) (ue_app_version env)
       then update_emit env ''update.available''
         [(''installed'', PyStr (ue_app_version env)), (''latest'', PyStr (the (fr_version f)))] s1
       else s1))"

record updater_status =
  ut_installed_version :: string
  ut_latest_version :: "string option"
  ut_has_update :: bool
  ut_last_checked_at :: "int option"
  ut_last_check_ok :: "bool option"
  ut_last_check_detail :: "string option"
  ut_feed_url :: string
  ut_apply_in_progress :: bool
  ut_install_mode :: string
  ut_apply_enabled :: bool
  ut_manual_apply_command :: "string option"
  ut_installed_commit_sha :: "string option"
  ut_latest_commit_sha :: "string option"
  ut_latest_commit_date :: "int option"
  ut_latest_commit_message :: "string option"

definition docker_manual_apply_command :: "string \<Rightarrow> string" where
  "docker_manual_apply_command version =
     ''# In the directory containing your docker-compose.yml:'' @ [CHR 0x0A]
     @ ''cd /path/to/auditarr'' @ [CHR 0x0A]
     @ ''git pull origin main          '' @ ''# or: git fetch && git checkout v'' @ version @ [CHR 0x0A]
     @ ''docker compose pull'' @ [CHR 0x0A] @ ''docker compose up -d --force-recreate'' @ [CHR 0x0A]
     @ ''docker compose ps             '' @ ''# confirm app + worker are '' @ [CHR 0x27] @ ''running'' @ [CHR 0x27] @ [CHR 0x0A]"

definition ok_field :: "(update_check \<Rightarrow> 'a option) \<Rightarrow> update_check option \<Rightarrow> 'a option" where
  "ok_field f row = (case row of None \<Rightarrow> None | Some c \<Rightarrow> if uc_ok c then f c else None)"

definition update_status :: "update_env \<Rightarrow> updater_state \<Rightarrow> updater_status \<times> updater_state" where
  "update_status env s =
     (let last = latest_check s; version = ok_field uc_latest_version last; sha = ok_field uc_latest_commit_sha last;
          date = ok_field uc_latest_commit_date last; s1 = reap_stale env s; mode = detect_install_mode (ue_host env) (ue_install_mode env) in
      (\<lparr>ut_installed_version = ue_app_version env, ut_latest_version = version,
        ut_has_update = (if nonempty sha then is_newer_commit (the sha) (ue_app_commit_sha env) date (installed_date env)
                         else nonempty version \<and> is_newer (the version) (ue_app_version env)),
        ut_last_checked_at = map_option uc_checked_at last, ut_last_check_ok = map_option uc_ok last,
        ut_last_check_detail = (case last of None \<Rightarrow> None | Some c \<Rightarrow> uc_detail c),
        ut_feed_url = ue_feed_url env, ut_apply_in_progress = has_open s1, ut_install_mode = mode,
        ut_apply_enabled = (mode = ''bare-metal''),
        ut_manual_apply_command = (if mode = ''docker''
          then Some (docker_manual_apply_command (if nonempty version then the version else ''<new-version>'')) else None),
        ut_installed_commit_sha = (if ue_app_commit_sha env = [] then None else Some (ue_app_commit_sha env)),
        ut_latest_commit_sha = sha, ut_latest_commit_date = date,
        ut_latest_commit_message = (if nonempty sha then ok_field uc_changelog last else None)\<rparr>, s1))"

section \<open>Applies\<close>

definition requested_row :: "update_env \<Rightarrow> string \<Rightarrow> string option \<Rightarrow> update_apply" where
  "requested_row env to_version user =
     \<lparr>ua_id = ue_new_id env, ua_status = ''requested'', ua_from_version = Some (ue_app_version env), ua_to_version = to_version,
      ua_started_at = ue_now env, ua_finished_at = None, ua_triggered_by = user, ua_detail = None, ua_error = None\<rparr>"

text \<open>An exception before the commit undoes what the reaper did; one while the sentinel is written comes
  after the commit.\<close>

definition request_apply :: "update_env \<Rightarrow> string \<Rightarrow> string option \<Rightarrow> updater_state \<Rightarrow> update_apply result \<times> updater_state" where
  "request_apply env to_version user s =
     (let mode = detect_install_mode (ue_host env) (ue_install_mode env); s1 = reap_stale env s in
      if mode = ''unmanaged'' \<or> mode = ''docker'' then (Inl ValueError, s)
      else if has_open s1 then (Inl ValueError, s)
      else let row = requested_row env to_version user; s2 = s1\<lparr>us_applies := us_applies s1 @ [row]\<rparr> in
        if ue_write_fails env then (Inl OSError, s2)
        else (Inr row, s2\<lparr>us_sentinel := Some \<lparr>sl_apply_id = ua_id row, sl_from_version = ue_app_version env, sl_to_version = to_version,
                sl_requested_at = ue_now env\<rparr>\<rparr>))"

definition reported :: "update_env \<Rightarrow> string \<Rightarrow> pyval \<Rightarrow> update_apply \<Rightarrow> update_apply" where
  "reported env status payload a =
     a\<lparr>ua_status := status,
       ua_finished_at := (if status \<in> {''completed'', ''failed''} then Some (ue_now env) else ua_finished_at a),
       ua_detail := (case dict_field payload ''detail'' of PyStr t \<Rightarrow> Some t | _ \<Rightarrow> ua_detail a),
       ua_error := (case dict_field payload ''error'' of PyStr t \<Rightarrow> Some t | _ \<Rightarrow> ua_error a)\<rparr>"

definition unlink_status :: "update_env \<Rightarrow> updater_state \<Rightarrow> updater_state" where
  "unlink_status env s = (if ue_unlink_fails env then s else s\<lparr>us_status := Absent\<rparr>)"

definition settle_event :: "update_env \<Rightarrow> update_apply \<Rightarrow> updater_state \<Rightarrow> updater_state" where
  "settle_event env a s =
     (if ua_status a = ''completed''
      then update_emit env ''update.installed'' [(''apply_id'', PyStr (ua_id a)), (''to_version'', PyStr (ua_to_version a))] s
      else if ua_status a = ''failed''
      then update_emit env ''update.failed'' [(''apply_id'', PyStr (ua_id a)), (''to_version'', PyStr (ua_to_version a)),
        (''error'', opt_str (ua_error a))] s
      else s)"

text \<open>A status that cannot be hashed raises in the membership test, but only once the identifier is text.\<close>

definition poll_apply_status :: "update_env \<Rightarrow> updater_state \<Rightarrow> update_apply option result \<times> updater_state" where
  "poll_apply_status env s =
     (case us_status s of
        Absent \<Rightarrow> (Inr None, s)
      | Unreadable \<Rightarrow> (Inr None, s)
      | Payload (PyDict d) \<Rightarrow>
          (case (dict_get d ''apply_id'', dict_get d ''status'') of
             (PyStr i, PyStr status) \<Rightarrow>
               if status \<notin> {''running'', ''completed'', ''failed''} then (Inr None, s)
               else (case get_apply i s of
                 None \<Rightarrow> (Inr None, unlink_status env s)
               | Some a \<Rightarrow>
                   (let a1 = reported env status (PyDict d) a in
                    (Inr (Some a1), unlink_status env (settle_event env a1 (set_apply a1 s)))))
           | (PyStr _, PyList _) \<Rightarrow> (Inl TypeError, s)
           | (PyStr _, PyDict _) \<Rightarrow> (Inl TypeError, s)
           | _ \<Rightarrow> (Inr None, s))
      | Payload _ \<Rightarrow> (Inl AttributeError, s))"

text \<open>The watcher of a bare-metal host (\<open>updater/auditarr-update-bare-metal.sh\<close>): before every step of the
  apply it was started for it writes a status file that says \<open>running\<close>, for at most
  \<open>APPLY_DEADLINE_SECONDS\<close>, and it does not read the service's rows.\<close>

definition APPLY_DEADLINE_SECONDS :: int where "APPLY_DEADLINE_SECONDS = 1800"

definition write_status :: "string \<Rightarrow> string \<Rightarrow> string \<Rightarrow> string \<Rightarrow> updater_state \<Rightarrow> updater_state" where
  "write_status apply_id status detail error s =
     s\<lparr>us_status := Payload (PyDict ([(''apply_id'', PyStr apply_id), (''status'', PyStr status), (''detail'', PyStr detail)]
         @ (if error = [] then [] else [(''error'', PyStr error)])))\<rparr>"

definition force_cleared :: "update_env \<Rightarrow> update_apply \<Rightarrow> update_apply" where
  "force_cleared env a = a\<lparr>ua_status := ''failed'', ua_finished_at := Some (ue_now env), ua_error := Some ''force-cleared by operator''\<rparr>"

definition force_clear :: "update_env \<Rightarrow> string \<Rightarrow> updater_state \<Rightarrow> update_apply result \<times> updater_state" where
  "force_clear env i s =
     (case get_apply i s of
        None \<Rightarrow> (Inl ValueError, s)
      | Some a \<Rightarrow>
          if \<not> is_open a then (Inl ValueError, s)
          else (let a1 = force_cleared env a in (Inr a1, settle_event env a1 (set_apply a1 s))))"

definition rollback_apply :: "update_env \<Rightarrow> string \<Rightarrow> updater_state \<Rightarrow> update_apply result \<times> updater_state" where
  "rollback_apply env i s =
     (case get_apply i s of
        None \<Rightarrow> (Inl ValueError, s)
      | Some a \<Rightarrow>
          (case ua_from_version a of
             None \<Rightarrow> (Inl ValueError, s)
           | Some v \<Rightarrow>
               if ua_status a \<noteq> ''completed'' then (Inl ValueError, s)
               else request_apply env v (ua_triggered_by a)
                 (set_apply (a\<lparr>ua_status := ''rolled_back'', ua_finished_at := Some (ue_now env)\<rparr>) s)))"

end
