(* ===== verification/Housekeeping.thy ===== *)
theory Housekeeping
  imports Scheduler SessionManager Updater
begin

text \<open>
  The daily trim (\<open>app/housekeeping/service.py\<close>): rows older than their retention are deleted from four
  tables, playback sessions without an event for a day are closed, and a history row records the run.
  Times are microseconds.  Parameters (\<open>trim_env\<close>): the settings, the clock at start and end, which
  statement raises, the text of exceptions and the new identifier.
\<close>

section \<open>Rows\<close>

record housekeeping_run =
  hr_id :: string
  hr_trigger :: string
  hr_started_at :: int
  hr_finished_at :: "int option"
  hr_deliveries_deleted :: nat
  hr_update_checks_deleted :: nat
  hr_rule_evaluations_deleted :: nat
  hr_job_runs_deleted :: nat
  hr_error :: "string option"

record trim_db =
  td_deliveries :: "notification_delivery list"
  td_checks :: "update_check list"
  td_evals :: "rule_evaluation list"
  td_jobs :: "job_run list"
  td_sessions :: "playback_session list"
  td_history :: "housekeeping_run list"

record trim_report =
  hp_notification_deliveries :: nat
  hp_update_checks :: nat
  hp_rule_evaluations :: nat
  hp_job_runs :: nat
  hp_stuck_sessions_swept :: nat

definition report_total :: "trim_report \<Rightarrow> nat" where
  "report_total r = hp_notification_deliveries r + hp_update_checks r + hp_rule_evaluations r + hp_job_runs r + hp_stuck_sessions_swept r"

datatype statement = TrimDeliveries | TrimChecks | TrimEvaluations | TrimJobs | SweepSessions

record trim_env =
  te_deliveries_days :: int
  te_checks_days :: int
  te_evaluations_days :: int
  te_jobs_days :: int
  te_now :: int
  te_end :: int
  te_fails :: "statement \<Rightarrow> pyerr option"
  te_exc_str :: "pyerr \<Rightarrow> string"
  te_new_id :: string

section \<open>The run\<close>

definition DAY :: int where "DAY = 86400000000"

definition expired :: "int \<Rightarrow> int \<Rightarrow> int \<Rightarrow> bool" where
  "expired days now t = (days > 0 \<and> t < now - days * DAY)"

text \<open>One \<open>DELETE\<close>: how many rows went, and what is left.\<close>

definition trim :: "int \<Rightarrow> int \<Rightarrow> ('r \<Rightarrow> int) \<Rightarrow> 'r list \<Rightarrow> nat \<times> 'r list" where
  "trim days now stamp t = (length (filter (\<lambda>r. expired days now (stamp r)) t), filter (\<lambda>r. \<not> expired days now (stamp r)) t)"

definition stuck :: "int \<Rightarrow> playback_session \<Rightarrow> bool" where
  "stuck now s = (ps_state s \<noteq> ''stopped'' \<and> ps_last_event_at s < now - DAY)"

definition close_session :: "playback_session \<Rightarrow> playback_session" where
  "close_session s = s\<lparr>ps_state := ''stopped'', ps_stopped_at := Some (ps_last_event_at s)\<rparr>"

text \<open>A step of the body: the statement runs when its retention asks for it, raises where the environment
  says so, and otherwise changes report and tables.\<close>

type_synonym trim_state = "trim_report \<times> trim_db"

definition step_trim :: "trim_env \<Rightarrow> statement \<Rightarrow> bool \<Rightarrow> (trim_state \<Rightarrow> trim_state) \<Rightarrow> trim_state \<Rightarrow> pyerr option \<times> trim_state" where
  "step_trim env which runs f s =
     (if \<not> runs then (None, s) else case te_fails env which of Some e \<Rightarrow> (Some e, s) | None \<Rightarrow> (None, f s))"

definition and_then :: "pyerr option \<times> trim_state \<Rightarrow> (trim_state \<Rightarrow> pyerr option \<times> trim_state) \<Rightarrow> pyerr option \<times> trim_state" where
  "and_then r f = (case r of (Some e, s) \<Rightarrow> (Some e, s) | (None, s) \<Rightarrow> f s)"

definition trim_deliveries :: "trim_env \<Rightarrow> trim_state \<Rightarrow> pyerr option \<times> trim_state" where
  "trim_deliveries env = step_trim env TrimDeliveries (te_deliveries_days env > 0) (\<lambda>(r, d).
     let (n, t) = trim (te_deliveries_days env) (te_now env) nd_attempted_at (td_deliveries d) in
     (r\<lparr>hp_notification_deliveries := n\<rparr>, d\<lparr>td_deliveries := t\<rparr>))"

definition trim_checks :: "trim_env \<Rightarrow> trim_state \<Rightarrow> pyerr option \<times> trim_state" where
  "trim_checks env = step_trim env TrimChecks (te_checks_days env > 0) (\<lambda>(r, d).
     let (n, t) = trim (te_checks_days env) (te_now env) uc_checked_at (td_checks d) in
     (r\<lparr>hp_update_checks := n\<rparr>, d\<lparr>td_checks := t\<rparr>))"

definition trim_evaluations :: "trim_env \<Rightarrow> trim_state \<Rightarrow> pyerr option \<times> trim_state" where
  "trim_evaluations env = step_trim env TrimEvaluations (te_evaluations_days env > 0) (\<lambda>(r, d).
     let (n, t) = trim (te_evaluations_days env) (te_now env) re_evaluated_at (td_evals d) in
     (r\<lparr>hp_rule_evaluations := n\<rparr>, d\<lparr>td_evals := t\<rparr>))"

definition trim_jobs :: "trim_env \<Rightarrow> trim_state \<Rightarrow> pyerr option \<times> trim_state" where
  "trim_jobs env = step_trim env TrimJobs (te_jobs_days env > 0) (\<lambda>(r, d).
     let (n, t) = trim (te_jobs_days env) (te_now env) jr_started_at (td_jobs d) in
     (r\<lparr>hp_job_runs := n\<rparr>, d\<lparr>td_jobs := t\<rparr>))"

definition sweep_sessions :: "trim_env \<Rightarrow> trim_state \<Rightarrow> pyerr option \<times> trim_state" where
  "sweep_sessions env = step_trim env SweepSessions True (\<lambda>(r, d).
     (r\<lparr>hp_stuck_sessions_swept := length (filter (stuck (te_now env)) (td_sessions d))\<rparr>,
      d\<lparr>td_sessions := map (\<lambda>s. if stuck (te_now env) s then close_session s else s) (td_sessions d)\<rparr>))"

definition empty_report :: trim_report where
  "empty_report = \<lparr>hp_notification_deliveries = 0, hp_update_checks = 0, hp_rule_evaluations = 0, hp_job_runs = 0, hp_stuck_sessions_swept = 0\<rparr>"

definition trim_body :: "trim_env \<Rightarrow> trim_db \<Rightarrow> pyerr option \<times> trim_state" where
  "trim_body env d =
     and_then (trim_deliveries env (empty_report, d)) (\<lambda>s.
     and_then (trim_checks env s) (\<lambda>s.
     and_then (trim_evaluations env s) (\<lambda>s.
     and_then (trim_jobs env s) (sweep_sessions env))))"

definition record_run :: "trim_env \<Rightarrow> string \<Rightarrow> trim_report \<Rightarrow> string option \<Rightarrow> trim_db \<Rightarrow> trim_db" where
  "record_run env trigger r err d = d\<lparr>td_history := td_history d @
     [\<lparr>hr_id = te_new_id env, hr_trigger = trigger, hr_started_at = te_now env, hr_finished_at = Some (te_end env),
       hr_deliveries_deleted = hp_notification_deliveries r, hr_update_checks_deleted = hp_update_checks r,
       hr_rule_evaluations_deleted = hp_rule_evaluations r, hr_job_runs_deleted = hp_job_runs r, hr_error = err\<rparr>]\<rparr>"

text \<open>A failure is rolled back to the state before the run and recorded with the report as it stands.\<close>

definition housekeeping_run_once :: "trim_env \<Rightarrow> string \<Rightarrow> trim_db \<Rightarrow> trim_report result \<times> trim_db" where
  "housekeeping_run_once env trigger d =
     (case trim_body env d of
        (Some e, (r, _)) \<Rightarrow> (Inl e, record_run env trigger r (Some (py_take 1024 (te_exc_str env e))) d)
      | (None, (r, d1)) \<Rightarrow> (Inr r, record_run env trigger r None d1))"

section \<open>What a run does\<close>

lemma trim_off: "\<not> 0 < days \<Longrightarrow> trim days now f t = (0, t)"
  by (simp add: trim_def expired_def)

lemma step_trim_cases:
  "step_trim env which runs f s = (if runs \<and> te_fails env which \<noteq> None then (te_fails env which, s) else (None, if runs then f s else s))"
  by (auto simp: step_trim_def)

definition trimmed :: "trim_env \<Rightarrow> trim_db \<Rightarrow> trim_db" where
  "trimmed env d = d
     \<lparr>td_deliveries := filter (\<lambda>r. \<not> expired (te_deliveries_days env) (te_now env) (nd_attempted_at r)) (td_deliveries d),
      td_checks := filter (\<lambda>r. \<not> expired (te_checks_days env) (te_now env) (uc_checked_at r)) (td_checks d),
      td_evals := filter (\<lambda>r. \<not> expired (te_evaluations_days env) (te_now env) (re_evaluated_at r)) (td_evals d),
      td_jobs := filter (\<lambda>r. \<not> expired (te_jobs_days env) (te_now env) (jr_started_at r)) (td_jobs d),
      td_sessions := map (\<lambda>s. if stuck (te_now env) s then close_session s else s) (td_sessions d)\<rparr>"

definition counted :: "trim_env \<Rightarrow> trim_db \<Rightarrow> trim_report" where
  "counted env d =
     \<lparr>hp_notification_deliveries = length (filter (\<lambda>r. expired (te_deliveries_days env) (te_now env) (nd_attempted_at r)) (td_deliveries d)),
      hp_update_checks = length (filter (\<lambda>r. expired (te_checks_days env) (te_now env) (uc_checked_at r)) (td_checks d)),
      hp_rule_evaluations = length (filter (\<lambda>r. expired (te_evaluations_days env) (te_now env) (re_evaluated_at r)) (td_evals d)),
      hp_job_runs = length (filter (\<lambda>r. expired (te_jobs_days env) (te_now env) (jr_started_at r)) (td_jobs d)),
      hp_stuck_sessions_swept = length (filter (stuck (te_now env)) (td_sessions d))\<rparr>"

lemma never_expired: "\<not> 0 < days \<Longrightarrow> \<not> expired days now t"
  by (simp add: expired_def)

lemma trim_body_ok: "trim_body env d = (None, s) \<Longrightarrow> s = (counted env d, trimmed env d)"
  unfolding trim_body_def and_then_def trim_deliveries_def trim_checks_def trim_evaluations_def trim_jobs_def sweep_sessions_def step_trim_cases
  by (cases "0 < te_deliveries_days env"; cases "0 < te_checks_days env"; cases "0 < te_evaluations_days env"; cases "0 < te_jobs_days env")
     (auto simp: trim_def trimmed_def counted_def empty_report_def never_expired split: if_splits option.splits)

lemma removed_plus_left: "length (filter P t) + length (filter (\<lambda>r. \<not> P r) t) = length t"
  by (rule sum_length_filter_compl)

text \<open>A run that succeeds deletes exactly the rows older than their table's retention (none where the
  retention is zero), closes exactly the sessions without an event for a day at the time of their last
  event, and adds one history row whose counts are the rows that went; a second run at the same time
  finds nothing left to do.\<close>

theorem housekeeping_trims:
  assumes "housekeeping_run_once env trigger d = (Inr r, d')"
  shows "r = counted env d \<and> d' = record_run env trigger (counted env d) None (trimmed env d)
    \<and> hp_notification_deliveries r + length (td_deliveries d') = length (td_deliveries d)
    \<and> hp_update_checks r + length (td_checks d') = length (td_checks d)
    \<and> hp_rule_evaluations r + length (td_evals d') = length (td_evals d)
    \<and> hp_job_runs r + length (td_jobs d') = length (td_jobs d)
    \<and> list_all (\<lambda>s. \<not> stuck (te_now env) s) (td_sessions d')
    \<and> report_total (counted env d') = 0"
proof -
  obtain s where "trim_body env d = (None, s)" and s: "r = fst s" "d' = record_run env trigger (fst s) None (snd s)"
    using assms by (auto simp: housekeeping_run_once_def split: prod.splits option.splits)
  then have "r = counted env d" "d' = record_run env trigger (counted env d) None (trimmed env d)"
    using trim_body_ok by (metis fst_conv snd_conv)+
  moreover have "\<not> stuck now (close_session x)" for now x by (simp add: stuck_def close_session_def)
  ultimately show ?thesis
    by (auto simp: counted_def record_run_def trimmed_def removed_plus_left report_total_def list_all_iff filter_empty_conv o_def)
qed

text \<open>A run that fails deletes nothing: every table is as it was and one history row carries the error.
  But that row also carries the counts of the statements that ran before the failing one and were rolled
  back, so the history reports deletions that did not happen.\<close>

theorem failed_housekeeping_claims_deletions:
  assumes "te_fails env SweepSessions = Some e" and "\<And>q. q \<noteq> SweepSessions \<Longrightarrow> te_fails env q = None"
  shows "\<exists>row. housekeeping_run_once env trigger d = (Inl e, d\<lparr>td_history := td_history d @ [row]\<rparr>)
    \<and> hr_error row = Some (py_take 1024 (te_exc_str env e))
    \<and> hr_deliveries_deleted row = hp_notification_deliveries (counted env d)
    \<and> hr_update_checks_deleted row = hp_update_checks (counted env d)
    \<and> hr_rule_evaluations_deleted row = hp_rule_evaluations (counted env d)
    \<and> hr_job_runs_deleted row = hp_job_runs (counted env d)"
proof -
  let ?env = "env\<lparr>te_fails := \<lambda>_. None\<rparr>"
  have "\<exists>r s. trim_body env d = (Some e, (r, s)) \<and> r = (counted env d)\<lparr>hp_stuck_sessions_swept := 0\<rparr>"
    using assms
    unfolding trim_body_def and_then_def trim_deliveries_def trim_checks_def trim_evaluations_def trim_jobs_def sweep_sessions_def step_trim_cases
    by (cases "0 < te_deliveries_days env"; cases "0 < te_checks_days env"; cases "0 < te_evaluations_days env"; cases "0 < te_jobs_days env")
       (simp_all add: trim_def counted_def empty_report_def never_expired)
  then show ?thesis by (auto simp: housekeeping_run_once_def record_run_def)
qed

section \<open>Witnesses\<close>

definition sample_trim_env :: "pyerr option \<Rightarrow> trim_env" where
  "sample_trim_env e = \<lparr>te_deliveries_days = 0, te_checks_days = 30, te_evaluations_days = 0, te_jobs_days = 0, te_now = 40 * DAY,
     te_end = 40 * DAY + 1, te_fails = (\<lambda>q. if q = SweepSessions then e else None), te_exc_str = (\<lambda>_. ''boom''), te_new_id = ''h''\<rparr>"

definition old_check :: update_check where
  "old_check = \<lparr>uc_id = ''c'', uc_checked_at = 0, uc_ok = True, uc_latest_version = None, uc_latest_commit_sha = None,
     uc_latest_commit_date = None, uc_changelog = None, uc_detail = None, uc_feed_url = ''u''\<rparr>"

definition sample_trim_db :: trim_db where
  "sample_trim_db = \<lparr>td_deliveries = [], td_checks = [old_check], td_evals = [], td_jobs = [], td_sessions = [], td_history = []\<rparr>"

theorem housekeeping_trims_witness:
  "\<exists>r d'. housekeeping_run_once (sample_trim_env None) ''manual'' sample_trim_db = (Inr r, d') \<and> td_checks d' = [] \<and> hp_update_checks r = 1"
proof -
  obtain r d' where h: "housekeeping_run_once (sample_trim_env None) ''manual'' sample_trim_db = (Inr r, d')"
    by (auto simp: housekeeping_run_once_def trim_body_def and_then_def trim_deliveries_def trim_checks_def trim_evaluations_def
        trim_jobs_def sweep_sessions_def step_trim_cases sample_trim_env_def trim_def)
  have "r = counted (sample_trim_env None) sample_trim_db" using housekeeping_trims [OF h] by blast
  then have "hp_update_checks r = 1"
    by (simp add: counted_def sample_trim_db_def sample_trim_env_def old_check_def expired_def DAY_def)
  moreover have "hp_update_checks r + length (td_checks d') = length (td_checks sample_trim_db)"
    using housekeeping_trims [OF h] by blast
  ultimately show ?thesis using h by (simp add: sample_trim_db_def)
qed

theorem failed_housekeeping_claims_deletions_witness:
  "\<exists>row. housekeeping_run_once (sample_trim_env (Some OSError)) ''manual'' sample_trim_db
      = (Inl OSError, sample_trim_db\<lparr>td_history := [row]\<rparr>) \<and> hr_update_checks_deleted row = 1"
proof -
  have c: "hp_update_checks (counted (sample_trim_env (Some OSError)) sample_trim_db) = 1"
    by (simp add: counted_def sample_trim_db_def sample_trim_env_def old_check_def expired_def DAY_def)
  have "\<exists>row. housekeeping_run_once (sample_trim_env (Some OSError)) ''manual'' sample_trim_db
      = (Inl OSError, sample_trim_db\<lparr>td_history := td_history sample_trim_db @ [row]\<rparr>)
      \<and> hr_update_checks_deleted row = hp_update_checks (counted (sample_trim_env (Some OSError)) sample_trim_db)"
    using failed_housekeeping_claims_deletions [of "sample_trim_env (Some OSError)" OSError "''manual''" sample_trim_db]
    by (auto simp: sample_trim_env_def)
  then show ?thesis unfolding c by (simp add: sample_trim_db_def)
qed

end
