(* ===== verification/UpdaterGuarantees.thy ===== *)
theory UpdaterGuarantees
  imports Updater
begin

text \<open>
  What the update engine guarantees: the event and the status page agree, a request opens an apply only when no
  other is open, and a wedged apply frees itself.  And what it does not: the watcher of the host goes on
  reporting on an apply the service has given up, which opens that apply again beside the next one.
\<close>

text \<open>A bare-metal host on which the witnesses run.\<close>

definition metal_env :: "int \<Rightarrow> string \<Rightarrow> update_env" where
  "metal_env now i = \<lparr>ue_feed = Reply 200 (Some (PyDict [(''version'', PyStr ''v2.0.0'')])), ue_iso = (\<lambda>_. None),
     ue_host = \<lparr>ho_docker_marker = False, ho_container = [], ho_cgroup = None, ho_bare_metal_marker = True, ho_invocation_id = ''u''\<rparr>,
     ue_now = now, ue_new_id = i, ue_write_fails = False, ue_unlink_fails = False, ue_bus = True, ue_app_version = ''1.2.3'',
     ue_app_commit_sha = [], ue_app_commit_date = [], ue_feed_url = ''http://feed'', ue_install_mode = ''auto'',
     ue_timeout_seconds = 10\<rparr>"

definition blank_updater :: updater_state where
  "blank_updater = \<lparr>us_checks = [], us_applies = [], us_sentinel = None, us_status = Absent, us_events = []\<rparr>"

definition apply_row :: "string \<Rightarrow> string \<Rightarrow> int \<Rightarrow> update_apply" where
  "apply_row i status started = \<lparr>ua_id = i, ua_status = status, ua_from_version = Some ''1.0.0'', ua_to_version = ''1.2.3'',
     ua_started_at = started, ua_finished_at = None, ua_triggered_by = None, ua_detail = None, ua_error = None\<rparr>"

section \<open>Checks\<close>

lemma sort_key_snoc_least: "\<forall>c\<in>set xs. f row < f c \<Longrightarrow> sort_key f (xs @ [row]) = row # sort_key f xs"
proof (induction xs)
  case (Cons c xs)
  then have "\<not> f c \<le> f row" "sort_key f (xs @ [row]) = row # sort_key f xs" by auto
  then show ?case by simp
qed simp

lemma latest_check_appended:
  assumes "\<forall>c\<in>set (us_checks s). uc_checked_at c < uc_checked_at row" "us_checks s' = us_checks s @ [row]"
  shows "latest_check s' = Some row"
  using assms by (simp add: latest_check_def sort_key_snoc_least)

lemma update_emit_simps [simp]:
  "us_checks (update_emit env n p s) = us_checks s" "us_applies (update_emit env n p s) = us_applies s"
  "us_sentinel (update_emit env n p s) = us_sentinel s" "us_status (update_emit env n p s) = us_status s"
  by (simp_all add: update_emit_def)

definition announced :: "updater_state \<Rightarrow> updater_state \<Rightarrow> bool" where
  "announced s s' = (\<exists>e. us_events s' = us_events s @ [e] \<and> ev_name e = ''update.available'')"

text \<open>The event and the status page agree: right after a check that is newer than every earlier one, on
  a service with a bus, the status reports an update exactly when the check announced one on the bus.\<close>

theorem check_agrees_with_status:
  assumes "check_now env s = (row, s')" and "ue_bus env" and "\<forall>c\<in>set (us_checks s). uc_checked_at c < ue_now env"
  shows "ut_has_update (fst (update_status env s')) \<longleftrightarrow> announced s s'"
proof -
  have c: "us_checks s' = us_checks s @ [row]" "uc_checked_at row = ue_now env"
    using assms(1) by (auto simp: check_now_def Let_def split: if_splits)
  then have l: "latest_check s' = Some row" using assms(3) by (intro latest_check_appended) simp_all
  show ?thesis
    using assms(1,2) by (auto simp: update_status_def l Let_def ok_field_def check_now_def announced_def update_emit_def nonempty_def
        split: if_splits option.splits)
qed

theorem check_agrees_with_status_witness:
  "ut_has_update (fst (update_status (metal_env 5 ''c'') (snd (check_now (metal_env 5 ''c'') blank_updater))))
   \<and> announced blank_updater (snd (check_now (metal_env 5 ''c'') blank_updater))"
proof -
  have u: "ut_has_update (fst (update_status (metal_env 5 ''c'') (snd (check_now (metal_env 5 ''c'') blank_updater))))" by code_simp
  have p: "check_now (metal_env 5 ''c'') blank_updater
      = (fst (check_now (metal_env 5 ''c'') blank_updater), snd (check_now (metal_env 5 ''c'') blank_updater))" by simp
  have "ue_bus (metal_env 5 ''c'')" "\<forall>c\<in>set (us_checks blank_updater). uc_checked_at c < ue_now (metal_env 5 ''c'')"
    by code_simp+
  then show ?thesis using check_agrees_with_status [OF p] u by simp
qed

section \<open>One open apply\<close>

definition open_count :: "updater_state \<Rightarrow> nat" where
  "open_count s = length (filter is_open (us_applies s))"

lemma has_open_iff: "has_open s \<longleftrightarrow> open_count s \<noteq> 0"
  by (simp add: has_open_def open_count_def filter_empty_conv list_ex_iff)

lemma reap_closed [simp]: "\<not> is_open (reap env a)"
  by (simp add: reap_def is_open_def)

lemma settle_event_applies [simp]: "us_applies (settle_event env a s) = us_applies s" "us_status (settle_event env a s) = us_status s"
  by (simp_all add: settle_event_def)

lemma unlink_applies [simp]: "us_applies (unlink_status env s) = us_applies s"
  by (simp add: unlink_status_def)

lemma keys_reap: "map ua_id (us_applies (reap_stale env s)) = map ua_id (us_applies s)"
  by (simp add: reap_stale_def reap_def o_def cong: map_cong if_cong)

definition fresh_id :: "update_env \<Rightarrow> updater_state \<Rightarrow> bool" where
  "fresh_id env s = (ue_new_id env \<notin> ua_id ` set (us_applies s))"

text \<open>A wedged apply frees itself: on a bare-metal install, once every open apply is older than the
  timeout, the next request is accepted, closes them as failed, and leaves one open apply, which the
  sentinel names.\<close>

theorem stale_apply_unblocks:
  assumes "detect_install_mode (ue_host env) (ue_install_mode env) = ''bare-metal''" and "\<not> ue_write_fails env"
    and "\<forall>a\<in>set (us_applies s). is_open a \<longrightarrow> is_stale env a"
  shows "\<exists>row s'. request_apply env v u s = (Inr row, s') \<and> ua_to_version row = v \<and> filter is_open (us_applies s') = [row]
    \<and> map_option sl_apply_id (us_sentinel s') = Some (ua_id row)
    \<and> length (filter (\<lambda>a. ua_status a = ''failed'') (us_applies s')) = length (filter (\<lambda>a. is_open a \<or> ua_status a = ''failed'') (us_applies s))"
proof -
  have n: "filter is_open (us_applies (reap_stale env s)) = []"
    using assms(3) by (auto simp: reap_stale_def filter_empty_conv)
  have "length (filter (\<lambda>a. ua_status a = ''failed'') (map (\<lambda>a. if is_stale env a then reap env a else a) t))
      = length (filter (\<lambda>a. is_open a \<or> ua_status a = ''failed'') t)" if "\<forall>a\<in>set t. is_open a \<longrightarrow> is_stale env a" for t
    using that by (induction t) (auto simp: reap_def is_stale_def is_open_def)
  then have f: "length (filter (\<lambda>a. ua_status a = ''failed'') (us_applies (reap_stale env s)))
      = length (filter (\<lambda>a. is_open a \<or> ua_status a = ''failed'') (us_applies s))"
    using assms(3) by (simp add: reap_stale_def)
  have "\<not> has_open (reap_stale env s)" using n by (simp add: has_open_iff open_count_def)
  moreover have "is_open (requested_row env v u)" "ua_status (requested_row env v u) \<noteq> ''failed''" "ua_to_version (requested_row env v u) = v"
    by (simp_all add: requested_row_def is_open_def)
  ultimately show ?thesis using assms(1,2) n f by (simp add: request_apply_def Let_def)
qed

theorem stale_apply_unblocks_witness:
  "\<exists>row s'. request_apply (metal_env 20000000 ''b'') ''2.0.0'' None (blank_updater\<lparr>us_applies := [apply_row ''a'' ''running'' 0]\<rparr>) = (Inr row, s')
    \<and> ua_to_version row = ''2.0.0'' \<and> filter is_open (us_applies s') = [row]"
proof -
  have "detect_install_mode (ue_host (metal_env 20000000 ''b'')) (ue_install_mode (metal_env 20000000 ''b'')) = ''bare-metal''"
    "\<not> ue_write_fails (metal_env 20000000 ''b'')"
    "\<forall>a\<in>set (us_applies (blank_updater\<lparr>us_applies := [apply_row ''a'' ''running'' 0]\<rparr>)). is_open a \<longrightarrow> is_stale (metal_env 20000000 ''b'') a"
    by code_simp+
  from stale_apply_unblocks [OF this, of "''2.0.0''" None] show ?thesis by blast
qed

text \<open>A report that says \<open>running\<close>, of a row of any status.\<close>

lemma report_running:
  assumes "us_status s = Payload (PyDict d)" "dict_get d ''apply_id'' = PyStr i" "dict_get d ''status'' = PyStr ''running''"
    and "get_apply i s = Some a"
  shows "us_applies (snd (poll_apply_status env s)) =
    map (\<lambda>x. if ua_id x = i then reported env ''running'' (PyDict d) a else x) (us_applies s)"
proof -
  have "ua_id (reported env ''running'' (PyDict d) a) = i"
    using assms(4) table_find_SomeD [of ua_id i "us_applies s" a] by (simp add: get_apply_def reported_def)
  then show ?thesis using assms by (simp add: poll_apply_status_def Let_def set_apply_def)
qed

lemma opens_closed_row:
  assumes "unique_keys ua_id t" "\<forall>x\<in>set t. \<not> is_open x" "i \<in> ua_id ` set t" "is_open b"
  shows "filter is_open (map (\<lambda>x. if ua_id x = i then b else x) t) = [b]"
  using assms(1-3)
proof (induction t)
  case (Cons x t)
  show ?case
  proof (cases "ua_id x = i")
    case True
    then have "map (\<lambda>x. if ua_id x = i then b else x) t = t"
      using Cons.prems(1) by (intro map_idI) (auto simp: unique_keys_def image_iff)
    then show ?thesis using True assms(4) Cons.prems(2) by (simp add: filter_empty_conv)
  next
    case False
    then show ?thesis using Cons by (auto simp: unique_keys_def)
  qed
qed simp

text \<open>C32. Two updates can be under way, against the guard that means to prevent it.  Where the one open apply of a bare-metal host
  is older than the timeout, the next request closes it and opens its own; but the watcher of the host is still at
  work on the old one, and its next status file, which says \<open>running\<close>, opens the old apply again
  beside the new, because a report is applied to a row of any status.\<close>

theorem late_report_opens_second:
  assumes "detect_install_mode (ue_host env) (ue_install_mode env) = ''bare-metal''" "\<not> ue_write_fails env" "fresh_id env s"
    and "unique_keys ua_id (us_applies s)" "filter is_open (us_applies s) = [a]" "is_stale env a"
    and "request_apply env v u s = (res, s1)"
    and "s2 = snd (poll_apply_status env2 (write_status (ua_id a) ''running'' step [] s1))"
  shows "\<exists>row. res = Inr row \<and> filter is_open (us_applies s1) = [row] \<and> ua_to_version row = v
    \<and> map ua_id (filter is_open (us_applies s2)) = [ua_id a, ua_id row]"
proof -
  let ?t = "us_applies (reap_stale env s)" and ?row = "requested_row env v u"
  let ?d = "[(''apply_id'', PyStr (ua_id a)), (''status'', PyStr ''running''), (''detail'', PyStr step)]"
  have closed: "\<forall>x\<in>set ?t. \<not> is_open x"
  proof -
    have "set (filter is_open (us_applies s)) = {a}" by (simp add: assms(5))
    then have "is_open x \<Longrightarrow> x = a" if "x \<in> set (us_applies s)" for x using that by auto
    then show ?thesis using assms(6) by (auto simp: reap_stale_def)
  qed
  then have "\<not> has_open (reap_stale env s)" by (simp add: has_open_def list_ex_iff)
  then have req: "res = Inr ?row" "us_applies s1 = ?t @ [?row]"
    using assms(1,2,7) by (auto simp: request_apply_def Let_def)
  have row: "is_open ?row" "ua_id ?row = ue_new_id env" "ua_to_version ?row = v" by (simp_all add: requested_row_def is_open_def)
  have keys: "map ua_id ?t = map ua_id (us_applies s)" by (rule keys_reap)
  then have ids: "ua_id ` set ?t = ua_id ` set (us_applies s)" by (metis list.set_map)
  have "a \<in> set (filter is_open (us_applies s))" by (simp add: assms(5))
  then have a: "ua_id a \<in> ua_id ` set ?t" unfolding ids by simp
  have new: "ue_new_id env \<noteq> ua_id a" using a assms(3) unfolding ids fresh_id_def by metis
  have u: "unique_keys ua_id ?t" using assms(4) by (simp add: unique_keys_def keys)
  have "ua_id a \<in> ua_id ` set (us_applies s1)" using a by (simp add: req(2))
  then obtain a1 where a1: "get_apply (ua_id a) (write_status (ua_id a) ''running'' step [] s1) = Some a1"
    by (cases "table_find ua_id (ua_id a) (us_applies s1)") (auto simp: get_apply_def write_status_def table_find_None_iff)
  let ?b = "reported env2 ''running'' (PyDict ?d) a1"
  have s2: "us_applies s2 = map (\<lambda>x. if ua_id x = ua_id a then ?b else x) (us_applies s1)"
    unfolding assms(8) using report_running [of "write_status (ua_id a) ''running'' step [] s1" ?d "ua_id a" a1 env2] a1
    by (simp add: write_status_def dict_get_def)
  have b: "is_open ?b" "ua_id ?b = ua_id a"
    using table_find_SomeD [of ua_id "ua_id a" "us_applies s1" a1] a1 by (simp_all add: reported_def is_open_def get_apply_def write_status_def)
  have "filter is_open (us_applies s2) = [?b, ?row]"
    unfolding s2 req(2) using opens_closed_row [OF u closed a b(1)] row(1,2) new by simp
  moreover have "filter is_open (us_applies s1) = [?row]" using closed row(1) by (simp add: req(2) filter_empty_conv)
  ultimately show ?thesis using req(1) row(3) b(2) by simp
qed

text \<open>The defaults: an apply is given up after 900 seconds, the watcher works on it for up to 1800.\<close>

definition slow_updater :: updater_state where
  "slow_updater = blank_updater\<lparr>us_applies := [apply_row ''a'' ''running'' 0]\<rparr>"

definition slow_env :: "int \<Rightarrow> string \<Rightarrow> update_env" where
  "slow_env now i = (metal_env now i)\<lparr>ue_timeout_seconds := 900\<rparr>"

theorem late_report_opens_second_witness:
  "map ua_id (filter is_open (us_applies (snd (poll_apply_status (slow_env 1000000000 ''c'')
     (write_status ''a'' ''running'' ''Snapshotting current install for rollback'' []
        (snd (request_apply (slow_env 901000000 ''b'') ''2.0.0'' None slow_updater))))))) = [''a'', ''b'']
   \<and> 1000000000 < APPLY_DEADLINE_SECONDS * 1000000"
proof -
  have "detect_install_mode (ue_host (slow_env 901000000 ''b'')) (ue_install_mode (slow_env 901000000 ''b'')) = ''bare-metal''"
    "\<not> ue_write_fails (slow_env 901000000 ''b'')" "fresh_id (slow_env 901000000 ''b'') slow_updater"
    "unique_keys ua_id (us_applies slow_updater)" "filter is_open (us_applies slow_updater) = [apply_row ''a'' ''running'' 0]"
    "is_stale (slow_env 901000000 ''b'') (apply_row ''a'' ''running'' 0)"
    by code_simp+
  note late = late_report_opens_second [OF this prod.collapse [symmetric] refl, of "''2.0.0''" None
    "slow_env 1000000000 ''c''" "''Snapshotting current install for rollback''"]
  have "fst (request_apply (slow_env 901000000 ''b'') ''2.0.0'' None slow_updater) =
      Inr (requested_row (slow_env 901000000 ''b'') ''2.0.0'' None)"
    "ua_id (apply_row ''a'' ''running'' 0) = ''a''" "ua_id (requested_row (slow_env 901000000 ''b'') ''2.0.0'' None) = ''b''"
    by code_simp+
  then show ?thesis using late by (simp add: APPLY_DEADLINE_SECONDS_def)
qed

text \<open>A rollback can be lost: while another apply is open the request for the old version is refused, but
  the row has already been committed as rolled back, so no apply is made and it cannot be tried again.\<close>

theorem rollback_lost:
  assumes "get_apply i s = Some a" "ua_status a = ''completed''" "ua_from_version a = Some v"
    and "has_open (reap_stale env (set_apply (a\<lparr>ua_status := ''rolled_back'', ua_finished_at := Some (ue_now env)\<rparr>) s))"
  shows "\<exists>s'. rollback_apply env i s = (Inl ValueError, s') \<and> length (us_applies s') = length (us_applies s)
    \<and> (\<forall>env'. rollback_apply env' i s' = (Inl ValueError, s'))"
proof -
  let ?b = "a\<lparr>ua_status := ''rolled_back'', ua_finished_at := Some (ue_now env)\<rparr>"
  have i: "ua_id a = i" using assms(1) table_find_SomeD [of ua_id i "us_applies s" a] by (simp add: get_apply_def)
  have "rollback_apply env i s = (Inl ValueError, set_apply ?b s)"
    using assms by (simp add: rollback_apply_def request_apply_def Let_def)
  moreover have "get_apply i (set_apply ?b s) = Some ?b"
    using assms(1) i unfolding get_apply_def set_apply_def by (simp add: table_find_map)
  then have "rollback_apply env' i (set_apply ?b s) = (Inl ValueError, set_apply ?b s)" for env'
    using assms(3) by (simp add: rollback_apply_def)
  moreover have "length (us_applies (set_apply ?b s)) = length (us_applies s)" by (simp add: set_apply_def)
  ultimately show ?thesis by blast
qed

definition busy_updater :: updater_state where
  "busy_updater = blank_updater\<lparr>us_applies := [apply_row ''a'' ''completed'' 0, apply_row ''b'' ''running'' 5]\<rparr>"

theorem rollback_lost_witness:
  "\<exists>s'. rollback_apply (metal_env 6 ''c'') ''a'' busy_updater = (Inl ValueError, s')
    \<and> rollback_apply (metal_env 7 ''d'') ''a'' s' = (Inl ValueError, s')"
proof -
  have "get_apply ''a'' busy_updater = Some (apply_row ''a'' ''completed'' 0)" "ua_status (apply_row ''a'' ''completed'' 0) = ''completed''"
    "ua_from_version (apply_row ''a'' ''completed'' 0) = Some ''1.0.0''"
    "has_open (reap_stale (metal_env 6 ''c'') (set_apply ((apply_row ''a'' ''completed'' 0)\<lparr>ua_status := ''rolled_back'',
       ua_finished_at := Some (ue_now (metal_env 6 ''c''))\<rparr>) busy_updater))"
    by code_simp+
  then show ?thesis using rollback_lost [of "''a''" busy_updater "apply_row ''a'' ''completed'' 0" "''1.0.0''" "metal_env 6 ''c''"] by blast
qed

end
