(* ===== verification/Poller.thy ===== *)
theory Poller
  imports Integrations SessionManager Analyzer
begin

text \<open>
  The playback poller (\<open>app/services/playback/poller.py\<close>): one poll of an integration reads the history
  its provider reports since the cursor, maps and resolves paths, stores each event once, counts devices,
  marks the live sessions the history confirms, advances the cursor and adds events for live sessions.
  Times are microseconds.  Parameters (\<open>poll_env\<close>): the provider's two calls, the texts of times
  and percentages, \<open>fromisoformat\<close>, SHA-1, the clock and new identifiers.  Races with another
  poller, and values too long for a column (errors on PostgreSQL, accepted by SQLite), are not modelled.
\<close>

section \<open>Data\<close>

record playback_dto =
  pt_upstream_id :: string
  pt_source_path :: string
  pt_decision :: string
  pt_started_at :: "int option"
  pt_device_kind :: "string option"
  pt_device_name :: "string option"
  pt_reason_code :: "string option"
  pt_source_codec :: "string option"
  pt_source_bitrate_kbps :: "int option"
  pt_source_width :: "int option"
  pt_source_height :: "int option"
  pt_source_container :: "string option"
  pt_target_codec :: "string option"
  pt_target_bitrate_kbps :: "int option"
  pt_completed_at :: "int option"
  pt_duration_s :: "int option"
  pt_rating_key :: "string option"

record live_dto =
  lv_upstream_id :: string
  lv_source_path :: string
  lv_decision :: string
  lv_started_at :: "int option"
  lv_progress_pct :: "pyfloat option"
  lv_device_kind :: "string option"
  lv_device_name :: "string option"
  lv_source_codec :: "string option"
  lv_source_bitrate_kbps :: "int option"
  lv_source_width :: "int option"
  lv_source_height :: "int option"

text \<open>The rows: an event and a session with the columns their other users do not read.\<close>

record stored_event = playback_event +
  se_id :: string

record tracked_session = playback_session +
  tk_id :: string
  tk_reconciled_with_history :: bool

record polling_cursor =
  cu_integration_id :: string
  cu_cursor_kind :: string
  cu_cursor_value :: string
  cu_updated_at :: int

record playback_device =
  dv_integration_id :: string
  dv_client_key :: string
  dv_name :: "string option"
  dv_platform :: "string option"
  dv_first_seen_at :: int
  dv_last_seen_at :: int
  dv_playback_count :: nat
  dv_transcode_count :: nat
  dv_direct_play_count :: nat
  dv_direct_stream_count :: nat

record poll_db =
  pd_store :: store
  pd_globals :: "global_mapping list"
  pd_events :: "stored_event list"
  pd_sessions :: "tracked_session list"
  pd_cursors :: "polling_cursor list"
  pd_devices :: "playback_device list"

text \<open>What a call of the provider does; \<open>pk_live\<close> is \<open>None\<close> for a provider without it.\<close>

datatype 'a fetched = NotImplemented | FetchFailed pyerr | Fetched "'a list"

record poll_env =
  pk_integ :: integ_env
  pk_history :: "string \<Rightarrow> integration_config \<Rightarrow> int option \<Rightarrow> playback_dto fetched"
  pk_live :: "string \<Rightarrow> (integration_config \<Rightarrow> live_dto fetched) option"
  pk_iso :: "int \<Rightarrow> string"
  pk_iso_seconds :: "int \<Rightarrow> string"
  pk_from_iso :: "string \<Rightarrow> int option"
  pk_percent :: "nat \<Rightarrow> nat \<Rightarrow> string"
  pk_sha1 :: "string \<Rightarrow> string"
  pk_now :: int
  pk_new_id :: "nat \<Rightarrow> string"
  pk_bus :: bool

record poll_outcome =
  po_integration_id :: string
  po_fetched :: nat
  po_inserted :: nat
  po_resolved :: nat
  po_unresolved :: nat
  po_drift_suspected :: bool
  po_error :: "string option"

definition CURSOR_KIND :: string where "CURSOR_KIND = ''playback_events''"
definition CURSOR_SAFETY_SKEW :: int where "CURSOR_SAFETY_SKEW = 60000000"
definition LIVE_MERGE_MIN_ELAPSED :: int where "LIVE_MERGE_MIN_ELAPSED = 30000000"
definition LIVE_MERGE_MIN_PROGRESS_PCT :: pyfloat where "LIVE_MERGE_MIN_PROGRESS_PCT = Fin 90"
definition RECONCILE_WINDOW :: int where "RECONCILE_WINDOW = 300000000"

section \<open>The cursor\<close>

definition cursor_id :: "polling_cursor \<Rightarrow> string \<times> string" where
  "cursor_id c = (cu_integration_id c, cu_cursor_kind c)"

definition get_cursor :: "string \<Rightarrow> poll_db \<Rightarrow> polling_cursor option" where
  "get_cursor i db = table_find cursor_id (i, CURSOR_KIND) (pd_cursors db)"

definition parse_cursor :: "poll_env \<Rightarrow> string \<Rightarrow> int option" where
  "parse_cursor env v = (if v = [] then None else pk_from_iso env v)"

definition put_cursor :: "poll_env \<Rightarrow> string \<Rightarrow> (string \<Rightarrow> string) \<Rightarrow> poll_db \<Rightarrow> poll_db" where
  "put_cursor env i f db =
     (case get_cursor i db of
        None \<Rightarrow> db\<lparr>pd_cursors := pd_cursors db @
          [\<lparr>cu_integration_id = i, cu_cursor_kind = CURSOR_KIND, cu_cursor_value = f [], cu_updated_at = pk_now env\<rparr>]\<rparr>
      | Some _ \<Rightarrow> db\<lparr>pd_cursors := map (\<lambda>c. if cursor_id c = (i, CURSOR_KIND)
          then c\<lparr>cu_cursor_value := f (cu_cursor_value c), cu_updated_at := pk_now env\<rparr> else c) (pd_cursors db)\<rparr>)"

definition upsert_cursor :: "poll_env \<Rightarrow> string \<Rightarrow> int \<Rightarrow> poll_db \<Rightarrow> poll_db" where
  "upsert_cursor env i t = put_cursor env i (\<lambda>_. pk_iso env t)"

definition touch_cursor :: "poll_env \<Rightarrow> string \<Rightarrow> poll_db \<Rightarrow> poll_db" where
  "touch_cursor env i = put_cursor env i (\<lambda>v. v)"

section \<open>Devices\<close>

text \<open>\<open>(x or "").strip() or None\<close>.\<close>

definition norm_ident :: "string option \<Rightarrow> string option" where
  "norm_ident x = (case x of None \<Rightarrow> None | Some s \<Rightarrow> if py_strip s = [] then None else Some (py_strip s))"

definition or_blank :: "string option \<Rightarrow> string" where
  "or_blank x = (case x of None \<Rightarrow> [] | Some s \<Rightarrow> s)"

definition derive_client_key :: "poll_env \<Rightarrow> string option \<Rightarrow> string option \<Rightarrow> string" where
  "derive_client_key env kind name = take 16 (pk_sha1 env (py_strip (or_blank kind) @ ''::'' @ py_strip (or_blank name)))"

definition device_id :: "playback_device \<Rightarrow> string \<times> string" where
  "device_id d = (dv_integration_id d, dv_client_key d)"

definition count_play :: "string \<Rightarrow> playback_device \<Rightarrow> playback_device" where
  "count_play decision d = (let e = d\<lparr>dv_playback_count := Suc (dv_playback_count d)\<rparr> in
     if decision = ''transcode'' then e\<lparr>dv_transcode_count := Suc (dv_transcode_count d)\<rparr>
     else if decision = ''direct_stream'' then e\<lparr>dv_direct_stream_count := Suc (dv_direct_stream_count d)\<rparr>
     else if decision = ''direct_play'' then e\<lparr>dv_direct_play_count := Suc (dv_direct_play_count d)\<rparr>
     else e)"

definition widen_seen :: "int \<Rightarrow> playback_device \<Rightarrow> playback_device" where
  "widen_seen seen d = d\<lparr>dv_last_seen_at := max (dv_last_seen_at d) seen, dv_first_seen_at := min (dv_first_seen_at d) seen\<rparr>"

definition new_device :: "string \<Rightarrow> string \<Rightarrow> string option \<Rightarrow> string option \<Rightarrow> int \<Rightarrow> playback_device" where
  "new_device i key name kind seen =
     \<lparr>dv_integration_id = i, dv_client_key = key, dv_name = name, dv_platform = kind, dv_first_seen_at = seen,
      dv_last_seen_at = seen, dv_playback_count = 0, dv_transcode_count = 0, dv_direct_play_count = 0, dv_direct_stream_count = 0\<rparr>"

definition upsert_device ::
    "poll_env \<Rightarrow> string \<Rightarrow> string option \<Rightarrow> string option \<Rightarrow> string \<Rightarrow> int \<Rightarrow> playback_device list \<Rightarrow> playback_device list" where
  "upsert_device env i device_kind device_name decision seen t =
     (let kind = norm_ident device_kind; name = norm_ident device_name; key = derive_client_key env kind name in
      if kind = None \<and> name = None then t
      else case table_find device_id (i, key) t of
        None \<Rightarrow> t @ [count_play decision (new_device i key name kind seen)]
      | Some _ \<Rightarrow> map (\<lambda>d. if device_id d = (i, key) then count_play decision (widen_seen seen d) else d) t)"

section \<open>Events\<close>

definition event_id :: "('a playback_event_scheme) \<Rightarrow> string \<times> string" where
  "event_id e = (pe_integration_id e, pe_upstream_id e)"

definition resolved_id :: "poll_db \<Rightarrow> string \<Rightarrow> string option" where
  "resolved_id db p = resolve_media_path p (st_media (pd_store db))"

text \<open>Row of a fetched event; its start is the caller's, since the column may not be null.\<close>

definition history_row :: "string \<Rightarrow> string \<Rightarrow> string option \<Rightarrow> string option \<Rightarrow> playback_dto \<Rightarrow> int \<Rightarrow> stored_event" where
  "history_row i new_id media matched d t =
     \<lparr>pe_integration_id = i, pe_media_file_id = media, pe_source_path = pt_source_path d, pe_device_kind = pt_device_kind d,
      pe_device_name = pt_device_name d, pe_decision = pt_decision d, pe_reason_code = pt_reason_code d,
      pe_source_codec = pt_source_codec d, pe_source_bitrate_kbps = pt_source_bitrate_kbps d, pe_source_width = pt_source_width d,
      pe_source_height = pt_source_height d, pe_source_container = pt_source_container d, pe_target_codec = pt_target_codec d,
      pe_target_bitrate_kbps = pt_target_bitrate_kbps d, pe_started_at = t, pe_completed_at = pt_completed_at d,
      pe_duration_s = pt_duration_s d, pe_upstream_id = pt_upstream_id d, pe_reconciled_with_session_id = matched, se_id = new_id\<rparr>"

text \<open>The insert in its savepoint: a null start or a known key is an \<open>IntegrityError\<close>.\<close>

definition insert_event :: "stored_event \<Rightarrow> stored_event list \<Rightarrow> stored_event list option" where
  "insert_event row t = (if event_id row \<in> event_id ` set t then None else Some (t @ [row]))"

fun closest :: "int \<Rightarrow> (string \<times> int) option \<Rightarrow> (string \<times> int) list \<Rightarrow> string option" where
  "closest target best [] = map_option fst best"
| "closest target best ((i, t) # cs) =
     (case best of
        None \<Rightarrow> closest target (Some (i, \<bar>t - target\<bar>)) cs
      | Some (j, delta) \<Rightarrow>
          if \<bar>t - target\<bar> < delta then closest target (Some (i, \<bar>t - target\<bar>)) cs else closest target best cs)"

definition find_matching_session ::
    "string \<Rightarrow> string option \<Rightarrow> int option \<Rightarrow> tracked_session list \<Rightarrow> string option result" where
  "find_matching_session i rating_key started_at sessions =
     (if rating_key = None \<or> rating_key = Some [] then Inr None
      else case started_at of
        None \<Rightarrow> Inl TypeError
      | Some t \<Rightarrow> Inr (closest t None (map (\<lambda>r. (tk_id r, ps_started_at r))
          (filter (\<lambda>r. ps_integration_id r = i \<and> si_rating_key (ps_info r) = rating_key
             \<and> t - RECONCILE_WINDOW \<le> ps_started_at r \<and> ps_started_at r \<le> t + RECONCILE_WINDOW) sessions))))"

definition mark_session_reconciled_by_id :: "string \<Rightarrow> tracked_session list \<Rightarrow> tracked_session list" where
  "mark_session_reconciled_by_id i t = map (\<lambda>r. if tk_id r = i then r\<lparr>tk_reconciled_with_history := True\<rparr> else r) t"

section \<open>History\<close>

record poll_acc =
  pa_inserted :: nat
  pa_latest :: "int option"
  pa_latest_seen :: "int option"
  pa_db :: poll_db

definition later :: "int option \<Rightarrow> int option \<Rightarrow> int option" where
  "later best t = (case t of None \<Rightarrow> best | Some x \<Rightarrow> (case best of None \<Rightarrow> t | Some y \<Rightarrow> if y < x then t else best))"

definition store_event :: "poll_env \<Rightarrow> string \<Rightarrow> string option \<Rightarrow> playback_dto \<Rightarrow> poll_acc \<Rightarrow> poll_acc" where
  "store_event env i matched d a =
     (let db = pa_db a in
      case pt_started_at d of
        None \<Rightarrow> a
      | Some t \<Rightarrow>
          (case insert_event (history_row i (pk_new_id env (length (pd_events db))) (resolved_id db (pt_source_path d)) matched d t) (pd_events db) of
             None \<Rightarrow> a
           | Some evs \<Rightarrow> a\<lparr>pa_inserted := Suc (pa_inserted a), pa_latest := later (pa_latest a) (Some t),
               pa_db := db\<lparr>pd_events := evs,
                 pd_devices := upsert_device env i (pt_device_kind d) (pt_device_name d) (pt_decision d) t (pd_devices db)\<rparr>\<rparr>))"

definition mark_matched :: "string option \<Rightarrow> poll_acc \<Rightarrow> poll_acc" where
  "mark_matched matched a =
     (case matched of None \<Rightarrow> a
      | Some k \<Rightarrow> a\<lparr>pa_db := (pa_db a)\<lparr>pd_sessions := mark_session_reconciled_by_id k (pd_sessions (pa_db a))\<rparr>\<rparr>)"

definition ingest_one :: "poll_env \<Rightarrow> string \<Rightarrow> playback_dto \<Rightarrow> poll_acc \<Rightarrow> poll_acc result" where
  "ingest_one env i d a =
     bind_r (find_matching_session i (pt_rating_key d) (pt_started_at d) (pd_sessions (pa_db a))) (\<lambda>matched.
       Inr (mark_matched matched (store_event env i matched d (a\<lparr>pa_latest_seen := later (pa_latest_seen a) (pt_started_at d)\<rparr>))))"

fun ingest :: "poll_env \<Rightarrow> string \<Rightarrow> playback_dto list \<Rightarrow> poll_acc \<Rightarrow> poll_acc result" where
  "ingest env i [] a = Inr a"
| "ingest env i (d # ds) a = bind_r (ingest_one env i d a) (\<lambda>b. ingest env i ds b)"

section \<open>Live sessions\<close>

definition live_session_eligible :: "int \<Rightarrow> live_dto \<Rightarrow> bool" where
  "live_session_eligible now l =
     ((case lv_started_at l of None \<Rightarrow> False | Some t \<Rightarrow> now - t \<ge> LIVE_MERGE_MIN_ELAPSED)
      \<or> (case lv_progress_pct l of None \<Rightarrow> False | Some p \<Rightarrow> pyfloat_le LIVE_MERGE_MIN_PROGRESS_PCT p))"

definition live_id :: "live_dto \<Rightarrow> string" where
  "live_id l = ''live:'' @ lv_upstream_id l"

definition live_row :: "string \<Rightarrow> string \<Rightarrow> string option \<Rightarrow> live_dto \<Rightarrow> int \<Rightarrow> stored_event" where
  "live_row i new_id media l t =
     \<lparr>pe_integration_id = i, pe_media_file_id = media, pe_source_path = lv_source_path l, pe_device_kind = lv_device_kind l,
      pe_device_name = lv_device_name l, pe_decision = lv_decision l, pe_reason_code = None,
      pe_source_codec = lv_source_codec l, pe_source_bitrate_kbps = lv_source_bitrate_kbps l, pe_source_width = lv_source_width l,
      pe_source_height = lv_source_height l, pe_source_container = None, pe_target_codec = None,
      pe_target_bitrate_kbps = None, pe_started_at = t, pe_completed_at = None,
      pe_duration_s = None, pe_upstream_id = live_id l, pe_reconciled_with_session_id = None, se_id = new_id\<rparr>"

definition store_live :: "poll_env \<Rightarrow> string \<Rightarrow> live_dto \<Rightarrow> nat \<times> poll_db \<Rightarrow> nat \<times> poll_db" where
  "store_live env i l a =
     (let (n, db) = a in
      case lv_started_at l of
        None \<Rightarrow> a
      | Some t \<Rightarrow>
          (case insert_event (live_row i (pk_new_id env (length (pd_events db))) (resolved_id db (lv_source_path l)) l t) (pd_events db) of
             None \<Rightarrow> a
           | Some evs \<Rightarrow> (Suc n, db\<lparr>pd_events := evs,
               pd_devices := upsert_device env i (lv_device_kind l) (lv_device_name l) (lv_decision l) t (pd_devices db)\<rparr>)))"

definition merge_live_sessions ::
    "poll_env \<Rightarrow> integration \<Rightarrow> integration_config \<Rightarrow> path_mapping list \<Rightarrow> path_mapping list \<Rightarrow> poll_db \<Rightarrow> nat \<times> poll_db" where
  "merge_live_sessions env ig config ig_mappings global_mappings db =
     (case pk_live env (ig_kind ig) of
        None \<Rightarrow> (0, db)
      | Some call \<Rightarrow>
          (case call config of
             Fetched lives \<Rightarrow>
               (let mapped = map (\<lambda>l. l\<lparr>lv_source_path := remap_path_chain (lv_source_path l) ig_mappings global_mappings\<rparr>) lives;
                    eligible = filter (live_session_eligible (pk_now env)) mapped;
                    existing = map pe_upstream_id (filter (\<lambda>e. pe_integration_id e = ig_id ig) (pd_events db)) in
                fold (store_live env (ig_id ig)) (filter (\<lambda>l. live_id l \<notin> set existing) eligible) (0, db))
           | _ \<Rightarrow> (0, db)))"

section \<open>One poll\<close>

definition plural :: "nat \<Rightarrow> string" where
  "plural n = (if n = 1 then [] else ''s'')"

definition format_last_poll_detail :: "poll_env \<Rightarrow> nat \<Rightarrow> nat \<Rightarrow> nat \<Rightarrow> nat \<Rightarrow> string" where
  "format_last_poll_detail env fetched inserted resolved unresolved =
     (let stamp = pk_iso_seconds env (pk_now env);
          line = ''Last poll: '' @ str_nat inserted @ '' of '' @ str_nat fetched @ '' event'' @ plural fetched @ '' ingested at '' @ stamp in
      if fetched = 0 then ''Last poll: no events at '' @ stamp
      else if unresolved = 0 then line
      else line @ '' ('' @ str_nat resolved @ '' resolved, '' @ str_nat unresolved @ '' unresolved '' @ [CHR 0xE2, CHR 0x80, CHR 0x94]
        @ '' check path mappings)'')"

definition drift_detail :: "poll_env \<Rightarrow> drift_report \<Rightarrow> string" where
  "drift_detail env r =
     (if \<not> drift_suspected r then []
      else let first = str_nat (dr_seen r - dr_resolved r) @ '' of '' @ str_nat (dr_seen r) @ '' playback paths '';
               pct = pk_percent env (dr_resolved r) (dr_seen r) in
        if \<not> dr_has_mappings_configured r
        then first @ ''don'' @ [CHR 0x27] @ ''t resolve to indexed files ('' @ pct @ ''%). '' @ ''Configure path mappings on this integration.''
        else first @ ''don'' @ [CHR 0x27] @ ''t resolve even with configured mappings ('' @ pct @ ''%). ''
          @ ''Check that mappings cover every library prefix.'')"

text \<open>Rows without both paths are left out before trailing slashes are dropped.\<close>

definition poll_globals :: "global_mapping list \<Rightarrow> path_mapping list" where
  "poll_globals rows =
     map (\<lambda>g. \<lparr>src_prefix = py_rstrip (CHR ''/'') (gm_from_path g), dst_prefix = py_rstrip (CHR ''/'') (gm_to_path g)\<rparr>)
       (filter (\<lambda>g. gm_from_path g \<noteq> [] \<and> gm_to_path g \<noteq> [])
         (sort_key gm_priority (sort_key gm_created_at (filter gm_enabled rows))))"

definition blank_outcome :: "string \<Rightarrow> poll_outcome" where
  "blank_outcome i = \<lparr>po_integration_id = i, po_fetched = 0, po_inserted = 0, po_resolved = 0, po_unresolved = 0,
     po_drift_suspected = False, po_error = None\<rparr>"

definition failed_poll :: "string \<Rightarrow> string \<Rightarrow> poll_outcome" where
  "failed_poll i msg = (blank_outcome i)\<lparr>po_error := Some msg\<rparr>"

definition advance_cursor :: "poll_env \<Rightarrow> string \<Rightarrow> poll_acc \<Rightarrow> poll_db" where
  "advance_cursor env i a =
     (case (case pa_latest a of Some t \<Rightarrow> Some t | None \<Rightarrow> pa_latest_seen a) of
        None \<Rightarrow> pa_db a
      | Some t \<Rightarrow> upsert_cursor env i (t - CURSOR_SAFETY_SKEW) (pa_db a))"

text \<open>The health of the integration object after a poll with events.\<close>

definition poll_health :: "poll_env \<Rightarrow> drift_report \<Rightarrow> poll_outcome \<Rightarrow> integration \<Rightarrow> integration" where
  "poll_health env drift out ig =
     (if drift_suspected drift
      then ig\<lparr>ig_health_status := ''degraded'', ig_health_detail := Some (drift_detail env drift), ig_health_checked_at := Some (pk_now env)\<rparr>
      else ig\<lparr>ig_health_detail := Some (format_last_poll_detail env (po_fetched out) (po_inserted out) (po_resolved out) (po_unresolved out)),
              ig_health_checked_at := Some (pk_now env)\<rparr>)"

definition drift_event :: "poll_env \<Rightarrow> string \<Rightarrow> drift_report \<Rightarrow> poll_db \<Rightarrow> poll_db" where
  "drift_event env i drift db = (if drift_suspected drift
     then db\<lparr>pd_store := emit (pk_bus env) ''integration.path_drift''
       [(''integration_id'', PyStr i), (''seen'', PyInt (int (dr_seen drift))), (''resolved'', PyInt (int (dr_resolved drift))),
        (''has_mappings'', PyBool (dr_has_mappings_configured drift))] ''playback.poller'' (pd_store db)\<rparr>
     else db)"

text \<open>A poll without history.\<close>

definition quiet_poll :: "poll_env \<Rightarrow> integration \<Rightarrow> integration_config \<Rightarrow> poll_db \<Rightarrow> poll_outcome \<times> poll_db" where
  "quiet_poll env ig config db =
     (let (n, db1) = merge_live_sessions env ig config (parse_mappings (dict_get (ig_config ig) ''path_mappings''))
            (poll_globals (pd_globals db)) (touch_cursor env (ig_id ig) db) in
      ((blank_outcome (ig_id ig))\<lparr>po_inserted := n, po_fetched := n\<rparr>, db1))"

text \<open>A poll with history: the outcome, the integration object and the database.\<close>

definition busy_poll ::
    "poll_env \<Rightarrow> integration \<Rightarrow> integration_config \<Rightarrow> playback_dto list \<Rightarrow> poll_db \<Rightarrow> (poll_outcome \<times> integration \<times> poll_db) result" where
  "busy_poll env ig config dtos db =
     (let i = ig_id ig; im = parse_mappings (dict_get (ig_config ig) ''path_mappings''); gm = poll_globals (pd_globals db);
          mapped = map (\<lambda>d. d\<lparr>pt_source_path := remap_path_chain (pt_source_path d) im gm\<rparr>) dtos;
          resolved = length (filter (\<lambda>d. given (resolved_id db (pt_source_path d))) mapped) in
      bind_r (ingest env i mapped \<lparr>pa_inserted = 0, pa_latest = None, pa_latest_seen = None, pa_db = db\<rparr>) (\<lambda>a.
        let (n, db1) = merge_live_sessions env ig config im gm (advance_cursor env i a);
            fetched = length dtos + n;
            drift = \<lparr>dr_seen = fetched, dr_resolved = resolved, dr_unresolved_sample = [], dr_has_mappings_configured = (im \<noteq> [] \<or> gm \<noteq> [])\<rparr>;
            out = \<lparr>po_integration_id = i, po_fetched = fetched, po_inserted = pa_inserted a + n, po_resolved = resolved,
                   po_unresolved = length dtos - resolved, po_drift_suspected = drift_suspected drift, po_error = None\<rparr> in
        Inr (out, poll_health env drift out ig, drift_event env i drift db1)))"

text \<open>\<open>poll_one\<close> up to what its commit does with the integration object.\<close>

definition poll_rows :: "poll_env \<Rightarrow> integration \<Rightarrow> poll_db \<Rightarrow> (poll_outcome \<times> integration \<times> poll_db) result" where
  "poll_rows env ig db =
     (let i = ig_id ig; since = (case get_cursor i db of None \<Rightarrow> None | Some c \<Rightarrow> parse_cursor env (cu_cursor_value c)) in
      if im_provider_for (pk_integ env) (ig_kind ig) = None
      then Inr (failed_poll i (''no provider registered for kind='' @ ie_repr (pk_integ env) (ig_kind ig)), ig, db)
      else case im_build_config (pk_integ env) ig of
        Inl e \<Rightarrow> Inr (failed_poll i (''build_config failed: '' @ ie_exc_str (pk_integ env) e), ig, db)
      | Inr config \<Rightarrow>
          (case pk_history env (ig_kind ig) config since of
             NotImplemented \<Rightarrow> Inr (blank_outcome i, ig, db)
           | FetchFailed e \<Rightarrow> Inr (failed_poll i (ie_exc_str (pk_integ env) e), ig, db)
           | Fetched [] \<Rightarrow> (case quiet_poll env ig config db of (out, db1) \<Rightarrow> Inr (out, ig, db1))
           | Fetched dtos \<Rightarrow> busy_poll env ig config dtos db))"

section \<open>The integration object\<close>

text \<open>An object of the ORM: its columns and the session it is attached to.  Closing a session detaches
  its objects; a commit writes the columns that changed on the objects of its own session only.\<close>

record orm_integration =
  oi_row :: integration
  oi_session :: "nat option"

definition load_objects :: "nat \<Rightarrow> integration list \<Rightarrow> orm_integration list" where
  "load_objects sid gs = map (\<lambda>g. \<lparr>oi_row = g, oi_session = Some sid\<rparr>) gs"

definition close_orm_session :: "nat \<Rightarrow> orm_integration list \<Rightarrow> orm_integration list" where
  "close_orm_session sid obs = map (\<lambda>ob. if oi_session ob = Some sid then ob\<lparr>oi_session := None\<rparr> else ob) obs"

definition write_changes :: "integration \<Rightarrow> integration \<Rightarrow> integration \<Rightarrow> integration" where
  "write_changes old new g =
     g\<lparr>ig_health_status := if ig_health_status new = ig_health_status old then ig_health_status g else ig_health_status new,
       ig_health_detail := if ig_health_detail new = ig_health_detail old then ig_health_detail g else ig_health_detail new,
       ig_health_checked_at := if ig_health_checked_at new = ig_health_checked_at old then ig_health_checked_at g
         else ig_health_checked_at new\<rparr>"

definition commit_object :: "nat \<Rightarrow> orm_integration \<Rightarrow> integration \<Rightarrow> poll_db \<Rightarrow> poll_db" where
  "commit_object sid ob new db =
     (if oi_session ob = Some sid
      then db\<lparr>pd_store := (pd_store db)\<lparr>st_integrations :=
             map (\<lambda>g. if ig_id g = ig_id (oi_row ob) then write_changes (oi_row ob) new g else g) (st_integrations (pd_store db))\<rparr>\<rparr>
      else db)"

text \<open>\<open>sid\<close> is the session of the poller.\<close>

definition poll_one :: "poll_env \<Rightarrow> nat \<Rightarrow> orm_integration \<Rightarrow> poll_db \<Rightarrow> (poll_outcome \<times> orm_integration \<times> poll_db) result" where
  "poll_one env sid ob db =
     bind_r (poll_rows env (oi_row ob) db) (\<lambda>(out, new, db1). Inr (out, ob\<lparr>oi_row := new\<rparr>, commit_object sid ob new db1))"

section \<open>The pass of the worker\<close>

definition PLAYBACK_KINDS :: "string list" where
  "PLAYBACK_KINDS = [''plex'', ''jellyfin'', ''tracearr'']"

text \<open>\<open>list_all(enabled_only=True)\<close>, in the order of names.\<close>

definition poll_candidates :: "store \<Rightarrow> integration list" where
  "poll_candidates st = filter (\<lambda>g. ig_kind g \<in> set PLAYBACK_KINDS)
     (sort_key ig_name (filter ig_enabled (st_integrations st)))"

datatype poll_result = Polled poll_outcome | PollRaised string pyerr

text \<open>The candidates are loaded in session 0, which is closed before the first poll; each of them is then
  polled in a session of its own, and a poll that raises is rolled back.\<close>

definition poll_step :: "poll_env \<Rightarrow> nat \<times> orm_integration \<Rightarrow> poll_result list \<times> poll_db \<Rightarrow> poll_result list \<times> poll_db" where
  "poll_step env c a =
     (let (sid, ob) = c; (rs, db) = a in
      case poll_one env sid ob db of
        Inl e \<Rightarrow> (rs @ [PollRaised (ig_id (oi_row ob)) e], db)
      | Inr (out, _, db1) \<Rightarrow> (rs @ [Polled out], db1))"

definition poll_integrations :: "poll_env \<Rightarrow> poll_db \<Rightarrow> poll_result list \<times> poll_db" where
  "poll_integrations env db =
     (let obs = close_orm_session 0 (load_objects 0 (poll_candidates (pd_store db)))
      in fold (poll_step env) (enumerate 1 obs) ([], db))"

end
