(* ===== verification/PollerGuarantees.thy ===== *)
theory PollerGuarantees
  imports Poller
begin

text \<open>
  What a poll guarantees: each reported event is stored once, the outcome and the device counters count
  exactly the rows it added, where the cursor stands afterwards, and that a pass reports on every
  integration.  Two things it does not do: keep live sessions and history apart, and, in the worker, write
  the health it finds.
\<close>

section \<open>What a step adds\<close>

definition named :: "stored_event \<Rightarrow> bool" where
  "named e = (norm_ident (pe_device_kind e) \<noteq> None \<or> norm_ident (pe_device_name e) \<noteq> None)"

definition device_sum :: "(playback_device \<Rightarrow> nat) \<Rightarrow> playback_device list \<Rightarrow> nat" where
  "device_sum f t = sum_list (map f t)"

definition counts_agree :: "stored_event list \<Rightarrow> playback_device list \<Rightarrow> playback_device list \<Rightarrow> bool" where
  "counts_agree new t u = (unique_keys device_id t \<longrightarrow> unique_keys device_id u
     \<and> device_sum dv_playback_count u = device_sum dv_playback_count t + length (filter named new)
     \<and> device_sum dv_transcode_count u = device_sum dv_transcode_count t
         + length (filter (\<lambda>e. named e \<and> pe_decision e = ''transcode'') new))"

definition adds :: "string \<Rightarrow> stored_event list \<Rightarrow> poll_db \<Rightarrow> poll_db \<Rightarrow> bool" where
  "adds i new db db' = (pd_events db' = pd_events db @ new \<and> (\<forall>e\<in>set new. pe_integration_id e = i)
     \<and> (unique_keys event_id (pd_events db) \<longrightarrow> unique_keys event_id (pd_events db'))
     \<and> counts_agree new (pd_devices db) (pd_devices db')
     \<and> st_media (pd_store db') = st_media (pd_store db) \<and> st_integrations (pd_store db') = st_integrations (pd_store db)
     \<and> pd_globals db' = pd_globals db)"

lemma counts_agree_trans: "counts_agree m t u \<Longrightarrow> counts_agree n u v \<Longrightarrow> counts_agree (m @ n) t v"
  by (auto simp: counts_agree_def)

lemma adds_refl [simp]: "adds i [] db db"
  by (simp add: adds_def counts_agree_def)

lemma adds_trans: "adds i m a b \<Longrightarrow> adds i n b c \<Longrightarrow> adds i (m @ n) a c"
  using counts_agree_trans [of m "pd_devices a" "pd_devices b" n "pd_devices c"]
  by (auto simp: adds_def)

text \<open>Operations on other tables add nothing.\<close>

lemma adds_nothing:
  "pd_events b = pd_events a \<Longrightarrow> pd_devices b = pd_devices a \<Longrightarrow> st_media (pd_store b) = st_media (pd_store a)
   \<Longrightarrow> st_integrations (pd_store b) = st_integrations (pd_store a) \<Longrightarrow> pd_globals b = pd_globals a \<Longrightarrow> adds i [] a b"
  by (simp add: adds_def counts_agree_def)

section \<open>Devices\<close>

lemma device_id_simps [simp]:
  "device_id (count_play d x) = device_id x" "device_id (widen_seen t x) = device_id x"
  "dv_playback_count (count_play d x) = Suc (dv_playback_count x)"
  "dv_transcode_count (count_play d x) = (if d = ''transcode'' then Suc (dv_transcode_count x) else dv_transcode_count x)"
  "dv_playback_count (widen_seen t x) = dv_playback_count x" "dv_transcode_count (widen_seen t x) = dv_transcode_count x"
  by (simp_all add: device_id_def count_play_def widen_seen_def Let_def)

lemma new_device_simps [simp]:
  "device_id (new_device i k n p t) = (i, k)" "dv_playback_count (new_device i k n p t) = 0" "dv_transcode_count (new_device i k n p t) = 0"
  by (simp_all add: device_id_def new_device_def)

lemma device_sum_one:
  assumes "unique_keys device_id t" "x \<in> set t" "device_id x = k" "f (g x) = f x + c"
  shows "device_sum f (map (\<lambda>d. if device_id d = k then g d else d) t) = device_sum f t + c"
  using assms(1,2)
proof (induction t)
  case (Cons d t)
  show ?case
  proof (cases "d = x")
    case True
    then have "map (\<lambda>d. if device_id d = k then g d else d) t = t"
      using Cons.prems(1) assms(3) by (intro map_idI) (auto simp: unique_keys_def image_iff)
    then show ?thesis using True assms(3,4) by (simp add: device_sum_def)
  next
    case False
    then have "x \<in> set t" "unique_keys device_id t" "device_id d \<noteq> k"
      using Cons.prems assms(3) by (auto simp: unique_keys_def)
    then show ?thesis using Cons.IH by (simp add: device_sum_def)
  qed
qed simp

lemma upsert_device_agrees:
  assumes "named e"
  shows "counts_agree [e] t (upsert_device env i (pe_device_kind e) (pe_device_name e) (pe_decision e) seen t)"
proof (cases "table_find device_id (i, derive_client_key env (norm_ident (pe_device_kind e)) (norm_ident (pe_device_name e))) t")
  case None
  then have "(i, derive_client_key env (norm_ident (pe_device_kind e)) (norm_ident (pe_device_name e))) \<notin> device_id ` set t"
    by (auto simp: table_find_None_iff image_iff)
  with None assms show ?thesis
    by (auto simp: counts_agree_def upsert_device_def named_def Let_def unique_keys_def device_sum_def)
next
  case (Some x)
  let ?k = "(i, derive_client_key env (norm_ident (pe_device_kind e)) (norm_ident (pe_device_name e)))"
  let ?g = "\<lambda>d. count_play (pe_decision e) (widen_seen seen d)"
  have upd: "upsert_device env i (pe_device_kind e) (pe_device_name e) (pe_decision e) seen t = map (\<lambda>d. if device_id d = ?k then ?g d else d) t"
    using Some assms by (auto simp: upsert_device_def named_def Let_def)
  show ?thesis unfolding counts_agree_def upd
  proof (intro impI)
    assume u: "unique_keys device_id t"
    have x: "x \<in> set t" "device_id x = ?k" using Some u by (simp_all add: table_find_Some_iff)
    have "unique_keys device_id (map (\<lambda>d. if device_id d = ?k then ?g d else d) t)"
      using u by (subst unique_keys_map) simp_all
    moreover have "device_sum dv_playback_count (map (\<lambda>d. if device_id d = ?k then ?g d else d) t) = device_sum dv_playback_count t + 1"
      by (rule device_sum_one [OF u x]) simp
    moreover have "device_sum dv_transcode_count (map (\<lambda>d. if device_id d = ?k then ?g d else d) t)
        = device_sum dv_transcode_count t + (if pe_decision e = ''transcode'' then 1 else 0)"
      by (rule device_sum_one [OF u x]) simp
    ultimately show "unique_keys device_id (map (\<lambda>d. if device_id d = ?k then ?g d else d) t)
      \<and> device_sum dv_playback_count (map (\<lambda>d. if device_id d = ?k then ?g d else d) t) = device_sum dv_playback_count t + length (filter named [e])
      \<and> device_sum dv_transcode_count (map (\<lambda>d. if device_id d = ?k then ?g d else d) t)
        = device_sum dv_transcode_count t + length (filter (\<lambda>e. named e \<and> pe_decision e = ''transcode'') [e])"
      using assms by simp
  qed
qed

lemma upsert_device_counts:
  "counts_agree [e] t (upsert_device env i (pe_device_kind e) (pe_device_name e) (pe_decision e) seen t)"
proof (cases "named e")
  case False
  then show ?thesis by (simp add: counts_agree_def upsert_device_def named_def Let_def)
qed (rule upsert_device_agrees)

section \<open>Events\<close>

lemma insert_event_Some: "insert_event row t = Some u \<longleftrightarrow> u = t @ [row] \<and> event_id row \<notin> event_id ` set t"
  by (auto simp: insert_event_def)

lemma adds_row:
  assumes "event_id e \<notin> event_id ` set (pd_events db)" "pe_integration_id e = i"
  shows "adds i [e] db (db\<lparr>pd_events := pd_events db @ [e],
    pd_devices := upsert_device env i (pe_device_kind e) (pe_device_name e) (pe_decision e) t (pd_devices db)\<rparr>)"
  using assms upsert_device_counts by (auto simp: adds_def unique_keys_def)

definition stored :: "string \<Rightarrow> string \<Rightarrow> poll_db \<Rightarrow> bool" where
  "stored i u db = ((i, u) \<in> event_id ` set (pd_events db))"

lemma stored_adds: "adds i new a b \<Longrightarrow> stored j u a \<Longrightarrow> stored j u b"
  by (auto simp: stored_def adds_def)

lemma store_event_adds:
  "\<exists>new. adds i new (pa_db a) (pa_db (store_event env i m d a)) \<and> pa_inserted (store_event env i m d a) = pa_inserted a + length new
    \<and> (pt_started_at d \<noteq> None \<longrightarrow> stored i (pt_upstream_id d) (pa_db (store_event env i m d a)))"
proof (cases "pt_started_at d")
  case None
  then show ?thesis by (intro exI [of _ "[]"]) (simp add: store_event_def Let_def)
next
  case (Some t)
  define row where "row = history_row i (pk_new_id env (length (pd_events (pa_db a)))) (resolved_id (pa_db a) (pt_source_path d)) m d t"
  have row: "event_id row = (i, pt_upstream_id d)" "pe_integration_id row = i" "pe_device_kind row = pt_device_kind d"
    "pe_device_name row = pt_device_name d" "pe_decision row = pt_decision d"
    by (simp_all add: row_def history_row_def event_id_def)
  show ?thesis
  proof (cases "insert_event row (pd_events (pa_db a))")
    case None
    then have "store_event env i m d a = a" "stored i (pt_upstream_id d) (pa_db a)"
      using Some row(1) by (simp_all add: store_event_def row_def [symmetric] Let_def insert_event_def stored_def split: if_splits)
    then show ?thesis by (intro exI [of _ "[]"]) simp
  next
    case (Some evs)
    then have evs: "evs = pd_events (pa_db a) @ [row]" "event_id row \<notin> event_id ` set (pd_events (pa_db a))"
      by (simp_all add: insert_event_Some)
    have "pa_db (store_event env i m d a) = (pa_db a)\<lparr>pd_events := pd_events (pa_db a) @ [row],
        pd_devices := upsert_device env i (pe_device_kind row) (pe_device_name row) (pe_decision row) t (pd_devices (pa_db a))\<rparr>"
      "pa_inserted (store_event env i m d a) = Suc (pa_inserted a)"
      using Some evs(1) \<open>pt_started_at d = Some t\<close> row by (simp_all add: store_event_def row_def [symmetric] Let_def)
    then show ?thesis using adds_row [OF evs(2) row(2)] row(1)
      by (intro exI [of _ "[row]"]) (auto simp: stored_def)
  qed
qed

lemma mark_matched_simps [simp]:
  "pa_inserted (mark_matched m a) = pa_inserted a" "pa_latest (mark_matched m a) = pa_latest a"
  "pa_latest_seen (mark_matched m a) = pa_latest_seen a" "pd_events (pa_db (mark_matched m a)) = pd_events (pa_db a)"
  "pd_devices (pa_db (mark_matched m a)) = pd_devices (pa_db a)" "pd_store (pa_db (mark_matched m a)) = pd_store (pa_db a)"
  "pd_globals (pa_db (mark_matched m a)) = pd_globals (pa_db a)" "pd_cursors (pa_db (mark_matched m a)) = pd_cursors (pa_db a)"
  by (simp_all add: mark_matched_def split: option.split)

lemma adds_mark: "adds i new a (pa_db b) \<Longrightarrow> adds i new a (pa_db (mark_matched m b))"
  by (auto simp: adds_def)

lemma ingest_one_adds:
  assumes "ingest_one env i d a = Inr b"
  shows "\<exists>new. adds i new (pa_db a) (pa_db b) \<and> pa_inserted b = pa_inserted a + length new
    \<and> (pt_started_at d \<noteq> None \<longrightarrow> stored i (pt_upstream_id d) (pa_db b))"
proof -
  obtain m where b: "b = mark_matched m (store_event env i m d (a\<lparr>pa_latest_seen := later (pa_latest_seen a) (pt_started_at d)\<rparr>))"
    using assms by (auto simp: ingest_one_def bind_r_Inr_iff)
  from store_event_adds [of i "a\<lparr>pa_latest_seen := later (pa_latest_seen a) (pt_started_at d)\<rparr>" env m d] show ?thesis
    unfolding b by (auto simp: stored_def intro: adds_mark)
qed

lemma ingest_adds:
  "ingest env i ds a = Inr b \<Longrightarrow> \<exists>new. adds i new (pa_db a) (pa_db b) \<and> pa_inserted b = pa_inserted a + length new
    \<and> (\<forall>d\<in>set ds. pt_started_at d \<noteq> None \<longrightarrow> stored i (pt_upstream_id d) (pa_db b))"
proof (induction ds arbitrary: a)
  case Nil
  then show ?case by (intro exI [of _ "[]"]) simp
next
  case (Cons d ds)
  then obtain c where c: "ingest_one env i d a = Inr c" "ingest env i ds c = Inr b" by (auto simp: bind_r_Inr_iff)
  obtain m where m: "adds i m (pa_db a) (pa_db c)" "pa_inserted c = pa_inserted a + length m"
    "pt_started_at d \<noteq> None \<longrightarrow> stored i (pt_upstream_id d) (pa_db c)" using ingest_one_adds [OF c(1)] by blast
  obtain n where n: "adds i n (pa_db c) (pa_db b)" "pa_inserted b = pa_inserted c + length n"
    "\<forall>d\<in>set ds. pt_started_at d \<noteq> None \<longrightarrow> stored i (pt_upstream_id d) (pa_db b)" using Cons.IH [OF c(2)] by blast
  show ?case using m n adds_trans [OF m(1) n(1)] stored_adds [OF n(1)] by (intro exI [of _ "m @ n"]) auto
qed

lemma store_live_adds:
  "\<exists>new. adds i new (snd a) (snd (store_live env i l a)) \<and> fst (store_live env i l a) = fst a + length new
    \<and> (lv_started_at l \<noteq> None \<longrightarrow> stored i (live_id l) (snd (store_live env i l a)))"
proof (cases "lv_started_at l")
  case None
  then show ?thesis by (intro exI [of _ "[]"]) (simp add: store_live_def case_prod_beta)
next
  case (Some t)
  define row where "row = live_row i (pk_new_id env (length (pd_events (snd a)))) (resolved_id (snd a) (lv_source_path l)) l t"
  have row: "event_id row = (i, live_id l)" "pe_integration_id row = i" "pe_device_kind row = lv_device_kind l"
    "pe_device_name row = lv_device_name l" "pe_decision row = lv_decision l"
    by (simp_all add: row_def live_row_def event_id_def)
  show ?thesis
  proof (cases "insert_event row (pd_events (snd a))")
    case None
    then have "store_live env i l a = a" "stored i (live_id l) (snd a)"
      using Some row(1) by (simp_all add: store_live_def row_def [symmetric] case_prod_beta insert_event_def stored_def split: if_splits)
    then show ?thesis by (intro exI [of _ "[]"]) simp
  next
    case (Some evs)
    then have evs: "evs = pd_events (snd a) @ [row]" "event_id row \<notin> event_id ` set (pd_events (snd a))"
      by (simp_all add: insert_event_Some)
    have "store_live env i l a = (Suc (fst a), (snd a)\<lparr>pd_events := pd_events (snd a) @ [row],
        pd_devices := upsert_device env i (pe_device_kind row) (pe_device_name row) (pe_decision row) t (pd_devices (snd a))\<rparr>)"
      using Some evs(1) \<open>lv_started_at l = Some t\<close> row by (simp add: store_live_def row_def [symmetric] case_prod_beta)
    then show ?thesis using adds_row [OF evs(2) row(2)] row(1)
      by (intro exI [of _ "[row]"]) (auto simp: stored_def)
  qed
qed

lemma store_lives_adds:
  "\<exists>new. adds i new (snd a) (snd (fold (store_live env i) ls a)) \<and> fst (fold (store_live env i) ls a) = fst a + length new
    \<and> (\<forall>l\<in>set ls. lv_started_at l \<noteq> None \<longrightarrow> stored i (live_id l) (snd (fold (store_live env i) ls a)))"
proof (induction ls arbitrary: a)
  case Nil
  then show ?case by (intro exI [of _ "[]"]) simp
next
  case (Cons l ls)
  obtain m where m: "adds i m (snd a) (snd (store_live env i l a))" "fst (store_live env i l a) = fst a + length m"
    "lv_started_at l \<noteq> None \<longrightarrow> stored i (live_id l) (snd (store_live env i l a))" using store_live_adds by blast
  let ?b = "fold (store_live env i) ls (store_live env i l a)"
  obtain n where n: "adds i n (snd (store_live env i l a)) (snd ?b)" "fst ?b = fst (store_live env i l a) + length n"
    "\<forall>l\<in>set ls. lv_started_at l \<noteq> None \<longrightarrow> stored i (live_id l) (snd ?b)" using Cons.IH by blast
  show ?case using m n adds_trans [OF m(1) n(1)] stored_adds [OF n(1)] by (intro exI [of _ "m @ n"]) auto
qed

lemma merge_live_adds:
  "\<exists>new. adds (ig_id ig) new db (snd (merge_live_sessions env ig config im gm db))
    \<and> fst (merge_live_sessions env ig config im gm db) = length new"
proof -
  have none: "\<exists>new. adds (ig_id ig) new db db \<and> 0 = length new" by (intro exI [of _ "[]"]) simp
  show ?thesis
  proof (cases "pk_live env (ig_kind ig)")
    case None
    then show ?thesis using none by (simp add: merge_live_sessions_def)
  next
    case (Some call)
    show ?thesis
    proof (cases "call config")
      case (Fetched lives)
      then obtain ls where "merge_live_sessions env ig config im gm db = fold (store_live env (ig_id ig)) ls (0, db)"
        using Some by (simp add: merge_live_sessions_def Let_def)
      moreover obtain new where "adds (ig_id ig) new db (snd (fold (store_live env (ig_id ig)) ls (0, db)))"
        "fst (fold (store_live env (ig_id ig)) ls (0, db)) = length new"
        using store_lives_adds [of "ig_id ig" "(0, db)" env ls] by auto
      ultimately show ?thesis by auto
    qed (use Some none in \<open>simp_all add: merge_live_sessions_def\<close>)
  qed
qed

lemma put_cursor_simps [simp]:
  "pd_events (put_cursor env i f db) = pd_events db" "pd_devices (put_cursor env i f db) = pd_devices db"
  "pd_store (put_cursor env i f db) = pd_store db" "pd_globals (put_cursor env i f db) = pd_globals db"
  by (simp_all add: put_cursor_def split: option.split)

lemma touch_cursor_adds: "adds i [] db (touch_cursor env j db)"
  by (rule adds_nothing) (simp_all add: touch_cursor_def)

lemma advance_cursor_adds: "adds i [] (pa_db a) (advance_cursor env j a)"
  by (rule adds_nothing) (simp_all add: advance_cursor_def upsert_cursor_def split: option.split)

lemma drift_event_adds: "adds i [] db (drift_event env j r db)"
  by (rule adds_nothing) (simp_all add: drift_event_def emit_def)

text \<open>The history a poll receives.\<close>

definition history_of :: "poll_env \<Rightarrow> integration \<Rightarrow> poll_db \<Rightarrow> playback_dto list" where
  "history_of env ig db =
     (if im_provider_for (pk_integ env) (ig_kind ig) = None then []
      else case im_build_config (pk_integ env) ig of
        Inl _ \<Rightarrow> []
      | Inr config \<Rightarrow>
          (case pk_history env (ig_kind ig) config (case get_cursor (ig_id ig) db of None \<Rightarrow> None | Some c \<Rightarrow> parse_cursor env (cu_cursor_value c)) of
             Fetched ds \<Rightarrow> ds
           | _ \<Rightarrow> []))"

lemma poll_rows_cases:
  assumes "poll_rows env ig db = Inr (out, ig', db')"
  obtains (failed) "history_of env ig db = []" "db' = db" "ig' = ig" "po_inserted out = 0"
  | (quiet) config where "history_of env ig db = []" "im_build_config (pk_integ env) ig = Inr config"
      "quiet_poll env ig config db = (out, db')" "ig' = ig"
  | (busy) config where "history_of env ig db \<noteq> []" "im_build_config (pk_integ env) ig = Inr config"
      "busy_poll env ig config (history_of env ig db) db = Inr (out, ig', db')"
proof (cases "im_provider_for (pk_integ env) (ig_kind ig) = None")
  case True
  show thesis by (rule failed) (use assms True in \<open>auto simp: poll_rows_def history_of_def failed_poll_def blank_outcome_def Let_def\<close>)
next
  case False
  note p = False
  show thesis
  proof (cases "im_build_config (pk_integ env) ig")
    case (Inl e)
    show thesis by (rule failed) (use assms p Inl in \<open>auto simp: poll_rows_def history_of_def failed_poll_def blank_outcome_def Let_def\<close>)
  next
    case (Inr config)
    let ?h = "pk_history env (ig_kind ig) config (case get_cursor (ig_id ig) db of None \<Rightarrow> None | Some c \<Rightarrow> parse_cursor env (cu_cursor_value c))"
    show thesis
    proof (cases ?h)
      case NotImplemented
      show thesis by (rule failed) (use assms p Inr NotImplemented in \<open>auto simp: poll_rows_def history_of_def blank_outcome_def Let_def\<close>)
    next
      case (FetchFailed e)
      show thesis by (rule failed) (use assms p Inr FetchFailed in \<open>auto simp: poll_rows_def history_of_def failed_poll_def blank_outcome_def Let_def\<close>)
    next
      case (Fetched ds)
      then have h: "history_of env ig db = ds" using p Inr by (auto simp: history_of_def)
      show thesis
      proof (cases ds)
        case Nil
        show thesis by (rule quiet [OF _ Inr]) (use assms p Inr Fetched h Nil in \<open>auto simp: poll_rows_def Let_def split: prod.splits\<close>)
      next
        case (Cons d ds')
        show thesis by (rule busy [OF _ Inr]) (use assms p Inr Fetched h Cons in \<open>auto simp: poll_rows_def Let_def\<close>)
      qed
    qed
  qed
qed

text \<open>The parts of a poll with history.\<close>

lemma busy_poll_parts:
  assumes "busy_poll env ig config dtos db = Inr (out, ig', db')"
  obtains mapped a im gm where
    "mapped = map (\<lambda>d. d\<lparr>pt_source_path := remap_path_chain (pt_source_path d) im gm\<rparr>) dtos"
    "ingest env (ig_id ig) mapped \<lparr>pa_inserted = 0, pa_latest = None, pa_latest_seen = None, pa_db = db\<rparr> = Inr a"
    "po_inserted out = pa_inserted a + fst (merge_live_sessions env ig config im gm (advance_cursor env (ig_id ig) a))"
    "\<exists>r. db' = drift_event env (ig_id ig) r (snd (merge_live_sessions env ig config im gm (advance_cursor env (ig_id ig) a)))"
    "im = parse_mappings (dict_get (ig_config ig) ''path_mappings'')" "gm = poll_globals (pd_globals db)"
proof -
  let ?im = "parse_mappings (dict_get (ig_config ig) ''path_mappings'')" and ?gm = "poll_globals (pd_globals db)"
  let ?mapped = "map (\<lambda>d. d\<lparr>pt_source_path := remap_path_chain (pt_source_path d) ?im ?gm\<rparr>) dtos"
  obtain a where a: "ingest env (ig_id ig) ?mapped \<lparr>pa_inserted = 0, pa_latest = None, pa_latest_seen = None, pa_db = db\<rparr> = Inr a"
    using assms by (auto simp: busy_poll_def Let_def bind_r_Inr_iff)
  then have "po_inserted out = pa_inserted a + fst (merge_live_sessions env ig config ?im ?gm (advance_cursor env (ig_id ig) a))"
    and "\<exists>r. db' = drift_event env (ig_id ig) r (snd (merge_live_sessions env ig config ?im ?gm (advance_cursor env (ig_id ig) a)))"
    using assms by (auto simp: busy_poll_def Let_def case_prod_beta)
  from that [OF refl a this refl refl] show thesis .
qed

lemma busy_poll_adds:
  assumes "busy_poll env ig config dtos db = Inr (out, ig', db')"
  shows "\<exists>new. adds (ig_id ig) new db db' \<and> po_inserted out = length new
    \<and> (\<forall>d\<in>set dtos. pt_started_at d \<noteq> None \<longrightarrow> stored (ig_id ig) (pt_upstream_id d) db')"
  using assms
proof (rule busy_poll_parts)
  fix mapped a im gm
  let ?i = "ig_id ig"
  let ?m = "merge_live_sessions env ig config im gm (advance_cursor env ?i a)"
  assume mapped: "mapped = map (\<lambda>d. d\<lparr>pt_source_path := remap_path_chain (pt_source_path d) im gm\<rparr>) dtos"
    and a: "ingest env ?i mapped \<lparr>pa_inserted = 0, pa_latest = None, pa_latest_seen = None, pa_db = db\<rparr> = Inr a"
    and n: "po_inserted out = pa_inserted a + fst ?m" and d: "\<exists>r. db' = drift_event env ?i r (snd ?m)"
  obtain m where m: "adds ?i m db (pa_db a)" "pa_inserted a = length m"
    "\<forall>d\<in>set mapped. pt_started_at d \<noteq> None \<longrightarrow> stored ?i (pt_upstream_id d) (pa_db a)" using ingest_adds [OF a] by auto
  obtain l where l: "adds ?i l (advance_cursor env ?i a) (snd ?m)" "fst ?m = length l" using merge_live_adds by blast
  obtain r where r: "db' = drift_event env ?i r (snd ?m)" using d by blast
  have t: "adds ?i l (pa_db a) db'"
    using adds_trans [OF adds_trans [OF advance_cursor_adds l(1)] drift_event_adds] by (simp add: r)
  show ?thesis using n m(2,3) l(2) adds_trans [OF m(1) t] stored_adds [OF t] mapped by (intro exI [of _ "m @ l"]) auto
qed

lemma quiet_poll_adds:
  assumes "quiet_poll env ig config db = (out, db')"
  shows "\<exists>new. adds (ig_id ig) new db db' \<and> po_inserted out = length new"
proof -
  let ?m = "merge_live_sessions env ig config (parse_mappings (dict_get (ig_config ig) ''path_mappings'')) (poll_globals (pd_globals db))
    (touch_cursor env (ig_id ig) db)"
  obtain l where l: "adds (ig_id ig) l (touch_cursor env (ig_id ig) db) (snd ?m)" "fst ?m = length l" using merge_live_adds by blast
  have "db' = snd ?m" "po_inserted out = fst ?m" using assms by (auto simp: quiet_poll_def case_prod_beta)
  then show ?thesis using l adds_trans [OF touch_cursor_adds l(1)] by auto
qed

lemma poll_rows_adds:
  assumes "poll_rows env ig db = Inr (out, ig', db')"
  shows "\<exists>new. adds (ig_id ig) new db db' \<and> po_inserted out = length new
    \<and> (\<forall>d\<in>set (history_of env ig db). pt_started_at d \<noteq> None \<longrightarrow> stored (ig_id ig) (pt_upstream_id d) db')"
  using assms
proof (cases rule: poll_rows_cases)
  case failed
  then show ?thesis by (intro exI [of _ "[]"]) simp
next
  case (quiet config)
  then show ?thesis using quiet_poll_adds [OF quiet(3)] by auto
next
  case (busy config)
  then show ?thesis using busy_poll_adds [OF busy(3)] by auto
qed

text \<open>The commit writes at most the health columns of one integration.\<close>

lemma commit_object_frame [simp]:
  "pd_events (commit_object sid ob g db) = pd_events db" "pd_devices (commit_object sid ob g db) = pd_devices db"
  "pd_cursors (commit_object sid ob g db) = pd_cursors db"
  by (simp_all add: commit_object_def)

lemma get_cursor_commit [simp]: "get_cursor i (commit_object sid ob g db) = get_cursor i db"
  by (simp add: get_cursor_def)

lemma poll_one_rows:
  assumes "poll_one env sid ob db = Inr (out, ob', db')"
  obtains db1 where "poll_rows env (oi_row ob) db = Inr (out, oi_row ob', db1)" "db' = commit_object sid ob (oi_row ob') db1"
  using assms by (auto simp: poll_one_def bind_r_Inr_iff)

text \<open>C35. A poll stores every event once: identifiers stay unique per integration, rows are only added, all of them
  of the polled integration and as many as the outcome says, and every event the provider reported with a
  start is in the table afterwards.\<close>

theorem poll_stores_once:
  assumes "poll_one env sid ob db = Inr (out, ob', db')" and "ig = oi_row ob" and "unique_keys event_id (pd_events db)"
  shows "\<exists>new. pd_events db' = pd_events db @ new \<and> length new = po_inserted out \<and> unique_keys event_id (pd_events db')
    \<and> (\<forall>e\<in>set new. pe_integration_id e = ig_id ig)
    \<and> (\<forall>d\<in>set (history_of env ig db). pt_started_at d \<noteq> None \<longrightarrow> (ig_id ig, pt_upstream_id d) \<in> event_id ` set (pd_events db'))"
proof -
  obtain db1 where db1: "poll_rows env ig db = Inr (out, oi_row ob', db1)" "pd_events db' = pd_events db1"
    using assms(1,2) by (auto elim: poll_one_rows)
  obtain new where "adds (ig_id ig) new db db1" "po_inserted out = length new"
    "\<forall>d\<in>set (history_of env ig db). pt_started_at d \<noteq> None \<longrightarrow> stored (ig_id ig) (pt_upstream_id d) db1"
    using poll_rows_adds [OF db1(1)] by blast
  then show ?thesis using assms(3) unfolding adds_def stored_def db1(2) by metis
qed

text \<open>The device counters count rows: over a poll the plays of all devices grow by exactly the new rows that
  name a device, and their transcodes by those of them that were transcoded.\<close>

theorem poll_counts_devices:
  assumes "poll_one env sid ob db = Inr (out, ob', db')" and "unique_keys device_id (pd_devices db)"
  shows "\<exists>new. pd_events db' = pd_events db @ new \<and> unique_keys device_id (pd_devices db')
    \<and> device_sum dv_playback_count (pd_devices db') = device_sum dv_playback_count (pd_devices db) + length (filter named new)
    \<and> device_sum dv_transcode_count (pd_devices db') = device_sum dv_transcode_count (pd_devices db)
        + length (filter (\<lambda>e. named e \<and> pe_decision e = ''transcode'') new)"
proof -
  obtain db1 where db1: "poll_rows env (oi_row ob) db = Inr (out, oi_row ob', db1)" "pd_events db' = pd_events db1" "pd_devices db' = pd_devices db1"
    using assms(1) by (auto elim: poll_one_rows)
  obtain new where "adds (ig_id (oi_row ob)) new db db1" using poll_rows_adds [OF db1(1)] by blast
  then show ?thesis using assms(2) by (intro exI [of _ new]) (simp add: adds_def counts_agree_def db1(2,3))
qed

section \<open>The cursor\<close>

lemma later_simps [simp]: "later b None = b" "later None (Some t) = Some t"
  by (simp_all add: later_def)

text \<open>\<open>high S\<close>: the greatest element of a set of starts, if there is one.\<close>

definition high :: "int set \<Rightarrow> int option \<Rightarrow> bool" where
  "high S m = (case m of None \<Rightarrow> S = {} | Some x \<Rightarrow> x \<in> S \<and> (\<forall>y\<in>S. y \<le> x))"

lemma high_later: "high S b \<Longrightarrow> high (insert t S) (later b (Some t))"
  by (auto simp: high_def later_def split: option.splits)

lemma store_event_latest:
  "pa_latest (store_event env i m d a) = (if \<exists>t. pt_started_at d = Some t \<and> \<not> stored i (pt_upstream_id d) (pa_db a)
     then later (pa_latest a) (pt_started_at d) else pa_latest a)"
  "pa_latest_seen (store_event env i m d a) = pa_latest_seen a"
  by (auto simp: store_event_def Let_def insert_event_def stored_def event_id_def history_row_def split: option.splits)

lemma stored_mark [simp]: "stored i u (pa_db (mark_matched m a)) = stored i u (pa_db a)"
  by (simp add: stored_def)

lemma stored_seen [simp]: "stored i u (pa_db (a\<lparr>pa_latest_seen := x\<rparr>)) = stored i u (pa_db a)"
  by simp

lemma store_event_stored:
  "stored i u (pa_db (store_event env i m d a)) \<longleftrightarrow> stored i u (pa_db a) \<or> (u = pt_upstream_id d \<and> pt_started_at d \<noteq> None)"
  by (auto simp: store_event_def Let_def insert_event_def stored_def event_id_def history_row_def split: option.splits)

lemma ingest_one_latest:
  assumes "ingest_one env i d a = Inr b"
  shows "pa_latest b = (if \<exists>t. pt_started_at d = Some t \<and> \<not> stored i (pt_upstream_id d) (pa_db a)
      then later (pa_latest a) (pt_started_at d) else pa_latest a)"
    "pa_latest_seen b = later (pa_latest_seen a) (pt_started_at d)"
    "stored i u (pa_db b) \<longleftrightarrow> stored i u (pa_db a) \<or> (u = pt_upstream_id d \<and> pt_started_at d \<noteq> None)"
  using assms by (auto simp: ingest_one_def bind_r_Inr_iff store_event_latest store_event_stored)

definition starts :: "playback_dto list \<Rightarrow> int set" where
  "starts ds = {t. \<exists>d\<in>set ds. pt_started_at d = Some t}"

definition new_starts :: "string \<Rightarrow> poll_db \<Rightarrow> playback_dto list \<Rightarrow> int set" where
  "new_starts i db ds = {t. \<exists>d\<in>set ds. pt_started_at d = Some t \<and> \<not> stored i (pt_upstream_id d) db}"

lemma ingest_latest:
  assumes "ingest env i ds a = Inr b" "distinct (map pt_upstream_id ds)" "high S (pa_latest a)" "high T (pa_latest_seen a)"
  shows "high (new_starts i (pa_db a) ds \<union> S) (pa_latest b) \<and> high (starts ds \<union> T) (pa_latest_seen b)"
  using assms
proof (induction ds arbitrary: a S T)
  case Nil
  then show ?case by (simp add: new_starts_def starts_def)
next
  case (Cons d ds)
  then obtain c where c: "ingest_one env i d a = Inr c" "ingest env i ds c = Inr b" by (auto simp: bind_r_Inr_iff)
  define S' where "S' = {t. pt_started_at d = Some t \<and> \<not> stored i (pt_upstream_id d) (pa_db a)} \<union> S"
  define T' where "T' = {t. pt_started_at d = Some t} \<union> T"
  have "high S' (pa_latest c)"
    using Cons.prems(3) high_later [of S "pa_latest a"] unfolding ingest_one_latest(1) [OF c(1)] S'_def by auto
  moreover have "high T' (pa_latest_seen c)"
    using Cons.prems(4) high_later [of T "pa_latest_seen a"] unfolding ingest_one_latest(2) [OF c(1)] T'_def
    by (cases "pt_started_at d") auto
  ultimately have "high (new_starts i (pa_db c) ds \<union> S') (pa_latest b) \<and> high (starts ds \<union> T') (pa_latest_seen b)"
    using Cons.IH [OF c(2)] Cons.prems(2) by simp
  moreover have "new_starts i (pa_db c) ds = new_starts i (pa_db a) ds"
  proof -
    have "stored i (pt_upstream_id e) (pa_db c) = stored i (pt_upstream_id e) (pa_db a)" if "e \<in> set ds" for e
    proof -
      have "pt_upstream_id e \<in> pt_upstream_id ` set ds" using that by (rule imageI)
      then have "pt_upstream_id e \<noteq> pt_upstream_id d" using Cons.prems(2) by auto
      then show ?thesis using ingest_one_latest(3) [OF c(1), of "pt_upstream_id e"] by simp
    qed
    then show ?thesis by (auto simp: new_starts_def)
  qed
  then have "new_starts i (pa_db c) ds \<union> S' = new_starts i (pa_db a) (d # ds) \<union> S"
    by (auto simp: new_starts_def S'_def)
  moreover have "starts ds \<union> T' = starts (d # ds) \<union> T" by (auto simp: starts_def T'_def)
  ultimately show ?case by simp
qed

lemma starts_mapped [simp]:
  "starts (map (\<lambda>d. d\<lparr>pt_source_path := f d\<rparr>) ds) = starts ds" "new_starts i db (map (\<lambda>d. d\<lparr>pt_source_path := f d\<rparr>) ds) = new_starts i db ds"
  by (auto simp: starts_def new_starts_def)

lemma get_put_cursor: "\<exists>c. get_cursor i (put_cursor env i f db) = Some c \<and> cu_cursor_value c = f (case get_cursor i db of None \<Rightarrow> [] | Some c \<Rightarrow> cu_cursor_value c)"
proof (cases "get_cursor i db")
  case None
  then show ?thesis by (simp add: put_cursor_def get_cursor_def table_find_append cursor_id_def)
next
  case (Some c)
  have "cursor_id x = (i, CURSOR_KIND) \<Longrightarrow> cursor_id (x\<lparr>cu_cursor_value := f (cu_cursor_value x), cu_updated_at := pk_now env\<rparr>) = (i, CURSOR_KIND)" for x
    by (simp add: cursor_id_def)
  then have "table_find cursor_id (i, CURSOR_KIND) (map (\<lambda>c. if cursor_id c = (i, CURSOR_KIND)
      then c\<lparr>cu_cursor_value := f (cu_cursor_value c), cu_updated_at := pk_now env\<rparr> else c) t)
    = map_option (\<lambda>c. c\<lparr>cu_cursor_value := f (cu_cursor_value c), cu_updated_at := pk_now env\<rparr>) (table_find cursor_id (i, CURSOR_KIND) t)" for t
    by (induction t) auto
  then show ?thesis using Some by (simp add: put_cursor_def get_cursor_def)
qed

lemma store_live_cursors: "pd_cursors (snd (store_live env i l a)) = pd_cursors (snd a)"
  by (simp add: store_live_def case_prod_beta split: option.split)

lemma merge_live_cursors: "pd_cursors (snd (merge_live_sessions env ig config im gm db)) = pd_cursors db"
proof -
  have "pd_cursors (snd (fold (store_live env i) ls a)) = pd_cursors (snd a)" for i ls a
    by (induction ls arbitrary: a) (simp_all add: store_live_cursors)
  then show ?thesis by (simp add: merge_live_sessions_def Let_def split: option.split fetched.split)
qed

text \<open>C36. The cursor after a poll whose history has distinct identifiers and a start: it stands one minute before the
  newest start among the history events the poll just inserted, or where none was new before the newest start
  reported.  The comment prefers the newest start reported in both cases, so a late insert of an old event moves
  the cursor back behind what was already seen.\<close>

theorem cursor_stays_behind:
  assumes "poll_one env sid ob db = Inr (out, ob', db')" and "ig = oi_row ob" and "distinct (map pt_upstream_id (history_of env ig db))"
    and "d \<in> set (history_of env ig db)" and "pt_started_at d = Some t"
  shows "\<exists>c m. get_cursor (ig_id ig) db' = Some c \<and> cu_cursor_value c = pk_iso env (m - CURSOR_SAFETY_SKEW)
    \<and> high (if new_starts (ig_id ig) db (history_of env ig db) = {} then starts (history_of env ig db)
            else new_starts (ig_id ig) db (history_of env ig db)) (Some m)"
proof -
  obtain db1 where db1: "poll_rows env ig db = Inr (out, oi_row ob', db1)" and same: "get_cursor (ig_id ig) db' = get_cursor (ig_id ig) db1"
    using assms(1,2) by (auto elim: poll_one_rows)
  show ?thesis using db1
  proof (cases rule: poll_rows_cases)
    case (busy config)
    let ?h = "history_of env ig db" and ?i = "ig_id ig"
    show ?thesis using busy(3)
    proof (rule busy_poll_parts)
      fix mapped a im gm
      assume mapped: "mapped = map (\<lambda>d. d\<lparr>pt_source_path := remap_path_chain (pt_source_path d) im gm\<rparr>) ?h"
        and a: "ingest env ?i mapped \<lparr>pa_inserted = 0, pa_latest = None, pa_latest_seen = None, pa_db = db\<rparr> = Inr a"
        and db1: "\<exists>r. db1 = drift_event env ?i r (snd (merge_live_sessions env ig config im gm (advance_cursor env ?i a)))"
      have "distinct (map pt_upstream_id mapped)" using assms(3) by (simp add: mapped o_def)
      from ingest_latest [OF a this, of "{}" "{}"]
      have l: "high (new_starts ?i db ?h) (pa_latest a)" and s: "high (starts ?h) (pa_latest_seen a)"
        by (simp_all add: high_def mapped)
      have "t \<in> starts ?h" using assms(4,5) by (auto simp: starts_def)
      then obtain m where m: "(case pa_latest a of Some t \<Rightarrow> Some t | None \<Rightarrow> pa_latest_seen a) = Some m"
        "high (if new_starts ?i db ?h = {} then starts ?h else new_starts ?i db ?h) (Some m)"
      proof (cases "pa_latest a")
        case None
        then have e: "new_starts ?i db ?h = {}" using l by (simp add: high_def)
        from \<open>t \<in> starts ?h\<close> s obtain m where "pa_latest_seen a = Some m" by (cases "pa_latest_seen a") (auto simp: high_def)
        with None e s show thesis by (intro that [of m]) simp_all
      next
        case (Some m)
        then have "new_starts ?i db ?h \<noteq> {}" using l by (auto simp: high_def)
        with Some l show thesis by (intro that [of m]) simp_all
      qed
      then have "advance_cursor env ?i a = put_cursor env ?i (\<lambda>_. pk_iso env (m - CURSOR_SAFETY_SKEW)) (pa_db a)"
        by (simp add: advance_cursor_def upsert_cursor_def)
      moreover have "pd_cursors db1 = pd_cursors (advance_cursor env ?i a)"
        using db1 merge_live_cursors [of env ig config im gm "advance_cursor env ?i a"] by (auto simp: drift_event_def)
      moreover obtain c where "get_cursor ?i (put_cursor env ?i (\<lambda>_. pk_iso env (m - CURSOR_SAFETY_SKEW)) (pa_db a)) = Some c"
        "cu_cursor_value c = pk_iso env (m - CURSOR_SAFETY_SKEW)"
        using get_put_cursor [of ?i env "\<lambda>_. pk_iso env (m - CURSOR_SAFETY_SKEW)" "pa_db a"] by blast
      ultimately show ?thesis unfolding same using m(2) by (intro exI [of _ c] exI [of _ m]) (simp add: get_cursor_def)
    qed
  qed (use assms(4) in simp_all)
qed

section \<open>The pass\<close>

lemma poll_step_detached:
  assumes "oi_session ob = None"
  obtains r new where "fst (poll_step env (sid, ob) a) = fst a @ [r]" "pd_events (snd (poll_step env (sid, ob) a)) = pd_events (snd a) @ new"
    "st_integrations (pd_store (snd (poll_step env (sid, ob) a))) = st_integrations (pd_store (snd a))"
proof (cases "poll_rows env (oi_row ob) (snd a)")
  case (Inl e)
  then show thesis using that [of "PollRaised (ig_id (oi_row ob)) e" "[]"] by (simp add: poll_step_def poll_one_def case_prod_beta)
next
  case (Inr x)
  then obtain out g' db1 where x: "poll_rows env (oi_row ob) (snd a) = Inr (out, g', db1)" by (metis prod_cases3)
  obtain new where "adds (ig_id (oi_row ob)) new (snd a) db1" using poll_rows_adds [OF x] by blast
  then show thesis using that [of "Polled out" new] x assms
    by (simp add: poll_step_def poll_one_def commit_object_def case_prod_beta adds_def)
qed

lemma poll_pass_adds:
  "(\<forall>c\<in>set cs. oi_session (snd c) = None) \<Longrightarrow> \<exists>rs' new. fst (fold (poll_step env) cs a) = fst a @ rs' \<and> length rs' = length cs
    \<and> pd_events (snd (fold (poll_step env) cs a)) = pd_events (snd a) @ new
    \<and> st_integrations (pd_store (snd (fold (poll_step env) cs a))) = st_integrations (pd_store (snd a))"
proof (induction cs arbitrary: a)
  case (Cons c cs)
  obtain sid ob where c: "c = (sid, ob)" by fastforce
  obtain r new where "fst (poll_step env c a) = fst a @ [r]" "pd_events (snd (poll_step env c a)) = pd_events (snd a) @ new"
    "st_integrations (pd_store (snd (poll_step env c a))) = st_integrations (pd_store (snd a))"
    using Cons.prems poll_step_detached [of ob env sid a] unfolding c by auto
  moreover obtain rs' new' where "fst (fold (poll_step env) cs (poll_step env c a)) = fst (poll_step env c a) @ rs'" "length rs' = length cs"
    "pd_events (snd (fold (poll_step env) cs (poll_step env c a))) = pd_events (snd (poll_step env c a)) @ new'"
    "st_integrations (pd_store (snd (fold (poll_step env) cs (poll_step env c a)))) = st_integrations (pd_store (snd (poll_step env c a)))"
    using Cons by fastforce
  ultimately show ?case by (intro exI [of _ "r # rs'"] exI [of _ "new @ new'"]) simp
qed simp

text \<open>The worker closes the session it loaded the candidates in before it polls the first of them.\<close>

lemma candidates_detached: "c \<in> set (enumerate n (close_orm_session sid (load_objects sid gs))) \<Longrightarrow> oi_session (snd c) = None"
proof -
  assume "c \<in> set (enumerate n (close_orm_session sid (load_objects sid gs)))"
  then have "(fst c, snd c) \<in> set (zip [n..<n + length gs] (close_orm_session sid (load_objects sid gs)))"
    by (simp add: enumerate_eq_zip close_orm_session_def load_objects_def)
  then have "snd c \<in> set (close_orm_session sid (load_objects sid gs))" by (rule set_zip_rightD)
  then show ?thesis by (auto simp: close_orm_session_def load_objects_def)
qed

lemma poll_integrations_adds:
  "\<exists>rs new. fst (poll_integrations env db) = rs \<and> length rs = length (poll_candidates (pd_store db))
    \<and> pd_events (snd (poll_integrations env db)) = pd_events db @ new
    \<and> st_integrations (pd_store (snd (poll_integrations env db))) = st_integrations (pd_store db)"
proof -
  let ?cs = "enumerate 1 (close_orm_session 0 (load_objects 0 (poll_candidates (pd_store db))))"
  have "length ?cs = length (poll_candidates (pd_store db))" by (simp add: close_orm_session_def load_objects_def)
  then show ?thesis using poll_pass_adds [of ?cs env "([], db)"] candidates_detached
    unfolding poll_integrations_def Let_def by fastforce
qed

text \<open>A pass polls every enabled playback integration whatever the others do: it reports once on each, and no
  failure takes back an event stored before.\<close>

theorem poll_pass_isolated:
  "length (fst (poll_integrations env db)) = length (poll_candidates (pd_store db))
   \<and> (\<exists>new. pd_events (snd (poll_integrations env db)) = pd_events db @ new)"
  using poll_integrations_adds [of env db] by blast

text \<open>The health of the object after a poll with history.\<close>

lemma poll_rows_health:
  assumes "poll_rows env ig db = Inr (out, ig', db1)" "history_of env ig db \<noteq> []"
  shows "ig_health_checked_at ig' = Some (pk_now env)" "po_drift_suspected out \<Longrightarrow> ig_health_status ig' = ''degraded''"
    "write_changes ig ig' ig = ig'" "ig_id ig' = ig_id ig"
proof -
  from assms obtain drift where "po_drift_suspected out = drift_suspected drift" "ig' = poll_health env drift out ig"
    by (cases rule: poll_rows_cases) (auto simp: busy_poll_def Let_def bind_r_Inr_iff case_prod_beta)
  then show "ig_health_checked_at ig' = Some (pk_now env)" "po_drift_suspected out \<Longrightarrow> ig_health_status ig' = ''degraded''"
    "write_changes ig ig' ig = ig'" "ig_id ig' = ig_id ig"
    by (simp_all add: poll_health_def write_changes_def)
qed

lemma table_find_update:
  assumes "\<And>x. key (f x) = key x"
  shows "table_find key k (map (\<lambda>x. if key x = k then f x else x) t) = map_option f (table_find key k t)"
  by (induction t) (simp_all add: assms)

lemma write_changes_id [simp]: "ig_id (write_changes a b g) = ig_id g"
  by (simp add: write_changes_def)

text \<open>C37. What a poll finds out about the health of an integration is lost, against what the poller means to do.
  A poll that is given an object of its own session, as the tests of the poller do, stores the health: the row
  carries the time of the poll, and is marked degraded where drift is suspected.  But the worker hands over objects
  of a session it has closed, so a pass leaves every integration's row as it was.\<close>

theorem poll_health_lost:
  assumes "poll_rows env ig db = Inr (out, ig', db1)" and "history_of env ig db \<noteq> []"
    and "table_find ig_id (ig_id ig) (st_integrations (pd_store db)) = Some ig"
  shows "(\<exists>ob' db'. poll_one env sid \<lparr>oi_row = ig, oi_session = Some sid\<rparr> db = Inr (out, ob', db')
      \<and> table_find ig_id (ig_id ig) (st_integrations (pd_store db')) = Some ig'
      \<and> ig_health_checked_at ig' = Some (pk_now env) \<and> (po_drift_suspected out \<longrightarrow> ig_health_status ig' = ''degraded''))
    \<and> st_integrations (pd_store (snd (poll_integrations env db))) = st_integrations (pd_store db)"
proof
  note h = poll_rows_health [OF assms(1,2)]
  have "st_integrations (pd_store db1) = st_integrations (pd_store db)" using poll_rows_adds [OF assms(1)] by (auto simp: adds_def)
  then have "table_find ig_id (ig_id ig) (st_integrations (pd_store (commit_object sid \<lparr>oi_row = ig, oi_session = Some sid\<rparr> ig' db1))) = Some ig'"
    using assms(3) h(3) by (simp add: commit_object_def table_find_update)
  then show "\<exists>ob' db'. poll_one env sid \<lparr>oi_row = ig, oi_session = Some sid\<rparr> db = Inr (out, ob', db')
      \<and> table_find ig_id (ig_id ig) (st_integrations (pd_store db')) = Some ig'
      \<and> ig_health_checked_at ig' = Some (pk_now env) \<and> (po_drift_suspected out \<longrightarrow> ig_health_status ig' = ''degraded'')"
    using assms(1) h by (simp add: poll_one_def)
  show "st_integrations (pd_store (snd (poll_integrations env db))) = st_integrations (pd_store db)"
    using poll_integrations_adds by blast
qed

section \<open>Live sessions and history\<close>

lemma closest_total: "\<exists>r. find_matching_session i k (Some t) ss = Inr r"
  by (simp add: find_matching_session_def)

lemma store_event_new:
  assumes "pt_started_at d = Some t" "\<not> stored i (pt_upstream_id d) (pa_db a)"
  shows "pd_events (pa_db (store_event env i m d a)) = pd_events (pa_db a)
    @ [history_row i (pk_new_id env (length (pd_events (pa_db a)))) (resolved_id (pa_db a) (pt_source_path d)) m d t]"
  using assms by (simp add: store_event_def Let_def insert_event_def stored_def event_id_def history_row_def)

lemma store_live_new:
  assumes "lv_started_at l = Some t" "\<not> stored i (live_id l) (snd a)"
  shows "pd_events (snd (store_live env i l a)) = pd_events (snd a)
    @ [live_row i (pk_new_id env (length (pd_events (snd a)))) (resolved_id (snd a) (lv_source_path l)) l t]"
  using assms by (simp add: store_live_def case_prod_beta insert_event_def stored_def event_id_def live_row_def)

text \<open>Live sessions and history are not told apart: a play that the provider reports both as a live session past
  the threshold and in its history is stored twice, because only identifiers are compared and a live
  session is given one of its own.\<close>

theorem live_play_stored_twice:
  assumes "poll_one env sid ob db = Inr (out, ob', db')" and "history_of env ig db = [d]"
    and "im_build_config (pk_integ env) ig = Inr config" and "pk_live env (ig_kind ig) = Some call" and "call config = Fetched [l]"
    and "live_session_eligible (pk_now env) l" and "pt_started_at d = Some t" "lv_started_at l = Some t" "lv_source_path l = pt_source_path d"
    and "\<not> stored (ig_id ig) (pt_upstream_id d) db" "\<not> stored (ig_id ig) (live_id l) db" "pt_upstream_id d \<noteq> live_id l"
    and "ig = oi_row ob"
  shows "\<exists>e f. pd_events db' = pd_events db @ [e, f] \<and> pe_source_path e = pe_source_path f \<and> pe_started_at e = t \<and> pe_started_at f = t
    \<and> pe_upstream_id e = pt_upstream_id d \<and> pe_upstream_id f = live_id l"
proof -
  obtain db1 where db1: "poll_rows env ig db = Inr (out, oi_row ob', db1)" and same: "pd_events db' = pd_events db1"
    using assms(1,13) by (auto elim: poll_one_rows)
  show ?thesis using db1
  proof (cases rule: poll_rows_cases)
    case (busy config')
    let ?i = "ig_id ig"
    from busy(3) show ?thesis
    proof (rule busy_poll_parts)
      fix mapped a im gm
      assume mapped: "mapped = map (\<lambda>d. d\<lparr>pt_source_path := remap_path_chain (pt_source_path d) im gm\<rparr>) (history_of env ig db)"
        and a: "ingest env ?i mapped \<lparr>pa_inserted = 0, pa_latest = None, pa_latest_seen = None, pa_db = db\<rparr> = Inr a"
        and db1: "\<exists>r. db1 = drift_event env ?i r (snd (merge_live_sessions env ig config' im gm (advance_cursor env ?i a)))"
      define d' where "d' = d\<lparr>pt_source_path := remap_path_chain (pt_source_path d) im gm\<rparr>"
      define l' where "l' = l\<lparr>lv_source_path := remap_path_chain (lv_source_path l) im gm\<rparr>"
      have l': "live_session_eligible (pk_now env) l'" "live_id l' = live_id l" "lv_started_at l' = Some t" "lv_source_path l' = pt_source_path d'"
        using assms(6,8,9) by (simp_all add: l'_def d'_def live_session_eligible_def live_id_def)
      obtain m where "a = mark_matched m (store_event env ?i m d' \<lparr>pa_inserted = 0, pa_latest = None,
          pa_latest_seen = later None (pt_started_at d'), pa_db = db\<rparr>)"
        using a assms(2) by (auto simp: mapped d'_def ingest_one_def bind_r_Inr_iff)
      then have ev: "pd_events (pa_db a) = pd_events db @ [history_row ?i (pk_new_id env (length (pd_events db))) (resolved_id db (pt_source_path d')) m d' t]"
        using store_event_new [of d' t ?i "\<lparr>pa_inserted = 0, pa_latest = None, pa_latest_seen = later None (pt_started_at d'), pa_db = db\<rparr>" env m] assms(7,10)
        by (simp add: d'_def)
      let ?c = "advance_cursor env ?i a"
      have c: "pd_events ?c = pd_events (pa_db a)" using advance_cursor_adds [of ?i a env ?i] by (simp add: adds_def)
      have fresh: "\<not> stored ?i (live_id l') ?c"
        using assms(11,12) l'(2) by (auto simp: stored_def c ev event_id_def history_row_def d'_def)
      then have "live_id l' \<notin> set (map pe_upstream_id (filter (\<lambda>e. pe_integration_id e = ?i) (pd_events ?c)))"
        by (auto simp: stored_def event_id_def image_iff)
      then have "merge_live_sessions env ig config' im gm ?c = store_live env ?i l' (0, ?c)"
        using assms(3-5) busy(2) l'(1) by (simp add: merge_live_sessions_def Let_def l'_def)
      then have "pd_events db1 = pd_events (pa_db a) @ [live_row ?i (pk_new_id env (length (pd_events ?c))) (resolved_id ?c (lv_source_path l')) l' t]"
        using db1 store_live_new [OF l'(3), of ?i "(0, ?c)" env] fresh by (auto simp: c drift_event_def)
      then show ?thesis unfolding same ev using l'(2,4) by (simp add: history_row_def live_row_def d'_def)
    qed
  qed (use assms(2) in simp_all)
qed

section \<open>Concrete polls\<close>

definition sample_dto :: "string \<Rightarrow> int \<Rightarrow> playback_dto" where
  "sample_dto u t = \<lparr>pt_upstream_id = u, pt_source_path = ''/m/a.mkv'', pt_decision = ''transcode'', pt_started_at = Some t,
     pt_device_kind = Some ''Roku'', pt_device_name = None, pt_reason_code = None, pt_source_codec = None, pt_source_bitrate_kbps = None,
     pt_source_width = None, pt_source_height = None, pt_source_container = None, pt_target_codec = None, pt_target_bitrate_kbps = None,
     pt_completed_at = None, pt_duration_s = None, pt_rating_key = None\<rparr>"

definition sample_live :: live_dto where
  "sample_live = \<lparr>lv_upstream_id = ''s1'', lv_source_path = ''/m/a.mkv'', lv_decision = ''transcode'', lv_started_at = Some 5,
     lv_progress_pct = None, lv_device_kind = None, lv_device_name = None, lv_source_codec = None, lv_source_bitrate_kbps = None,
     lv_source_width = None, lv_source_height = None\<rparr>"

definition sample_poll_env :: "playback_dto list \<Rightarrow> live_dto list \<Rightarrow> poll_env" where
  "sample_poll_env ds ls = \<lparr>pk_integ = sample_integ_env, pk_history = (\<lambda>_ _ _. Fetched ds), pk_live = (\<lambda>_. Some (\<lambda>_. Fetched ls)),
     pk_iso = (\<lambda>t. if t < 0 then ''early'' else ''late''), pk_iso_seconds = (\<lambda>t. ''now''), pk_from_iso = (\<lambda>s. None),
     pk_percent = (\<lambda>a b. ''0''), pk_sha1 = (\<lambda>s. s), pk_now = 40000000, pk_new_id = (\<lambda>n. replicate n (CHR ''x'')), pk_bus = True\<rparr>"

definition sample_poll_db :: poll_db where
  "sample_poll_db = \<lparr>pd_store = sample_integ_store\<lparr>st_integrations := [sample_integration ''a'' ''plex'']\<rparr>, pd_globals = [], pd_events = [],
     pd_sessions = [], pd_cursors = [], pd_devices = []\<rparr>"

definition outcome_of :: "(poll_outcome \<times> orm_integration \<times> poll_db) result \<Rightarrow> poll_outcome" where
  "outcome_of r = (case r of Inl _ \<Rightarrow> blank_outcome [] | Inr (out, _, _) \<Rightarrow> out)"

definition sample_object :: "nat option \<Rightarrow> orm_integration" where
  "sample_object sid = \<lparr>oi_row = sample_integration ''a'' ''plex'', oi_session = sid\<rparr>"

definition object_of :: "(poll_outcome \<times> orm_integration \<times> poll_db) result \<Rightarrow> orm_integration" where
  "object_of r = (case r of Inl _ \<Rightarrow> sample_object None | Inr (_, g, _) \<Rightarrow> g)"

definition database_of :: "(poll_outcome \<times> orm_integration \<times> poll_db) result \<Rightarrow> poll_db" where
  "database_of r = (case r of Inl _ \<Rightarrow> sample_poll_db | Inr (_, _, db) \<Rightarrow> db)"

definition two_events :: "(poll_outcome \<times> orm_integration \<times> poll_db) result" where
  "two_events = poll_one (sample_poll_env [sample_dto ''u'' 5, sample_dto ''v'' 9] []) 1 (sample_object None) sample_poll_db"

lemma returned: "is_ok r \<Longrightarrow> r = Inr (outcome_of r, object_of r, database_of r)"
  by (cases r) (auto simp: outcome_of_def object_of_def database_of_def)

lemma two_events_ok: "poll_one (sample_poll_env [sample_dto ''u'' 5, sample_dto ''v'' 9] []) 1 (sample_object None) sample_poll_db
    = Inr (outcome_of two_events, object_of two_events, database_of two_events)"
  unfolding two_events_def by (rule returned) code_simp

theorem poll_stores_once_witness:
  "unique_keys event_id (pd_events (database_of two_events)) \<and> length (pd_events (database_of two_events)) = po_inserted (outcome_of two_events)"
proof -
  have "unique_keys event_id (pd_events sample_poll_db)" "pd_events sample_poll_db = []" by code_simp+
  from poll_stores_once [OF two_events_ok refl this(1)] this(2) show ?thesis by auto
qed

theorem poll_counts_devices_witness:
  "device_sum dv_playback_count (pd_devices (database_of two_events)) = 2"
proof -
  have "unique_keys device_id (pd_devices sample_poll_db)" "device_sum dv_playback_count (pd_devices sample_poll_db) = 0" "pd_events sample_poll_db = []"
    "length (filter named (pd_events (database_of two_events))) = 2" by code_simp+
  with poll_counts_devices [OF two_events_ok] show ?thesis by auto
qed

theorem cursor_stays_behind_witness:
  "\<exists>c m. get_cursor ''a'' (database_of two_events) = Some c \<and> cu_cursor_value c = pk_iso (sample_poll_env [] []) (m - CURSOR_SAFETY_SKEW) \<and> m = 9"
proof -
  let ?env = "sample_poll_env [sample_dto ''u'' 5, sample_dto ''v'' 9] []" and ?ig = "sample_integration ''a'' ''plex''"
  have h: "history_of ?env ?ig sample_poll_db = [sample_dto ''u'' 5, sample_dto ''v'' 9]" by code_simp
  have d: "distinct (map pt_upstream_id (history_of ?env ?ig sample_poll_db))" unfolding h by code_simp
  have m: "sample_dto ''v'' 9 \<in> set (history_of ?env ?ig sample_poll_db)" "pt_started_at (sample_dto ''v'' 9) = Some 9"
    unfolding h by (simp_all add: sample_dto_def)
  have "new_starts ''a'' sample_poll_db [sample_dto ''u'' 5, sample_dto ''v'' 9] = {5, 9}"
    by (auto simp: new_starts_def stored_def sample_poll_db_def sample_dto_def)
  moreover have "high {5, 9} (Some m) \<Longrightarrow> m = 9" for m by (auto simp: high_def)
  ultimately show ?thesis using cursor_stays_behind [OF two_events_ok _ d m] unfolding h
    by (auto simp: sample_integration_def sample_poll_env_def sample_object_def split: if_splits)
qed

definition drifting :: "playback_dto list" where
  "drifting = map (\<lambda>u. sample_dto u 5) [''p'', ''q'', ''r'', ''s'', ''t'']"

definition drifting_rows :: "(poll_outcome \<times> integration \<times> poll_db) result" where
  "drifting_rows = poll_rows (sample_poll_env drifting []) (sample_integration ''a'' ''plex'') sample_poll_db"

theorem poll_health_lost_witness:
  "\<exists>out ob' db'. poll_one (sample_poll_env drifting []) 1 (sample_object (Some 1)) sample_poll_db = Inr (out, ob', db')
     \<and> map_option ig_health_status (table_find ig_id ''a'' (st_integrations (pd_store db'))) = Some ''degraded''
     \<and> st_integrations (pd_store (snd (poll_integrations (sample_poll_env drifting []) sample_poll_db))) = st_integrations (pd_store sample_poll_db)"
proof -
  have "(case drifting_rows of Inl _ \<Rightarrow> False | Inr (out, _, _) \<Rightarrow> po_drift_suspected out)"
    "history_of (sample_poll_env drifting []) (sample_integration ''a'' ''plex'') sample_poll_db \<noteq> []"
    "table_find ig_id (ig_id (sample_integration ''a'' ''plex'')) (st_integrations (pd_store sample_poll_db)) = Some (sample_integration ''a'' ''plex'')"
    "ig_id (sample_integration ''a'' ''plex'') = ''a''" by code_simp+
  moreover from this(1) obtain out ig' db1 where "drifting_rows = Inr (out, ig', db1)" "po_drift_suspected out"
    by (auto split: sum.splits)
  ultimately show ?thesis
    using poll_health_lost [of "sample_poll_env drifting []" "sample_integration ''a'' ''plex''" sample_poll_db out ig' db1 1]
    by (auto simp: drifting_rows_def sample_object_def)
qed

theorem live_play_stored_twice_witness:
  "length (pd_events (database_of (poll_one (sample_poll_env [sample_dto ''u'' 5] [sample_live]) 1 (sample_object None) sample_poll_db))) = 2"
proof -
  let ?env = "sample_poll_env [sample_dto ''u'' 5] [sample_live]" and ?ig = "sample_integration ''a'' ''plex''"
  let ?r = "poll_one ?env 1 (sample_object None) sample_poll_db"
  have r: "?r = Inr (outcome_of ?r, object_of ?r, database_of ?r)" by (rule returned) code_simp
  have h: "history_of ?env ?ig sample_poll_db = [sample_dto ''u'' 5]" by code_simp
  obtain config where c: "im_build_config (pk_integ ?env) ?ig = Inr config"
    by (simp add: im_build_config_def sample_integration_def)
  have l: "pk_live ?env (ig_kind ?ig) = Some (\<lambda>_. Fetched [sample_live])" by (simp add: sample_poll_env_def)
  have e: "live_session_eligible (pk_now ?env) sample_live" "pt_started_at (sample_dto ''u'' 5) = Some 5" "lv_started_at sample_live = Some 5"
    "lv_source_path sample_live = pt_source_path (sample_dto ''u'' 5)" "\<not> stored (ig_id ?ig) (pt_upstream_id (sample_dto ''u'' 5)) sample_poll_db"
    "\<not> stored (ig_id ?ig) (live_id sample_live) sample_poll_db" "pt_upstream_id (sample_dto ''u'' 5) \<noteq> live_id sample_live" by code_simp+
  have "pd_events sample_poll_db = []" by code_simp
  with live_play_stored_twice [OF r h c l refl e] show ?thesis by (auto simp: sample_object_def)
qed

end
