(* ===== verification/Tracearr.thy ===== *)
theory Tracearr
  imports Poller
begin

text \<open>
  The Tracearr plugin (\<open>plugins/tracearr/backend.py\<close>): the health check over its candidate paths, the
  paging of the history and the mapping of a row, with the pseudo-path that carries what is known of the
  media.  Parameters (\<open>tracearr_env\<close>): the HTTP client, \<open>str\<close> and \<open>int\<close> of values that are
  neither strings nor integers (\<open>int\<close> of a string included), \<open>fromisoformat\<close>, and the text of a
  date.
\<close>

section \<open>Values\<close>

datatype page_answer = PageFailed pyerr | Page pyval
datatype health_answer = NoAnswer string | Answer nat "pyval option"

record tracearr_env =
  te_page :: "nat \<Rightarrow> nat \<Rightarrow> string option \<Rightarrow> page_answer"
  te_health :: "string \<Rightarrow> health_answer"
  te_str :: "pyval \<Rightarrow> string"
  te_int :: "pyval \<Rightarrow> int option"
  te_iso :: "string \<Rightarrow> int option"
  te_date :: "int \<Rightarrow> string"

definition dash :: string where
  "dash = [CHR 0xE2, CHR 0x80, CHR 0x94]"

definition py_str :: "tracearr_env \<Rightarrow> pyval \<Rightarrow> string" where
  "py_str env v = (case v of PyStr s \<Rightarrow> s | PyInt n \<Rightarrow> str_int n | _ \<Rightarrow> te_str env v)"

text \<open>\<open>str(x or d)\<close>.\<close>

definition str_or :: "tracearr_env \<Rightarrow> pyval \<Rightarrow> string \<Rightarrow> string" where
  "str_or env v d = (if py_truthy v then py_str env v else d)"

definition py_int :: "tracearr_env \<Rightarrow> pyval \<Rightarrow> int result" where
  "py_int env v = (case v of
     PyInt n \<Rightarrow> Inr n
   | PyBool b \<Rightarrow> Inr (if b then 1 else 0)
   | _ \<Rightarrow> (case te_int env v of None \<Rightarrow> Inl ValueError | Some n \<Rightarrow> Inr n))"

definition opt_int :: "tracearr_env \<Rightarrow> pyval \<Rightarrow> int option" where
  "opt_int env v = (case v of PyNone \<Rightarrow> None | PyBool _ \<Rightarrow> None | PyInt n \<Rightarrow> Some n | _ \<Rightarrow> te_int env v)"

definition parse_iso8601 :: "tracearr_env \<Rightarrow> pyval \<Rightarrow> int option" where
  "parse_iso8601 env v = (case v of
     PyStr s \<Rightarrow> if s = [] then None else te_iso env (concat (map (\<lambda>c. if c = CHR ''Z'' then ''+00:00'' else [c]) s))
   | _ \<Rightarrow> None)"

text \<open>\<open>x or {}\<close>, and \<open>{}\<close> where it is no dict.\<close>

definition dict_or_empty :: "pyval \<Rightarrow> (string \<times> pyval) list" where
  "dict_or_empty v = (case v of PyDict d \<Rightarrow> d | _ \<Rightarrow> [])"

section \<open>A history row\<close>

text \<open>\<open>(x or "").lower()\<close>.\<close>

definition lower_or_empty :: "pyval \<Rightarrow> string result" where
  "lower_or_empty v = (if \<not> py_truthy v then Inr [] else case v of PyStr s \<Rightarrow> Inr (py_lower s) | _ \<Rightarrow> Inl AttributeError)"

definition decision_from :: "(string \<times> pyval) list \<Rightarrow> string result" where
  "decision_from item =
     bind_r (lower_or_empty (dict_get item ''videoDecision'')) (\<lambda>video.
     bind_r (lower_or_empty (dict_get item ''audioDecision'')) (\<lambda>audio.
       Inr (if ''transcode'' \<in> {video, audio} \<or> py_truthy (dict_get item ''isTranscode'') then ''transcode''
            else if ''copy'' \<in> {video, audio} then ''direct_stream''
            else ''direct_play'')))"

text \<open>\<open>f"{n:02d}"\<close>.\<close>

definition pad2 :: "int \<Rightarrow> string" where
  "pad2 n = (if 0 \<le> n \<and> n < 10 then CHR ''0'' # str_int n else str_int n)"

definition drop_slashes :: "string \<Rightarrow> string" where
  "drop_slashes s = dropWhile (\<lambda>c. c = CHR ''/'') s"

definition episode_suffix :: "tracearr_env \<Rightarrow> pyval \<Rightarrow> pyval \<Rightarrow> string result" where
  "episode_suffix env season episode =
     (if season = PyNone \<or> episode = PyNone then Inr []
      else bind_r (py_int env season) (\<lambda>s. bind_r (py_int env episode) (\<lambda>e. Inr (''/S'' @ pad2 s @ ''E'' @ pad2 e))))"

text \<open>\<open>"/".join(p for p in (artist, album, title) if p)\<close>.\<close>

definition track_leaf :: "pyval \<Rightarrow> pyval \<Rightarrow> string \<Rightarrow> string result" where
  "track_leaf artist album title =
     bind_r (map_r (\<lambda>v. case v of PyStr s \<Rightarrow> Inr s | _ \<Rightarrow> Inl TypeError) (filter py_truthy [artist, album, PyStr title]))
       (\<lambda>parts. Inr (join_with ''/'' parts))"

definition synth_source_path :: "tracearr_env \<Rightarrow> (string \<times> pyval) list \<Rightarrow> string result" where
  "synth_source_path env item =
     (let server_id = str_or env (dict_get item ''serverId'') ''tracearr'';
          media_type = str_or env (dict_get item ''mediaType'') ''unknown'';
          stripped = py_strip (str_or env (dict_get item ''mediaTitle'') ''untitled'');
          title = (if stripped = [] then ''untitled'' else stripped);
          series = dict_get item ''showTitle'' in
      bind_r
        (if media_type = ''episode'' \<and> py_truthy series
         then bind_r (episode_suffix env (dict_get item ''seasonNumber'') (dict_get item ''episodeNumber''))
           (\<lambda>suffix. Inr (py_str env series @ suffix @ '' '' @ dash @ '' '' @ title))
         else if media_type = ''track''
         then track_leaf (dict_get item ''artistName'') (dict_get item ''albumName'') title
         else Inr (case dict_get item ''year'' of
             PyInt n \<Rightarrow> title @ '' ('' @ str_int n @ '')''
           | PyBool b \<Rightarrow> title @ (if b then '' (1)'' else '' (0)'')
           | _ \<Rightarrow> title))
        (\<lambda>leaf. Inr (''tracearr://'' @ server_id @ ''/'' @ media_type @ ''/'' @ drop_slashes leaf)))"

text \<open>\<open>duration_ms\<close> in seconds; an infinite one has no integer.\<close>

definition duration_seconds :: "tracearr_env \<Rightarrow> pyval \<Rightarrow> int option result" where
  "duration_seconds env v = (case v of
     PyInt n \<Rightarrow> Inr (if n > 0 then Some (n div 1000) else None)
   | PyBool b \<Rightarrow> Inr (if b then Some 0 else None)
   | PyFloat (Fin r) \<Rightarrow> Inr (if r > 0 then Some \<lfloor>r / 1000\<rfloor> else None)
   | PyFloat PosInf \<Rightarrow> Inl ValueError
   | PyStr s \<Rightarrow> Inr (case te_int env v of None \<Rightarrow> None | Some n \<Rightarrow> if n div 1000 = 0 then None else Some (n div 1000))
   | _ \<Rightarrow> Inr None)"

definition reason_code_of :: "tracearr_env \<Rightarrow> pyval \<Rightarrow> string option" where
  "reason_code_of env info = (case dict_get (dict_or_empty info) ''reasons'' of
     PyList rs \<Rightarrow> (let s = py_take 128 (join_with '','' (map (py_str env) (filter py_truthy rs))) in if s = [] then None else Some s)
   | _ \<Rightarrow> None)"

definition str_if_given :: "tracearr_env \<Rightarrow> pyval \<Rightarrow> string option" where
  "str_if_given env v = (if v = PyNone then None else Some (py_str env v))"

definition map_tracearr_event :: "tracearr_env \<Rightarrow> pyval \<Rightarrow> playback_dto option result" where
  "map_tracearr_event env row = (case row of
     PyDict item \<Rightarrow>
       (case parse_iso8601 env (dict_get item ''startedAt'') of
          None \<Rightarrow> Inr None
        | Some started \<Rightarrow>
            if \<not> py_truthy (dict_get item ''id'') then Inr None
            else
              (let source = opt_int env (dict_get (dict_or_empty (dict_get item ''sourceVideoDetails'')) ''bitrate'');
                   target = opt_int env (dict_get (dict_or_empty (dict_get item ''streamVideoDetails'')) ''bitrate'');
                   device = str_or env (py_or (dict_get item ''player'') (py_or (dict_get item ''product'') (dict_get item ''device''))) [] in
               bind_r (duration_seconds env (dict_get item ''durationMs'')) (\<lambda>duration.
               bind_r (if source = None \<or> target = None then decision_from item else Inr []) (\<lambda>_.
               bind_r (synth_source_path env item) (\<lambda>path.
               bind_r (decision_from item) (\<lambda>decision.
                 Inr (Some
                   \<lparr>pt_upstream_id = py_str env (dict_get item ''id''), pt_source_path = path, pt_decision = decision,
                    pt_started_at = Some started, pt_device_kind = str_if_given env (dict_get item ''platform''),
                    pt_device_name = (if device = [] then None else Some device),
                    pt_reason_code = reason_code_of env (dict_get item ''transcodeInfo''),
                    pt_source_codec = str_if_given env (dict_get item ''sourceVideoCodec''),
                    pt_source_bitrate_kbps = (if source \<noteq> None then source
                      else if decision \<noteq> ''transcode'' then opt_int env (dict_get item ''bitrate'') else None),
                    pt_source_width = opt_int env (dict_get item ''sourceVideoWidth''),
                    pt_source_height = opt_int env (dict_get item ''sourceVideoHeight''), pt_source_container = None,
                    pt_target_codec = str_if_given env (dict_get item ''streamVideoCodec''),
                    pt_target_bitrate_kbps = (if target \<noteq> None then target
                      else if decision = ''transcode'' then opt_int env (dict_get item ''bitrate'') else None),
                    pt_completed_at = parse_iso8601 env (dict_get item ''stoppedAt''), pt_duration_s = duration,
                    pt_rating_key = None\<rparr>)))))))
   | _ \<Rightarrow> Inl AttributeError)"

section \<open>Paging\<close>

definition PAGE_SIZE_MAX :: int where "PAGE_SIZE_MAX = 100"
definition PAGE_SIZE_DEFAULT :: int where "PAGE_SIZE_DEFAULT = 100"
definition PAGE_ITER_CAP :: nat where "PAGE_ITER_CAP = 50"

definition total_of :: "pyval \<Rightarrow> int option" where
  "total_of meta = (case dict_get (dict_or_empty meta) ''total'' of PyInt n \<Rightarrow> Some n | PyBool b \<Rightarrow> Some (if b then 1 else 0) | _ \<Rightarrow> None)"

text \<open>One page: its rows, mapped, and whether it is the last.\<close>

definition read_page :: "tracearr_env \<Rightarrow> nat \<Rightarrow> nat \<Rightarrow> pyval \<Rightarrow> (playback_dto list \<times> bool) result" where
  "read_page env page psize v =
     (case (if py_truthy v then v else PyDict []) of
        PyDict payload \<Rightarrow>
          bind_r (each_of (dict_get payload ''data'')) (\<lambda>items.
          bind_r (map_r (map_tracearr_event env) items) (\<lambda>mapped.
            Inr (List.map_filter (\<lambda>d. d) mapped,
                 items = [] \<or> (case total_of (dict_get payload ''meta'') of None \<Rightarrow> False | Some t \<Rightarrow> int (page * psize) \<ge> t))))
      | _ \<Rightarrow> Inl AttributeError)"

text \<open>The loop over the pages; the first argument is how many may still be asked for.\<close>

fun fetch_pages :: "nat \<Rightarrow> tracearr_env \<Rightarrow> nat \<Rightarrow> string option \<Rightarrow> nat \<Rightarrow> playback_dto list result" where
  "fetch_pages 0 env psize start page = Inr []"
| "fetch_pages (Suc n) env psize start page =
     (case te_page env page psize start of
        PageFailed e \<Rightarrow> Inl e
      | Page v \<Rightarrow> bind_r (read_page env page psize v) (\<lambda>(rows, final).
          if final then Inr rows else bind_r (fetch_pages n env psize start (Suc page)) (\<lambda>more. Inr (rows @ more))))"

definition page_size :: "tracearr_env \<Rightarrow> integration_config \<Rightarrow> nat result" where
  "page_size env config =
     bind_r (py_int env (py_or (dict_get (icf_options config) ''page_size'') (PyInt PAGE_SIZE_DEFAULT)))
       (\<lambda>n. Inr (nat (max 1 (min PAGE_SIZE_MAX n))))"

definition tracearr_fetch :: "tracearr_env \<Rightarrow> integration_config \<Rightarrow> int option \<Rightarrow> playback_dto fetched" where
  "tracearr_fetch env config since =
     (case bind_r (page_size env config) (\<lambda>n. fetch_pages PAGE_ITER_CAP env n (map_option (te_date env) since) 1) of
        Inl e \<Rightarrow> FetchFailed e
      | Inr ds \<Rightarrow> Fetched ds)"

section \<open>Health\<close>

definition HEALTH_PATHS :: "string list" where
  "HEALTH_PATHS = [''/health'', ''/api/v1/public/health'', ''/api/health'', ''/api/v1/health'', ''/status'']"

text \<open>The first path that answers with anything but 404, or the last error.\<close>

fun probe_paths :: "tracearr_env \<Rightarrow> string option \<Rightarrow> string list \<Rightarrow> string option + (string \<times> nat \<times> pyval option)" where
  "probe_paths env err [] = Inl err"
| "probe_paths env err (p # ps) =
     (case te_health env p of
        NoAnswer e \<Rightarrow> probe_paths env (Some (p @ '': '' @ e)) ps
      | Answer code body \<Rightarrow>
          if code = 404 then probe_paths env (Some (p @ '': HTTP 404 (not this build'' @ [CHR 0x27] @ ''s '' @ ''health endpoint)'')) ps
          else Inr (p, code, body))"

definition tracearr_health :: "tracearr_env \<Rightarrow> health_report" where
  "tracearr_health env =
     (case probe_paths env None HEALTH_PATHS of
        Inl err \<Rightarrow> \<lparr>hr_status = ''error'', hr_detail = Some (''Tracearr healthcheck failed: none of the '' @ ''known health paths responded (''
            @ join_with '', '' HEALTH_PATHS @ ''). Last error: '' @ (case err of None \<Rightarrow> ''no detail'' | Some e \<Rightarrow> e))\<rparr>
      | Inr (p, code, body) \<Rightarrow>
          if code = 401
          then \<lparr>hr_status = ''degraded'', hr_detail = Some (''Tracearr '' @ p @ '' returned HTTP 401 '' @ dash @ '' ''
                  @ ''the configured API key was rejected. '' @ ''Generate a token (Settings > General) and '' @ ''verify it starts with ''
                  @ [CHR 0x27] @ ''trr_pub_'' @ [CHR 0x27] @ ''.'')\<rparr>
          else if code \<ge> 400
          then \<lparr>hr_status = ''error'', hr_detail = Some (''Tracearr '' @ p @ '' returned HTTP '' @ str_nat code)\<rparr>
          else (let d = (case body of Some v \<Rightarrow> dict_or_empty v | None \<Rightarrow> []);
                    status = py_lower (str_or env (dict_get d ''status'') []); version = dict_get d ''version'' in
                if status \<noteq> [] \<and> status \<notin> {''ok'', ''healthy'', ''up''}
                then \<lparr>hr_status = ''degraded'', hr_detail = Some (''Tracearr health: '' @ status)\<rparr>
                else \<lparr>hr_status = ''ok'', hr_detail = Some (if py_truthy version
                    then ''Tracearr '' @ py_str env version @ '' ('' @ p @ '')'' else ''Tracearr ('' @ p @ '')'')\<rparr>))"

end
