(* ===== verification/TracearrReconciler.thy ===== *)
theory TracearrReconciler
  imports Tracearr TagSync SourceWhitelist
begin

text \<open>
  The reconciler of Tracearr events (\<open>app/services/playback/tracearr_reconciler.py\<close>): it parses the
  pseudo-paths of the plugin, pairs Tracearr events with plays other sources saw, and matches the rest
  against file names.  The session does not flush before a query (\<open>autoflush=False\<close>), so a query
  filters on the rows as stored while the objects carry the changes made so far; both are kept, as pairs.
  Times are microseconds.  Parameters (\<open>reconcile_env\<close>): the clock, when the time budget is used up, the
  dialect and difflib's ratio.  Scores are exact; floating point orders names of any realistic length alike.
\<close>

section \<open>The pseudo-path\<close>

record parsed_identity =
  pi_media_type :: string
  pi_server_id :: "string option"
  pi_title :: "string option"
  pi_year :: "nat option"
  pi_show :: "string option"
  pi_season :: "nat option"
  pi_episode :: "nat option"

definition or_none :: "string \<Rightarrow> string option" where
  "or_none s = (if s = [] then None else Some s)"

definition newline_free :: "string \<Rightarrow> bool" where
  "newline_free s = (CHR 0x0A \<notin> set s)"

text \<open>\<open>^(?P<title>.+?)\s+\((?P<year>\d{4})\)$\<close> on text without white space at its ends.\<close>

definition movie_leaf :: "string \<Rightarrow> (string \<times> nat) option" where
  "movie_leaf leaf =
     (let n = length leaf - 6; head = take n leaf; tail = drop n leaf; digits = take 4 (drop 1 tail);
          title = rev (dropWhile is_space (rev head)) in
      if length leaf < 6 \<or> tail \<noteq> ''('' @ digits @ '')'' \<or> \<not> list_all is_digit digits then None
      else if title = [] \<or> title = head \<or> \<not> newline_free title then None
      else Some (title, digits_value digits))"

text \<open>\<open>\s+\<dash>\s+(?P<title>.+)$\<close>.\<close>

definition dash_title :: "string \<Rightarrow> string option" where
  "dash_title s =
     (let r = dropWhile is_space s; t = drop 3 r; title = dropWhile is_space t in
      if r = s \<or> \<not> prefix dash r \<or> title = t \<or> title = [] \<or> \<not> newline_free title then None else Some title)"

text \<open>\<open>/S(?P<season>\d{1,3})E(?P<episode>\d{1,4})\s+\<dash>\s+(?P<title>.+)$\<close>.\<close>

definition numbered_title :: "string \<Rightarrow> (nat \<times> nat \<times> string) option" where
  "numbered_title s =
     (if \<not> prefix ''/S'' s then None
      else let season = takeWhile is_digit (drop 2 s); r = dropWhile is_digit (drop 2 s);
               episode = takeWhile is_digit (drop 1 r); u = dropWhile is_digit (drop 1 r) in
           if season = [] \<or> length season > 3 \<or> \<not> prefix ''E'' r \<or> episode = [] \<or> length episode > 4 then None
           else map_option (\<lambda>t. (digits_value season, digits_value episode, t)) (dash_title u))"

text \<open>The shortest show (\<open>.+?\<close>) whose rest matches.\<close>

definition shortest_show :: "(string \<Rightarrow> 'a option) \<Rightarrow> string \<Rightarrow> (string \<times> 'a) option" where
  "shortest_show rest leaf =
     (case List.map_filter (\<lambda>i. if newline_free (take i leaf) then map_option (\<lambda>x. (take i leaf, x)) (rest (drop i leaf)) else None)
        [1..<Suc (length leaf)] of [] \<Rightarrow> None | m # _ \<Rightarrow> Some m)"

definition TRACEARR_PREFIX :: string where
  "TRACEARR_PREFIX = ''tracearr://''"

text \<open>\<open>remainder.split("/", 2)\<close>, where it has three parts.\<close>

definition split_twice :: "string \<Rightarrow> (string \<times> string \<times> string) option" where
  "split_twice s =
     (let a = takeWhile (\<lambda>c. c \<noteq> CHR ''/'') s; r = dropWhile (\<lambda>c. c \<noteq> CHR ''/'') s;
          b = takeWhile (\<lambda>c. c \<noteq> CHR ''/'') (tl r); u = dropWhile (\<lambda>c. c \<noteq> CHR ''/'') (tl r) in
      if r = [] \<or> u = [] then None else Some (a, b, tl u))"

definition bare_identity :: "string \<Rightarrow> string \<Rightarrow> string \<Rightarrow> parsed_identity" where
  "bare_identity media_type server title =
     \<lparr>pi_media_type = media_type, pi_server_id = or_none server, pi_title = or_none title, pi_year = None, pi_show = None,
      pi_season = None, pi_episode = None\<rparr>"

definition movie_identity :: "string \<Rightarrow> string \<Rightarrow> parsed_identity" where
  "movie_identity server leaf = (case movie_leaf leaf of
     Some (title, year) \<Rightarrow> (bare_identity ''movie'' server (py_strip title))\<lparr>pi_year := Some year\<rparr>
   | None \<Rightarrow> bare_identity ''movie'' server leaf)"

definition episode_identity :: "string \<Rightarrow> string \<Rightarrow> parsed_identity" where
  "episode_identity server leaf = (case shortest_show numbered_title leaf of
     Some (series, season, episode, title) \<Rightarrow> (bare_identity ''episode'' server (py_strip title))
       \<lparr>pi_show := or_none (py_strip series), pi_season := Some season, pi_episode := Some episode\<rparr>
   | None \<Rightarrow> (case shortest_show dash_title leaf of
       Some (series, title) \<Rightarrow> (bare_identity ''episode'' server (py_strip title))\<lparr>pi_show := or_none (py_strip series)\<rparr>
     | None \<Rightarrow> bare_identity ''episode'' server leaf))"

definition parse_tracearr_pseudo_path :: "string \<Rightarrow> parsed_identity option" where
  "parse_tracearr_pseudo_path path =
     (if \<not> prefix TRACEARR_PREFIX path then None
      else case split_twice (drop (length TRACEARR_PREFIX) path) of
        None \<Rightarrow> None
      | Some (server, media_type, raw) \<Rightarrow>
          (let leaf = py_strip raw in
           if leaf = [] then None
           else Some (if media_type = ''movie'' then movie_identity server leaf
             else if media_type = ''episode'' then episode_identity server leaf
             else bare_identity (if media_type = [] then ''unknown'' else media_type) server leaf)))"

section \<open>Scores\<close>

record reconcile_env =
  rc_now :: int
  rc_time_up :: "nat \<Rightarrow> bool"
  rc_dialect :: dialect
  rc_ratio :: "string \<Rightarrow> string \<Rightarrow> rat"

definition normalize :: "string \<Rightarrow> string" where
  "normalize text = filter (\<lambda>c. is_digit c \<or> (97 \<le> (of_char c :: nat) \<and> (of_char c :: nat) \<le> 122)) (py_lower text)"

text \<open>\<open>s.replace(p, "")\<close> for a nonempty \<open>p\<close>.\<close>

fun delete_all :: "string \<Rightarrow> string \<Rightarrow> string" where
  "delete_all p [] = []"
| "delete_all p (c # cs) = (if p \<noteq> [] \<and> prefix p (c # cs) then delete_all p (drop (length p - 1) cs) else c # delete_all p cs)"

definition given_nat :: "nat option \<Rightarrow> bool" where
  "given_nat n = (n \<noteq> None \<and> n \<noteq> Some 0)"

definition pad2n :: "nat \<Rightarrow> string" where
  "pad2n n = pad2 (int n)"

definition words :: "string option list \<Rightarrow> string list" where
  "words xs = map the (filter given xs)"

definition build_ilike_patterns :: "parsed_identity \<Rightarrow> string list" where
  "build_ilike_patterns p =
     (if pi_media_type p = ''movie'' \<and> given (pi_title p)
      then (let t = py_strip (the (pi_title p)) in (''%'' @ t @ ''%'')
        # (if given_nat (pi_year p) then [''%'' @ t @ ''%'' @ str_nat (the (pi_year p)) @ ''%''] else []))
      else if pi_media_type p = ''episode''
      then (case (pi_season p, pi_episode p) of
          (Some s, Some e) \<Rightarrow> (let se = ''S'' @ pad2n s @ ''E'' @ pad2n e in
            (if given (pi_show p) then [''%'' @ the (pi_show p) @ ''%'' @ se @ ''%''] else []) @ [''%'' @ se @ ''%''])
        | _ \<Rightarrow> if given (pi_show p) \<and> given (pi_title p) then [''%'' @ the (pi_show p) @ ''%'' @ the (pi_title p) @ ''%''] else [])
      else [])"

definition target_of :: "parsed_identity \<Rightarrow> string" where
  "target_of p =
     normalize (join_with '' '' (if pi_media_type p = ''episode'' then words [pi_show p, pi_title p]
       else words [pi_title p, if given_nat (pi_year p) then Some (str_nat (the (pi_year p))) else None]))"

definition compare_names :: "reconcile_env \<Rightarrow> string \<Rightarrow> string \<Rightarrow> rat" where
  "compare_names env target name =
     (if target = [] then 0
      else if substr_in target name
      then min 1 (9/10 + 1/10 * (of_nat (length target) / of_nat (max (length name) 1)))
      else rc_ratio env target name)"

definition score_filename :: "reconcile_env \<Rightarrow> parsed_identity \<Rightarrow> string \<Rightarrow> rat" where
  "score_filename env p filename =
     (case (pi_media_type p = ''episode'', pi_season p, pi_episode p) of
        (True, Some s, Some e) \<Rightarrow>
          (let se = ''s'' @ pad2n s @ ''e'' @ pad2n e; name = normalize filename in
           if \<not> substr_in se name then 0 else compare_names env (target_of p) (delete_all se name))
      | _ \<Rightarrow> compare_names env (target_of p) (normalize filename))"

definition TITLE_MATCH_THRESHOLD :: rat where "TITLE_MATCH_THRESHOLD = 17/20"

section \<open>Plays other sources saw\<close>

definition DURATION_FALLBACK :: int where "DURATION_FALLBACK = 7200000000"
definition BACKWARD_BUFFER :: int where "BACKWARD_BUFFER = 300000000"
definition FORWARD_TOLERANCE :: int where "FORWARD_TOLERANCE = 60000000"
definition RECONCILE_WINDOW_DAYS :: int where "RECONCILE_WINDOW_DAYS = 30"
definition RECONCILE_BATCH_LIMIT :: nat where "RECONCILE_BATCH_LIMIT = 200"

record play_source =
  src_id :: string
  src_started_at :: int
  src_media :: string
  src_duration :: "int option"
  src_filename :: string

definition kind_of :: "poll_db \<Rightarrow> string \<Rightarrow> string option" where
  "kind_of db i = map_option ig_kind (table_find ig_id i (st_integrations (pd_store db)))"

definition is_tracearr :: "poll_db \<Rightarrow> stored_event \<Rightarrow> bool" where
  "is_tracearr db e = (kind_of db (pe_integration_id e) = Some ''tracearr'')"

definition play_source_of :: "poll_db \<Rightarrow> int \<Rightarrow> string \<Rightarrow> string \<Rightarrow> int \<Rightarrow> string option \<Rightarrow> int option \<Rightarrow> play_source option" where
  "play_source_of db since i iid started media duration =
     (case (media, kind_of db iid) of
        (Some m, Some k) \<Rightarrow>
          (case table_find mf_id m (st_media (pd_store db)) of
             None \<Rightarrow> None
           | Some f \<Rightarrow>
               if k \<noteq> ''tracearr'' \<and> started \<ge> since \<and> mf_category f = ''media''
               then Some \<lparr>src_id = i, src_started_at = started, src_media = m, src_duration = duration, src_filename = mf_filename f\<rparr>
               else None)
      | _ \<Rightarrow> None)"

text \<open>A session has no duration column, so \<open>getattr\<close> gives its default.\<close>

definition play_sources :: "poll_db \<Rightarrow> int \<Rightarrow> play_source list" where
  "play_sources db since =
     List.map_filter (\<lambda>e. play_source_of db since (se_id e) (pe_integration_id e) (pe_started_at e) (pe_media_file_id e) (pe_duration_s e)) (pd_events db)
     @ List.map_filter (\<lambda>s. if ps_state s = ''stopped''
         then play_source_of db since (tk_id s) (ps_integration_id s) (ps_started_at s) (si_media_file_id (ps_info s)) None else None) (pd_sessions db)"

definition in_window :: "play_source \<Rightarrow> int \<Rightarrow> bool" where
  "in_window s t =
     (let duration = (case src_duration s of None \<Rightarrow> DURATION_FALLBACK | Some d \<Rightarrow> if d = 0 then DURATION_FALLBACK else d * 1000000);
          backward = min (max duration 60000000) DURATION_FALLBACK + BACKWARD_BUFFER in
      src_started_at s - backward \<le> t \<and> t \<le> src_started_at s + FORWARD_TOLERANCE)"

text \<open>A row as stored, and the object of the session with its unwritten changes.\<close>

type_synonym tracked = "stored_event \<times> stored_event"

definition open_in_window :: "poll_db \<Rightarrow> play_source \<Rightarrow> stored_event \<Rightarrow> bool" where
  "open_in_window db s b = (is_tracearr db b \<and> pe_reconciled_with_session_id b = None \<and> in_window s (pe_started_at b))"

definition same_title :: "reconcile_env \<Rightarrow> play_source \<Rightarrow> stored_event \<Rightarrow> bool" where
  "same_title env s c = (case parse_tracearr_pseudo_path (pe_source_path c) of
     None \<Rightarrow> False | Some p \<Rightarrow> score_filename env p (src_filename s) \<ge> TITLE_MATCH_THRESHOLD)"

definition shadow_row :: "reconcile_env \<Rightarrow> poll_db \<Rightarrow> play_source \<Rightarrow> tracked \<Rightarrow> tracked option" where
  "shadow_row env db s r =
     (let (b, c) = r in
      if \<not> open_in_window db s b then None
      else if pe_media_file_id b = Some (src_media s) then Some (b, c\<lparr>pe_reconciled_with_session_id := Some (src_id s)\<rparr>)
      else if pe_media_file_id b = None \<and> same_title env s c
      then Some (b, c\<lparr>pe_media_file_id := Some (src_media s), pe_reconciled_with_session_id := Some (src_id s)\<rparr>)
      else None)"

definition shadow_step :: "reconcile_env \<Rightarrow> poll_db \<Rightarrow> play_source \<Rightarrow> nat \<times> tracked list \<Rightarrow> nat \<times> tracked list" where
  "shadow_step env db s a =
     (fst a + length (filter (\<lambda>r. shadow_row env db s r \<noteq> None) (snd a)),
      map (\<lambda>r. case shadow_row env db s r of None \<Rightarrow> r | Some q \<Rightarrow> q) (snd a))"

definition shadow_tracearr :: "reconcile_env \<Rightarrow> poll_db \<Rightarrow> int \<Rightarrow> nat \<times> tracked list" where
  "shadow_tracearr env db since =
     fold (shadow_step env db) (play_sources db since) (0, map (\<lambda>e. (e, e)) (pd_events db))"

section \<open>File names\<close>

definition ilike :: "dialect \<Rightarrow> string \<Rightarrow> string \<Rightarrow> bool" where
  "ilike d pattern s = sql_like d (py_lower pattern) (py_lower s)"

fun best_match :: "(string \<Rightarrow> rat) \<Rightarrow> string option \<times> rat \<Rightarrow> media_file list \<Rightarrow> string option \<times> rat" where
  "best_match score best [] = best"
| "best_match score best (f # fs) =
     best_match score (if score (mf_filename f) > snd best then (Some (mf_id f), score (mf_filename f)) else best) fs"

definition try_title_heuristic :: "reconcile_env \<Rightarrow> media_file list \<Rightarrow> parsed_identity \<Rightarrow> string option" where
  "try_title_heuristic env files p =
     (let patterns = build_ilike_patterns p;
          found = take 200 (filter (\<lambda>f. list_ex (\<lambda>q. ilike (rc_dialect env) q (mf_filename f)) patterns \<and> mf_category f = ''media'') files);
          (best, score) = best_match (score_filename env p) (None, 0) found in
      if patterns = [] then None else if score \<ge> TITLE_MATCH_THRESHOLD then best else None)"

section \<open>A run\<close>

record reconcile_outcome =
  ro_examined :: nat
  ro_matched_cross_source :: nat
  ro_matched_title_heuristic :: nat
  ro_unmatched :: nat

definition unresolved :: "poll_db \<Rightarrow> int \<Rightarrow> stored_event \<Rightarrow> bool" where
  "unresolved db since b = (is_tracearr db b \<and> pe_media_file_id b = None \<and> pe_started_at b \<ge> since)"

definition batch :: "poll_db \<Rightarrow> int \<Rightarrow> stored_event list" where
  "batch db since = take RECONCILE_BATCH_LIMIT (sort_key (\<lambda>b. - pe_started_at b) (filter (unresolved db since) (pd_events db)))"

definition title_match :: "reconcile_env \<Rightarrow> poll_db \<Rightarrow> stored_event \<Rightarrow> string option" where
  "title_match env db e = (case parse_tracearr_pseudo_path (pe_source_path e) of
     None \<Rightarrow> None
   | Some p \<Rightarrow> if pi_media_type p \<notin> {''movie'', ''episode''} then None else try_title_heuristic env (st_media (pd_store db)) p)"

definition bind_media :: "string \<Rightarrow> string \<Rightarrow> tracked list \<Rightarrow> tracked list" where
  "bind_media i m rows = map (\<lambda>(b, c). if se_id b = i then (b, c\<lparr>pe_media_file_id := Some m\<rparr>) else (b, c)) rows"

fun match_rows :: "reconcile_env \<Rightarrow> poll_db \<Rightarrow> nat \<Rightarrow> stored_event list \<Rightarrow> reconcile_outcome \<times> tracked list \<Rightarrow> reconcile_outcome \<times> tracked list" where
  "match_rows env db k [] a = a"
| "match_rows env db k (e # es) a =
     (if rc_time_up env k then a
      else match_rows env db (Suc k) es (case title_match env db e of
          None \<Rightarrow> ((fst a)\<lparr>ro_unmatched := Suc (ro_unmatched (fst a))\<rparr>, snd a)
        | Some m \<Rightarrow> ((fst a)\<lparr>ro_matched_title_heuristic := Suc (ro_matched_title_heuristic (fst a))\<rparr>, bind_media (se_id e) m (snd a))))"

text \<open>Without unresolved rows the run returns before its commit, and what was paired is not written.\<close>

definition reconcile_tracearr :: "reconcile_env \<Rightarrow> poll_db \<Rightarrow> reconcile_outcome \<times> poll_db" where
  "reconcile_tracearr env db =
     (let since = rc_now env - days RECONCILE_WINDOW_DAYS; (n, rows) = shadow_tracearr env db since; todo = batch db since;
          out = \<lparr>ro_examined = length todo, ro_matched_cross_source = n, ro_matched_title_heuristic = 0, ro_unmatched = 0\<rparr> in
      if todo = [] then (out, db)
      else let (done, rows1) = match_rows env db 0 todo (out, rows) in (done, db\<lparr>pd_events := map snd rows1\<rparr>))"

text \<open>The tick of the worker: the polls, and the reconciler when there was anything to poll.\<close>

definition poll_playback :: "poll_env \<Rightarrow> reconcile_env \<Rightarrow> poll_db \<Rightarrow> (poll_result list \<times> reconcile_outcome option) \<times> poll_db" where
  "poll_playback penv env db =
     (let (rs, db1) = poll_integrations penv db in
      if rs = [] then ((rs, None), db1)
      else let (out, db2) = reconcile_tracearr env db1 in ((rs, Some out), db2))"

end
