(* ===== verification/TracearrGuarantees.thy ===== *)
theory TracearrGuarantees
  imports TracearrReconciler RuleGuarantees
begin

text \<open>
  What the Tracearr plugin and its reconciler guarantee: the pseudo-path carries its identity, the
  reconciler only ever binds open Tracearr events to media files; and where it falls short of its comments:
  pairs that are not written, pairs that a weaker match overrides, and a backlog that blocks itself.
\<close>

section \<open>Numbers and white space\<close>

lemma digits_snoc: "digits_value (s @ [c]) = 10 * digits_value s + (of_char c - 48)"
  by (simp add: digits_value_def)

lemma digit_char: "k < 10 \<Longrightarrow> is_digit (char_of (48 + k)) \<and> (of_char (char_of (48 + k)) :: nat) = 48 + k" for k :: nat
  by (simp add: is_digit_def)

lemma str_nat_digits: "list_all is_digit (str_nat n) \<and> digits_value (str_nat n) = n"
proof (induction n rule: str_nat.induct)
  case (1 n)
  show ?case
  proof (cases "n < 10")
    case True
    then show ?thesis using digit_char [of n] by (subst (1 2) str_nat.simps) (simp add: digits_value_def)
  next
    case False
    then show ?thesis using 1 digit_char [of "n mod 10"] by (subst (1 2) str_nat.simps) (simp add: digits_snoc)
  qed
qed

lemma str_nat_length: "n < 10 ^ Suc k \<Longrightarrow> length (str_nat n) \<le> Suc k"
proof (induction k arbitrary: n)
  case 0
  then show ?case by (subst str_nat.simps) simp
next
  case (Suc k)
  then have "n div 10 < 10 ^ Suc k" by simp
  with Suc.IH [of "n div 10"] show ?case by (subst str_nat.simps) simp
qed

lemma str_nat_nonempty: "str_nat n \<noteq> []"
  by (subst str_nat.simps) simp

lemma pad2_digits:
  assumes "0 \<le> n"
  shows "list_all is_digit (pad2 n) \<and> digits_value (pad2 n) = nat n \<and> pad2 n \<noteq> []"
  using assms str_nat_digits [of "nat n"] str_nat_nonempty [of "nat n"]
  by (auto simp: pad2_def str_int_def digits_value_def is_digit_def)

lemma pad2_length:
  assumes "0 \<le> n" "n < 10 ^ Suc (Suc k)"
  shows "length (pad2 n) \<le> Suc (Suc k)"
proof (cases "n < 10")
  case True
  then have "length (str_nat (nat n)) \<le> 1" using assms(1) str_nat_length [of "nat n" 0] by simp
  then show ?thesis using True assms(1) by (simp add: pad2_def str_int_def)
next
  case False
  have "nat n < nat (10 ^ Suc (Suc k))" using assms by (subst nat_less_eq_zless) simp_all
  then have "nat n < 10 ^ Suc (Suc k)" by (simp add: nat_power_eq nat_mult_distrib)
  then show ?thesis using False assms(1) str_nat_length [of "nat n" "Suc k"] by (simp add: pad2_def str_int_def)
qed

definition tidy :: "string \<Rightarrow> bool" where
  "tidy s = (s \<noteq> [] \<and> \<not> is_space (hd s) \<and> \<not> is_space (last s) \<and> newline_free s)"

lemma drop_spaces: "s \<noteq> [] \<Longrightarrow> \<not> is_space (hd s) \<Longrightarrow> dropWhile is_space s = s"
  by (cases s) simp_all

lemma strip_id: "s \<noteq> [] \<Longrightarrow> \<not> is_space (hd s) \<Longrightarrow> \<not> is_space (last s) \<Longrightarrow> py_strip s = s"
  using drop_spaces [of s] drop_spaces [of "rev s"] by (simp add: py_strip_def hd_rev)

lemma tidy_strip: "tidy s \<Longrightarrow> py_strip s = s"
  by (simp add: tidy_def strip_id)

lemma space_char [simp]: "is_space CHR '' ''"
  by (simp add: is_space_def)

section \<open>The pseudo-path carries its identity\<close>

lemma dash_title_of: "tidy t \<Longrightarrow> dash_title ('' '' @ dash @ '' '' @ t) = Some t"
proof -
  assume t: "tidy t"
  have d: "dropWhile is_space ('' '' @ dash @ '' '' @ t) = dash @ '' '' @ t" by (simp add: dash_def is_space_def)
  have "dropWhile is_space ('' '' @ t) = t" using t by (simp add: drop_spaces tidy_def)
  then show ?thesis using t unfolding dash_title_def Let_def d
    by (simp add: dash_def tidy_def prefix_def)
qed

lemma take_digits:
  "list_all is_digit ds \<Longrightarrow> r \<noteq> [] \<Longrightarrow> \<not> is_digit (hd r) \<Longrightarrow> takeWhile is_digit (ds @ r) = ds \<and> dropWhile is_digit (ds @ r) = r"
  by (induction ds) (auto simp: neq_Nil_conv)

lemma numbered_title_of:
  assumes "tidy t" "0 \<le> s" "s < 1000" "0 \<le> e" "e < 10000"
  shows "numbered_title (''/S'' @ pad2 s @ ''E'' @ pad2 e @ '' '' @ dash @ '' '' @ t) = Some (nat s, nat e, t)"
proof -
  let ?u = "'' '' @ dash @ '' '' @ t"
  have s: "takeWhile is_digit (pad2 s @ ''E'' @ pad2 e @ ?u) = pad2 s" "dropWhile is_digit (pad2 s @ ''E'' @ pad2 e @ ?u) = ''E'' @ pad2 e @ ?u"
    using take_digits [of "pad2 s" "''E'' @ pad2 e @ ?u"] pad2_digits [OF assms(2)] by (simp_all add: is_digit_def)
  have e: "takeWhile is_digit (pad2 e @ ?u) = pad2 e" "dropWhile is_digit (pad2 e @ ?u) = ?u"
    using take_digits [of "pad2 e" ?u] pad2_digits [OF assms(4)] by (simp_all add: is_digit_def)
  have l: "length (pad2 s) \<le> 3" "length (pad2 e) \<le> 4"
    using pad2_length [of s 1] pad2_length [of e 2] assms by simp_all
  have d: "drop 2 (''/S'' @ pad2 s @ ''E'' @ pad2 e @ ?u) = pad2 s @ ''E'' @ pad2 e @ ?u" by simp
  have d1: "drop 1 (''E'' @ pad2 e @ ?u) = pad2 e @ ?u" by simp
  have p: "prefix ''/S'' (''/S'' @ pad2 s @ ''E'' @ pad2 e @ ?u)" "prefix ''E'' (''E'' @ pad2 e @ ?u)" by simp_all
  show ?thesis unfolding numbered_title_def Let_def d s d1 e dash_title_of [OF assms(1)]
    using p l pad2_digits [OF assms(2)] pad2_digits [OF assms(4)] by simp
qed

lemma shortest_show_at:
  assumes "w \<noteq> []" "newline_free w" "rest r = Some x" "\<And>i. 0 < i \<Longrightarrow> i < length w \<Longrightarrow> rest (drop i w @ r) = None"
  shows "shortest_show rest (w @ r) = Some (w, x)"
proof -
  let ?f = "\<lambda>i. if newline_free (take i (w @ r)) then map_option (\<lambda>x. (take i (w @ r), x)) (rest (drop i (w @ r))) else None"
  have "[1..<Suc (length (w @ r))] = [1..<length w] @ length w # [Suc (length w)..<Suc (length (w @ r))]"
  proof -
    have "[1..<length w + Suc (length r)] = [1..<length w] @ [length w..<length w + Suc (length r)]"
      using assms(1) by (intro upt_add_eq_append) (simp add: Suc_leI)
    moreover have "[length w..<length w + Suc (length r)] = length w # [Suc (length w)..<length w + Suc (length r)]"
      by (rule upt_conv_Cons) simp
    ultimately show ?thesis by simp
  qed
  moreover have "List.map_filter ?f [1..<length w] = []"
    using assms(4) by (auto simp: List.map_filter_def filter_empty_conv)
  moreover have "?f (length w) = Some (w, x)" using assms(2,3) by simp
  ultimately have "List.map_filter ?f [1..<Suc (length (w @ r))] = (w, x) # List.map_filter ?f [Suc (length w)..<Suc (length (w @ r))]"
    by (simp add: List.map_filter_def)
  then show ?thesis by (simp add: shortest_show_def)
qed

lemma split_twice_of:
  assumes "CHR ''/'' \<notin> set a" "CHR ''/'' \<notin> set b"
  shows "split_twice (a @ ''/'' @ b @ ''/'' @ u) = Some (a, b, u)"
proof -
  have "takeWhile (\<lambda>c. c \<noteq> CHR ''/'') (x @ CHR ''/'' # y) = x \<and> dropWhile (\<lambda>c. c \<noteq> CHR ''/'') (x @ CHR ''/'' # y) = CHR ''/'' # y"
    if "CHR ''/'' \<notin> set x" for x y :: string using that by (induction x) auto
  from this [OF assms(1), of "b @ CHR ''/'' # u"] this [OF assms(2), of u] show ?thesis by (simp add: split_twice_def)
qed

text \<open>C38. The pseudo-path of an episode is a faithful encoding: the reconciler reads back from it the server, show,
  season, episode and title the plugin wrote into it, as long as names are free of line breaks and outer
  blanks and the show has no slash.\<close>

theorem episode_path_roundtrip:
  assumes "dict_get item ''serverId'' = PyStr sv" "sv \<noteq> []" "CHR ''/'' \<notin> set sv" and "dict_get item ''mediaType'' = PyStr ''episode''"
    and "dict_get item ''mediaTitle'' = PyStr t" "tidy t" and "dict_get item ''showTitle'' = PyStr w" "tidy w" "CHR ''/'' \<notin> set w"
    and "dict_get item ''seasonNumber'' = PyInt s" "0 \<le> s" "s < 1000" and "dict_get item ''episodeNumber'' = PyInt e" "0 \<le> e" "e < 10000"
  shows "\<exists>path. synth_source_path env item = Inr path \<and> parse_tracearr_pseudo_path path = Some
    \<lparr>pi_media_type = ''episode'', pi_server_id = Some sv, pi_title = Some t, pi_year = None, pi_show = Some w,
     pi_season = Some (nat s), pi_episode = Some (nat e)\<rparr>"
proof -
  let ?r = "''/S'' @ pad2 s @ ''E'' @ pad2 e @ '' '' @ dash @ '' '' @ t"
  have "w \<noteq> []" "t \<noteq> []" "newline_free w" using assms(6,8) by (auto simp: tidy_def)
  moreover have "hd w \<noteq> CHR ''/''" using \<open>w \<noteq> []\<close> assms(9) by (metis hd_in_set)
  ultimately have w: "w \<noteq> []" "t \<noteq> []" "newline_free w" "hd w \<noteq> CHR ''/''" by simp_all
  have ds: "drop_slashes (w @ ?r) = w @ ?r" using w by (cases w) (simp_all add: drop_slashes_def)
  have synth: "synth_source_path env item = Inr (''tracearr://'' @ sv @ ''/'' @ ''episode'' @ ''/'' @ (w @ ?r))"
    using assms w ds by (simp add: synth_source_path_def Tracearr.str_or_def py_str_def episode_suffix_def py_int_def tidy_strip)
  have strip: "py_strip (w @ ?r) = w @ ?r" using w assms(6,8) by (intro strip_id) (auto simp: tidy_def)
  have none: "numbered_title (drop i w @ ?r) = None" if "0 < i" "i < length w" for i
  proof -
    have "hd (drop i w) \<in> set w" using that by (simp add: hd_drop_conv_nth)
    then have "hd (drop i w) \<noteq> CHR ''/''" using assms(9) by metis
    then have "\<not> prefix ''/S'' (drop i w @ ?r)" using that by (cases "drop i w") (auto simp: prefix_def)
    then show ?thesis by (simp add: numbered_title_def)
  qed
  have show_: "shortest_show numbered_title (w @ ?r) = Some (w, nat s, nat e, t)"
    using shortest_show_at [OF w(1,3) numbered_title_of [OF assms(6,11,12,14,15)] none] by simp
  have "parse_tracearr_pseudo_path (''tracearr://'' @ sv @ ''/'' @ ''episode'' @ ''/'' @ (w @ ?r)) = Some (episode_identity sv (w @ ?r))"
    using split_twice_of [OF assms(3), of "''episode''" "w @ ?r"] w(1) strip
    by (simp add: parse_tracearr_pseudo_path_def TRACEARR_PREFIX_def Let_def)
  moreover have "episode_identity sv (w @ ?r) = \<lparr>pi_media_type = ''episode'', pi_server_id = Some sv, pi_title = Some t, pi_year = None,
     pi_show = Some w, pi_season = Some (nat s), pi_episode = Some (nat e)\<rparr>"
    unfolding episode_identity_def show_ using assms(2,6,8) w by (simp add: bare_identity_def or_none_def tidy_strip)
  ultimately show ?thesis using synth by simp
qed

text \<open>The same holds of a movie with a year of four digits.\<close>

theorem movie_path_roundtrip:
  assumes "dict_get item ''serverId'' = PyStr sv" "sv \<noteq> []" "CHR ''/'' \<notin> set sv" and "dict_get item ''mediaType'' = PyStr ''movie''"
    and "dict_get item ''mediaTitle'' = PyStr t" "tidy t" "hd t \<noteq> CHR ''/''" and "dict_get item ''year'' = PyInt y" "1000 \<le> y" "y < 10000"
  shows "\<exists>path. synth_source_path env item = Inr path \<and> parse_tracearr_pseudo_path path = Some
    \<lparr>pi_media_type = ''movie'', pi_server_id = Some sv, pi_title = Some t, pi_year = Some (nat y), pi_show = None,
     pi_season = None, pi_episode = None\<rparr>"
proof -
  let ?y = "str_nat (nat y)"
  let ?r = "'' ('' @ ?y @ '')''"
  have t: "t \<noteq> []" "\<not> is_space (hd t)" "\<not> is_space (last t)" "newline_free t" using assms(6) by (simp_all add: tidy_def)
  have len: "length ?y = 4"
  proof -
    have "length ?y \<le> 4" using str_nat_length [of "nat y" 3] assms(10) by simp
    moreover have "length (str_nat n) \<ge> Suc k" if "10 ^ k \<le> n" for n k using that
    proof (induction k arbitrary: n)
      case 0
      then show ?case using str_nat_nonempty [of n] by (simp add: Suc_leI)
    next
      case (Suc k)
      have "(10::nat) \<le> 10 ^ Suc k" by simp
      then have "\<not> n < 10" using Suc.prems le_trans not_le by blast
      moreover have "10 ^ k \<le> n div 10" using Suc.prems by (simp add: less_eq_div_iff_mult_less_eq)
      moreover note Suc.IH [of "n div 10"]
      ultimately show ?case by (subst str_nat.simps) simp
    qed
    from this [of 3 "nat y"] have "4 \<le> length ?y" using assms(9) by simp
    ultimately show ?thesis by simp
  qed
  have ds: "drop_slashes (t @ ?r) = t @ ?r" using t assms(7) by (cases t) (simp_all add: drop_slashes_def)
  have synth: "synth_source_path env item = Inr (''tracearr://'' @ sv @ ''/'' @ ''movie'' @ ''/'' @ (t @ ?r))"
    using assms t ds by (simp add: synth_source_path_def Tracearr.str_or_def py_str_def tidy_strip str_int_def)
  have strip: "py_strip (t @ ?r) = t @ ?r" using t by (intro strip_id) (auto simp: is_space_def)
  have movie: "movie_leaf (t @ ?r) = Some (t, nat y)"
  proof -
    have n: "length (t @ ?r) - 6 = Suc (length t)" using len by simp
    have head: "take (Suc (length t)) (t @ ?r) = t @ '' ''" "drop (Suc (length t)) (t @ ?r) = ''('' @ ?y @ '')''" by simp_all
    have "take 4 (drop 1 (''('' @ ?y @ '')'')) = ?y" using len by simp
    moreover have "rev (dropWhile is_space (rev (t @ '' ''))) = t" using t by (cases "rev t") (auto simp: last_rev [symmetric])
    ultimately show ?thesis unfolding movie_leaf_def Let_def n head
      using t len str_nat_digits [of "nat y"] by simp
  qed
  have "parse_tracearr_pseudo_path (''tracearr://'' @ sv @ ''/'' @ ''movie'' @ ''/'' @ (t @ ?r)) = Some (movie_identity sv (t @ ?r))"
    using split_twice_of [OF assms(3), of "''movie''" "t @ ?r"] t(1) strip
    by (simp add: parse_tracearr_pseudo_path_def TRACEARR_PREFIX_def Let_def)
  moreover have "movie_identity sv (t @ ?r) = \<lparr>pi_media_type = ''movie'', pi_server_id = Some sv, pi_title = Some t, pi_year = Some (nat y),
     pi_show = None, pi_season = None, pi_episode = None\<rparr>"
    unfolding movie_identity_def movie using assms(2,6) t(1) by (simp add: bare_identity_def or_none_def tidy_strip)
  ultimately show ?thesis using synth by simp
qed

section \<open>What a run may change\<close>

text \<open>A row and its object: at most its file and its pair differ, only on a Tracearr event, and only from no file to
  a media file.\<close>

definition bound_ok :: "poll_db \<Rightarrow> tracked \<Rightarrow> bool" where
  "bound_ok db r = (let (b, c) = r in
     c = b\<lparr>pe_media_file_id := pe_media_file_id c, pe_reconciled_with_session_id := pe_reconciled_with_session_id c\<rparr>
     \<and> (c \<noteq> b \<longrightarrow> is_tracearr db b)
     \<and> (pe_media_file_id c \<noteq> pe_media_file_id b \<longrightarrow> pe_media_file_id b = None
         \<and> (\<exists>f\<in>set (st_media (pd_store db)). mf_category f = ''media'' \<and> pe_media_file_id c = Some (mf_id f)))
     \<and> (pe_reconciled_with_session_id c \<noteq> pe_reconciled_with_session_id b \<longrightarrow> pe_reconciled_with_session_id b = None))"

lemma map_filter_mem: "x \<in> set (List.map_filter f xs) \<longleftrightarrow> (\<exists>y\<in>set xs. f y = Some x)"
  by (force simp: List.map_filter_def)

lemma source_media:
  assumes "s \<in> set (play_sources db since)"
  shows "\<exists>f\<in>set (st_media (pd_store db)). mf_category f = ''media'' \<and> src_media s = mf_id f"
proof -
  have "\<exists>f\<in>set (st_media (pd_store db)). mf_category f = ''media'' \<and> src_media s = mf_id f"
    if "play_source_of db since i iid t m d = Some s" for i iid t m d
    using that table_find_SomeD [of mf_id _ "st_media (pd_store db)"]
    by (fastforce simp: play_source_of_def split: option.splits if_splits)
  then show ?thesis using assms by (auto simp: play_sources_def map_filter_mem split: if_splits)
qed

definition all_ok :: "poll_db \<Rightarrow> tracked list \<Rightarrow> bool" where
  "all_ok db rows = (\<forall>r\<in>set rows. bound_ok db r)"

lemma shadow_row_ok:
  assumes "s \<in> set (play_sources db since)" "bound_ok db r" "shadow_row env db s r = Some q"
  shows "bound_ok db q \<and> fst q = fst r"
proof -
  obtain b c where r: "r = (b, c)" by (cases r)
  obtain f where f: "f \<in> set (st_media (pd_store db))" "mf_category f = ''media''" "src_media s = mf_id f" using source_media [OF assms(1)] by blast
  from assms(3) have o: "is_tracearr db b" "pe_reconciled_with_session_id b = None"
    by (auto simp: r shadow_row_def open_in_window_def split: if_splits)
  consider "q = (b, c\<lparr>pe_reconciled_with_session_id := Some (src_id s)\<rparr>)"
    | "pe_media_file_id b = None" "q = (b, c\<lparr>pe_media_file_id := Some (src_media s), pe_reconciled_with_session_id := Some (src_id s)\<rparr>)"
    using assms(3) by (auto simp: r shadow_row_def split: if_splits)
  then show ?thesis
  proof cases
    case 1
    then show ?thesis using assms(2) o unfolding r bound_ok_def Let_def by (cases b; cases c) auto
  next
    case 2
    then show ?thesis using assms(2) o f unfolding r bound_ok_def Let_def by (cases b; cases c) auto
  qed
qed

lemma shadow_step_ok:
  assumes "s \<in> set (play_sources db since)" "all_ok db (snd a)"
  shows "(all_ok db (snd (shadow_step env db s a))) \<and> map fst (snd (shadow_step env db s a)) = map fst (snd a)"
proof -
  have "bound_ok db (case shadow_row env db s r of None \<Rightarrow> r | Some q \<Rightarrow> q) \<and> fst (case shadow_row env db s r of None \<Rightarrow> r | Some q \<Rightarrow> q) = fst r"
    if "r \<in> set (snd a)" for r
  proof (cases "shadow_row env db s r")
    case None
    then show ?thesis using that assms(2) by (simp add: all_ok_def)
  next
    case (Some q)
    have "bound_ok db r" using that assms(2) by (simp add: all_ok_def)
    from shadow_row_ok [OF assms(1) this Some] Some show ?thesis by simp
  qed
  then show ?thesis by (simp add: shadow_step_def all_ok_def)
qed

lemma shadow_fold_ok:
  assumes "set ss \<subseteq> set (play_sources db since)" "all_ok db (snd a)"
  shows "(all_ok db (snd (fold (shadow_step env db) ss a))) \<and> map fst (snd (fold (shadow_step env db) ss a)) = map fst (snd a)"
  using assms
proof (induction ss arbitrary: a)
  case (Cons s ss)
  then have "(all_ok db (snd (shadow_step env db s a))) \<and> map fst (snd (shadow_step env db s a)) = map fst (snd a)"
    by (intro shadow_step_ok) auto
  with Cons show ?case by simp
qed simp

lemma shadow_ok:
  "(all_ok db (snd (shadow_tracearr env db since))) \<and> map fst (snd (shadow_tracearr env db since)) = pd_events db"
  using shadow_fold_ok [of "play_sources db since" db since "(0, map (\<lambda>e. (e, e)) (pd_events db))" env]
  by (simp add: shadow_tracearr_def bound_ok_def all_ok_def o_def)

lemma best_match_mem: "fst (best_match sc best fs) = fst best \<or> (\<exists>f\<in>set fs. fst (best_match sc best fs) = Some (mf_id f))"
  by (induction fs arbitrary: best) (fastforce split: if_splits)+

lemma title_match_media:
  assumes "title_match env db e = Some m"
  shows "\<exists>f\<in>set (st_media (pd_store db)). mf_category f = ''media'' \<and> m = mf_id f"
proof -
  obtain p where p: "try_title_heuristic env (st_media (pd_store db)) p = Some m"
    using assms by (auto simp: title_match_def split: option.splits if_splits)
  define found where "found = take 200 (filter (\<lambda>f. list_ex (\<lambda>q. ilike (rc_dialect env) q (mf_filename f)) (build_ilike_patterns p)
    \<and> mf_category f = ''media'') (st_media (pd_store db)))"
  have "fst (best_match (score_filename env p) (None, 0) found) = Some m"
    using p by (auto simp: try_title_heuristic_def Let_def found_def split: prod.splits if_splits)
  then obtain f where "f \<in> set found" "m = mf_id f" using best_match_mem [of "score_filename env p" "(None, 0)" found] by auto
  moreover from this(1) have "f \<in> set (st_media (pd_store db)) \<and> mf_category f = ''media''"
    unfolding found_def by (drule_tac in_set_takeD) simp
  ultimately show ?thesis by blast
qed

lemma bound_ok_bind:
  assumes "bound_ok db (e, d)" "is_tracearr db e" "pe_media_file_id e = None"
    and "\<exists>f\<in>set (st_media (pd_store db)). mf_category f = ''media'' \<and> m = mf_id f"
  shows "bound_ok db (e, d\<lparr>pe_media_file_id := Some m\<rparr>)"
proof -
  have "d\<lparr>pe_media_file_id := Some m\<rparr> = e\<lparr>pe_media_file_id := Some m, pe_reconciled_with_session_id := pe_reconciled_with_session_id d\<rparr>"
  proof -
    have "d = e\<lparr>pe_media_file_id := pe_media_file_id d, pe_reconciled_with_session_id := pe_reconciled_with_session_id d\<rparr>"
      using assms(1) by (simp add: bound_ok_def)
    from arg_cong [OF this, of "pe_media_file_id_update (\<lambda>_. Some m)"] show ?thesis by simp
  qed
  moreover have "pe_reconciled_with_session_id d \<noteq> pe_reconciled_with_session_id e \<longrightarrow> pe_reconciled_with_session_id e = None"
    using assms(1) unfolding bound_ok_def by simp
  ultimately show ?thesis using assms(2-4) unfolding bound_ok_def by simp
qed

lemma bind_media_ok:
  assumes "unique_keys se_id (map fst rows)" "(e, c) \<in> set rows" "unresolved db since e"
    and "\<exists>f\<in>set (st_media (pd_store db)). mf_category f = ''media'' \<and> m = mf_id f" "all_ok db rows"
  shows "(all_ok db (bind_media (se_id e) m rows)) \<and> map fst (bind_media (se_id e) m rows) = map fst rows"
proof -
  have "b = e" if "(b, d) \<in> set rows" "se_id b = se_id e" for b d
  proof -
    have "b \<in> set (map fst rows)" "e \<in> set (map fst rows)" using that(1) assms(2) by force+
    moreover have "inj_on se_id (set (map fst rows))" using assms(1) distinct_map [of se_id "map fst rows"] unfolding unique_keys_def by blast
    ultimately show ?thesis using that(2) by (metis inj_onD)
  qed
  then have "bound_ok db (b, d\<lparr>pe_media_file_id := Some m\<rparr>)" if "(b, d) \<in> set rows" "se_id b = se_id e" for b d
  proof -
    have "b = e" "bound_ok db (b, d)" using that \<open>\<And>b d. (b, d) \<in> set rows \<Longrightarrow> se_id b = se_id e \<Longrightarrow> b = e\<close> assms(5)
      by (auto simp: all_ok_def)
    then show ?thesis using assms(3,4) bound_ok_bind [of db b d m] by (simp add: unresolved_def)
  qed
  then show ?thesis using assms(5) by (auto simp: bind_media_def all_ok_def case_prod_beta split: if_splits)
qed

lemma match_rows_ok:
  assumes "unique_keys se_id (pd_events db)" "set es \<subseteq> set (filter (unresolved db since) (pd_events db))"
    and "all_ok db (snd a)" "map fst (snd a) = pd_events db"
  shows "(all_ok db (snd (match_rows env db k es a))) \<and> map fst (snd (match_rows env db k es a)) = pd_events db"
  using assms(2-)
proof (induction es arbitrary: a k)
  case (Cons e es)
  show ?case
  proof (cases "rc_time_up env k")
    case False
    show ?thesis
    proof (cases "title_match env db e")
      case None
      then show ?thesis using Cons False by simp
    next
      case (Some m)
      have e: "e \<in> set (map fst (snd a))" "unresolved db since e" using Cons.prems(1,3) by auto
      then obtain c where c: "(e, c) \<in> set (snd a)" by auto
      from bind_media_ok [OF _ c e(2) title_match_media [OF Some] Cons.prems(2)] assms(1) Cons.prems(3)
      show ?thesis using Cons.IH Cons.prems(1) False Some by simp
    qed
  qed (use Cons.prems in simp)
qed simp

lemma batch_subset: "set (batch db since) \<subseteq> set (filter (unresolved db since) (pd_events db))"
  by (auto simp: batch_def dest: in_set_takeD)

text \<open>C39. A run only binds what is open: every row that is not a Tracearr event stays as it is; on a Tracearr event at
  most the file and the pair change, a file that was known is kept, a new one is an indexed media file, and a
  pair that was set is kept.\<close>

theorem reconcile_binds_open:
  assumes "unique_keys se_id (pd_events db)"
  shows "list_all2 (\<lambda>b c. bound_ok db (b, c)) (pd_events db) (pd_events (snd (reconcile_tracearr env db)))"
proof -
  have refl: "list_all2 (\<lambda>b c. bound_ok db (b, c)) es es" for es by (rule list_all2_refl) (simp add: bound_ok_def)
  define start where "start = rc_now env - days RECONCILE_WINDOW_DAYS"
  show ?thesis
  proof (cases "batch db start = []")
    case True
    then show ?thesis using refl by (simp add: reconcile_tracearr_def start_def [symmetric] Let_def case_prod_beta)
  next
    case False
    obtain out where "pd_events (snd (reconcile_tracearr env db))
        = map snd (snd (match_rows env db 0 (batch db start) (out, snd (shadow_tracearr env db start))))"
      using False by (auto simp: reconcile_tracearr_def start_def [symmetric] Let_def case_prod_beta)
    moreover define rows where "rows = snd (match_rows env db 0 (batch db start) (out, snd (shadow_tracearr env db start)))"
    have rows: "all_ok db rows" "map fst rows = pd_events db"
      using match_rows_ok [OF assms batch_subset [of db start], of "(out, snd (shadow_tracearr env db start))" env 0] shadow_ok [of db env start]
      by (simp_all add: rows_def)
    have "list_all2 (\<lambda>b c. bound_ok db (b, c)) (map fst rows) (map snd rows)"
      using rows(1) by (simp add: list_all2_conv_all_nth all_ok_def)
    ultimately show ?thesis using rows(2) by (simp add: rows_def)
  qed
qed

section \<open>Where a run falls short\<close>

lemma shadow_counts:
  assumes "s \<in> set ss" "b \<in> fst ` set (snd a)" "open_in_window db s b" "pe_media_file_id b = Some (src_media s)"
  shows "fst a < fst (fold (shadow_step env db) ss a)"
proof -
  have mono: "fst x \<le> fst (fold (shadow_step env db) us x)" for us x
  proof (induction us arbitrary: x)
    case (Cons u us)
    have "fst x \<le> fst (shadow_step env db u x)" by (simp add: shadow_step_def)
    also have "\<dots> \<le> fst (fold (shadow_step env db) us (shadow_step env db u x))" by (rule Cons.IH)
    finally show ?case by simp
  qed simp
  have keys: "fst ` set (snd (shadow_step env db u x)) = fst ` set (snd x)" for u x
  proof -
    have "fst (case shadow_row env db u r of None \<Rightarrow> r | Some q \<Rightarrow> q) = fst r" for r
      by (auto simp: shadow_row_def case_prod_beta split: option.split if_splits)
    then show ?thesis by (simp add: shadow_step_def image_image)
  qed
  show ?thesis using assms(1,2)
  proof (induction ss arbitrary: a)
    case (Cons u us)
    show ?case
    proof (cases "u = s")
      case True
      obtain c where "(b, c) \<in> set (snd a)" using Cons.prems(2) by auto
      moreover have "shadow_row env db s (b, c) \<noteq> None" using assms(3,4) by (simp add: shadow_row_def)
      ultimately have "filter (\<lambda>r. shadow_row env db s r \<noteq> None) (snd a) \<noteq> []" by (auto simp: filter_empty_conv)
      then have "fst a < fst (shadow_step env db s a)" by (simp add: shadow_step_def)
      then show ?thesis using True mono [of "shadow_step env db s a" us] by simp
    next
      case False
      have "fst a \<le> fst (shadow_step env db u a)" by (simp add: shadow_step_def)
      moreover have "fst (shadow_step env db u a) < fst (fold (shadow_step env db) us (shadow_step env db u a))"
        using Cons False keys by simp
      ultimately show ?thesis by simp
    qed
  qed simp
qed

text \<open>Pairs are lost: when no Tracearr event lacks its file, a run that pairs an event with a play another source saw
  reports the pair and writes nothing.\<close>

theorem pairs_not_written:
  assumes "\<forall>e\<in>set (pd_events db). \<not> unresolved db (rc_now env - days RECONCILE_WINDOW_DAYS) e"
    and "s \<in> set (play_sources db (rc_now env - days RECONCILE_WINDOW_DAYS))" and "b \<in> set (pd_events db)"
    and "open_in_window db s b" "pe_media_file_id b = Some (src_media s)"
  shows "0 < ro_matched_cross_source (fst (reconcile_tracearr env db)) \<and> snd (reconcile_tracearr env db) = db"
proof -
  have "batch db (rc_now env - days RECONCILE_WINDOW_DAYS) = []" using assms(1) by (simp add: batch_def filter_empty_conv)
  moreover have "0 < fst (shadow_tracearr env db (rc_now env - days RECONCILE_WINDOW_DAYS))"
    using shadow_counts [OF assms(2) _ assms(4,5), of "(0, map (\<lambda>e. (e, e)) (pd_events db))" env] assms(3)
    by (force simp: shadow_tracearr_def)
  ultimately show ?thesis by (simp add: reconcile_tracearr_def Let_def case_prod_beta)
qed

text \<open>The backlog blocks itself: while nothing pairs and the newest unresolved events of a batch cannot be matched, runs
  change nothing, so an older event that could be matched is never reached.\<close>

theorem backlog_starves:
  assumes "\<forall>v\<in>set envs. play_sources db (rc_now v - days RECONCILE_WINDOW_DAYS) = []
      \<and> (\<forall>e\<in>set (batch db (rc_now v - days RECONCILE_WINDOW_DAYS)). title_match v db e = None)"
    and "b \<in> set (pd_events db)" and "pe_media_file_id b = None"
  shows "b \<in> set (pd_events (fold (\<lambda>v d. snd (reconcile_tracearr v d)) envs db)) \<and> fold (\<lambda>v d. snd (reconcile_tracearr v d)) envs db = db"
proof -
  have still: "snd (match_rows v db k es a) = snd a" if "\<forall>e\<in>set es. title_match v db e = None" for v k es a
    using that by (induction es arbitrary: k a) simp_all
  have one: "snd (reconcile_tracearr v db) = db" if "v \<in> set envs" for v
  proof -
    let ?b = "batch db (rc_now v - days RECONCILE_WINDOW_DAYS)"
    have "snd (match_rows v db 0 ?b a) = snd a" for a using still [of ?b v 0 a] that assms(1) by blast
    moreover have "snd (shadow_tracearr v db (rc_now v - days RECONCILE_WINDOW_DAYS)) = map (\<lambda>e. (e, e)) (pd_events db)"
      using that assms(1) by (simp add: shadow_tracearr_def)
    ultimately show ?thesis by (simp add: reconcile_tracearr_def Let_def case_prod_beta o_def)
  qed
  have "fold (\<lambda>v d. snd (reconcile_tracearr v d)) us db = db" if "set us \<subseteq> set envs" for us
    using that one by (induction us) simp_all
  then show ?thesis using assms(2) by simp
qed

lemma bind_media_mem: "(b, c) \<in> set rows \<Longrightarrow> (b, if se_id b = i then c\<lparr>pe_media_file_id := Some m\<rparr> else c) \<in> set (bind_media i m rows)"
  by (force simp: bind_media_def)

lemma match_rows_other:
  assumes "(b, c) \<in> set (snd a)" "se_id b \<notin> se_id ` set es"
  shows "(b, c) \<in> set (snd (match_rows env db k es a))"
  using assms
proof (induction es arbitrary: a k)
  case (Cons e es)
  have "(b, c) \<in> set (bind_media (se_id e) m (snd a))" for m using bind_media_mem [OF Cons.prems(1), of "se_id e" m] Cons.prems(2) by auto
  then show ?case using Cons by (auto split: option.split)
qed simp

text \<open>C40. The weaker match wins: an event that was just paired by title with another source's play is matched again
  against file names, because the pair is not yet in the database, and the result replaces the file while the
  pair stays.\<close>

theorem title_match_overrides_pair:
  assumes "unique_keys se_id (pd_events db)" and "\<forall>k. \<not> rc_time_up env k" and "e \<in> set (batch db (rc_now env - days RECONCILE_WINDOW_DAYS))"
    and "(e, c) \<in> set (snd (shadow_tracearr env db (rc_now env - days RECONCILE_WINDOW_DAYS)))"
    and "title_match env db e = Some m" and "pe_media_file_id c = Some m'" "m' \<noteq> m"
  shows "c\<lparr>pe_media_file_id := Some m\<rparr> \<in> set (pd_events (snd (reconcile_tracearr env db)))"
proof -
  let ?since = "rc_now env - days RECONCILE_WINDOW_DAYS"
  have inj: "inj_on se_id (set (batch db ?since))" "distinct (batch db ?since)"
  proof -
    have u: "distinct (map se_id (pd_events db))" using assms(1) by (simp add: unique_keys_def)
    then show "inj_on se_id (set (batch db ?since))" using batch_subset [of db ?since] by (auto simp: distinct_map intro: inj_on_subset)
    show "distinct (batch db ?since)" using u by (auto simp: batch_def distinct_map distinct_take)
  qed
  have step: "(e, c\<lparr>pe_media_file_id := Some m\<rparr>) \<in> set (snd (match_rows env db k es a))"
    if "e \<in> set es" "distinct (map se_id es)" "(e, c) \<in> set (snd a)" for k es a
    using that
  proof (induction es arbitrary: k a)
    case (Cons x es)
    show ?case
    proof (cases "x = e")
      case True
      then have "se_id e \<notin> se_id ` set es" using Cons.prems(2) by simp
      moreover have "(e, c\<lparr>pe_media_file_id := Some m\<rparr>) \<in> set (bind_media (se_id e) m (snd a))"
        using bind_media_mem [OF Cons.prems(3), of "se_id e" m] by simp
      ultimately show ?thesis using True assms(2,5) by (simp add: match_rows_other)
    next
      case False
      then have "e \<in> set es" "se_id x \<noteq> se_id e" using Cons.prems(1,2) by auto
      moreover have "(e, c) \<in> set (bind_media (se_id x) n (snd a))" for n
        using bind_media_mem [OF Cons.prems(3), of "se_id x" n] \<open>se_id x \<noteq> se_id e\<close> by simp
      ultimately show ?thesis using Cons assms(2) by (simp split: option.split)
    qed
  qed simp
  have d: "distinct (map se_id (batch db ?since))" using inj by (simp add: distinct_map)
  have "batch db ?since \<noteq> []" using assms(3) by auto
  then obtain out where "pd_events (snd (reconcile_tracearr env db)) = map snd (snd (match_rows env db 0 (batch db ?since) (out, snd (shadow_tracearr env db ?since))))"
    by (auto simp: reconcile_tracearr_def Let_def case_prod_beta)
  moreover have "(e, c\<lparr>pe_media_file_id := Some m\<rparr>) \<in> set (snd (match_rows env db 0 (batch db ?since) (out, snd (shadow_tracearr env db ?since))))"
    by (rule step) (use assms(3,4) d in simp_all)
  ultimately show ?thesis by force
qed

section \<open>One bad row\<close>

text \<open>One malformed row blocks the whole history: where the first page has a row whose season is no number, the
  fetch fails, so the poll stores none of the other rows and leaves the cursor where it was.\<close>

theorem bad_row_blocks_poll:
  assumes "te_page env 1 100 (map_option (te_date env) since) = Page (PyDict [(''data'', PyList (before @ PyDict item # after))])"
    and "\<forall>x\<in>set before. is_ok (map_tracearr_event env x)" and "dict_get (icf_options config) ''page_size'' = PyNone"
    and "parse_iso8601 env (dict_get item ''startedAt'') \<noteq> None" "py_truthy (dict_get item ''id'')" "dict_get item ''durationMs'' = PyNone"
    and "decision_from item = Inr decision"
    and "dict_get item ''mediaType'' = PyStr ''episode''" "py_truthy (dict_get item ''showTitle'')"
    and "dict_get item ''seasonNumber'' = PyStr w" "te_int env (PyStr w) = None" "dict_get item ''episodeNumber'' = PyInt n"
  shows "tracearr_fetch env config since = FetchFailed ValueError"
proof -
  have s: "synth_source_path env item = Inl ValueError"
    using assms by (simp add: synth_source_path_def Tracearr.str_or_def py_str_def episode_suffix_def py_int_def bind_r_def)
  have bad: "map_tracearr_event env (PyDict item) = Inl ValueError"
    using assms s by (auto simp: map_tracearr_event_def duration_seconds_def Let_def bind_r_def split: option.split)
  have "map_r (map_tracearr_event env) (before @ PyDict item # after) = Inl ValueError"
    using assms(2)
  proof (induction before)
    case Nil
    then show ?case using bad by simp
  next
    case (Cons x xs)
    then show ?case by (auto simp: is_ok_iff)
  qed
  then have "read_page env 1 100 (PyDict [(''data'', PyList (before @ PyDict item # after))]) = Inl ValueError"
    by (simp add: read_page_def each_of_def dict_get_def)
  moreover have "page_size env config = Inr 100" using assms(3) by (simp add: page_size_def py_or_def py_int_def PAGE_SIZE_DEFAULT_def PAGE_SIZE_MAX_def)
  moreover have cap: "PAGE_ITER_CAP = Suc 49" by (simp add: PAGE_ITER_CAP_def)
  ultimately show ?thesis using assms(1) unfolding tracearr_fetch_def cap fetch_pages.simps by simp
qed

section \<open>Concrete runs\<close>

definition sample_tracearr_env :: "pyval \<Rightarrow> tracearr_env" where
  "sample_tracearr_env v = \<lparr>te_page = (\<lambda>_ _ _. Page v), te_health = (\<lambda>_. NoAnswer ''refused''), te_str = (\<lambda>_. ''value''), te_int = (\<lambda>_. None),
     te_iso = (\<lambda>_. Some 0), te_date = (\<lambda>_. ''2024-01-01'')\<rparr>"

definition sample_episode :: "(string \<times> pyval) list" where
  "sample_episode = [(''id'', PyStr ''9''), (''serverId'', PyStr ''plex''), (''mediaType'', PyStr ''episode''), (''mediaTitle'', PyStr ''Pilot''),
     (''showTitle'', PyStr ''The Wire''), (''seasonNumber'', PyInt 1), (''episodeNumber'', PyInt 2)]"

definition sample_movie :: "(string \<times> pyval) list" where
  "sample_movie = [(''id'', PyStr ''9''), (''serverId'', PyStr ''plex''), (''mediaType'', PyStr ''movie''), (''mediaTitle'', PyStr ''Heat''),
     (''year'', PyInt 1995)]"

theorem episode_path_roundtrip_witness:
  "\<exists>path. synth_source_path (sample_tracearr_env PyNone) sample_episode = Inr path \<and> map_option pi_season (parse_tracearr_pseudo_path path) = Some (Some 1)"
  using episode_path_roundtrip [of sample_episode "''plex''" "''Pilot''" "''The Wire''" 1 2 "sample_tracearr_env PyNone"]
  by (auto simp: sample_episode_def dict_get_def tidy_def is_space_def newline_free_def)

theorem movie_path_roundtrip_witness:
  "\<exists>path. synth_source_path (sample_tracearr_env PyNone) sample_movie = Inr path \<and> map_option pi_year (parse_tracearr_pseudo_path path) = Some (Some 1995)"
  using movie_path_roundtrip [of sample_movie "''plex''" "''Heat''" 1995 "sample_tracearr_env PyNone"]
  by (auto simp: sample_movie_def dict_get_def tidy_def is_space_def newline_free_def)

definition named_file :: "string \<Rightarrow> string \<Rightarrow> media_file" where
  "named_file i name = sample_media\<lparr>mf_id := i, mf_filename := name, mf_category := ''media''\<rparr>"

definition sample_event :: "string \<Rightarrow> string \<Rightarrow> string \<Rightarrow> string option \<Rightarrow> stored_event" where
  "sample_event i iid path media = \<lparr>pe_integration_id = iid, pe_media_file_id = media, pe_source_path = path, pe_device_kind = None,
     pe_device_name = None, pe_decision = ''transcode'', pe_reason_code = None, pe_source_codec = None, pe_source_bitrate_kbps = None,
     pe_source_width = None, pe_source_height = None, pe_source_container = None, pe_target_codec = None, pe_target_bitrate_kbps = None,
     pe_started_at = 0, pe_completed_at = None, pe_duration_s = None, pe_upstream_id = i, pe_reconciled_with_session_id = None, se_id = i\<rparr>"

definition sample_play_db :: "stored_event list \<Rightarrow> poll_db" where
  "sample_play_db es = \<lparr>pd_store = sample_integ_store\<lparr>st_integrations := [sample_integration ''p'' ''plex'', sample_integration ''t'' ''tracearr''],
       st_media := [named_file ''m1'' ''Up 1995.mkv'', named_file ''m2'' ''Up 1995 hd.mkv'']\<rparr>,
     pd_globals = [], pd_events = es, pd_sessions = [], pd_cursors = [], pd_devices = []\<rparr>"

definition sample_reconcile_env :: reconcile_env where
  "sample_reconcile_env = \<lparr>rc_now = 0, rc_time_up = (\<lambda>_. False), rc_dialect = Sqlite, rc_ratio = (\<lambda>_ _. 0)\<rparr>"

definition plex_play :: stored_event where
  "plex_play = sample_event ''e1'' ''p'' ''/m/Up 1995 hd.mkv'' (Some ''m2'')"

definition tracearr_play :: "string option \<Rightarrow> stored_event" where
  "tracearr_play media = sample_event ''e2'' ''t'' ''tracearr://s/movie/Up (1995)'' media"

theorem reconcile_binds_open_witness:
  "pe_media_file_id (pd_events (snd (reconcile_tracearr sample_reconcile_env (sample_play_db [plex_play, tracearr_play None]))) ! 0) = Some ''m2''"
proof -
  let ?db = "sample_play_db [plex_play, tracearr_play None]" and ?out = "pd_events (snd (reconcile_tracearr sample_reconcile_env (sample_play_db [plex_play, tracearr_play None])))"
  have e: "pd_events ?db = [plex_play, tracearr_play None]" and "unique_keys se_id (pd_events ?db)" by (simp add: sample_play_db_def) code_simp
  from reconcile_binds_open [OF this(2), of sample_reconcile_env] have "bound_ok ?db (plex_play, ?out ! 0)" unfolding e by (cases ?out) auto
  moreover have "pe_media_file_id plex_play = Some ''m2''" by code_simp
  ultimately show ?thesis by (auto simp: bound_ok_def)
qed

theorem pairs_not_written_witness:
  "snd (reconcile_tracearr sample_reconcile_env (sample_play_db [plex_play, tracearr_play (Some ''m2'')])) = sample_play_db [plex_play, tracearr_play (Some ''m2'')]"
proof -
  let ?db = "sample_play_db [plex_play, tracearr_play (Some ''m2'')]"
  let ?since = "rc_now sample_reconcile_env - days RECONCILE_WINDOW_DAYS"
  have src: "map src_media (play_sources ?db ?since) = [''m2'']" "list_all (\<lambda>s. open_in_window ?db s (tracearr_play (Some ''m2''))) (play_sources ?db ?since)" by code_simp+
  then obtain s where s: "play_sources ?db ?since = [s]" "src_media s = ''m2''" by (auto simp: map_eq_Cons_conv)
  have "list_all (\<lambda>e. \<not> unresolved ?db ?since e) (pd_events ?db)" by code_simp
  then have "\<forall>e\<in>set (pd_events ?db). \<not> unresolved ?db ?since e" by (simp only: list_all_iff)
  moreover have "s \<in> set (play_sources ?db ?since)" "open_in_window ?db s (tracearr_play (Some ''m2''))" using s src(2) by simp_all
  moreover have "tracearr_play (Some ''m2'') \<in> set (pd_events ?db)" by (simp add: sample_play_db_def)
  moreover have "pe_media_file_id (tracearr_play (Some ''m2'')) = Some (src_media s)" unfolding s(2) by code_simp
  ultimately show ?thesis by (blast dest: pairs_not_written)
qed

theorem backlog_starves_witness:
  "fold (\<lambda>v d. snd (reconcile_tracearr v d)) (replicate 3 sample_reconcile_env) (sample_play_db [sample_event ''e2'' ''t'' ''tracearr://s/movie/Unseen'' None])
     = sample_play_db [sample_event ''e2'' ''t'' ''tracearr://s/movie/Unseen'' None]"
proof -
  let ?e = "sample_event ''e2'' ''t'' ''tracearr://s/movie/Unseen'' None"
  let ?db = "sample_play_db [?e]" and ?since = "rc_now sample_reconcile_env - days RECONCILE_WINDOW_DAYS"
  have "play_sources ?db ?since = []" "list_all (\<lambda>e. title_match sample_reconcile_env ?db e = None) (batch ?db ?since)" "pe_media_file_id ?e = None" by code_simp+
  then show ?thesis using backlog_starves [of "replicate 3 sample_reconcile_env" ?db ?e] by (auto simp: list_all_iff sample_play_db_def)
qed

theorem title_match_overrides_pair_witness:
  "map pe_media_file_id (pd_events (snd (reconcile_tracearr sample_reconcile_env (sample_play_db [tracearr_play None, plex_play])))) \<noteq> [Some ''m2'', Some ''m2'']"
proof -
  let ?db = "sample_play_db [tracearr_play None, plex_play]" and ?since = "rc_now sample_reconcile_env - days RECONCILE_WINDOW_DAYS"
  let ?c = "(tracearr_play None)\<lparr>pe_media_file_id := Some ''m2'', pe_reconciled_with_session_id := Some ''e1''\<rparr>"
  have "unique_keys se_id (pd_events ?db)" "title_match sample_reconcile_env ?db (tracearr_play None) = Some ''m1''"
    "map se_id (batch ?db ?since) = [''e2'']" "map src_id (play_sources ?db ?since) = [''e1'']" by code_simp+
  moreover have "map fst (snd (shadow_tracearr sample_reconcile_env ?db ?since)) = [tracearr_play None, plex_play]"
    "map snd (snd (shadow_tracearr sample_reconcile_env ?db ?since)) = [?c, plex_play]" by code_simp+
  then have "(tracearr_play None, ?c) \<in> set (snd (shadow_tracearr sample_reconcile_env ?db ?since))"
    by (auto simp: map_eq_Cons_conv)
  moreover have "tracearr_play None \<in> set (batch ?db ?since)" by code_simp
  moreover have "map pe_reconciled_with_session_id (pd_events ?db) = [None, None]" by code_simp
  ultimately show ?thesis using title_match_overrides_pair [of ?db sample_reconcile_env "tracearr_play None" ?c "''m1''" "''m2''"]
    by (auto simp: sample_reconcile_env_def)
qed

definition sample_bad_row :: "(string \<times> pyval) list" where
  "sample_bad_row = [(''id'', PyStr ''9''), (''startedAt'', PyStr ''2024''), (''mediaType'', PyStr ''episode''), (''showTitle'', PyStr ''w''),
     (''seasonNumber'', PyStr ''one''), (''episodeNumber'', PyInt 1)]"

theorem bad_row_blocks_poll_witness:
  "tracearr_fetch (sample_tracearr_env (PyDict [(''data'', PyList [PyDict sample_bad_row, PyDict sample_movie])]))
     \<lparr>icf_integration_id = ''t'', icf_name = ''t'', icf_kind = ''tracearr'', icf_options = [], icf_secrets = []\<rparr> None = FetchFailed ValueError"
  by (rule bad_row_blocks_poll [where before = "[]" and item = sample_bad_row and after = "[PyDict sample_movie]" and decision = "''direct_play''"
        and w = "''one''" and n = 1])
    (simp_all add: sample_tracearr_env_def sample_bad_row_def dict_get_def parse_iso8601_def decision_from_def lower_or_empty_def bind_r_def)

end
