(* ===== verification/Spec2Isabelle.thy ===== *)
theory Spec2Isabelle
  imports RuleGuarantees BuiltinRules PathMapping RateLimit Versioning Scheduler SessionManager QueueClaims
    AuthGuarantees ScanGuarantees VtGuarantees MediaDelete RuntimeSettings AnalyzerGuarantees RulesApiGuarantees
    WebhookGuarantees TagSync Housekeeping UpdaterGuarantees PollerGuarantees TracearrGuarantees
begin

text \<open>
  Auditarr audits media libraries.  A scanner walks the libraries and keeps one row per file; rules
  written in a small language are evaluated against these rows, and matches raise severities, tag files,
  queue transcodes, notify channels, ask upstream applications for a replacement or delete files; a
  worker drains the queue of transcodes; a scheduler starts the recurring jobs; players report their
  sessions; and all of it sits behind accounts with passwords and tokens.  The sources are under
  \<open>src/backend\<close>; paths below are relative to it.

  \<^bold>\<open>How the code is modelled.\<close>  Python objects and SQL rows are records, tagged unions are
  datatypes, exceptions are values of \<open>pyerr\<close> in a \<open>result\<close>, and every operation that
  touches the database takes the state and returns it updated.  A table is the list of its rows in
  insertion order (\<open>Tables\<close>).  Integers are unbounded as in Python, and the floats that matter are
  \<open>pyfloat\<close> with infinities and NaN written out.  Strings are their bytes.  What is not in the
  repository is an argument of the definitions that use it: regular expressions, HTTP clients of the
  integrations and notification providers, ffmpeg and ffprobe, the file system's answers, cryptographic
  primitives, clocks and fresh identifiers; the hypotheses on them are written in each statement.

  \<^bold>\<open>Theories.\<close>
  \<^item> \<open>Prelude\<close>, \<open>Tables\<close>, \<open>Store\<close>: Python values, strings and paths; keyed tables
    (locale \<open>keyed_table\<close>, \<open>replay_table\<close>) and the rows of \<open>app/models\<close>.
  \<^item> \<open>RuleSchema\<close>, \<open>LanguageNormalize\<close>, \<open>RuleEvaluator\<close>, \<open>Escalation\<close>,
    \<open>BuiltinRules\<close>: \<open>app/rules\<close>, the rule language with its validation, its semantics and
    the shipped rules.  \<open>Escalation\<close> is the locale of merging results by rank.
  \<^item> \<open>ProfileSchema\<close>, \<open>RulesService\<close>, \<open>RuleGuarantees\<close>: \<open>app/services/rules_service.py\<close>,
    the evaluation of a file with every effect it has on the tables.
  \<^item> \<open>Notifications\<close>, \<open>Secrets\<close>, \<open>Integrations\<close>: \<open>app/notifications/manager.py\<close>,
    \<open>app/security/secrets.py\<close>, \<open>app/integrations/manager.py\<close>.
  \<^item> \<open>FfmpegRunner\<close>, \<open>OptimizationWorker\<close>, \<open>OptimizationGuarantees\<close>,
    \<open>QueueClaims\<close>: \<open>app/optimization\<close> and the queue endpoints; the last one is the
    interleaving of several workers as a step relation.
  \<^item> \<open>Classifier\<close>, \<open>Scanner\<close>, \<open>ScanGuarantees\<close>: \<open>app/services/media\<close>, the scan
    endpoints, the worker job and the reaper.
  \<^item> \<open>Auth\<close>, \<open>AuthGuarantees\<close>, \<open>RateLimit\<close>: \<open>app/services/auth_service.py\<close>,
    \<open>app/auth\<close>, \<open>app/security\<close> and the authentication endpoints; sequences of requests as
    a reachability relation with the locale \<open>auth_order\<close>.
  \<^item> \<open>VirusTotal\<close>, \<open>VtGuarantees\<close>: \<open>plugins/virustotal/backend.py\<close> and its job; the
    quota windows are interpretations of the locale \<open>fixed_window\<close>.
  \<^item> \<open>MediaDelete\<close>: \<open>app/services/media_delete_service.py\<close> and its endpoints.
  \<^item> \<open>RuntimeSchema\<close>, \<open>RuntimeSettings\<close>: \<open>app/core/runtime_settings_schema.py\<close> and
    \<open>app/services/runtime_settings.py\<close>, settings that change while processes run.
  \<^item> \<open>RulesApi\<close>, \<open>RulesApiGuarantees\<close>: \<open>app/api/v1/rules.py\<close>, the requests on rules and
    suggestions, each in its transaction.
  \<^item> \<open>Analyzer\<close>, \<open>AnalyzerGuarantees\<close>: \<open>app/services/playback/analyzer.py\<close>, the heuristics
    that propose rules and the table of their proposals.
  \<^item> \<open>Cron\<close>, \<open>Scheduler\<close>: \<open>app/automation\<close>.
  \<^item> \<open>SessionManager\<close>, \<open>PathMapping\<close>: \<open>app/services/playback\<close>.
  \<^item> \<open>Versioning\<close>, \<open>Updater\<close>, \<open>UpdaterGuarantees\<close>: \<open>app/updater\<close>, the feed,
    the checks and the applies with the two files shared with the host, and the status file of its watcher.
  \<^item> \<open>SourceWhitelist\<close>, \<open>Webhooks\<close>, \<open>WebhookGuarantees\<close>:
    \<open>app/api/v1/webhooks.py\<close> and \<open>app/services/webhook_dispatcher.py\<close>; IPv4 addresses are
    32-bit words.
  \<^item> \<open>TagSync\<close>, \<open>Housekeeping\<close>: \<open>app/integrations/tag_sync.py\<close> and
    \<open>app/housekeeping/service.py\<close>.
  \<^item> \<open>Poller\<close>, \<open>PollerGuarantees\<close>: \<open>app/services/playback/poller.py\<close> and the worker's
    pass over the integrations; an integration object belongs to a session, and a commit writes the objects of its
    own.
  \<^item> \<open>Tracearr\<close>, \<open>TracearrReconciler\<close>, \<open>TracearrGuarantees\<close>:
    \<open>plugins/tracearr/backend.py\<close> and \<open>app/services/playback/tracearr_reconciler.py\<close>, which
    reads the paths the plugin makes up.

  \<^bold>\<open>What is shown.\<close>  For the rules, where their operands suit their fields: a run returns, the
  severity of a file is the maximum the matching rules ask for, the evaluation rows are those of the matching
  rules unless one of them deletes the file, the order of the rules does not matter, nothing is deleted but through an
  acknowledged action and to the trash, and a throttle bucket lets exactly its limit through.  For transcodes: a tick settles the item
  it claims, each operation of the queue makes only its own moves, no two workers hold one item under the
  interleavings the code protects, and the original bytes survive every failing system call where a
  backup is kept.  For scans: the media table after a scan is the reconciliation of the walk with the
  rows, the run row settles even where the scan raises, and a blocked library can be freed.  For accounts: refresh and reset
  tokens work once, a new password ends every session, and no request escalates a role.  For
  VirusTotal: each quota window lets at most its cap through and a drain settles each row of its batch
  once.  For the rule endpoints: no sequence of requests breaks the table
  of rules or touches a shipped rule, an import accounts for its entries, and export and import are a round
  trip.  For the analyzer: what it proposes is valid and only labels, and a run accounts for its proposals
  and respects the decisions taken on them.  For deletion: a bulk delete removes the requested rows and their files reach the trash
  unchanged.  For webhooks: nothing happens without a valid signature from an admitted source, and a CIDR
  entry admits exactly its prefix.  For tags: a sync makes its source equal to what upstream reports.  For
  updates: a wedged apply frees itself, and the event and the status agree.  For
  housekeeping: a run deletes exactly the expired rows and counts them.  For
  playback: a poll stores an event once, counts each device's plays and keeps its cursor a safety skew behind,
  the pass polls every integration whatever the others do, the pseudo-path of a play carries its identity, and
  the reconciler only binds open events to media files.
  For settings: a write reaches every process that reloads and limits hold throughout.  For secrets,
  schedules, notifications, path mappings, sessions and rate limits: round trips, first matching minute,
  one delivery per channel, one row per session, and the bound per window.  Where the code does not do
  what it documents, the statement says what it does (lost media without a backup, double runs by id,
  rows stuck by a scan of all libraries, unrecorded failed logins, racing refreshes, attempts spent on a
  full quota, trash overwritten by a file of the same name, settings that outlive their clearing,
  dismissals that never end, reprobes by webhook that raise, tags wiped by a second integration of the
  same kind, two updates open at once, rollbacks that are lost, a failed rules pass that escapes from the scan, health of a
  poll that is not written, plays stored twice, pairs that
  are lost or overridden, a backlog that blocks itself).

  \<^bold>\<open>Bounds.\<close>  \<open>Cron.SCAN_LIMIT\<close> is the code's own horizon of four years of minutes.  The
  claim loop of the optimization worker has the code's 16 attempts.  Every other loop is structural over
  the rows or lists it walks, so the definitions are total and no fuel is used.

  \<^bold>\<open>Not modelled.\<close>  The HTTP clients of third-party services and notification providers, the
  plugin loader, process wiring, logging and configuration are input and output around the modelled
  parts and enter as parameters.  Read-only aggregations of the dashboard are left out.  Concurrent sessions are modelled where the code claims
  atomicity (claims of the queue, refresh rotation), elsewhere an operation runs alone.
\<close>

end
